(* ===== verification/Prelude.thy ===== *)
theory Prelude
  imports Main "HOL-Library.Word"
begin

text \<open>
  Shared vocabulary of the development: fallible computations (\<open>Result\<close>, the \<open>?\<close>
  operator, \<open>for\<close> loops with an early return), checked machine arithmetic, lexical
  paths, the worklist traversal used by several components, and the two facts about
  finite relations that the topological sorts rest on.
\<close>

named_theorems result_simps \<open>unfolding the error plumbing of fallible operations\<close>
named_theorems shape_defs \<open>definitions of the classifiers of model values\<close>

section \<open>Fallible computations\<close>

text \<open>
  \<^verbatim>\<open>Result<T, E>\<close> is \<open>'e + 'a\<close> with \<open>Inl\<close> the error. The \<^verbatim>\<open>?\<close> operator is
  \<open>and_then\<close>; a \<^verbatim>\<open>for\<close> loop whose body may return early with an error is \<open>try_fold\<close>;
  \<^verbatim>\<open>Option::ok_or\<close> and \<^verbatim>\<open>Result::map_err\<close> keep their names.
\<close>

type_synonym ('e, 'a) result = "'e + 'a"

definition and_then :: "('e, 'a) result \<Rightarrow> ('a \<Rightarrow> ('e, 'b) result) \<Rightarrow> ('e, 'b) result" where
  "and_then r f = (case r of Inl e \<Rightarrow> Inl e | Inr x \<Rightarrow> f x)"

definition ok_or :: "'a option \<Rightarrow> 'e \<Rightarrow> ('e, 'a) result" where
  "ok_or opt e = (case opt of None \<Rightarrow> Inl e | Some x \<Rightarrow> Inr x)"

definition map_err :: "('e \<Rightarrow> 'f) \<Rightarrow> ('e, 'a) result \<Rightarrow> ('f, 'a) result" where
  "map_err f r = (case r of Inl e \<Rightarrow> Inl (f e) | Inr x \<Rightarrow> Inr x)"

definition require :: "bool \<Rightarrow> 'e \<Rightarrow> ('e, unit) result" where
  "require b e = (if b then Inr () else Inl e)"

fun try_fold :: "('s \<Rightarrow> 'a \<Rightarrow> ('e, 's) result) \<Rightarrow> 's \<Rightarrow> 'a list \<Rightarrow> ('e, 's) result" where
  "try_fold f s [] = Inr s"
| "try_fold f s (x # xs) = (case f s x of Inl e \<Rightarrow> Inl e | Inr s' \<Rightarrow> try_fold f s' xs)"

definition is_ok :: "('e, 'a) result \<Rightarrow> bool" where
  "is_ok r = (case r of Inl _ \<Rightarrow> False | Inr _ \<Rightarrow> True)"

lemma and_then_simps [simp, result_simps]:
  "and_then (Inl e) f = Inl e" "and_then (Inr x) f = f x"
  by (simp_all add: and_then_def)

lemma and_then_Inr_iff [result_simps]:
  "and_then r f = Inr y \<longleftrightarrow> (\<exists>x. r = Inr x \<and> f x = Inr y)"
  by (cases r) auto

lemma and_then_Inl_iff [result_simps]:
  "and_then r f = Inl e \<longleftrightarrow> r = Inl e \<or> (\<exists>x. r = Inr x \<and> f x = Inl e)"
  by (cases r) auto

lemma ok_or_simps [simp, result_simps]:
  "ok_or None e = Inl e" "ok_or (Some x) e = Inr x"
  by (simp_all add: ok_or_def)

lemma ok_or_Inr_iff [result_simps]: "ok_or opt e = Inr x \<longleftrightarrow> opt = Some x"
  by (cases opt) auto

lemma ok_or_Inl_iff [result_simps]: "ok_or opt e = Inl e' \<longleftrightarrow> opt = None \<and> e' = e"
  by (cases opt) auto

lemma map_err_simps [simp, result_simps]:
  "map_err f (Inl e) = Inl (f e)" "map_err f (Inr x) = Inr x"
  by (simp_all add: map_err_def)

lemma map_err_Inr_iff [result_simps]: "map_err f r = Inr x \<longleftrightarrow> r = Inr x"
  by (cases r) auto

lemma map_err_Inl_iff [result_simps]: "map_err f r = Inl e \<longleftrightarrow> (\<exists>d. r = Inl d \<and> e = f d)"
  by (cases r) auto

lemma require_simps [simp, result_simps]:
  "require True e = Inr ()" "require False e = Inl e"
  by (simp_all add: require_def)

lemma require_Inr_iff [result_simps]: "require b e = Inr u \<longleftrightarrow> b"
  by (simp add: require_def)

lemma require_Inl_iff [result_simps]: "require b e = Inl e' \<longleftrightarrow> \<not> b \<and> e' = e"
  by (auto simp: require_def)

lemma is_ok_simps [simp]: "is_ok (Inr x)" "\<not> is_ok (Inl e)"
  by (simp_all add: is_ok_def)

lemma is_ok_iff: "is_ok r \<longleftrightarrow> (\<exists>x. r = Inr x)"
  by (cases r) auto

lemma try_fold_append:
  "try_fold f s (xs @ ys) = and_then (try_fold f s xs) (\<lambda>s'. try_fold f s' ys)"
  by (induction xs arbitrary: s) (auto split: sum.splits)

text \<open>An invariant of the loop body is an invariant of the loop.\<close>

lemma try_fold_invariant:
  assumes "try_fold f s xs = Inr s'" and "P s"
    and "\<And>s x s'. x \<in> set xs \<Longrightarrow> P s \<Longrightarrow> f s x = Inr s' \<Longrightarrow> P s'"
  shows "P s'"
  using assms
proof (induction xs arbitrary: s)
  case Nil
  then show ?case by simp
next
  case (Cons x xs)
  from Cons.prems(1) obtain t where t: "f s x = Inr t" "try_fold f t xs = Inr s'"
    by (auto split: sum.splits)
  have "P t" using Cons.prems(3) [OF _ Cons.prems(2) t(1)] by simp
  then show ?case
    using Cons.IH [OF t(2)] Cons.prems(3) by (metis list.set_intros(2))
qed

text \<open>A loop succeeds when every iteration does, under an invariant of the loop.\<close>

lemma try_fold_ok:
  assumes "P s" and "\<And>s x. x \<in> set xs \<Longrightarrow> P s \<Longrightarrow> \<exists>s'. f s x = Inr s' \<and> P s'"
  shows "\<exists>s'. try_fold f s xs = Inr s' \<and> P s'"
  using assms
proof (induction xs arbitrary: s)
  case Nil
  then show ?case by simp
next
  case (Cons x xs)
  from Cons.prems obtain t where "f s x = Inr t" "P t" by fastforce
  moreover have "\<exists>s'. try_fold f t xs = Inr s' \<and> P s'"
    using Cons.IH [OF \<open>P t\<close>] Cons.prems(2) by simp
  ultimately show ?case by simp
qed

text \<open>Which error a loop can stop with is decided by its body.\<close>

lemma try_fold_error:
  assumes "try_fold f s xs = Inl e" and "P s"
    and "\<And>s x s'. x \<in> set xs \<Longrightarrow> P s \<Longrightarrow> f s x = Inr s' \<Longrightarrow> P s'"
  shows "\<exists>s x. x \<in> set xs \<and> P s \<and> f s x = Inl e"
  using assms
proof (induction xs arbitrary: s)
  case Nil
  then show ?case by simp
next
  case (Cons x xs)
  show ?case
  proof (cases "f s x")
    case (Inl d)
    with Cons.prems show ?thesis by auto
  next
    case (Inr t)
    have pt: "P t" using Cons.prems(3) [OF _ Cons.prems(2) Inr] by simp
    have "try_fold f t xs = Inl e" using Cons.prems(1) Inr by simp
    then have "\<exists>s x. x \<in> set xs \<and> P s \<and> f s x = Inl e"
      using Cons.IH [OF _ pt] Cons.prems(3) by (metis list.set_intros(2))
    then show ?thesis by auto
  qed
qed

section \<open>Machine integers\<close>

type_synonym u16 = "16 word"
type_synonym u32 = "32 word"
type_synonym u64 = "64 word"
type_synonym uuid = "128 word"

definition checked_add :: "'n::len word \<Rightarrow> 'n word \<Rightarrow> 'n word option" where
  "checked_add a b = (if unat a + unat b < 2 ^ LENGTH('n) then Some (a + b) else None)"

definition checked_sub :: "'n::len word \<Rightarrow> 'n word \<Rightarrow> 'n word option" where
  "checked_sub a b = (if b \<le> a then Some (a - b) else None)"

definition checked_mul :: "'n::len word \<Rightarrow> 'n word \<Rightarrow> 'n word option" where
  "checked_mul a b = (if unat a * unat b < 2 ^ LENGTH('n) then Some (a * b) else None)"

definition is_multiple_of :: "'n::len word \<Rightarrow> 'n word \<Rightarrow> bool" where
  "is_multiple_of a b = (if b = 0 then a = 0 else a mod b = 0)"

definition div_ceil :: "'n::len word \<Rightarrow> 'n word \<Rightarrow> 'n word" where
  "div_ceil a b = (if a mod b = 0 then a div b else a div b + 1)"

lemma checked_add_Some:
  "checked_add a b = Some c \<longleftrightarrow> unat c = unat a + unat b"
proof
  assume "checked_add a b = Some c"
  then show "unat c = unat a + unat b"
    by (auto simp: checked_add_def unat_word_ariths split: if_splits)
next
  assume eq: "unat c = unat a + unat b"
  have "unat c < 2 ^ LENGTH('a)" by simp
  with eq have "unat a + unat b < 2 ^ LENGTH('a)" by (simp only:)
  moreover from eq this have "c = a + b"
    by (metis unat_add_lem unsigned_word_eqI)
  ultimately show "checked_add a b = Some c" by (simp add: checked_add_def)
qed

lemma checked_add_None:
  fixes a b :: "'n::len word"
  shows "checked_add a b = None \<longleftrightarrow> 2 ^ LENGTH('n) \<le> unat a + unat b"
  by (auto simp: checked_add_def)

lemma checked_sub_Some:
  "checked_sub a b = Some c \<longleftrightarrow> unat b \<le> unat a \<and> unat c = unat a - unat b"
proof -
  have "b \<le> a \<Longrightarrow> unat (a - b) = unat a - unat b" by (rule unat_sub)
  then show ?thesis
    by (auto simp: checked_sub_def word_le_nat_alt) (metis unsigned_word_eqI)
qed

lemma checked_mul_Some:
  "checked_mul a b = Some c \<longleftrightarrow> unat c = unat a * unat b"
proof
  assume "checked_mul a b = Some c"
  then show "unat c = unat a * unat b"
    by (auto simp: checked_mul_def unat_word_ariths split: if_splits)
next
  assume eq: "unat c = unat a * unat b"
  have "unat c < 2 ^ LENGTH('a)" by simp
  with eq have "unat a * unat b < 2 ^ LENGTH('a)" by (simp only:)
  moreover from eq this have "c = a * b"
    by (metis unat_mult_lem unsigned_word_eqI)
  ultimately show "checked_mul a b = Some c" by (simp add: checked_mul_def)
qed

section \<open>Lexical paths\<close>

text \<open>
  A path is the sequence of its components, as \<^verbatim>\<open>Path::components\<close> yields them on
  Unix. Every comparison the code makes on paths (\<^verbatim>\<open>==\<close>, \<^verbatim>\<open>starts_with\<close>,
  \<^verbatim>\<open>components\<close>) is defined by the standard library on this sequence, so repeated and
  trailing separators, which do not reach it, are not represented.
\<close>

datatype Component = RootDir | CurDir | ParentDir | Normal string

type_synonym PathBuf = "Component list"

definition is_absolute :: "PathBuf \<Rightarrow> bool" where
  "is_absolute p = (case p of RootDir # _ \<Rightarrow> True | _ \<Rightarrow> False)"

definition starts_with :: "PathBuf \<Rightarrow> PathBuf \<Rightarrow> bool" where
  "starts_with p base = (take (length base) p = base)"

definition component_has_nul :: "Component \<Rightarrow> bool" where
  "component_has_nul c = (case c of Normal s \<Rightarrow> CHR 0x00 \<in> set s | _ \<Rightarrow> False)"

definition path_has_nul :: "PathBuf \<Rightarrow> bool" where
  "path_has_nul p = list_ex component_has_nul p"

lemma starts_with_refl [simp]: "starts_with p p"
  by (simp add: starts_with_def)

lemma starts_with_iff: "starts_with p b \<longleftrightarrow> (\<exists>rest. p = b @ rest)"
  by (metis append_eq_conv_conj append_take_drop_id starts_with_def)

lemma starts_with_trans: "starts_with p q \<Longrightarrow> starts_with q r \<Longrightarrow> starts_with p r"
  by (auto simp: starts_with_iff)

lemma starts_with_antisym: "starts_with p q \<Longrightarrow> starts_with q p \<Longrightarrow> p = q"
  by (auto simp: starts_with_iff)

end
