(* ===== verification/Sizes.thy ===== *)
theory Sizes
  imports Prelude
begin

text \<open>
  Byte and mebibyte quantities with checked arithmetic
  (\<^verbatim>\<open>storage-core/src/model/sizes.rs\<close>, \<^verbatim>\<open>storage-core/src/errors.rs\<close>). The lemmas relate every
  operation to the natural numbers: an operation succeeds exactly when the mathematical
  result is representable, and then returns it.
\<close>

section \<open>Quantities and errors\<close>

datatype GeometryError = Overflow | OutOfBounds u64 u64 u64

datatype Bytes = Bytes (as_u64: u64)

datatype Mib = Mib (mib_as_u64: u64)

instantiation Bytes :: linorder
begin

definition less_eq_Bytes :: "Bytes \<Rightarrow> Bytes \<Rightarrow> bool" where
  "less_eq_Bytes a b = (as_u64 a \<le> as_u64 b)"

definition less_Bytes :: "Bytes \<Rightarrow> Bytes \<Rightarrow> bool" where
  "less_Bytes a b = (as_u64 a < as_u64 b)"

instance
  by standard (auto simp: less_eq_Bytes_def less_Bytes_def Bytes.expand)

end

section \<open>Checked arithmetic\<close>

definition bytes_checked_add :: "Bytes \<Rightarrow> Bytes \<Rightarrow> (GeometryError, Bytes) result" where
  "bytes_checked_add a b = ok_or (map_option Bytes (checked_add (as_u64 a) (as_u64 b))) Overflow"

definition bytes_checked_mul :: "Bytes \<Rightarrow> u64 \<Rightarrow> (GeometryError, Bytes) result" where
  "bytes_checked_mul a n = ok_or (map_option Bytes (checked_mul (as_u64 a) n)) Overflow"

definition sum_checked :: "Bytes list \<Rightarrow> (GeometryError, Bytes) result" where
  "sum_checked vals = try_fold bytes_checked_add (Bytes 0) vals"

definition range_within :: "Bytes \<Rightarrow> Bytes \<Rightarrow> Bytes \<Rightarrow> (GeometryError, Bytes) result" where
  "range_within start sz device_size =
     and_then (bytes_checked_add start sz) (\<lambda>stop.
       if device_size < stop
       then Inl (OutOfBounds (as_u64 start) (as_u64 stop) (as_u64 device_size))
       else Inr stop)"

definition mib_bytes :: "Mib \<Rightarrow> (GeometryError, Bytes) result" where
  "mib_bytes m = ok_or (map_option Bytes (checked_mul (mib_as_u64 m) (1024 * 1024))) Overflow"

definition sectors_512 :: "Mib \<Rightarrow> (GeometryError, u64) result" where
  "sectors_512 m = and_then (mib_bytes m) (\<lambda>b. Inr (as_u64 b div 512))"

definition from_sectors_512 :: "u64 \<Rightarrow> Mib" where
  "from_sectors_512 sectors = Mib (div_ceil sectors 2048)"

section \<open>Relation to the natural numbers\<close>

abbreviation byte_count :: "Bytes \<Rightarrow> nat" where
  "byte_count b \<equiv> unat (as_u64 b)"

lemma bytes_checked_add_Inr:
  "bytes_checked_add a b = Inr c \<longleftrightarrow> byte_count c = byte_count a + byte_count b"
  by (cases c) (auto simp: bytes_checked_add_def ok_or_Inr_iff checked_add_Some)

lemma bytes_checked_add_Inl:
  "bytes_checked_add a b = Inl e \<longleftrightarrow>
     e = Overflow \<and> 2 ^ 64 \<le> byte_count a + byte_count b"
  by (auto simp: bytes_checked_add_def ok_or_Inl_iff checked_add_None)

lemma byte_count_eq_iff: "byte_count a = byte_count b \<longleftrightarrow> a = b"
  by (cases a; cases b) (simp add: word_unat_eq_iff)

lemma sum_checked_from:
  "try_fold bytes_checked_add acc vals = Inr tot \<longleftrightarrow>
     byte_count tot = byte_count acc + sum_list (map byte_count vals)"
proof (induction vals arbitrary: acc)
  case Nil
  show ?case using byte_count_eq_iff [of tot acc] by auto
next
  case (Cons v vs)
  show ?case
  proof (cases "bytes_checked_add acc v")
    case (Inl e)
    then have "2 ^ 64 \<le> byte_count acc + byte_count v" by (simp add: bytes_checked_add_Inl)
    moreover have "byte_count tot < 2 ^ 64" using unsigned_less [of "as_u64 tot"] by simp
    ultimately show ?thesis using Inl by simp
  next
    case (Inr t)
    then have "byte_count t = byte_count acc + byte_count v" by (simp add: bytes_checked_add_Inr)
    then show ?thesis using Cons.IH [of t] Inr by (simp add: add.assoc)
  qed
qed

lemma mib_bytes_Inr:
  "mib_bytes m = Inr b \<longleftrightarrow> byte_count b = unat (mib_as_u64 m) * 2 ^ 20"
proof -
  have "unat (1048576 :: u64) = 2 ^ 20" by simp
  then show ?thesis
    by (cases b) (auto simp: mib_bytes_def ok_or_Inr_iff checked_mul_Some)
qed

lemma sectors_512_Inr:
  "sectors_512 m = Inr s \<longleftrightarrow> unat (mib_as_u64 m) * 2 ^ 20 < 2 ^ 64 \<and> unat s = unat (mib_as_u64 m) * 2048"
proof
  assume "sectors_512 m = Inr s"
  then obtain b where b: "mib_bytes m = Inr b" "s = as_u64 b div 512"
    by (auto simp: sectors_512_def and_then_Inr_iff)
  from b(1) have eq: "byte_count b = unat (mib_as_u64 m) * 2 ^ 20" by (simp add: mib_bytes_Inr)
  have "byte_count b < 2 ^ 64" using unsigned_less [of "as_u64 b"] by simp
  then show "unat (mib_as_u64 m) * 2 ^ 20 < 2 ^ 64 \<and> unat s = unat (mib_as_u64 m) * 2048"
    using eq b(2) by (simp add: unat_div)
next
  assume R: "unat (mib_as_u64 m) * 2 ^ 20 < 2 ^ 64 \<and> unat s = unat (mib_as_u64 m) * 2048"
  define b where "b = Bytes (mib_as_u64 m * 1048576)"
  have eq: "byte_count b = unat (mib_as_u64 m) * 2 ^ 20"
    using R by (simp add: b_def unat_mult_lem [THEN iffD1])
  then have "mib_bytes m = Inr b" by (simp add: mib_bytes_Inr)
  moreover have "s = as_u64 b div 512"
    using eq R by (simp add: word_unat_eq_iff unat_div)
  ultimately show "sectors_512 m = Inr s" by (simp add: sectors_512_def)
qed

lemma ceil_div_cases:
  fixes k n :: nat
  assumes "0 < k"
  shows "(n + (k - 1)) div k = (if n mod k = 0 then n div k else n div k + 1)"
proof -
  define q r where "q = n div k" and "r = n mod k"
  have n: "n = q * k + r" "r < k" using assms by (simp_all add: q_def r_def)
  have "(n + (k - 1)) div k = q + (r + (k - 1)) div k"
  proof -
    have "n + (k - 1) = (r + (k - 1)) + q * k" by (simp add: n(1))
    then show ?thesis using assms by (simp only: div_mult_self1)
  qed
  moreover have "(r + (k - 1)) div k = (if r = 0 then 0 else 1)"
  proof (cases "r = 0")
    case False
    then have "r + (k - 1) = (r - 1) + 1 * k" "r - 1 < k" using n(2) assms by linarith+
    then show ?thesis using False assms by (simp only: div_mult_self1) simp
  qed (use assms in simp)
  ultimately show ?thesis by (simp add: q_def r_def)
qed

lemma ceil_div_le_iff:
  fixes k n m :: nat
  assumes "0 < k"
  shows "(n + (k - 1)) div k \<le> m \<longleftrightarrow> n \<le> m * k"
proof -
  have "(n + (k - 1)) div k \<le> m \<longleftrightarrow> n + (k - 1) < Suc m * k"
    using assms by (simp only: less_Suc_eq_le [symmetric] div_less_iff_less_mult)
  then show ?thesis using assms by auto
qed

lemma unat_div_ceil_2048: "unat (div_ceil (s :: u64) 2048) = (unat s + 2047) div 2048"
proof -
  have m: "unat (s mod 2048) = unat s mod 2048" "unat (s div 2048) = unat s div 2048"
    by (simp_all add: unat_mod unat_div)
  have "unat s < 2 ^ 64" using unsigned_less [of s] by simp
  then have "unat s div 2048 + 1 < 2 ^ 64" by simp
  then have "unat (s div 2048 + 1) = unat s div 2048 + 1"
    using m(2) by (simp add: unat_add_lem [THEN iffD1])
  moreover have "s mod 2048 = 0 \<longleftrightarrow> unat s mod 2048 = 0"
    using m(1) by (simp add: word_unat_eq_iff)
  ultimately show ?thesis
    using m(2) ceil_div_cases [of 2048 "unat s"] by (simp add: div_ceil_def)
qed

section \<open>Properties\<close>

text \<open>
  \<open>Bytes::sum_checked\<close> returns a total exactly when the mathematical sum of the values
  is that total; every other input ends in \<open>Overflow\<close>, never in a wrapped value.
\<close>

theorem sum_checked_exact:
  "(sum_checked vals = Inr tot \<longleftrightarrow> byte_count tot = sum_list (map byte_count vals))
   \<and> (sum_checked vals = Inl Overflow \<longleftrightarrow> 2 ^ 64 \<le> sum_list (map byte_count vals))"
proof
  show ex: "sum_checked vals = Inr tot \<longleftrightarrow> byte_count tot = sum_list (map byte_count vals)"
    for tot by (simp add: sum_checked_def sum_checked_from)
  have err: "sum_checked vals = Inl e \<Longrightarrow> e = Overflow" for e
    using try_fold_error [of bytes_checked_add "Bytes 0" vals e "\<lambda>_. True"]
    by (auto simp: sum_checked_def bytes_checked_add_Inl)
  show "sum_checked vals = Inl Overflow \<longleftrightarrow> 2 ^ 64 \<le> sum_list (map byte_count vals)"
  proof
    assume L: "sum_checked vals = Inl Overflow"
    show "2 ^ 64 \<le> sum_list (map byte_count vals)"
    proof (rule ccontr)
      assume "\<not> ?thesis"
      then have "byte_count (Bytes (of_nat (sum_list (map byte_count vals))))
          = sum_list (map byte_count vals)" by (simp add: unat_of_nat)
      with ex L show False by (metis sum.distinct(1))
    qed
  next
    assume R: "2 ^ 64 \<le> sum_list (map byte_count vals)"
    show "sum_checked vals = Inl Overflow"
    proof (cases "sum_checked vals")
      case (Inr t)
      then have "byte_count t = sum_list (map byte_count vals)" by (simp add: ex)
      moreover have "byte_count t < 2 ^ 64" using unsigned_less [of "as_u64 t"] by simp
      ultimately show ?thesis using R by simp
    next
      case (Inl e)
      with err show ?thesis by simp
    qed
  qed
qed

text \<open>
  \<open>Bytes::range_within\<close> accepts a range exactly when its mathematical end lies within the
  device, and then returns that end.
\<close>

theorem range_within_iff:
  "range_within start sz device_size = Inr stop \<longleftrightarrow>
     byte_count stop = byte_count start + byte_count sz
     \<and> byte_count start + byte_count sz \<le> byte_count device_size"
proof -
  have "range_within start sz device_size = Inr stop \<longleftrightarrow>
      bytes_checked_add start sz = Inr stop \<and> \<not> device_size < stop"
    by (auto simp: range_within_def and_then_Inr_iff split: if_splits)
  then show ?thesis by (auto simp: bytes_checked_add_Inr less_Bytes_def word_less_nat_alt not_less)
qed

text \<open>
  Converting a MiB count to 512-byte sectors and back is the identity, and
  \<open>from_sectors_512\<close> is the least MiB count covering the sectors.
\<close>

theorem sectors_roundtrip:
  "(sectors_512 m = Inr s \<longrightarrow> from_sectors_512 s = m)
   \<and> (\<forall>n. unat s' \<le> n * 2048 \<longleftrightarrow> unat (mib_as_u64 (from_sectors_512 s')) \<le> n)"
proof
  show "sectors_512 m = Inr s \<longrightarrow> from_sectors_512 s = m"
    by (auto simp: sectors_512_Inr from_sectors_512_def Mib.expand word_unat_eq_iff
        unat_div_ceil_2048)
  show "\<forall>n. unat s' \<le> n * 2048 \<longleftrightarrow> unat (mib_as_u64 (from_sectors_512 s')) \<le> n"
    using ceil_div_le_iff [of 2048 "unat s'"] by (simp add: from_sectors_512_def unat_div_ceil_2048)
qed

theorem sectors_roundtrip_witness:
  "sectors_512 (Mib 3) = Inr 6144 \<and> from_sectors_512 6144 = Mib 3"
proof -
  have "sectors_512 (Mib 3) = Inr 6144" by (simp add: sectors_512_Inr)
  then show ?thesis using sectors_roundtrip [of "Mib 3" 6144 0] by simp
qed

end
