(* ===== verification/Storage_Model.thy ===== *)
theory Storage_Model
  imports Sizes
begin

text \<open>
  The canonical storage vocabulary: RAID layouts (\<^verbatim>\<open>model/raid.rs\<close>), block-device facts and
  external identities (\<^verbatim>\<open>model/block.rs\<close>), technology enumerations (\<^verbatim>\<open>model/mod.rs\<close>) and
  nodes (\<^verbatim>\<open>model/node.rs\<close>), all of \<^verbatim>\<open>storage-core/src\<close>. Enumerations keep the source's
  variants and are written qualified (\<open>NodeKind.Disk\<close>), as in the source; variants with
  named fields list them in the source's order. Structs are records whose field names carry a
  prefix for their struct. \<^verbatim>\<open>NonZeroU*\<close> integers are words; the constructors that enforce
  the restriction return \<open>option\<close>.
\<close>

section \<open>Identities\<close>

datatype NodeId = NodeId (as_uuid: uuid)

datatype ProbeEpoch = ProbeEpoch (epoch_get: u64)

definition epoch_next :: "ProbeEpoch \<Rightarrow> ProbeEpoch option" where
  "epoch_next e = map_option ProbeEpoch (checked_add (epoch_get e) 1)"

definition uuid_is_nil :: "uuid \<Rightarrow> bool" where
  "uuid_is_nil u = (u = 0)"

section \<open>RAID layouts\<close>

datatype LvmRaid0Variant = Raid0 | Raid0Meta

datatype ParityRotation = LeftSymmetric | LeftAsymmetric | RightSymmetric | RightAsymmetric

datatype LvmRaid5Layout = Rotating ParityRotation | ParityN

datatype LvmRaid6Layout =
    ZeroRestart | NRestart | NContinue | DedicatedParity | Raid5Compatible ParityRotation

datatype CopyCount = CopyCount (copy_count_get: u16)

definition copy_count_new :: "u16 \<Rightarrow> CopyCount option" where
  "copy_count_new v = (if 2 \<le> v then (if v = 0 then None else Some (CopyCount v)) else None)"

datatype DataStripeCount = DataStripeCount (stripe_count_get: u16)

definition stripe_count_new :: "u16 \<Rightarrow> DataStripeCount option" where
  "stripe_count_new v = (if v = 0 then None else Some (DataStripeCount v))"

datatype LvmRaid =
    Raid0 LvmRaid0Variant DataStripeCount Bytes
  | Raid1 CopyCount
  | Raid4 DataStripeCount Bytes
  | Raid5 LvmRaid5Layout DataStripeCount Bytes
  | Raid6 LvmRaid6Layout DataStripeCount Bytes
  | Raid10 CopyCount DataStripeCount Bytes

datatype MdRaid0Layout = Original | Alternate | Unspecified

datatype MdParityLayout =
    Rotating ParityRotation | ParityFirst | ParityLast | DdfZeroRestart | DdfNRestart | DdfNContinue

datatype MdRaid6DedicatedQ =
    LeftSymmetric6 | RightSymmetric6 | LeftAsymmetric6 | RightAsymmetric6 | ParityFirst6

datatype MdRaid6Layout = Standard MdParityLayout | DedicatedQ MdRaid6DedicatedQ

datatype MdRaid10Mode = Near | Offset | Far

record MdRaid10Layout =
  raid10_mode :: MdRaid10Mode
  raid10_copies :: CopyCount

datatype MdRaid =
    Raid0 MdRaid0Layout Bytes
  | Raid1
  | Raid4 Bytes
  | Raid5 MdParityLayout Bytes
  | Raid6 MdRaid6Layout Bytes
  | Raid10 MdRaid10Layout Bytes

datatype MdPersonality = Raid MdRaid | Linear "Bytes option" | Multipath | Faulty | Container

datatype MdNativeMetadata = V0_90 | V1_0 | V1_1 | V1_2

datatype MdExternalMetadata = Ddf | Imsm

datatype MdMetadata = NoMetadata | Native MdNativeMetadata | External MdExternalMetadata

record MdArray =
  md_personality :: MdPersonality
  md_metadata :: MdMetadata

datatype BtrfsProfile = Single | Dup | Raid0 | Raid1 | Raid1C3 | Raid1C4 | Raid10 | Raid5 | Raid6

section \<open>Block devices\<close>

datatype BlockSize = BlockSize (block_size_get: u32)

definition block_size_new :: "u32 \<Rightarrow> BlockSize option" where
  "block_size_new v = (if v = 0 then None else Some (BlockSize v))"

record DeviceNumber =
  dev_major :: u32
  dev_minor :: u32

record BlockGeometry =
  geo_logical_block_size :: BlockSize
  geo_physical_block_size :: "BlockSize option"
  geo_alignment_offset :: "Bytes option"
  geo_minimum_io_size :: "Bytes option"
  geo_optimal_io_size :: "Bytes option"

record BlockFacts =
  block_paths :: "PathBuf list"
  block_devno :: DeviceNumber
  block_geometry :: "BlockGeometry option"
  block_read_only :: "bool option"

datatype NetworkBacking = Rbd | Nbd

datatype ZonedModel = HostAware | HostManaged | NotZoned

datatype Transport =
    Nvme | NvmeOf | Sata | Sas | Scsi | Usb | Virtio | Mmc | FibreChannel | Iscsi

definition transport_is_network :: "Transport \<Rightarrow> bool" where
  "transport_is_network t = (t \<in> {Transport.NvmeOf, Transport.FibreChannel, Transport.Iscsi})"

record DeviceInfo =
  dev_model :: "string option"
  dev_vendor :: "string option"
  dev_transport :: "Transport option"
  dev_network_backing :: "NetworkBacking option"
  dev_rotational :: "bool option"
  dev_removable :: "bool option"
  dev_zoned :: "ZonedModel option"

definition device_is_network :: "DeviceInfo \<Rightarrow> bool option" where
  "device_is_network d =
     (case dev_network_backing d of
        Some _ \<Rightarrow> Some True
      | None \<Rightarrow> (case dev_transport d of
          Some t \<Rightarrow> Some (transport_is_network t)
        | None \<Rightarrow> None))"

datatype ExternalId =
    Wwn string
  | Serial "string option" string
  | GptPartitionUuid uuid
  | MbrPartitionId u32 u32
  | LuksUuid uuid
  | MdUuid string
  | LvmPvUuid string
  | LvmVgUuid string
  | LvmLvUuid string
  | Filesystem string string
  | BtrfsFsid uuid
  | BtrfsSubvolumeUuid uuid
  | ZfsGuid u64
  | NvmeNguid "8 word list"
  | NvmeEui64 "8 word list"
  | NvmeUuid uuid
  | Iscsi string u64
  | NvmeOf string u32

section \<open>Technology enumerations\<close>

datatype DmCacheMode = Writeback | Writethrough | Passthrough

datatype BcacheMode = Writeback | Writethrough | Writearound | NoCaching

datatype LuksVersion = Luks1 | Luks2

record BtrfsAllocation =
  btrfs_data :: "BtrfsProfile set"
  btrfs_metadata :: "BtrfsProfile set"
  btrfs_system :: "BtrfsProfile set"

datatype FilesystemKind =
    Ext2 | Ext3 | Ext4 | Xfs | Btrfs BtrfsAllocation | Jfs | Reiserfs | Vfat | Ntfs | Exfat
  | F2fs | Ocfs2 | Gfs2 | Apfs | Other string

definition filesystem_as_str :: "FilesystemKind \<Rightarrow> string" where
  "filesystem_as_str k =
     (case k of
        FilesystemKind.Ext2 \<Rightarrow> ''ext2'' | FilesystemKind.Ext3 \<Rightarrow> ''ext3''
      | FilesystemKind.Ext4 \<Rightarrow> ''ext4'' | FilesystemKind.Xfs \<Rightarrow> ''xfs''
      | FilesystemKind.Btrfs _ \<Rightarrow> ''btrfs'' | FilesystemKind.Jfs \<Rightarrow> ''jfs''
      | FilesystemKind.Reiserfs \<Rightarrow> ''reiserfs'' | FilesystemKind.Vfat \<Rightarrow> ''vfat''
      | FilesystemKind.Ntfs \<Rightarrow> ''ntfs'' | FilesystemKind.Exfat \<Rightarrow> ''exfat''
      | FilesystemKind.F2fs \<Rightarrow> ''f2fs'' | FilesystemKind.Ocfs2 \<Rightarrow> ''ocfs2''
      | FilesystemKind.Gfs2 \<Rightarrow> ''gfs2'' | FilesystemKind.Apfs \<Rightarrow> ''apfs''
      | FilesystemKind.Other s \<Rightarrow> s)"

datatype LvmLvKind =
    Linear
  | Striped DataStripeCount
  | Raid LvmRaid
  | Mirror CopyCount
  | ThinPool
  | Thin
  | Snapshot
  | CachePool
  | Cache
  | WriteCache
  | Other string

record LvmLv =
  lv_name :: string
  lv_kind :: LvmLvKind

datatype NvmeNamespaceId = NvmeNamespaceId (nsid_get: u32)

definition nsid_new :: "u32 \<Rightarrow> NvmeNamespaceId option" where
  "nsid_new v = (if v = 0 then None else Some (NvmeNamespaceId v))"

record NvmeLbaFormat =
  lba_data_size :: BlockSize
  lba_metadata_size :: u16

record NvmeNamespace =
  ns_nsid :: NvmeNamespaceId
  ns_format :: NvmeLbaFormat

record PartitionAttributes =
  attr_gpt :: "u64 option"
  attr_bootable :: "bool option"

datatype UsageRole = Boot | Root | Home | Data

datatype PartitionTable = Gpt | Mbr

datatype ZfsVdevClass = Data | Log | Special | Dedup | Cache | Spare

datatype ZfsMember = Child | TopLevel ZfsVdevClass

datatype ZfsParity = One | Two | Three

datatype ZfsVdevKind =
    Leaf
  | Mirror
  | RaidZ ZfsParity
  | DRaid ZfsParity DataStripeCount u16
  | Other string

section \<open>Nodes\<close>

datatype Presence = Unknown | Present | Missing

datatype NodeKind =
    Disk
  | NvmeSubsystem string
  | NvmeController
  | NvmeNamespace NvmeNamespace
  | Loop "PathBuf option"
  | Zram
  | DmMultipath
  | PartitionTable PartitionTable
  | Partition u32 Bytes "UsageRole option" PartitionAttributes
  | LuksContainer LuksVersion
  | DmCryptMapping string
  | DmIntegrity string
  | DmVerity string
  | MdArray MdArray
  | LvmPv
  | LvmVg string "Bytes option"
  | LvmLv LvmLv
  | Bcache string BcacheMode
  | DmCache string DmCacheMode
  | DmWritecache string
  | Filesystem FilesystemKind "string option"
  | Swap
  | BtrfsSubvolume string bool bool
  | ZfsPool string
  | ZfsVdev ZfsVdevKind
  | ZfsDataset string
  | ZfsVolume string
  | Drbd string
  | Unknown string

record NodeSpec =
  spec_kind :: NodeKind
  spec_size :: "Bytes option"

record NodeFacts =
  facts_lvm_active :: "bool option"
  facts_observed_in :: "ProbeEpoch option"
  facts_presence :: Presence
  facts_identities :: "ExternalId list"
  facts_block :: "BlockFacts option"
  facts_device :: "DeviceInfo option"

definition default_facts :: NodeFacts where
  "default_facts = \<lparr>facts_lvm_active = None, facts_observed_in = None,
     facts_presence = Presence.Unknown, facts_identities = [], facts_block = None,
     facts_device = None\<rparr>"

text \<open>The fields \<^verbatim>\<open>Node::kind\<close> and \<^verbatim>\<open>Node::size\<close> of the source, a specification and facts.\<close>

record Node =
  node_kind :: NodeSpec
  node_size :: NodeFacts

end
