(* ===== verification/Traversal.thy ===== *)
theory Traversal
  imports Prelude
begin

text \<open>
  Directed graphs given by a list of edges: the depth-first worklist that marks a vertex
  when it is taken from the stack, the linear orders that respect a relation, and the
  interface of a topological sort. The storage graph, the fact invalidation of the
  simulator and the plan composer are clients.
\<close>

section \<open>The worklist traversal\<close>

definition succs :: "('a \<times> 'a) list \<Rightarrow> 'a \<Rightarrow> 'a list" where
  "succs E n = map snd (filter (\<lambda>e. fst e = n) E)"

lemma set_succs: "set (succs E n) = set E `` {n}"
  by (force simp: succs_def)

lemma set_succs_subset: "set (succs E n) \<subseteq> snd ` set E"
  by (force simp: succs_def)

text \<open>
  The head of the stack is the end of the source's \<^verbatim>\<open>Vec\<close>: pushing the successors
  \<open>c\<^sub>1, \<dots>, c\<^sub>k\<close> puts \<open>c\<^sub>k\<close> on top. The result lists the visited vertices in visiting
  order.
\<close>

function walk :: "('a \<times> 'a) list \<Rightarrow> 'a list \<Rightarrow> 'a list \<Rightarrow> 'a list" where
  "walk E [] visited = visited"
| "walk E (n # pending) visited =
     (if n \<in> set visited then walk E pending visited
      else walk E (rev (succs E n) @ pending) (visited @ [n]))"
  by pat_completeness auto

termination
proof (relation "measures [\<lambda>(E, p, v). card ((set p \<union> snd ` set E) - set v), \<lambda>(E, p, v). length p]",
    goal_cases)
  case 1
  show ?case by simp
next
  case (2 E n pending visited)
  have "(set pending \<union> snd ` set E) - set visited
      = (set (n # pending) \<union> snd ` set E) - set visited" using 2 by auto
  then show ?case by simp
next
  case (3 E n pending visited)
  let ?old = "(set (n # pending) \<union> snd ` set E) - set visited"
  let ?new = "(set (rev (succs E n) @ pending) \<union> snd ` set E) - set (visited @ [n])"
  have "?new \<subset> ?old" using 3 set_succs_subset [of E n] by auto
  then have "card ?new < card ?old" by (intro psubset_card_mono) auto
  then show ?case by simp
qed

lemma closed_rtrancl_Image: "R `` A \<subseteq> A \<Longrightarrow> R\<^sup>* `` A = A"
  by (rule Image_closed_trancl)

lemma walk_reaches_aux:
  assumes "set E `` set visited \<subseteq> set visited \<union> set pending"
  shows "set (walk E pending visited) = (set E)\<^sup>* `` (set visited \<union> set pending)"
  using assms
proof (induction E pending visited rule: walk.induct)
  case (1 E visited)
  then show ?case by (simp add: closed_rtrancl_Image)
next
  case (2 E n pending visited)
  show ?case
  proof (cases "n \<in> set visited")
    case True
    moreover have "set visited \<union> set pending = set visited \<union> set (n # pending)"
      using True by auto
    ultimately show ?thesis using 2 by simp
  next
    case False
    have sub: "set (succs E n) \<subseteq> (set E)\<^sup>* `` {n}" by (auto simp: set_succs)
    have "set E `` set (visited @ [n])
        \<subseteq> set (visited @ [n]) \<union> set (rev (succs E n) @ pending)"
      using "2.prems" by (auto simp: set_succs)
    then have "set (walk E (n # pending) visited)
        = (set E)\<^sup>* `` (set (visited @ [n]) \<union> set (rev (succs E n) @ pending))"
      using "2.IH"(2) [OF False] False by simp
    also have "\<dots> = (set E)\<^sup>* `` (set visited \<union> set (n # pending))
        \<union> (set E)\<^sup>* `` set (succs E n)" by auto
    also have "(set E)\<^sup>* `` set (succs E n) \<subseteq> (set E)\<^sup>* `` {n}"
      using sub by (auto intro: rtrancl_trans)
    then have "(set E)\<^sup>* `` (set visited \<union> set (n # pending)) \<union> (set E)\<^sup>* `` set (succs E n)
        = (set E)\<^sup>* `` (set visited \<union> set (n # pending))" by auto
    finally show ?thesis .
  qed
qed

text \<open>The traversal visits exactly what is reachable from the initial stack.\<close>

lemma set_walk: "set (walk E pending []) = (set E)\<^sup>* `` set pending"
  using walk_reaches_aux [of E "[]" pending] by simp

lemma distinct_walk: "distinct visited \<Longrightarrow> distinct (walk E pending visited)"
  by (induction E pending visited rule: walk.induct) auto

section \<open>Orders that respect a relation\<close>

definition keeps_order :: "('a \<times> 'a) set \<Rightarrow> 'a list \<Rightarrow> bool" where
  "keeps_order R xs \<longleftrightarrow> (\<forall>i < length xs. \<forall>j < length xs. (xs ! i, xs ! j) \<in> R \<longrightarrow> i < j)"

lemma keeps_order_Nil [simp]: "keeps_order R []"
  by (simp add: keeps_order_def)

lemma keeps_order_snoc:
  "keeps_order R (xs @ [x]) \<longleftrightarrow> keeps_order R xs \<and> (\<forall>y \<in> insert x (set xs). (x, y) \<notin> R)"
proof
  assume L: "keeps_order R (xs @ [x])"
  have "keeps_order R xs"
    unfolding keeps_order_def
  proof (intro allI impI)
    fix i j assume "i < length xs" "j < length xs" "(xs ! i, xs ! j) \<in> R"
    then show "i < j"
      using L [unfolded keeps_order_def, rule_format, of i j] by (simp add: nth_append)
  qed
  moreover have "(x, y) \<notin> R" if y: "y \<in> insert x (set xs)" for y
  proof
    assume "(x, y) \<in> R"
    from y obtain j where "j < length (xs @ [x])" "(xs @ [x]) ! j = y"
      by (metis in_set_conv_nth insertE list.set_intros(1) set_append UnCI)
    then have "length xs < j"
      using L [unfolded keeps_order_def, rule_format, of "length xs" j] \<open>(x, y) \<in> R\<close> by simp
    with \<open>j < length (xs @ [x])\<close> show False by simp
  qed
  ultimately show "keeps_order R xs \<and> (\<forall>y \<in> insert x (set xs). (x, y) \<notin> R)" by blast
next
  assume R: "keeps_order R xs \<and> (\<forall>y \<in> insert x (set xs). (x, y) \<notin> R)"
  show "keeps_order R (xs @ [x])"
    unfolding keeps_order_def
  proof (intro allI impI)
    fix i j
    assume ij: "i < length (xs @ [x])" "j < length (xs @ [x])"
      and e: "((xs @ [x]) ! i, (xs @ [x]) ! j) \<in> R"
    have "i \<noteq> length xs"
    proof
      assume "i = length xs"
      with e have "(x, (xs @ [x]) ! j) \<in> R" by simp
      moreover have "(xs @ [x]) ! j \<in> insert x (set xs)"
        using ij(2) by (metis Un_insert_right append_Nil2 list.simps(15) nth_mem set_append)
      ultimately show False using R by blast
    qed
    with ij(1) have i: "i < length xs" by simp
    show "i < j"
    proof (cases "j < length xs")
      case True
      with i e R show ?thesis by (simp add: keeps_order_def nth_append)
    next
      case False
      with i show ?thesis by simp
    qed
  qed
qed

lemma keeps_order_acyclic:
  assumes "keeps_order R xs" and "R \<subseteq> set xs \<times> set xs"
  shows "acyclic R"
proof (rule acyclicI_order)
  fix a b assume "(a, b) \<in> R"
  define pos where "pos = (\<lambda>y. Max {i. i < length xs \<and> xs ! i = y})"
  have in_pos: "pos y < length xs \<and> xs ! pos y = y" if "y \<in> set xs" for y
  proof -
    have "{i. i < length xs \<and> xs ! i = y} \<noteq> {}"
      using that by (auto simp: in_set_conv_nth)
    then show ?thesis unfolding pos_def
      using Max_in [of "{i. i < length xs \<and> xs ! i = y}"] by auto
  qed
  show "(\<lambda>y. - int (Max {i. i < length xs \<and> xs ! i = y})) b
      < (\<lambda>y. - int (Max {i. i < length xs \<and> xs ! i = y})) a"
    using assms \<open>(a, b) \<in> R\<close> in_pos [of a] in_pos [of b]
    unfolding keeps_order_def pos_def by (metis (no_types, lifting) SigmaE neg_less_iff_less of_nat_less_iff prod.inject subsetD)
qed

text \<open>In an acyclic finite relation some element of a set has no predecessor in it.\<close>

lemma acyclic_has_source:
  assumes "acyclic R" and "finite R" and "S \<noteq> {}"
  shows "\<exists>x \<in> S. \<forall>y \<in> S. (y, x) \<notin> R"
proof -
  from assms(1,2) have "wf R" by (rule finite_acyclic_wf [rotated])
  then show ?thesis using assms(3) by (metis all_not_in_conv wfE_min)
qed

section \<open>The interface of a topological sort\<close>

text \<open>
  A provider sorts the graphs that satisfy its input condition; it fails exactly on the
  cyclic ones. The storage graph and the plan composer each have their own algorithm.
\<close>

locale dag_sorter =
  fixes admissible :: "'g \<Rightarrow> bool"
    and vertices :: "'g \<Rightarrow> 'v set"
    and edges :: "'g \<Rightarrow> ('v \<times> 'v) set"
    and sort_dag :: "'g \<Rightarrow> ('e, 'v list) result"
  assumes edges_within: "admissible g \<Longrightarrow> edges g \<subseteq> vertices g \<times> vertices g"
    and sort_sound: "admissible g \<Longrightarrow> sort_dag g = Inr xs \<Longrightarrow>
      distinct xs \<and> set xs = vertices g \<and> keeps_order (edges g) xs"
    and sort_complete: "admissible g \<Longrightarrow> acyclic (edges g) \<Longrightarrow> \<exists>xs. sort_dag g = Inr xs"
begin

lemma sort_ok_iff: "admissible g \<Longrightarrow> is_ok (sort_dag g) \<longleftrightarrow> acyclic (edges g)"
  using sort_sound sort_complete edges_within keeps_order_acyclic
  by (metis is_ok_iff)

lemma sort_predecessors:
  assumes "admissible g" and "sort_dag g = Inr (ys @ x # zs)" and "(y, x) \<in> edges g"
  shows "y \<in> set ys"
proof -
  let ?xs = "ys @ x # zs"
  from assms have s: "distinct ?xs" "set ?xs = vertices g" "keeps_order (edges g) ?xs"
    using sort_sound by blast+
  from assms edges_within have "y \<in> set ?xs" using s(2) by blast
  then obtain i where i: "i < length ?xs" "?xs ! i = y" by (metis in_set_conv_nth)
  have "?xs ! length ys = x" by simp
  then have "i < length ys"
    using s(3) [unfolded keeps_order_def, rule_format, of i "length ys"] i assms(3) by simp
  then show ?thesis using i by (metis nth_append nth_mem)
qed

lemma sort_path_predecessors:
  assumes "admissible g" and "sort_dag g = Inr (ys @ x # zs)" and "(y, x) \<in> (edges g)\<^sup>+"
  shows "y \<in> set ys"
  using assms(3)
proof (induction rule: converse_trancl_induct)
  case (base y)
  then show ?case using sort_predecessors [OF assms(1,2)] by blast
next
  case (step y z)
  from step.IH obtain us vs where ys: "ys = us @ z # vs" by (meson split_list)
  have "sort_dag g = Inr (us @ z # (vs @ x # zs))" using assms(2) ys by simp
  then have "y \<in> set us" using sort_predecessors [OF assms(1) _ step.hyps(1)] by blast
  then show ?case by (simp add: ys)
qed

lemma sort_keeps_paths:
  assumes "admissible g" and "sort_dag g = Inr xs"
  shows "keeps_order ((edges g)\<^sup>+) xs"
  unfolding keeps_order_def
proof (intro allI impI)
  fix i j
  assume i: "i < length xs" and j: "j < length xs" and "(xs ! i, xs ! j) \<in> (edges g)\<^sup>+"
  moreover have "xs = take j xs @ xs ! j # drop (Suc j) xs" using j by (rule id_take_nth_drop)
  ultimately have "xs ! i \<in> set (take j xs)" using sort_path_predecessors assms by metis
  then obtain k where "k < j" "xs ! k = xs ! i" by (auto simp: in_set_conv_nth)
  then show "i < j" using sort_sound [OF assms] i j nth_eq_iff_index_eq by fastforce
qed

lemma sort_acyclic: "admissible g \<Longrightarrow> sort_dag g = Inr xs \<Longrightarrow> acyclic (edges g)"
  using sort_ok_iff by (metis is_ok_simps(1))

end

end
