(* ===== verification/Graph_Order.thy ===== *)
theory Graph_Order
  imports Storage_Graph
begin

text \<open>
  Correctness of the two graph algorithms of the storage graph: \<open>ancestors\<close> computes the
  strict ancestors of a node in the dependency relation, and \<open>topological_order\<close> is a
  topological sort (an interpretation of \<open>dag_sorter\<close>).
\<close>

definition dep_rel :: "NodeGraph \<Rightarrow> (NodeId \<times> NodeId) set" where
  "dep_rel g = (\<lambda>e. (dep_from e, dep_to e)) ` set (g_dependencies g)"

definition node_ids :: "NodeGraph \<Rightarrow> NodeId set" where
  "node_ids g = fst ` set (g_nodes g)"

definition graph_inv :: "NodeGraph \<Rightarrow> bool" where
  "graph_inv g \<longleftrightarrow> distinct (map fst (g_nodes g)) \<and> distinct (g_dependencies g)
     \<and> distinct (g_relations g)"

lemma graph_node_None: "graph_node g n = None \<longleftrightarrow> n \<notin> node_ids g"
  by (simp add: graph_node_def node_ids_def map_of_eq_None_iff)

lemma graph_node_Some: "graph_node g n = Some x \<Longrightarrow> n \<in> node_ids g"
  by (metis graph_node_None option.discI)

section \<open>Ancestors\<close>

lemma set_dep_parents:
  "set (dep_parents deps n) = ((\<lambda>e. (dep_from e, dep_to e)) ` set deps)\<inverse> `` {n}"
  by (force simp: dep_parents_def)

lemma closed_step:
  assumes "R `` (V - insert n P) \<subseteq> V" and "V' = V \<union> R `` {n}" and "P' = P \<union> (R `` {n} - V)"
  shows "R `` (V' - P') \<subseteq> V'"
  using assms by blast

lemma ancestors_loop_reaches:
  assumes "set pending \<subseteq> set visited"
    and "((\<lambda>e. (dep_from e, dep_to e)) ` set deps)\<inverse> `` (set visited - set pending) \<subseteq> set visited"
  shows "set (ancestors_loop deps pending visited)
    = (((\<lambda>e. (dep_from e, dep_to e)) ` set deps)\<inverse>)\<^sup>* `` set visited"
  using assms
proof (induction deps pending visited rule: ancestors_loop.induct)
  case (1 deps visited)
  then show ?case by (simp add: closed_rtrancl_Image)
next
  case (2 deps n pending visited)
  let ?R = "((\<lambda>e. (dep_from e, dep_to e)) ` set deps)\<inverse>"
  obtain v' p' where vp: "push_new (dep_parents deps n) (visited, pending) = (v', p')"
    by (metis surj_pair)
  have v': "set v' = set visited \<union> ?R `` {n}" and
    p': "set p' = set pending \<union> (?R `` {n} - set visited)"
    using push_new_spec [OF vp] by (simp_all add: set_dep_parents)
  have "?R `` (set v' - set p') \<subseteq> set v'"
    by (rule closed_step [OF "2.prems"(2) [unfolded list.set(2)] v' p'])
  moreover have "set p' \<subseteq> set v'" using "2.prems"(1) v' p' by auto
  ultimately have "set (ancestors_loop deps p' v') = ?R\<^sup>* `` set v'"
    using "2.IH" [OF vp [symmetric]] by simp
  also have "\<dots> = ?R\<^sup>* `` set visited"
  proof -
    have "?R\<^sup>* `` (?R `` {n}) \<subseteq> ?R\<^sup>* `` set visited"
      using "2.prems"(1) by (auto intro: converse_rtrancl_into_rtrancl)
    then show ?thesis unfolding v' by (simp add: Image_Un Un_absorb2)
  qed
  finally show ?case using vp by simp
qed

lemma set_ancestors_aux: "set (ancestors g n) = {a. (a, n) \<in> (dep_rel g)\<^sup>+} - {n}"
proof -
  have "set (ancestors_loop (g_dependencies g) [n] [n]) = ((dep_rel g)\<inverse>)\<^sup>* `` {n}"
    using ancestors_loop_reaches [of "[n]" "[n]" "g_dependencies g"] by (simp add: dep_rel_def)
  then have "set (ancestors g n) = {a. (a, n) \<in> (dep_rel g)\<^sup>*} - {n}"
    by (auto simp: ancestors_def rtrancl_converse)
  then show ?thesis by (auto simp: rtrancl_eq_or_trancl)
qed

section \<open>The queue-based sort\<close>

definition pending_in :: "('v \<times> 'v) list \<Rightarrow> 'v list \<Rightarrow> 'v \<Rightarrow> nat" where
  "pending_in E order v = length (filter (\<lambda>e. snd e = v \<and> fst e \<notin> set order) E)"

definition kahn_inv ::
  "'v set \<Rightarrow> ('v \<times> 'v) list \<Rightarrow> ('v \<rightharpoonup> nat) \<Rightarrow> 'v list \<Rightarrow> 'v list \<Rightarrow> bool" where
  "kahn_inv V E ind ready order \<longleftrightarrow>
     distinct (order @ ready) \<and> set (order @ ready) \<subseteq> V
     \<and> (\<forall>v \<in> V. ind v = Some (pending_in E order v))
     \<and> (\<forall>v \<in> V. pending_in E order v = 0 \<longleftrightarrow> v \<in> set (order @ ready))
     \<and> keeps_order (set E) order"

lemma pending_in_0: "pending_in E order v = 0 \<longleftrightarrow> (\<forall>u. (u, v) \<in> set E \<longrightarrow> u \<in> set order)"
  by (auto simp: pending_in_def filter_empty_conv)

lemma pending_in_snoc:
  "x \<notin> set order \<Longrightarrow>
     pending_in E order v = pending_in E (order @ [x]) v + count_list (succs E x) v"
proof (induction E)
  case Nil
  then show ?case by (simp add: pending_in_def succs_def)
next
  case (Cons e E)
  have cons: "pending_in (e # E) ord v
      = (if snd e = v \<and> fst e \<notin> set ord then 1 else 0) + pending_in E ord v" for ord
    by (simp add: pending_in_def)
  show ?case unfolding cons Cons.IH [OF Cons.prems] using Cons.prems
    by (simp add: succs_def)
qed

lemma release_spec:
  assumes "\<And>v. v \<in> set L \<Longrightarrow> \<exists>d. ind v = Some d \<and> count_list L v \<le> d"
  shows "\<exists>ind' pushed. release ind ready L = (ind', ready @ pushed)
    \<and> (\<forall>v. ind' v = map_option (\<lambda>d. d - count_list L v) (ind v))
    \<and> distinct pushed \<and> set pushed = {v \<in> set L. ind v = Some (count_list L v)}"
  using assms
proof (induction L arbitrary: ind ready)
  case Nil
  then show ?case by (auto intro!: exI [of _ "[]"] simp: option.map_ident)
next
  case (Cons t L)
  obtain d where d: "ind t = Some d" "Suc (count_list L t) \<le> d"
    using Cons.prems [of t] by auto
  define ind1 where "ind1 = ind(t \<mapsto> d - 1)"
  have pre: "\<exists>d'. ind1 v = Some d' \<and> count_list L v \<le> d'" if "v \<in> set L" for v
    using Cons.prems [of v] that d by (auto simp: ind1_def split: if_splits)
  obtain ind' pushed where step:
    "release ind1 (if d - 1 = 0 then ready @ [t] else ready) L
       = (ind', (if d - 1 = 0 then ready @ [t] else ready) @ pushed)"
    "\<forall>v. ind' v = map_option (\<lambda>d. d - count_list L v) (ind1 v)" "distinct pushed"
    "set pushed = {v \<in> set L. ind1 v = Some (count_list L v)}"
    using Cons.IH [of ind1, OF pre] by blast
  have rel: "release ind ready (t # L)
      = (ind', ready @ (if d - 1 = 0 then t # pushed else pushed))"
    using step(1) d(1) by (simp add: ind1_def split: if_splits)
  have "\<forall>v. ind' v = map_option (\<lambda>d. d - count_list (t # L) v) (ind v)"
    using step(2) d(1) by (auto simp: ind1_def)
  moreover have fresh: "t \<notin> set L" if "d - 1 = 0"
  proof -
    have "count_list L t = 0" using d(2) that by linarith
    then show ?thesis by (simp add: count_list_0_iff)
  qed
  then have "distinct (if d - 1 = 0 then t # pushed else pushed)"
    using step(3,4) by auto
  moreover have "set (if d - 1 = 0 then t # pushed else pushed)
      = {v \<in> set (t # L). ind v = Some (count_list (t # L) v)}"
  proof (rule set_eqI)
    fix v
    have "count_list L t = 0 \<longleftrightarrow> t \<notin> set L" by (simp add: count_list_0_iff)
    then show "v \<in> set (if d - 1 = 0 then t # pushed else pushed)
        \<longleftrightarrow> v \<in> {v \<in> set (t # L). ind v = Some (count_list (t # L) v)}"
      using step(4) d fresh by (cases "v = t") (auto simp: ind1_def)
  qed
  ultimately show ?case
    unfolding rel by (intro exI conjI) (rule refl, assumption+)
qed

lemma kahn_step:
  assumes inv: "kahn_inv V E ind (x # ready) order" and E: "set E \<subseteq> V \<times> V"
    and rel: "release ind ready (succs E x) = (ind', ready')"
  shows "kahn_inv V E ind' ready' (order @ [x])"
proof -
  have dist: "distinct (order @ x # ready)" and sub: "set (order @ x # ready) \<subseteq> V"
    and ind: "\<And>v. v \<in> V \<Longrightarrow> ind v = Some (pending_in E order v)"
    and nil: "\<And>v. v \<in> V \<Longrightarrow> pending_in E order v = 0 \<longleftrightarrow> v \<in> set (order @ x # ready)"
    and keeps: "keeps_order (set E) order"
    using inv unfolding kahn_inv_def by blast+
  have x: "x \<in> V" "x \<notin> set order" "x \<notin> set ready" using dist sub by auto
  have split: "pending_in E order v = pending_in E (order @ [x]) v + count_list (succs E x) v" for v
    by (rule pending_in_snoc [OF x(2)])
  have succ: "v \<in> V" if "v \<in> set (succs E x)" for v using that E by (auto simp: set_succs)
  have pre: "\<exists>d. ind v = Some d \<and> count_list (succs E x) v \<le> d" if "v \<in> set (succs E x)" for v
    using ind [OF succ [OF that]] split [of v] by simp
  obtain pushed where r: "ready' = ready @ pushed" "distinct pushed"
    "\<And>v. ind' v = map_option (\<lambda>d. d - count_list (succs E x) v) (ind v)"
    "set pushed = {v \<in> set (succs E x). ind v = Some (count_list (succs E x) v)}"
    using release_spec [of "succs E x" ind ready, OF pre] rel by auto
  have pushed: "set pushed = {v \<in> set (succs E x). pending_in E (order @ [x]) v = 0}"
    unfolding r(4) using ind succ split by (intro Collect_cong conj_cong) auto
  have new: "v \<notin> set (order @ x # ready)" if "v \<in> set pushed" for v
  proof -
    from that pushed have v: "v \<in> set (succs E x)" by blast
    then have "count_list (succs E x) v \<noteq> 0" by (simp add: count_list_0_iff)
    then have "pending_in E order v \<noteq> 0" using split [of v] by simp
    with nil [OF succ [OF v]] show ?thesis by blast
  qed
  have zero: "pending_in E (order @ [x]) v = 0 \<longleftrightarrow> v \<in> set ((order @ [x]) @ ready')" if "v \<in> V" for v
  proof -
    have "pending_in E (order @ [x]) v = 0 \<longleftrightarrow> pending_in E order v = 0 \<or> v \<in> set pushed"
      unfolding pushed split [of v] by (auto simp: count_list_0_iff)
    then show ?thesis using nil [OF that] r(1) by auto
  qed
  have "(x, y) \<notin> set E" if "y \<in> insert x (set order)" for y
  proof -
    have "y \<in> V" "y \<in> set (order @ x # ready)" using that sub by auto
    then have "pending_in E order y = 0" using nil by blast
    then show ?thesis using x(2) by (auto simp: pending_in_0)
  qed
  then have "keeps_order (set E) (order @ [x])" using keeps by (simp add: keeps_order_snoc)
  moreover have "distinct ((order @ [x]) @ ready')" using dist r(1,2) new by auto
  moreover have "set ((order @ [x]) @ ready') \<subseteq> V" using sub pushed r(1) succ by auto
  moreover have "\<forall>v \<in> V. ind' v = Some (pending_in E (order @ [x]) v)"
    using ind split by (simp add: r(3))
  ultimately show ?thesis unfolding kahn_inv_def using zero by blast
qed

lemma kahn_exhausts_queue:
  assumes "kahn_inv V E ind ready order" and "set E \<subseteq> V \<times> V" and "finite V"
    and "length order + fuel = card V" and "\<And>a. or_default (outgoing a) [] = succs E a"
  shows "\<exists>order'. kahn fuel ind outgoing ready order = (order', [])
    \<and> kahn_inv V E (\<lambda>v. if v \<in> V then Some (pending_in E order' v) else None) [] order'"
  using assms
proof (induction fuel arbitrary: ind ready order)
  case 0
  then have "card (set (order @ ready)) \<le> card V"
    by (intro card_mono) (auto simp: kahn_inv_def)
  moreover have "card (set (order @ ready)) = length (order @ ready)"
    using 0 by (intro distinct_card) (simp add: kahn_inv_def)
  ultimately have "ready = []" using 0 by simp
  then show ?case using 0 by (auto simp: kahn_inv_def)
next
  case (Suc fuel)
  show ?case
  proof (cases ready)
    case Nil
    then show ?thesis using Suc.prems by (auto simp: kahn_inv_def)
  next
    case (Cons x r)
    obtain ind' ready' where rel: "release ind r (succs E x) = (ind', ready')"
      by (metis surj_pair)
    have "kahn_inv V E ind' ready' (order @ [x])"
      using kahn_step [OF _ Suc.prems(2) rel] Suc.prems(1) Cons by simp
    from Suc.IH [OF this Suc.prems(2,3) _ Suc.prems(5)] Suc.prems(4) rel Cons
    show ?thesis by (simp add: Suc.prems(5))
  qed
qed

lemma kahn_inv_all:
  assumes "kahn_inv V E ind [] order" and "set E \<subseteq> V \<times> V" and "acyclic (set E)"
  shows "set order = V"
proof (rule ccontr)
  assume "set order \<noteq> V"
  then have "V - set order \<noteq> {}" using assms(1) by (auto simp: kahn_inv_def)
  then obtain x where x: "x \<in> V" "x \<notin> set order" "\<forall>y \<in> V - set order. (y, x) \<notin> set E"
    using acyclic_has_source [OF assms(3), of "V - set order"] by auto
  then have "pending_in E order x = 0" using assms(2) by (auto simp: pending_in_0)
  with assms(1) x show False by (auto simp: kahn_inv_def)
qed

section \<open>Counting the edges\<close>

definition edge_pairs :: "Dependency list \<Rightarrow> (NodeId \<times> NodeId) list" where
  "edge_pairs deps = map (\<lambda>e. (dep_from e, dep_to e)) deps"

definition endpoints_ok :: "NodeGraph \<Rightarrow> Dependency \<Rightarrow> bool" where
  "endpoints_ok g e \<longleftrightarrow> dep_from e \<in> node_ids g \<and> dep_to e \<in> node_ids g \<and> dep_from e \<noteq> dep_to e"

definition sortable :: "NodeGraph \<Rightarrow> bool" where
  "sortable g \<longleftrightarrow> graph_inv g \<and> (\<forall>e \<in> set (g_dependencies g). endpoints_ok g e)"

lemma require_endpoints_Inr:
  "require_endpoints g a b = Inr u \<longleftrightarrow> a \<in> node_ids g \<and> b \<in> node_ids g"
  by (auto simp: require_endpoints_def require_def graph_node_None split: if_splits sum.splits)

lemma count_edge_Inr:
  "count_edge g (ind, out) e = Inr s \<longleftrightarrow> endpoints_ok g e \<and>
     s = (ind(dep_to e \<mapsto> or_default (ind (dep_to e)) 0 + 1),
          out(dep_from e \<mapsto> or_default (out (dep_from e)) [] @ [dep_to e]))"
  by (auto simp: count_edge_def endpoints_ok_def and_then_Inr_iff require_endpoints_Inr
      require_Inr_iff)

lemma count_edges_spec:
  assumes "\<forall>e \<in> set deps. endpoints_ok g e" and "node_ids g \<subseteq> dom ind"
  shows "\<exists>ind' out'. try_fold (count_edge g) (ind, out) deps = Inr (ind', out')
    \<and> (\<forall>v \<in> node_ids g. ind' v = Some (the (ind v) + length (filter (\<lambda>e. snd e = v) (edge_pairs deps))))
    \<and> (\<forall>a. or_default (out' a) [] = or_default (out a) [] @ succs (edge_pairs deps) a)"
  using assms
proof (induction deps arbitrary: ind out)
  case Nil
  then show ?case by (auto simp: edge_pairs_def succs_def)
next
  case (Cons e deps)
  let ?ind = "ind(dep_to e \<mapsto> or_default (ind (dep_to e)) 0 + 1)"
  let ?out = "out(dep_from e \<mapsto> or_default (out (dep_from e)) [] @ [dep_to e])"
  have ok: "endpoints_ok g e" using Cons.prems by simp
  then have c: "count_edge g (ind, out) e = Inr (?ind, ?out)" by (simp add: count_edge_Inr)
  have dom: "node_ids g \<subseteq> dom ?ind" using Cons.prems(2) by auto
  obtain ind' out' where step:
    "try_fold (count_edge g) (?ind, ?out) deps = Inr (ind', out')"
    "\<forall>v \<in> node_ids g. ind' v = Some (the (?ind v) + length (filter (\<lambda>e. snd e = v) (edge_pairs deps)))"
    "\<forall>a. or_default (out' a) [] = or_default (?out a) [] @ succs (edge_pairs deps) a"
    using Cons.IH [of ?ind ?out] dom Cons.prems(1) by fastforce
  obtain d where "ind (dep_to e) = Some d"
    using ok Cons.prems(2) by (auto simp: endpoints_ok_def)
  then have "\<forall>v \<in> node_ids g. ind' v
      = Some (the (ind v) + length (filter (\<lambda>x. snd x = v) (edge_pairs (e # deps))))"
    using step(2) by (auto simp: edge_pairs_def or_default_def)
  moreover have "\<forall>a. or_default (out' a) [] = or_default (out a) [] @ succs (edge_pairs (e # deps)) a"
    using step(3) by (auto simp: edge_pairs_def succs_def or_default_def)
  ultimately show ?case using c step(1) by auto
qed

lemma set_edge_pairs: "set (edge_pairs (g_dependencies g)) = dep_rel g"
  by (simp add: edge_pairs_def dep_rel_def)

lemma sortable_edges: "sortable g \<Longrightarrow> dep_rel g \<subseteq> node_ids g \<times> node_ids g"
  by (auto simp: sortable_def endpoints_ok_def dep_rel_def)

lemma map_of_zeroes: "v \<in> fst ` set ns \<Longrightarrow> map_of (map (\<lambda>p. (fst p, 0 :: nat)) ns) v = Some 0"
  by (induction ns) auto

lemma topological_order_run:
  assumes "sortable g"
  shows "\<exists>order. kahn_inv (node_ids g) (edge_pairs (g_dependencies g))
      (\<lambda>v. if v \<in> node_ids g then Some (pending_in (edge_pairs (g_dependencies g)) order v) else None)
      [] order
    \<and> topological_order g = (if length order \<noteq> card (node_ids g)
        then Inl GraphError.DependencyCycle else Inr order)"
proof -
  let ?E = "edge_pairs (g_dependencies g)" and ?V = "node_ids g"
  let ?ind0 = "map_of (map (\<lambda>p. (fst p, 0 :: nat)) (g_nodes g))"
  have d: "distinct (map fst (g_nodes g))" using assms by (simp add: sortable_def graph_inv_def)
  have card: "card ?V = length (g_nodes g)"
    using distinct_card [OF d] by (simp add: node_ids_def)
  have ind0: "?ind0 v = Some 0" if "v \<in> ?V" for v
    using that unfolding node_ids_def by (rule map_of_zeroes)
  then have "?V \<subseteq> dom ?ind0" by blast
  then obtain ind out where run:
    "try_fold (count_edge g) (?ind0, Map.empty) (g_dependencies g) = Inr (ind, out)"
    "\<forall>v \<in> ?V. ind v = Some (the (?ind0 v) + length (filter (\<lambda>e. snd e = v) ?E))"
    "\<forall>a. or_default (out a) [] = or_default (Map.empty a) [] @ succs ?E a"
    using count_edges_spec [of "g_dependencies g" g ?ind0 Map.empty] assms
    by (auto simp: sortable_def)
  define ready where "ready = filter (\<lambda>i. ind i = Some 0) (map fst (g_nodes g))"
  have out: "or_default (out a) [] = succs ?E a" for a using run(3) by (simp add: or_default_def)
  have ind: "\<forall>v \<in> ?V. ind v = Some (pending_in ?E [] v)"
    using run(2) ind0 by (simp add: pending_in_def)
  have "kahn_inv ?V ?E ind ready []"
    using d ind by (auto simp: kahn_inv_def ready_def node_ids_def)
  from kahn_exhausts_queue [OF this _ _ _ out, of "length (g_nodes g)"]
  obtain order where order: "kahn (length (g_nodes g)) ind out ready [] = (order, [])"
    "kahn_inv ?V ?E (\<lambda>v. if v \<in> ?V then Some (pending_in ?E order v) else None) [] order"
    using sortable_edges [OF assms] card by (auto simp: set_edge_pairs node_ids_def)
  show ?thesis
    using order run(1) by (intro exI [of _ order])
      (simp add: topological_order_def Let_def ready_def [symmetric] card)
qed

lemma topological_order_sound_aux:
  assumes "sortable g" and "topological_order g = Inr xs"
  shows "distinct xs \<and> set xs = node_ids g \<and> keeps_order (dep_rel g) xs"
proof -
  from topological_order_run [OF assms(1)] obtain order ind where
    run: "kahn_inv (node_ids g) (edge_pairs (g_dependencies g)) ind [] order"
    "topological_order g = (if length order \<noteq> card (node_ids g)
        then Inl GraphError.DependencyCycle else Inr order)" by blast
  with assms(2) have "xs = order" "length order = card (node_ids g)" by (auto split: if_splits)
  moreover have "finite (node_ids g)" by (simp add: node_ids_def)
  ultimately show ?thesis
    using run(1) by (auto simp: kahn_inv_def set_edge_pairs distinct_card intro!: card_subset_eq
        dest: card_subset_eq [rotated])
qed

lemma topological_order_complete_aux:
  assumes "sortable g" and "acyclic (dep_rel g)"
  shows "\<exists>xs. topological_order g = Inr xs"
proof -
  from topological_order_run [OF assms(1)] obtain order ind where
    run: "kahn_inv (node_ids g) (edge_pairs (g_dependencies g)) ind [] order"
    "topological_order g = (if length order \<noteq> card (node_ids g)
        then Inl GraphError.DependencyCycle else Inr order)" by blast
  have "set order = node_ids g"
    using kahn_inv_all [OF run(1)] sortable_edges assms by (simp add: set_edge_pairs)
  then have "length order = card (node_ids g)"
    using run(1) by (metis append_Nil2 distinct_card kahn_inv_def)
  with run(2) show ?thesis by simp
qed

interpretation graph_sort: dag_sorter sortable node_ids dep_rel topological_order
  using sortable_edges topological_order_sound_aux topological_order_complete_aux
  by unfold_locales auto

lemma topological_order_error_kind:
  assumes "sortable g" and "topological_order g = Inl e"
  shows "e = GraphError.DependencyCycle \<and> \<not> acyclic (dep_rel g)"
proof -
  have "e = GraphError.DependencyCycle"
    using topological_order_run [OF assms(1)] assms(2) by (auto split: if_splits)
  moreover have "\<not> acyclic (dep_rel g)"
    using topological_order_complete_aux [OF assms(1)] assms(2) by auto
  ultimately show ?thesis by blast
qed

end
