(* ===== verification/Graph_Correct.thy ===== *)
theory Graph_Correct
  imports Graph_Order
begin

text \<open>
  The contract of the storage graph. Its node table is a keyed store (an interpretation of
  \<open>keyed_store\<close>), its mutations keep the container invariant \<open>graph_inv\<close>, the checks of
  \<open>validate_structure\<close> amount to the declarative \<open>valid_structure\<close>, and the checked
  import accepts exactly the documents that describe such a graph.
\<close>

section \<open>The node table as a keyed store\<close>

locale keyed_store =
  fixes inv :: "'s \<Rightarrow> bool"
    and lookup :: "'s \<Rightarrow> 'k \<Rightarrow> 'v option"
    and add :: "'s \<Rightarrow> 'k \<Rightarrow> 'v \<Rightarrow> ('e, 's) result"
    and replace :: "'s \<Rightarrow> 'k \<Rightarrow> 'v \<Rightarrow> ('e, 'v \<times> 's) result"
    and remove :: "'s \<Rightarrow> 'k \<Rightarrow> 'v option \<times> 's"
    and duplicate :: "'k \<Rightarrow> 'e" and missing :: "'k \<Rightarrow> 'e"
  assumes add_fresh: "inv s \<Longrightarrow> lookup s k = None \<Longrightarrow>
      \<exists>s'. add s k v = Inr s' \<and> inv s' \<and> lookup s' = (lookup s)(k \<mapsto> v)"
    and add_present: "lookup s k \<noteq> None \<Longrightarrow> add s k v = Inl (duplicate k)"
    and replace_present: "inv s \<Longrightarrow> lookup s k = Some old \<Longrightarrow>
      \<exists>s'. replace s k v = Inr (old, s') \<and> inv s' \<and> lookup s' = (lookup s)(k \<mapsto> v)"
    and replace_absent: "lookup s k = None \<Longrightarrow> replace s k v = Inl (missing k)"
    and remove_law: "inv s \<Longrightarrow> remove s k = (gone, s') \<Longrightarrow>
      gone = lookup s k \<and> inv s' \<and> lookup s' = (lookup s)(k := None)"
begin

lemma add_Inr:
  assumes "inv s" and "add s k v = Inr s'"
  shows "lookup s k = None" and "inv s'" and "lookup s' = (lookup s)(k \<mapsto> v)"
  using assms add_fresh [of s k v] add_present [of s k v]
  by (metis Inl_Inr_False, metis Inl_Inr_False Inr_inject, metis Inl_Inr_False Inr_inject)

lemma replace_Inr:
  assumes "inv s" and "replace s k v = Inr (old, s')"
  shows "lookup s k = Some old" and "inv s'" and "lookup s' = (lookup s)(k \<mapsto> v)"
proof -
  obtain x where x: "lookup s k = Some x" using assms replace_absent [of s k v] by fastforce
  from replace_present [OF assms(1) x, of v] assms(2)
  show "lookup s k = Some old" "inv s'" "lookup s' = (lookup s)(k \<mapsto> v)" using x by auto
qed

text \<open>A fresh key that is added and then removed leaves every lookup as it was.\<close>

lemma add_remove:
  assumes "inv s" and "add s k v = Inr s1" and "remove s1 k = (old, s2)"
  shows "old = Some v \<and> inv s2 \<and> lookup s2 = lookup s"
  using add_Inr [OF assms(1,2)] remove_law [OF _ assms(3)] by auto

lemma adds_lookup:
  assumes "inv s" and "try_fold (\<lambda>s (k, v). add s k v) s kvs = Inr s'"
  shows "inv s' \<and> lookup s' = lookup s ++ map_of (rev kvs) \<and> distinct (map fst kvs)
    \<and> (\<forall>k \<in> fst ` set kvs. lookup s k = None)"
  using assms
proof (induction kvs arbitrary: s)
  case Nil
  then show ?case by simp
next
  case (Cons kv kvs)
  obtain k v where kv: "kv = (k, v)" by (cases kv)
  with Cons.prems(2) obtain t where t: "add s k v = Inr t"
    "try_fold (\<lambda>s (k, v). add s k v) t kvs = Inr s'" by (auto split: sum.splits)
  note a = add_Inr [OF Cons.prems(1) t(1)]
  note ih = Cons.IH [OF a(2) t(2)]
  then have "k \<notin> fst ` set kvs" using a(3) by force
  moreover have "lookup s' = lookup s ++ map_of (rev (kv # kvs))" using ih a(3) kv
    by (auto simp: map_add_def fun_eq_iff split: option.splits)
  moreover have "\<forall>j \<in> fst ` set kvs. lookup s j = None" using ih a(3) by (auto split: if_splits)
  ultimately show ?case using ih a(1) kv by simp
qed

end

definition map_nodes_at :: "NodeId \<Rightarrow> Node \<Rightarrow> (NodeId \<times> Node) list \<Rightarrow> (NodeId \<times> Node) list" where
  "map_nodes_at nid n ns = map (\<lambda>(k, v). (k, if k = nid then n else v)) ns"

lemma map_nodes_at_keys [simp]: "map fst (map_nodes_at nid n ns) = map fst ns"
  by (induction ns) (auto simp: map_nodes_at_def)

lemma map_of_map_nodes_at:
  "map_of (map_nodes_at nid n ns) = (map_of ns)(nid := map_option (\<lambda>_. n) (map_of ns nid))"
  by (induction ns) (auto simp: map_nodes_at_def fun_eq_iff)

lemma map_nodes_at_lookup:
  "map_of ns nid \<noteq> None \<Longrightarrow> map_of (map_nodes_at nid n ns) = (map_of ns)(nid \<mapsto> n)"
  by (auto simp: map_of_map_nodes_at)

lemma filter_lookup:
  "map_of (filter (\<lambda>p. fst p \<noteq> nid) ns) = (map_of ns)(nid := None)"
  by (induction ns) (auto simp: fun_eq_iff)

interpretation node_table: keyed_store graph_inv graph_node insert_new replace_existing remove_node
  GraphError.DuplicateNode GraphError.MissingNode
proof
  fix g k v
  assume g: "graph_inv g" and k: "graph_node g k = None"
  let ?g = "g\<lparr>g_nodes := g_nodes g @ [(k, v)]\<rparr>"
  have "k \<notin> fst ` set (g_nodes g)" using k by (simp add: graph_node_def map_of_eq_None_iff)
  moreover from this have "map_of (g_nodes g @ [(k, v)]) = (map_of (g_nodes g))(k \<mapsto> v)"
    by (simp add: map_add_comm dom_map_of_conv_image_fst)
  ultimately have "insert_new g k v = Inr ?g \<and> graph_inv ?g \<and> graph_node ?g = (graph_node g)(k \<mapsto> v)"
    using g k by (auto simp: insert_new_def graph_inv_def graph_node_def [abs_def])
  then show "\<exists>s'. insert_new g k v = Inr s' \<and> graph_inv s' \<and> graph_node s' = (graph_node g)(k \<mapsto> v)"
    by blast
next
  fix g k v assume "graph_node g k \<noteq> None"
  then show "insert_new g k v = Inl (GraphError.DuplicateNode k)" by (auto simp: insert_new_def)
next
  fix g k old v
  assume g: "graph_inv g" and k: "graph_node g k = Some old"
  let ?g = "g\<lparr>g_nodes := map_nodes_at k v (g_nodes g)\<rparr>"
  have "replace_existing g k v = Inr (old, ?g) \<and> graph_inv ?g \<and> graph_node ?g = (graph_node g)(k \<mapsto> v)"
    using g k map_nodes_at_lookup [of "g_nodes g" k v]
    by (auto simp: replace_existing_def graph_inv_def graph_node_def [abs_def] map_nodes_at_def [symmetric])
  then show "\<exists>s'. replace_existing g k v = Inr (old, s') \<and> graph_inv s'
      \<and> graph_node s' = (graph_node g)(k \<mapsto> v)" by blast
next
  fix g k v assume "graph_node g k = None"
  then show "replace_existing g k v = Inl (GraphError.MissingNode k)"
    by (simp add: replace_existing_def)
next
  fix g k old g'
  assume "graph_inv g" and "remove_node g k = (old, g')"
  then show "old = graph_node g k \<and> graph_inv g' \<and> graph_node g' = (graph_node g)(k := None)"
    by (auto simp: remove_node_def graph_inv_def graph_node_def [abs_def] filter_lookup
        distinct_map_filter)
qed

lemma edge_mutations_inv:
  assumes "graph_inv g"
  shows "graph_inv (snd (insert_dependency g e))" and "graph_inv (snd (remove_dependency g e))"
    and "graph_inv (snd (insert_relation g r))" and "graph_inv (snd (remove_relation g r))"
  using assms by (auto simp: graph_inv_def insert_dependency_def remove_dependency_def
      insert_relation_def remove_relation_def)

section \<open>The structural checks, declaratively\<close>

text \<open>
  What an edge claims for itself: its endpoints with the class of the edge, the container of
  its target, a data slot of an MD array, a device number of a Btrfs filesystem, a role in a
  cache. Two edges of a valid graph claim nothing in common.
\<close>

datatype EdgeKey =
    LogicalKey "NodeId \<times> NodeId \<times> nat \<times> CacheRole option"
  | OwnerKey NodeId
  | MdSlotKey "NodeId \<times> u16"
  | BtrfsKey "NodeId \<times> u64"
  | CacheKey "NodeId \<times> CacheRole"

definition role_keys :: "Dependency \<Rightarrow> EdgeKey list" where
  "role_keys e = (case dep_kind e of
      DependencyKind.Contains _ \<Rightarrow> [OwnerKey (dep_to e)]
    | DependencyKind.MemberOf (MemberRole.Md m) \<Rightarrow>
        (case mdm_slot m of Some slot \<Rightarrow>
           if mdm_role m = MdMemberRole.Data then [MdSlotKey (dep_to e, slot)] else [] | None \<Rightarrow> [])
    | DependencyKind.MemberOf (MemberRole.Btrfs m) \<Rightarrow>
        (case btrfs_devid m of Some devid \<Rightarrow> [BtrfsKey (dep_to e, devid)] | None \<Rightarrow> [])
    | DependencyKind.Caches role \<Rightarrow> [CacheKey (dep_to e, role)]
    | _ \<Rightarrow> [])"

definition edge_keys :: "Dependency \<Rightarrow> EdgeKey set" where
  "edge_keys e = insert (LogicalKey (logical_key e)) (set (role_keys e))"

definition offset_ok :: "NodeGraph \<Rightarrow> Dependency \<Rightarrow> bool" where
  "offset_ok g e \<longleftrightarrow>
     (\<forall>b. dep_kind e = DependencyKind.Contains b \<longrightarrow> partition_offset g (dep_to e) \<in> {None, Some b})"

definition valid_structure :: "NodeGraph \<Rightarrow> bool" where
  "valid_structure g \<longleftrightarrow>
     (\<forall>r \<in> set (g_relations g). rel_from r \<in> node_ids g \<and> rel_to r \<in> node_ids g)
     \<and> (\<forall>e \<in> set (g_dependencies g). endpoints_ok g e \<and> offset_ok g e)
     \<and> pairwise (\<lambda>e e'. disjnt (edge_keys e) (edge_keys e')) (set (g_dependencies g))
     \<and> acyclic (dep_rel g)"

definition claimed_keys :: "EdgeChecks \<Rightarrow> EdgeKey set" where
  "claimed_keys s = LogicalKey ` chk_logical_edges s \<union> OwnerKey ` chk_owners s
     \<union> MdSlotKey ` chk_md_slots s \<union> BtrfsKey ` chk_btrfs_ids s \<union> CacheKey ` chk_cache_roles s"

lemma claimed_keys_no_checks [simp]: "claimed_keys no_checks = {}"
  by (simp add: claimed_keys_def no_checks_def)

lemma claimed_keys_members [simp]:
  "LogicalKey k \<in> claimed_keys s \<longleftrightarrow> k \<in> chk_logical_edges s"
  "OwnerKey n \<in> claimed_keys s \<longleftrightarrow> n \<in> chk_owners s"
  "MdSlotKey m \<in> claimed_keys s \<longleftrightarrow> m \<in> chk_md_slots s"
  "BtrfsKey b \<in> claimed_keys s \<longleftrightarrow> b \<in> chk_btrfs_ids s"
  "CacheKey c \<in> claimed_keys s \<longleftrightarrow> c \<in> chk_cache_roles s"
  by (auto simp: claimed_keys_def)

lemma claimed_keys_update [simp]:
  "claimed_keys (s\<lparr>chk_logical_edges := insert k (chk_logical_edges s)\<rparr>) = insert (LogicalKey k) (claimed_keys s)"
  "claimed_keys (s\<lparr>chk_owners := insert n (chk_owners s)\<rparr>) = insert (OwnerKey n) (claimed_keys s)"
  "claimed_keys (s\<lparr>chk_md_slots := insert m (chk_md_slots s)\<rparr>) = insert (MdSlotKey m) (claimed_keys s)"
  "claimed_keys (s\<lparr>chk_btrfs_ids := insert b (chk_btrfs_ids s)\<rparr>) = insert (BtrfsKey b) (claimed_keys s)"
  "claimed_keys (s\<lparr>chk_cache_roles := insert c (chk_cache_roles s)\<rparr>) = insert (CacheKey c) (claimed_keys s)"
  by (auto simp: claimed_keys_def)

lemma validate_kind_role_spec:
  "(\<exists>t. validate_kind_role g s e = Inr t) \<longleftrightarrow> set (role_keys e) \<inter> claimed_keys s = {} \<and> offset_ok g e"
  "validate_kind_role g s e = Inr t \<Longrightarrow> claimed_keys t = claimed_keys s \<union> set (role_keys e)"
  by (cases "dep_kind e"; simp add: validate_kind_role_def role_keys_def offset_ok_def
      split: MemberRole.splits option.splits; fail)
    (cases "dep_kind e"; auto simp: validate_kind_role_def role_keys_def
      split: MemberRole.splits option.splits if_splits)

lemma validate_edge_spec:
  "(\<exists>t. validate_edge g s e = Inr t)
     \<longleftrightarrow> endpoints_ok g e \<and> offset_ok g e \<and> edge_keys e \<inter> claimed_keys s = {}"
  "validate_edge g s e = Inr t \<Longrightarrow> claimed_keys t = claimed_keys s \<union> edge_keys e"
proof -
  let ?s = "s\<lparr>chk_logical_edges := insert (logical_key e) (chk_logical_edges s)\<rparr>"
  have eq: "validate_edge g s e = Inr t \<longleftrightarrow> endpoints_ok g e \<and> logical_key e \<notin> chk_logical_edges s
      \<and> validate_kind_role g ?s e = Inr t" for t
    by (auto simp: validate_edge_def endpoints_ok_def require_endpoints_Inr result_simps)
  have "LogicalKey k \<notin> set (role_keys e)" for k
    by (auto simp: role_keys_def split: DependencyKind.splits MemberRole.splits option.splits if_splits)
  then show "(\<exists>t. validate_edge g s e = Inr t)
      \<longleftrightarrow> endpoints_ok g e \<and> offset_ok g e \<and> edge_keys e \<inter> claimed_keys s = {}"
    unfolding eq using validate_kind_role_spec(1) [of g ?s e] by (auto simp: edge_keys_def)
  show "claimed_keys t = claimed_keys s \<union> edge_keys e" if "validate_edge g s e = Inr t"
    using that validate_kind_role_spec(2) [of g ?s e t] by (simp add: eq edge_keys_def)
qed

lemma validate_edges_ok:
  assumes "distinct es"
  shows "(\<exists>t. try_fold (validate_edge g) s es = Inr t)
    \<longleftrightarrow> (\<forall>e \<in> set es. endpoints_ok g e \<and> offset_ok g e \<and> edge_keys e \<inter> claimed_keys s = {})
      \<and> pairwise (\<lambda>e e'. disjnt (edge_keys e) (edge_keys e')) (set es)"
  using assms
proof (induction es arbitrary: s)
  case Nil
  then show ?case by simp
next
  case (Cons e es)
  have split: "(\<exists>t. try_fold (validate_edge g) s (e # es) = Inr t)
      \<longleftrightarrow> (\<exists>t. validate_edge g s e = Inr t \<and> (\<exists>u. try_fold (validate_edge g) t es = Inr u))"
    by (auto split: sum.splits)
  have "(\<exists>u. try_fold (validate_edge g) t es = Inr u)
    \<longleftrightarrow> (\<forall>e' \<in> set es. endpoints_ok g e' \<and> offset_ok g e'
          \<and> edge_keys e' \<inter> claimed_keys s = {} \<and> disjnt (edge_keys e) (edge_keys e'))
      \<and> pairwise (\<lambda>e e'. disjnt (edge_keys e) (edge_keys e')) (set es)"
    if "validate_edge g s e = Inr t" for t
    using Cons.IH [of t] Cons.prems validate_edge_spec(2) [OF that] by (auto simp: disjnt_def)
  then show ?case
    unfolding split using validate_edge_spec(1) [of g s e] Cons.prems
    by (auto simp: pairwise_insert disjnt_sym)
qed

lemma relations_ok:
  "(\<exists>u. try_fold (\<lambda>_ r. require_endpoints g (rel_from r) (rel_to r)) () rs = Inr u)
     \<longleftrightarrow> (\<forall>r \<in> set rs. rel_from r \<in> node_ids g \<and> rel_to r \<in> node_ids g)"
proof (induction rs)
  case Nil
  then show ?case by simp
next
  case (Cons r rs)
  then show ?case
    using require_endpoints_Inr [of g "rel_from r" "rel_to r" "()"]
    by (cases "require_endpoints g (rel_from r) (rel_to r)") auto
qed

lemma validate_structure_valid_aux:
  assumes "graph_inv g"
  shows "validate_structure g = Inr () \<longleftrightarrow> valid_structure g"
proof -
  have deps: "distinct (g_dependencies g)" using assms by (simp add: graph_inv_def)
  have sort: "is_ok (topological_order g) \<longleftrightarrow> acyclic (dep_rel g)"
    if "\<forall>e \<in> set (g_dependencies g). endpoints_ok g e"
    using that assms by (intro graph_sort.sort_ok_iff) (simp add: sortable_def)
  show ?thesis
    using relations_ok [of g "g_relations g"] validate_edges_ok [OF deps, of g no_checks] sort
    unfolding validate_structure_def valid_structure_def is_ok_iff
    by (auto simp: and_then_Inr_iff)
qed

section \<open>Import\<close>

lemma deserialize_nodes_acc:
  "try_fold (\<lambda>nodes (nid, n). if map_of nodes nid = None then Inr (nodes @ [(nid, n)])
       else Inl (GraphError.DuplicateNode nid)) acc entries = Inr ns
   \<longleftrightarrow> ns = acc @ entries \<and> distinct (map fst entries) \<and> fst ` set entries \<inter> fst ` set acc = {}"
proof (induction entries arbitrary: acc)
  case Nil
  then show ?case by auto
next
  case (Cons kv entries)
  obtain k v where kv: "kv = (k, v)" by (cases kv)
  show ?case
  proof (cases "k \<in> fst ` set acc")
    case True
    then have "map_of acc k \<noteq> None" by (simp add: map_of_eq_None_iff)
    with True kv show ?thesis by auto
  next
    case False
    then have "map_of acc k = None" by (simp add: map_of_eq_None_iff)
    with False kv Cons.IH [of "acc @ [(k, v)]"] show ?thesis by auto
  qed
qed

lemma add_dependencies_Inr:
  "add_edges insert_dependency g es = Inr h \<longleftrightarrow>
     h = g\<lparr>g_dependencies := g_dependencies g @ es\<rparr> \<and> distinct es
     \<and> set es \<inter> set (g_dependencies g) = {}"
proof (induction es arbitrary: g)
  case Nil
  then show ?case by (auto simp: add_edges_def)
next
  case (Cons e es)
  then show ?case
    by (auto simp: add_edges_def insert_dependency_def)
qed

lemma add_relations_Inr:
  "add_edges insert_relation g es = Inr h \<longleftrightarrow>
     h = g\<lparr>g_relations := g_relations g @ es\<rparr> \<and> distinct es \<and> set es \<inter> set (g_relations g) = {}"
proof (induction es arbitrary: g)
  case Nil
  then show ?case by (auto simp: add_edges_def)
next
  case (Cons e es)
  then show ?case
    by (auto simp: add_edges_def insert_relation_def)
qed

definition dto_graph :: "NodeGraphDto \<Rightarrow> NodeGraph" where
  "dto_graph dto = \<lparr>g_nodes = dto_nodes dto, g_dependencies = dto_dependencies dto,
     g_relations = dto_relations dto\<rparr>"

lemma try_from_Inr_aux:
  "try_from dto = Inr g \<longleftrightarrow> g = dto_graph dto \<and> graph_inv g \<and> valid_structure g"
proof -
  have "try_from dto = Inr g \<longleftrightarrow> g = dto_graph dto \<and> graph_inv g \<and> validate_structure g = Inr ()"
    by (auto simp: try_from_def deserialize_nodes_def deserialize_nodes_acc add_dependencies_Inr
        add_relations_Inr and_then_Inr_iff dto_graph_def graph_inv_def graph_new_def)
  then show ?thesis using validate_structure_valid_aux by blast
qed

section \<open>A sample graph\<close>

text \<open>A disk with a GPT whose only partition starts at 1 MiB.\<close>

definition sample_node :: "NodeKind \<Rightarrow> Node" where
  "sample_node k = \<lparr>node_kind = \<lparr>spec_kind = k, spec_size = None\<rparr>, node_size = default_facts\<rparr>"

definition sample_graph :: NodeGraph where
  "sample_graph = \<lparr>
     g_nodes = [(NodeId 1, sample_node NodeKind.Disk),
                (NodeId 2, sample_node (NodeKind.PartitionTable PartitionTable.Gpt)),
                (NodeId 3, sample_node (NodeKind.Partition 1 (Bytes 1048576) None
                   \<lparr>attr_gpt = None, attr_bootable = None\<rparr>))],
     g_dependencies = [
       \<lparr>dep_from = NodeId 2, dep_to = NodeId 3, dep_kind = DependencyKind.Contains (Bytes 1048576)\<rparr>,
       \<lparr>dep_from = NodeId 1, dep_to = NodeId 2, dep_kind = DependencyKind.Backs\<rparr>],
     g_relations = []\<rparr>"

lemma sample_graph_inv: "graph_inv sample_graph"
  by (simp add: graph_inv_def sample_graph_def)

lemma sample_graph_ok: "validate_structure sample_graph = Inr ()"
  by code_simp

lemma sample_graph_endpoints: "\<forall>e \<in> set (g_dependencies sample_graph). endpoints_ok sample_graph e"
  by (simp add: sample_graph_def endpoints_ok_def node_ids_def)

section \<open>Properties\<close>

text \<open>
  C38. The structural validation of a graph succeeds exactly on the graphs whose relations and
  dependencies join known nodes, whose dependencies are acyclic and never reflexive, where no
  two dependencies claim the same endpoints and class, container, MD data slot, Btrfs device
  number or cache role, and where the container edge of a partition has the partition's offset.
\<close>

theorem validate_structure_iff:
  assumes "graph_inv g"
  shows "validate_structure g = Inr () \<longleftrightarrow> valid_structure g"
  using assms by (rule validate_structure_valid_aux)

theorem validate_structure_iff_witness: "valid_structure sample_graph"
  using validate_structure_iff [OF sample_graph_inv] sample_graph_ok by simp


text \<open>
  The verdict of the structural validation does not depend on the order in which the hash
  containers of the graph are iterated.
\<close>

theorem validate_structure_order_independent:
  assumes "graph_inv g" and "graph_inv h" and "set (g_nodes g) = set (g_nodes h)"
    and "set (g_dependencies g) = set (g_dependencies h)"
    and "set (g_relations g) = set (g_relations h)"
  shows "is_ok (validate_structure g) \<longleftrightarrow> is_ok (validate_structure h)"
proof -
  have node: "graph_node g = graph_node h"
    unfolding graph_node_def [abs_def]
    by (metis assms(1,2,3) graph_inv_def map_of_inject_set)
  then have "partition_offset g = partition_offset h" by (simp add: partition_offset_def fun_eq_iff)
  then have "valid_structure g \<longleftrightarrow> valid_structure h"
    using assms by (simp add: valid_structure_def endpoints_ok_def offset_ok_def dep_rel_def node_ids_def)
  then show ?thesis
    using assms(1,2) validate_structure_valid_aux by (auto simp: is_ok_iff)
qed

theorem validate_structure_order_independent_witness:
  "is_ok (validate_structure (sample_graph\<lparr>g_dependencies := rev (g_dependencies sample_graph)\<rparr>))"
  using validate_structure_order_independent [of sample_graph
      "sample_graph\<lparr>g_dependencies := rev (g_dependencies sample_graph)\<rparr>"]
    sample_graph_inv sample_graph_ok by (simp add: graph_inv_def)


text \<open>
  C39. The import of a graph document succeeds exactly when the document repeats no node, no
  dependency and no relation and describes a valid structure, and then yields that graph.
\<close>

theorem import_accepts:
  "try_from dto = Inr g \<longleftrightarrow>
     g = dto_graph dto \<and> distinct (map fst (dto_nodes dto)) \<and> distinct (dto_dependencies dto)
     \<and> distinct (dto_relations dto) \<and> valid_structure g"
  by (auto simp: try_from_Inr_aux graph_inv_def dto_graph_def)




text \<open>
  \<open>ancestors\<close> returns each node from which the given node can be reached by a path of
  dependencies, the node itself excepted, and no other, also on cyclic graphs.
\<close>

theorem ancestors_correct: "set (ancestors g n) = {a. (a, n) \<in> (dep_rel g)\<^sup>+} - {n}"
  by (rule set_ancestors_aux)

text \<open>
  On a graph whose dependencies join distinct known nodes, \<open>topological_order\<close> succeeds
  exactly when the dependencies are acyclic; it then lists every node once, and a node comes
  after everything it transitively depends on. Otherwise the error is \<open>DependencyCycle\<close>.
\<close>

theorem topological_order_correct:
  assumes "graph_inv g" and "\<forall>e \<in> set (g_dependencies g). endpoints_ok g e"
  shows "case topological_order g of
      Inr xs \<Rightarrow> acyclic (dep_rel g) \<and> distinct xs \<and> set xs = node_ids g
        \<and> (\<forall>ys x zs y. xs = ys @ x # zs \<and> (y, x) \<in> (dep_rel g)\<^sup>+ \<longrightarrow> y \<in> set ys)
    | Inl e \<Rightarrow> e = GraphError.DependencyCycle \<and> \<not> acyclic (dep_rel g)"
proof -
  have s: "sortable g" using assms by (simp add: sortable_def)
  show ?thesis
    using graph_sort.sort_sound [OF s] graph_sort.sort_ok_iff [OF s]
      graph_sort.sort_path_predecessors [OF s] topological_order_error_kind [OF s]
    by (fastforce simp: is_ok_iff split: sum.splits)
qed

theorem topological_order_correct_witness:
  "topological_order sample_graph = Inr [NodeId 1, NodeId 2, NodeId 3] \<and> acyclic (dep_rel sample_graph)"
proof -
  have "topological_order sample_graph = Inr [NodeId 1, NodeId 2, NodeId 3]" by code_simp
  then show ?thesis
    using topological_order_correct [OF sample_graph_inv sample_graph_endpoints] by simp
qed

end
