(* ===== verification/Storage_State.thy ===== *)
theory Storage_State
  imports Graph_Correct
begin

text \<open>
  Current and desired storage state (\<^verbatim>\<open>storage-core/src/model/state.rs\<close>): mounts, environment,
  diagnostics, boot specification, operation intents, and the desired state that a draft
  starts from. The sets of tool, module and feature names are never iterated and are sets.
\<close>

datatype NetworkMountSource = Nfs string string | Cifs string string

datatype MountSource =
    Filesystem NodeId
  | BtrfsSubvolume NodeId
  | ZfsDataset NodeId
  | Bind PathBuf
  | Tmpfs
  | Network NetworkMountSource
  | Other string

datatype MountContext = Host | TargetRoot PathBuf | Namespace string

record ObservedMount =
  om_source :: MountSource
  om_target :: PathBuf
  om_options :: "string list"
  om_context :: MountContext

record MountState =
  ms_entries :: "ObservedMount list"

record MountEntry =
  me_source :: MountSource
  me_target :: PathBuf
  me_options :: "string list"
  me_context :: MountContext

record MountSpec =
  msp_runtime :: "MountEntry list"
  msp_persistent :: "MountEntry list"

record SystemEnvironment =
  sys_os_release :: "string option"
  sys_architecture :: "string option"
  sys_kernel_release :: "string option"
  sys_tools :: "string set"
  sys_kernel_modules :: "string set"

definition default_system :: SystemEnvironment where
  "default_system = \<lparr>sys_os_release = None, sys_architecture = None, sys_kernel_release = None,
     sys_tools = {}, sys_kernel_modules = {}\<rparr>"

record TargetEnvironment =
  tgt_root :: PathBuf
  tgt_system :: SystemEnvironment

record Environment =
  env_host :: SystemEnvironment
  env_target :: "TargetEnvironment option"

datatype DiagnosticSeverity = Error | Warning | RequiresConfirmation | MissingInformation

datatype DiagnosticSubject = Node NodeId | Mount PathBuf | Field string | Environment

record Diagnostic =
  diag_code :: string
  diag_severity :: DiagnosticSeverity
  diag_subjects :: "DiagnosticSubject list"
  diag_message :: string
  diag_evidence :: "string option"
  diag_suggested_remedy :: "string option"

datatype Bootloader = Grub | Other string

record InitramfsSpec =
  ini_target_kernel :: "string option"
  ini_features :: "string set"

record UefiBootSpec =
  uefi_root :: NodeId
  uefi_esp :: NodeId
  uefi_bootloader :: Bootloader
  uefi_initramfs :: InitramfsSpec
  uefi_update_nvram :: bool
  uefi_removable_path :: bool

record BiosBootSpec =
  bios_root :: NodeId
  bios_install_targets :: "NodeId list"
  bios_boot_partition :: "NodeId option"
  bios_bootloader :: Bootloader
  bios_initramfs :: InitramfsSpec

datatype BootSpec = Unmanaged | Uefi UefiBootSpec | Bios BiosBootSpec

datatype OperationIntent =
    Reformat NodeId FilesystemKind
  | ReplaceMember NodeId NodeId NodeId
  | ConvertBtrfsProfiles NodeId BtrfsAllocation
  | Check NodeId bool
  | Repair NodeId bool
  | SetActivation NodeId bool

record CurrentState =
  cur_graph :: NodeGraph
  cur_mounts :: MountState
  cur_environment :: Environment
  cur_diagnostics :: "Diagnostic list"

record DesiredState =
  des_graph :: NodeGraph
  des_mounts :: MountSpec
  des_boot :: BootSpec
  des_intents :: "OperationIntent list"

definition entry_of_observed :: "ObservedMount \<Rightarrow> MountEntry" where
  "entry_of_observed e = \<lparr>me_source = om_source e, me_target = om_target e,
     me_options = om_options e, me_context = om_context e\<rparr>"

definition from_current :: "CurrentState \<Rightarrow> DesiredState" where
  "from_current c = \<lparr>
     des_graph = cur_graph c,
     des_mounts = \<lparr>msp_runtime = map entry_of_observed (ms_entries (cur_mounts c)),
                   msp_persistent = []\<rparr>,
     des_boot = BootSpec.Unmanaged,
     des_intents = []\<rparr>"

end
