(* ===== verification/Provider_Action.thy ===== *)
theory Provider_Action
  imports Storage_State
begin

text \<open>
  The closed vocabulary of provider actions (\<^verbatim>\<open>storage-provider/src/action.rs\<close>, with the
  LUKS actions of \<^verbatim>\<open>luks.rs\<close>) and the plan fragments that providers propose
  (\<^verbatim>\<open>planning.rs\<close>). Variants with named fields list them in the source's order.
\<close>

datatype CredentialRef = CredentialRef (credential_uuid: uuid)

datatype LuksAction =
    Format NodeId NodeId LuksVersion CredentialRef
  | Open NodeId NodeId string CredentialRef bool
  | Close NodeId
  | Resize NodeId "Bytes option"

datatype PartitionAction =
    CreateTable NodeId NodeId PartitionTable
  | Create NodeId NodeId u32 Bytes Bytes "UsageRole option" PartitionAttributes
  | Resize NodeId Bytes
  | Delete NodeId
  | SetAttributes NodeId PartitionAttributes

datatype LvmAction =
    CreatePv NodeId NodeId
  | CreateVg NodeId string "NodeId list"
  | CreateLv NodeId NodeId string Bytes LvmLvKind
  | ResizeLv NodeId Bytes
  | RemoveLv NodeId
  | SetActivation NodeId bool

datatype FilesystemAction =
    Create NodeId NodeId FilesystemKind "string option"
  | Resize NodeId Bytes
  | Check NodeId bool
  | Repair NodeId bool
  | SetLabel NodeId "string option"

datatype BtrfsAction =
    Create "NodeId list" NodeId "string option" BtrfsAllocation
  | AddDevice NodeId NodeId
  | RemoveDevice NodeId NodeId
  | ConvertProfiles NodeId BtrfsAllocation
  | CreateSubvolume NodeId NodeId string bool

datatype MountAction =
    Mount MountSource PathBuf "string list" MountContext
  | Unmount PathBuf MountContext
  | Persist MountEntry
  | RemovePersistent PathBuf MountContext

datatype ProviderAction =
    Partition PartitionAction
  | Luks LuksAction
  | Lvm LvmAction
  | Filesystem FilesystemAction
  | Btrfs BtrfsAction
  | Mount MountAction

section \<open>Plan fragments\<close>

datatype LocalActionId = LocalActionId (local_id_get: u32)

record FragmentAction =
  fa_id :: LocalActionId
  fa_operation :: ProviderAction

datatype DependencyReason =
    InputCreation
  | InterfacePreparation
  | ResizeSafety
  | MountOrder
  | ResourceCoordination
  | RequestedOrder

record FragmentDependency =
  fd_before :: LocalActionId
  fd_after :: LocalActionId
  fd_reason :: DependencyReason

datatype FragmentOrigin =
    Change NodeId string
  | Mount PathBuf MountContext
  | Intent nat

end
