(* ===== verification/Provider_Contract.thy ===== *)
theory Provider_Contract
  imports Provider_Action "HOL-Library.Option_ord" "HOL-Library.List_Lexorder" "HOL-Library.Char_ord"
begin

text \<open>
  Trusted action contracts (\<^verbatim>\<open>storage-provider/src/contract.rs\<close>): for every typed action the
  prerequisites, outputs, resource locks, predicted effect, invalidated facts,
  postconditions and restart policy, derived from the action and the graph alone, and the
  comparison of an imported contract with the trusted recalculation. A \<^verbatim>\<open>&mut\<close> builder
  helper is a function on contracts and a sequence of such statements is \<open>build\<close>.
\<close>

section \<open>Contracts\<close>

datatype NodeKindClass =
    Block | PartitionTable | Partition | LuksContainer | DmCryptMapping | LvmPv | LvmVg | LvmLv
  | Filesystem | BtrfsFilesystem

datatype BlockInterfaceAccess = ReadOnly | ReadWrite

datatype AllocationDomain = LvmVolumeGroup NodeId

datatype AllocationQuantity = AllocationQuantity (quantity_get: u64)

datatype ActionPrerequisite =
    NodeExists NodeId
  | NodeKind NodeId NodeKindClass
  | NoUnexpectedConsumers NodeId
  | NoUnexpectedRelations NodeId
  | Writable NodeId
  | MountSourceAvailable MountSource
  | FilesystemUnmounted NodeId
  | FilesystemCheckPassed NodeId
  | FilesystemMinimumSize NodeId Bytes
  | DestructiveApproval NodeId
  | CredentialAvailable CredentialRef
  | ExtentAvailable NodeId Bytes Bytes
  | DistinctNodes "NodeId list"
  | DependentsFitWithin NodeId Bytes
  | BackingSizeAtLeast NodeId Bytes
  | CapacityAvailable AllocationDomain "AllocationQuantity option"
  | MountTargetAvailable PathBuf MountContext
  | MountDescendantsAbsent PathBuf MountContext

datatype ActionOutput =
    Node NodeId NodeSpec
  | BlockInterface NodeId BlockInterfaceAccess
  | Mount MountSource PathBuf MountContext
  | PersistentMount MountEntry
  | FilesystemCheckPassed NodeId

datatype ActionResource =
    RuntimeMountState
  | Node NodeId
  | PartitionTable NodeId
  | LvmMetadata NodeId
  | MountTarget PathBuf MountContext
  | PersistentMountConfig MountContext

datatype ResourceAccessMode = Read | Write

record ResourceAccess =
  ra_resource :: ActionResource
  ra_mode :: ResourceAccessMode

datatype AllocationEffect =
    Invalidate AllocationDomain
  | Reserve AllocationDomain AllocationQuantity
  | Release AllocationDomain AllocationQuantity

datatype GraphEffect =
    InvalidateNodeSize NodeId
  | InsertNode NodeId NodeSpec
  | RemoveNode NodeId
  | SetNodeSize NodeId Bytes
  | SetPartitionAttributes NodeId PartitionAttributes
  | SetFilesystemLabel NodeId "string option"
  | SetBtrfsAllocation NodeId BtrfsAllocation
  | InsertDependency Dependency
  | RemoveDependency Dependency
  | InsertRelation Relation
  | RemoveRelation Relation
  | SetActivation NodeId bool

datatype MountEffect =
    AddRuntime MountSource PathBuf "string list" MountContext
  | RemoveRuntime PathBuf MountContext
  | SetPersistent MountEntry
  | RemovePersistent PathBuf MountContext

record PredictedEffect =
  pe_graph :: "GraphEffect list"
  pe_mounts :: "MountEffect list"
  pe_allocations :: "AllocationEffect list"

datatype FactScope = Node NodeId | MountTarget PathBuf MountContext | PersistentMountConfig MountContext

datatype FactKind = Presence | Geometry | Identity | Topology | Content | Activation | Mount

record FactInvalidation =
  fi_scope :: FactScope
  fi_kind :: FactKind

datatype Postcondition =
    FilesystemCheckPassed NodeId
  | NodeMatches NodeId NodeSpec
  | NodeAbsent NodeId
  | NodeSize NodeId Bytes
  | PartitionAttributes NodeId PartitionAttributes
  | FilesystemLabel NodeId "string option"
  | BtrfsAllocation NodeId BtrfsAllocation
  | DependencyPresent Dependency
  | DependencyAbsent Dependency
  | Activation NodeId bool
  | RuntimeMountPresent MountSource PathBuf MountContext
  | RuntimeMountAbsent PathBuf MountContext
  | PersistentMountMatches MountEntry
  | PersistentMountAbsent PathBuf MountContext
  | NodeReprobed NodeId

datatype RestartPolicy = Idempotent | ReprobeThenRetry | VerifyThenRetry | ManualRecovery

record ActionContract =
  ac_prerequisites :: "ActionPrerequisite list"
  ac_provided_outputs :: "ActionOutput list"
  ac_affected_resources :: "ResourceAccess list"
  ac_predicted_effect :: PredictedEffect
  ac_invalidated_facts :: "FactInvalidation list"
  ac_postconditions :: "Postcondition list"
  ac_restart_policy :: RestartPolicy

record ExternalRequirement =
  er_action :: LocalActionId
  er_prerequisite :: ActionPrerequisite

record PlanFragment =
  pf_actions :: "FragmentAction list"
  pf_dependencies :: "FragmentDependency list"
  pf_external_requirements :: "ExternalRequirement list"
  pf_origin :: FragmentOrigin
  pf_diagnostics :: "Diagnostic list"

section \<open>Builder helpers\<close>

definition contract :: "RestartPolicy \<Rightarrow> ActionContract" where
  "contract policy = \<lparr>ac_prerequisites = [], ac_provided_outputs = [], ac_affected_resources = [],
     ac_predicted_effect = \<lparr>pe_graph = [], pe_mounts = [], pe_allocations = []\<rparr>,
     ac_invalidated_facts = [], ac_postconditions = [], ac_restart_policy = policy\<rparr>"

definition build :: "ActionContract \<Rightarrow> (ActionContract \<Rightarrow> ActionContract) list \<Rightarrow> ActionContract" where
  "build c steps = fold (\<lambda>step. step) steps c"

definition prerequire :: "ActionPrerequisite list \<Rightarrow> ActionContract \<Rightarrow> ActionContract" where
  "prerequire ps c = c\<lparr>ac_prerequisites := ac_prerequisites c @ ps\<rparr>"

definition provide :: "ActionOutput \<Rightarrow> ActionContract \<Rightarrow> ActionContract" where
  "provide out c = c\<lparr>ac_provided_outputs := ac_provided_outputs c @ [out]\<rparr>"

definition postcond :: "Postcondition list \<Rightarrow> ActionContract \<Rightarrow> ActionContract" where
  "postcond ps c = c\<lparr>ac_postconditions := ac_postconditions c @ ps\<rparr>"

definition graph_effects :: "GraphEffect list \<Rightarrow> ActionContract \<Rightarrow> ActionContract" where
  "graph_effects es c = c\<lparr>ac_predicted_effect := (ac_predicted_effect c)
     \<lparr>pe_graph := pe_graph (ac_predicted_effect c) @ es\<rparr>\<rparr>"

definition mount_effects :: "MountEffect list \<Rightarrow> ActionContract \<Rightarrow> ActionContract" where
  "mount_effects es c = c\<lparr>ac_predicted_effect := (ac_predicted_effect c)
     \<lparr>pe_mounts := pe_mounts (ac_predicted_effect c) @ es\<rparr>\<rparr>"

definition allocation_effects :: "AllocationEffect list \<Rightarrow> ActionContract \<Rightarrow> ActionContract" where
  "allocation_effects es c = c\<lparr>ac_predicted_effect := (ac_predicted_effect c)
     \<lparr>pe_allocations := pe_allocations (ac_predicted_effect c) @ es\<rparr>\<rparr>"

definition access :: "ActionResource \<Rightarrow> ResourceAccessMode \<Rightarrow> ActionContract \<Rightarrow> ActionContract" where
  "access r m c = c\<lparr>ac_affected_resources :=
     ac_affected_resources c @ [\<lparr>ra_resource = r, ra_mode = m\<rparr>]\<rparr>"

definition read_res :: "ActionResource \<Rightarrow> ActionContract \<Rightarrow> ActionContract" where
  "read_res r = access r ResourceAccessMode.Read"

definition write_res :: "ActionResource \<Rightarrow> ActionContract \<Rightarrow> ActionContract" where
  "write_res r = access r ResourceAccessMode.Write"

definition invalidate_scope :: "FactScope \<Rightarrow> FactKind \<Rightarrow> ActionContract \<Rightarrow> ActionContract" where
  "invalidate_scope s k c = c\<lparr>ac_invalidated_facts :=
     ac_invalidated_facts c @ [\<lparr>fi_scope = s, fi_kind = k\<rparr>]\<rparr>"

definition invalidate :: "NodeId \<Rightarrow> FactKind \<Rightarrow> ActionContract \<Rightarrow> ActionContract" where
  "invalidate n k = invalidate_scope (FactScope.Node n) k"

definition invalidate_mount :: "PathBuf \<Rightarrow> MountContext \<Rightarrow> ActionContract \<Rightarrow> ActionContract" where
  "invalidate_mount target ctx = invalidate_scope (FactScope.MountTarget target ctx) FactKind.Mount"

definition invalidate_persistent_mount :: "MountContext \<Rightarrow> ActionContract \<Rightarrow> ActionContract" where
  "invalidate_persistent_mount ctx = invalidate_scope (FactScope.PersistentMountConfig ctx) FactKind.Mount"

definition require_kind :: "NodeId \<Rightarrow> NodeKindClass \<Rightarrow> ActionContract \<Rightarrow> ActionContract" where
  "require_kind n k = prerequire [ActionPrerequisite.NodeExists n, ActionPrerequisite.NodeKind n k]"

definition insert_node :: "NodeId \<Rightarrow> NodeSpec \<Rightarrow> ActionContract \<Rightarrow> ActionContract" where
  "insert_node nid spec c =
     postcond [Postcondition.NodeMatches nid spec] (graph_effects [GraphEffect.InsertNode nid spec] c)"

definition add_dependency :: "Dependency \<Rightarrow> ActionContract \<Rightarrow> ActionContract" where
  "add_dependency d c =
     postcond [Postcondition.DependencyPresent d] (graph_effects [GraphEffect.InsertDependency d] c)"

definition insert_node_with_dependency ::
  "NodeId \<Rightarrow> NodeSpec \<Rightarrow> Dependency \<Rightarrow> ActionContract \<Rightarrow> ActionContract" where
  "insert_node_with_dependency nid spec d c = build c [
     graph_effects [GraphEffect.InsertNode nid spec, GraphEffect.InsertDependency d],
     postcond [Postcondition.NodeMatches nid spec, Postcondition.DependencyPresent d]]"

definition edge :: "NodeId \<Rightarrow> NodeId \<Rightarrow> DependencyKind \<Rightarrow> Dependency" where
  "edge a b k = \<lparr>dep_from = a, dep_to = b, dep_kind = k\<rparr>"

definition node_spec :: "NodeKind \<Rightarrow> Bytes option \<Rightarrow> NodeSpec" where
  "node_spec k s = \<lparr>spec_kind = k, spec_size = s\<rparr>"

definition for_each :: "'a list \<Rightarrow> ('a \<Rightarrow> ActionContract \<Rightarrow> ActionContract) \<Rightarrow> ActionContract \<Rightarrow> ActionContract" where
  "for_each xs step c = fold step xs c"

definition step_some :: "'a option \<Rightarrow> ('a \<Rightarrow> ActionContract \<Rightarrow> ActionContract) \<Rightarrow> ActionContract \<Rightarrow> ActionContract" where
  "step_some x step c = (case x of None \<Rightarrow> c | Some v \<Rightarrow> step v c)"

definition step_if :: "bool \<Rightarrow> (ActionContract \<Rightarrow> ActionContract) \<Rightarrow> ActionContract \<Rightarrow> ActionContract" where
  "step_if b step c = (if b then step c else c)"

section \<open>Graph queries\<close>

definition known_size :: "NodeGraph \<Rightarrow> NodeId \<Rightarrow> Bytes option" where
  "known_size g n = (case graph_node g n of None \<Rightarrow> None | Some x \<Rightarrow> spec_size (node_kind x))"

definition kind_at :: "NodeGraph \<Rightarrow> NodeId \<Rightarrow> NodeKind option" where
  "kind_at g n = map_option (\<lambda>x. spec_kind (node_kind x)) (graph_node g n)"

definition is_vg_kind :: "NodeKind \<Rightarrow> bool" where
  "is_vg_kind k = (case k of NodeKind.LvmVg _ _ \<Rightarrow> True | _ \<Rightarrow> False)"

definition is_lv_kind :: "NodeKind \<Rightarrow> bool" where
  "is_lv_kind k = (case k of NodeKind.LvmLv _ \<Rightarrow> True | _ \<Rightarrow> False)"

definition is_table_kind :: "NodeKind \<Rightarrow> bool" where
  "is_table_kind k = (case k of NodeKind.PartitionTable _ \<Rightarrow> True | _ \<Rightarrow> False)"

definition is_contains :: "DependencyKind \<Rightarrow> bool" where
  "is_contains k = (case k of DependencyKind.Contains _ \<Rightarrow> True | _ \<Rightarrow> False)"

definition is_btrfs_member :: "DependencyKind \<Rightarrow> bool" where
  "is_btrfs_member k = (case k of DependencyKind.MemberOf (MemberRole.Btrfs _) \<Rightarrow> True | _ \<Rightarrow> False)"

definition is_some_and :: "'a option \<Rightarrow> ('a \<Rightarrow> bool) \<Rightarrow> bool" where
  "is_some_and x P = (case x of None \<Rightarrow> False | Some v \<Rightarrow> P v)"

definition is_none_or :: "'a option \<Rightarrow> ('a \<Rightarrow> bool) \<Rightarrow> bool" where
  "is_none_or x P = (case x of None \<Rightarrow> True | Some v \<Rightarrow> P v)"

definition is_ext_filesystem :: "NodeGraph \<Rightarrow> NodeId \<Rightarrow> bool" where
  "is_ext_filesystem g n = is_some_and (kind_at g n) (\<lambda>k.
     case k of NodeKind.Filesystem fs _ \<Rightarrow>
       fs \<in> {FilesystemKind.Ext2, FilesystemKind.Ext3, FilesystemKind.Ext4} | _ \<Rightarrow> False)"

definition sole_owner :: "NodeGraph \<Rightarrow> (NodeKind \<Rightarrow> bool) \<Rightarrow> Dependency list \<Rightarrow> NodeId option" where
  "sole_owner g accepts owners =
     (case owners of
        [d] \<Rightarrow> if is_some_and (kind_at g (dep_from d)) accepts then Some (dep_from d) else None
      | _ \<Rightarrow> None)"

definition partition_table :: "NodeGraph \<Rightarrow> NodeId \<Rightarrow> NodeId option" where
  "partition_table g p = sole_owner g is_table_kind
     (filter (\<lambda>d. dep_to d = p \<and> is_contains (dep_kind d)) (g_dependencies g))"

definition lvm_volume_group :: "NodeGraph \<Rightarrow> NodeId \<Rightarrow> NodeId option" where
  "lvm_volume_group g lv = sole_owner g is_vg_kind
     (filter (\<lambda>d. dep_to d = lv \<and> dep_kind d = DependencyKind.Provides) (g_dependencies g))"

definition lvm_allocation ::
  "NodeGraph \<Rightarrow> NodeId \<Rightarrow> Bytes \<Rightarrow> LvmLvKind \<Rightarrow> AllocationQuantity option" where
  "lvm_allocation g vg sz layout =
     (if layout \<noteq> LvmLvKind.Linear then None
      else case kind_at g vg of
        Some (NodeKind.LvmVg _ (Some extent_size)) \<Rightarrow>
          if as_u64 extent_size > 0 then
            (if as_u64 sz = 0 \<or> \<not> is_multiple_of (as_u64 sz) (as_u64 extent_size) then None
             else Some (AllocationQuantity (as_u64 sz div as_u64 extent_size)))
          else None
      | _ \<Rightarrow> None)"

definition lvm_lv_allocation ::
  "NodeGraph \<Rightarrow> NodeId \<Rightarrow> NodeId \<Rightarrow> Bytes \<Rightarrow> AllocationQuantity option" where
  "lvm_lv_allocation g vg lv sz =
     (case kind_at g lv of
        Some (NodeKind.LvmLv v) \<Rightarrow> lvm_allocation g vg sz (lv_kind v)
      | _ \<Rightarrow> None)"

definition mount_source_node :: "MountSource \<Rightarrow> NodeId option" where
  "mount_source_node s =
     (case s of
        MountSource.Filesystem n \<Rightarrow> Some n
      | MountSource.BtrfsSubvolume n \<Rightarrow> Some n
      | MountSource.ZfsDataset n \<Rightarrow> Some n
      | _ \<Rightarrow> None)"

section \<open>Contract templates\<close>

definition destructive_contract :: "NodeId \<Rightarrow> RestartPolicy \<Rightarrow> ActionContract" where
  "destructive_contract n policy = build (contract policy) [
     prerequire [ActionPrerequisite.NodeExists n, ActionPrerequisite.NodeKind n NodeKindClass.Block,
       ActionPrerequisite.Writable n, ActionPrerequisite.NoUnexpectedConsumers n,
       ActionPrerequisite.DestructiveApproval n],
     write_res (ActionResource.Node n)]"

record ResizeSafety =
  rs_dependents :: bool
  rs_backing :: bool

definition resize_contract ::
  "NodeGraph \<Rightarrow> NodeId \<Rightarrow> Bytes \<Rightarrow> NodeKindClass \<Rightarrow> ResizeSafety \<Rightarrow> ActionContract" where
  "resize_contract g n sz expected safety = build (contract RestartPolicy.ReprobeThenRetry) [
     require_kind n expected,
     step_if (rs_dependents safety \<and> is_none_or (known_size g n) (\<lambda>current. current > sz))
       (prerequire [ActionPrerequisite.DependentsFitWithin n sz]),
     step_if (rs_backing safety \<and> is_none_or (known_size g n) (\<lambda>current. current < sz))
       (prerequire [ActionPrerequisite.BackingSizeAtLeast n sz]),
     write_res (ActionResource.Node n),
     graph_effects [GraphEffect.SetNodeSize n sz],
     invalidate n FactKind.Geometry,
     postcond [Postcondition.NodeSize n sz]]"

definition incident_dependencies :: "NodeGraph \<Rightarrow> NodeId \<Rightarrow> Dependency list" where
  "incident_dependencies g n = filter (\<lambda>d. dep_from d = n \<or> dep_to d = n) (g_dependencies g)"

definition remove_node_contract ::
  "NodeGraph \<Rightarrow> NodeId \<Rightarrow> NodeKindClass \<Rightarrow> bool \<Rightarrow> ActionContract" where
  "remove_node_contract g n expected require_no_consumers =
     build (contract RestartPolicy.ReprobeThenRetry) [
       require_kind n expected,
       step_if require_no_consumers (prerequire [ActionPrerequisite.NoUnexpectedConsumers n,
         ActionPrerequisite.NoUnexpectedRelations n]),
       write_res (ActionResource.Node n),
       graph_effects [GraphEffect.RemoveNode n],
       for_each (incident_dependencies g n) (\<lambda>d c. postcond [Postcondition.DependencyAbsent d]
         (graph_effects [GraphEffect.RemoveDependency d] c)),
       invalidate n FactKind.Presence,
       postcond [Postcondition.NodeAbsent n]]"

definition access_filesystem_backing ::
  "NodeGraph \<Rightarrow> NodeId \<Rightarrow> ResourceAccessMode \<Rightarrow> ActionContract \<Rightarrow> ActionContract" where
  "access_filesystem_backing g fs mode = for_each
     (filter (\<lambda>d. dep_to d = fs \<and> dep_kind d = DependencyKind.Backs) (g_dependencies g))
     (\<lambda>d c. build c [access (ActionResource.Node (dep_from d)) mode,
        step_if (mode = ResourceAccessMode.Write)
          (prerequire [ActionPrerequisite.Writable (dep_from d)])])"

definition inspection_contract :: "NodeGraph \<Rightarrow> NodeId \<Rightarrow> ActionContract" where
  "inspection_contract g n = build (contract RestartPolicy.Idempotent) [
     require_kind n NodeKindClass.Filesystem,
     prerequire [ActionPrerequisite.FilesystemUnmounted n],
     read_res ActionResource.RuntimeMountState,
     read_res (ActionResource.Node n),
     access_filesystem_backing g n ResourceAccessMode.Read,
     invalidate n FactKind.Content,
     postcond [Postcondition.NodeReprobed n]]"

definition btrfs_membership_contract :: "NodeId \<Rightarrow> NodeId \<Rightarrow> ActionContract" where
  "btrfs_membership_contract fs device = build (contract RestartPolicy.ReprobeThenRetry) [
     require_kind fs NodeKindClass.BtrfsFilesystem,
     require_kind device NodeKindClass.Block,
     write_res (ActionResource.Node fs),
     write_res (ActionResource.Node device),
     invalidate fs FactKind.Topology,
     invalidate device FactKind.Topology]"

end
