(* ===== verification/Contract_Describe.thy ===== *)
theory Contract_Describe
  imports Provider_Contract
begin

text \<open>
  The contract of every action: \<open>describe_action\<close> and its per-technology parts, and the
  comparison \<open>verify_imported_contract\<close> up to canonical order. The JSON text that
  \<^verbatim>\<open>serde_json::to_string\<close> gives a value is a parameter (\<open>ContractKeys\<close>), \<open>None\<close> where
  the value cannot be serialised (a path that is not UTF-8).
\<close>

section \<open>Partition actions\<close>

definition describe_partition_part :: "PartitionAction \<Rightarrow> NodeGraph \<Rightarrow> ActionContract" where
  "describe_partition_part action g = (case action of
      PartitionAction.CreateTable disk planned table \<Rightarrow>
        let spec = node_spec (NodeKind.PartitionTable table) (known_size g disk);
            dependency = edge disk planned DependencyKind.Backs in
        build (destructive_contract disk RestartPolicy.ManualRecovery) [
          write_res (ActionResource.PartitionTable planned),
          graph_effects [GraphEffect.InsertNode planned spec, GraphEffect.InsertDependency dependency],
          postcond [Postcondition.NodeMatches planned spec, Postcondition.DependencyPresent dependency],
          invalidate disk FactKind.Topology]
    | PartitionAction.Create table planned number offset sz role attributes \<Rightarrow>
        build (contract RestartPolicy.ReprobeThenRetry) [
          require_kind table NodeKindClass.PartitionTable,
          prerequire [ActionPrerequisite.Writable table],
          prerequire [ActionPrerequisite.ExtentAvailable table offset sz],
          write_res (ActionResource.PartitionTable table),
          insert_node_with_dependency planned
            (node_spec (NodeKind.Partition number offset role attributes) (Some sz))
            (edge table planned (DependencyKind.Contains offset)),
          invalidate table FactKind.Topology]
    | PartitionAction.Resize part new_size \<Rightarrow>
        resize_contract g part new_size NodeKindClass.Partition
          \<lparr>rs_dependents = True, rs_backing = False\<rparr>
    | PartitionAction.Delete part \<Rightarrow>
        build (remove_node_contract g part NodeKindClass.Partition True) [
          prerequire [ActionPrerequisite.DestructiveApproval part],
          step_some (partition_table g part) (\<lambda>table.
            prerequire [ActionPrerequisite.Writable table])]
    | PartitionAction.SetAttributes part attributes \<Rightarrow>
        build (contract RestartPolicy.ReprobeThenRetry) [
          require_kind part NodeKindClass.Partition,
          write_res (ActionResource.Node part),
          graph_effects [GraphEffect.SetPartitionAttributes part attributes],
          invalidate part FactKind.Identity,
          postcond [Postcondition.PartitionAttributes part attributes]])"

definition existing_partition :: "PartitionAction \<Rightarrow> NodeId option" where
  "existing_partition action = (case action of
      PartitionAction.Resize part _ \<Rightarrow> Some part
    | PartitionAction.Delete part \<Rightarrow> Some part
    | PartitionAction.SetAttributes part _ \<Rightarrow> Some part
    | _ \<Rightarrow> None)"

definition describe_partition :: "PartitionAction \<Rightarrow> NodeGraph \<Rightarrow> ActionContract" where
  "describe_partition action g =
     step_some (Option.bind (existing_partition action) (partition_table g)) (\<lambda>table c.
       build c [write_res (ActionResource.PartitionTable table), invalidate table FactKind.Topology])
     (describe_partition_part action g)"

section \<open>LUKS actions\<close>

definition describe_luks :: "LuksAction \<Rightarrow> NodeGraph \<Rightarrow> ActionContract" where
  "describe_luks action g = (case action of
      LuksAction.Format target planned version credential \<Rightarrow>
        build (destructive_contract target RestartPolicy.VerifyThenRetry) [
          prerequire [ActionPrerequisite.CredentialAvailable credential],
          insert_node_with_dependency planned (node_spec (NodeKind.LuksContainer version) None)
            (edge target planned DependencyKind.Backs),
          invalidate target FactKind.Content,
          invalidate target FactKind.Identity]
    | LuksAction.Open container planned mapping_name credential read_only \<Rightarrow>
        build (contract RestartPolicy.ReprobeThenRetry) [
          require_kind container NodeKindClass.LuksContainer,
          step_if (\<not> read_only) (prerequire [ActionPrerequisite.Writable container]),
          read_res (ActionResource.Node container),
          prerequire [ActionPrerequisite.CredentialAvailable credential],
          insert_node_with_dependency planned
            (node_spec (NodeKind.DmCryptMapping mapping_name) (known_size g container))
            (edge container planned DependencyKind.Backs),
          provide (ActionOutput.BlockInterface planned
            (if read_only then BlockInterfaceAccess.ReadOnly else BlockInterfaceAccess.ReadWrite)),
          invalidate container FactKind.Topology]
    | LuksAction.Close mapping \<Rightarrow> remove_node_contract g mapping NodeKindClass.DmCryptMapping True
    | LuksAction.Resize mapping new_size \<Rightarrow>
        (case new_size of
           Some sz \<Rightarrow> resize_contract g mapping sz NodeKindClass.DmCryptMapping
             \<lparr>rs_dependents = True, rs_backing = True\<rparr>
         | None \<Rightarrow> build (contract RestartPolicy.ReprobeThenRetry) [
             require_kind mapping NodeKindClass.DmCryptMapping,
             write_res (ActionResource.Node mapping),
             graph_effects [GraphEffect.InvalidateNodeSize mapping],
             invalidate mapping FactKind.Geometry,
             postcond [Postcondition.NodeReprobed mapping]]))"

section \<open>LVM actions\<close>

definition resize_lv_accounting ::
  "NodeGraph \<Rightarrow> NodeId \<Rightarrow> NodeId \<Rightarrow> Bytes \<Rightarrow> ActionContract \<Rightarrow> ActionContract" where
  "resize_lv_accounting g lv vg new_size c =
     (let domain = AllocationDomain.LvmVolumeGroup vg in
      case (Option.bind (known_size g lv) (lvm_lv_allocation g vg lv),
            lvm_lv_allocation g vg lv new_size) of
        (Some old, Some new) \<Rightarrow>
          if quantity_get new > quantity_get old then
            (let amount = AllocationQuantity (quantity_get new - quantity_get old) in
             build c [prerequire [ActionPrerequisite.CapacityAvailable domain (Some amount)],
               allocation_effects [AllocationEffect.Reserve domain amount]])
          else if quantity_get new < quantity_get old then
            allocation_effects [AllocationEffect.Release domain
              (AllocationQuantity (quantity_get old - quantity_get new))] c
          else c
      | _ \<Rightarrow> build c [prerequire [ActionPrerequisite.CapacityAvailable domain None],
               allocation_effects [AllocationEffect.Invalidate domain]])"

definition describe_lvm :: "LvmAction \<Rightarrow> NodeGraph \<Rightarrow> ActionContract" where
  "describe_lvm action g = (case action of
      LvmAction.CreatePv backing planned \<Rightarrow>
        build (destructive_contract backing RestartPolicy.VerifyThenRetry) [
          insert_node_with_dependency planned (node_spec NodeKind.LvmPv None)
            (edge backing planned DependencyKind.Backs),
          invalidate backing FactKind.Content]
    | LvmAction.CreateVg planned name pvs \<Rightarrow>
        build (contract RestartPolicy.ReprobeThenRetry) [
          prerequire [ActionPrerequisite.DistinctNodes pvs],
          for_each pvs (\<lambda>pv c. build c [require_kind pv NodeKindClass.LvmPv,
            write_res (ActionResource.Node pv)]),
          write_res (ActionResource.LvmMetadata planned),
          insert_node planned (node_spec (NodeKind.LvmVg name None) None),
          for_each pvs (\<lambda>pv c. build c [
            add_dependency (edge pv planned (DependencyKind.MemberOf MemberRole.LvmPv)),
            invalidate pv FactKind.Topology])]
    | LvmAction.CreateLv vg planned name sz layout \<Rightarrow>
        let domain = AllocationDomain.LvmVolumeGroup vg;
            allocation = lvm_allocation g vg sz layout in
        build (contract RestartPolicy.ReprobeThenRetry) [
          require_kind vg NodeKindClass.LvmVg,
          prerequire [ActionPrerequisite.CapacityAvailable domain allocation],
          write_res (ActionResource.LvmMetadata vg),
          insert_node_with_dependency planned
            (node_spec (NodeKind.LvmLv \<lparr>lv_name = name, lv_kind = layout\<rparr>) (Some sz))
            (edge vg planned DependencyKind.Provides),
          allocation_effects [case allocation of
              Some amount \<Rightarrow> AllocationEffect.Reserve domain amount
            | None \<Rightarrow> AllocationEffect.Invalidate domain],
          invalidate vg FactKind.Geometry,
          invalidate vg FactKind.Topology]
    | LvmAction.ResizeLv lv new_size \<Rightarrow>
        build (resize_contract g lv new_size NodeKindClass.LvmLv
            \<lparr>rs_dependents = True, rs_backing = False\<rparr>) [
          step_some (lvm_volume_group g lv) (\<lambda>vg c. build c [
            write_res (ActionResource.LvmMetadata vg),
            resize_lv_accounting g lv vg new_size,
            invalidate vg FactKind.Geometry])]
    | LvmAction.RemoveLv lv \<Rightarrow>
        build (remove_node_contract g lv NodeKindClass.LvmLv True) [
          prerequire [ActionPrerequisite.DestructiveApproval lv],
          step_some (lvm_volume_group g lv) (\<lambda>vg c. build c [
            write_res (ActionResource.LvmMetadata vg),
            allocation_effects [case Option.bind (known_size g lv) (lvm_lv_allocation g vg lv) of
                Some amount \<Rightarrow> AllocationEffect.Release (AllocationDomain.LvmVolumeGroup vg) amount
              | None \<Rightarrow> AllocationEffect.Invalidate (AllocationDomain.LvmVolumeGroup vg)],
            invalidate vg FactKind.Geometry,
            invalidate vg FactKind.Topology])]
    | LvmAction.SetActivation target active \<Rightarrow>
        build (contract RestartPolicy.Idempotent) [
          prerequire [ActionPrerequisite.NodeExists target],
          write_res (ActionResource.Node target),
          graph_effects [GraphEffect.SetActivation target active],
          invalidate target FactKind.Activation,
          postcond [Postcondition.Activation target active],
          step_if (active \<and> is_some_and (kind_at g target) is_lv_kind)
            (provide (ActionOutput.BlockInterface target BlockInterfaceAccess.ReadWrite))])"

section \<open>Filesystem actions\<close>

definition describe_filesystem :: "FilesystemAction \<Rightarrow> NodeGraph \<Rightarrow> ActionContract" where
  "describe_filesystem action g = (case action of
      FilesystemAction.Create backing planned fs label \<Rightarrow>
        build (destructive_contract backing RestartPolicy.VerifyThenRetry) [
          insert_node_with_dependency planned (node_spec (NodeKind.Filesystem fs label) None)
            (edge backing planned DependencyKind.Backs),
          invalidate backing FactKind.Content,
          invalidate backing FactKind.Identity]
    | FilesystemAction.Resize fs new_size \<Rightarrow>
        let may_shrink = is_none_or (known_size g fs) (\<lambda>current. current > new_size);
            is_ext2 = is_some_and (kind_at g fs) (\<lambda>k. case k of
              NodeKind.Filesystem FilesystemKind.Ext2 _ \<Rightarrow> True | _ \<Rightarrow> False) in
        build (resize_contract g fs new_size NodeKindClass.Filesystem
            \<lparr>rs_dependents = False, rs_backing = True\<rparr>) [
          step_if (may_shrink \<or> is_ext2) (\<lambda>c. build c [
            prerequire [ActionPrerequisite.FilesystemUnmounted fs],
            read_res ActionResource.RuntimeMountState]),
          step_if may_shrink (prerequire [ActionPrerequisite.FilesystemCheckPassed fs,
            ActionPrerequisite.FilesystemMinimumSize fs new_size]),
          access_filesystem_backing g fs ResourceAccessMode.Write]
    | FilesystemAction.Check fs force \<Rightarrow>
        build (inspection_contract g fs) [
          step_if (force \<and> is_ext_filesystem g fs) (\<lambda>c. build c [
            provide (ActionOutput.FilesystemCheckPassed fs),
            postcond [Postcondition.FilesystemCheckPassed fs]])]
    | FilesystemAction.Repair fs _ \<Rightarrow>
        build (contract RestartPolicy.ManualRecovery) [
          require_kind fs NodeKindClass.Filesystem,
          prerequire [ActionPrerequisite.FilesystemUnmounted fs],
          read_res ActionResource.RuntimeMountState,
          prerequire [ActionPrerequisite.NoUnexpectedConsumers fs],
          write_res (ActionResource.Node fs),
          access_filesystem_backing g fs ResourceAccessMode.Write,
          invalidate fs FactKind.Content,
          postcond [Postcondition.NodeReprobed fs]]
    | FilesystemAction.SetLabel fs label \<Rightarrow>
        build (contract RestartPolicy.ReprobeThenRetry) [
          require_kind fs NodeKindClass.Filesystem,
          write_res (ActionResource.Node fs),
          access_filesystem_backing g fs ResourceAccessMode.Write,
          graph_effects [GraphEffect.SetFilesystemLabel fs label],
          invalidate fs FactKind.Identity,
          postcond [Postcondition.FilesystemLabel fs label]])"

section \<open>Btrfs actions\<close>

definition new_btrfs_member :: DependencyKind where
  "new_btrfs_member = DependencyKind.MemberOf (MemberRole.Btrfs \<lparr>btrfs_devid = None\<rparr>)"

definition describe_btrfs :: "BtrfsAction \<Rightarrow> NodeGraph \<Rightarrow> ActionContract" where
  "describe_btrfs action g = (case action of
      BtrfsAction.Create members planned label allocation \<Rightarrow>
        build (contract RestartPolicy.VerifyThenRetry) [
          prerequire [ActionPrerequisite.DistinctNodes members],
          for_each members (\<lambda>m c. build c [
            prerequire [ActionPrerequisite.NodeExists m,
              ActionPrerequisite.NodeKind m NodeKindClass.Block, ActionPrerequisite.Writable m,
              ActionPrerequisite.NoUnexpectedConsumers m, ActionPrerequisite.DestructiveApproval m],
            write_res (ActionResource.Node m),
            invalidate m FactKind.Content]),
          insert_node planned
            (node_spec (NodeKind.Filesystem (FilesystemKind.Btrfs allocation) label) None),
          for_each members (\<lambda>m. add_dependency (edge m planned new_btrfs_member))]
    | BtrfsAction.AddDevice fs device \<Rightarrow>
        add_dependency (edge device fs new_btrfs_member) (btrfs_membership_contract fs device)
    | BtrfsAction.RemoveDevice fs device \<Rightarrow>
        let dependency = or_default
              (find (\<lambda>d. dep_from d = device \<and> dep_to d = fs \<and> is_btrfs_member (dep_kind d))
                (g_dependencies g))
              (edge device fs new_btrfs_member) in
        build (btrfs_membership_contract fs device) [
          graph_effects [GraphEffect.RemoveDependency dependency],
          postcond [Postcondition.DependencyAbsent dependency]]
    | BtrfsAction.ConvertProfiles fs target \<Rightarrow>
        build (contract RestartPolicy.ReprobeThenRetry) [
          require_kind fs NodeKindClass.BtrfsFilesystem,
          write_res (ActionResource.Node fs),
          graph_effects [GraphEffect.SetBtrfsAllocation fs target],
          invalidate fs FactKind.Geometry,
          postcond [Postcondition.BtrfsAllocation fs target]]
    | BtrfsAction.CreateSubvolume fs planned name read_only \<Rightarrow>
        build (contract RestartPolicy.ReprobeThenRetry) [
          require_kind fs NodeKindClass.BtrfsFilesystem,
          write_res (ActionResource.Node fs),
          insert_node_with_dependency planned
            (node_spec (NodeKind.BtrfsSubvolume name read_only False) None)
            (edge fs planned DependencyKind.Provides),
          invalidate fs FactKind.Topology])"

section \<open>Mount actions\<close>

definition resource_uuid :: "ResourceAccess \<Rightarrow> uuid option" where
  "resource_uuid a = (case ra_resource a of ActionResource.Node n \<Rightarrow> Some (as_uuid n) | _ \<Rightarrow> None)"

definition sort_resources :: "ActionContract \<Rightarrow> ActionContract" where
  "sort_resources c = c\<lparr>ac_affected_resources := sort_key resource_uuid (ac_affected_resources c)\<rparr>"

definition describe_mount :: "MountAction \<Rightarrow> NodeGraph \<Rightarrow> ActionContract" where
  "describe_mount action g = (case action of
      MountAction.Mount source target options ctx \<Rightarrow>
        build (contract RestartPolicy.Idempotent) [
          write_res ActionResource.RuntimeMountState,
          prerequire [ActionPrerequisite.MountDescendantsAbsent target ctx],
          step_some (mount_source_node source) (\<lambda>n c. build c [
            prerequire [ActionPrerequisite.NodeExists n],
            prerequire [ActionPrerequisite.MountSourceAvailable source],
            read_res (ActionResource.Node n),
            for_each (ancestors g n) (\<lambda>a. read_res (ActionResource.Node a)),
            sort_resources]),
          prerequire [ActionPrerequisite.MountTargetAvailable target ctx],
          write_res (ActionResource.MountTarget target ctx),
          mount_effects [MountEffect.AddRuntime source target options ctx],
          invalidate_mount target ctx,
          postcond [Postcondition.RuntimeMountPresent source target ctx]]
    | MountAction.Unmount target ctx \<Rightarrow>
        build (contract RestartPolicy.Idempotent) [
          write_res ActionResource.RuntimeMountState,
          prerequire [ActionPrerequisite.MountDescendantsAbsent target ctx],
          write_res (ActionResource.MountTarget target ctx),
          mount_effects [MountEffect.RemoveRuntime target ctx],
          invalidate_mount target ctx,
          postcond [Postcondition.RuntimeMountAbsent target ctx]]
    | MountAction.Persist entry \<Rightarrow>
        build (contract RestartPolicy.ReprobeThenRetry) [
          step_some (mount_source_node (me_source entry)) (\<lambda>n c. build c [
            prerequire [ActionPrerequisite.NodeExists n],
            read_res (ActionResource.Node n)]),
          write_res (ActionResource.PersistentMountConfig (me_context entry)),
          mount_effects [MountEffect.SetPersistent entry],
          invalidate_persistent_mount (me_context entry),
          postcond [Postcondition.PersistentMountMatches entry]]
    | MountAction.RemovePersistent target ctx \<Rightarrow>
        build (contract RestartPolicy.ReprobeThenRetry) [
          write_res (ActionResource.PersistentMountConfig ctx),
          mount_effects [MountEffect.RemovePersistent target ctx],
          invalidate_persistent_mount ctx,
          postcond [Postcondition.PersistentMountAbsent target ctx]])"

section \<open>The contract of an action\<close>

definition graph_output :: "GraphEffect \<Rightarrow> ActionOutput option" where
  "graph_output e = (case e of
      GraphEffect.InsertNode nid spec \<Rightarrow> Some (ActionOutput.Node nid spec) | _ \<Rightarrow> None)"

definition mount_output :: "MountEffect \<Rightarrow> ActionOutput option" where
  "mount_output e = (case e of
      MountEffect.AddRuntime source target _ ctx \<Rightarrow> Some (ActionOutput.Mount source target ctx)
    | MountEffect.SetPersistent entry \<Rightarrow> Some (ActionOutput.PersistentMount entry)
    | _ \<Rightarrow> None)"

definition outputs_from_effect :: "PredictedEffect \<Rightarrow> ActionOutput list" where
  "outputs_from_effect e =
     List.map_filter graph_output (pe_graph e) @ List.map_filter mount_output (pe_mounts e)"

definition output_node :: "ActionOutput \<Rightarrow> NodeId option" where
  "output_node out = (case out of
      ActionOutput.Node n _ \<Rightarrow> Some n | ActionOutput.BlockInterface n _ \<Rightarrow> Some n | _ \<Rightarrow> None)"

definition add_output_resources :: "ActionContract \<Rightarrow> ActionContract" where
  "add_output_resources c = for_each (List.map_filter output_node (ac_provided_outputs c)) (\<lambda>n c.
     if \<lparr>ra_resource = ActionResource.Node n, ra_mode = ResourceAccessMode.Write\<rparr>
          \<in> set (ac_affected_resources c)
     then c else write_res (ActionResource.Node n) c) c"

definition is_consumer_check :: "ActionPrerequisite \<Rightarrow> bool" where
  "is_consumer_check p = (case p of ActionPrerequisite.NoUnexpectedConsumers _ \<Rightarrow> True | _ \<Rightarrow> False)"

definition describe_technology :: "ProviderAction \<Rightarrow> NodeGraph \<Rightarrow> ActionContract" where
  "describe_technology action g = (case action of
      ProviderAction.Partition a \<Rightarrow> describe_partition a g
    | ProviderAction.Luks a \<Rightarrow> describe_luks a g
    | ProviderAction.Lvm a \<Rightarrow> describe_lvm a g
    | ProviderAction.Filesystem a \<Rightarrow> describe_filesystem a g
    | ProviderAction.Btrfs a \<Rightarrow> describe_btrfs a g
    | ProviderAction.Mount a \<Rightarrow> describe_mount a g)"

definition describe_action :: "ProviderAction \<Rightarrow> NodeGraph \<Rightarrow> ActionContract" where
  "describe_action action g = build (describe_technology action g) [
     \<lambda>c. step_if (list_ex is_consumer_check (ac_prerequisites c)
        \<and> \<not> list_ex (\<lambda>a. ra_resource a = ActionResource.RuntimeMountState) (ac_affected_resources c))
        (read_res ActionResource.RuntimeMountState) c,
     \<lambda>c. c\<lparr>ac_provided_outputs :=
        outputs_from_effect (ac_predicted_effect c) @ ac_provided_outputs c\<rparr>,
     add_output_resources]"

section \<open>Imported contracts\<close>

record ContractKeys =
  key_prerequisite :: "ActionPrerequisite \<Rightarrow> string option"
  key_output :: "ActionOutput \<Rightarrow> string option"
  key_resource :: "ResourceAccess \<Rightarrow> string option"
  key_fact :: "FactInvalidation \<Rightarrow> string option"
  key_postcondition :: "Postcondition \<Rightarrow> string option"
  key_effect :: "GraphEffect \<Rightarrow> string option"

fun dedup_by_key :: "('k \<times> 'v) list \<Rightarrow> ('k \<times> 'v) list" where
  "dedup_by_key (x # y # rest) =
     (if fst x = fst y then dedup_by_key (x # rest) else x # dedup_by_key (y # rest))"
| "dedup_by_key xs = xs"

definition sort_contract_values :: "('a \<Rightarrow> string option) \<Rightarrow> bool \<Rightarrow> 'a list \<Rightarrow> 'a list option" where
  "sort_contract_values key deduplicate xs =
     map_option (\<lambda>keyed. map snd
       ((if deduplicate then dedup_by_key else (\<lambda>ys. ys)) (sort_key fst keyed)))
     (those (map (\<lambda>v. map_option (\<lambda>k. (k, v)) (key v)) xs))"

definition is_edge_removal :: "GraphEffect \<Rightarrow> bool" where
  "is_edge_removal e = (case e of
      GraphEffect.RemoveDependency _ \<Rightarrow> True | GraphEffect.RemoveRelation _ \<Rightarrow> True | _ \<Rightarrow> False)"

function sort_removal_runs :: "(GraphEffect \<Rightarrow> string option) \<Rightarrow> GraphEffect list \<Rightarrow> GraphEffect list option" where
  "sort_removal_runs key es = (case es of
      [] \<Rightarrow> Some []
    | e # rest \<Rightarrow>
        if \<not> is_edge_removal e then map_option (Cons e) (sort_removal_runs key rest)
        else Option.bind (sort_contract_values key False (e # takeWhile is_edge_removal rest)) (\<lambda>run.
          map_option (\<lambda>tail. run @ tail) (sort_removal_runs key (dropWhile is_edge_removal rest))))"
  by pat_completeness auto

termination
  by (relation "measure (\<lambda>(key, es). length es)") (auto simp: le_imp_less_Suc length_dropWhile_le)

definition canonicalize_contract :: "ContractKeys \<Rightarrow> ActionContract \<Rightarrow> ActionContract option" where
  "canonicalize_contract keys c =
     Option.bind (sort_contract_values (key_prerequisite keys) True (ac_prerequisites c)) (\<lambda>pre.
     Option.bind (sort_contract_values (key_output keys) True (ac_provided_outputs c)) (\<lambda>outs.
     Option.bind (sort_contract_values (key_resource keys) True (ac_affected_resources c)) (\<lambda>res.
     Option.bind (sort_contract_values (key_fact keys) True (ac_invalidated_facts c)) (\<lambda>facts.
     Option.bind (sort_contract_values (key_postcondition keys) True (ac_postconditions c)) (\<lambda>post.
     Option.bind (sort_removal_runs (key_effect keys) (pe_graph (ac_predicted_effect c))) (\<lambda>graph.
       Some (c\<lparr>ac_prerequisites := pre, ac_provided_outputs := outs, ac_affected_resources := res,
         ac_invalidated_facts := facts, ac_postconditions := post,
         ac_predicted_effect := (ac_predicted_effect c)\<lparr>pe_graph := graph\<rparr>\<rparr>)))))))"

record ActionContractMismatch =
  mismatch_trusted :: ActionContract
  mismatch_imported :: ActionContract

definition verify_imported_contract ::
  "ContractKeys \<Rightarrow> ProviderAction \<Rightarrow> ActionContract \<Rightarrow> NodeGraph \<Rightarrow>
   (ActionContractMismatch, ActionContract) result" where
  "verify_imported_contract keys action imported g =
     (let trusted = describe_action action g in
      if trusted = imported
        \<or> (case (canonicalize_contract keys trusted, canonicalize_contract keys imported) of
              (Some t, Some i) \<Rightarrow> t = i | _ \<Rightarrow> False)
      then Inr trusted
      else Inl \<lparr>mismatch_trusted = trusted, mismatch_imported = imported\<rparr>)"

end
