(* ===== verification/Provider_Validate.thy ===== *)
theory Provider_Validate
  imports Contract_Describe
begin

text \<open>
  Backend-independent technology checks (\<^verbatim>\<open>storage-provider/src/logical.rs\<close> and
  \<^verbatim>\<open>validate_action\<close> of \<^verbatim>\<open>luks.rs\<close>): the diagnostics that reject an action before its
  contract is evaluated. A \<open>string\<close> holds the UTF-8 bytes of the source's \<^verbatim>\<open>String\<close>.
\<close>

definition error_diagnostic :: "string \<Rightarrow> DiagnosticSubject list \<Rightarrow> string \<Rightarrow> Diagnostic" where
  "error_diagnostic code subjects message = \<lparr>diag_code = code,
     diag_severity = DiagnosticSeverity.Error, diag_subjects = subjects, diag_message = message,
     diag_evidence = None, diag_suggested_remedy = None\<rparr>"

section \<open>LUKS\<close>

definition action_diagnostic :: "string \<Rightarrow> NodeId \<Rightarrow> string \<Rightarrow> Diagnostic" where
  "action_diagnostic code n message = error_diagnostic code [DiagnosticSubject.Node n] message"

definition is_format_target :: "NodeKind \<Rightarrow> bool" where
  "is_format_target k = (case k of
      NodeKind.Disk \<Rightarrow> True | NodeKind.NvmeNamespace _ \<Rightarrow> True | NodeKind.Loop _ \<Rightarrow> True
    | NodeKind.DmMultipath \<Rightarrow> True | NodeKind.Partition _ _ _ _ \<Rightarrow> True
    | NodeKind.MdArray _ \<Rightarrow> True | NodeKind.LvmLv _ \<Rightarrow> True | NodeKind.ZfsVolume _ \<Rightarrow> True
    | _ \<Rightarrow> False)"

definition validate_kind ::
  "NodeGraph \<Rightarrow> NodeId \<Rightarrow> string \<Rightarrow> string \<Rightarrow> (NodeKind \<Rightarrow> bool) \<Rightarrow> Diagnostic list" where
  "validate_kind g n code message accepted = (case kind_at g n of
      None \<Rightarrow> [action_diagnostic ''luks.action.missing_target'' n
                ''LUKS action target is absent from the graph'']
    | Some k \<Rightarrow> if accepted k then [] else [action_diagnostic code n message])"

definition is_mapping_kind :: "NodeKind \<Rightarrow> bool" where
  "is_mapping_kind k = (case k of NodeKind.DmCryptMapping _ \<Rightarrow> True | _ \<Rightarrow> False)"

definition is_container_kind :: "NodeKind \<Rightarrow> bool" where
  "is_container_kind k = (case k of NodeKind.LuksContainer _ \<Rightarrow> True | _ \<Rightarrow> False)"

definition validate_mapping :: "NodeGraph \<Rightarrow> NodeId \<Rightarrow> string \<Rightarrow> Diagnostic list" where
  "validate_mapping g mapping code = validate_kind g mapping code
     ''LUKS operation requires an open dm-crypt mapping'' is_mapping_kind"

text \<open>
  \<open>blank s\<close> is \<^verbatim>\<open>s.trim().is_empty()\<close>: every character has the Unicode property
  \<^verbatim>\<open>White_Space\<close>. The two- and three-byte cases are the UTF-8 encodings of U+0085, U+00A0,
  U+1680, U+2000--U+200A, U+2028, U+2029, U+202F, U+205F and U+3000.
\<close>

definition ws1 :: "char \<Rightarrow> bool" where
  "ws1 a = (let n = of_char a :: nat in n \<in> {9, 10, 11, 12, 13, 32})"

definition ws2 :: "char \<Rightarrow> char \<Rightarrow> bool" where
  "ws2 a b = ((of_char a :: nat) = 0xC2 \<and> (of_char b :: nat) \<in> {0x85, 0xA0})"

definition ws3 :: "char \<Rightarrow> char \<Rightarrow> char \<Rightarrow> bool" where
  "ws3 a b c = (let x = of_char a :: nat; y = of_char b :: nat; z = of_char c :: nat in
     (x = 0xE1 \<and> y = 0x9A \<and> z = 0x80)
   \<or> (x = 0xE2 \<and> y = 0x80 \<and> (0x80 \<le> z \<and> z \<le> 0x8A \<or> z \<in> {0xA8, 0xA9, 0xAF}))
   \<or> (x = 0xE2 \<and> y = 0x81 \<and> z = 0x9F)
   \<or> (x = 0xE3 \<and> y = 0x80 \<and> z = 0x80))"

fun blank :: "string \<Rightarrow> bool" where
  "blank [] = True"
| "blank [a] = ws1 a"
| "blank [a, b] = (if ws1 a then blank [b] else ws2 a b)"
| "blank (a # b # c # s) =
     (if ws1 a then blank (b # c # s) else if ws2 a b then blank (c # s) else ws3 a b c \<and> blank s)"

definition invalid_mapping_name :: "string \<Rightarrow> bool" where
  "invalid_mapping_name s =
     (blank s \<or> s \<in> {''.'', ''..''} \<or> CHR ''/'' \<in> set s \<or> CHR 0x00 \<in> set s)"

definition luks_credential :: "LuksAction \<Rightarrow> (NodeId \<times> CredentialRef) option" where
  "luks_credential action = (case action of
      LuksAction.Format target _ _ credential \<Rightarrow> Some (target, credential)
    | LuksAction.Open container _ _ credential _ \<Rightarrow> Some (container, credential)
    | _ \<Rightarrow> None)"

definition validate_luks_target :: "LuksAction \<Rightarrow> NodeGraph \<Rightarrow> Diagnostic list" where
  "validate_luks_target action g = (case action of
      LuksAction.Format target _ _ _ \<Rightarrow>
        validate_kind g target ''luks.format.unsupported_target''
          ''LUKS format requires a block-providing target'' is_format_target
    | LuksAction.Open container _ mapping_name _ _ \<Rightarrow>
        validate_kind g container ''luks.open.not_container''
          ''LUKS open requires a LUKS container'' is_container_kind
        @ (if invalid_mapping_name mapping_name then
            [action_diagnostic ''luks.open.invalid_mapping_name'' container
              ''device-mapper name must not be blank, dot, dot-dot, or contain slash or NUL''] else [])
        @ (if list_ex (\<lambda>p. spec_kind (node_kind (snd p)) = NodeKind.DmCryptMapping mapping_name) (g_nodes g) then
            [action_diagnostic ''luks.open.mapping_name_in_use'' container
              ''device-mapper name is already used by a known dm-crypt mapping''] else [])
    | LuksAction.Close mapping \<Rightarrow> validate_mapping g mapping ''luks.close.not_mapping''
    | LuksAction.Resize mapping new_size \<Rightarrow>
        validate_mapping g mapping ''luks.resize.not_mapping''
        @ (if is_some_and new_size (\<lambda>s. as_u64 s = 0) then
            [action_diagnostic ''luks.resize.zero_size'' mapping
              ''LUKS mapping size must be greater than zero''] else []))"

definition validate_action :: "LuksAction \<Rightarrow> NodeGraph \<Rightarrow> Diagnostic list" where
  "validate_action action g = validate_luks_target action g
     @ (case luks_credential action of
          Some (n, credential) \<Rightarrow>
            if uuid_is_nil (credential_uuid credential) then
              [action_diagnostic ''luks.action.invalid_credential'' n
                ''credential reference must identify an external credential store entry'']
            else []
        | None \<Rightarrow> [])"

section \<open>Partitions\<close>

definition occupied_extent :: "NodeGraph \<Rightarrow> Dependency \<Rightarrow> (u32 \<times> Bytes \<times> Bytes option) option" where
  "occupied_extent g d = (case graph_node g (dep_to d) of
      None \<Rightarrow> None
    | Some n \<Rightarrow> (case spec_kind (node_kind n) of
        NodeKind.Partition number offset _ _ \<Rightarrow> Some (number, offset, spec_size (node_kind n))
      | _ \<Rightarrow> None))"

definition extents_overlap :: "u64 \<Rightarrow> u64 \<Rightarrow> Bytes \<Rightarrow> Bytes \<Rightarrow> bool" where
  "extents_overlap offset end occupied_offset occupied_size =
     is_none_or (checked_add (as_u64 occupied_offset) (as_u64 occupied_size)) (\<lambda>occupied_end.
       offset < occupied_end \<and> as_u64 occupied_offset < end)"

definition scan_extent ::
  "NodeGraph \<Rightarrow> u32 \<Rightarrow> u64 \<Rightarrow> u64 \<Rightarrow> bool \<Rightarrow> Dependency \<Rightarrow> (string \<times> string, bool) result" where
  "scan_extent g number offset end overlaps d = (case occupied_extent g d of
      None \<Rightarrow> Inr overlaps
    | Some (occupied_number, occupied_offset, occupied_size) \<Rightarrow>
        if number = occupied_number then
          Inl (''partition.create.duplicate_number'', ''partition number is already used in this table'')
        else Inr (case occupied_size of
            None \<Rightarrow> overlaps
          | Some s \<Rightarrow> overlaps \<or> extents_overlap offset end occupied_offset s))"

definition validate_extent ::
  "NodeGraph \<Rightarrow> NodeId \<Rightarrow> u32 \<Rightarrow> Bytes \<Rightarrow> Bytes \<Rightarrow> (string \<times> string, unit) result" where
  "validate_extent g table number offset sz =
     and_then (ok_or (checked_add (as_u64 offset) (as_u64 sz))
       (''partition.create.invalid_extent'', ''partition byte range overflows'')) (\<lambda>end.
     and_then (require (\<not> (as_u64 sz = 0
           \<or> is_some_and (known_size g table) (\<lambda>capacity. end > as_u64 capacity)))
       (''partition.create.invalid_extent'',
        ''partition must have nonzero size and fit within known table capacity'')) (\<lambda>_.
     and_then (try_fold (scan_extent g number (as_u64 offset) end) False
       (filter (\<lambda>d. dep_from d = table \<and> is_contains (dep_kind d)) (g_dependencies g))) (\<lambda>overlaps.
       require (\<not> overlaps) (''partition.create.overlap'',
         ''partition overlaps a known occupied or overflowing byte range''))))"

definition validate_partition_create :: "PartitionAction \<Rightarrow> NodeGraph \<Rightarrow> Diagnostic list" where
  "validate_partition_create action g = (case action of
      PartitionAction.Create table _ number offset sz _ _ \<Rightarrow>
        (case validate_extent g table number offset sz of
           Inl (code, message) \<Rightarrow> [error_diagnostic code [DiagnosticSubject.Node table] message]
         | Inr _ \<Rightarrow> [])
    | _ \<Rightarrow> [])"

section \<open>Mounts\<close>

definition valid_mount_path :: "PathBuf \<Rightarrow> bool" where
  "valid_mount_path p = (is_absolute p \<and> \<not> list_ex (\<lambda>c. c = ParentDir) p \<and> \<not> path_has_nul p)"

definition mount_action_parts :: "MountAction \<Rightarrow> PathBuf \<times> MountContext \<times> MountSource option" where
  "mount_action_parts action = (case action of
      MountAction.Mount source target _ ctx \<Rightarrow> (target, ctx, Some source)
    | MountAction.Persist entry \<Rightarrow> (me_target entry, me_context entry, Some (me_source entry))
    | MountAction.Unmount target ctx \<Rightarrow> (target, ctx, None)
    | MountAction.RemovePersistent target ctx \<Rightarrow> (target, ctx, None))"

definition mount_paths :: "MountAction \<Rightarrow> (PathBuf \<times> string) list" where
  "mount_paths action = (case mount_action_parts action of (target, ctx, source) \<Rightarrow>
     [(target, ''mount.target'')]
     @ (case ctx of MountContext.TargetRoot root \<Rightarrow> [(root, ''mount.context.target_root'')] | _ \<Rightarrow> [])
     @ (case source of Some (MountSource.Bind p) \<Rightarrow> [(p, ''mount.source.bind'')] | _ \<Rightarrow> []))"

definition compatible_source :: "MountSource \<Rightarrow> NodeKind \<Rightarrow> bool" where
  "compatible_source s k = (case (s, k) of
      (MountSource.Filesystem _, NodeKind.Filesystem _ _) \<Rightarrow> True
    | (MountSource.BtrfsSubvolume _, NodeKind.BtrfsSubvolume _ _ _) \<Rightarrow> True
    | (MountSource.ZfsDataset _, NodeKind.ZfsDataset _) \<Rightarrow> True
    | _ \<Rightarrow> False)"

definition incompatible_persist :: "MountAction \<Rightarrow> NodeGraph \<Rightarrow> NodeId option" where
  "incompatible_persist action g = (case action of
      MountAction.Persist entry \<Rightarrow>
        Option.bind (mount_source_node (me_source entry)) (\<lambda>n.
        Option.bind (kind_at g n) (\<lambda>k. if compatible_source (me_source entry) k then None else Some n))
    | _ \<Rightarrow> None)"

definition validate_mount_action :: "MountAction \<Rightarrow> NodeGraph \<Rightarrow> Diagnostic list" where
  "validate_mount_action action g =
     map (\<lambda>(p, field). error_diagnostic ''mount.action.invalid_path''
         [DiagnosticSubject.Mount p, DiagnosticSubject.Field field]
         ''mount paths must be absolute and contain neither '..' components nor NUL'')
       (filter (\<lambda>(p, _). \<not> valid_mount_path p) (mount_paths action))
     @ (case incompatible_persist action g of
          Some n \<Rightarrow> [error_diagnostic ''mount.action.incompatible_source'' [DiagnosticSubject.Node n]
            ''persistent mount source has an incompatible node kind'']
        | None \<Rightarrow> [])"

section \<open>LVM\<close>

definition lvm_action_diagnostic :: "NodeId \<Rightarrow> string \<Rightarrow> string \<Rightarrow> Diagnostic" where
  "lvm_action_diagnostic n code message = error_diagnostic code [DiagnosticSubject.Node n] message"

definition no_vg_diagnostic :: "NodeId \<Rightarrow> Diagnostic" where
  "no_vg_diagnostic lv = lvm_action_diagnostic lv ''lvm.action.invalid_vg_ownership''
     ''LV mutation requires exactly one owning volume group''"

definition is_linear_lv :: "NodeKind \<Rightarrow> bool" where
  "is_linear_lv k = (case k of NodeKind.LvmLv v \<Rightarrow> lv_kind v = LvmLvKind.Linear | _ \<Rightarrow> False)"

definition lvm_size_request ::
  "LvmAction \<Rightarrow> NodeGraph \<Rightarrow> (Diagnostic list, NodeId \<times> NodeId \<times> Bytes \<times> bool) result" where
  "lvm_size_request action g = (case action of
      LvmAction.CreateLv vg _ _ sz layout \<Rightarrow> Inr (vg, vg, sz, layout = LvmLvKind.Linear)
    | LvmAction.ResizeLv lv new_size \<Rightarrow>
        (case lvm_volume_group g lv of
           None \<Rightarrow> Inl [no_vg_diagnostic lv]
         | Some vg \<Rightarrow> Inr (lv, vg, new_size, is_some_and (kind_at g lv) is_linear_lv))
    | LvmAction.RemoveLv lv \<Rightarrow>
        Inl (if lvm_volume_group g lv \<noteq> None then [] else [no_vg_diagnostic lv])
    | _ \<Rightarrow> Inl [])"

definition validate_lvm_size :: "NodeGraph \<Rightarrow> NodeId \<Rightarrow> NodeId \<Rightarrow> Bytes \<Rightarrow> bool \<Rightarrow> Diagnostic list" where
  "validate_lvm_size g subject vg sz linear =
     (if as_u64 sz = 0 then
        [lvm_action_diagnostic subject ''lvm.action.zero_size'' ''LV capacity must be greater than zero'']
      else case kind_at g vg of
        Some (NodeKind.LvmVg _ (Some extent)) \<Rightarrow>
          if as_u64 extent = 0 then
            [lvm_action_diagnostic subject ''lvm.action.invalid_extent_size''
              ''VG extent size must be greater than zero'']
          else if linear \<and> \<not> is_multiple_of (as_u64 sz) (as_u64 extent) then
            [lvm_action_diagnostic subject ''lvm.action.unaligned_size''
              ''requested linear LV capacity must be an exact multiple of the VG extent size'']
          else []
      | _ \<Rightarrow> [])"

definition validate_lvm_action :: "LvmAction \<Rightarrow> NodeGraph \<Rightarrow> Diagnostic list" where
  "validate_lvm_action action g = (case lvm_size_request action g of
      Inl diagnostics \<Rightarrow> diagnostics
    | Inr (subject, vg, sz, linear) \<Rightarrow> validate_lvm_size g subject vg sz linear)"

section \<open>Dispatch\<close>

definition validate_filesystem_resize :: "NodeId \<Rightarrow> Bytes \<Rightarrow> NodeGraph \<Rightarrow> Diagnostic list" where
  "validate_filesystem_resize fs new_size g =
     (let reject = (\<lambda>code message. [error_diagnostic code [DiagnosticSubject.Node fs] message]) in
      if as_u64 new_size = 0 then
        reject ''filesystem.resize.zero_size'' ''filesystem capacity must be greater than zero''
      else if \<not> is_ext_filesystem g fs then
        reject ''filesystem.resize.unsupported''
          ''filesystem resize currently supports only the ext2/ext3/ext4 recipe''
      else if length (filter (\<lambda>d. dep_to d = fs \<and> dep_kind d = DependencyKind.Backs) (g_dependencies g)) > 1 then
        reject ''filesystem.resize.ambiguous_backing'' ''ext resize requires at most one direct backing node''
      else [])"

definition validate_provider_action :: "ProviderAction \<Rightarrow> NodeGraph \<Rightarrow> Diagnostic list" where
  "validate_provider_action action g = (case action of
      ProviderAction.Luks a \<Rightarrow> validate_action a g
    | ProviderAction.Lvm a \<Rightarrow> validate_lvm_action a g
    | ProviderAction.Mount a \<Rightarrow> validate_mount_action a g
    | ProviderAction.Filesystem a \<Rightarrow>
        (case a of FilesystemAction.Resize fs new_size \<Rightarrow> validate_filesystem_resize fs new_size g | _ \<Rightarrow> [])
    | ProviderAction.Partition a \<Rightarrow>
        (case existing_partition a of
           Some p \<Rightarrow>
             if partition_table g p \<noteq> None then []
             else [error_diagnostic ''partition.action.invalid_table_ownership'' [DiagnosticSubject.Node p]
               ''partition mutation requires exactly one containing partition table'']
         | None \<Rightarrow> validate_partition_create a g)
    | ProviderAction.Btrfs _ \<Rightarrow> [])"

end
