(* ===== verification/Simulation_Evidence.thy ===== *)
theory Simulation_Evidence
  imports Provider_Validate
begin

text \<open>
  Temporary guarantees of a simulation (\<^verbatim>\<open>storage-engine/src/simulation_evidence.rs\<close>):
  activation and endpoint claims, remaining capacity, clean filesystem checks and the
  observations that planned effects have made stale. Hash maps and sets that the code only
  looks up are maps and sets; the vectors keep their order.
\<close>

record SimulationEvidence =
  ev_projected_persistent_targets :: "(PathBuf \<times> MountContext) list"
  ev_activations :: "NodeId \<rightharpoonup> bool"
  ev_block_interfaces :: "NodeId \<rightharpoonup> BlockInterfaceAccess"
  ev_available_capacity :: "AllocationDomain \<rightharpoonup> AllocationQuantity"
  ev_projected_allocations :: "AllocationDomain set"
  ev_projected_graph_nodes :: "NodeId list"
  ev_checked_filesystems :: "NodeId set"
  ev_projected_runtime_mounts :: bool
  ev_invalidated_facts :: "FactInvalidation list"

record CapacityEvidence =
  ce_domain :: AllocationDomain
  ce_available :: AllocationQuantity

datatype CapacityEvidenceError = DuplicateDomain AllocationDomain

datatype CheckEvidence = ObservedSnapshot | PredictedEffect

datatype CheckStatus = Satisfied CheckEvidence | Violated string | Unknown string

record PrerequisiteCheck =
  pc_prerequisite :: ActionPrerequisite
  pc_status :: CheckStatus

record SimulatedAction =
  sa_contract :: ActionContract
  sa_checks :: "PrerequisiteCheck list"
  sa_invalidated_facts :: "FactInvalidation list"

datatype EffectApplicationError =
    Structure GraphError
  | DuplicateNode NodeId
  | MissingNode NodeId
  | WrongNodeKind NodeId string
  | MissingDependency
  | MissingRelation
  | OccupiedMountTarget PathBuf
  | MountedDescendant PathBuf
  | InsufficientCapacity AllocationDomain
  | CapacityOverflow AllocationDomain

datatype ActionSimulationError =
    Validation "Diagnostic list"
  | PrerequisitesViolated "PrerequisiteCheck list"
  | Effect EffectApplicationError

record SimulationEvidenceSummary =
  es_invalidated_facts :: "FactInvalidation list"
  es_determined_persistent_targets :: "(PathBuf \<times> MountContext) list"

definition default_evidence :: SimulationEvidence where
  "default_evidence = \<lparr>ev_projected_persistent_targets = [], ev_activations = Map.empty,
     ev_block_interfaces = Map.empty, ev_available_capacity = Map.empty,
     ev_projected_allocations = {}, ev_projected_graph_nodes = [], ev_checked_filesystems = {},
     ev_projected_runtime_mounts = False, ev_invalidated_facts = []\<rparr>"

definition evidence_new :: "CapacityEvidence list \<Rightarrow> (CapacityEvidenceError, SimulationEvidence) result" where
  "evidence_new capacity = try_fold (\<lambda>ev item.
     if ev_available_capacity ev (ce_domain item) \<noteq> None
     then Inl (CapacityEvidenceError.DuplicateDomain (ce_domain item))
     else Inr (ev\<lparr>ev_available_capacity :=
       (ev_available_capacity ev)(ce_domain item \<mapsto> ce_available item)\<rparr>))
     default_evidence capacity"

definition evidence_summary :: "SimulationEvidence \<Rightarrow> SimulationEvidenceSummary" where
  "evidence_summary ev = \<lparr>es_invalidated_facts = ev_invalidated_facts ev,
     es_determined_persistent_targets = ev_projected_persistent_targets ev\<rparr>"

definition summary_is_observation_stale :: "SimulationEvidenceSummary \<Rightarrow> FactScope \<Rightarrow> FactKind \<Rightarrow> bool" where
  "summary_is_observation_stale s scope k =
     list_ex (\<lambda>f. fi_scope f = scope \<and> fi_kind f = k) (es_invalidated_facts s)"

definition summary_persistent_mount_was_projected ::
  "SimulationEvidenceSummary \<Rightarrow> PathBuf \<Rightarrow> MountContext \<Rightarrow> bool" where
  "summary_persistent_mount_was_projected s target ctx =
     list_ex (\<lambda>(p, c). p = target \<and> c = ctx) (es_determined_persistent_targets s)"

definition is_observation_stale :: "SimulationEvidence \<Rightarrow> FactScope \<Rightarrow> FactKind \<Rightarrow> bool" where
  "is_observation_stale ev scope k =
     list_ex (\<lambda>f. fi_scope f = scope \<and> fi_kind f = k) (ev_invalidated_facts ev)"

definition persistent_mount_was_projected :: "SimulationEvidence \<Rightarrow> PathBuf \<Rightarrow> MountContext \<Rightarrow> bool" where
  "persistent_mount_was_projected ev target ctx =
     list_ex (\<lambda>(p, c). p = target \<and> c = ctx) (ev_projected_persistent_targets ev)"

definition mark_persistent_target ::
  "PathBuf \<Rightarrow> MountContext \<Rightarrow> SimulationEvidence \<Rightarrow> SimulationEvidence" where
  "mark_persistent_target target ctx ev =
     (if persistent_mount_was_projected ev target ctx then ev
      else ev\<lparr>ev_projected_persistent_targets := ev_projected_persistent_targets ev @ [(target, ctx)]\<rparr>)"

definition apply_output :: "ActionOutput \<Rightarrow> SimulationEvidence \<Rightarrow> SimulationEvidence" where
  "apply_output out ev = (case out of
      ActionOutput.BlockInterface n acc \<Rightarrow>
        ev\<lparr>ev_block_interfaces := (ev_block_interfaces ev)(n \<mapsto> acc)\<rparr>
    | ActionOutput.FilesystemCheckPassed fs \<Rightarrow>
        ev\<lparr>ev_checked_filesystems := insert fs (ev_checked_filesystems ev)\<rparr>
    | _ \<Rightarrow> ev)"

definition apply_outputs :: "ActionOutput list \<Rightarrow> SimulationEvidence \<Rightarrow> SimulationEvidence" where
  "apply_outputs outs ev = fold apply_output outs ev"

section \<open>Invalidation\<close>

definition activation_fact :: "NodeId \<Rightarrow> FactInvalidation" where
  "activation_fact n = \<lparr>fi_scope = FactScope.Node n, fi_kind = FactKind.Activation\<rparr>"

definition activation_node :: "FactInvalidation \<Rightarrow> NodeId option" where
  "activation_node f = (case (fi_scope f, fi_kind f) of
      (FactScope.Node n, FactKind.Activation) \<Rightarrow> Some n | _ \<Rightarrow> None)"

text \<open>
  The children of a node are pushed in the order of their identifiers. Sorting all edges by
  the identifier of their target once, with a stable sort, leaves the children of every node
  in that order.
\<close>

definition activation_edges :: "NodeGraph \<Rightarrow> (NodeId \<times> NodeId) list" where
  "activation_edges g = map (\<lambda>d. (dep_from d, dep_to d))
     (sort_key (\<lambda>d. as_uuid (dep_to d)) (g_dependencies g))"

definition push_fact :: "FactInvalidation \<Rightarrow> FactInvalidation list \<Rightarrow> FactInvalidation list" where
  "push_fact f facts = (if f \<in> set facts then facts else facts @ [f])"

definition expand_invalidations :: "NodeGraph \<Rightarrow> FactInvalidation list \<Rightarrow> FactInvalidation list" where
  "expand_invalidations g facts = fold (\<lambda>f expanded.
     case activation_node f of
       None \<Rightarrow> expanded
     | Some n \<Rightarrow> fold (\<lambda>m. push_fact (activation_fact m)) (walk (activation_edges g) [n] []) expanded)
     facts facts"

definition runtime_node :: "FactInvalidation \<Rightarrow> NodeId option" where
  "runtime_node f = (case fi_scope f of
      FactScope.Node n \<Rightarrow> if fi_kind f \<in> {FactKind.Activation, FactKind.Presence} then Some n else None
    | _ \<Rightarrow> None)"

definition record_invalidation :: "FactInvalidation \<Rightarrow> SimulationEvidence \<Rightarrow> SimulationEvidence" where
  "record_invalidation f ev =
     (let ev1 = ev\<lparr>ev_invalidated_facts := push_fact f (ev_invalidated_facts ev)\<rparr> in
      case runtime_node f of
        None \<Rightarrow> ev1
      | Some n \<Rightarrow> ev1\<lparr>ev_block_interfaces := (ev_block_interfaces ev1)(n := None),
                     ev_activations := (ev_activations ev1)(n := None)\<rparr>)"

definition invalidate_observations ::
  "NodeGraph \<Rightarrow> FactInvalidation list \<Rightarrow> SimulationEvidence \<Rightarrow> FactInvalidation list \<times> SimulationEvidence" where
  "invalidate_observations g facts ev =
     (let expanded = expand_invalidations g facts
      in (expanded, fold record_invalidation expanded ev))"

definition content_node :: "FactInvalidation \<Rightarrow> NodeId option" where
  "content_node f = (case fi_scope f of
      FactScope.Node n \<Rightarrow>
        if fi_kind f \<in> {FactKind.Content, FactKind.Geometry, FactKind.Presence} then Some n else None
    | _ \<Rightarrow> None)"

definition carries_content :: "DependencyKind \<Rightarrow> bool" where
  "carries_content k = (case k of DependencyKind.Backs \<Rightarrow> True | DependencyKind.Contains _ \<Rightarrow> True | _ \<Rightarrow> False)"

definition content_edges :: "NodeGraph \<Rightarrow> (NodeId \<times> NodeId) list" where
  "content_edges g = map (\<lambda>d. (dep_from d, dep_to d))
     (filter (\<lambda>d. carries_content (dep_kind d)) (g_dependencies g))"

definition invalidate_filesystem_checks ::
  "NodeGraph \<Rightarrow> FactInvalidation list \<Rightarrow> SimulationEvidence \<Rightarrow> SimulationEvidence" where
  "invalidate_filesystem_checks g facts ev = ev\<lparr>ev_checked_filesystems := ev_checked_filesystems ev
     - set (walk (content_edges g) (rev (List.map_filter content_node facts)) [])\<rparr>"

section \<open>Allocation\<close>

definition apply_allocation_effect ::
  "SimulationEvidence \<Rightarrow> AllocationEffect \<Rightarrow> (EffectApplicationError, SimulationEvidence) result" where
  "apply_allocation_effect ev effect = (case effect of
      AllocationEffect.Invalidate domain \<Rightarrow>
        Inr (ev\<lparr>ev_available_capacity := (ev_available_capacity ev)(domain := None),
          ev_projected_allocations := insert domain (ev_projected_allocations ev)\<rparr>)
    | AllocationEffect.Reserve domain amount \<Rightarrow>
        (case ev_available_capacity ev domain of
           None \<Rightarrow> Inr ev
         | Some available \<Rightarrow>
             (case checked_sub (quantity_get available) (quantity_get amount) of
                None \<Rightarrow> Inl (EffectApplicationError.InsufficientCapacity domain)
              | Some remaining \<Rightarrow> Inr (ev\<lparr>
                  ev_available_capacity := (ev_available_capacity ev)(domain \<mapsto> AllocationQuantity remaining),
                  ev_projected_allocations := insert domain (ev_projected_allocations ev)\<rparr>)))
    | AllocationEffect.Release domain amount \<Rightarrow>
        (case ev_available_capacity ev domain of
           None \<Rightarrow> Inr ev
         | Some available \<Rightarrow>
             (case checked_add (quantity_get available) (quantity_get amount) of
                None \<Rightarrow> Inl (EffectApplicationError.CapacityOverflow domain)
              | Some tot \<Rightarrow> Inr (ev\<lparr>
                  ev_available_capacity := (ev_available_capacity ev)(domain \<mapsto> AllocationQuantity tot),
                  ev_projected_allocations := insert domain (ev_projected_allocations ev)\<rparr>))))"

definition apply_allocation_effects ::
  "SimulationEvidence \<Rightarrow> AllocationEffect list \<Rightarrow> (EffectApplicationError, SimulationEvidence) result" where
  "apply_allocation_effects ev effects = try_fold apply_allocation_effect ev effects"

end
