(* ===== verification/Prerequisites.thy ===== *)
theory Prerequisites
  imports Simulation_Evidence
begin

text \<open>
  Three-valued evaluation of action prerequisites against the desired configuration and the
  temporary evidence (\<^verbatim>\<open>storage-engine/src/prerequisites.rs\<close>).
\<close>

definition matches_kind :: "NodeKind \<Rightarrow> NodeKindClass \<Rightarrow> bool" where
  "matches_kind k expected = (case expected of
      NodeKindClass.Block \<Rightarrow> (case k of
          NodeKind.Disk \<Rightarrow> True | NodeKind.NvmeNamespace _ \<Rightarrow> True | NodeKind.Loop _ \<Rightarrow> True
        | NodeKind.Zram \<Rightarrow> True | NodeKind.DmMultipath \<Rightarrow> True | NodeKind.Partition _ _ _ _ \<Rightarrow> True
        | NodeKind.LuksContainer _ \<Rightarrow> True | NodeKind.DmCryptMapping _ \<Rightarrow> True
        | NodeKind.DmIntegrity _ \<Rightarrow> True | NodeKind.DmVerity _ \<Rightarrow> True | NodeKind.MdArray _ \<Rightarrow> True
        | NodeKind.LvmPv \<Rightarrow> True | NodeKind.LvmLv _ \<Rightarrow> True | NodeKind.Bcache _ _ \<Rightarrow> True
        | NodeKind.DmCache _ _ \<Rightarrow> True | NodeKind.DmWritecache _ \<Rightarrow> True
        | NodeKind.ZfsVolume _ \<Rightarrow> True | NodeKind.Drbd _ \<Rightarrow> True | _ \<Rightarrow> False)
    | NodeKindClass.PartitionTable \<Rightarrow> (case k of NodeKind.PartitionTable _ \<Rightarrow> True | _ \<Rightarrow> False)
    | NodeKindClass.Partition \<Rightarrow> (case k of NodeKind.Partition _ _ _ _ \<Rightarrow> True | _ \<Rightarrow> False)
    | NodeKindClass.LuksContainer \<Rightarrow> (case k of NodeKind.LuksContainer _ \<Rightarrow> True | _ \<Rightarrow> False)
    | NodeKindClass.DmCryptMapping \<Rightarrow> (case k of NodeKind.DmCryptMapping _ \<Rightarrow> True | _ \<Rightarrow> False)
    | NodeKindClass.LvmPv \<Rightarrow> (case k of NodeKind.LvmPv \<Rightarrow> True | _ \<Rightarrow> False)
    | NodeKindClass.LvmVg \<Rightarrow> (case k of NodeKind.LvmVg _ _ \<Rightarrow> True | _ \<Rightarrow> False)
    | NodeKindClass.LvmLv \<Rightarrow> (case k of NodeKind.LvmLv _ \<Rightarrow> True | _ \<Rightarrow> False)
    | NodeKindClass.Filesystem \<Rightarrow> (case k of NodeKind.Filesystem _ _ \<Rightarrow> True | _ \<Rightarrow> False)
    | NodeKindClass.BtrfsFilesystem \<Rightarrow>
        (case k of NodeKind.Filesystem (FilesystemKind.Btrfs _) _ \<Rightarrow> True | _ \<Rightarrow> False))"

definition mount_at :: "DesiredState \<Rightarrow> PathBuf \<Rightarrow> MountContext \<Rightarrow> MountEntry option" where
  "mount_at des target ctx =
     find (\<lambda>m. me_target m = target \<and> me_context m = ctx) (msp_runtime (des_mounts des))"

definition has_mounted_descendant :: "DesiredState \<Rightarrow> PathBuf \<Rightarrow> MountContext \<Rightarrow> bool" where
  "has_mounted_descendant des target ctx = list_ex (\<lambda>m. me_context m = ctx
     \<and> me_target m \<noteq> target \<and> starts_with (me_target m) target) (msp_runtime (des_mounts des))"

definition mount_evidence :: "SimulationEvidence \<Rightarrow> CheckEvidence" where
  "mount_evidence ev = (if ev_projected_runtime_mounts ev then CheckEvidence.PredictedEffect
     else CheckEvidence.ObservedSnapshot)"

definition predicted_if :: "bool \<Rightarrow> CheckStatus" where
  "predicted_if b = CheckStatus.Satisfied
     (if b then CheckEvidence.PredictedEffect else CheckEvidence.ObservedSnapshot)"

definition satisfied_for_node :: "SimulationEvidence \<Rightarrow> NodeId \<Rightarrow> CheckStatus" where
  "satisfied_for_node ev n = predicted_if (n \<in> set (ev_projected_graph_nodes ev))"

definition evaluate_capacity ::
  "SimulationEvidence \<Rightarrow> AllocationDomain \<Rightarrow> AllocationQuantity option \<Rightarrow> CheckStatus" where
  "evaluate_capacity ev domain amount = (case amount of
      None \<Rightarrow> CheckStatus.Unknown ''provider allocation calculation for this layout''
    | Some a \<Rightarrow> (case ev_available_capacity ev domain of
        None \<Rightarrow> CheckStatus.Unknown ''provider allocation-capacity evidence''
      | Some available \<Rightarrow>
          if quantity_get available < quantity_get a
          then CheckStatus.Violated ''allocation domain has insufficient free capacity''
          else if domain \<in> ev_projected_allocations ev
          then CheckStatus.Satisfied CheckEvidence.PredictedEffect
          else CheckStatus.Satisfied CheckEvidence.ObservedSnapshot))"

definition evaluate_endpoint ::
  "DesiredState \<Rightarrow> SimulationEvidence \<Rightarrow> NodeId \<Rightarrow> bool \<Rightarrow> CheckStatus" where
  "evaluate_endpoint des ev n writable = (case graph_node (des_graph des) n of
      None \<Rightarrow> CheckStatus.Violated ''referenced node is absent''
    | Some v \<Rightarrow>
        if ev_activations ev n = Some False
        then CheckStatus.Violated ''projected block endpoint is inactive''
        else (case ev_block_interfaces ev n of
          Some BlockInterfaceAccess.ReadWrite \<Rightarrow> CheckStatus.Satisfied CheckEvidence.PredictedEffect
        | Some BlockInterfaceAccess.ReadOnly \<Rightarrow>
            if \<not> writable then CheckStatus.Satisfied CheckEvidence.PredictedEffect
            else CheckStatus.Violated ''projected block interface is read-only''
        | None \<Rightarrow>
            if is_observation_stale ev (FactScope.Node n) FactKind.Activation
               \<or> is_observation_stale ev (FactScope.Node n) FactKind.Presence
            then CheckStatus.Unknown ''fresh block endpoint observation after runtime invalidation''
            else if \<not> writable then
              (if facts_block (node_size v) \<noteq> None
               then CheckStatus.Satisfied CheckEvidence.ObservedSnapshot
               else CheckStatus.Unknown ''available block endpoint observation'')
            else (case Option.bind (facts_block (node_size v)) block_read_only of
                Some False \<Rightarrow> CheckStatus.Satisfied CheckEvidence.ObservedSnapshot
              | Some True \<Rightarrow> CheckStatus.Violated ''observed block endpoint is read-only''
              | None \<Rightarrow> CheckStatus.Unknown ''writable block endpoint observation'')))"

definition evaluate_mount_source ::
  "DesiredState \<Rightarrow> SimulationEvidence \<Rightarrow> MountSource \<Rightarrow> CheckStatus" where
  "evaluate_mount_source des ev source = (case mount_source_node source of
      None \<Rightarrow> CheckStatus.Unknown ''provider mount-source availability check''
    | Some n \<Rightarrow> (case kind_at (des_graph des) n of
        None \<Rightarrow> CheckStatus.Violated ''mount source is absent''
      | Some k \<Rightarrow>
          if \<not> compatible_source source k
          then CheckStatus.Violated ''mount source has an incompatible node kind''
          else
            let unknown = CheckStatus.Unknown ''provider mount-source topology and availability check'' in
            if (case k of NodeKind.Filesystem (FilesystemKind.Btrfs _) _ \<Rightarrow> False
                | NodeKind.Filesystem _ _ \<Rightarrow> True | _ \<Rightarrow> False)
            then (case map dep_from (filter (\<lambda>d. dep_to d = n \<and> dep_kind d = DependencyKind.Backs)
                       (g_dependencies (des_graph des))) of
                [backing] \<Rightarrow>
                  if is_some_and (kind_at (des_graph des) backing) (\<lambda>b. matches_kind b NodeKindClass.Block)
                  then evaluate_endpoint des ev backing False else unknown
              | _ \<Rightarrow> unknown)
            else unknown))"

definition scan_dependent ::
  "DesiredState \<Rightarrow> SimulationEvidence \<Rightarrow> Bytes \<Rightarrow> bool \<times> bool \<Rightarrow> Dependency \<Rightarrow>
   (CheckStatus, bool \<times> bool) result" where
  "scan_dependent des ev sz s d = (case s of (unknown, predicted) \<Rightarrow>
     let predicted' = (predicted \<or> dep_to d \<in> set (ev_projected_graph_nodes ev)) in
     case graph_node (des_graph des) (dep_to d) of
       None \<Rightarrow> Inl (CheckStatus.Violated ''dependent node is absent'')
     | Some dependent \<Rightarrow> (case spec_size (node_kind dependent) of
         None \<Rightarrow> Inr (True, predicted')
       | Some dependent_size \<Rightarrow>
           if dependent_size > sz
           then Inl (CheckStatus.Violated ''an upper layer exceeds the proposed backing capacity'')
           else Inr (unknown, predicted')))"

definition evaluate_dependent_sizes ::
  "DesiredState \<Rightarrow> SimulationEvidence \<Rightarrow> NodeId \<Rightarrow> Bytes \<Rightarrow> CheckStatus" where
  "evaluate_dependent_sizes des ev n sz =
     (if graph_node (des_graph des) n = None then CheckStatus.Violated ''referenced node is absent''
      else let backed = filter (\<lambda>d. dep_from d = n \<and> dep_kind d = DependencyKind.Backs)
                 (g_dependencies (des_graph des)) in
        case try_fold (scan_dependent des ev sz)
               (False, n \<in> set (ev_projected_graph_nodes ev)) backed of
          Inl violated \<Rightarrow> violated
        | Inr (unknown, predicted) \<Rightarrow>
            if unknown then CheckStatus.Unknown ''dependent capacity observation''
            else if backed \<noteq> [] then predicted_if predicted
            else satisfied_for_node ev n)"

definition evaluate_backing_size ::
  "DesiredState \<Rightarrow> SimulationEvidence \<Rightarrow> NodeId \<Rightarrow> Bytes \<Rightarrow> CheckStatus" where
  "evaluate_backing_size des ev n sz =
     (if graph_node (des_graph des) n = None then CheckStatus.Violated ''referenced node is absent''
      else case filter (\<lambda>d. dep_to d = n \<and> dep_kind d = DependencyKind.Backs)
                  (g_dependencies (des_graph des)) of
        [] \<Rightarrow> CheckStatus.Unknown ''direct backing relationship''
      | [d] \<Rightarrow> (case graph_node (des_graph des) (dep_from d) of
            None \<Rightarrow> CheckStatus.Violated ''backing node is absent''
          | Some backing \<Rightarrow> (case spec_size (node_kind backing) of
              None \<Rightarrow> CheckStatus.Unknown ''backing capacity observation''
            | Some backing_size \<Rightarrow>
                if backing_size < sz
                then CheckStatus.Violated ''backing capacity is smaller than the requested size''
                else predicted_if (n \<in> set (ev_projected_graph_nodes ev)
                  \<or> dep_from d \<in> set (ev_projected_graph_nodes ev))))
      | _ \<Rightarrow> CheckStatus.Unknown ''provider capacity calculation for multiple backing nodes'')"

definition is_unresolved_source :: "MountSource \<Rightarrow> bool" where
  "is_unresolved_source s = (case s of MountSource.Bind _ \<Rightarrow> True | MountSource.Other _ \<Rightarrow> True | _ \<Rightarrow> False)"

definition evaluate_prerequisite ::
  "DesiredState \<Rightarrow> SimulationEvidence \<Rightarrow> ActionPrerequisite \<Rightarrow> CheckStatus" where
  "evaluate_prerequisite des ev p =
    (let g = des_graph des; runtime = msp_runtime (des_mounts des) in
     case p of
      ActionPrerequisite.NodeExists n \<Rightarrow>
        if graph_node g n \<noteq> None then satisfied_for_node ev n
        else CheckStatus.Violated ''referenced node is absent''
    | ActionPrerequisite.NodeKind n expected \<Rightarrow>
        (case kind_at g n of
           None \<Rightarrow> CheckStatus.Violated ''referenced node is absent''
         | Some k \<Rightarrow> if matches_kind k expected then satisfied_for_node ev n
             else CheckStatus.Violated ''node kind does not satisfy the action contract'')
    | ActionPrerequisite.NoUnexpectedConsumers n \<Rightarrow>
        if graph_node g n = None then CheckStatus.Violated ''referenced node is absent''
        else if list_ex (\<lambda>d. dep_from d = n) (g_dependencies g)
          \<or> list_ex (\<lambda>m. mount_source_node (me_source m) = Some n) runtime
        then CheckStatus.Violated ''node still has an upper-layer consumer''
        else if list_ex (\<lambda>m. is_unresolved_source (me_source m)) runtime
        then CheckStatus.Unknown ''resolve bind and unsupported mount sources before declaring the node unused''
        else satisfied_for_node ev n
    | ActionPrerequisite.NoUnexpectedRelations n \<Rightarrow>
        if graph_node g n = None then CheckStatus.Violated ''referenced node is absent''
        else if list_ex (\<lambda>r. rel_from r = n \<or> rel_to r = n) (g_relations g)
        then CheckStatus.Violated ''node still has a snapshot, replication, or other non-owning relation''
        else satisfied_for_node ev n
    | ActionPrerequisite.Writable n \<Rightarrow> evaluate_endpoint des ev n True
    | ActionPrerequisite.MountSourceAvailable source \<Rightarrow> evaluate_mount_source des ev source
    | ActionPrerequisite.FilesystemUnmounted fs \<Rightarrow>
        if graph_node g fs = None then CheckStatus.Violated ''referenced filesystem is absent''
        else if list_ex (\<lambda>m. me_source m = MountSource.Filesystem fs) runtime
        then CheckStatus.Violated ''filesystem is still mounted in an observed namespace''
        else if list_ex (\<lambda>m. is_unresolved_source (me_source m)) runtime
        then CheckStatus.Unknown ''resolve bind and unsupported mount sources before offline filesystem work''
        else CheckStatus.Satisfied (mount_evidence ev)
    | ActionPrerequisite.FilesystemCheckPassed fs \<Rightarrow>
        if fs \<in> ev_checked_filesystems ev then CheckStatus.Satisfied CheckEvidence.PredictedEffect
        else CheckStatus.Violated ''filesystem shrink requires a preceding fresh forced read-only check''
    | ActionPrerequisite.FilesystemMinimumSize _ _ \<Rightarrow>
        CheckStatus.Unknown ''provider evidence that filesystem content fits the requested shrink target''
    | ActionPrerequisite.DestructiveApproval _ \<Rightarrow>
        CheckStatus.Unknown ''explicit destructive-scope approval''
    | ActionPrerequisite.CredentialAvailable _ \<Rightarrow>
        CheckStatus.Unknown ''resolve credential reference through the runtime credential store''
    | ActionPrerequisite.ExtentAvailable _ _ _ \<Rightarrow>
        CheckStatus.Unknown ''provider allocation and alignment evidence''
    | ActionPrerequisite.DistinctNodes ns \<Rightarrow>
        if card (set ns) = length ns then CheckStatus.Satisfied CheckEvidence.PredictedEffect
        else CheckStatus.Violated ''node list contains duplicate identities''
    | ActionPrerequisite.DependentsFitWithin n sz \<Rightarrow> evaluate_dependent_sizes des ev n sz
    | ActionPrerequisite.BackingSizeAtLeast n sz \<Rightarrow> evaluate_backing_size des ev n sz
    | ActionPrerequisite.CapacityAvailable domain amount \<Rightarrow> evaluate_capacity ev domain amount
    | ActionPrerequisite.MountTargetAvailable target ctx \<Rightarrow>
        if mount_at des target ctx \<noteq> None then CheckStatus.Violated ''mount target is already occupied''
        else CheckStatus.Satisfied (mount_evidence ev)
    | ActionPrerequisite.MountDescendantsAbsent target ctx \<Rightarrow>
        if has_mounted_descendant des target ctx
        then CheckStatus.Violated ''mount target still contains an active descendant''
        else CheckStatus.Satisfied (mount_evidence ev))"

definition evaluate_prerequisites ::
  "DesiredState \<Rightarrow> SimulationEvidence \<Rightarrow> ActionPrerequisite list \<Rightarrow> PrerequisiteCheck list" where
  "evaluate_prerequisites des ev ps =
     map (\<lambda>p. \<lparr>pc_prerequisite = p, pc_status = evaluate_prerequisite des ev p\<rparr>) ps"

end
