(* ===== verification/Effects.thy ===== *)
theory Effects
  imports Prerequisites
begin

text \<open>
  Interpretation of predicted effects and the simulation of one action
  (\<^verbatim>\<open>storage-engine/src/effects.rs\<close>). The working copies of the configuration and the
  evidence are the accumulated state of the loops; on an error they are dropped, so a failing
  operation returns the error alone and its caller keeps the state it had.
\<close>

type_synonym SimState = "DesiredState \<times> SimulationEvidence"

definition with_graph :: "NodeGraph \<Rightarrow> DesiredState \<Rightarrow> DesiredState" where
  "with_graph g des = des\<lparr>des_graph := g\<rparr>"

definition update_node ::
  "SimState \<Rightarrow> NodeId \<Rightarrow> string \<Rightarrow> (Node \<Rightarrow> Node option) \<Rightarrow> (EffectApplicationError, SimState) result" where
  "update_node s nid effect upd = (case s of (des, ev) \<Rightarrow>
     and_then (ok_or (graph_node (des_graph des) nid) (EffectApplicationError.MissingNode nid)) (\<lambda>n.
     and_then (ok_or (upd n) (EffectApplicationError.WrongNodeKind nid effect)) (\<lambda>n'.
     and_then (map_err EffectApplicationError.Structure (replace_existing (des_graph des) nid n')) (\<lambda>(_, g).
       Inr (with_graph g des,
            if nid \<in> set (ev_projected_graph_nodes ev) then ev
            else ev\<lparr>ev_projected_graph_nodes := ev_projected_graph_nodes ev @ [nid]\<rparr>)))))"

definition with_kind :: "NodeKind \<Rightarrow> Node \<Rightarrow> Node" where
  "with_kind k n = n\<lparr>node_kind := (node_kind n)\<lparr>spec_kind := k\<rparr>\<rparr>"

definition with_size :: "Bytes option \<Rightarrow> Node \<Rightarrow> Node" where
  "with_size sz n = n\<lparr>node_kind := (node_kind n)\<lparr>spec_size := sz\<rparr>\<rparr>"

definition set_attributes :: "PartitionAttributes \<Rightarrow> Node \<Rightarrow> Node option" where
  "set_attributes attributes n = (case spec_kind (node_kind n) of
      NodeKind.Partition number offset role _ \<Rightarrow>
        Some (with_kind (NodeKind.Partition number offset role attributes) n)
    | _ \<Rightarrow> None)"

definition set_label :: "string option \<Rightarrow> Node \<Rightarrow> Node option" where
  "set_label label n = (case spec_kind (node_kind n) of
      NodeKind.Filesystem fs _ \<Rightarrow> Some (with_kind (NodeKind.Filesystem fs label) n)
    | _ \<Rightarrow> None)"

definition set_allocation :: "BtrfsAllocation \<Rightarrow> Node \<Rightarrow> Node option" where
  "set_allocation allocation n = (case spec_kind (node_kind n) of
      NodeKind.Filesystem (FilesystemKind.Btrfs _) label \<Rightarrow>
        Some (with_kind (NodeKind.Filesystem (FilesystemKind.Btrfs allocation) label) n)
    | _ \<Rightarrow> None)"

definition apply_graph_effect ::
  "SimState \<Rightarrow> GraphEffect \<Rightarrow> (EffectApplicationError, SimState) result" where
  "apply_graph_effect s effect = (case s of (des, ev) \<Rightarrow> case effect of
      GraphEffect.InsertNode nid spec \<Rightarrow>
        if graph_node (des_graph des) nid \<noteq> None then Inl (EffectApplicationError.DuplicateNode nid)
        else and_then (map_err EffectApplicationError.Structure
            (insert_new (des_graph des) nid \<lparr>node_kind = spec, node_size = default_facts\<rparr>)) (\<lambda>g.
          Inr (with_graph g des,
               ev\<lparr>ev_projected_graph_nodes := ev_projected_graph_nodes ev @ [nid]\<rparr>))
    | GraphEffect.RemoveNode nid \<Rightarrow>
        (case remove_node (des_graph des) nid of (removed, g) \<Rightarrow>
           if removed = None then Inl (EffectApplicationError.MissingNode nid)
           else Inr (with_graph g des,
             ev\<lparr>ev_projected_graph_nodes := filter (\<lambda>c. c \<noteq> nid) (ev_projected_graph_nodes ev),
               ev_activations := (ev_activations ev)(nid := None),
               ev_block_interfaces := (ev_block_interfaces ev)(nid := None)\<rparr>))
    | GraphEffect.SetNodeSize nid sz \<Rightarrow>
        update_node s nid ''set node size'' (\<lambda>n. Some (with_size (Some sz) n))
    | GraphEffect.InvalidateNodeSize nid \<Rightarrow>
        update_node s nid ''invalidate node size'' (\<lambda>n. Some (with_size None n))
    | GraphEffect.SetPartitionAttributes nid attributes \<Rightarrow>
        update_node s nid ''set partition attributes'' (set_attributes attributes)
    | GraphEffect.SetFilesystemLabel nid label \<Rightarrow>
        update_node s nid ''set filesystem label'' (set_label label)
    | GraphEffect.SetBtrfsAllocation nid allocation \<Rightarrow>
        update_node s nid ''set Btrfs allocation'' (set_allocation allocation)
    | GraphEffect.InsertDependency d \<Rightarrow>
        Inr (with_graph (snd (insert_dependency (des_graph des) d)) des, ev)
    | GraphEffect.RemoveDependency d \<Rightarrow>
        (case remove_dependency (des_graph des) d of (found, g) \<Rightarrow>
           if \<not> found then Inl EffectApplicationError.MissingDependency else Inr (with_graph g des, ev))
    | GraphEffect.InsertRelation r \<Rightarrow>
        Inr (with_graph (snd (insert_relation (des_graph des) r)) des, ev)
    | GraphEffect.RemoveRelation r \<Rightarrow>
        (case remove_relation (des_graph des) r of (found, g) \<Rightarrow>
           if \<not> found then Inl EffectApplicationError.MissingRelation else Inr (with_graph g des, ev))
    | GraphEffect.SetActivation nid active \<Rightarrow>
        if graph_node (des_graph des) nid = None then Inl (EffectApplicationError.MissingNode nid)
        else Inr (des, ev\<lparr>ev_activations := (ev_activations ev)(nid \<mapsto> active),
          ev_block_interfaces := (if active then ev_block_interfaces ev
            else (ev_block_interfaces ev)(nid := None))\<rparr>))"

definition apply_graph_effects ::
  "SimState \<Rightarrow> GraphEffect list \<Rightarrow> (EffectApplicationError, SimState) result" where
  "apply_graph_effects s effects = try_fold apply_graph_effect s effects"

definition with_runtime :: "MountEntry list \<Rightarrow> DesiredState \<Rightarrow> DesiredState" where
  "with_runtime ms des = des\<lparr>des_mounts := (des_mounts des)\<lparr>msp_runtime := ms\<rparr>\<rparr>"

definition with_persistent :: "MountEntry list \<Rightarrow> DesiredState \<Rightarrow> DesiredState" where
  "with_persistent ms des = des\<lparr>des_mounts := (des_mounts des)\<lparr>msp_persistent := ms\<rparr>\<rparr>"

definition drop_entry :: "PathBuf \<Rightarrow> MountContext \<Rightarrow> MountEntry list \<Rightarrow> MountEntry list" where
  "drop_entry target ctx ms = filter (\<lambda>m. me_target m \<noteq> target \<or> me_context m \<noteq> ctx) ms"

definition revoke_checks :: "MountSource \<Rightarrow> NodeId set \<Rightarrow> NodeId set" where
  "revoke_checks source checked = (case source of
      MountSource.Filesystem fs \<Rightarrow> checked - {fs}
    | MountSource.Bind _ \<Rightarrow> {}
    | MountSource.Other _ \<Rightarrow> {}
    | _ \<Rightarrow> checked)"

definition apply_mount_effect ::
  "SimState \<Rightarrow> MountEffect \<Rightarrow> (EffectApplicationError, SimState) result" where
  "apply_mount_effect s effect = (case s of (des, ev) \<Rightarrow> case effect of
      MountEffect.AddRuntime source target options ctx \<Rightarrow>
        if mount_at des target ctx \<noteq> None then Inl (EffectApplicationError.OccupiedMountTarget target)
        else if has_mounted_descendant des target ctx
        then Inl (EffectApplicationError.MountedDescendant target)
        else Inr (with_runtime (msp_runtime (des_mounts des) @ [\<lparr>me_source = source,
            me_target = target, me_options = options, me_context = ctx\<rparr>]) des,
          ev\<lparr>ev_checked_filesystems := revoke_checks source (ev_checked_filesystems ev),
            ev_projected_runtime_mounts := True\<rparr>)
    | MountEffect.RemoveRuntime target ctx \<Rightarrow>
        if has_mounted_descendant des target ctx
        then Inl (EffectApplicationError.MountedDescendant target)
        else Inr (with_runtime (drop_entry target ctx (msp_runtime (des_mounts des))) des,
          ev\<lparr>ev_projected_runtime_mounts := True\<rparr>)
    | MountEffect.SetPersistent entry \<Rightarrow>
        Inr (with_persistent (drop_entry (me_target entry) (me_context entry)
            (msp_persistent (des_mounts des)) @ [entry]) des,
          mark_persistent_target (me_target entry) (me_context entry) ev)
    | MountEffect.RemovePersistent target ctx \<Rightarrow>
        Inr (with_persistent (drop_entry target ctx (msp_persistent (des_mounts des))) des,
          mark_persistent_target target ctx ev))"

definition apply_mount_effects ::
  "SimState \<Rightarrow> MountEffect list \<Rightarrow> (EffectApplicationError, SimState) result" where
  "apply_mount_effects s effects = try_fold apply_mount_effect s effects"

definition apply_effect_with_invalidations ::
  "SimState \<Rightarrow> PredictedEffect \<Rightarrow> FactInvalidation list \<Rightarrow>
   (EffectApplicationError, FactInvalidation list \<times> SimState) result" where
  "apply_effect_with_invalidations s effect facts = (case s of (des, ev) \<Rightarrow>
     case invalidate_observations (des_graph des) facts ev of (expanded, ev1) \<Rightarrow>
     let ev2 = invalidate_filesystem_checks (des_graph des) facts ev1 in
     and_then (apply_graph_effects (des, ev2) (pe_graph effect)) (\<lambda>s1.
     and_then (apply_mount_effects s1 (pe_mounts effect)) (\<lambda>(des2, ev3).
     and_then (apply_allocation_effects ev3 (pe_allocations effect)) (\<lambda>ev4.
     and_then (map_err EffectApplicationError.Structure (validate_structure (des_graph des2))) (\<lambda>_.
       Inr (expanded, (des2, ev4)))))))"

definition is_violated :: "CheckStatus \<Rightarrow> bool" where
  "is_violated st = (case st of CheckStatus.Violated _ \<Rightarrow> True | _ \<Rightarrow> False)"

definition simulate_action ::
  "SimState \<Rightarrow> ProviderAction \<Rightarrow> (ActionSimulationError, SimulatedAction \<times> SimState) result" where
  "simulate_action s action = (case s of (des, ev) \<Rightarrow>
     let diagnostics = validate_provider_action action (des_graph des) in
     if list_ex (\<lambda>d. diag_severity d = DiagnosticSeverity.Error) diagnostics
     then Inl (ActionSimulationError.Validation diagnostics)
     else
       let c = describe_action action (des_graph des);
           checks = evaluate_prerequisites des ev (ac_prerequisites c) in
       if list_ex (\<lambda>k. is_violated (pc_status k)) checks
       then Inl (ActionSimulationError.PrerequisitesViolated checks)
       else and_then (map_err ActionSimulationError.Effect
           (apply_effect_with_invalidations s (ac_predicted_effect c) (ac_invalidated_facts c)))
         (\<lambda>(expanded, (des', ev')).
           Inr (\<lparr>sa_contract = c, sa_checks = checks, sa_invalidated_facts = expanded\<rparr>,
                (des', apply_outputs (ac_provided_outputs c) ev'))))"

end
