(* ===== verification/Plan.thy ===== *)
theory Plan
  imports Effects
begin

text \<open>
  The frozen execution plan (\<^verbatim>\<open>storage-engine/src/plan.rs\<close>), the preservation policy of
  \<^verbatim>\<open>validate.rs\<close>, and the error types of simulation and composition. A \<open>fault\<close> separates
  the errors a function returns from a panic of the process (an index out of range, an
  arithmetic underflow, an \<^verbatim>\<open>unreachable!\<close>) and from running out of the fuel of a bounded
  model loop; both are proved not to occur.
\<close>

datatype 'e fault = Panic | OutOfFuel | Failed 'e

datatype ActionId = ActionId (action_id_get: u32)

datatype FragmentId = FragmentId (fragment_id_get: u32)

record FragmentActionRef =
  far_fragment :: FragmentId
  far_action :: LocalActionId

record FragmentOrdering =
  fo_before :: FragmentActionRef
  fo_after :: FragmentActionRef
  fo_reason :: DependencyReason

record PlannedAction =
  pa_id :: ActionId
  pa_operation :: ProviderAction
  pa_fragment :: FragmentId
  pa_local_id :: LocalActionId
  pa_origin :: FragmentOrigin
  pa_informational_contract :: ActionContract

record ActionDependency =
  ad_before :: ActionId
  ad_after :: ActionId
  ad_reason :: DependencyReason

record ExecutionPlan =
  plan_actions :: "PlannedAction list"
  plan_dependencies :: "ActionDependency list"

section \<open>Protected scope\<close>

record ProtectedMount =
  pm_target :: PathBuf
  pm_context :: MountContext

record ProtectedScope =
  ps_nodes :: "NodeId list"
  ps_runtime_mounts :: "ProtectedMount list"
  ps_persistent_mounts :: "ProtectedMount list"

datatype ProtectedAspect =
    Node NodeId
  | RuntimeMount ProtectedMount
  | PersistentMount ProtectedMount

record ProtectionViolation =
  pv_action :: ActionId
  pv_aspect :: ProtectedAspect

section \<open>Errors\<close>

datatype GoalAspect =
    Graph
  | RuntimeMount PathBuf MountContext
  | PersistentMount PathBuf MountContext
  | Boot

datatype PlanSimulationError =
    Structure GraphError
  | InvalidProtectedMount ProtectedMount
  | UnknownIntentOrigin ActionId nat
  | CapacityEvidence CapacityEvidenceError
  | Action ActionId ActionSimulationError
  | ContractMismatch ActionId

datatype CompositionError =
    UnknownOrderingAction FragmentActionRef
  | Structure GraphError
  | ProtectedScopeViolation ActionId ProtectedAspect
  | ActionValidation ActionId "Diagnostic list"
  | PlanTooLarge
  | FragmentHasErrors FragmentId
  | DuplicateLocalAction FragmentId LocalActionId
  | UnknownLocalDependency FragmentId
  | UnknownRequirementAction FragmentId LocalActionId
  | PlannedNodeAlreadyExists NodeId
  | DuplicatePlannedNode NodeId ActionId ActionId
  | UnresolvedInput ActionId NodeId
  | SelfDependency ActionId
  | DependencyCycle
  | ActionRejected ActionId "PrerequisiteCheck list"
  | Effect ActionId EffectApplicationError
  | UnresolvedRequirement ActionId
  | AmbiguousRequirement ActionId
  | RequirementNotInContract ActionId
  | MissingRequirementCheck ActionId
  | MissingAnalysedContract ActionId
  | CapacityEvidence CapacityEvidenceError
  | AmbiguousResourceOrder ActionId ActionId ActionResource
  | UnknownIntentOrigin FragmentId nat
  | UncoveredIntent nat
  | FinalSimulation PlanSimulationError
  | GoalNotReached GoalAspect

instantiation ActionId :: linorder
begin

definition less_eq_ActionId :: "ActionId \<Rightarrow> ActionId \<Rightarrow> bool" where
  "less_eq_ActionId a b \<longleftrightarrow> action_id_get a \<le> action_id_get b"

definition less_ActionId :: "ActionId \<Rightarrow> ActionId \<Rightarrow> bool" where
  "less_ActionId a b \<longleftrightarrow> action_id_get a < action_id_get b"

instance
  by standard (auto simp: less_eq_ActionId_def less_ActionId_def ActionId.expand)

end

definition action_index :: "ActionId \<Rightarrow> nat" where
  "action_index a = unat (action_id_get a)"

definition action_of_index :: "nat \<Rightarrow> ActionId" where
  "action_of_index i = ActionId (of_nat i)"

definition fits_u32 :: "nat \<Rightarrow> bool" where
  [simp]: "fits_u32 n \<longleftrightarrow> n < 2 ^ 32"

lemma fits_u32_code [code]: "fits_u32 n \<longleftrightarrow> int n < 4294967296"
  by simp

lemma action_index_of_index [simp]: "i < 2 ^ 32 \<Longrightarrow> action_index (action_of_index i) = i"
  by (simp add: action_index_def action_of_index_def unsigned_of_nat take_bit_nat_eq_self)

lemma action_of_index_index [simp]: "action_of_index (action_index a) = a"
  by (cases a) (simp add: action_index_def action_of_index_def)

lemma action_index_eq_iff: "action_index a = action_index b \<longleftrightarrow> a = b"
  by (metis action_of_index_index)

lemma action_index_less: "action_index a < 2 ^ 32"
  using unsigned_less [of "action_id_get a"] by (simp add: action_index_def)

lemma action_le_iff: "a \<le> b \<longleftrightarrow> action_index a \<le> action_index b"
  by (simp add: less_eq_ActionId_def action_index_def word_le_nat_alt)

end
