(* ===== verification/Plan_Order.thy ===== *)
theory Plan_Order
  imports Plan
begin

text \<open>
  Ordering of actions (\<^verbatim>\<open>topological_order\<close>, \<^verbatim>\<open>dependency_path\<close>, \<^verbatim>\<open>add_dependency\<close>,
  \<^verbatim>\<open>conflicting_resource\<close> and \<^verbatim>\<open>validate_resource_order\<close> of \<^verbatim>\<open>storage-engine/src/compose.rs\<close>).
  The composer's sort is the second interpretation of \<open>dag_sorter\<close>: it is stable (the
  smallest ready identifier first) where the storage graph's is queue-based.
\<close>

section \<open>The stable topological sort\<close>

definition bump :: "nat list \<Rightarrow> ActionId \<Rightarrow> (CompositionError fault, nat list) result" where
  "bump indegree a =
     (if action_index a < length indegree
      then Inr (indegree[action_index a := indegree ! action_index a + 1]) else Inl Panic)"

definition lower :: "nat list \<Rightarrow> ActionId \<Rightarrow> (CompositionError fault, nat list) result" where
  "lower indegree a =
     (if action_index a < length indegree \<and> indegree ! action_index a \<noteq> 0
      then Inr (indegree[action_index a := indegree ! action_index a - 1]) else Inl Panic)"

text \<open>
  The first argument is \<^verbatim>\<open>action_count - order.len()\<close>: every turn of the \<^verbatim>\<open>while\<close> loop emits
  one action or returns.
\<close>

fun emit_loop :: "nat \<Rightarrow> ActionDependency list \<Rightarrow> nat list \<Rightarrow> bool list \<Rightarrow> ActionId list \<Rightarrow>
  (CompositionError fault, ActionId list) result" where
  "emit_loop 0 deps indegree emitted order = Inr order"
| "emit_loop (Suc remaining) deps indegree emitted order =
     (case find (\<lambda>i. \<not> emitted ! i \<and> indegree ! i = 0) [0..<length indegree] of
        None \<Rightarrow> Inl (Failed CompositionError.DependencyCycle)
      | Some next_id \<Rightarrow>
          if \<not> fits_u32 next_id then Inl (Failed CompositionError.PlanTooLarge)
          else and_then (try_fold (\<lambda>ind d. lower ind (ad_after d)) indegree
              (filter (\<lambda>d. action_index (ad_before d) = next_id) deps)) (\<lambda>indegree'.
            emit_loop remaining deps indegree' (emitted[next_id := True])
              (order @ [action_of_index next_id])))"

definition topological_order ::
  "nat \<Rightarrow> ActionDependency list \<Rightarrow> (CompositionError fault, ActionId list) result" where
  "topological_order action_count deps =
     and_then (try_fold (\<lambda>ind d. bump ind (ad_after d)) (replicate action_count 0) deps) (\<lambda>indegree.
       emit_loop action_count deps indegree (replicate action_count False) [])"

definition dep_pairs :: "ActionDependency list \<Rightarrow> (nat \<times> nat) list" where
  "dep_pairs deps = map (\<lambda>d. (action_index (ad_before d), action_index (ad_after d))) deps"

definition action_edges :: "ActionDependency list \<Rightarrow> (ActionId \<times> ActionId) list" where
  "action_edges deps = map (\<lambda>d. (ad_before d, ad_after d)) deps"

definition deps_within :: "nat \<times> ActionDependency list \<Rightarrow> bool" where
  "deps_within p = (case p of (n, deps) \<Rightarrow> n \<le> 2 ^ 32 \<and>
     list_all (\<lambda>d. action_index (ad_before d) < n \<and> action_index (ad_after d) < n) deps)"

definition action_set :: "nat \<Rightarrow> ActionId set" where
  "action_set n = action_of_index ` {0..<n}"

section \<open>Paths\<close>

function path_loop :: "(ActionId \<times> ActionId) list \<Rightarrow> ActionId \<Rightarrow> ActionId list \<Rightarrow> ActionId list \<Rightarrow> bool" where
  "path_loop E target [] visited = False"
| "path_loop E target (n # pending) visited =
     (if n \<in> set visited then path_loop E target pending visited
      else if target \<in> set (succs E n) then True
      else path_loop E target (rev (succs E n) @ pending) (visited @ [n]))"
  by pat_completeness auto

termination
proof (relation "measures [\<lambda>(E, t, p, v). card ((set p \<union> snd ` set E) - set v), \<lambda>(E, t, p, v). length p]",
    goal_cases)
  case 1
  show ?case by simp
next
  case (2 E target n pending visited)
  have "(set pending \<union> snd ` set E) - set visited
      = (set (n # pending) \<union> snd ` set E) - set visited" using 2 by auto
  then show ?case by simp
next
  case (3 E target n pending visited)
  have "(set (rev (succs E n) @ pending) \<union> snd ` set E) - set (visited @ [n])
      \<subset> (set (n # pending) \<union> snd ` set E) - set visited"
    using 3 set_succs_subset [of E n] by auto
  then have "card ((set (rev (succs E n) @ pending) \<union> snd ` set E) - set (visited @ [n]))
      < card ((set (n # pending) \<union> snd ` set E) - set visited)"
    by (intro psubset_card_mono) auto
  then show ?case by simp
qed

definition dependency_path :: "ActionId \<Rightarrow> ActionId \<Rightarrow> ActionDependency list \<Rightarrow> bool" where
  "dependency_path before after deps = path_loop (action_edges deps) after [before] []"

definition add_dependency ::
  "ActionDependency list \<Rightarrow> ActionId \<Rightarrow> ActionId \<Rightarrow> DependencyReason \<Rightarrow>
   (CompositionError fault, ActionDependency list) result" where
  "add_dependency deps before after reason =
     (if before = after then Inl (Failed (CompositionError.SelfDependency before))
      else if list_ex (\<lambda>d. ad_before d = before \<and> ad_after d = after) deps then Inr deps
      else Inr (deps @ [\<lparr>ad_before = before, ad_after = after, ad_reason = reason\<rparr>]))"

section \<open>Resource conflicts\<close>

fun find_map :: "('a \<Rightarrow> 'b option) \<Rightarrow> 'a list \<Rightarrow> 'b option" where
  "find_map f [] = None"
| "find_map f (x # xs) = (case f x of None \<Rightarrow> find_map f xs | Some y \<Rightarrow> Some y)"

definition conflicting_resource :: "ActionContract \<Rightarrow> ActionContract \<Rightarrow> ActionResource option" where
  "conflicting_resource c1 c2 = find_map (\<lambda>l. find_map (\<lambda>r.
      if ra_resource l = ra_resource r
        \<and> (ra_mode l = ResourceAccessMode.Write \<or> ra_mode r = ResourceAccessMode.Write)
      then Some (ra_resource l) else None) (ac_affected_resources c2)) (ac_affected_resources c1)"

fun ordered_pairs :: "'a list \<Rightarrow> ('a \<times> 'a) list" where
  "ordered_pairs [] = []"
| "ordered_pairs (x # xs) = map (Pair x) xs @ ordered_pairs xs"

definition check_pair ::
  "(ActionId \<rightharpoonup> ActionContract) \<Rightarrow> ActionDependency list \<Rightarrow> unit \<Rightarrow> ActionId \<times> ActionId \<Rightarrow>
   (CompositionError fault, unit) result" where
  "check_pair contracts deps _ p = (case p of (first, second) \<Rightarrow>
     case (contracts first, contracts second) of
       (Some c1, Some c2) \<Rightarrow>
         (case conflicting_resource c1 c2 of
            None \<Rightarrow> Inr ()
          | Some resource \<Rightarrow>
              require (dependency_path first second deps \<or> dependency_path second first deps)
                (Failed (CompositionError.AmbiguousResourceOrder first second resource)))
     | _ \<Rightarrow> Inl Panic)"

definition validate_resource_order ::
  "(ActionId \<times> ActionContract) list \<Rightarrow> ActionDependency list \<Rightarrow> (CompositionError fault, unit) result" where
  "validate_resource_order contracts deps =
     try_fold (check_pair (map_of contracts) deps) () (ordered_pairs (sort (map fst contracts)))"

end
