(* ===== verification/Plan_Sort.thy ===== *)
theory Plan_Sort
  imports Plan_Order
begin

text \<open>
  Correctness of the ordering functions of the composer: the stable sort neither panics nor
  fails on acyclic dependencies within range (an interpretation of \<open>dag_sorter\<close>),
  \<open>dependency_path\<close> decides reachability, and accepted plans order every pair of
  conflicting actions.
\<close>

section \<open>The sort\<close>

lemma bump_all:
  assumes "\<forall>a \<in> set L. action_index a < length ind"
  shows "\<exists>ind'. try_fold bump ind L = Inr ind' \<and> length ind' = length ind
    \<and> (\<forall>i < length ind. ind' ! i = ind ! i + count_list (map action_index L) i)"
  using assms
proof (induction L arbitrary: ind)
  case Nil
  then show ?case by simp
next
  case (Cons a L)
  let ?ind = "ind[action_index a := ind ! action_index a + 1]"
  have b: "bump ind a = Inr ?ind" using Cons.prems by (simp add: bump_def)
  have "\<forall>x \<in> set L. action_index x < length ?ind" using Cons.prems by simp
  from Cons.IH [OF this] obtain ind' where "try_fold bump ?ind L = Inr ind'"
    "length ind' = length ind"
    "\<forall>i < length ind. ind' ! i = ?ind ! i + count_list (map action_index L) i" by auto
  then show ?case using b Cons.prems by (auto simp: nth_list_update)
qed

lemma lower_all:
  assumes "\<forall>a \<in> set L. action_index a < length ind"
    and "\<forall>i < length ind. count_list (map action_index L) i \<le> ind ! i"
  shows "\<exists>ind'. try_fold lower ind L = Inr ind' \<and> length ind' = length ind
    \<and> (\<forall>i < length ind. ind' ! i = ind ! i - count_list (map action_index L) i)"
  using assms
proof (induction L arbitrary: ind)
  case Nil
  then show ?case by simp
next
  case (Cons a L)
  let ?ind = "ind[action_index a := ind ! action_index a - 1]"
  have pos: "action_index a < length ind" "ind ! action_index a \<noteq> 0"
    using Cons.prems(1) Cons.prems(2) [rule_format, of "action_index a"] by auto
  then have b: "lower ind a = Inr ?ind" by (simp add: lower_def)
  have 1: "\<forall>x \<in> set L. action_index x < length ?ind" using Cons.prems by simp
  have 2: "\<forall>i < length ?ind. count_list (map action_index L) i \<le> ?ind ! i"
  proof (intro allI impI)
    fix i assume "i < length ?ind"
    then show "count_list (map action_index L) i \<le> ?ind ! i"
      using Cons.prems(2) [rule_format, of i] by (auto simp: nth_list_update split: if_splits)
  qed
  from Cons.IH [OF 1 2] obtain ind' where "try_fold lower ?ind L = Inr ind'"
    "length ind' = length ind"
    "\<forall>i < length ind. ind' ! i = ?ind ! i - count_list (map action_index L) i" by auto
  then show ?case using b Cons.prems by (auto simp: nth_list_update)
qed

definition sort_inv :: "nat \<Rightarrow> (nat \<times> nat) list \<Rightarrow> nat list \<Rightarrow> bool list \<Rightarrow> nat list \<Rightarrow> bool" where
  "sort_inv n E ind emitted os \<longleftrightarrow>
     length ind = n \<and> length emitted = n \<and> distinct os \<and> set os \<subseteq> {0..<n}
     \<and> (\<forall>i < n. emitted ! i \<longleftrightarrow> i \<in> set os) \<and> (\<forall>i < n. ind ! i = pending_in E os i)
     \<and> (\<forall>i \<in> set os. pending_in E os i = 0) \<and> keeps_order (set E) os"

lemma try_fold_map: "try_fold f s (map h xs) = try_fold (\<lambda>s x. f s (h x)) s xs"
  by (induction xs arbitrary: s) (auto split: sum.splits)

lemma released_indices:
  "map action_index (map ad_after (filter (\<lambda>d. action_index (ad_before d) = x) deps)) = succs (dep_pairs deps) x"
  by (induction deps) (auto simp: succs_def dep_pairs_def)

lemma pending_in_mono: "pending_in E (os @ [x]) i \<le> pending_in E os i"
  unfolding pending_in_def by (induction E) auto

lemma sort_step:
  assumes inv: "sort_inv n (dep_pairs deps) ind emitted os" and within: "deps_within (n, deps)"
    and x: "x < n" "\<not> emitted ! x" "ind ! x = 0"
  shows "\<exists>ind'. try_fold (\<lambda>ind d. lower ind (ad_after d)) ind
      (filter (\<lambda>d. action_index (ad_before d) = x) deps) = Inr ind'
    \<and> sort_inv n (dep_pairs deps) ind' (emitted[x := True]) (os @ [x])"
proof -
  let ?E = "dep_pairs deps" and ?L = "map ad_after (filter (\<lambda>d. action_index (ad_before d) = x) deps)"
  have i: "length ind = n" "length emitted = n" "distinct os" "set os \<subseteq> {0..<n}"
    "\<And>i. i < n \<Longrightarrow> emitted ! i \<longleftrightarrow> i \<in> set os" "\<And>i. i < n \<Longrightarrow> ind ! i = pending_in ?E os i"
    "\<And>i. i \<in> set os \<Longrightarrow> pending_in ?E os i = 0" "keeps_order (set ?E) os"
    using inv unfolding sort_inv_def by blast+
  have new: "x \<notin> set os" using x i(5) by blast
  have split: "pending_in ?E os i = pending_in ?E (os @ [x]) i + count_list (succs ?E x) i" for i
    by (rule pending_in_snoc [OF new])
  have "\<forall>a \<in> set ?L. action_index a < length ind"
    using within i(1) by (auto simp: deps_within_def list_all_iff)
  moreover have "\<forall>i < length ind. count_list (map action_index ?L) i \<le> ind ! i"
    unfolding released_indices using i(1,6) split by simp
  ultimately obtain ind' where r: "try_fold lower ind ?L = Inr ind'" "length ind' = n"
    "\<And>i. i < n \<Longrightarrow> ind' ! i = ind ! i - count_list (succs ?E x) i"
    using lower_all [of ?L ind] i(1) unfolding released_indices by blast
  have "pending_in ?E os x = 0" using i(6) [OF x(1)] x(3) by simp
  then have zero: "pending_in ?E os y = 0" if "y \<in> insert x (set os)" for y
    using i(7) that by auto
  have "(x, y) \<notin> set ?E" if "y \<in> insert x (set os)" for y
    using zero [OF that] new by (auto simp: pending_in_0)
  then have "keeps_order (set ?E) (os @ [x])" using i(8) by (simp add: keeps_order_snoc)
  moreover have "\<forall>y \<in> set (os @ [x]). pending_in ?E (os @ [x]) y = 0"
  proof
    fix y assume "y \<in> set (os @ [x])"
    then have "pending_in ?E os y = 0" using zero [of y] by simp
    then show "pending_in ?E (os @ [x]) y = 0" using pending_in_mono [of ?E os x y] by simp
  qed
  moreover have "\<forall>i < n. ind' ! i = pending_in ?E (os @ [x]) i"
    using r(3) i(6) split by simp
  ultimately have "sort_inv n ?E ind' (emitted[x := True]) (os @ [x])"
    using i(2-5) x(1) new r(2) by (auto simp: sort_inv_def nth_list_update)
  then show ?thesis using r(1) by (auto simp: try_fold_map)
qed

lemma emit_loop_run:
  assumes "sort_inv n (dep_pairs deps) ind emitted os" and "deps_within (n, deps)"
    and "length os + remaining = n"
  shows "(\<exists>os'. emit_loop remaining deps ind emitted (map action_of_index os)
        = Inr (map action_of_index os')
      \<and> length os' = n \<and> distinct os' \<and> set os' = {0..<n} \<and> keeps_order (set (dep_pairs deps)) os')
    \<or> (emit_loop remaining deps ind emitted (map action_of_index os)
        = Inl (Failed CompositionError.DependencyCycle) \<and> \<not> acyclic (set (dep_pairs deps)))"
  using assms
proof (induction remaining arbitrary: ind emitted os)
  case 0
  then have d: "distinct os" "set os \<subseteq> {0..<n}" "length os = n" "keeps_order (set (dep_pairs deps)) os"
    by (auto simp: sort_inv_def)
  then have "set os = {0..<n}" by (intro card_subset_eq) (simp_all add: distinct_card)
  then show ?case using d by auto
next
  case (Suc remaining)
  let ?P = "\<lambda>i. \<not> emitted ! i \<and> ind ! i = 0"
  have len: "length ind = n" using Suc.prems(1) by (simp add: sort_inv_def)
  show ?case
  proof (cases "find ?P [0..<length ind]")
    case None
    let ?S = "{0..<n} - set os"
    have os: "distinct os" "set os \<subseteq> {0..<n}" using Suc.prems(1) by (auto simp: sort_inv_def)
    have "card (set os) < n" using Suc.prems(3) os distinct_card [of os] by simp
    then have "?S \<noteq> {}" using os by (metis Diff_eq_empty_iff card_atLeastLessThan card_mono
        diff_zero finite_set leD)
    moreover have "\<exists>y \<in> ?S. (y, x) \<in> set (dep_pairs deps)" if "x \<in> ?S" for x
    proof -
      have "\<not> ?P x" using None that len by (simp add: find_None_iff)
      then have "pending_in (dep_pairs deps) os x \<noteq> 0"
        using Suc.prems(1) that by (auto simp: sort_inv_def)
      then obtain u where u: "(u, x) \<in> set (dep_pairs deps)" "u \<notin> set os"
        by (auto simp: pending_in_0)
      then have "u < n" using Suc.prems(2) by (auto simp: dep_pairs_def deps_within_def list_all_iff)
      then show ?thesis using u by auto
    qed
    ultimately have "\<not> acyclic (set (dep_pairs deps))"
      using acyclic_has_source [of "set (dep_pairs deps)" ?S] by blast
    then show ?thesis using None by simp
  next
    case (Some x)
    then have x: "x < n" "\<not> emitted ! x" "ind ! x = 0" using len by (auto simp: find_Some_iff)
    then have small: "x < 2 ^ 32" using Suc.prems(2) by (simp add: deps_within_def)
    obtain ind' where r: "try_fold (\<lambda>ind d. lower ind (ad_after d)) ind
        (filter (\<lambda>d. action_index (ad_before d) = x) deps) = Inr ind'"
      "sort_inv n (dep_pairs deps) ind' (emitted[x := True]) (os @ [x])"
      using sort_step [OF Suc.prems(1,2) x] by blast
    show ?thesis
      using Suc.IH [OF r(2) Suc.prems(2)] Suc.prems(3) Some r(1) small by simp
  qed
qed

lemma count_afters:
  "count_list (map (action_index \<circ> ad_after) deps) i = pending_in (dep_pairs deps) [] i"
  by (induction deps) (auto simp: pending_in_def dep_pairs_def)

lemma plan_order_run:
  assumes "deps_within (n, deps)"
  shows "(\<exists>os. topological_order n deps = Inr (map action_of_index os)
      \<and> length os = n \<and> distinct os \<and> set os = {0..<n} \<and> keeps_order (set (dep_pairs deps)) os)
    \<or> (topological_order n deps = Inl (Failed CompositionError.DependencyCycle)
        \<and> \<not> acyclic (set (dep_pairs deps)))"
proof -
  have "\<forall>a \<in> set (map ad_after deps). action_index a < length (replicate n (0 :: nat))"
    using assms by (auto simp: deps_within_def list_all_iff)
  from bump_all [OF this] obtain ind where
    b: "try_fold (\<lambda>ind d. bump ind (ad_after d)) (replicate n 0) deps = Inr ind"
    "length ind = n" "\<forall>i < n. ind ! i = pending_in (dep_pairs deps) [] i"
    by (auto simp: try_fold_map count_afters)
  then have "sort_inv n (dep_pairs deps) ind (replicate n False) []"
    by (simp add: sort_inv_def)
  from emit_loop_run [OF this assms, of n] b(1) show ?thesis
    by (simp add: topological_order_def)
qed

section \<open>Indices and identifiers\<close>

lemma inj_action_index: "inj action_index"
  by (rule injI) (simp add: action_index_eq_iff)

lemma dep_pairs_edges: "set (dep_pairs deps) = map_prod action_index action_index ` set (action_edges deps)"
  by (auto simp: dep_pairs_def action_edges_def image_image)

lemma keeps_order_action_of_index:
  assumes "set os \<subseteq> {0..<n}" and "n \<le> 2 ^ 32"
  shows "keeps_order (set (action_edges deps)) (map action_of_index os)
    \<longleftrightarrow> keeps_order (set (dep_pairs deps)) os"
proof -
  have "(action_of_index a, action_of_index b) \<in> set (action_edges deps) \<longleftrightarrow> (a, b) \<in> set (dep_pairs deps)"
    if "a \<in> set os" "b \<in> set os" for a b
  proof -
    have "a < 2 ^ 32" "b < 2 ^ 32" using that assms by fastforce+
    then have "(a, b) = map_prod action_index action_index (action_of_index a, action_of_index b)" by simp
    then show ?thesis
      unfolding dep_pairs_edges by (metis inj_image_mem_iff inj_action_index prod.inj_map)
  qed
  then show ?thesis by (auto simp: keeps_order_def)
qed

lemma acyclic_edges_iff: "acyclic (set (dep_pairs deps)) \<longleftrightarrow> acyclic (set (action_edges deps))"
proof
  assume "acyclic (set (dep_pairs deps))"
  then have "wf (set (dep_pairs deps))" by (rule finite_acyclic_wf [rotated]) simp
  then have "wf (inv_image (set (dep_pairs deps)) action_index)" by (rule wf_inv_image)
  moreover have "set (action_edges deps) \<subseteq> inv_image (set (dep_pairs deps)) action_index"
    by (auto simp: dep_pairs_def action_edges_def)
  ultimately show "acyclic (set (action_edges deps))"
    by (metis wf_acyclic wf_subset)
next
  assume "acyclic (set (action_edges deps))"
  then have "wf (set (action_edges deps))" by (rule finite_acyclic_wf [rotated]) simp
  then have "wf (map_prod action_index action_index ` set (action_edges deps))"
    by (rule wf_map_prod_image) (rule inj_action_index)
  then show "acyclic (set (dep_pairs deps))" unfolding dep_pairs_edges by (rule wf_acyclic)
qed

lemma action_edges_within:
  "deps_within (n, deps) \<Longrightarrow> set (action_edges deps) \<subseteq> action_set n \<times> action_set n"
  by (force simp: deps_within_def list_all_iff action_edges_def action_set_def
      intro: rev_image_eqI [where x = "action_index _"])

lemma plan_order_sound:
  assumes "deps_within (n, deps)" and "topological_order n deps = Inr xs"
  shows "distinct xs \<and> set xs = action_set n \<and> keeps_order (set (action_edges deps)) xs
    \<and> length xs = n"
proof -
  from plan_order_run [OF assms(1)] assms(2) obtain os where
    os: "xs = map action_of_index os" "length os = n" "distinct os" "set os = {0..<n}"
    "keeps_order (set (dep_pairs deps)) os" by auto
  have n: "n \<le> 2 ^ 32" using assms(1) by (simp add: deps_within_def)
  have "inj_on action_of_index {0..<n}"
    using n by (intro inj_on_inverseI [where g = action_index]) simp
  then show ?thesis
    using os keeps_order_action_of_index [of os n deps] n by (simp add: distinct_map action_set_def)
qed

interpretation plan_sort: dag_sorter deps_within "\<lambda>(n, deps). action_set n"
  "\<lambda>(n, deps). set (action_edges deps)" "\<lambda>(n, deps). topological_order n deps"
proof
  fix g :: "nat \<times> ActionDependency list" and xs
  obtain n deps where g: "g = (n, deps)" by (cases g)
  show "(case g of (n, deps) \<Rightarrow> set (action_edges deps))
      \<subseteq> (case g of (n, deps) \<Rightarrow> action_set n) \<times> (case g of (n, deps) \<Rightarrow> action_set n)"
    if "deps_within g" using that action_edges_within g by simp
  show "distinct xs \<and> set xs = (case g of (n, deps) \<Rightarrow> action_set n)
      \<and> keeps_order (case g of (n, deps) \<Rightarrow> set (action_edges deps)) xs"
    if "deps_within g" "(case g of (n, deps) \<Rightarrow> topological_order n deps) = Inr xs"
    using that plan_order_sound g by simp
  show "\<exists>xs. (case g of (n, deps) \<Rightarrow> topological_order n deps) = Inr xs"
    if "deps_within g" "acyclic (case g of (n, deps) \<Rightarrow> set (action_edges deps))"
    using that plan_order_run [of n deps] g by (auto simp: acyclic_edges_iff)
qed

lemma topological_order_error:
  assumes "deps_within (n, deps)" and "topological_order n deps = Inl e"
  shows "e = Failed CompositionError.DependencyCycle \<and> \<not> acyclic (set (action_edges deps))"
  using plan_order_run [OF assms(1)] assms(2) by (auto simp: acyclic_edges_iff)

section \<open>Paths\<close>

lemma path_loop_walk:
  "path_loop E target pending visited \<longleftrightarrow>
     (\<exists>n \<in> set (walk E pending visited) - set visited. (n, target) \<in> set E)"
proof (induction E target pending visited rule: path_loop.induct)
  case (1 E target visited)
  then show ?case by simp
next
  case (2 E target n pending visited)
  have grows: "set v \<subseteq> set (walk E p v)" for p v
    by (induction E p v rule: walk.induct) auto
  show ?case
  proof (cases "n \<in> set visited \<or> target \<in> set (succs E n)")
    case True
    then show ?thesis
      using 2 grows [of "visited @ [n]" "rev (succs E n) @ pending"]
      by (auto simp: set_succs)
  next
    case False
    then have "(n, target) \<notin> set E" by (simp add: set_succs)
    then show ?thesis using 2 False by auto
  qed
qed

lemma dependency_path_iff_aux:
  "dependency_path a b deps \<longleftrightarrow> (a, b) \<in> (set (action_edges deps))\<^sup>+"
proof -
  have "dependency_path a b deps \<longleftrightarrow>
      (\<exists>n \<in> (set (action_edges deps))\<^sup>* `` {a}. (n, b) \<in> set (action_edges deps))"
    unfolding dependency_path_def path_loop_walk set_walk by simp
  then show ?thesis by (auto intro: rtrancl_into_trancl1 dest: tranclD2)
qed

lemma add_dependency_Inr:
  assumes "add_dependency deps a b r = Inr deps'"
  shows "a \<noteq> b" and "set (action_edges deps') = insert (a, b) (set (action_edges deps))"
    and "\<exists>es. deps' = deps @ es \<and> (\<forall>e \<in> set es. ad_before e = a \<and> ad_after e = b)"
  using assms
  by (auto simp: add_dependency_def action_edges_def list_ex_iff image_iff split: if_splits)

section \<open>Resources\<close>

lemma find_map_None: "find_map f xs = None \<longleftrightarrow> (\<forall>x \<in> set xs. f x = None)"
  by (induction xs) (auto split: option.splits)

lemma find_map_Some: "find_map f xs = Some y \<Longrightarrow> \<exists>x \<in> set xs. f x = Some y"
  by (induction xs) (auto split: option.splits)

definition conflicts_on :: "ActionResource \<Rightarrow> ActionContract \<Rightarrow> ActionContract \<Rightarrow> bool" where
  "conflicts_on r c1 c2 \<longleftrightarrow> (\<exists>l \<in> set (ac_affected_resources c1). \<exists>l' \<in> set (ac_affected_resources c2).
     ra_resource l = r \<and> ra_resource l' = r
     \<and> (ra_mode l = ResourceAccessMode.Write \<or> ra_mode l' = ResourceAccessMode.Write))"

lemma conflicting_resource_None:
  "conflicting_resource c1 c2 = None \<longleftrightarrow> (\<forall>r. \<not> conflicts_on r c1 c2)"
  by (auto simp: conflicting_resource_def find_map_None conflicts_on_def)

lemma conflicts_on_sym: "conflicts_on r c1 c2 \<longleftrightarrow> conflicts_on r c2 c1"
  by (auto simp: conflicts_on_def)

lemma set_ordered_pairs:
  "a \<in> set xs \<Longrightarrow> b \<in> set xs \<Longrightarrow> a \<noteq> b \<Longrightarrow> (a, b) \<in> set (ordered_pairs xs) \<or> (b, a) \<in> set (ordered_pairs xs)"
  by (induction xs) auto

lemma ordered_pairs_subset: "set (ordered_pairs xs) \<subseteq> set xs \<times> set xs"
  by (induction xs) auto

lemma try_fold_unit_Inr:
  "try_fold f () xs = Inr () \<longleftrightarrow> (\<forall>x \<in> set xs. f () x = Inr ())"
  by (induction xs) (auto split: sum.splits)

lemma validate_resource_order_Inr:
  "validate_resource_order contracts deps = Inr () \<Longrightarrow>
   map_of contracts a = Some c1 \<Longrightarrow> map_of contracts b = Some c2 \<Longrightarrow> a \<noteq> b \<Longrightarrow>
   conflicts_on r c1 c2 \<Longrightarrow> dependency_path a b deps \<or> dependency_path b a deps"
proof -
  assume v: "validate_resource_order contracts deps = Inr ()"
    and c: "map_of contracts a = Some c1" "map_of contracts b = Some c2" "a \<noteq> b"
    and r: "conflicts_on r c1 c2"
  have "a \<in> set (sort (map fst contracts))" "b \<in> set (sort (map fst contracts))"
    using c map_of_SomeD by force+
  then consider "(a, b) \<in> set (ordered_pairs (sort (map fst contracts)))"
    | "(b, a) \<in> set (ordered_pairs (sort (map fst contracts)))"
    using set_ordered_pairs c(3) by metis
  then show ?thesis
  proof cases
    case 1
    then have "check_pair (map_of contracts) deps () (a, b) = Inr ()"
      using v by (auto simp: validate_resource_order_def try_fold_unit_Inr)
    then show ?thesis using c r
      by (auto simp: check_pair_def require_Inr_iff conflicting_resource_None split: option.splits)
  next
    case 2
    then have "check_pair (map_of contracts) deps () (b, a) = Inr ()"
      using v by (auto simp: validate_resource_order_def try_fold_unit_Inr)
    then show ?thesis using c r conflicts_on_sym
      by (auto simp: check_pair_def require_Inr_iff conflicting_resource_None split: option.splits)
  qed
qed

end
