(* ===== verification/Plan_Replay.thy ===== *)
theory Plan_Replay
  imports Plan_Sort
begin

text \<open>
  Whole-plan simulation and goal comparison (\<^verbatim>\<open>storage-engine/src/simulate.rs\<close>), the
  protected-scope check (\<^verbatim>\<open>validate.rs\<close>) and the coverage of explicit intents
  (\<^verbatim>\<open>actions_cover_intent\<close> of \<^verbatim>\<open>compose.rs\<close>).
\<close>

section \<open>Replay\<close>

record SimulatedStep =
  ss_action :: ActionId
  ss_checks :: "PrerequisiteCheck list"
  ss_invalidated_facts :: "FactInvalidation list"

record SimulationResult =
  sr_desired :: DesiredState
  sr_evidence :: SimulationEvidenceSummary
  sr_steps :: "SimulatedStep list"

definition nth_opt :: "'a list \<Rightarrow> nat \<Rightarrow> 'a option" where
  "nth_opt xs i = (if i < length xs then Some (xs ! i) else None)"

text \<open>\<open>None\<close> is the panic of a plan whose dependencies cannot be sorted.\<close>

definition ordered_actions :: "ExecutionPlan \<Rightarrow> PlannedAction list option" where
  "ordered_actions plan =
     (case topological_order (length (plan_actions plan)) (plan_dependencies plan) of
        Inl _ \<Rightarrow> None
      | Inr ids \<Rightarrow> those (map (\<lambda>i. nth_opt (plan_actions plan) (action_index i)) ids))"

definition replay_step ::
  "ContractKeys \<Rightarrow> SimState \<times> PlannedAction list \<times> SimulatedStep list \<Rightarrow> PlannedAction \<Rightarrow>
   (PlanSimulationError fault, SimState \<times> PlannedAction list \<times> SimulatedStep list) result" where
  "replay_step keys s action = (case s of (st, trusted, steps) \<Rightarrow>
     and_then (map_err (\<lambda>_. Failed (PlanSimulationError.ContractMismatch (pa_id action)))
       (verify_imported_contract keys (pa_operation action) (pa_informational_contract action)
         (des_graph (fst st)))) (\<lambda>_.
     and_then (map_err (\<lambda>source. Failed (PlanSimulationError.Action (pa_id action) source))
       (simulate_action st (pa_operation action))) (\<lambda>(result, st').
       Inr (st', trusted @ [action\<lparr>pa_informational_contract := sa_contract result\<rparr>],
         steps @ [\<lparr>ss_action = pa_id action, ss_checks = sa_checks result,
           ss_invalidated_facts = sa_invalidated_facts result\<rparr>]))))"

definition replay_plan ::
  "ContractKeys \<Rightarrow> CurrentState \<Rightarrow> ExecutionPlan \<Rightarrow> CapacityEvidence list \<Rightarrow>
   (PlanSimulationError fault, ExecutionPlan \<times> SimulationResult) result" where
  "replay_plan keys current plan capacity =
     and_then (map_err (\<lambda>e. Failed (PlanSimulationError.Structure e))
       (validate_structure (cur_graph current))) (\<lambda>_.
     and_then (map_err (\<lambda>e. Failed (PlanSimulationError.CapacityEvidence e)) (evidence_new capacity)) (\<lambda>ev.
     and_then (ok_or (ordered_actions plan) Panic) (\<lambda>ordered.
     and_then (try_fold (replay_step keys) ((from_current current, ev), [], []) ordered)
       (\<lambda>((des', ev'), trusted, steps).
        Inr (\<lparr>plan_actions = sort_key pa_id trusted, plan_dependencies = plan_dependencies plan\<rparr>,
          \<lparr>sr_desired = des', sr_evidence = evidence_summary ev', sr_steps = steps\<rparr>)))))"

definition simulate_plan_with_evidence ::
  "ContractKeys \<Rightarrow> CurrentState \<Rightarrow> ExecutionPlan \<Rightarrow> CapacityEvidence list \<Rightarrow>
   (PlanSimulationError fault, SimulationResult) result" where
  "simulate_plan_with_evidence keys current plan capacity =
     and_then (replay_plan keys current plan capacity) (\<lambda>(_, simulation). Inr simulation)"

definition simulate_plan ::
  "ContractKeys \<Rightarrow> CurrentState \<Rightarrow> ExecutionPlan \<Rightarrow> (PlanSimulationError fault, SimulationResult) result" where
  "simulate_plan keys current plan = simulate_plan_with_evidence keys current plan []"

section \<open>Protected scope\<close>

definition valid_policy_path :: "PathBuf \<Rightarrow> bool" where
  "valid_policy_path p = (is_absolute p \<and> \<not> path_has_nul p \<and> \<not> list_ex (\<lambda>c. c = ParentDir) p)"

definition validate_protected_scope :: "ProtectedScope \<Rightarrow> (PlanSimulationError fault, unit) result" where
  "validate_protected_scope protected = try_fold (\<lambda>_ m.
     let root_valid = (case pm_context m of
           MountContext.TargetRoot root \<Rightarrow> valid_policy_path root | _ \<Rightarrow> True) in
     if \<not> valid_policy_path (pm_target m) \<or> \<not> root_valid
     then Inl (Failed (PlanSimulationError.InvalidProtectedMount m)) else Inr ())
     () (ps_runtime_mounts protected @ ps_persistent_mounts protected)"

definition graph_effect_touches :: "GraphEffect \<Rightarrow> NodeId \<Rightarrow> bool" where
  "graph_effect_touches effect n = (case effect of
      GraphEffect.InsertNode nid _ \<Rightarrow> nid = n
    | GraphEffect.RemoveNode nid \<Rightarrow> nid = n
    | GraphEffect.InvalidateNodeSize nid \<Rightarrow> nid = n
    | GraphEffect.SetNodeSize nid _ \<Rightarrow> nid = n
    | GraphEffect.SetActivation nid _ \<Rightarrow> nid = n
    | GraphEffect.SetPartitionAttributes nid _ \<Rightarrow> nid = n
    | GraphEffect.SetFilesystemLabel nid _ \<Rightarrow> nid = n
    | GraphEffect.SetBtrfsAllocation nid _ \<Rightarrow> nid = n
    | GraphEffect.InsertDependency d \<Rightarrow> dep_from d = n \<or> dep_to d = n
    | GraphEffect.RemoveDependency d \<Rightarrow> dep_from d = n \<or> dep_to d = n
    | GraphEffect.InsertRelation r \<Rightarrow> rel_from r = n \<or> rel_to r = n
    | GraphEffect.RemoveRelation r \<Rightarrow> rel_from r = n \<or> rel_to r = n)"

definition runtime_effect_touches :: "MountEffect \<Rightarrow> ProtectedMount \<Rightarrow> bool" where
  "runtime_effect_touches effect m =
     (let hits = (\<lambda>target ctx. ctx = pm_context m
            \<and> (starts_with target (pm_target m) \<or> starts_with (pm_target m) target)) in
      case effect of
        MountEffect.AddRuntime _ target _ ctx \<Rightarrow> hits target ctx
      | MountEffect.RemoveRuntime target ctx \<Rightarrow> hits target ctx
      | _ \<Rightarrow> False)"

definition is_mutating :: "ActionContract \<Rightarrow> bool" where
  "is_mutating c \<longleftrightarrow> list_ex (\<lambda>a. ra_mode a = ResourceAccessMode.Write) (ac_affected_resources c)
     \<or> pe_graph (ac_predicted_effect c) \<noteq> [] \<or> pe_mounts (ac_predicted_effect c) \<noteq> []
     \<or> pe_allocations (ac_predicted_effect c) \<noteq> []"

definition writes_node :: "ActionContract \<Rightarrow> NodeId \<Rightarrow> bool" where
  "writes_node c n = list_ex (\<lambda>a. ra_mode a = ResourceAccessMode.Write \<and> ra_resource a \<in>
     {ActionResource.Node n, ActionResource.PartitionTable n, ActionResource.LvmMetadata n})
     (ac_affected_resources c)"

definition touches_node :: "ActionContract \<Rightarrow> FactInvalidation list \<Rightarrow> NodeId \<Rightarrow> bool" where
  "touches_node c facts n \<longleftrightarrow> writes_node c n
     \<or> (is_mutating c \<and> list_ex (\<lambda>f. fi_scope f = FactScope.Node n) facts)
     \<or> list_ex (\<lambda>e. graph_effect_touches e n) (pe_graph (ac_predicted_effect c))"

definition touches_persistent :: "ActionContract \<Rightarrow> ProtectedMount \<Rightarrow> bool" where
  "touches_persistent c m = list_ex (\<lambda>a. ra_mode a = ResourceAccessMode.Write
     \<and> ra_resource a = ActionResource.PersistentMountConfig (pm_context m)) (ac_affected_resources c)"

definition push_violation :: "ActionId \<Rightarrow> ProtectedAspect \<Rightarrow> ProtectionViolation list \<Rightarrow> ProtectionViolation list" where
  "push_violation a aspect vs =
     (let v = \<lparr>pv_action = a, pv_aspect = aspect\<rparr> in if v \<in> set vs then vs else vs @ [v])"

definition touched_aspects :: "ActionContract \<Rightarrow> FactInvalidation list \<Rightarrow> ProtectedScope \<Rightarrow> ProtectedAspect list" where
  "touched_aspects c facts protected =
     map ProtectedAspect.Node (filter (touches_node c facts) (ps_nodes protected))
     @ map ProtectedAspect.RuntimeMount (filter (\<lambda>m. list_ex (\<lambda>e. runtime_effect_touches e m)
         (pe_mounts (ac_predicted_effect c))) (ps_runtime_mounts protected))
     @ map ProtectedAspect.PersistentMount (filter (touches_persistent c) (ps_persistent_mounts protected))"

definition check_protected_scope ::
  "ExecutionPlan \<Rightarrow> SimulationResult \<Rightarrow> ProtectedScope \<Rightarrow> ProtectionViolation list option" where
  "check_protected_scope plan simulation protected = map_option (\<lambda>ordered.
     fold (\<lambda>(action, step) vs. fold (push_violation (pa_id action))
         (touched_aspects (pa_informational_contract action) (ss_invalidated_facts step) protected) vs)
       (zip ordered (sr_steps simulation)) [])
     (ordered_actions plan)"

section \<open>Goals\<close>

datatype GoalStatus = Satisfied | Violated string | Unknown string

record GoalCheck =
  gc_aspect :: GoalAspect
  gc_status :: GoalStatus

definition topology_matches :: "NodeGraph \<Rightarrow> NodeGraph \<Rightarrow> bool" where
  "topology_matches projected requested \<longleftrightarrow>
     length (g_nodes projected) = length (g_nodes requested)
     \<and> list_all (\<lambda>(nid, n). is_some_and (kind_at requested nid) (\<lambda>k. k = spec_kind (node_kind n)))
         (g_nodes projected)
     \<and> length (g_dependencies projected) = length (g_dependencies requested)
     \<and> list_all (\<lambda>d. list_ex (\<lambda>c. c = d) (g_dependencies requested)) (g_dependencies projected)
     \<and> length (g_relations projected) = length (g_relations requested)
     \<and> list_all (\<lambda>r. list_ex (\<lambda>c. c = r) (g_relations requested)) (g_relations projected)"

definition compare_size ::
  "NodeGraph \<Rightarrow> bool \<Rightarrow> NodeId \<times> Node \<Rightarrow> (GoalStatus, bool) result" where
  "compare_size projected unknown p = (case spec_size (node_kind (snd p)) of
      None \<Rightarrow> Inr unknown
    | Some required \<Rightarrow> (case known_size projected (fst p) of
        Some actual \<Rightarrow> if actual = required then Inr unknown
          else Inl (GoalStatus.Violated ''projected capacity does not match the requested size'')
      | None \<Rightarrow> Inr True))"

definition compare_graph :: "NodeGraph \<Rightarrow> NodeGraph \<Rightarrow> GoalStatus" where
  "compare_graph projected requested =
     (if \<not> topology_matches projected requested
      then GoalStatus.Violated
        ''projected storage topology or node properties do not match the requested graph''
      else case try_fold (compare_size projected) False (g_nodes requested) of
        Inl violated \<Rightarrow> violated
      | Inr unknown \<Rightarrow> if unknown
          then GoalStatus.Unknown ''provider capacity evidence for nodes with explicitly requested sizes''
          else GoalStatus.Satisfied)"

definition options_match :: "string list \<Rightarrow> string list \<Rightarrow> bool" where
  "options_match l r = (l = r)"

definition entry_matches :: "MountEntry \<Rightarrow> MountEntry \<Rightarrow> bool" where
  "entry_matches m entry \<longleftrightarrow> me_source m = me_source entry \<and> me_target m = me_target entry
     \<and> me_context m = me_context entry \<and> options_match (me_options m) (me_options entry)"

definition runtime_mount_check :: "MountEntry list \<Rightarrow> MountEntry \<Rightarrow> GoalCheck" where
  "runtime_mount_check mounts entry = \<lparr>
     gc_aspect = GoalAspect.RuntimeMount (me_target entry) (me_context entry),
     gc_status = (if list_ex (\<lambda>m. entry_matches m entry) mounts then GoalStatus.Satisfied
       else GoalStatus.Violated ''requested runtime mount is absent from the projection'')\<rparr>"

definition persistent_mount_check ::
  "DesiredState \<Rightarrow> SimulationEvidenceSummary \<Rightarrow> MountEntry \<Rightarrow> GoalCheck" where
  "persistent_mount_check des ev entry = \<lparr>
     gc_aspect = GoalAspect.PersistentMount (me_target entry) (me_context entry),
     gc_status =
       (if list_ex (\<lambda>m. entry_matches m entry) (msp_persistent (des_mounts des)) then GoalStatus.Satisfied
        else if summary_persistent_mount_was_projected ev (me_target entry) (me_context entry)
        then GoalStatus.Violated ''planned persistent mount entry does not match the request''
        else GoalStatus.Unknown ''persistent mount configuration baseline or planned effect'')\<rparr>"

definition compare_goal ::
  "DesiredState \<Rightarrow> SimulationEvidenceSummary \<Rightarrow> DesiredState \<Rightarrow> GoalCheck list" where
  "compare_goal des ev goal =
     [\<lparr>gc_aspect = GoalAspect.Graph, gc_status = compare_graph (des_graph des) (des_graph goal)\<rparr>]
     @ map (runtime_mount_check (msp_runtime (des_mounts des))) (msp_runtime (des_mounts goal))
     @ map (persistent_mount_check des ev) (msp_persistent (des_mounts goal))
     @ [\<lparr>gc_aspect = GoalAspect.Boot, gc_status = (case des_boot goal of
          BootSpec.Unmanaged \<Rightarrow> GoalStatus.Satisfied
        | _ \<Rightarrow> GoalStatus.Unknown ''boot planning and verification'')\<rparr>]"

section \<open>Intents\<close>

definition actions_cover_intent :: "OperationIntent \<Rightarrow> ProviderAction list \<Rightarrow> bool" where
  "actions_cover_intent intent actions = (case intent of
      OperationIntent.Check target force \<Rightarrow>
        ProviderAction.Filesystem (FilesystemAction.Check target force) \<in> set actions
    | OperationIntent.Repair target force \<Rightarrow>
        ProviderAction.Filesystem (FilesystemAction.Repair target force) \<in> set actions
    | OperationIntent.ConvertBtrfsProfiles fs target \<Rightarrow>
        ProviderAction.Btrfs (BtrfsAction.ConvertProfiles fs target) \<in> set actions
    | OperationIntent.SetActivation target active \<Rightarrow>
        ProviderAction.Lvm (LvmAction.SetActivation target active) \<in> set actions
    | OperationIntent.ReplaceMember grp old new \<Rightarrow>
        ProviderAction.Btrfs (BtrfsAction.RemoveDevice grp old) \<in> set actions
        \<and> ProviderAction.Btrfs (BtrfsAction.AddDevice grp new) \<in> set actions
    | OperationIntent.Reformat _ _ \<Rightarrow> False)"

record IntentCoverage =
  ic_index :: nat
  ic_actions :: "ActionId list"
  ic_covered :: bool

datatype SimulationObligation =
    Prerequisite ActionId ActionPrerequisite string
  | Goal GoalAspect string

record SimulationReport =
  rep_simulation :: SimulationResult
  rep_goal_checks :: "GoalCheck list"
  rep_intent_coverage :: "IntentCoverage list"
  rep_unresolved_obligations :: "SimulationObligation list"
  rep_protection_violations :: "ProtectionViolation list"

definition is_complete :: "SimulationReport \<Rightarrow> bool" where
  "is_complete rep \<longleftrightarrow> rep_protection_violations rep = [] \<and> rep_unresolved_obligations rep = []
     \<and> list_all (\<lambda>c. gc_status c = GoalStatus.Satisfied) (rep_goal_checks rep)
     \<and> list_all ic_covered (rep_intent_coverage rep)"

definition intent_coverage :: "PlannedAction list \<Rightarrow> nat \<times> OperationIntent \<Rightarrow> IntentCoverage" where
  "intent_coverage ordered p = (case p of (index, intent) \<Rightarrow>
     let actions = filter (\<lambda>a. pa_origin a = FragmentOrigin.Intent index) ordered in
     \<lparr>ic_index = index, ic_actions = map pa_id actions,
      ic_covered = actions_cover_intent intent (map pa_operation actions)\<rparr>)"

definition step_obligations :: "SimulatedStep \<Rightarrow> SimulationObligation list" where
  "step_obligations step = List.map_filter (\<lambda>c. case pc_status c of
      CheckStatus.Unknown required \<Rightarrow>
        Some (SimulationObligation.Prerequisite (ss_action step) (pc_prerequisite c) required)
    | _ \<Rightarrow> None) (ss_checks step)"

definition check_intent_origin ::
  "OperationIntent list \<Rightarrow> unit \<Rightarrow> PlannedAction \<Rightarrow> (PlanSimulationError fault, unit) result" where
  "check_intent_origin intents _ action = (case pa_origin action of
      FragmentOrigin.Intent index \<Rightarrow>
        require (index < length intents) (Failed (PlanSimulationError.UnknownIntentOrigin (pa_id action) index))
    | _ \<Rightarrow> Inr ())"

definition analyse_plan ::
  "ContractKeys \<Rightarrow> CurrentState \<Rightarrow> ExecutionPlan \<Rightarrow> OperationIntent list \<Rightarrow> CapacityEvidence list \<Rightarrow>
   ProtectedScope \<Rightarrow> (PlanSimulationError fault, SimulationReport) result" where
  "analyse_plan keys current plan intents capacity protected =
     and_then (validate_protected_scope protected) (\<lambda>_.
     and_then (try_fold (check_intent_origin intents) () (plan_actions plan)) (\<lambda>_.
     and_then (simulate_plan_with_evidence keys current plan capacity) (\<lambda>simulation.
     let simulation' = simulation\<lparr>sr_desired := (sr_desired simulation)\<lparr>des_intents := intents\<rparr>\<rparr> in
     and_then (ok_or (check_protected_scope plan simulation' protected) Panic) (\<lambda>violations.
     and_then (ok_or (ordered_actions plan) Panic) (\<lambda>ordered.
       Inr \<lparr>rep_simulation = simulation', rep_goal_checks = [],
         rep_intent_coverage = map (intent_coverage ordered) (enumerate 0 intents),
         rep_unresolved_obligations = concat (map step_obligations (sr_steps simulation')),
         rep_protection_violations = violations\<rparr>)))))"

definition goal_obligations :: "GoalCheck list \<Rightarrow> SimulationObligation list" where
  "goal_obligations checks = List.map_filter (\<lambda>c. case gc_status c of
      GoalStatus.Unknown required \<Rightarrow> Some (SimulationObligation.Goal (gc_aspect c) required)
    | _ \<Rightarrow> None) checks"

definition simulate_plan_for_goal_with_policy ::
  "ContractKeys \<Rightarrow> CurrentState \<Rightarrow> ExecutionPlan \<Rightarrow> DesiredState \<Rightarrow> CapacityEvidence list \<Rightarrow>
   ProtectedScope \<Rightarrow> (PlanSimulationError fault, SimulationReport) result" where
  "simulate_plan_for_goal_with_policy keys current plan goal capacity protected =
     and_then (map_err (\<lambda>e. Failed (PlanSimulationError.Structure e))
       (validate_structure (des_graph goal))) (\<lambda>_.
     and_then (analyse_plan keys current plan (des_intents goal) capacity protected) (\<lambda>report.
     let checks = compare_goal (sr_desired (rep_simulation report))
           (sr_evidence (rep_simulation report)) goal in
     Inr (report\<lparr>rep_goal_checks := checks,
       rep_unresolved_obligations := rep_unresolved_obligations report @ goal_obligations checks\<rparr>)))"

definition no_protection :: ProtectedScope where
  "no_protection = \<lparr>ps_nodes = [], ps_runtime_mounts = [], ps_persistent_mounts = []\<rparr>"

definition simulate_plan_for_goal ::
  "ContractKeys \<Rightarrow> CurrentState \<Rightarrow> ExecutionPlan \<Rightarrow> DesiredState \<Rightarrow>
   (PlanSimulationError fault, SimulationReport) result" where
  "simulate_plan_for_goal keys current plan goal =
     simulate_plan_for_goal_with_policy keys current plan goal [] no_protection"

end
