(* ===== verification/Compose.thy ===== *)
theory Compose
  imports Plan_Replay
begin

text \<open>
  Composition of provider fragments into one validated plan (\<^verbatim>\<open>storage-engine/src/compose.rs\<close>).
  The hash map of contracts is a list of entries in insertion order, which is an admissible
  iteration order. The restart loop of \<^verbatim>\<open>simulate_order\<close> is bounded by \<open>restart_fuel\<close>, the
  number of ordered pairs of actions: every restart adds an edge between two actions that had
  none (\<open>compose_never_panics\<close> shows that the bound is never reached).
\<close>

record DraftAction =
  da_id :: ActionId
  da_operation :: ProviderAction
  da_fragment :: FragmentId
  da_local_id :: LocalActionId
  da_origin :: FragmentOrigin

record PendingRequirement =
  pr_action :: ActionId
  pr_prerequisite :: ActionPrerequisite

record FlattenedFragments =
  ff_actions :: "DraftAction list"
  ff_dependencies :: "ActionDependency list"
  ff_requirements :: "PendingRequirement list"

record AnalysedOrder =
  ao_contracts :: "(ActionId \<times> ActionContract) list"
  ao_checks :: "(ActionId \<times> PrerequisiteCheck list) list"

section \<open>Identifiers\<close>

type_synonym IdMap = "nat \<times> LocalActionId \<rightharpoonup> ActionId"

definition u32_try_from :: "nat \<Rightarrow> (CompositionError fault, u32) result" where
  "u32_try_from n = (if fits_u32 n then Inr (of_nat n) else Inl (Failed CompositionError.PlanTooLarge))"

definition assign_action ::
  "nat \<Rightarrow> FragmentId \<Rightarrow> IdMap \<times> nat \<Rightarrow> FragmentAction \<Rightarrow> (CompositionError fault, IdMap \<times> nat) result" where
  "assign_action index fragment s action = (case s of (ids, len) \<Rightarrow>
     and_then (u32_try_from len) (\<lambda>n.
       if ids (index, fa_id action) \<noteq> None
       then Inl (Failed (CompositionError.DuplicateLocalAction fragment (fa_id action)))
       else Inr (ids((index, fa_id action) \<mapsto> ActionId n), Suc len)))"

definition assign_fragment ::
  "IdMap \<times> nat \<Rightarrow> nat \<times> PlanFragment \<Rightarrow> (CompositionError fault, IdMap \<times> nat) result" where
  "assign_fragment s p = (case p of (index, fragment) \<Rightarrow>
     and_then (u32_try_from index) (\<lambda>n.
       try_fold (assign_action index (FragmentId n)) s (pf_actions fragment)))"

definition fragment_action_ids :: "PlanFragment list \<Rightarrow> (CompositionError fault, IdMap) result" where
  "fragment_action_ids fragments =
     and_then (try_fold assign_fragment (Map.empty, 0) (enumerate 0 fragments)) (\<lambda>(ids, _). Inr ids)"

section \<open>Flattening\<close>

definition draft_action ::
  "IdMap \<Rightarrow> nat \<Rightarrow> FragmentId \<Rightarrow> FragmentOrigin \<Rightarrow> DraftAction list \<Rightarrow> FragmentAction \<Rightarrow>
   (CompositionError fault, DraftAction list) result" where
  "draft_action ids index fragment origin draft action =
     and_then (ok_or (ids (index, fa_id action)) Panic) (\<lambda>i.
       Inr (draft @ [\<lparr>da_id = i, da_operation = fa_operation action, da_fragment = fragment,
         da_local_id = fa_id action, da_origin = origin\<rparr>]))"

definition draft_fragment ::
  "IdMap \<Rightarrow> DraftAction list \<Rightarrow> nat \<times> PlanFragment \<Rightarrow> (CompositionError fault, DraftAction list) result" where
  "draft_fragment ids draft p = (case p of (index, fragment) \<Rightarrow>
     and_then (u32_try_from index) (\<lambda>n.
     and_then (require (\<not> list_ex (\<lambda>d. diag_severity d = DiagnosticSeverity.Error) (pf_diagnostics fragment))
       (Failed (CompositionError.FragmentHasErrors (FragmentId n)))) (\<lambda>_.
       try_fold (draft_action ids index (FragmentId n) (pf_origin fragment)) draft (pf_actions fragment))))"

definition local_dependency ::
  "IdMap \<Rightarrow> nat \<Rightarrow> FragmentId \<Rightarrow> ActionDependency list \<Rightarrow> FragmentDependency \<Rightarrow>
   (CompositionError fault, ActionDependency list) result" where
  "local_dependency ids index fragment deps d =
     (case (ids (index, fd_before d), ids (index, fd_after d)) of
        (Some before, Some after) \<Rightarrow> add_dependency deps before after (fd_reason d)
      | _ \<Rightarrow> Inl (Failed (CompositionError.UnknownLocalDependency fragment)))"

definition local_requirement ::
  "IdMap \<Rightarrow> nat \<Rightarrow> FragmentId \<Rightarrow> PendingRequirement list \<Rightarrow> ExternalRequirement \<Rightarrow>
   (CompositionError fault, PendingRequirement list) result" where
  "local_requirement ids index fragment reqs r =
     (case ids (index, er_action r) of
        None \<Rightarrow> Inl (Failed (CompositionError.UnknownRequirementAction fragment (er_action r)))
      | Some a \<Rightarrow> Inr (reqs @ [\<lparr>pr_action = a, pr_prerequisite = er_prerequisite r\<rparr>]))"

definition link_fragment ::
  "IdMap \<Rightarrow> ActionDependency list \<times> PendingRequirement list \<Rightarrow> nat \<times> PlanFragment \<Rightarrow>
   (CompositionError fault, ActionDependency list \<times> PendingRequirement list) result" where
  "link_fragment ids s p = (case (s, p) of ((deps, reqs), (index, fragment)) \<Rightarrow>
     and_then (u32_try_from index) (\<lambda>n.
     and_then (try_fold (local_dependency ids index (FragmentId n)) deps (pf_dependencies fragment)) (\<lambda>deps'.
     and_then (try_fold (local_requirement ids index (FragmentId n)) reqs
         (pf_external_requirements fragment)) (\<lambda>reqs'.
       Inr (deps', reqs')))))"

definition flatten_fragments :: "PlanFragment list \<Rightarrow> (CompositionError fault, FlattenedFragments) result" where
  "flatten_fragments fragments =
     and_then (fragment_action_ids fragments) (\<lambda>ids.
     and_then (try_fold (draft_fragment ids) [] (enumerate 0 fragments)) (\<lambda>draft.
     and_then (try_fold (link_fragment ids) ([], []) (enumerate 0 fragments)) (\<lambda>(deps, reqs).
       Inr \<lparr>ff_actions = draft, ff_dependencies = deps, ff_requirements = reqs\<rparr>)))"

section \<open>Planned nodes and inputs\<close>

definition planned_node :: "ProviderAction \<Rightarrow> NodeId option" where
  "planned_node action = (case action of
      ProviderAction.Partition (PartitionAction.CreateTable _ planned _) \<Rightarrow> Some planned
    | ProviderAction.Partition (PartitionAction.Create _ planned _ _ _ _ _) \<Rightarrow> Some planned
    | ProviderAction.Luks (LuksAction.Format _ planned _ _) \<Rightarrow> Some planned
    | ProviderAction.Luks (LuksAction.Open _ planned _ _ _) \<Rightarrow> Some planned
    | ProviderAction.Lvm (LvmAction.CreatePv _ planned) \<Rightarrow> Some planned
    | ProviderAction.Lvm (LvmAction.CreateVg planned _ _) \<Rightarrow> Some planned
    | ProviderAction.Lvm (LvmAction.CreateLv _ planned _ _ _) \<Rightarrow> Some planned
    | ProviderAction.Filesystem (FilesystemAction.Create _ planned _ _) \<Rightarrow> Some planned
    | ProviderAction.Btrfs (BtrfsAction.Create _ planned _ _) \<Rightarrow> Some planned
    | ProviderAction.Btrfs (BtrfsAction.CreateSubvolume _ planned _ _) \<Rightarrow> Some planned
    | _ \<Rightarrow> None)"

definition option_list :: "'a option \<Rightarrow> 'a list" where
  "option_list x = (case x of None \<Rightarrow> [] | Some y \<Rightarrow> [y])"

definition input_nodes :: "ProviderAction \<Rightarrow> NodeId list" where
  "input_nodes action = (case action of
      ProviderAction.Partition a \<Rightarrow> (case a of
          PartitionAction.CreateTable disk _ _ \<Rightarrow> [disk]
        | PartitionAction.Create table _ _ _ _ _ _ \<Rightarrow> [table]
        | PartitionAction.Resize p _ \<Rightarrow> [p]
        | PartitionAction.Delete p \<Rightarrow> [p]
        | PartitionAction.SetAttributes p _ \<Rightarrow> [p])
    | ProviderAction.Luks a \<Rightarrow> (case a of
          LuksAction.Format target _ _ _ \<Rightarrow> [target]
        | LuksAction.Open container _ _ _ _ \<Rightarrow> [container]
        | LuksAction.Close mapping \<Rightarrow> [mapping]
        | LuksAction.Resize mapping _ \<Rightarrow> [mapping])
    | ProviderAction.Lvm a \<Rightarrow> (case a of
          LvmAction.CreatePv backing _ \<Rightarrow> [backing]
        | LvmAction.CreateVg _ _ pvs \<Rightarrow> pvs
        | LvmAction.CreateLv vg _ _ _ _ \<Rightarrow> [vg]
        | LvmAction.ResizeLv lv _ \<Rightarrow> [lv]
        | LvmAction.RemoveLv lv \<Rightarrow> [lv]
        | LvmAction.SetActivation target _ \<Rightarrow> [target])
    | ProviderAction.Filesystem a \<Rightarrow> (case a of
          FilesystemAction.Create backing _ _ _ \<Rightarrow> [backing]
        | FilesystemAction.Resize fs _ \<Rightarrow> [fs]
        | FilesystemAction.Check fs _ \<Rightarrow> [fs]
        | FilesystemAction.Repair fs _ \<Rightarrow> [fs]
        | FilesystemAction.SetLabel fs _ \<Rightarrow> [fs])
    | ProviderAction.Btrfs a \<Rightarrow> (case a of
          BtrfsAction.Create members _ _ _ \<Rightarrow> members
        | BtrfsAction.AddDevice fs device \<Rightarrow> [fs, device]
        | BtrfsAction.RemoveDevice fs device \<Rightarrow> [fs, device]
        | BtrfsAction.ConvertProfiles fs _ \<Rightarrow> [fs]
        | BtrfsAction.CreateSubvolume fs _ _ _ \<Rightarrow> [fs])
    | ProviderAction.Mount a \<Rightarrow> (case a of
          MountAction.Mount source _ _ _ \<Rightarrow> option_list (mount_source_node source)
        | MountAction.Persist entry \<Rightarrow> option_list (mount_source_node (me_source entry))
        | _ \<Rightarrow> []))"

fun retain_first :: "'a list \<Rightarrow> 'a list \<Rightarrow> 'a list" where
  "retain_first seen [] = []"
| "retain_first seen (x # xs) =
     (if x \<in> set seen then retain_first seen xs else x # retain_first (x # seen) xs)"

definition referenced_nodes :: "ProviderAction \<Rightarrow> NodeId list" where
  "referenced_nodes action = retain_first [] (input_nodes action)"

definition claim_planned ::
  "CurrentState \<Rightarrow> (NodeId \<rightharpoonup> ActionId) \<Rightarrow> DraftAction \<Rightarrow> (CompositionError fault, NodeId \<rightharpoonup> ActionId) result" where
  "claim_planned current creators action = (case planned_node (da_operation action) of
      None \<Rightarrow> Inr creators
    | Some n \<Rightarrow>
        if graph_node (cur_graph current) n \<noteq> None
        then Inl (Failed (CompositionError.PlannedNodeAlreadyExists n))
        else (case creators n of
          Some first \<Rightarrow> Inl (Failed (CompositionError.DuplicatePlannedNode n first (da_id action)))
        | None \<Rightarrow> Inr (creators(n \<mapsto> da_id action))))"

definition bind_input ::
  "CurrentState \<Rightarrow> (NodeId \<rightharpoonup> ActionId) \<Rightarrow> ActionId \<Rightarrow> ActionDependency list \<Rightarrow> NodeId \<Rightarrow>
   (CompositionError fault, ActionDependency list) result" where
  "bind_input current creators a deps input =
     (if graph_node (cur_graph current) input \<noteq> None then Inr deps
      else case creators input of
        None \<Rightarrow> Inl (Failed (CompositionError.UnresolvedInput a input))
      | Some creator \<Rightarrow> add_dependency deps creator a DependencyReason.InputCreation)"

definition bind_planned_nodes ::
  "CurrentState \<Rightarrow> DraftAction list \<Rightarrow> ActionDependency list \<Rightarrow>
   (CompositionError fault, ActionDependency list) result" where
  "bind_planned_nodes current actions deps =
     and_then (try_fold (claim_planned current) Map.empty actions) (\<lambda>creators.
       try_fold (\<lambda>deps action. try_fold (bind_input current creators (da_id action)) deps
         (referenced_nodes (da_operation action))) deps actions)"

section \<open>Mount order\<close>

definition runtime_mount_target :: "ProviderAction \<Rightarrow> (PathBuf \<times> MountContext) option" where
  "runtime_mount_target action = (case action of
      ProviderAction.Mount (MountAction.Mount _ target _ ctx) \<Rightarrow> Some (target, ctx)
    | ProviderAction.Mount (MountAction.Unmount target ctx) \<Rightarrow> Some (target, ctx)
    | _ \<Rightarrow> None)"

definition is_unmount :: "ProviderAction \<Rightarrow> bool" where
  "is_unmount action = (case action of ProviderAction.Mount (MountAction.Unmount _ _) \<Rightarrow> True | _ \<Rightarrow> False)"

definition bind_mount_pair ::
  "DraftAction \<Rightarrow> ActionDependency list \<Rightarrow> DraftAction \<Rightarrow> (CompositionError fault, ActionDependency list) result" where
  "bind_mount_pair parent deps child =
     (case (runtime_mount_target (da_operation parent), runtime_mount_target (da_operation child)) of
        (Some (parent_target, parent_context), Some (child_target, child_context)) \<Rightarrow>
          if parent_context \<noteq> child_context \<or> parent_target = child_target
             \<or> \<not> starts_with child_target parent_target then Inr deps
          else if dependency_path (da_id parent) (da_id child) deps
             \<or> dependency_path (da_id child) (da_id parent) deps then Inr deps
          else if is_unmount (da_operation child)
          then add_dependency deps (da_id child) (da_id parent) DependencyReason.MountOrder
          else add_dependency deps (da_id parent) (da_id child) DependencyReason.MountOrder
      | _ \<Rightarrow> Inr deps)"

definition bind_mount_order ::
  "DraftAction list \<Rightarrow> ActionDependency list \<Rightarrow> (CompositionError fault, ActionDependency list) result" where
  "bind_mount_order actions deps =
     try_fold (\<lambda>deps parent. try_fold (bind_mount_pair parent) deps actions) deps actions"

section \<open>Requirements\<close>

definition output_satisfies :: "ActionOutput \<Rightarrow> ActionPrerequisite \<Rightarrow> bool" where
  "output_satisfies out p = (case (out, p) of
      (ActionOutput.Node nid _, ActionPrerequisite.NodeExists n) \<Rightarrow> nid = n
    | (ActionOutput.Node nid spec, ActionPrerequisite.NodeKind n expected) \<Rightarrow>
        nid = n \<and> matches_kind (spec_kind spec) expected
    | (ActionOutput.FilesystemCheckPassed fs, ActionPrerequisite.FilesystemCheckPassed required) \<Rightarrow> fs = required
    | (ActionOutput.BlockInterface n BlockInterfaceAccess.ReadWrite, ActionPrerequisite.Writable required) \<Rightarrow>
        n = required
    | _ \<Rightarrow> False)"

definition requirement_provider ::
  "PendingRequirement \<Rightarrow> (ActionId \<times> ActionContract) list \<Rightarrow> ActionDependency list \<Rightarrow>
   (CompositionError fault, ActionId option) result" where
  "requirement_provider req contracts deps =
     (let providers = map fst (filter (\<lambda>(a, c). a \<noteq> pr_action req
            \<and> \<not> dependency_path (pr_action req) a deps
            \<and> list_ex (\<lambda>out. output_satisfies out (pr_prerequisite req)) (ac_provided_outputs c)) contracts);
          predecessors = filter (\<lambda>p. dependency_path p (pr_action req) deps) providers in
      case find (\<lambda>candidate. list_all (\<lambda>other. other = candidate
              \<or> dependency_path other candidate deps) predecessors) predecessors of
        Some latest \<Rightarrow> Inr (Some latest)
      | None \<Rightarrow> (case providers of
            [] \<Rightarrow> Inr None
          | [provider] \<Rightarrow> Inr (Some provider)
          | _ \<Rightarrow> Inl (Failed (CompositionError.AmbiguousRequirement (pr_action req)))))"

definition validate_declared_requirements ::
  "PendingRequirement list \<Rightarrow> (ActionId \<times> ActionContract) list \<Rightarrow> (CompositionError fault, unit) result" where
  "validate_declared_requirements reqs contracts = try_fold (\<lambda>_ req.
     and_then (ok_or (map_of contracts (pr_action req))
       (Failed (CompositionError.MissingAnalysedContract (pr_action req)))) (\<lambda>c.
       require (pr_prerequisite req \<in> set (ac_prerequisites c))
         (Failed (CompositionError.RequirementNotInContract (pr_action req))))) () reqs"

definition is_satisfied :: "CheckStatus \<Rightarrow> bool" where
  "is_satisfied st = (case st of CheckStatus.Satisfied _ \<Rightarrow> True | _ \<Rightarrow> False)"

text \<open>One turn of the loop over the requirements an action owns: the new edge, if one is added.\<close>

definition bind_requirement ::
  "SimState \<Rightarrow> DraftAction \<Rightarrow> ActionContract \<Rightarrow> (ActionId \<times> ActionContract) list \<Rightarrow> PendingRequirement \<Rightarrow>
   ActionDependency list \<Rightarrow> (CompositionError fault, ActionDependency list option) result" where
  "bind_requirement st action c providers req deps =
     and_then (require (pr_prerequisite req \<in> set (ac_prerequisites c))
       (Failed (CompositionError.RequirementNotInContract (da_id action)))) (\<lambda>_.
       if is_satisfied (evaluate_prerequisite (fst st) (snd st) (pr_prerequisite req)) then Inr None
       else and_then (requirement_provider req providers deps) (\<lambda>provider. case provider of
           None \<Rightarrow> Inr None
         | Some p \<Rightarrow> and_then (add_dependency deps p (da_id action) DependencyReason.InterfacePreparation)
             (\<lambda>deps'. Inr (Some deps'))))"

fun bind_first ::
  "('r \<Rightarrow> (CompositionError fault, ActionDependency list option) result) \<Rightarrow> 'r list \<Rightarrow>
   (CompositionError fault, ActionDependency list option) result" where
  "bind_first bind [] = Inr None"
| "bind_first bind (r # rs) = (case bind r of
      Inl e \<Rightarrow> Inl e | Inr (Some deps) \<Rightarrow> Inr (Some deps) | Inr None \<Rightarrow> bind_first bind rs)"

definition bind_contextual_outputs ::
  "SimState \<Rightarrow> DraftAction \<Rightarrow> DraftAction list \<Rightarrow> (ActionId \<times> ActionContract) list \<Rightarrow>
   PendingRequirement list \<Rightarrow> ActionDependency list \<Rightarrow>
   (CompositionError fault, ActionDependency list option) result" where
  "bind_contextual_outputs st action actions emitted reqs deps =
     (let owned = filter (\<lambda>r. pr_action r = da_id action) reqs in
      if owned = [] then Inr None
      else
        let g = des_graph (fst st);
            providers = map (\<lambda>c. (da_id c, describe_action (da_operation c) g))
              (filter (\<lambda>c. map_of emitted (da_id c) = None) actions) in
        bind_first (\<lambda>r. bind_requirement st action (describe_action (da_operation action) g)
          providers r deps) owned)"

definition resolve_requirement ::
  "AnalysedOrder \<Rightarrow> ActionDependency list \<Rightarrow> PendingRequirement \<Rightarrow>
   (CompositionError fault, ActionDependency list) result" where
  "resolve_requirement trace deps req =
     and_then (ok_or (Option.bind (map_of (ao_checks trace) (pr_action req))
         (find (\<lambda>c. pc_prerequisite c = pr_prerequisite req)))
       (Failed (CompositionError.MissingRequirementCheck (pr_action req)))) (\<lambda>check.
       if pc_status check = CheckStatus.Satisfied CheckEvidence.ObservedSnapshot then Inr deps
       else and_then (requirement_provider req (ao_contracts trace) deps) (\<lambda>provider. case provider of
           Some p \<Rightarrow> add_dependency deps p (pr_action req) DependencyReason.InterfacePreparation
         | None \<Rightarrow> if is_violated (pc_status check)
             then Inl (Failed (CompositionError.UnresolvedRequirement (pr_action req))) else Inr deps))"

definition resolve_requirements ::
  "PendingRequirement list \<Rightarrow> AnalysedOrder \<Rightarrow> ActionDependency list \<Rightarrow>
   (CompositionError fault, ActionDependency list) result" where
  "resolve_requirements reqs trace deps =
     and_then (validate_declared_requirements reqs (ao_contracts trace)) (\<lambda>_.
       try_fold (resolve_requirement trace) deps reqs)"

section \<open>Candidate orders\<close>

definition simulation_failure :: "ActionId \<Rightarrow> ActionSimulationError \<Rightarrow> CompositionError" where
  "simulation_failure a e = (case e of
      ActionSimulationError.Validation diagnostics \<Rightarrow> CompositionError.ActionValidation a diagnostics
    | ActionSimulationError.PrerequisitesViolated checks \<Rightarrow> CompositionError.ActionRejected a checks
    | ActionSimulationError.Effect error \<Rightarrow> CompositionError.Effect a error)"

text \<open>
  One pass over a candidate order: \<open>Inl deps\<close> when a contextual output added an edge (the
  \<^verbatim>\<open>rebound\<close> flag), \<open>Inr trace\<close> when the order was replayed completely.
\<close>

fun trace_order ::
  "DraftAction list \<Rightarrow> PendingRequirement list \<Rightarrow> ActionDependency list \<Rightarrow> SimState \<Rightarrow>
   AnalysedOrder \<Rightarrow> ActionId list \<Rightarrow>
   (CompositionError fault, (ActionDependency list, AnalysedOrder) result) result" where
  "trace_order actions reqs deps st trace [] = Inr (Inr trace)"
| "trace_order actions reqs deps st trace (a # order) =
     and_then (ok_or (nth_opt actions (action_index a)) Panic) (\<lambda>action.
     and_then (bind_contextual_outputs st action actions (ao_contracts trace) reqs deps) (\<lambda>rebound.
     case rebound of
       Some deps' \<Rightarrow> Inr (Inl deps')
     | None \<Rightarrow>
         and_then (map_err (\<lambda>e. Failed (simulation_failure a e)) (simulate_action st (da_operation action)))
         (\<lambda>(result, st').
           trace_order actions reqs deps st'
             \<lparr>ao_contracts = ao_contracts trace @ [(a, sa_contract result)],
              ao_checks = ao_checks trace @ [(a, sa_checks result)]\<rparr> order)))"

fun simulate_order_loop ::
  "nat \<Rightarrow> CurrentState \<Rightarrow> CapacityEvidence list \<Rightarrow> DraftAction list \<Rightarrow> PendingRequirement list \<Rightarrow>
   ActionDependency list \<Rightarrow> (CompositionError fault, AnalysedOrder \<times> ActionDependency list) result" where
  "simulate_order_loop 0 current capacity actions reqs deps = Inl OutOfFuel"
| "simulate_order_loop (Suc fuel) current capacity actions reqs deps =
     and_then (topological_order (length actions) deps) (\<lambda>order.
     and_then (map_err (\<lambda>e. Failed (CompositionError.CapacityEvidence e)) (evidence_new capacity)) (\<lambda>ev.
     and_then (trace_order actions reqs deps (from_current current, ev)
         \<lparr>ao_contracts = [], ao_checks = []\<rparr> order) (\<lambda>outcome.
     case outcome of
       Inr trace \<Rightarrow> Inr (trace, deps)
     | Inl deps' \<Rightarrow> simulate_order_loop fuel current capacity actions reqs deps')))"

definition restart_fuel :: "DraftAction list \<Rightarrow> nat" where
  "restart_fuel actions = Suc (length actions * length actions)"

definition simulate_order ::
  "CurrentState \<Rightarrow> CapacityEvidence list \<Rightarrow> DraftAction list \<Rightarrow> PendingRequirement list \<Rightarrow>
   ActionDependency list \<Rightarrow> (CompositionError fault, AnalysedOrder \<times> ActionDependency list) result" where
  "simulate_order current capacity actions reqs deps =
     simulate_order_loop (restart_fuel actions) current capacity actions reqs deps"

section \<open>Composition\<close>

definition draft_endpoints :: "DraftAction list \<Rightarrow> FragmentActionRef \<rightharpoonup> ActionId" where
  "draft_endpoints draft = map_of (rev (map (\<lambda>a.
     (\<lparr>far_fragment = da_fragment a, far_action = da_local_id a\<rparr>, da_id a)) draft))"

definition bind_ordering ::
  "(FragmentActionRef \<rightharpoonup> ActionId) \<Rightarrow> ActionDependency list \<Rightarrow> FragmentOrdering \<Rightarrow>
   (CompositionError fault, ActionDependency list) result" where
  "bind_ordering endpoints deps e =
     and_then (ok_or (endpoints (fo_before e)) (Failed (CompositionError.UnknownOrderingAction (fo_before e)))) (\<lambda>before.
     and_then (ok_or (endpoints (fo_after e)) (Failed (CompositionError.UnknownOrderingAction (fo_after e)))) (\<lambda>after.
       add_dependency deps before after (fo_reason e)))"

definition freeze_action ::
  "(ActionId \<times> ActionContract) list \<Rightarrow> PlannedAction list \<Rightarrow> DraftAction \<Rightarrow>
   (CompositionError fault, PlannedAction list) result" where
  "freeze_action contracts frozen a =
     and_then (ok_or (map_of contracts (da_id a)) (Failed (CompositionError.MissingAnalysedContract (da_id a)))) (\<lambda>c.
       Inr (frozen @ [\<lparr>pa_id = da_id a, pa_operation = da_operation a, pa_fragment = da_fragment a,
         pa_local_id = da_local_id a, pa_origin = da_origin a, pa_informational_contract = c\<rparr>]))"

definition compose_plan_with_ordering ::
  "CurrentState \<Rightarrow> PlanFragment list \<Rightarrow> FragmentOrdering list \<Rightarrow> CapacityEvidence list \<Rightarrow>
   (CompositionError fault, ExecutionPlan) result" where
  "compose_plan_with_ordering current fragments order_edges capacity =
     and_then (map_err (\<lambda>e. Failed (CompositionError.Structure e)) (validate_structure (cur_graph current))) (\<lambda>_.
     and_then (flatten_fragments fragments) (\<lambda>flat.
     and_then (try_fold (bind_ordering (draft_endpoints (ff_actions flat))) (ff_dependencies flat) order_edges) (\<lambda>deps1.
     and_then (bind_planned_nodes current (ff_actions flat) deps1) (\<lambda>deps2.
     and_then (bind_mount_order (ff_actions flat) deps2) (\<lambda>deps3.
     and_then (simulate_order current capacity (ff_actions flat) (ff_requirements flat) deps3) (\<lambda>(trace, deps4).
     and_then (resolve_requirements (ff_requirements flat) trace deps4) (\<lambda>deps5.
     and_then (simulate_order current capacity (ff_actions flat) [] deps5) (\<lambda>(final, deps6).
     and_then (validate_declared_requirements (ff_requirements flat) (ao_contracts final)) (\<lambda>_.
     and_then (validate_resource_order (ao_contracts final) deps6) (\<lambda>_.
     and_then (try_fold (freeze_action (ao_contracts final)) [] (ff_actions flat)) (\<lambda>actions.
       Inr \<lparr>plan_actions = actions, plan_dependencies = deps6\<rparr>)))))))))))"

definition compose_plan_with_evidence ::
  "CurrentState \<Rightarrow> PlanFragment list \<Rightarrow> CapacityEvidence list \<Rightarrow> (CompositionError fault, ExecutionPlan) result" where
  "compose_plan_with_evidence current fragments capacity =
     compose_plan_with_ordering current fragments [] capacity"

definition compose_plan :: "CurrentState \<Rightarrow> PlanFragment list \<Rightarrow> (CompositionError fault, ExecutionPlan) result" where
  "compose_plan current fragments = compose_plan_with_evidence current fragments []"

section \<open>Composition for a goal\<close>

definition intent_is_covered :: "PlanFragment list \<Rightarrow> nat \<times> OperationIntent \<Rightarrow> bool" where
  "intent_is_covered fragments p = (case p of (index, intent) \<Rightarrow>
     actions_cover_intent intent (concat (map (\<lambda>f. map fa_operation (pf_actions f))
       (filter (\<lambda>f. pf_origin f = FragmentOrigin.Intent index) fragments))))"

definition check_fragment_origin ::
  "OperationIntent list \<Rightarrow> unit \<Rightarrow> nat \<times> PlanFragment \<Rightarrow> (CompositionError fault, unit) result" where
  "check_fragment_origin intents _ p = (case pf_origin (snd p) of
      FragmentOrigin.Intent index \<Rightarrow>
        if index \<ge> length intents
        then and_then (u32_try_from (fst p)) (\<lambda>n.
          Inl (Failed (CompositionError.UnknownIntentOrigin (FragmentId n) index)))
        else Inr ()
    | _ \<Rightarrow> Inr ())"

definition validate_intent_coverage ::
  "OperationIntent list \<Rightarrow> PlanFragment list \<Rightarrow> (CompositionError fault, unit) result" where
  "validate_intent_coverage intents fragments =
     and_then (try_fold (check_fragment_origin intents) () (enumerate 0 fragments)) (\<lambda>_.
       try_fold (\<lambda>_ p. require (intent_is_covered fragments p)
         (Failed (CompositionError.UncoveredIntent (fst p)))) () (enumerate 0 intents))"

definition final_simulation_failure :: "PlanSimulationError fault \<Rightarrow> CompositionError fault" where
  "final_simulation_failure e = (case e of
      Panic \<Rightarrow> Panic | OutOfFuel \<Rightarrow> OutOfFuel | Failed x \<Rightarrow> Failed (CompositionError.FinalSimulation x))"

definition compose_plan_for_goal_with_policy ::
  "ContractKeys \<Rightarrow> CurrentState \<Rightarrow> DesiredState \<Rightarrow> PlanFragment list \<Rightarrow> CapacityEvidence list \<Rightarrow>
   ProtectedScope \<Rightarrow> (CompositionError fault, ExecutionPlan) result" where
  "compose_plan_for_goal_with_policy keys current goal fragments capacity protected =
     and_then (validate_intent_coverage (des_intents goal) fragments) (\<lambda>_.
     and_then (compose_plan_with_evidence current fragments capacity) (\<lambda>plan.
     and_then (map_err final_simulation_failure
       (simulate_plan_for_goal_with_policy keys current plan goal capacity protected)) (\<lambda>report.
     case rep_protection_violations report of
       v # _ \<Rightarrow> Inl (Failed (CompositionError.ProtectedScopeViolation (pv_action v) (pv_aspect v)))
     | [] \<Rightarrow>
         (case find (\<lambda>c. case gc_status c of GoalStatus.Violated _ \<Rightarrow> True | _ \<Rightarrow> False)
             (rep_goal_checks report) of
            Some check \<Rightarrow> Inl (Failed (CompositionError.GoalNotReached (gc_aspect check)))
          | None \<Rightarrow> Inr plan))))"

end
