(* ===== verification/Fault_Logic.thy ===== *)
theory Fault_Logic
  imports Plan
begin

text \<open>
  A small logic for computations that may panic: \<open>yields P r\<close> says that \<open>r\<close> neither panics
  nor exhausts the fuel of the model, and that a value it returns satisfies \<open>P\<close>. The rules
  follow the composition operators of the prelude, so the panic freedom of an operation and
  the invariant it needs are proved together.
\<close>

definition yields :: "('a \<Rightarrow> bool) \<Rightarrow> ('e fault, 'a) result \<Rightarrow> bool" where
  "yields P r = (case r of Inr x \<Rightarrow> P x | Inl (Failed _) \<Rightarrow> True | Inl _ \<Rightarrow> False)"

named_theorems yields_intros \<open>rules of the fault logic\<close>

lemma yields_Inr [simp, yields_intros]: "P x \<Longrightarrow> yields P (Inr x)"
  by (simp add: yields_def)

lemma yields_Failed [simp, yields_intros]: "yields P (Inl (Failed e))"
  by (simp add: yields_def)

lemma yields_not_panic: "yields P r \<Longrightarrow> r \<noteq> Inl Panic \<and> r \<noteq> Inl OutOfFuel"
  by (auto simp: yields_def)

lemma yields_result: "yields P r \<Longrightarrow> r = Inr x \<Longrightarrow> P x"
  by (simp add: yields_def)

lemma yields_mono: "yields P r \<Longrightarrow> (\<And>x. P x \<Longrightarrow> Q x) \<Longrightarrow> yields Q r"
  by (auto simp: yields_def split: sum.splits fault.splits)

lemma yields_result_mono: "yields P r \<Longrightarrow> (\<And>x. r = Inr x \<Longrightarrow> P x \<Longrightarrow> Q x) \<Longrightarrow> yields Q r"
  by (auto simp: yields_def split: sum.splits fault.splits)

lemma yields_and_then [yields_intros]:
  "yields P r \<Longrightarrow> (\<And>x. r = Inr x \<Longrightarrow> P x \<Longrightarrow> yields Q (f x)) \<Longrightarrow> yields Q (and_then r f)"
  by (cases r) (auto simp: yields_def split: fault.splits)

lemma yields_try_fold [yields_intros]:
  assumes "P s" and "\<And>s x. x \<in> set xs \<Longrightarrow> P s \<Longrightarrow> yields P (f s x)"
  shows "yields P (try_fold f s xs)"
  using assms
proof (induction xs arbitrary: s)
  case Nil
  then show ?case by simp
next
  case (Cons x xs)
  have "yields P (f s x)" using Cons.prems by simp
  then show ?case using Cons.IH Cons.prems(2) by (cases "f s x") (auto simp: yields_def)
qed

lemma yields_require [yields_intros]: "(b \<Longrightarrow> P ()) \<Longrightarrow> yields P (require b (Failed e))"
  by (simp add: require_def)

lemma yields_ok_or [yields_intros]: "(\<And>x. opt = Some x \<Longrightarrow> P x) \<Longrightarrow> yields P (ok_or opt (Failed e))"
  by (cases opt) auto

lemma yields_map_err_Failed [yields_intros]:
  "(\<And>x. r = Inr x \<Longrightarrow> P x) \<Longrightarrow> yields P (map_err (\<lambda>e. Failed (h e)) r)"
  by (cases r) auto

text \<open>A loop over a list, with an invariant on the elements already taken.\<close>

lemma yields_try_fold_prefix:
  assumes "P [] s" and "\<And>ys x zs s. xs = ys @ x # zs \<Longrightarrow> P ys s \<Longrightarrow> yields (P (ys @ [x])) (f s x)"
  shows "yields (P xs) (try_fold f s xs)"
proof -
  have "yields (P xs) (try_fold f s zs)" if "P ys s" "xs = ys @ zs" for ys zs s
    using that
  proof (induction zs arbitrary: ys s)
    case Nil
    then show ?case by simp
  next
    case (Cons z zs)
    have "yields (P (ys @ [z])) (f s z)" using assms(2) Cons.prems by blast
    then show ?case using Cons.IH [of "ys @ [z]"] Cons.prems(2)
      by (cases "f s z") (auto simp: yields_def)
  qed
  from this [of "[]" s xs] assms(1) show ?thesis by simp
qed

end
