(* ===== verification/Compose_Steps.thy ===== *)
theory Compose_Steps
  imports Compose Fault_Logic "HOL-Library.Multiset"
begin

text \<open>
  The parts of the composer in the fault logic: identifiers are assigned consecutively,
  every dependency stays within the actions of the plan and is only ever added to, and each
  restart of \<open>simulate_order\<close> adds an edge that was not there.
\<close>

section \<open>Identifiers\<close>

definition assigned :: "(nat \<times> LocalActionId) list \<Rightarrow> IdMap \<times> nat \<Rightarrow> bool" where
  "assigned ks s \<longleftrightarrow> distinct ks \<and> snd s = length ks \<and> length ks \<le> 2 ^ 32
     \<and> fst s = map_of (zip ks (map action_of_index [0..<length ks]))"

definition fragment_keys :: "nat \<times> PlanFragment \<Rightarrow> (nat \<times> LocalActionId) list" where
  "fragment_keys p = map (\<lambda>a. (fst p, fa_id a)) (pf_actions (snd p))"

lemma yields_u32 [yields_intros]: "(n < 2 ^ 32 \<Longrightarrow> P (of_nat n)) \<Longrightarrow> yields P (u32_try_from n)"
  by (simp add: u32_try_from_def)

lemma map_of_zip_snoc:
  "length ks = length vs \<Longrightarrow> k \<notin> set ks \<Longrightarrow>
     map_of (zip (ks @ [k]) (vs @ [v])) = (map_of (zip ks vs))(k \<mapsto> v)"
  by (induction ks vs rule: list_induct2) (auto simp: fun_eq_iff)

lemma map_of_zip_None: "length ks = length vs \<Longrightarrow> map_of (zip ks vs) k = None \<longleftrightarrow> k \<notin> set ks"
  by (simp add: map_of_zip_is_None)

lemma assign_action_assigned:
  assumes "assigned ks s"
  shows "yields (assigned (ks @ [(index, fa_id a)])) (assign_action index fragment s a)"
proof -
  obtain ids len where s: "s = (ids, len)" by (cases s)
  show ?thesis
  proof (cases "len < 2 ^ 32 \<and> ids (index, fa_id a) = None")
    case True
    then have "(index, fa_id a) \<notin> set ks"
      using assms s by (simp add: assigned_def map_of_zip_None)
    moreover have "assign_action index fragment s a = Inr (ids((index, fa_id a) \<mapsto> action_of_index len), Suc len)"
      using True s by (simp add: assign_action_def u32_try_from_def action_of_index_def)
    moreover have "map_of (zip (ks @ [(index, fa_id a)]) (map action_of_index [0..<Suc len]))
        = ids((index, fa_id a) \<mapsto> action_of_index len)"
      using assms s map_of_zip_snoc [OF _ \<open>(index, fa_id a) \<notin> set ks\<close>, of "map action_of_index [0..<len]"]
      by (simp add: assigned_def del: zip_append)
    ultimately show ?thesis
      using True assms s by (simp add: assigned_def yields_def del: zip_append)
  next
    case False
    then show ?thesis by (auto simp: assign_action_def u32_try_from_def s yields_def)
  qed
qed

lemma assign_fragment_assigned:
  assumes "assigned ks s"
  shows "yields (assigned (ks @ fragment_keys p)) (assign_fragment s p)"
proof -
  obtain index fragment where p: "p = (index, fragment)" by (cases p)
  have "yields (assigned (ks @ map (\<lambda>a. (index, fa_id a)) (pf_actions fragment)))
      (try_fold (assign_action index (FragmentId n)) s (pf_actions fragment))" for n
    by (rule yields_try_fold_prefix [where P = "\<lambda>ys. assigned (ks @ map (\<lambda>a. (index, fa_id a)) ys)"])
      (use assms assign_action_assigned in \<open>force+\<close>)
  then show ?thesis
    by (auto simp: assign_fragment_def p fragment_keys_def intro: yields_intros)
qed

definition all_keys :: "PlanFragment list \<Rightarrow> (nat \<times> LocalActionId) list" where
  "all_keys fragments = concat (map fragment_keys (enumerate 0 fragments))"

lemma fragment_action_ids_assigned:
  "yields (\<lambda>ids. assigned (all_keys fragments) (ids, length (all_keys fragments)))
     (fragment_action_ids fragments)"
proof -
  have "yields (assigned (all_keys fragments))
      (try_fold assign_fragment (Map.empty, 0) (enumerate 0 fragments))"
    unfolding all_keys_def
    by (rule yields_try_fold_prefix [where P = "\<lambda>ys. assigned (concat (map fragment_keys ys))"])
      (use assign_fragment_assigned in \<open>auto simp: assigned_def\<close>)
  then show ?thesis
    unfolding fragment_action_ids_def
    by (rule yields_and_then) (auto simp: assigned_def split: prod.splits)
qed

section \<open>Drafts\<close>

definition draft_ok :: "DraftAction list \<Rightarrow> bool" where
  "draft_ok draft \<longleftrightarrow> map da_id draft = map action_of_index [0..<length draft] \<and> length draft \<le> 2 ^ 32"

definition ids_within :: "nat \<Rightarrow> IdMap \<Rightarrow> bool" where
  "ids_within n ids \<longleftrightarrow> (\<forall>k a. ids k = Some a \<longrightarrow> action_index a < n)"

lemma assigned_lookup:
  assumes "assigned ks (ids, len)" and "i < length ks"
  shows "ids (ks ! i) = Some (action_of_index i)"
proof -
  have "(ks ! i, action_of_index i) \<in> set (zip ks (map action_of_index [0..<length ks]))"
    using assms(2) by (auto simp: in_set_zip)
  then show ?thesis using assms(1)
    by (auto simp: assigned_def intro!: map_of_is_SomeI)
qed

lemma assigned_within: "assigned ks (ids, len) \<Longrightarrow> ids_within (length ks) ids"
  by (auto simp: assigned_def ids_within_def dest!: map_of_SomeD set_zip_rightD)

lemma draft_fragment_ids:
  assumes "assigned ks (ids, len)" and "length draft + length (fragment_keys p) \<le> length ks"
    and "take (length (fragment_keys p)) (drop (length draft) ks) = fragment_keys p"
    and "map da_id draft = map action_of_index [0..<length draft]"
  shows "yields (\<lambda>draft'. map da_id draft' = map action_of_index [0..<length draft']
      \<and> length draft' = length draft + length (fragment_keys p)) (draft_fragment ids draft p)"
proof -
  obtain index fragment where p: "p = (index, fragment)" by (cases p)
  let ?as = "pf_actions fragment"
  have key: "ks ! (length draft + i) = (index, fa_id (?as ! i))" if "i < length ?as" for i
  proof -
    have "ks ! (length draft + i) = take (length (fragment_keys p)) (drop (length draft) ks) ! i"
      using that assms(2) p by (simp add: fragment_keys_def)
    also have "\<dots> = fragment_keys p ! i" using assms(3) by simp
    finally show ?thesis using that p by (simp add: fragment_keys_def)
  qed
  have "yields (\<lambda>draft'. map da_id draft' = map action_of_index [0..<length draft']
        \<and> length draft' = length draft + length ?as)
      (try_fold (draft_action ids index (FragmentId n) (pf_origin fragment)) draft ?as)" for n
  proof (rule yields_try_fold_prefix [where P = "\<lambda>ys draft'.
        map da_id draft' = map action_of_index [0..<length draft']
        \<and> length draft' = length draft + length ys"], goal_cases)
    case 1
    then show ?case using assms(4) by simp
  next
    case (2 ys a zs draft')
    then have ys: "length ys < length ?as" "?as ! length ys = a" by auto
    have len: "length draft' = length draft + length ys" using 2(2) by blast
    have "ks ! length draft' = (index, fa_id a)" using key [OF ys(1)] ys(2) len by simp
    moreover have "length draft' < length ks"
      using len assms(2) p ys(1) by (simp add: fragment_keys_def)
    ultimately have "ids (index, fa_id a) = Some (action_of_index (length draft'))"
      using assigned_lookup [OF assms(1), of "length draft'"] by simp
    then show ?case using 2(2) by (simp add: draft_action_def)
  qed
  then show ?thesis
    by (auto simp: draft_fragment_def p fragment_keys_def intro: yields_intros)
qed

lemma draft_all:
  assumes "assigned (all_keys fragments) (ids, len)"
  shows "yields draft_ok (try_fold (draft_fragment ids) [] (enumerate 0 fragments))"
    and "yields (\<lambda>draft. length draft = length (all_keys fragments))
      (try_fold (draft_fragment ids) [] (enumerate 0 fragments))"
proof -
  let ?fs = "enumerate 0 fragments"
  have main: "yields (\<lambda>draft. map da_id draft = map action_of_index [0..<length draft]
        \<and> length draft = length (concat (map fragment_keys ?fs)))
      (try_fold (draft_fragment ids) [] ?fs)"
  proof (rule yields_try_fold_prefix [where P = "\<lambda>ys draft.
        map da_id draft = map action_of_index [0..<length draft]
        \<and> length draft = length (concat (map fragment_keys ys))"], goal_cases)
    case 1
    then show ?case by simp
  next
    case (2 ys p zs draft)
    have keys: "all_keys fragments = concat (map fragment_keys ys) @ fragment_keys p @ concat (map fragment_keys zs)"
      unfolding all_keys_def 2(1) by simp
    have "yields (\<lambda>draft'. map da_id draft' = map action_of_index [0..<length draft']
        \<and> length draft' = length draft + length (fragment_keys p)) (draft_fragment ids draft p)"
      using 2(2) by (intro draft_fragment_ids [OF assms]) (simp_all add: keys)
    then show ?case by (rule yields_mono) (use 2(2) in simp)
  qed
  have "length (all_keys fragments) \<le> 2 ^ 32" using assms by (simp add: assigned_def)
  then show "yields draft_ok (try_fold (draft_fragment ids) [] ?fs)"
    using yields_mono [OF main, of draft_ok] unfolding draft_ok_def all_keys_def by simp
  show "yields (\<lambda>draft. length draft = length (all_keys fragments)) (try_fold (draft_fragment ids) [] ?fs)"
    using yields_mono [OF main] unfolding all_keys_def by simp
qed

lemma draft_ok_ids:
  assumes "draft_ok draft" and "i < length draft"
  shows "da_id (draft ! i) = action_of_index i" and "action_index (da_id (draft ! i)) = i"
proof -
  have "map da_id draft ! i = map action_of_index [0..<length draft] ! i"
    using assms(1) by (simp add: draft_ok_def)
  then show "da_id (draft ! i) = action_of_index i" using assms(2) by simp
  then show "action_index (da_id (draft ! i)) = i" using assms by (simp add: draft_ok_def)
qed

lemma draft_ok_index: "draft_ok draft \<Longrightarrow> a \<in> set draft \<Longrightarrow> action_index (da_id a) < length draft"
  by (auto simp: in_set_conv_nth draft_ok_ids(2))

lemma draft_ok_unique:
  assumes "draft_ok draft" and "a \<in> set draft" and "b \<in> set draft" and "da_id a = da_id b"
  shows "a = b"
  using assms by (metis draft_ok_ids(2) in_set_conv_nth)

section \<open>Dependencies only grow\<close>

definition grown :: "nat \<Rightarrow> (ActionId \<times> ActionId) set \<Rightarrow> ActionDependency list \<Rightarrow> bool" where
  "grown n E deps \<longleftrightarrow> deps_within (n, deps) \<and> E \<subseteq> set (action_edges deps) \<and> distinct (action_edges deps)"

lemma add_dependency_grown:
  assumes "grown n E deps" and "action_index a < n" and "action_index b < n"
  shows "yields (grown n (insert (a, b) E)) (add_dependency deps a b r)"
  using assms
  by (auto simp: add_dependency_def grown_def deps_within_def action_edges_def list_ex_iff yields_def)

lemma grown_mono: "grown n E deps \<Longrightarrow> E' \<subseteq> E \<Longrightarrow> grown n E' deps"
  by (auto simp: grown_def)

lemma add_dependency_keeps:
  assumes "grown n E deps" and "action_index a < n" and "action_index b < n"
  shows "yields (grown n E) (add_dependency deps a b r)"
  using yields_mono [OF add_dependency_grown [OF assms]] grown_mono by blast

definition reqs_within :: "nat \<Rightarrow> PendingRequirement list \<Rightarrow> bool" where
  "reqs_within n reqs \<longleftrightarrow> (\<forall>r \<in> set reqs. action_index (pr_action r) < n)"

lemma link_fragment_within:
  assumes "ids_within n ids" and "grown n {} (fst s)" and "reqs_within n (snd s)"
  shows "yields (\<lambda>s. grown n {} (fst s) \<and> reqs_within n (snd s)) (link_fragment ids s p)"
proof -
  obtain deps reqs where s: "s = (deps, reqs)" by (cases s)
  obtain index fragment where p: "p = (index, fragment)" by (cases p)
  have 1: "yields (grown n {}) (try_fold (local_dependency ids index f) deps (pf_dependencies fragment))" for f
  proof (rule yields_try_fold, goal_cases)
    case 1
    then show ?case using assms(2) s by simp
  next
    case (2 deps d)
    then show ?case using assms(1)
      by (auto simp: local_dependency_def ids_within_def split: option.splits intro: add_dependency_keeps)
  qed
  have 2: "yields (reqs_within n) (try_fold (local_requirement ids index f) reqs (pf_external_requirements fragment))" for f
  proof (rule yields_try_fold, goal_cases)
    case 1
    then show ?case using assms(3) s by simp
  next
    case (2 reqs r)
    then show ?case using assms(1)
      by (auto simp: local_requirement_def ids_within_def reqs_within_def yields_def split: option.splits)
  qed
  show ?thesis
    unfolding link_fragment_def s p prod.case
    by (intro yields_and_then [OF yields_u32] yields_and_then [OF 1] yields_and_then [OF 2] TrueI) auto
qed

lemma flatten_fragments_ok:
  "yields (\<lambda>flat. draft_ok (ff_actions flat) \<and> grown (length (ff_actions flat)) {} (ff_dependencies flat)
     \<and> reqs_within (length (ff_actions flat)) (ff_requirements flat)) (flatten_fragments fragments)"
  unfolding flatten_fragments_def
proof (rule yields_and_then [OF fragment_action_ids_assigned], goal_cases)
  case (1 ids)
  let ?n = "length (all_keys fragments)"
  have n: "?n \<le> 2 ^ 32" using 1(2) by (simp add: assigned_def)
  have ids: "ids_within ?n ids" by (rule assigned_within [OF 1(2)])
  have link: "yields (\<lambda>s. grown ?n {} (fst s) \<and> reqs_within ?n (snd s))
      (try_fold (link_fragment ids) ([], []) (enumerate 0 fragments))"
  proof (rule yields_try_fold, goal_cases)
    case 1
    then show ?case using n by (simp add: grown_def action_edges_def deps_within_def reqs_within_def)
  next
    case (2 s p)
    then show ?case using ids link_fragment_within by blast
  qed
  show ?case
  proof (rule yields_and_then [OF draft_all(1) [OF 1(2)]], goal_cases)
    case (1 draft)
    then have len: "length draft = ?n"
      using yields_result [OF draft_all(2) [OF \<open>assigned _ _\<close>]] by blast
    show ?case
      by (rule yields_and_then [OF link]) (use len 1(2) in \<open>auto split: prod.splits\<close>)
  qed
qed

end
