(* ===== verification/Compose_Correct.thy ===== *)
theory Compose_Correct
  imports Compose_Steps
begin

text \<open>
  The composer as a whole: it never panics and never exhausts the bound on restarts, and a
  plan it returns has consecutive identifiers, acyclic dependencies, ordered resource
  conflicts, resolved inputs, and replays with exactly the contracts it carries.
\<close>

section \<open>Binding\<close>

lemma draft_endpoints_index:
  assumes "draft_ok draft" and "draft_endpoints draft e = Some a"
  shows "action_index a < length draft"
proof -
  have "a \<in> da_id ` set draft"
    using map_of_SomeD [OF assms(2) [unfolded draft_endpoints_def]] by auto
  then show ?thesis using draft_ok_index [OF assms(1)] by auto
qed

lemma bind_ordering_grown:
  assumes "draft_ok draft" and "grown (length draft) E deps"
  shows "yields (grown (length draft) E) (try_fold (bind_ordering (draft_endpoints draft)) deps es)"
  using assms(2)
proof (rule yields_try_fold)
  fix deps e
  assume g: "grown (length draft) E deps"
  show "yields (grown (length draft) E) (bind_ordering (draft_endpoints draft) deps e)"
    unfolding bind_ordering_def
    by (intro yields_and_then [OF yields_ok_or, of _ "\<lambda>a. action_index a < length draft"]
        add_dependency_keeps [OF g]) (auto intro: draft_endpoints_index [OF assms(1)])
qed

definition created_by :: "DraftAction list \<Rightarrow> NodeId \<Rightarrow> ActionId \<Rightarrow> bool" where
  "created_by actions n a \<longleftrightarrow> (\<exists>c \<in> set actions. da_id c = a \<and> planned_node (da_operation c) = Some n)"

definition creators_ok :: "CurrentState \<Rightarrow> DraftAction list \<Rightarrow> (NodeId \<rightharpoonup> ActionId) \<Rightarrow> bool" where
  "creators_ok current actions creators \<longleftrightarrow>
     (\<forall>n a. creators n = Some a \<longleftrightarrow> created_by actions n a)
     \<and> (\<forall>n a. creators n = Some a \<longrightarrow> graph_node (cur_graph current) n = None)"

lemma claim_planned_ok:
  "yields (creators_ok current actions) (try_fold (claim_planned current) Map.empty actions)"
proof (rule yields_try_fold_prefix [where P = "creators_ok current"], goal_cases)
  case 1
  then show ?case by (simp add: creators_ok_def created_by_def)
next
  case (2 ys a zs creators)
  have eq: "created_by (ys @ [a]) n i \<longleftrightarrow> created_by ys n i \<or> (da_id a = i \<and> planned_node (da_operation a) = Some n)" for n i
    by (auto simp: created_by_def)
  have inv: "creators n = Some i \<longleftrightarrow> created_by ys n i"
    "creators n = Some i \<Longrightarrow> graph_node (cur_graph current) n = None" for n i
    using 2(2) unfolding creators_ok_def by blast+
  show ?case
  proof (cases "planned_node (da_operation a)")
    case None
    then show ?thesis using 2(2) by (simp add: claim_planned_def creators_ok_def eq)
  next
    case (Some m)
    show ?thesis
    proof (cases "graph_node (cur_graph current) m = None \<and> creators m = None")
      case True
      have "\<not> created_by ys m i" for i using inv(1) [of m i] True by simp
      then have "creators_ok current (ys @ [a]) (creators(m \<mapsto> da_id a))"
        using True Some inv by (auto simp: creators_ok_def eq)
      then show ?thesis using True Some by (simp add: claim_planned_def)
    next
      case False
      then show ?thesis using Some by (auto simp: claim_planned_def yields_def split: option.splits)
    qed
  qed
qed

definition inputs_resolved ::
  "CurrentState \<Rightarrow> DraftAction list \<Rightarrow> DraftAction list \<Rightarrow> ActionDependency list \<Rightarrow> bool" where
  "inputs_resolved current actions seen deps \<longleftrightarrow>
     (\<forall>a \<in> set seen. \<forall>n \<in> set (input_nodes (da_operation a)).
        graph_node (cur_graph current) n \<noteq> None
        \<or> (\<exists>c \<in> set actions. planned_node (da_operation c) = Some n
            \<and> (da_id c, da_id a) \<in> set (action_edges deps)))"

lemma set_retain_first: "set (retain_first seen xs) = set xs - set seen"
  by (induction xs arbitrary: seen) auto

lemma inputs_resolved_mono:
  "inputs_resolved current actions seen deps \<Longrightarrow> set (action_edges deps) \<subseteq> set (action_edges deps')
     \<Longrightarrow> inputs_resolved current actions seen deps'"
  unfolding inputs_resolved_def by blast

lemma bind_inputs_ok:
  assumes actions: "draft_ok actions" "a \<in> set actions" and creators: "creators_ok current actions creators"
    and deps: "grown (length actions) E deps"
  shows "yields (\<lambda>deps'. grown (length actions) (E \<union> set (action_edges deps)) deps'
      \<and> inputs_resolved current actions [a] deps')
    (try_fold (bind_input current creators (da_id a)) deps (referenced_nodes (da_operation a)))"
proof -
  let ?ns = "referenced_nodes (da_operation a)" and ?E = "E \<union> set (action_edges deps)"
  let ?ok = "\<lambda>n deps'. graph_node (cur_graph current) n \<noteq> None
    \<or> (\<exists>c \<in> set actions. planned_node (da_operation c) = Some n \<and> (da_id c, da_id a) \<in> set (action_edges deps'))"
  have "yields (\<lambda>deps'. grown (length actions) ?E deps' \<and> (\<forall>n \<in> set ?ns. ?ok n deps'))
      (try_fold (bind_input current creators (da_id a)) deps ?ns)"
  proof (rule yields_try_fold_prefix [where P = "\<lambda>ys deps'. grown (length actions) ?E deps'
        \<and> (\<forall>n \<in> set ys. ?ok n deps')"], goal_cases)
    case 1
    then show ?case using deps by (simp add: grown_def)
  next
    case (2 ys n zs deps')
    show ?case
    proof (cases "graph_node (cur_graph current) n")
      case (Some x)
      then show ?thesis using 2(2) by (simp add: bind_input_def)
    next
      case None
      show ?thesis
      proof (cases "creators n")
        case N: None
        then show ?thesis using None by (simp add: bind_input_def)
      next
        case (Some cid)
        then obtain c where c: "c \<in> set actions" "da_id c = cid" "planned_node (da_operation c) = Some n"
          using creators by (auto simp: creators_ok_def created_by_def)
        have idx: "action_index cid < length actions" "action_index (da_id a) < length actions"
          using c actions draft_ok_index by blast+
        have "grown (length actions) (?E \<union> set (action_edges deps')) deps'"
          using 2(2) by (auto simp: grown_def)
        from add_dependency_grown [OF this idx]
        have "yields (\<lambda>d. grown (length actions) ?E d \<and> (\<forall>m \<in> set (ys @ [n]). ?ok m d))
            (add_dependency deps' cid (da_id a) DependencyReason.InputCreation)"
        proof (rule yields_mono)
          fix d
          assume d: "grown (length actions) (insert (cid, da_id a) (?E \<union> set (action_edges deps'))) d"
          then have sub: "set (action_edges deps') \<subseteq> set (action_edges d)" by (simp add: grown_def)
          have "?ok m d" if "m \<in> set ys" for m
          proof -
            have "?ok m deps'" using 2(2) that by blast
            then show ?thesis using sub by blast
          qed
          moreover have "?ok n d" using d c by (auto simp: grown_def)
          ultimately show "grown (length actions) ?E d \<and> (\<forall>m \<in> set (ys @ [n]). ?ok m d)"
            using d by (auto simp: grown_def)
        qed
        then show ?thesis using None Some by (simp add: bind_input_def)
      qed
    qed
  qed
  then show ?thesis
    by (rule yields_mono) (auto simp: inputs_resolved_def referenced_nodes_def set_retain_first)
qed

definition planned_fresh :: "CurrentState \<Rightarrow> DraftAction list \<Rightarrow> bool" where
  "planned_fresh current actions \<longleftrightarrow>
     (\<forall>a \<in> set actions. \<forall>n. planned_node (da_operation a) = Some n \<longrightarrow>
        graph_node (cur_graph current) n = None
        \<and> (\<forall>b \<in> set actions. planned_node (da_operation b) = Some n \<longrightarrow> b = a))"

lemma creators_ok_fresh:
  assumes "draft_ok actions" and "creators_ok current actions creators"
  shows "planned_fresh current actions"
  unfolding planned_fresh_def
proof (intro ballI allI impI conjI)
  fix a n assume a: "a \<in> set actions" "planned_node (da_operation a) = Some n"
  then have c: "creators n = Some (da_id a)" using assms(2) by (auto simp: creators_ok_def created_by_def)
  then show "graph_node (cur_graph current) n = None" using assms(2) unfolding creators_ok_def by blast
  fix b assume b: "b \<in> set actions" "planned_node (da_operation b) = Some n"
  then have "creators n = Some (da_id b)" using assms(2) by (auto simp: creators_ok_def created_by_def)
  with c a b show "b = a" using draft_ok_unique [OF assms(1)] by simp
qed

lemma bind_planned_nodes_ok:
  assumes "draft_ok actions" and "grown (length actions) E deps"
  shows "yields (\<lambda>deps'. grown (length actions) E deps' \<and> planned_fresh current actions
      \<and> inputs_resolved current actions actions deps') (bind_planned_nodes current actions deps)"
  unfolding bind_planned_nodes_def
proof (rule yields_and_then [OF claim_planned_ok], goal_cases)
  case (1 creators)
  have "yields (\<lambda>deps'. grown (length actions) E deps' \<and> inputs_resolved current actions actions deps')
      (try_fold (\<lambda>deps action. try_fold (bind_input current creators (da_id action)) deps
         (referenced_nodes (da_operation action))) deps actions)"
  proof (rule yields_try_fold_prefix [where P = "\<lambda>ys deps'. grown (length actions) E deps'
        \<and> inputs_resolved current actions ys deps'"], goal_cases)
    case 1
    then show ?case using assms(2) by (simp add: inputs_resolved_def)
  next
    case (2 ys a zs deps')
    then have "a \<in> set actions" by simp
    from bind_inputs_ok [OF assms(1) this \<open>creators_ok _ _ _\<close>, of E deps'] 2(2)
    have "yields (\<lambda>d. grown (length actions) (E \<union> set (action_edges deps')) d
        \<and> inputs_resolved current actions [a] d)
      (try_fold (bind_input current creators (da_id a)) deps' (referenced_nodes (da_operation a)))" by blast
    then show ?case
    proof (rule yields_mono)
      fix d
      assume d: "grown (length actions) (E \<union> set (action_edges deps')) d
        \<and> inputs_resolved current actions [a] d"
      then have "inputs_resolved current actions ys d"
        using 2(2) by (auto simp: grown_def elim: inputs_resolved_mono)
      then show "grown (length actions) E d \<and> inputs_resolved current actions (ys @ [a]) d"
        using d grown_mono by (auto simp: inputs_resolved_def)
    qed
  qed
  then show ?case
    by (rule yields_mono) (use creators_ok_fresh [OF assms(1) 1(2)] in simp)
qed

lemma bind_mount_order_grown:
  assumes "draft_ok actions" and "grown (length actions) E deps"
  shows "yields (grown (length actions) E) (bind_mount_order actions deps)"
  unfolding bind_mount_order_def
proof (rule yields_try_fold, rule assms(2), rule yields_try_fold)
  fix d p d' assume "grown (length actions) E d"
  then show "grown (length actions) E d" .
next
  fix p c d
  assume "p \<in> set actions" "c \<in> set actions" and d: "grown (length actions) E d"
  then have "action_index (da_id p) < length actions" "action_index (da_id c) < length actions"
    using assms(1) draft_ok_index by blast+
  then show "yields (grown (length actions) E) (bind_mount_pair p d c)"
    using d by (auto simp: bind_mount_pair_def split: option.splits intro: add_dependency_keeps)
qed

section \<open>Requirements\<close>

lemma requirement_provider_ok:
  "yields (\<lambda>r. \<forall>p. r = Some p \<longrightarrow> p \<in> fst ` set contracts \<and> p \<noteq> pr_action req)
     (requirement_provider req contracts deps)"
proof -
  define providers where "providers = map fst (filter (\<lambda>(a, c). a \<noteq> pr_action req
      \<and> \<not> dependency_path (pr_action req) a deps
      \<and> list_ex (\<lambda>out. output_satisfies out (pr_prerequisite req)) (ac_provided_outputs c)) contracts)"
  define preds where "preds = filter (\<lambda>p. dependency_path p (pr_action req) deps) providers"
  have mem: "p \<in> fst ` set contracts \<and> p \<noteq> pr_action req" if "p \<in> set providers" for p
    using that by (auto simp: providers_def)
  have latest: "p \<in> set providers" if "find Q preds = Some p" for Q p
    using that by (auto simp: preds_def find_Some_iff dest: nth_mem)
  show ?thesis
    unfolding requirement_provider_def Let_def providers_def [symmetric] preds_def [symmetric]
    using mem latest by (auto simp: yields_def split: option.splits list.splits)
qed

lemma requirement_provider_index:
  assumes "draft_ok actions" and "fst ` set contracts \<subseteq> da_id ` set actions"
    and "requirement_provider req contracts deps = Inr (Some p)"
  shows "action_index p < length actions"
  using yields_result [OF requirement_provider_ok assms(3)] assms(1,2) draft_ok_index by fastforce

lemma validate_declared_ok: "yields (\<lambda>_. True) (validate_declared_requirements reqs contracts)"
  unfolding validate_declared_requirements_def
  by (intro yields_try_fold yields_and_then [OF yields_ok_or] yields_require TrueI)

lemma resolve_requirements_grown:
  assumes "draft_ok actions" and "grown (length actions) E deps" and "reqs_within (length actions) reqs"
    and "fst ` set (ao_contracts trace) \<subseteq> da_id ` set actions"
  shows "yields (grown (length actions) E) (resolve_requirements reqs trace deps)"
  unfolding resolve_requirements_def
proof (rule yields_and_then [OF validate_declared_ok], rule yields_try_fold, rule assms(2))
  fix d req
  assume req: "req \<in> set reqs" and d: "grown (length actions) E d"
  show "yields (grown (length actions) E) (resolve_requirement trace d req)"
    unfolding resolve_requirement_def
  proof (rule yields_and_then [OF yields_ok_or], rule TrueI, goal_cases)
    case (1 check)
    have "yields (grown (length actions) E) (add_dependency d p (pr_action req) r)"
      if "requirement_provider req (ao_contracts trace) d = Inr (Some p)" for p r
      using requirement_provider_index [OF assms(1,4) that] assms(3) req d
      by (auto simp: reqs_within_def intro: add_dependency_keeps)
    then show ?case using d
      by (auto intro!: yields_and_then [OF requirement_provider_ok] split: option.splits)
  qed
qed

section \<open>Restarts\<close>

text \<open>What a contextual binding returns: no edge, or one from an action not yet emitted.\<close>

definition fresh_edge ::
  "DraftAction list \<Rightarrow> ActionId set \<Rightarrow> ActionId \<Rightarrow> ActionDependency list \<Rightarrow> ActionDependency list option \<Rightarrow> bool" where
  "fresh_edge actions emitted a deps r \<longleftrightarrow> (\<forall>deps'. r = Some deps' \<longrightarrow>
     (\<exists>p. p \<notin> emitted \<and> grown (length actions) {} deps'
        \<and> set (action_edges deps') = insert (p, a) (set (action_edges deps))))"

lemma bind_first_yields:
  assumes "\<And>r. r \<in> set rs \<Longrightarrow> yields (\<lambda>x. x \<noteq> None \<longrightarrow> P x) (bind r)" and "P None"
  shows "yields P (bind_first bind rs)"
  using assms
proof (induction rs)
  case Nil
  then show ?case by simp
next
  case (Cons r rs)
  have r: "yields (\<lambda>x. x \<noteq> None \<longrightarrow> P x) (bind r)" using Cons.prems by simp
  have rs: "yields P (bind_first bind rs)" using Cons by simp
  show ?case
  proof (cases "bind r")
    case (Inl e)
    then show ?thesis using r by (simp add: yields_def)
  next
    case (Inr x)
    then show ?thesis using r rs by (cases x) (simp_all add: yields_def)
  qed
qed

lemma bind_contextual_fresh:
  assumes actions: "draft_ok actions" "action \<in> set actions" and deps: "grown (length actions) {} deps"
  shows "yields (fresh_edge actions (fst ` set emitted) (da_id action) deps)
    (bind_contextual_outputs st action actions emitted reqs deps)"
proof -
  let ?fresh = "fresh_edge actions (fst ` set emitted) (da_id action) deps"
  define providers where "providers = map (\<lambda>c. (da_id c, describe_action (da_operation c) (des_graph (fst st))))
    (filter (\<lambda>c. map_of emitted (da_id c) = None) actions)"
  have prov: "action_index p < length actions \<and> p \<notin> fst ` set emitted" if "p \<in> fst ` set providers" for p
    using that draft_ok_index [OF actions(1)] by (force simp: providers_def map_of_eq_None_iff)
  have add: "yields (\<lambda>d. ?fresh (Some d)) (add_dependency deps p (da_id action) r)"
    if "p \<in> fst ` set providers" for p r
  proof (rule yields_result_mono)
    show "yields (grown (length actions) {}) (add_dependency deps p (da_id action) r)"
      using add_dependency_keeps [OF deps] prov [OF that] draft_ok_index [OF actions] by blast
    show "?fresh (Some d)" if "add_dependency deps p (da_id action) r = Inr d" "grown (length actions) {} d" for d
      using that prov [OF \<open>p \<in> fst ` set providers\<close>] add_dependency_Inr(2) [OF that(1)]
      by (auto simp: fresh_edge_def grown_def)
  qed
  have "yields (\<lambda>x. x \<noteq> None \<longrightarrow> ?fresh x)
      (bind_requirement st action c providers req deps)" for c req
    unfolding bind_requirement_def
    by (rule yields_and_then [OF yields_require], rule TrueI)
      (auto intro!: yields_and_then [OF requirement_provider_ok] yields_and_then [OF add] split: option.splits)
  then show ?thesis
    unfolding bind_contextual_outputs_def Let_def providers_def [symmetric]
    by (auto intro!: bind_first_yields simp: fresh_edge_def)
qed

definition traced ::
  "DraftAction list \<Rightarrow> ActionDependency list \<Rightarrow> AnalysedOrder \<Rightarrow> ActionId list \<Rightarrow>
   (ActionDependency list, AnalysedOrder) result \<Rightarrow> bool" where
  "traced actions deps trace order r = (case r of
      Inl deps' \<Rightarrow> grown (length actions) {} deps'
        \<and> set (action_edges deps) \<subset> set (action_edges deps')
    | Inr final \<Rightarrow> \<exists>ext. ao_contracts final = ao_contracts trace @ ext \<and> map fst ext = order)"

lemma trace_order_traced:
  assumes "draft_ok actions" and grown: "grown (length actions) {} deps"
    and "topological_order (length actions) deps = Inr (map fst (ao_contracts trace) @ order)"
  shows "yields (traced actions deps trace order) (trace_order actions reqs deps st trace order)"
  using assms(3)
proof (induction order arbitrary: st trace)
  case Nil
  then show ?case by (simp add: traced_def)
next
  case (Cons a order)
  have within: "deps_within (length actions, deps)" using grown by (simp add: grown_def)
  have "a \<in> action_set (length actions)"
    using plan_order_sound [OF within Cons.prems] by auto
  then have idx: "action_index a < length actions" and a: "a = action_of_index (action_index a)"
    by (auto simp: action_set_def) (metis action_index_of_index assms(1) draft_ok_def order_less_le_trans)
  define action where "action = actions ! action_index a"
  have act: "action \<in> set actions" "da_id action = a" "nth_opt actions (action_index a) = Some action"
    using idx draft_ok_ids(1) [OF assms(1) idx] a by (auto simp: action_def nth_opt_def)
  have before: "p \<in> fst ` set (ao_contracts trace)" if "(p, a) \<in> set (action_edges deps)" for p
    using plan_sort.sort_predecessors [of "(length actions, deps)" "map fst (ao_contracts trace)" a order p]
      within Cons.prems that by simp
  have step: "yields (traced actions deps trace (a # order)) (trace_order actions reqs deps st'
        \<lparr>ao_contracts = ao_contracts trace @ [(a, c)], ao_checks = ch\<rparr> order)" for st' c ch
    using Cons.IH [of "\<lparr>ao_contracts = ao_contracts trace @ [(a, c)], ao_checks = ch\<rparr>" st'] Cons.prems
    by (auto simp: traced_def elim!: yields_mono split: sum.splits)
  show ?case
    unfolding trace_order.simps act(3) ok_or_simps and_then_simps
  proof (rule yields_and_then [OF bind_contextual_fresh [OF assms(1) act(1) grown]], goal_cases)
    case (1 rebound)
    show ?case
    proof (cases rebound)
      case None
      then show ?thesis
        by (auto intro!: yields_and_then [OF yields_map_err_Failed] step)
    next
      case (Some deps')
      then obtain p where "p \<notin> fst ` set (ao_contracts trace)" "grown (length actions) {} deps'"
        "set (action_edges deps') = insert (p, a) (set (action_edges deps))"
        using 1(2) act(2) by (auto simp: fresh_edge_def)
      then have "traced actions deps trace (a # order) (Inl deps')" using before by (auto simp: traced_def)
      then show ?thesis using Some by simp
    qed
  qed
qed

text \<open>A finished simulation of a candidate order, and the edges it has kept.\<close>

definition analysed ::
  "CurrentState \<Rightarrow> CapacityEvidence list \<Rightarrow> DraftAction list \<Rightarrow> PendingRequirement list \<Rightarrow>
   AnalysedOrder \<times> ActionDependency list \<Rightarrow> bool" where
  "analysed current capacity actions reqs p = (case p of (trace, deps) \<Rightarrow>
     \<exists>order ev. topological_order (length actions) deps = Inr order \<and> evidence_new capacity = Inr ev
       \<and> trace_order actions reqs deps (from_current current, ev)
           \<lparr>ao_contracts = [], ao_checks = []\<rparr> order = Inr (Inr trace))"

lemma card_action_set: "card (action_set n) \<le> n"
  using card_image_le [of "{0..<n}" action_of_index] by (simp add: action_set_def)

lemma card_edges:
  assumes "deps_within (n, deps)"
  shows "card (set (action_edges deps)) \<le> n * n"
proof -
  have fin: "finite (action_set n)" by (simp add: action_set_def)
  have "card (set (action_edges deps)) \<le> card (action_set n \<times> action_set n)"
    using action_edges_within [OF assms] fin by (intro card_mono) auto
  also have "\<dots> \<le> n * n"
    using card_action_set [of n] by (simp add: card_cartesian_product mult_le_mono)
  finally show ?thesis .
qed

lemma simulate_order_loop_ok:
  assumes "draft_ok actions" and "grown (length actions) E deps"
    and "length actions * length actions < fuel + card (set (action_edges deps))"
  shows "yields (\<lambda>p. grown (length actions) E (snd p) \<and> analysed current capacity actions reqs p)
    (simulate_order_loop fuel current capacity actions reqs deps)"
  using assms(2,3)
proof (induction fuel arbitrary: deps)
  case 0
  then have "card (set (action_edges deps)) \<le> length actions * length actions"
    by (intro card_edges) (simp add: grown_def)
  with 0 show ?case by simp
next
  case (Suc fuel)
  have within: "deps_within (length actions, deps)" using Suc.prems by (simp add: grown_def)
  have top: "yields (\<lambda>_. True) (topological_order (length actions) deps)"
    using plan_order_run [OF within] by (auto simp: yields_def)
  show ?case
    unfolding simulate_order_loop.simps
  proof (rule yields_and_then [OF top], rule yields_and_then [OF yields_map_err_Failed], rule TrueI, goal_cases)
    case (1 order ev)
    have ev: "evidence_new capacity = Inr ev" using 1(3) by (simp add: map_err_Inr_iff)
    have "yields (traced actions deps \<lparr>ao_contracts = [], ao_checks = []\<rparr> order)
        (trace_order actions reqs deps (from_current current, ev) \<lparr>ao_contracts = [], ao_checks = []\<rparr> order)"
      using 1(1) by (intro trace_order_traced [OF assms(1) grown_mono [OF Suc.prems(1)]]) simp_all
    then show ?case
    proof (rule yields_and_then, goal_cases)
      case (1 r)
      show ?case
      proof (cases r)
        case (Inl deps')
        then have d: "grown (length actions) {} deps'" "set (action_edges deps) \<subset> set (action_edges deps')"
          using 1(2) by (simp_all add: traced_def)
        then have "card (set (action_edges deps)) < card (set (action_edges deps'))"
          by (intro psubset_card_mono) auto
        then show ?thesis
          using Inl Suc.IH [of deps'] Suc.prems d by (auto simp: grown_def)
      next
        case (Inr trace)
        then show ?thesis
          using 1(1) \<open>topological_order _ _ = _\<close> ev Suc.prems(1) by (auto simp: analysed_def)
      qed
    qed
  qed
qed

lemma simulate_order_ok:
  assumes "draft_ok actions" and "grown (length actions) E deps"
  shows "yields (\<lambda>p. grown (length actions) E (snd p) \<and> analysed current capacity actions reqs p)
    (simulate_order current capacity actions reqs deps)"
  unfolding simulate_order_def
  by (rule simulate_order_loop_ok [OF assms]) (simp add: restart_fuel_def)

lemma analysed_contracts:
  assumes "draft_ok actions" and "analysed current capacity actions reqs (trace, deps)"
    and "grown (length actions) {} deps"
  shows "topological_order (length actions) deps = Inr (map fst (ao_contracts trace))"
    and "fst ` set (ao_contracts trace) \<subseteq> da_id ` set actions"
    and "distinct (map fst (ao_contracts trace))"
proof -
  obtain order ev where o: "topological_order (length actions) deps = Inr order"
    "trace_order actions reqs deps (from_current current, ev) \<lparr>ao_contracts = [], ao_checks = []\<rparr> order = Inr (Inr trace)"
    using assms(2) by (auto simp: analysed_def)
  have "traced actions deps \<lparr>ao_contracts = [], ao_checks = []\<rparr> order (Inr trace)"
    using yields_result [OF trace_order_traced [OF assms(1,3)] o(2)] o(1) by simp
  then have keys: "map fst (ao_contracts trace) = order" by (auto simp: traced_def)
  then show top: "topological_order (length actions) deps = Inr (map fst (ao_contracts trace))"
    using o(1) by simp
  have "deps_within (length actions, deps)" using assms(3) by (simp add: grown_def)
  note sound = plan_order_sound [OF this top]
  then show "distinct (map fst (ao_contracts trace))" by blast
  have "action_set (length actions) \<subseteq> da_id ` set actions"
    using draft_ok_ids(1) [OF assms(1)] by (auto simp: action_set_def image_iff) (metis nth_mem)
  then show "fst ` set (ao_contracts trace) \<subseteq> da_id ` set actions"
    using sound by auto
qed

lemma validate_resource_order_yields:
  "yields (\<lambda>_. True) (validate_resource_order contracts deps)"
  unfolding validate_resource_order_def
proof (rule yields_try_fold, rule TrueI)
  fix s :: unit and p
  assume "p \<in> set (ordered_pairs (sort (map fst contracts)))"
  then have "fst p \<in> fst ` set contracts" "snd p \<in> fst ` set contracts"
    using ordered_pairs_subset [of "sort (map fst contracts)"] by (cases p; force)+
  then obtain c1 c2 where "map_of contracts (fst p) = Some c1" "map_of contracts (snd p) = Some c2"
    by (metis map_of_eq_None_iff not_None_eq)
  then show "yields (\<lambda>_. True) (check_pair (map_of contracts) deps s p)"
    by (auto simp: check_pair_def intro: yields_require split: prod.splits option.splits)
qed

section \<open>Frozen plans\<close>

definition frozen_as :: "(ActionId \<times> ActionContract) list \<Rightarrow> DraftAction \<Rightarrow> PlannedAction \<Rightarrow> bool" where
  "frozen_as contracts a pa \<longleftrightarrow> pa_id pa = da_id a \<and> pa_operation pa = da_operation a
     \<and> pa_fragment pa = da_fragment a \<and> pa_local_id pa = da_local_id a \<and> pa_origin pa = da_origin a
     \<and> map_of contracts (da_id a) = Some (pa_informational_contract pa)"

lemma freeze_actions_ok:
  "yields (list_all2 (frozen_as contracts) draft) (try_fold (freeze_action contracts) [] draft)"
proof (rule yields_try_fold_prefix [where P = "list_all2 (frozen_as contracts)"], goal_cases)
  case 1
  then show ?case by simp
next
  case (2 ys a zs frozen)
  show ?case
    unfolding freeze_action_def
    by (rule yields_and_then [OF yields_ok_or], rule TrueI)
      (use 2(2) in \<open>auto simp: frozen_as_def ok_or_Inr_iff intro!: yields_Inr list_all2_appendI\<close>)
qed

text \<open>Everything the composer establishes about the plan it returns.\<close>

definition composed ::
  "CurrentState \<Rightarrow> CapacityEvidence list \<Rightarrow> DraftAction list \<Rightarrow> AnalysedOrder \<Rightarrow> ExecutionPlan \<Rightarrow> bool" where
  "composed current capacity draft final plan \<longleftrightarrow>
     validate_structure (cur_graph current) = Inr () \<and> draft_ok draft
     \<and> deps_within (length draft, plan_dependencies plan) \<and> distinct (action_edges (plan_dependencies plan))
     \<and> planned_fresh current draft
     \<and> inputs_resolved current draft draft (plan_dependencies plan)
     \<and> analysed current capacity draft [] (final, plan_dependencies plan)
     \<and> validate_resource_order (ao_contracts final) (plan_dependencies plan) = Inr ()
     \<and> list_all2 (frozen_as (ao_contracts final)) draft (plan_actions plan)"

lemma compose_composed:
  "yields (\<lambda>plan. \<exists>flat final deps. flatten_fragments fragments = Inr flat
       \<and> set (action_edges (ff_dependencies flat)) \<subseteq> set (action_edges (plan_dependencies plan))
       \<and> try_fold (bind_ordering (draft_endpoints (ff_actions flat))) (ff_dependencies flat) order_edges = Inr deps
       \<and> set (action_edges deps) \<subseteq> set (action_edges (plan_dependencies plan))
       \<and> composed current capacity (ff_actions flat) final plan)
     (compose_plan_with_ordering current fragments order_edges capacity)"
  unfolding compose_plan_with_ordering_def
proof (rule yields_and_then [OF yields_map_err_Failed], rule TrueI,
    rule yields_and_then [OF flatten_fragments_ok], goal_cases)
  case (1 u flat)
  let ?acts = "ff_actions flat" and ?n = "length (ff_actions flat)"
    and ?E = "set (action_edges (ff_dependencies flat))"
  have acts: "draft_ok ?acts" and reqs: "reqs_within ?n (ff_requirements flat)"
    and g0: "grown ?n ?E (ff_dependencies flat)" using 1(4) by (auto simp: grown_def)
  have flat: "flatten_fragments fragments = Inr flat" using 1(3) .
  have struct: "validate_structure (cur_graph current) = Inr ()" using 1(1) by (simp add: map_err_Inr_iff)
  show ?case
  proof (rule yields_and_then [OF bind_ordering_grown [OF acts g0]], goal_cases)
    case (1 deps1)
    then have bound: "try_fold (bind_ordering (draft_endpoints ?acts)) (ff_dependencies flat) order_edges = Inr deps1"
      and g1: "grown ?n (?E \<union> set (action_edges deps1)) deps1" by (auto simp: grown_def)
    show ?case
    proof (rule yields_and_then [OF bind_planned_nodes_ok [OF acts g1]], goal_cases)
      case (1 deps2)
      let ?F = "?E \<union> set (action_edges deps1) \<union> set (action_edges deps2)"
      have inputs: "planned_fresh current ?acts" "inputs_resolved current ?acts ?acts deps2"
        and g2: "grown ?n ?F deps2" using 1(2) by (auto simp: grown_def)
      show ?case
      proof (rule yields_and_then [OF bind_mount_order_grown [OF acts g2]],
          rule yields_and_then [OF simulate_order_ok [OF acts]], assumption, goal_cases)
        case (1 deps3 p)
        obtain trace deps4 where p: "p = (trace, deps4)" by (cases p)
        then have g4: "grown ?n ?F deps4"
          and an: "analysed current capacity ?acts (ff_requirements flat) (trace, deps4)" using 1(4) by auto
        have sub: "fst ` set (ao_contracts trace) \<subseteq> da_id ` set ?acts"
          using analysed_contracts(2) [OF acts an] g4 by (simp add: grown_def)
        show ?case
          unfolding p prod.case
        proof (rule yields_and_then [OF resolve_requirements_grown [OF acts g4 reqs sub]],
            rule yields_and_then [OF simulate_order_ok [OF acts]], assumption, goal_cases)
          case (1 deps5 q)
          obtain final deps6 where q: "q = (final, deps6)" by (cases q)
          then have g6: "grown ?n ?F deps6"
            and fin: "analysed current capacity ?acts [] (final, deps6)" using 1(4) by auto
          have inp: "inputs_resolved current ?acts ?acts deps6"
            using inputs(2) g6 inputs_resolved_mono by (auto simp: grown_def)
          show ?case
            unfolding q prod.case
          proof (rule yields_and_then [OF validate_declared_ok],
              rule yields_and_then [OF validate_resource_order_yields],
              rule yields_and_then [OF freeze_actions_ok], rule yields_Inr, goal_cases)
            case (1 u v planned)
            then have "composed current capacity ?acts final \<lparr>plan_actions = planned, plan_dependencies = deps6\<rparr>"
              using struct acts inputs(1) inp fin g6 by (simp add: composed_def grown_def)
            then show ?case using flat bound g6 by (auto simp: grown_def)
          qed
        qed
      qed
    qed
  qed
qed

section \<open>Replay of a composed plan\<close>

lemma simulate_action_contract:
  "simulate_action st action = Inr (result, st') \<Longrightarrow> sa_contract result = describe_action action (des_graph (fst st))"
  by (auto simp: simulate_action_def Let_def and_then_Inr_iff split: prod.splits if_splits)

lemma trace_order_extends:
  "trace_order actions reqs deps st trace order = Inr (Inr final) \<Longrightarrow>
     \<exists>ext. ao_contracts final = ao_contracts trace @ ext \<and> map fst ext = order"
proof (induction order arbitrary: st trace)
  case Nil
  then show ?case by simp
next
  case (Cons a order)
  from Cons.prems obtain result :: SimulatedAction and st' where
    "trace_order actions reqs deps st' \<lparr>ao_contracts = ao_contracts trace @ [(a, sa_contract result)],
       ao_checks = ao_checks trace @ [(a, sa_checks result)]\<rparr> order = Inr (Inr final)"
    by (auto simp: and_then_Inr_iff split: option.splits)
  from Cons.IH [OF this] show ?case by auto
qed

definition carries :: "DraftAction list \<Rightarrow> (ActionId \<times> ActionContract) list \<Rightarrow> PlannedAction list \<Rightarrow> ActionId \<Rightarrow> bool" where
  "carries draft contracts planned a \<longleftrightarrow> action_index a < length planned
     \<and> frozen_as contracts (draft ! action_index a) (planned ! action_index a)
     \<and> da_id (draft ! action_index a) = a"

lemma verify_own_contract: "verify_imported_contract keys action (describe_action action g) g = Inr (describe_action action g)"
  by (simp add: verify_imported_contract_def)

lemma replay_of_trace:
  assumes "trace_order draft [] deps st trace order = Inr (Inr final)"
    and "\<And>a. a \<in> set order \<Longrightarrow> carries draft (ao_contracts final) planned a"
    and "distinct (map fst (ao_contracts trace) @ order)"
  shows "\<exists>st' steps'. try_fold (replay_step keys) (st, seen, steps) (map (\<lambda>a. planned ! action_index a) order)
    = Inr (st', seen @ map (\<lambda>a. planned ! action_index a) order, steps')"
  using assms
proof (induction order arbitrary: st trace seen steps)
  case Nil
  then show ?case by simp
next
  case (Cons a order)
  let ?p = "planned ! action_index a" and ?d = "draft ! action_index a"
  have c: "carries draft (ao_contracts final) planned a" using Cons.prems(2) by simp
  from Cons.prems(1) obtain result st' where
    run: "nth_opt draft (action_index a) = Some ?d" "simulate_action st (da_operation ?d) = Inr (result, st')"
    "trace_order draft [] deps st' \<lparr>ao_contracts = ao_contracts trace @ [(a, sa_contract result)],
       ao_checks = ao_checks trace @ [(a, sa_checks result)]\<rparr> order = Inr (Inr final)"
    by (auto simp: and_then_Inr_iff bind_contextual_outputs_def nth_opt_def map_err_Inr_iff
        split: option.splits if_splits)
  obtain ext where "ao_contracts final = ao_contracts trace @ (a, sa_contract result) # ext"
    using trace_order_extends [OF run(3)] by auto
  then have "map_of (ao_contracts final) a = Some (sa_contract result)"
    using Cons.prems(3) by (auto simp: map_add_Some_iff map_of_eq_None_iff)
  then have contract: "pa_informational_contract ?p = sa_contract result"
    and op: "pa_operation ?p = da_operation ?d" using c by (auto simp: carries_def frozen_as_def)
  have step: "replay_step keys (st, seen, steps) ?p = Inr (st', seen @ [?p],
      steps @ [\<lparr>ss_action = pa_id ?p, ss_checks = sa_checks result,
        ss_invalidated_facts = sa_invalidated_facts result\<rparr>])"
    using run(2) contract op simulate_action_contract [OF run(2)]
    by (simp add: replay_step_def verify_own_contract)
  show ?case
    using Cons.IH [OF run(3), of "seen @ [?p]"] Cons.prems(2,3) step by simp
qed

lemma composed_carries:
  assumes "composed current capacity draft final plan" and "a \<in> action_set (length draft)"
  shows "carries draft (ao_contracts final) (plan_actions plan) a"
proof -
  have ok: "draft_ok draft" and all2: "list_all2 (frozen_as (ao_contracts final)) draft (plan_actions plan)"
    using assms(1) by (auto simp: composed_def)
  obtain i where i: "i < length draft" "a = action_of_index i" using assms(2) by (auto simp: action_set_def)
  then have "action_index a = i" using ok by (simp add: draft_ok_def)
  then show ?thesis
    using i all2 draft_ok_ids(1) [OF ok i(1)] by (simp add: carries_def list_all2_conv_all_nth)
qed

lemma composed_ids:
  assumes "composed current capacity draft final plan"
  shows "length (plan_actions plan) = length draft"
    and "map pa_id (plan_actions plan) = map action_of_index [0..<length (plan_actions plan)]"
proof -
  have all2: "list_all2 (frozen_as (ao_contracts final)) draft (plan_actions plan)" and ok: "draft_ok draft"
    using assms by (auto simp: composed_def)
  show len: "length (plan_actions plan) = length draft" using all2 by (simp add: list_all2_lengthD)
  have "map pa_id (plan_actions plan) = map da_id draft"
    using all2 by (auto simp: list_all2_conv_all_nth frozen_as_def intro!: nth_equalityI)
  then show "map pa_id (plan_actions plan) = map action_of_index [0..<length (plan_actions plan)]"
    using ok len by (simp add: draft_ok_def)
qed

lemma sorted_action_of_index:
  "n \<le> 2 ^ 32 \<Longrightarrow> sorted (map action_of_index [0..<n]) \<and> distinct (map action_of_index [0..<n])"
  by (auto simp: sorted_iff_nth_mono distinct_map action_le_iff intro!: inj_on_inverseI [where g = action_index])

lemma those_map_Some: "those (map (\<lambda>x. Some (f x)) xs) = Some (map f xs)"
  by (induction xs) auto

lemma composed_ordered:
  assumes "composed current capacity draft final plan"
    and "topological_order (length draft) (plan_dependencies plan) = Inr order"
  shows "ordered_actions plan = Some (map (\<lambda>a. plan_actions plan ! action_index a) order)"
proof -
  have "set order = action_set (length draft)"
    using plan_order_sound [OF _ assms(2)] assms(1) by (simp add: composed_def)
  then have "map (\<lambda>i. nth_opt (plan_actions plan) (action_index i)) order
      = map (\<lambda>i. Some (plan_actions plan ! action_index i)) order"
    using composed_carries [OF assms(1)] by (auto simp: carries_def nth_opt_def)
  then have "those (map (\<lambda>i. nth_opt (plan_actions plan) (action_index i)) order)
      = Some (map (\<lambda>a. plan_actions plan ! action_index a) order)" by (simp only: those_map_Some)
  then show ?thesis
    using assms(2) composed_ids(1) [OF assms(1)] by (simp add: ordered_actions_def)
qed

lemma composed_sorted:
  assumes "composed current capacity draft final plan"
    and "topological_order (length draft) (plan_dependencies plan) = Inr order"
  shows "sort_key pa_id (map (\<lambda>a. plan_actions plan ! action_index a) order) = plan_actions plan"
proof (rule sort_key_inj_key_eq)
  let ?ps = "plan_actions plan" and ?n = "length (plan_actions plan)"
  have n: "?n \<le> 2 ^ 32" and ids: "map pa_id ?ps = map action_of_index [0..<?n]"
    using composed_ids [OF assms(1)] assms(1) by (auto simp: composed_def draft_ok_def)
  have sound: "distinct order" "set order = action_set (length draft)"
    using plan_order_sound [OF _ assms(2)] assms(1) by (auto simp: composed_def)
  have ident: "pa_id (?ps ! action_index a) = a" if "a \<in> set order" for a
    using composed_carries [OF assms(1)] that sound(2) by (auto simp: carries_def frozen_as_def)
  have srt: "sorted (map action_of_index [0..<?n])" "distinct (map action_of_index [0..<?n])"
    using sorted_action_of_index [OF n] by simp_all
  then show "sorted (map pa_id ?ps)" using ids by simp
  have dps: "distinct (map pa_id ?ps)" using ids srt by simp
  have keys: "map pa_id (map (\<lambda>a. ?ps ! action_index a) order) = order"
    using ident by (simp add: map_idI)
  then have dm: "distinct (map (\<lambda>a. ?ps ! action_index a) order)" using sound(1) by (metis distinct_map)
  have "set (map (\<lambda>a. ?ps ! action_index a) order) = set ?ps"
  proof
    show "set (map (\<lambda>a. ?ps ! action_index a) order) \<subseteq> set ?ps"
      using composed_carries [OF assms(1)] sound(2) by (auto simp: carries_def)
    show "set ?ps \<subseteq> set (map (\<lambda>a. ?ps ! action_index a) order)"
    proof
      fix p assume "p \<in> set ?ps"
      then obtain i where i: "i < ?n" "p = ?ps ! i" by (metis in_set_conv_nth)
      then have "action_of_index i \<in> set order" "action_index (action_of_index i) = i"
        using sound(2) n composed_ids(1) [OF assms(1)] by (auto simp: action_set_def)
      then show "p \<in> set (map (\<lambda>a. ?ps ! action_index a) order)" using i by force
    qed
  qed
  moreover have "distinct ?ps" using dps by (simp add: distinct_map)
  ultimately show "mset (map (\<lambda>a. ?ps ! action_index a) order) = mset ?ps"
    using dm by (metis set_eq_iff_mset_eq_distinct)
  show "inj_on pa_id (set (map (\<lambda>a. ?ps ! action_index a) order))"
    using keys sound(1) by (metis distinct_map)
qed

lemma composed_replays:
  assumes "composed current capacity draft final plan"
  shows "\<exists>simulation. replay_plan keys current plan capacity = Inr (plan, simulation)"
proof -
  obtain order ev where o: "topological_order (length draft) (plan_dependencies plan) = Inr order"
    "evidence_new capacity = Inr ev"
    "trace_order draft [] (plan_dependencies plan) (from_current current, ev)
       \<lparr>ao_contracts = [], ao_checks = []\<rparr> order = Inr (Inr final)"
    using assms by (auto simp: composed_def analysed_def)
  have sound: "distinct order" "set order = action_set (length draft)"
    using plan_order_sound [OF _ o(1)] assms by (auto simp: composed_def)
  obtain st' steps where "try_fold (replay_step keys) ((from_current current, ev), [], [])
      (map (\<lambda>a. plan_actions plan ! action_index a) order)
    = Inr (st', map (\<lambda>a. plan_actions plan ! action_index a) order, steps)"
    using replay_of_trace [OF o(3) composed_carries [OF assms], of keys "[]" "[]"] sound by auto
  then show ?thesis
    using assms o(2) composed_ordered [OF assms o(1)] composed_sorted [OF assms o(1)]
    by (cases st') (simp add: replay_plan_def composed_def)
qed

end
