(* ===== verification/Compose_Fragments.thy ===== *)
theory Compose_Fragments
  imports Compose_Correct
begin

text \<open>
  What a composed plan keeps of the fragments it is composed of: every action of every
  fragment, in order and with its provenance, and every declared dependency.
\<close>

section \<open>Actions\<close>

text \<open>Fragment, local identifier, operation and origin of every action that is handed in.\<close>

definition fragment_view :: "nat \<times> PlanFragment \<Rightarrow> (FragmentId \<times> LocalActionId \<times> ProviderAction \<times> FragmentOrigin) list" where
  "fragment_view p = map (\<lambda>a. (FragmentId (of_nat (fst p)), fa_id a, fa_operation a, pf_origin (snd p)))
     (pf_actions (snd p))"

definition requested_actions ::
  "PlanFragment list \<Rightarrow> (FragmentId \<times> LocalActionId \<times> ProviderAction \<times> FragmentOrigin) list" where
  "requested_actions fragments = concat (map fragment_view (enumerate 0 fragments))"

definition draft_view :: "DraftAction \<Rightarrow> FragmentId \<times> LocalActionId \<times> ProviderAction \<times> FragmentOrigin" where
  "draft_view a = (da_fragment a, da_local_id a, da_operation a, da_origin a)"

definition planned_view :: "PlannedAction \<Rightarrow> FragmentId \<times> LocalActionId \<times> ProviderAction \<times> FragmentOrigin" where
  "planned_view a = (pa_fragment a, pa_local_id a, pa_operation a, pa_origin a)"

text \<open>Every identifier that was assigned belongs to an action of the draft.\<close>

definition ids_of_draft :: "IdMap \<Rightarrow> DraftAction list \<Rightarrow> bool" where
  "ids_of_draft ids draft \<longleftrightarrow> (\<forall>i l x. ids (i, l) = Some x \<longrightarrow>
     (\<exists>a \<in> set draft. da_fragment a = FragmentId (of_nat i) \<and> da_local_id a = l \<and> da_id a = x))"

text \<open>A key is drafted when an action with that fragment and local identifier carries its identifier.\<close>

definition drafted :: "IdMap \<Rightarrow> DraftAction list \<Rightarrow> nat \<times> LocalActionId \<Rightarrow> bool" where
  "drafted ids draft k \<longleftrightarrow> (\<exists>a \<in> set draft. da_fragment a = FragmentId (of_nat (fst k))
     \<and> da_local_id a = snd k \<and> ids k = Some (da_id a))"

lemma drafted_mono: "drafted ids draft k \<Longrightarrow> set draft \<subseteq> set draft' \<Longrightarrow> drafted ids draft' k"
  unfolding drafted_def by blast

lemma draft_action_Inr:
  "draft_action ids index f origin draft a = Inr draft' \<longleftrightarrow> (\<exists>d. draft' = draft @ [d]
     \<and> d = \<lparr>da_id = da_id d, da_operation = fa_operation a, da_fragment = f, da_local_id = fa_id a, da_origin = origin\<rparr>
     \<and> ids (index, fa_id a) = Some (da_id d))"
  by (cases "ids (index, fa_id a)") (auto simp: draft_action_def)

lemma draft_actions_view:
  assumes "try_fold (draft_action ids index (FragmentId (of_nat index)) origin) draft as = Inr draft'"
  shows "map draft_view draft' = map draft_view draft
      @ map (\<lambda>a. (FragmentId (of_nat index), fa_id a, fa_operation a, origin)) as
    \<and> set draft \<subseteq> set draft' \<and> (\<forall>a \<in> set as. drafted ids draft' (index, fa_id a))"
  using assms
proof (induction as arbitrary: draft)
  case Nil
  then show ?case by simp
next
  case (Cons a as)
  from Cons.prems obtain d where
    "d = \<lparr>da_id = da_id d, da_operation = fa_operation a, da_fragment = FragmentId (of_nat index),
       da_local_id = fa_id a, da_origin = origin\<rparr>" and d: "ids (index, fa_id a) = Some (da_id d)"
    "try_fold (draft_action ids index (FragmentId (of_nat index)) origin) (draft @ [d]) as = Inr draft'"
    by (auto simp: draft_action_Inr split: sum.splits)
  then have fields: "da_fragment d = FragmentId (of_nat index)" "da_local_id d = fa_id a"
    "da_operation d = fa_operation a" "da_origin d = origin" by (metis DraftAction.select_convs(2-5))+
  have "drafted ids (draft @ [d]) (index, fa_id a)" using d(1) fields by (simp add: drafted_def)
  then show ?case
    using Cons.IH [OF d(2)] fields drafted_mono by (auto simp: draft_view_def)
qed

lemma draft_fragments_view:
  assumes "try_fold (draft_fragment ids) draft fs = Inr draft'"
  shows "map draft_view draft' = map draft_view draft @ concat (map fragment_view fs)
    \<and> set draft \<subseteq> set draft' \<and> (\<forall>k \<in> set (concat (map fragment_keys fs)). drafted ids draft' k)"
  using assms
proof (induction fs arbitrary: draft)
  case Nil
  then show ?case by simp
next
  case (Cons p fs)
  obtain index fragment where p: "p = (index, fragment)" by (cases p)
  from Cons.prems obtain d where f: "draft_fragment ids draft p = Inr d"
    and fs: "try_fold (draft_fragment ids) d fs = Inr draft'" by (auto split: sum.splits)
  from f have d: "try_fold (draft_action ids index (FragmentId (of_nat index)) (pf_origin fragment)) draft
      (pf_actions fragment) = Inr d"
    by (auto simp: draft_fragment_def p u32_try_from_def and_then_Inr_iff split: if_splits)
  have "drafted ids draft' k" if "k \<in> set (fragment_keys p)" for k
    using that draft_actions_view [OF d] Cons.IH [OF fs] drafted_mono [of ids d k draft']
    by (auto simp: fragment_keys_def p)
  then show ?case
    using draft_actions_view [OF d] Cons.IH [OF fs] by (auto simp: fragment_view_def p)
qed

section \<open>Declared dependencies\<close>

definition linked :: "IdMap \<Rightarrow> nat \<times> PlanFragment \<Rightarrow> ActionDependency list \<Rightarrow> bool" where
  "linked ids p deps \<longleftrightarrow> (\<forall>d \<in> set (pf_dependencies (snd p)). \<exists>b a. ids (fst p, fd_before d) = Some b
     \<and> ids (fst p, fd_after d) = Some a \<and> (b, a) \<in> set (action_edges deps))"

lemma linked_mono: "linked ids p deps \<Longrightarrow> set (action_edges deps) \<subseteq> set (action_edges deps') \<Longrightarrow> linked ids p deps'"
  unfolding linked_def by blast

lemma local_dependencies_linked:
  assumes "try_fold (local_dependency ids index f) deps ds = Inr deps'"
  shows "set (action_edges deps) \<subseteq> set (action_edges deps')
    \<and> (\<forall>d \<in> set ds. \<exists>b a. ids (index, fd_before d) = Some b \<and> ids (index, fd_after d) = Some a
        \<and> (b, a) \<in> set (action_edges deps'))"
  using assms
proof (induction ds arbitrary: deps)
  case Nil
  then show ?case by simp
next
  case (Cons d ds)
  from Cons.prems obtain e where e: "local_dependency ids index f deps d = Inr e"
    "try_fold (local_dependency ids index f) e ds = Inr deps'" by (auto split: sum.splits)
  then obtain b a where "ids (index, fd_before d) = Some b" "ids (index, fd_after d) = Some a"
    "set (action_edges e) = insert (b, a) (set (action_edges deps))"
    by (auto simp: local_dependency_def split: option.splits dest: add_dependency_Inr(2))
  then show ?case using Cons.IH [OF e(2)] by auto
qed

lemma link_fragments_linked:
  assumes "try_fold (link_fragment ids) s fs = Inr s'"
  shows "set (action_edges (fst s)) \<subseteq> set (action_edges (fst s')) \<and> (\<forall>p \<in> set fs. linked ids p (fst s'))"
  using assms
proof (induction fs arbitrary: s)
  case Nil
  then show ?case by simp
next
  case (Cons p fs)
  from Cons.prems obtain t where t: "link_fragment ids s p = Inr t" "try_fold (link_fragment ids) t fs = Inr s'"
    by (auto split: sum.splits)
  from t(1) have "set (action_edges (fst s)) \<subseteq> set (action_edges (fst t)) \<and> linked ids p (fst t)"
    by (auto simp: link_fragment_def linked_def and_then_Inr_iff split: prod.splits
        dest!: local_dependencies_linked)
  then show ?case using Cons.IH [OF t(2)] linked_mono [of ids p "fst t" "fst s'"] by auto
qed

lemma flatten_fragments_keeps:
  assumes "flatten_fragments fragments = Inr flat"
  obtains ids where "map draft_view (ff_actions flat) = requested_actions fragments"
    and "ids_of_draft ids (ff_actions flat)"
    and "\<forall>p \<in> set (enumerate 0 fragments). linked ids p (ff_dependencies flat)"
proof -
  from assms obtain ids draft deps reqs where run: "fragment_action_ids fragments = Inr ids"
    "try_fold (draft_fragment ids) [] (enumerate 0 fragments) = Inr draft"
    "try_fold (link_fragment ids) ([], []) (enumerate 0 fragments) = Inr (deps, reqs)"
    "flat = \<lparr>ff_actions = draft, ff_dependencies = deps, ff_requirements = reqs\<rparr>"
    by (auto simp: flatten_fragments_def and_then_Inr_iff split: prod.splits)
  note view = draft_fragments_view [OF run(2), folded all_keys_def]
  have "k \<in> set (all_keys fragments)" if "ids k = Some x" for k x
    using yields_result [OF fragment_action_ids_assigned run(1)] that
    by (auto simp: assigned_def dest!: map_of_SomeD set_zip_leftD)
  then have "ids_of_draft ids draft"
    using view by (fastforce simp: ids_of_draft_def drafted_def)
  then show thesis
    using that run(4) view link_fragments_linked [OF run(3)] by (simp add: requested_actions_def)
qed

end
