(* ===== verification/Compose_Sample.thy ===== *)
theory Compose_Sample
  imports Compose_Correct
begin

text \<open>
  A sample composition, on which the properties of the composer are applied: a filesystem is
  created on the partition of the sample graph and then mounted.
\<close>

section \<open>A sample composition\<close>

definition sample_current :: CurrentState where
  "sample_current = \<lparr>cur_graph = sample_graph, cur_mounts = \<lparr>ms_entries = []\<rparr>,
     cur_environment = \<lparr>env_host = default_system, env_target = None\<rparr>, cur_diagnostics = []\<rparr>"

definition sample_create :: ProviderAction where
  "sample_create = ProviderAction.Filesystem
     (FilesystemAction.Create (NodeId 3) (NodeId 4) FilesystemKind.Ext4 None)"

definition sample_mount :: ProviderAction where
  "sample_mount = ProviderAction.Mount (MountAction.Mount (MountSource.Filesystem (NodeId 4))
     [RootDir, Normal ''data''] [''rw''] MountContext.Host)"

text \<open>The mount is listed first: the order of the plan comes from the dependencies.\<close>

definition sample_fragment :: PlanFragment where
  "sample_fragment = \<lparr>
     pf_actions = [\<lparr>fa_id = LocalActionId 7, fa_operation = sample_mount\<rparr>,
       \<lparr>fa_id = LocalActionId 3, fa_operation = sample_create\<rparr>],
     pf_dependencies = [\<lparr>fd_before = LocalActionId 3, fd_after = LocalActionId 7,
       fd_reason = DependencyReason.RequestedOrder\<rparr>],
     pf_external_requirements = [],
     pf_origin = FragmentOrigin.Change (NodeId 4) ''data'', pf_diagnostics = []\<rparr>"

definition sample_plan :: ExecutionPlan where
  "sample_plan = (case compose_plan_with_ordering sample_current [sample_fragment] [] [] of
     Inr plan \<Rightarrow> plan | Inl _ \<Rightarrow> \<lparr>plan_actions = [], plan_dependencies = []\<rparr>)"

definition sample_verdict :: "ExecutionPlan \<Rightarrow> bool" where
  "sample_verdict plan \<longleftrightarrow> map pa_operation (plan_actions plan) = [sample_mount, sample_create]
     \<and> map action_index (map pa_id (plan_actions plan)) = [0, 1]
     \<and> map (map_prod action_index action_index) (action_edges (plan_dependencies plan)) = [(1, 0)]
     \<and> conflicting_resource (pa_informational_contract (plan_actions plan ! 0))
         (pa_informational_contract (plan_actions plan ! 1)) \<noteq> None"

text \<open>An encoder that fails, as the one of the source does on paths that are not UTF-8.\<close>

definition sample_keys :: ContractKeys where
  "sample_keys = \<lparr>key_prerequisite = (\<lambda>_. None), key_output = (\<lambda>_. None), key_resource = (\<lambda>_. None),
     key_fact = (\<lambda>_. None), key_postcondition = (\<lambda>_. None), key_effect = (\<lambda>_. None)\<rparr>"

lemma sample_run:
  "case compose_plan_with_ordering sample_current [sample_fragment] [] [] of
     Inr plan \<Rightarrow> sample_verdict plan | Inl _ \<Rightarrow> False"
  by code_simp

lemma sample_composes:
  "compose_plan_with_ordering sample_current [sample_fragment] [] [] = Inr sample_plan"
  "sample_verdict sample_plan"
  using sample_run by (auto simp: sample_plan_def split: sum.splits)

end
