(* ===== verification/Compose_Properties.thy ===== *)
theory Compose_Properties
  imports Compose_Fragments Compose_Sample
begin

text \<open>
  What the composer promises (\<^verbatim>\<open>compose_plan_with_ordering\<close> and the operations it is made of).
\<close>

section \<open>Composition as a whole\<close>

lemma compose_result:
  assumes "compose_plan_with_ordering current fragments order_edges capacity = Inr plan"
  obtains flat final where "flatten_fragments fragments = Inr flat"
    and "set (action_edges (ff_dependencies flat)) \<subseteq> set (action_edges (plan_dependencies plan))"
    and "composed current capacity (ff_actions flat) final plan"
  using yields_result [OF compose_composed assms] by blast

lemma compose_ordering_bound:
  assumes "compose_plan_with_ordering current fragments order_edges capacity = Inr plan"
  obtains flat final deps where "flatten_fragments fragments = Inr flat"
    and "try_fold (bind_ordering (draft_endpoints (ff_actions flat))) (ff_dependencies flat) order_edges = Inr deps"
    and "set (action_edges deps) \<subseteq> set (action_edges (plan_dependencies plan))"
    and "composed current capacity (ff_actions flat) final plan"
  using yields_result [OF compose_composed assms] by blast

lemma composed_drafted:
  assumes "composed current capacity draft final plan" and "p \<in> set (plan_actions plan)"
  shows "\<exists>d \<in> set draft. frozen_as (ao_contracts final) d p"
  using assms unfolding composed_def by (metis in_set_conv_nth list_all2_conv_all_nth)

lemma composed_frozen:
  assumes "composed current capacity draft final plan" and "d \<in> set draft"
  shows "\<exists>p \<in> set (plan_actions plan). frozen_as (ao_contracts final) d p"
  using assms unfolding composed_def by (metis in_set_conv_nth list_all2_conv_all_nth)

lemma composed_unique:
  assumes "composed current capacity draft final plan"
    and "p \<in> set (plan_actions plan)" and "q \<in> set (plan_actions plan)" and "pa_id p = pa_id q"
  shows "p = q"
proof -
  have "distinct (map pa_id (plan_actions plan))"
    using composed_ids [OF assms(1)] assms(1) sorted_action_of_index [of "length draft"]
    by (simp add: composed_def draft_ok_def)
  then show ?thesis using assms(2-4) by (simp add: distinct_map inj_on_def)
qed

lemma compose_view_aux:
  assumes "compose_plan_with_ordering current fragments order_edges capacity = Inr plan"
  shows "map planned_view (plan_actions plan) = requested_actions fragments"
proof (rule compose_result [OF assms])
  fix flat final
  assume flat: "flatten_fragments fragments = Inr flat" and c: "composed current capacity (ff_actions flat) final plan"
  have "list_all2 (frozen_as (ao_contracts final)) (ff_actions flat) (plan_actions plan)"
    using c by (simp add: composed_def)
  then have "map planned_view (plan_actions plan) = map draft_view (ff_actions flat)"
    by (auto simp: list_all2_conv_all_nth frozen_as_def planned_view_def draft_view_def intro!: nth_equalityI)
  then show ?thesis using flatten_fragments_keeps [OF flat] by metis
qed

lemma compose_ordered_aux:
  assumes "compose_plan_with_ordering current fragments order_edges capacity = Inr plan"
  shows "map pa_id (plan_actions plan) = map action_of_index [0..<length (plan_actions plan)]
    \<and> acyclic (set (action_edges (plan_dependencies plan)))
    \<and> (\<exists>ordered. ordered_actions plan = Some ordered \<and> mset ordered = mset (plan_actions plan)
        \<and> keeps_order ((set (action_edges (plan_dependencies plan)))\<^sup>+) (map pa_id ordered))"
proof (rule compose_result [OF assms])
  fix flat final
  assume c: "composed current capacity (ff_actions flat) final plan"
  let ?n = "length (ff_actions flat)" and ?deps = "plan_dependencies plan"
  obtain order where o: "topological_order ?n ?deps = Inr order"
    using c by (auto simp: composed_def analysed_def)
  have within: "deps_within (?n, ?deps)" using c by (simp add: composed_def)
  let ?ordered = "map (\<lambda>a. plan_actions plan ! action_index a) order"
  have ids: "map pa_id ?ordered = order"
    using composed_carries [OF c] plan_order_sound [OF within o]
    by (auto simp: carries_def frozen_as_def intro!: map_idI)
  have "mset ?ordered = mset (plan_actions plan)"
    using composed_sorted [OF c o] by (metis mset_sort)
  moreover have "keeps_order ((set (action_edges ?deps))\<^sup>+) order \<and> acyclic (set (action_edges ?deps))"
    using plan_sort.sort_keeps_paths [of "(?n, ?deps)" order] plan_sort.sort_acyclic [of "(?n, ?deps)" order]
      within o by simp
  ultimately show ?thesis
    using composed_ids(2) [OF c] composed_ordered [OF c o] ids by auto
qed

text \<open>
  C1. Composition is total: for every input it returns a plan or a typed error. None of the
  indexing operations and \<^verbatim>\<open>expect\<close> calls of the composer can panic, and the loop that
  restarts the simulation after a contextual dependency terminates (the bound on the number
  of restarts is never reached).
\<close>

theorem compose_never_panics:
  "compose_plan_with_ordering current fragments order_edges capacity \<noteq> Inl Panic
   \<and> compose_plan_with_ordering current fragments order_edges capacity \<noteq> Inl OutOfFuel"
  using yields_not_panic [OF compose_composed] by blast

text \<open>
  C2. A composed plan replays: simulated again from the same baseline, in its own dependency
  order, every action passes its checks, carries exactly the contract that is recomputed for
  it, and the replayed plan is the plan itself.
\<close>

theorem composed_plan_replays:
  assumes "compose_plan_with_ordering current fragments order_edges capacity = Inr plan"
  shows "\<exists>simulation. replay_plan keys current plan capacity = Inr (plan, simulation)"
  using compose_result [OF assms] composed_replays by metis

theorem composed_plan_replays_witness:
  "\<exists>simulation. replay_plan sample_keys sample_current sample_plan [] = Inr (sample_plan, simulation)"
  by (rule composed_plan_replays [OF sample_composes(1)])

text \<open>
  C8. The actions of a composed plan are numbered consecutively from zero, its dependencies
  are acyclic and stay within the plan, and \<^verbatim>\<open>ordered_actions\<close> lists every action once with
  each action after all its direct and indirect predecessors.
\<close>

theorem composed_plan_ordered:
  assumes "compose_plan_with_ordering current fragments order_edges capacity = Inr plan"
  shows "map pa_id (plan_actions plan) = map action_of_index [0..<length (plan_actions plan)]
    \<and> acyclic (set (action_edges (plan_dependencies plan)))
    \<and> (\<exists>ordered. ordered_actions plan = Some ordered \<and> mset ordered = mset (plan_actions plan)
        \<and> keeps_order ((set (action_edges (plan_dependencies plan)))\<^sup>+) (map pa_id ordered))"
  using assms by (rule compose_ordered_aux)

theorem composed_plan_ordered_witness:
  "acyclic (set (action_edges (plan_dependencies sample_plan))) \<and> length (plan_actions sample_plan) = 2
   \<and> (\<exists>ordered. ordered_actions sample_plan = Some ordered)"
proof -
  have "length (map pa_operation (plan_actions sample_plan)) = 2"
    using sample_composes(2) by (simp only: sample_verdict_def) simp
  then show ?thesis using composed_plan_ordered [OF sample_composes(1)] by auto
qed

text \<open>
  C4. Conflicting accesses are ordered: when two different actions of a composed plan touch
  the same resource and one of them writes it, a chain of dependencies leads from one to the
  other, so no admissible schedule can run them at the same time.
\<close>

theorem composed_conflicts_ordered:
  assumes "compose_plan_with_ordering current fragments order_edges capacity = Inr plan"
    and "a \<in> set (plan_actions plan)" and "b \<in> set (plan_actions plan)" and "pa_id a \<noteq> pa_id b"
    and "conflicts_on r (pa_informational_contract a) (pa_informational_contract b)"
  shows "(pa_id a, pa_id b) \<in> (set (action_edges (plan_dependencies plan)))\<^sup>+
    \<or> (pa_id b, pa_id a) \<in> (set (action_edges (plan_dependencies plan)))\<^sup>+"
proof (rule compose_result [OF assms(1)])
  fix flat final
  assume c: "composed current capacity (ff_actions flat) final plan"
  then have all2: "list_all2 (frozen_as (ao_contracts final)) (ff_actions flat) (plan_actions plan)"
    and valid: "validate_resource_order (ao_contracts final) (plan_dependencies plan) = Inr ()"
    by (auto simp: composed_def)
  have contract: "map_of (ao_contracts final) (pa_id p) = Some (pa_informational_contract p)"
    if "p \<in> set (plan_actions plan)" for p
    using that all2 by (auto simp: list_all2_conv_all_nth in_set_conv_nth frozen_as_def)
  show ?thesis
    using validate_resource_order_Inr [OF valid contract [OF assms(2)] contract [OF assms(3)] assms(4,5)]
    by (simp add: dependency_path_iff_aux)
qed

lemma sample_actions:
  obtains a b where "plan_actions sample_plan = [a, b]" and "pa_operation a = sample_mount"
    and "pa_operation b = sample_create" and "action_index (pa_id a) = 0" and "action_index (pa_id b) = 1"
proof -
  have l: "map pa_operation (plan_actions sample_plan) = [sample_mount, sample_create]"
    and i: "map action_index (map pa_id (plan_actions sample_plan)) = [0, 1]"
    using sample_composes(2) by (simp_all only: sample_verdict_def)
  from l obtain a b where "plan_actions sample_plan = [a, b]" by auto
  with l i that show thesis by auto
qed

theorem composed_conflicts_ordered_witness:
  "\<exists>a b. plan_actions sample_plan = [a, b]
     \<and> ((pa_id a, pa_id b) \<in> (set (action_edges (plan_dependencies sample_plan)))\<^sup>+
        \<or> (pa_id b, pa_id a) \<in> (set (action_edges (plan_dependencies sample_plan)))\<^sup>+)"
proof (rule sample_actions)
  fix a b
  assume ab: "plan_actions sample_plan = [a, b]" "action_index (pa_id a) = 0" "action_index (pa_id b) = 1"
  have "conflicting_resource (pa_informational_contract (plan_actions sample_plan ! 0))
      (pa_informational_contract (plan_actions sample_plan ! 1)) \<noteq> None"
    using sample_composes(2) unfolding sample_verdict_def by (elim conjE)
  then obtain r where r: "conflicts_on r (pa_informational_contract a) (pa_informational_contract b)"
    using ab(1) by (auto simp: conflicting_resource_None)
  have "pa_id a \<noteq> pa_id b" using ab by auto
  from composed_conflicts_ordered [OF sample_composes(1) _ _ this r] ab(1) show ?thesis by auto
qed

text \<open>
  C6. Every input of every action of a composed plan is available when the action runs: it is
  a node of the baseline, or it is created by exactly one other action of the plan, on which
  the action depends. No action plans a node that the baseline already has.
\<close>

theorem composed_inputs_available:
  assumes "compose_plan_with_ordering current fragments order_edges capacity = Inr plan"
    and "a \<in> set (plan_actions plan)"
  shows "(\<forall>n. planned_node (pa_operation a) = Some n \<longrightarrow> graph_node (cur_graph current) n = None)
    \<and> (\<forall>n \<in> set (input_nodes (pa_operation a)). graph_node (cur_graph current) n \<noteq> None
        \<or> (\<exists>!c. c \<in> set (plan_actions plan) \<and> planned_node (pa_operation c) = Some n
            \<and> (pa_id c, pa_id a) \<in> set (action_edges (plan_dependencies plan))))"
proof (rule compose_result [OF assms(1)])
  fix flat final
  assume c: "composed current capacity (ff_actions flat) final plan"
  let ?draft = "ff_actions flat" and ?deps = "plan_dependencies plan"
  have fresh: "planned_fresh current ?draft" and inputs: "inputs_resolved current ?draft ?draft ?deps" using c by (auto simp: composed_def)
  obtain d where d: "d \<in> set ?draft" "frozen_as (ao_contracts final) d a" using composed_drafted [OF c assms(2)] by blast
  have "graph_node (cur_graph current) n = None" if "planned_node (pa_operation a) = Some n" for n
    using that d fresh by (auto simp: planned_fresh_def frozen_as_def)
  moreover have "\<exists>!c. c \<in> set (plan_actions plan) \<and> planned_node (pa_operation c) = Some n
      \<and> (pa_id c, pa_id a) \<in> set (action_edges ?deps)"
    if n: "n \<in> set (input_nodes (pa_operation a))" "graph_node (cur_graph current) n = None" for n
  proof -
    obtain e where e: "e \<in> set ?draft" "planned_node (da_operation e) = Some n"
      "(da_id e, da_id d) \<in> set (action_edges ?deps)"
      using inputs [unfolded inputs_resolved_def, rule_format, of d n] n d by (auto simp: frozen_as_def)
    then obtain p where p: "p \<in> set (plan_actions plan)" "frozen_as (ao_contracts final) e p"
      using composed_frozen [OF c] by blast
    show ?thesis
    proof (rule ex1I [of _ p], goal_cases)
      case 1
      then show ?case using p e d by (simp add: frozen_as_def)
    next
      case (2 q)
      then obtain e' where e': "e' \<in> set ?draft" "frozen_as (ao_contracts final) e' q"
        using composed_drafted [OF c] by blast
      then have "planned_node (da_operation e') = Some n" using 2 by (simp add: frozen_as_def)
      then have "e' = e" using fresh e e'(1) by (auto simp: planned_fresh_def)
      then show ?case using composed_unique [OF c] 2 p e' by (simp add: frozen_as_def)
    qed
  qed
  ultimately show ?thesis by blast
qed

theorem composed_inputs_available_witness:
  "\<exists>a c. a \<in> set (plan_actions sample_plan) \<and> pa_operation a = sample_mount
     \<and> c \<in> set (plan_actions sample_plan) \<and> planned_node (pa_operation c) = Some (NodeId 4)
     \<and> (pa_id c, pa_id a) \<in> set (action_edges (plan_dependencies sample_plan))"
proof (rule sample_actions)
  fix a b
  assume ab: "plan_actions sample_plan = [a, b]" "pa_operation a = sample_mount"
  have "NodeId 4 \<in> set (input_nodes (pa_operation a))"
    using ab by (simp add: sample_mount_def input_nodes_def mount_source_node_def option_list_def)
  moreover have "graph_node (cur_graph sample_current) (NodeId 4) = None" by code_simp
  moreover have "a \<in> set (plan_actions sample_plan)" using ab by simp
  ultimately show ?thesis
    using composed_inputs_available [OF sample_composes(1), of a] ab by blast
qed

text \<open>
  C9. Nothing that was requested is lost or invented: a composed plan carries exactly the
  actions of its fragments, in their order and with fragment, local identifier and origin,
  and every dependency that a fragment declares between two of its actions is a dependency
  of the plan between the actions that stand for them.
\<close>

theorem composed_keeps_fragments:
  assumes "compose_plan_with_ordering current fragments order_edges capacity = Inr plan"
  shows "map planned_view (plan_actions plan) = requested_actions fragments
    \<and> (\<forall>(i, f) \<in> set (enumerate 0 fragments). \<forall>d \<in> set (pf_dependencies f).
        \<exists>b a. b \<in> set (plan_actions plan) \<and> a \<in> set (plan_actions plan)
          \<and> pa_fragment b = FragmentId (of_nat i) \<and> pa_local_id b = fd_before d
          \<and> pa_fragment a = FragmentId (of_nat i) \<and> pa_local_id a = fd_after d
          \<and> (pa_id b, pa_id a) \<in> set (action_edges (plan_dependencies plan)))"
proof (rule compose_result [OF assms])
  fix flat final
  assume flat: "flatten_fragments fragments = Inr flat"
    and edges: "set (action_edges (ff_dependencies flat)) \<subseteq> set (action_edges (plan_dependencies plan))"
    and c: "composed current capacity (ff_actions flat) final plan"
  show ?thesis
  proof (rule flatten_fragments_keeps [OF flat])
    fix ids
    assume ids: "ids_of_draft ids (ff_actions flat)"
      and linked: "\<forall>p \<in> set (enumerate 0 fragments). linked ids p (ff_dependencies flat)"
    have "map planned_view (plan_actions plan) = requested_actions fragments"
      using assms by (rule compose_view_aux)
    moreover have found: "\<exists>p \<in> set (plan_actions plan). pa_fragment p = FragmentId (of_nat i) \<and> pa_local_id p = l \<and> pa_id p = x"
      if k: "ids (i, l) = Some x" for i l x
    proof -
      obtain a where "a \<in> set (ff_actions flat)" "da_fragment a = FragmentId (of_nat i)" "da_local_id a = l" "da_id a = x"
        using ids [unfolded ids_of_draft_def, rule_format, OF k] by blast
      then show ?thesis using composed_frozen [OF c, of a] by (auto simp: frozen_as_def)
    qed
    moreover have "\<exists>b a. b \<in> set (plan_actions plan) \<and> a \<in> set (plan_actions plan)
          \<and> pa_fragment b = FragmentId (of_nat i) \<and> pa_local_id b = fd_before d
          \<and> pa_fragment a = FragmentId (of_nat i) \<and> pa_local_id a = fd_after d
          \<and> (pa_id b, pa_id a) \<in> set (action_edges (plan_dependencies plan))"
      if f: "(i, f) \<in> set (enumerate 0 fragments)" and d: "d \<in> set (pf_dependencies f)" for i f d
    proof -
      have "linked ids (i, f) (ff_dependencies flat)" using linked f by blast
      then obtain x y where "ids (i, fd_before d) = Some x" "ids (i, fd_after d) = Some y"
        "(x, y) \<in> set (action_edges (plan_dependencies plan))"
        using d edges unfolding linked_def fst_conv snd_conv by blast
      then show ?thesis using found by metis
    qed
    ultimately show ?thesis by auto
  qed
qed

theorem composed_keeps_fragments_witness:
  "map pa_operation (plan_actions sample_plan) = [sample_mount, sample_create]
   \<and> (\<exists>b a. b \<in> set (plan_actions sample_plan) \<and> a \<in> set (plan_actions sample_plan)
      \<and> pa_local_id b = LocalActionId 3 \<and> pa_local_id a = LocalActionId 7
      \<and> (pa_id b, pa_id a) \<in> set (action_edges (plan_dependencies sample_plan)))"
proof -
  have view: "map planned_view (plan_actions sample_plan) = requested_actions [sample_fragment]"
    using composed_keeps_fragments [OF sample_composes(1)] by blast
  have "map pa_operation (plan_actions sample_plan)
      = map (fst \<circ> snd \<circ> snd) (map planned_view (plan_actions sample_plan))"
    by (simp add: planned_view_def)
  also have "\<dots> = [sample_mount, sample_create]"
    unfolding view by (simp add: requested_actions_def fragment_view_def sample_fragment_def)
  finally show ?thesis
    using composed_keeps_fragments [OF sample_composes(1)] by (fastforce simp: sample_fragment_def)
qed

section \<open>Parts of the composer\<close>

text \<open>
  The stable topological sort of the composer returns an order exactly when the
  dependencies are acyclic; the order lists every action once, respects all direct and
  indirect dependencies, and the only error is the dependency cycle.
\<close>

theorem plan_topological_order_correct:
  assumes "deps_within (n, deps)"
  shows "(is_ok (topological_order n deps) \<longleftrightarrow> acyclic (set (action_edges deps)))
    \<and> (\<forall>xs. topological_order n deps = Inr xs \<longrightarrow> distinct xs \<and> set xs = action_set n
        \<and> keeps_order ((set (action_edges deps))\<^sup>+) xs)
    \<and> (\<forall>e. topological_order n deps = Inl e \<longrightarrow> e = Failed CompositionError.DependencyCycle)"
  using plan_sort.sort_ok_iff [of "(n, deps)"] plan_sort.sort_keeps_paths [of "(n, deps)"]
    plan_order_sound [OF assms] topological_order_error [OF assms] assms by auto

theorem plan_topological_order_correct_witness:
  "topological_order 2 [\<lparr>ad_before = ActionId 1, ad_after = ActionId 0, ad_reason = DependencyReason.RequestedOrder\<rparr>]
     = Inr [ActionId 1, ActionId 0]
   \<and> acyclic (set (action_edges
       [\<lparr>ad_before = ActionId 1, ad_after = ActionId 0, ad_reason = DependencyReason.RequestedOrder\<rparr>]))"
proof -
  let ?d = "[\<lparr>ad_before = ActionId 1, ad_after = ActionId 0, ad_reason = DependencyReason.RequestedOrder\<rparr>]"
  have "deps_within (2, ?d)" by (simp add: deps_within_def action_index_def)
  moreover have "topological_order 2 ?d = Inr [ActionId 1, ActionId 0]" by code_simp
  ultimately show ?thesis using plan_topological_order_correct [of 2 ?d] by (simp add: is_ok_iff)
qed

text \<open>
  The composer's path query answers reachability: it holds exactly when a non-empty chain
  of dependencies leads from the first action to the second, also on cyclic dependencies.
\<close>

theorem dependency_path_iff:
  "dependency_path a b deps \<longleftrightarrow> (a, b) \<in> (set (action_edges deps))\<^sup>+"
  by (rule dependency_path_iff_aux)

end
