(* ===== verification/Contract_Laws.thy ===== *)
theory Contract_Laws
  imports Contract_Describe
begin

text \<open>
  What every contract guarantees. The builders of \<^verbatim>\<open>contract.rs\<close> are observed through five
  functions (required conditions, written resources, and the three lists of effects); the
  equations of the collection \<open>contract_simps\<close> compute the observations of any contract, and
  the laws below follow by cases on the action.
\<close>

named_theorems contract_simps \<open>observations of contract builders\<close>

section \<open>Observations\<close>

definition reqs :: "ActionContract \<Rightarrow> ActionPrerequisite set" where
  "reqs c = set (ac_prerequisites c)"

definition writes :: "ActionContract \<Rightarrow> ActionResource set" where
  "writes c = {r. \<lparr>ra_resource = r, ra_mode = ResourceAccessMode.Write\<rparr> \<in> set (ac_affected_resources c)}"

definition gfx :: "ActionContract \<Rightarrow> GraphEffect list" where
  "gfx c = pe_graph (ac_predicted_effect c)"

definition mfx :: "ActionContract \<Rightarrow> MountEffect list" where
  "mfx c = pe_mounts (ac_predicted_effect c)"

definition afx :: "ActionContract \<Rightarrow> AllocationEffect list" where
  "afx c = pe_allocations (ac_predicted_effect c)"

lemmas observe_defs = reqs_def writes_def gfx_def mfx_def afx_def

lemma contract_new [contract_simps]:
  "reqs (contract p) = {}" "writes (contract p) = {}" "gfx (contract p) = []" "mfx (contract p) = []" "afx (contract p) = []"
  by (simp_all add: observe_defs contract_def)

lemma prerequire_obs [contract_simps]:
  "reqs (prerequire ps c) = reqs c \<union> set ps" "writes (prerequire ps c) = writes c"
  "gfx (prerequire ps c) = gfx c" "mfx (prerequire ps c) = mfx c" "afx (prerequire ps c) = afx c"
  by (auto simp: observe_defs prerequire_def)

lemma provide_obs [contract_simps]:
  "reqs (provide out c) = reqs c" "writes (provide out c) = writes c"
  "gfx (provide out c) = gfx c" "mfx (provide out c) = mfx c" "afx (provide out c) = afx c"
  by (auto simp: observe_defs provide_def)

lemma postcond_obs [contract_simps]:
  "reqs (postcond ps c) = reqs c" "writes (postcond ps c) = writes c"
  "gfx (postcond ps c) = gfx c" "mfx (postcond ps c) = mfx c" "afx (postcond ps c) = afx c"
  by (auto simp: observe_defs postcond_def)

lemma effects_obs [contract_simps]:
  "reqs (graph_effects es c) = reqs c" "writes (graph_effects es c) = writes c"
  "gfx (graph_effects es c) = gfx c @ es" "mfx (graph_effects es c) = mfx c" "afx (graph_effects es c) = afx c"
  "reqs (mount_effects ms c) = reqs c" "writes (mount_effects ms c) = writes c"
  "gfx (mount_effects ms c) = gfx c" "mfx (mount_effects ms c) = mfx c @ ms" "afx (mount_effects ms c) = afx c"
  "reqs (allocation_effects as c) = reqs c" "writes (allocation_effects as c) = writes c"
  "gfx (allocation_effects as c) = gfx c" "mfx (allocation_effects as c) = mfx c" "afx (allocation_effects as c) = afx c @ as"
  by (auto simp: observe_defs graph_effects_def mount_effects_def allocation_effects_def)

lemma access_obs [contract_simps]:
  "reqs (access r m c) = reqs c" "gfx (access r m c) = gfx c" "mfx (access r m c) = mfx c" "afx (access r m c) = afx c"
  "writes (access r m c) = (if m = ResourceAccessMode.Write then insert r (writes c) else writes c)"
  by (auto simp: observe_defs access_def)

lemma res_obs [contract_simps]:
  "reqs (read_res r c) = reqs c" "gfx (read_res r c) = gfx c" "mfx (read_res r c) = mfx c" "afx (read_res r c) = afx c"
  "writes (read_res r c) = writes c"
  "reqs (write_res r c) = reqs c" "gfx (write_res r c) = gfx c" "mfx (write_res r c) = mfx c" "afx (write_res r c) = afx c"
  "writes (write_res r c) = insert r (writes c)"
  by (simp_all add: read_res_def write_res_def access_obs)

lemma invalidate_obs [contract_simps]:
  "reqs (invalidate_scope s k c) = reqs c" "writes (invalidate_scope s k c) = writes c"
  "gfx (invalidate_scope s k c) = gfx c" "mfx (invalidate_scope s k c) = mfx c" "afx (invalidate_scope s k c) = afx c"
  by (auto simp: observe_defs invalidate_scope_def)

lemmas invalidate_defs [contract_simps] = invalidate_def invalidate_mount_def invalidate_persistent_mount_def

lemma build_simps [contract_simps]: "build c [] = c" "build c (f # fs) = build (f c) fs"
  by (simp_all add: build_def)

lemma step_simps [contract_simps]:
  "step_if True f c = f c" "step_if False f c = c" "step_some None g c = c" "step_some (Some x) g c = g x c"
  by (simp_all add: step_if_def step_some_def)

lemma require_kind_obs [contract_simps]:
  "reqs (require_kind n k c) = reqs c \<union> {ActionPrerequisite.NodeExists n, ActionPrerequisite.NodeKind n k}"
  "writes (require_kind n k c) = writes c" "gfx (require_kind n k c) = gfx c"
  "mfx (require_kind n k c) = mfx c" "afx (require_kind n k c) = afx c"
  by (simp_all add: require_kind_def prerequire_obs)

lemma insert_node_obs [contract_simps]:
  "reqs (insert_node n s c) = reqs c" "writes (insert_node n s c) = writes c"
  "gfx (insert_node n s c) = gfx c @ [GraphEffect.InsertNode n s]" "mfx (insert_node n s c) = mfx c" "afx (insert_node n s c) = afx c"
  by (simp_all add: insert_node_def contract_simps)

lemma add_dependency_obs [contract_simps]:
  "reqs (add_dependency d c) = reqs c" "writes (add_dependency d c) = writes c"
  "gfx (add_dependency d c) = gfx c @ [GraphEffect.InsertDependency d]" "mfx (add_dependency d c) = mfx c" "afx (add_dependency d c) = afx c"
  by (simp_all add: add_dependency_def contract_simps)

lemma insert_node_with_dependency_obs [contract_simps]:
  "reqs (insert_node_with_dependency n s d c) = reqs c" "writes (insert_node_with_dependency n s d c) = writes c"
  "gfx (insert_node_with_dependency n s d c) = gfx c @ [GraphEffect.InsertNode n s, GraphEffect.InsertDependency d]"
  "mfx (insert_node_with_dependency n s d c) = mfx c" "afx (insert_node_with_dependency n s d c) = afx c"
  by (simp_all add: insert_node_with_dependency_def contract_simps)

lemma sort_resources_obs [contract_simps]:
  "reqs (sort_resources c) = reqs c" "writes (sort_resources c) = writes c"
  "gfx (sort_resources c) = gfx c" "mfx (sort_resources c) = mfx c" "afx (sort_resources c) = afx c"
  by (simp_all add: observe_defs sort_resources_def)

text \<open>Loops over nodes and edges.\<close>

lemma for_each_simps [contract_simps]: "for_each [] f c = c" "for_each (x # xs) f c = for_each xs f (f x c)"
  by (simp_all add: for_each_def)

lemma for_each_keep:
  assumes "\<And>x c. obs (f x c) = obs c"
  shows "obs (for_each xs f c) = obs c"
  using assms by (induction xs arbitrary: c) (simp_all add: for_each_simps)

lemma for_each_union:
  assumes "\<And>x c. obs (f x c) = obs c \<union> h x"
  shows "obs (for_each xs f c) = obs c \<union> (\<Union>x \<in> set xs. h x)"
  using assms by (induction xs arbitrary: c) (auto simp: for_each_simps)

lemma for_each_append:
  assumes "\<And>x c. obs (f x c) = obs c @ h x"
  shows "obs (for_each xs f c) = obs c @ concat (map h xs)"
  using assms by (induction xs arbitrary: c) (auto simp: for_each_simps)

section \<open>Templates\<close>

lemma destructive_contract_obs [contract_simps]:
  "reqs (destructive_contract n p) = {ActionPrerequisite.NodeExists n, ActionPrerequisite.NodeKind n NodeKindClass.Block,
     ActionPrerequisite.Writable n, ActionPrerequisite.NoUnexpectedConsumers n, ActionPrerequisite.DestructiveApproval n}"
  "writes (destructive_contract n p) = {ActionResource.Node n}"
  "gfx (destructive_contract n p) = []" "mfx (destructive_contract n p) = []" "afx (destructive_contract n p) = []"
  by (simp_all add: destructive_contract_def contract_simps)

lemma resize_contract_obs [contract_simps]:
  "{ActionPrerequisite.NodeExists n, ActionPrerequisite.NodeKind n k} \<subseteq> reqs (resize_contract g n sz k safety)"
  "writes (resize_contract g n sz k safety) = {ActionResource.Node n}"
  "gfx (resize_contract g n sz k safety) = [GraphEffect.SetNodeSize n sz]"
  "mfx (resize_contract g n sz k safety) = []" "afx (resize_contract g n sz k safety) = []"
  by (auto simp: resize_contract_def contract_simps step_if_def)

lemma remove_node_contract_obs [contract_simps]:
  "reqs (remove_node_contract g n k b) = {ActionPrerequisite.NodeExists n, ActionPrerequisite.NodeKind n k}
     \<union> (if b then {ActionPrerequisite.NoUnexpectedConsumers n, ActionPrerequisite.NoUnexpectedRelations n} else {})"
  "writes (remove_node_contract g n k b) = {ActionResource.Node n}"
  "gfx (remove_node_contract g n k b) = GraphEffect.RemoveNode n # map GraphEffect.RemoveDependency (incident_dependencies g n)"
  "mfx (remove_node_contract g n k b) = []" "afx (remove_node_contract g n k b) = []"
proof -
  let ?f = "\<lambda>d c. postcond [Postcondition.DependencyAbsent d] (graph_effects [GraphEffect.RemoveDependency d] c)"
  have loop: "reqs (for_each ds ?f c) = reqs c" "writes (for_each ds ?f c) = writes c"
    "gfx (for_each ds ?f c) = gfx c @ map GraphEffect.RemoveDependency ds"
    "mfx (for_each ds ?f c) = mfx c" "afx (for_each ds ?f c) = afx c" for ds c
    by (simp_all add: contract_simps for_each_keep for_each_append [where h = "\<lambda>d. [GraphEffect.RemoveDependency d]"])
  show "reqs (remove_node_contract g n k b) = {ActionPrerequisite.NodeExists n, ActionPrerequisite.NodeKind n k}
     \<union> (if b then {ActionPrerequisite.NoUnexpectedConsumers n, ActionPrerequisite.NoUnexpectedRelations n} else {})"
    "writes (remove_node_contract g n k b) = {ActionResource.Node n}"
    "gfx (remove_node_contract g n k b) = GraphEffect.RemoveNode n # map GraphEffect.RemoveDependency (incident_dependencies g n)"
    "mfx (remove_node_contract g n k b) = []" "afx (remove_node_contract g n k b) = []"
    by (auto simp: remove_node_contract_def contract_simps loop step_if_def)
qed

lemma access_filesystem_backing_obs [contract_simps]:
  "gfx (access_filesystem_backing g fs m c) = gfx c" "mfx (access_filesystem_backing g fs m c) = mfx c"
  "afx (access_filesystem_backing g fs m c) = afx c"
  "reqs c \<subseteq> reqs (access_filesystem_backing g fs m c)" "writes c \<subseteq> writes (access_filesystem_backing g fs m c)"
proof -
  let ?f = "\<lambda>d c. build c [access (ActionResource.Node (dep_from d)) m,
        step_if (m = ResourceAccessMode.Write) (prerequire [ActionPrerequisite.Writable (dep_from d)])]"
  have loop: "gfx (for_each ds ?f c) = gfx c" "mfx (for_each ds ?f c) = mfx c" "afx (for_each ds ?f c) = afx c"
    "reqs (for_each ds ?f c) = reqs c \<union> (\<Union>d \<in> set ds. if m = ResourceAccessMode.Write then {ActionPrerequisite.Writable (dep_from d)} else {})"
    "writes (for_each ds ?f c) = writes c \<union> (\<Union>d \<in> set ds. if m = ResourceAccessMode.Write then {ActionResource.Node (dep_from d)} else {})"
    for ds c
    by (simp_all add: contract_simps step_if_def for_each_keep for_each_union
        [where h = "\<lambda>d. if m = ResourceAccessMode.Write then {ActionPrerequisite.Writable (dep_from d)} else {}"]
        for_each_union [where h = "\<lambda>d. if m = ResourceAccessMode.Write then {ActionResource.Node (dep_from d)} else {}"])
  show "gfx (access_filesystem_backing g fs m c) = gfx c" "mfx (access_filesystem_backing g fs m c) = mfx c"
    "afx (access_filesystem_backing g fs m c) = afx c"
    "reqs c \<subseteq> reqs (access_filesystem_backing g fs m c)" "writes c \<subseteq> writes (access_filesystem_backing g fs m c)"
    by (simp_all add: access_filesystem_backing_def loop)
qed

lemma inspection_contract_obs [contract_simps]:
  "gfx (inspection_contract g n) = []" "mfx (inspection_contract g n) = []" "afx (inspection_contract g n) = []"
  by (simp_all add: inspection_contract_def contract_simps)

lemma btrfs_membership_contract_obs [contract_simps]:
  "reqs (btrfs_membership_contract fs d) = {ActionPrerequisite.NodeExists fs, ActionPrerequisite.NodeKind fs NodeKindClass.BtrfsFilesystem,
     ActionPrerequisite.NodeExists d, ActionPrerequisite.NodeKind d NodeKindClass.Block}"
  "writes (btrfs_membership_contract fs d) = {ActionResource.Node fs, ActionResource.Node d}"
  "gfx (btrfs_membership_contract fs d) = []" "mfx (btrfs_membership_contract fs d) = []" "afx (btrfs_membership_contract fs d) = []"
  by (auto simp: btrfs_membership_contract_def contract_simps)

lemma step_some_keep:
  "(\<And>x c. obs (f x c) = obs c) \<Longrightarrow> obs (step_some v f c) = obs c"
  by (simp add: step_some_def split: option.splits)

lemma resize_lv_accounting_obs [contract_simps]:
  "gfx (resize_lv_accounting g lv vg sz c) = gfx c" "mfx (resize_lv_accounting g lv vg sz c) = mfx c"
  "writes (resize_lv_accounting g lv vg sz c) = writes c" "reqs c \<subseteq> reqs (resize_lv_accounting g lv vg sz c)"
  by (auto simp: resize_lv_accounting_def contract_simps Let_def split: option.splits)

section \<open>The final stages of a description\<close>

lemma add_output_resources_obs [contract_simps]:
  "reqs (add_output_resources c) = reqs c" "gfx (add_output_resources c) = gfx c" "mfx (add_output_resources c) = mfx c"
  "afx (add_output_resources c) = afx c"
  "writes (add_output_resources c) = writes c \<union> ActionResource.Node ` set (List.map_filter output_node (ac_provided_outputs c))"
proof -
  let ?f = "\<lambda>n c. if \<lparr>ra_resource = ActionResource.Node n, ra_mode = ResourceAccessMode.Write\<rparr> \<in> set (ac_affected_resources c)
     then c else write_res (ActionResource.Node n) c"
  have w: "writes (?f n c) = writes c \<union> {ActionResource.Node n}" for n c
    by (auto simp: contract_simps) (auto simp: writes_def)
  show "reqs (add_output_resources c) = reqs c" "gfx (add_output_resources c) = gfx c"
    "mfx (add_output_resources c) = mfx c" "afx (add_output_resources c) = afx c"
    unfolding add_output_resources_def by (rule for_each_keep, simp add: contract_simps)+
  show "writes (add_output_resources c) = writes c \<union> ActionResource.Node ` set (List.map_filter output_node (ac_provided_outputs c))"
    unfolding add_output_resources_def by (subst for_each_union [of writes, OF w]) auto
qed

lemma outputs_update_obs [contract_simps]:
  "reqs (c\<lparr>ac_provided_outputs := outs\<rparr>) = reqs c" "gfx (c\<lparr>ac_provided_outputs := outs\<rparr>) = gfx c"
  "mfx (c\<lparr>ac_provided_outputs := outs\<rparr>) = mfx c" "afx (c\<lparr>ac_provided_outputs := outs\<rparr>) = afx c"
  "writes (c\<lparr>ac_provided_outputs := outs\<rparr>) = writes c"
  by (simp_all add: observe_defs)

lemma describe_action_obs:
  "reqs (describe_action a g) = reqs (describe_technology a g)" "gfx (describe_action a g) = gfx (describe_technology a g)"
  "mfx (describe_action a g) = mfx (describe_technology a g)" "afx (describe_action a g) = afx (describe_technology a g)"
  "writes (describe_technology a g) \<subseteq> writes (describe_action a g)"
  by (auto simp: describe_action_def contract_simps step_if_def)

lemma in_map_filter: "y \<in> set (List.map_filter f xs) \<longleftrightarrow> (\<exists>x \<in> set xs. f x = Some y)"
  by (induction xs) (auto simp: List.map_filter_simps split: option.splits)

lemma describe_action_outputs:
  "ActionResource.Node ` set (List.map_filter output_node (outputs_from_effect (ac_predicted_effect (describe_technology a g))))
     \<subseteq> writes (describe_action a g)"
proof -
  have "ac_predicted_effect (step_if b (read_res r) c) = ac_predicted_effect c" for b r c
    by (simp add: step_if_def read_res_def access_def)
  then show ?thesis
    unfolding describe_action_def build_simps add_output_resources_obs(5)
    by (auto simp: image_iff in_map_filter)
qed

lemma inserted_written:
  assumes "GraphEffect.InsertNode n spec \<in> set (gfx (describe_action a g))"
  shows "ActionResource.Node n \<in> writes (describe_action a g)"
proof -
  have "ActionOutput.Node n spec \<in> set (outputs_from_effect (ac_predicted_effect (describe_technology a g)))"
    using assms unfolding describe_action_obs(2)
    by (auto simp: gfx_def outputs_from_effect_def in_map_filter graph_output_def
        intro!: bexI [of _ "GraphEffect.InsertNode n spec"])
  then have "n \<in> set (List.map_filter output_node (outputs_from_effect (ac_predicted_effect (describe_technology a g))))"
    by (auto simp: in_map_filter output_node_def intro!: bexI [of _ "ActionOutput.Node n spec"])
  then show ?thesis using describe_action_outputs by blast
qed

section \<open>Graph effects are justified by prerequisites\<close>

text \<open>
  The shapes that the graph effects of a contract can take, each with the prerequisites that
  make its application succeed.
\<close>

inductive justified :: "NodeGraph \<Rightarrow> ActionPrerequisite set \<Rightarrow> GraphEffect list \<Rightarrow> bool" where
  nothing: "justified g R []"
| creation: "(\<forall>d \<in> set ds. dep_to d = p \<and> ActionPrerequisite.NodeExists (dep_from d) \<in> R) \<Longrightarrow>
    justified g R (GraphEffect.InsertNode p spec # map GraphEffect.InsertDependency ds)"
| resizing: "ActionPrerequisite.NodeExists n \<in> R \<Longrightarrow> justified g R [GraphEffect.SetNodeSize n sz]"
| unsizing: "ActionPrerequisite.NodeExists n \<in> R \<Longrightarrow> justified g R [GraphEffect.InvalidateNodeSize n]"
| activating: "ActionPrerequisite.NodeExists n \<in> R \<Longrightarrow> justified g R [GraphEffect.SetActivation n active]"
| attributes: "ActionPrerequisite.NodeKind n NodeKindClass.Partition \<in> R \<Longrightarrow>
    justified g R [GraphEffect.SetPartitionAttributes n attrs]"
| labelling: "ActionPrerequisite.NodeKind n NodeKindClass.Filesystem \<in> R \<Longrightarrow>
    justified g R [GraphEffect.SetFilesystemLabel n label]"
| converting: "ActionPrerequisite.NodeKind n NodeKindClass.BtrfsFilesystem \<in> R \<Longrightarrow>
    justified g R [GraphEffect.SetBtrfsAllocation n allocation]"
| removing: "{ActionPrerequisite.NodeExists n, ActionPrerequisite.NoUnexpectedConsumers n,
      ActionPrerequisite.NoUnexpectedRelations n} \<subseteq> R \<Longrightarrow>
    justified g R (GraphEffect.RemoveNode n # map GraphEffect.RemoveDependency (incident_dependencies g n))"
| joining: "{ActionPrerequisite.NodeExists (dep_from d), ActionPrerequisite.NodeExists (dep_to d)} \<subseteq> R \<Longrightarrow>
    justified g R [GraphEffect.InsertDependency d]"
| leaving: "{ActionPrerequisite.NodeExists (dep_from d), ActionPrerequisite.NodeExists (dep_to d)} \<subseteq> R \<Longrightarrow>
    justified g R [GraphEffect.RemoveDependency d]"

lemma justified_mono: "justified g R es \<Longrightarrow> R \<subseteq> R' \<Longrightarrow> justified g R' es"
  by (induction rule: justified.induct) (auto intro: justified.intros)

lemma creation_one:
  "dep_to d = p \<Longrightarrow> ActionPrerequisite.NodeExists (dep_from d) \<in> R \<Longrightarrow>
     justified g R [GraphEffect.InsertNode p spec, GraphEffect.InsertDependency d]"
  using justified.creation [of "[d]"] by simp

lemma edge_ends [simp]: "dep_from (edge a b k) = a" "dep_to (edge a b k) = b" "dep_kind (edge a b k) = k"
  by (simp_all add: edge_def)

lemma creation_many:
  "(\<forall>x \<in> set xs. ActionPrerequisite.NodeExists x \<in> R) \<Longrightarrow>
     justified g R (GraphEffect.InsertNode p spec # map (\<lambda>x. GraphEffect.InsertDependency (edge x p k)) xs)"
  using justified.creation [of "map (\<lambda>x. edge x p k) xs"] by (simp add: comp_def)

lemma partition_justified: "justified g (reqs (describe_partition a g)) (gfx (describe_partition a g))"
proof -
  have "reqs (describe_partition a g) = reqs (describe_partition_part a g)"
    "gfx (describe_partition a g) = gfx (describe_partition_part a g)"
    by (auto simp: describe_partition_def step_some_def contract_simps split: option.splits)
  moreover have "justified g (reqs (describe_partition_part a g)) (gfx (describe_partition_part a g))"
  proof (cases a)
    case (Resize n sz)
    then show ?thesis using resize_contract_obs(1) [of n NodeKindClass.Partition g sz]
      by (auto simp: describe_partition_part_def contract_simps intro: justified.resizing)
  qed (auto simp: describe_partition_part_def contract_simps step_some_def Let_def split: option.splits
      intro!: creation_one justified.removing justified.attributes)
  ultimately show ?thesis by simp
qed

lemma luks_justified: "justified g (reqs (describe_luks a g)) (gfx (describe_luks a g))"
proof (cases a)
  case (Resize n sz)
  then show ?thesis
    using resize_contract_obs(1) [of n NodeKindClass.DmCryptMapping g]
    by (cases sz) (auto simp: describe_luks_def contract_simps intro: justified.resizing justified.unsizing)
qed (auto simp: describe_luks_def contract_simps step_if_def intro!: creation_one justified.removing)

lemma lvm_justified: "justified g (reqs (describe_lvm a g)) (gfx (describe_lvm a g))"
proof (cases a)
  case (CreateVg planned name pvs)
  let ?f = "\<lambda>pv c. write_res (ActionResource.Node pv) (require_kind pv NodeKindClass.LvmPv c)"
  let ?h = "\<lambda>pv c. invalidate_scope (FactScope.Node pv) FactKind.Topology
    (add_dependency (edge pv planned (DependencyKind.MemberOf MemberRole.LvmPv)) c)"
  let ?R = "\<Union>pv \<in> set pvs. {ActionPrerequisite.NodeExists pv, ActionPrerequisite.NodeKind pv NodeKindClass.LvmPv}"
  have f: "reqs (for_each pvs ?f c) = reqs c \<union> ?R" "gfx (for_each pvs ?f c) = gfx c" for c
    by (rule for_each_union, simp add: contract_simps) (rule for_each_keep, simp add: contract_simps)
  have h: "reqs (for_each pvs ?h c) = reqs c"
    "gfx (for_each pvs ?h c) = gfx c @ map (\<lambda>pv. GraphEffect.InsertDependency (edge pv planned (DependencyKind.MemberOf MemberRole.LvmPv))) pvs" for c
    by (rule for_each_keep, simp add: contract_simps)
      (simp add: contract_simps for_each_append [where h = "\<lambda>pv. [GraphEffect.InsertDependency (edge pv planned (DependencyKind.MemberOf MemberRole.LvmPv))]"])
  have "gfx (describe_lvm a g) = GraphEffect.InsertNode planned (node_spec (NodeKind.LvmVg name None) None)
      # map (\<lambda>pv. GraphEffect.InsertDependency (edge pv planned (DependencyKind.MemberOf MemberRole.LvmPv))) pvs"
    "?R \<subseteq> reqs (describe_lvm a g)"
    using CreateVg by (simp_all add: describe_lvm_def contract_simps h f) blast
  then show ?thesis by (auto intro!: creation_many)
next
  case (ResizeLv lv sz)
  have "gfx (describe_lvm a g) = [GraphEffect.SetNodeSize lv sz]"
    using ResizeLv by (simp add: describe_lvm_def contract_simps step_some_def split: option.splits)
  moreover have "ActionPrerequisite.NodeExists lv \<in> reqs (describe_lvm a g)"
    using ResizeLv resize_contract_obs(1) [of lv NodeKindClass.LvmLv g sz]
    by (auto simp: describe_lvm_def contract_simps step_some_def split: option.splits
        intro!: subsetD [OF resize_lv_accounting_obs(4)])
  ultimately show ?thesis by (simp add: justified.resizing)
qed (auto simp: describe_lvm_def contract_simps step_some_def step_if_def Let_def split: option.splits
    intro!: creation_one justified.removing justified.activating)

lemma filesystem_justified: "justified g (reqs (describe_filesystem a g)) (gfx (describe_filesystem a g))"
proof (cases a)
  case (Resize n sz)
  have "gfx (describe_filesystem a g) = [GraphEffect.SetNodeSize n sz]"
    using Resize by (simp add: describe_filesystem_def contract_simps step_if_def Let_def)
  moreover have "ActionPrerequisite.NodeExists n \<in> reqs (describe_filesystem a g)"
    using Resize resize_contract_obs(1) [of n NodeKindClass.Filesystem g sz]
    by (auto simp: describe_filesystem_def build_simps Let_def step_if_def
        intro!: subsetD [OF access_filesystem_backing_obs(4)]) (auto simp: contract_simps)
  ultimately show ?thesis by (simp add: justified.resizing)
next
  case (SetLabel fs label)
  have "ActionPrerequisite.NodeKind fs NodeKindClass.Filesystem \<in> reqs (access_filesystem_backing g fs ResourceAccessMode.Write
      (write_res (ActionResource.Node fs) (require_kind fs NodeKindClass.Filesystem (contract RestartPolicy.ReprobeThenRetry))))"
    by (rule subsetD [OF access_filesystem_backing_obs(4)]) (simp add: contract_simps)
  then show ?thesis using SetLabel
    by (auto simp: describe_filesystem_def contract_simps intro!: justified.labelling)
qed (auto simp: describe_filesystem_def contract_simps step_if_def intro!: creation_one justified.nothing)

lemma btrfs_justified: "justified g (reqs (describe_btrfs a g)) (gfx (describe_btrfs a g))"
proof (cases a)
  case (Create members planned label allocation)
  let ?P = "\<lambda>m. {ActionPrerequisite.NodeExists m, ActionPrerequisite.NodeKind m NodeKindClass.Block, ActionPrerequisite.Writable m,
              ActionPrerequisite.NoUnexpectedConsumers m, ActionPrerequisite.DestructiveApproval m}"
  let ?f = "\<lambda>m c. invalidate_scope (FactScope.Node m) FactKind.Content (write_res (ActionResource.Node m)
    (prerequire [ActionPrerequisite.NodeExists m,
              ActionPrerequisite.NodeKind m NodeKindClass.Block, ActionPrerequisite.Writable m,
              ActionPrerequisite.NoUnexpectedConsumers m, ActionPrerequisite.DestructiveApproval m] c))"
  have f: "reqs (for_each members ?f c) = reqs c \<union> (\<Union>m \<in> set members. ?P m)" "gfx (for_each members ?f c) = gfx c" for c
    by (rule for_each_union, simp add: contract_simps) (rule for_each_keep, simp add: contract_simps)
  have h: "reqs (for_each members (\<lambda>m. add_dependency (edge m planned new_btrfs_member)) c) = reqs c"
    "gfx (for_each members (\<lambda>m. add_dependency (edge m planned new_btrfs_member)) c) = gfx c
      @ map (\<lambda>m. GraphEffect.InsertDependency (edge m planned new_btrfs_member)) members" for c
    by (rule for_each_keep, simp add: contract_simps)
      (simp add: contract_simps for_each_append [where h = "\<lambda>m. [GraphEffect.InsertDependency (edge m planned new_btrfs_member)]"])
  have "gfx (describe_btrfs a g) = GraphEffect.InsertNode planned
      (node_spec (NodeKind.Filesystem (FilesystemKind.Btrfs allocation) label) None)
      # map (\<lambda>m. GraphEffect.InsertDependency (edge m planned new_btrfs_member)) members"
    "(\<Union>m \<in> set members. ?P m) \<subseteq> reqs (describe_btrfs a g)"
    using Create by (simp_all add: describe_btrfs_def contract_simps h f) blast
  then show ?thesis by (auto intro!: creation_many)
next
  case (RemoveDevice fs device)
  let ?d = "or_default (find (\<lambda>d. dep_from d = device \<and> dep_to d = fs \<and> is_btrfs_member (dep_kind d))
      (g_dependencies g)) (edge device fs new_btrfs_member)"
  have "dep_from ?d = device" "dep_to ?d = fs"
    by (auto simp: or_default_def find_Some_iff split: option.splits)
  then show ?thesis using RemoveDevice
    by (auto simp: describe_btrfs_def contract_simps Let_def intro!: justified.leaving)
qed (auto simp: describe_btrfs_def contract_simps intro!: creation_one justified.joining justified.converting)

lemma mount_no_graph: "gfx (describe_mount a g) = []"
proof -
  have "gfx (for_each ns (\<lambda>n. read_res (ActionResource.Node n)) c) = gfx c" for ns c
    by (rule for_each_keep) (simp add: contract_simps)
  then show ?thesis
    by (cases a) (auto simp: describe_mount_def contract_simps step_some_def split: option.splits)
qed

lemma describe_justified: "justified g (reqs (describe_action a g)) (gfx (describe_action a g))"
  unfolding describe_action_obs
  by (cases a) (auto simp: describe_technology_def mount_no_graph partition_justified luks_justified
      lvm_justified filesystem_justified btrfs_justified intro: justified.nothing)

section \<open>Mount and allocation effects are justified by prerequisites\<close>

definition mount_justified :: "ActionContract \<Rightarrow> MountEffect \<Rightarrow> bool" where
  "mount_justified c e = (case e of
      MountEffect.AddRuntime _ target _ ctx \<Rightarrow>
        {ActionPrerequisite.MountTargetAvailable target ctx, ActionPrerequisite.MountDescendantsAbsent target ctx} \<subseteq> reqs c
        \<and> {ActionResource.MountTarget target ctx, ActionResource.RuntimeMountState} \<subseteq> writes c
    | MountEffect.RemoveRuntime target ctx \<Rightarrow>
        ActionPrerequisite.MountDescendantsAbsent target ctx \<in> reqs c
        \<and> {ActionResource.MountTarget target ctx, ActionResource.RuntimeMountState} \<subseteq> writes c
    | MountEffect.SetPersistent entry \<Rightarrow> ActionResource.PersistentMountConfig (me_context entry) \<in> writes c
    | MountEffect.RemovePersistent _ ctx \<Rightarrow> ActionResource.PersistentMountConfig ctx \<in> writes c)"

lemma mount_reads [contract_simps]:
  "reqs (for_each ns (\<lambda>n. read_res (ActionResource.Node n)) c) = reqs c"
  "writes (for_each ns (\<lambda>n. read_res (ActionResource.Node n)) c) = writes c"
  "mfx (for_each ns (\<lambda>n. read_res (ActionResource.Node n)) c) = mfx c"
  "afx (for_each ns (\<lambda>n. read_res (ActionResource.Node n)) c) = afx c"
  by (rule for_each_keep, simp add: contract_simps)+

lemma describe_mount_effects:
  "length (mfx (describe_mount a g)) = 1 \<and> (\<forall>e \<in> set (mfx (describe_mount a g)). mount_justified (describe_mount a g) e)"
  by (cases a) (auto simp: describe_mount_def contract_simps step_some_def mount_justified_def split: option.splits)

lemma other_technologies_no_mounts:
  "mfx (describe_partition p g) = []" "mfx (describe_luks l g) = []" "mfx (describe_lvm v g) = []"
  "mfx (describe_filesystem f g) = []" "mfx (describe_btrfs b g) = []"
proof -
  show "mfx (describe_partition p g) = []"
    by (cases p) (auto simp: describe_partition_def describe_partition_part_def step_some_def contract_simps Let_def
        split: option.splits)
  show "mfx (describe_luks l g) = []"
    by (cases l) (auto simp: describe_luks_def contract_simps step_if_def split: option.splits)
  have "mfx (for_each pvs (\<lambda>pv c. write_res (ActionResource.Node pv) (require_kind pv NodeKindClass.LvmPv c)) c) = mfx c"
    "mfx (for_each pvs (\<lambda>pv c. invalidate_scope (FactScope.Node pv) FactKind.Topology
       (add_dependency (edge pv planned (DependencyKind.MemberOf MemberRole.LvmPv)) c)) c) = mfx c" for pvs planned c
    by (rule for_each_keep, simp add: contract_simps)+
  then show "mfx (describe_lvm v g) = []"
    by (cases v) (auto simp: describe_lvm_def contract_simps step_if_def step_some_def Let_def split: option.splits)
  show "mfx (describe_filesystem f g) = []"
    by (cases f) (auto simp: describe_filesystem_def contract_simps step_if_def Let_def)
  have "mfx (for_each ms (\<lambda>m c. invalidate_scope (FactScope.Node m) FactKind.Content (write_res (ActionResource.Node m)
      (prerequire (h m) c))) c) = mfx c"
    "mfx (for_each ms (\<lambda>m. add_dependency (edge m planned new_btrfs_member)) c) = mfx c" for ms planned c and h :: "NodeId \<Rightarrow> ActionPrerequisite list"
    by (rule for_each_keep, simp add: contract_simps)+
  then show "mfx (describe_btrfs b g) = []"
    by (cases b) (auto simp: describe_btrfs_def contract_simps Let_def)
qed

lemma mount_justified_mono:
  "mount_justified c e \<Longrightarrow> reqs c \<subseteq> reqs c' \<Longrightarrow> writes c \<subseteq> writes c' \<Longrightarrow> mount_justified c' e"
  by (cases e) (auto simp: mount_justified_def)

lemma describe_mount_justified:
  assumes "e \<in> set (mfx (describe_action a g))"
  shows "mount_justified (describe_action a g) e"
proof -
  have "mount_justified (describe_technology a g) e"
    using assms describe_mount_effects unfolding describe_action_obs(3)
    by (cases a) (auto simp: describe_technology_def other_technologies_no_mounts)
  then show ?thesis
    using describe_action_obs [of a g] by (auto elim: mount_justified_mono)
qed

lemma describe_one_mount_effect: "length (mfx (describe_action a g)) \<le> 1"
  using describe_mount_effects
  by (cases a) (auto simp: describe_action_obs(3) describe_technology_def other_technologies_no_mounts)

definition allocation_justified :: "ActionContract \<Rightarrow> bool" where
  "allocation_justified c \<longleftrightarrow> length (afx c) \<le> 1 \<and> (\<forall>domain amount. AllocationEffect.Reserve domain amount \<in> set (afx c)
     \<longrightarrow> ActionPrerequisite.CapacityAvailable domain (Some amount) \<in> reqs c)"

lemma allocation_justified_none: "afx c = [] \<Longrightarrow> allocation_justified c"
  by (simp add: allocation_justified_def)

lemma lvm_allocation_justified: "allocation_justified (describe_lvm a g)"
proof (cases a)
  case (CreateVg planned name pvs)
  have "afx (for_each pvs (\<lambda>pv c. write_res (ActionResource.Node pv) (require_kind pv NodeKindClass.LvmPv c)) c) = afx c"
    "afx (for_each pvs (\<lambda>pv c. invalidate_scope (FactScope.Node pv) FactKind.Topology
       (add_dependency (edge pv planned (DependencyKind.MemberOf MemberRole.LvmPv)) c)) c) = afx c" for c
    by (rule for_each_keep, simp add: contract_simps)+
  then show ?thesis using CreateVg by (auto simp: describe_lvm_def contract_simps intro!: allocation_justified_none)
qed (auto simp: describe_lvm_def contract_simps step_if_def step_some_def Let_def allocation_justified_def
    resize_lv_accounting_def split: option.splits)

lemma other_technologies_no_allocations:
  "afx (describe_partition p g) = []" "afx (describe_luks l g) = []" "afx (describe_mount m g) = []"
  "afx (describe_filesystem f g) = []" "afx (describe_btrfs b g) = []"
proof -
  show "afx (describe_partition p g) = []"
    by (cases p) (auto simp: describe_partition_def describe_partition_part_def step_some_def contract_simps Let_def
        split: option.splits)
  show "afx (describe_luks l g) = []"
    by (cases l) (auto simp: describe_luks_def contract_simps step_if_def split: option.splits)
  show "afx (describe_mount m g) = []"
    by (cases m) (auto simp: describe_mount_def contract_simps step_some_def split: option.splits)
  show "afx (describe_filesystem f g) = []"
    by (cases f) (auto simp: describe_filesystem_def contract_simps step_if_def Let_def)
  have "afx (for_each ms (\<lambda>m c. invalidate_scope (FactScope.Node m) FactKind.Content (write_res (ActionResource.Node m)
      (prerequire (h m) c))) c) = afx c"
    "afx (for_each ms (\<lambda>m. add_dependency (edge m planned new_btrfs_member)) c) = afx c" for ms planned c and h :: "NodeId \<Rightarrow> ActionPrerequisite list"
    by (rule for_each_keep, simp add: contract_simps)+
  then show "afx (describe_btrfs b g) = []"
    by (cases b) (auto simp: describe_btrfs_def contract_simps Let_def)
qed

lemma describe_allocation_justified: "allocation_justified (describe_action a g)"
proof -
  have "allocation_justified (describe_technology a g)"
    by (cases a) (auto simp: describe_technology_def lvm_allocation_justified
        intro!: allocation_justified_none other_technologies_no_allocations)
  then show ?thesis by (simp add: allocation_justified_def describe_action_obs)
qed

section \<open>Destruction needs approval, shrinking needs a check\<close>

text \<open>The nodes whose content an action destroys.\<close>

definition destroys :: "ProviderAction \<Rightarrow> NodeId set" where
  "destroys action = (case action of
      ProviderAction.Partition (PartitionAction.CreateTable disk _ _) \<Rightarrow> {disk}
    | ProviderAction.Partition (PartitionAction.Delete part) \<Rightarrow> {part}
    | ProviderAction.Luks (LuksAction.Format target _ _ _) \<Rightarrow> {target}
    | ProviderAction.Lvm (LvmAction.CreatePv backing _) \<Rightarrow> {backing}
    | ProviderAction.Lvm (LvmAction.RemoveLv lv) \<Rightarrow> {lv}
    | ProviderAction.Filesystem (FilesystemAction.Create backing _ _ _) \<Rightarrow> {backing}
    | ProviderAction.Btrfs (BtrfsAction.Create members _ _ _) \<Rightarrow> set members
    | _ \<Rightarrow> {})"

lemma destroys_unused:
  assumes "n \<in> destroys a"
  shows "{ActionPrerequisite.NodeExists n, ActionPrerequisite.NoUnexpectedConsumers n, ActionPrerequisite.DestructiveApproval n}
    \<subseteq> reqs (describe_action a g)"
proof -
  have btrfs: "reqs (for_each ms (\<lambda>m c. invalidate_scope (FactScope.Node m) FactKind.Content (write_res (ActionResource.Node m)
      (prerequire (h m) c))) c) = reqs c \<union> (\<Union>m \<in> set ms. set (h m))"
    "reqs (for_each ms (\<lambda>m. add_dependency (edge m planned new_btrfs_member)) c) = reqs c"
    for ms planned c and h :: "NodeId \<Rightarrow> ActionPrerequisite list"
    by (rule for_each_union, simp add: contract_simps) (rule for_each_keep, simp add: contract_simps)
  show ?thesis
    using assms unfolding describe_action_obs(1)
    by (auto simp: destroys_def describe_technology_def describe_partition_def describe_partition_part_def describe_luks_def
        describe_lvm_def describe_filesystem_def describe_btrfs_def existing_partition_def contract_simps btrfs step_some_def Let_def
        split: ProviderAction.splits PartitionAction.splits LuksAction.splits LvmAction.splits FilesystemAction.splits
          BtrfsAction.splits option.splits)
qed

lemma shrink_prepared:
  assumes "is_none_or (known_size g fs) (\<lambda>current. current > sz)"
  shows "{ActionPrerequisite.FilesystemUnmounted fs, ActionPrerequisite.FilesystemCheckPassed fs,
      ActionPrerequisite.FilesystemMinimumSize fs sz}
    \<subseteq> reqs (describe_action (ProviderAction.Filesystem (FilesystemAction.Resize fs sz)) g)"
proof -
  let ?c = "prerequire [ActionPrerequisite.FilesystemCheckPassed fs, ActionPrerequisite.FilesystemMinimumSize fs sz]
    (read_res ActionResource.RuntimeMountState (prerequire [ActionPrerequisite.FilesystemUnmounted fs]
      (resize_contract g fs sz NodeKindClass.Filesystem \<lparr>rs_dependents = False, rs_backing = True\<rparr>)))"
  have "describe_technology (ProviderAction.Filesystem (FilesystemAction.Resize fs sz)) g
      = access_filesystem_backing g fs ResourceAccessMode.Write ?c"
    using assms by (simp add: describe_technology_def describe_filesystem_def build_simps step_if_def Let_def)
  then have "reqs ?c \<subseteq> reqs (describe_action (ProviderAction.Filesystem (FilesystemAction.Resize fs sz)) g)"
    by (simp add: describe_action_obs(1) access_filesystem_backing_obs(4))
  moreover have "{ActionPrerequisite.FilesystemUnmounted fs, ActionPrerequisite.FilesystemCheckPassed fs,
      ActionPrerequisite.FilesystemMinimumSize fs sz} \<subseteq> reqs ?c"
    by (auto simp: contract_simps)
  ultimately show ?thesis by blast
qed

end
