(* ===== verification/Simulation_Correct.thy ===== *)
theory Simulation_Correct
  imports Plan_Replay Contract_Laws
begin

text \<open>
  The simulation of one action (\<^verbatim>\<open>simulate_action\<close>): the invariant of the simulated state, the
  part of the state an action leaves alone, the expansion of invalidated facts, and the exact
  accounting of allocation domains.
\<close>

section \<open>The invariant of the simulated state\<close>

definition mount_key :: "MountEntry \<Rightarrow> PathBuf \<times> MountContext" where
  "mount_key m = (me_target m, me_context m)"

text \<open>
  Observed runtime mounts may be stacked on one target, so their uniqueness is a property of
  its own; the persistent entries of a projection are unique from the start.
\<close>

definition runtime_unique :: "DesiredState \<Rightarrow> bool" where
  "runtime_unique des \<longleftrightarrow> distinct (map mount_key (msp_runtime (des_mounts des)))"

definition mounts_inv :: "DesiredState \<Rightarrow> bool" where
  "mounts_inv des \<longleftrightarrow> distinct (map mount_key (msp_persistent (des_mounts des)))"

text \<open>Nodes that are marked as projected exist, and each is marked once.\<close>

definition projected_ok :: "NodeGraph \<Rightarrow> SimulationEvidence \<Rightarrow> bool" where
  "projected_ok g ev \<longleftrightarrow> distinct (ev_projected_graph_nodes ev) \<and> set (ev_projected_graph_nodes ev) \<subseteq> node_ids g"

text \<open>A persistent entry of the projection was determined by an effect.\<close>

definition determined_ok :: "DesiredState \<Rightarrow> SimulationEvidence \<Rightarrow> bool" where
  "determined_ok des ev \<longleftrightarrow>
     (\<forall>m \<in> set (msp_persistent (des_mounts des)). mount_key m \<in> set (ev_projected_persistent_targets ev))"

definition work_inv :: "SimState \<Rightarrow> bool" where
  "work_inv s \<longleftrightarrow> graph_inv (des_graph (fst s)) \<and> mounts_inv (fst s)
     \<and> projected_ok (des_graph (fst s)) (snd s) \<and> determined_ok (fst s) (snd s)"

definition sim_inv :: "SimState \<Rightarrow> bool" where
  "sim_inv s \<longleftrightarrow> work_inv s \<and> valid_structure (des_graph (fst s))"

lemma with_graph_simps [simp]:
  "des_graph (with_graph g des) = g" "des_mounts (with_graph g des) = des_mounts des"
  by (simp_all add: with_graph_def)

lemma mounts_inv_with_graph [simp]: "mounts_inv (with_graph g des) = mounts_inv des"
  by (simp add: mounts_inv_def)

lemma determined_ok_with_graph [simp]: "determined_ok (with_graph g des) ev = determined_ok des ev"
  by (simp add: determined_ok_def)

lemma node_ids_lookup: "node_ids g = {n. graph_node g n \<noteq> None}"
  by (auto simp: graph_node_None)

lemma edge_mutations_nodes [simp]:
  "node_ids (snd (insert_dependency g e)) = node_ids g" "node_ids (snd (remove_dependency g e)) = node_ids g"
  "node_ids (snd (insert_relation g r)) = node_ids g" "node_ids (snd (remove_relation g r)) = node_ids g"
  by (auto simp: node_ids_def insert_dependency_def remove_dependency_def insert_relation_def remove_relation_def)

text \<open>An update of one node, seen through lookups.\<close>

lemma update_node_Inr:
  assumes "update_node (des, ev) nid effect upd = Inr s'" and "graph_inv (des_graph des)"
  obtains n n' g ev' where "s' = (with_graph g des, ev')" and "graph_node (des_graph des) nid = Some n"
    and "upd n = Some n'" and "graph_inv g" and "graph_node g = (graph_node (des_graph des))(nid \<mapsto> n')"
    and "g_dependencies g = g_dependencies (des_graph des)" and "g_relations g = g_relations (des_graph des)"
    and "ev' = (if nid \<in> set (ev_projected_graph_nodes ev) then ev
           else ev\<lparr>ev_projected_graph_nodes := ev_projected_graph_nodes ev @ [nid]\<rparr>)"
proof -
  from assms(1) obtain n n' old g where u: "graph_node (des_graph des) nid = Some n" "upd n = Some n'"
    "replace_existing (des_graph des) nid n' = Inr (old, g)"
    "s' = (with_graph g des, if nid \<in> set (ev_projected_graph_nodes ev) then ev
       else ev\<lparr>ev_projected_graph_nodes := ev_projected_graph_nodes ev @ [nid]\<rparr>)"
    by (auto simp: update_node_def and_then_Inr_iff ok_or_Inr_iff map_err_Inr_iff)
  moreover have "g_dependencies g = g_dependencies (des_graph des)" "g_relations g = g_relations (des_graph des)"
    using u(3) by (auto simp: replace_existing_def split: option.splits)
  ultimately show thesis
    using that node_table.replace_Inr [OF assms(2) u(3)] by blast
qed

lemma update_node_work_inv:
  assumes "update_node s nid effect upd = Inr s'" and "work_inv s"
  shows "work_inv s'"
proof -
  obtain des ev where s: "s = (des, ev)" by (cases s)
  show ?thesis
  proof (rule update_node_Inr [OF assms(1) [unfolded s]])
    show "graph_inv (des_graph des)" using assms(2) s by (simp add: work_inv_def)
  next
    fix n n' g ev'
    assume "s' = (with_graph g des, ev')" "graph_node (des_graph des) nid = Some n" "graph_inv g"
      "graph_node g = (graph_node (des_graph des))(nid \<mapsto> n')"
      "ev' = (if nid \<in> set (ev_projected_graph_nodes ev) then ev
           else ev\<lparr>ev_projected_graph_nodes := ev_projected_graph_nodes ev @ [nid]\<rparr>)"
    then show "work_inv s'"
      using assms(2) s by (auto simp: work_inv_def projected_ok_def determined_ok_def node_ids_lookup)
  qed
qed

lemma work_inv_with_graph:
  "work_inv (des, ev) \<Longrightarrow> graph_inv g \<Longrightarrow> node_ids g = node_ids (des_graph des) \<Longrightarrow> work_inv (with_graph g des, ev)"
  by (simp add: work_inv_def projected_ok_def)

lemma work_inv_evidence:
  "work_inv (des, ev) \<Longrightarrow> ev_projected_graph_nodes ev' = ev_projected_graph_nodes ev \<Longrightarrow>
     ev_projected_persistent_targets ev' = ev_projected_persistent_targets ev \<Longrightarrow> work_inv (des, ev')"
  by (simp add: work_inv_def projected_ok_def determined_ok_def)

lemma apply_graph_effect_work_inv:
  assumes "apply_graph_effect s effect = Inr s'" and "work_inv s"
  shows "work_inv s'"
proof -
  obtain des ev where s: "s = (des, ev)" by (cases s)
  let ?g = "des_graph des"
  have g: "graph_inv ?g" using assms(2) s by (simp add: work_inv_def)
  note inv = edge_mutations_inv [OF g]
  show ?thesis
  proof (cases effect)
    case (InsertNode nid spec)
    then obtain g' where "graph_node ?g nid = None" and i: "insert_new ?g nid \<lparr>node_kind = spec, node_size = default_facts\<rparr> = Inr g'"
      and s': "s' = (with_graph g' des, ev\<lparr>ev_projected_graph_nodes := ev_projected_graph_nodes ev @ [nid]\<rparr>)"
      using assms(1) s by (auto simp: apply_graph_effect_def and_then_Inr_iff map_err_Inr_iff split: if_splits)
    then show ?thesis
      using assms(2) s node_table.add_Inr [OF g i]
      by (auto simp: work_inv_def projected_ok_def determined_ok_def node_ids_lookup)
  next
    case (RemoveNode nid)
    then obtain old g' where r: "remove_node ?g nid = (Some old, g')"
      and s': "s' = (with_graph g' des, ev\<lparr>ev_projected_graph_nodes := filter (\<lambda>c. c \<noteq> nid) (ev_projected_graph_nodes ev),
               ev_activations := (ev_activations ev)(nid := None),
               ev_block_interfaces := (ev_block_interfaces ev)(nid := None)\<rparr>)"
      using assms(1) s by (auto simp: apply_graph_effect_def split: if_splits prod.splits)
    then show ?thesis
      using assms(2) s node_table.remove_law [OF g r]
      by (auto simp: work_inv_def projected_ok_def determined_ok_def node_ids_lookup)
  next
    case (SetActivation nid active)
    then show ?thesis using assms s
      by (auto simp: apply_graph_effect_def split: if_splits elim: work_inv_evidence)
  next
    case (InsertDependency d)
    then show ?thesis using assms s work_inv_with_graph [OF _ inv(1)] by (auto simp: apply_graph_effect_def)
  next
    case (RemoveDependency d)
    then have "s' = (with_graph (snd (remove_dependency ?g d)) des, ev)"
      using assms(1) s by (auto simp: apply_graph_effect_def split: prod.splits if_splits)
    then show ?thesis using assms(2) s work_inv_with_graph [OF _ inv(2)] by simp
  next
    case (InsertRelation r)
    then show ?thesis using assms s work_inv_with_graph [OF _ inv(3)] by (auto simp: apply_graph_effect_def)
  next
    case (RemoveRelation r)
    then have "s' = (with_graph (snd (remove_relation ?g r)) des, ev)"
      using assms(1) s by (auto simp: apply_graph_effect_def split: prod.splits if_splits)
    then show ?thesis using assms(2) s work_inv_with_graph [OF _ inv(4)] by simp
  qed (use assms in \<open>simp_all add: apply_graph_effect_def s, (elim update_node_work_inv, simp add: s)+\<close>)
qed

lemma distinct_drop_entry: "distinct (map mount_key ms) \<Longrightarrow> distinct (map mount_key (drop_entry target ctx ms))"
  by (simp add: drop_entry_def distinct_map_filter)

lemma mark_persistent_target_simps [simp]:
  "ev_projected_graph_nodes (mark_persistent_target t c ev) = ev_projected_graph_nodes ev"
  "set (ev_projected_persistent_targets (mark_persistent_target t c ev))
     = insert (t, c) (set (ev_projected_persistent_targets ev))"
  by (auto simp: mark_persistent_target_def persistent_mount_was_projected_def list_ex_iff)

lemma apply_mount_effect_work_inv:
  assumes "apply_mount_effect s effect = Inr s'" and "work_inv s"
  shows "work_inv s'"
proof -
  obtain des ev where s: "s = (des, ev)" by (cases s)
  have inv: "graph_inv (des_graph des)" "projected_ok (des_graph des) ev" "mounts_inv des" "determined_ok des ev"
    using assms(2) s by (auto simp: work_inv_def)
  note defs = apply_mount_effect_def work_inv_def projected_ok_def determined_ok_def mounts_inv_def
    with_runtime_def with_persistent_def mount_key_def
  show ?thesis
  proof (cases effect)
    case (AddRuntime source target options ctx)
    then have "\<forall>m \<in> set (msp_runtime (des_mounts des)). mount_key m \<noteq> (target, ctx)"
      using assms(1) s by (auto simp: apply_mount_effect_def mount_at_def find_None_iff mount_key_def split: if_splits)
    then show ?thesis using AddRuntime assms(1) s inv by (auto simp: defs split: if_splits)
  next
    case (RemoveRuntime target ctx)
    then show ?thesis using assms(1) s inv distinct_drop_entry [of "msp_runtime (des_mounts des)" target ctx]
      by (auto simp: defs split: if_splits)
  next
    case (SetPersistent entry)
    then show ?thesis
      using assms(1) s inv distinct_drop_entry [of "msp_persistent (des_mounts des)" "me_target entry" "me_context entry"]
      by (auto simp: defs drop_entry_def)
  next
    case (RemovePersistent target ctx)
    then show ?thesis using assms(1) s inv distinct_drop_entry [of "msp_persistent (des_mounts des)" target ctx]
      by (auto simp: defs drop_entry_def)
  qed
qed

lemma record_invalidation_fields [simp]:
  "ev_projected_graph_nodes (record_invalidation f ev) = ev_projected_graph_nodes ev"
  "ev_projected_persistent_targets (record_invalidation f ev) = ev_projected_persistent_targets ev"
  by (simp_all add: record_invalidation_def Let_def split: option.splits)

lemma record_invalidations_fields [simp]:
  "ev_projected_graph_nodes (fold record_invalidation fs ev) = ev_projected_graph_nodes ev"
  "ev_projected_persistent_targets (fold record_invalidation fs ev) = ev_projected_persistent_targets ev"
  by (induction fs arbitrary: ev) simp_all

lemma apply_outputs_fields [simp]:
  "ev_projected_graph_nodes (apply_outputs outs ev) = ev_projected_graph_nodes ev"
  "ev_projected_persistent_targets (apply_outputs outs ev) = ev_projected_persistent_targets ev"
  unfolding apply_outputs_def
  by (induction outs arbitrary: ev) (simp_all add: apply_output_def split: ActionOutput.splits)

lemma apply_allocation_effects_fields:
  assumes "apply_allocation_effects ev es = Inr ev'"
  shows "ev_projected_graph_nodes ev' = ev_projected_graph_nodes ev
    \<and> ev_projected_persistent_targets ev' = ev_projected_persistent_targets ev"
proof (rule try_fold_invariant [OF assms [unfolded apply_allocation_effects_def]])
  fix s e s'
  assume "ev_projected_graph_nodes s = ev_projected_graph_nodes ev
    \<and> ev_projected_persistent_targets s = ev_projected_persistent_targets ev"
    "apply_allocation_effect s e = Inr s'"
  then show "ev_projected_graph_nodes s' = ev_projected_graph_nodes ev
    \<and> ev_projected_persistent_targets s' = ev_projected_persistent_targets ev"
    by (auto simp: apply_allocation_effect_def split: AllocationEffect.splits option.splits)
qed simp

text \<open>The stages of a successful effect.\<close>

lemma apply_effect_Inr:
  assumes "apply_effect_with_invalidations (des, ev) effect facts = Inr (expanded, s')"
  obtains s1 des2 ev3 ev4 where "expanded = expand_invalidations (des_graph des) facts"
    and "apply_graph_effects (des, invalidate_filesystem_checks (des_graph des) facts
           (snd (invalidate_observations (des_graph des) facts ev))) (pe_graph effect) = Inr s1"
    and "apply_mount_effects s1 (pe_mounts effect) = Inr (des2, ev3)"
    and "apply_allocation_effects ev3 (pe_allocations effect) = Inr ev4"
    and "validate_structure (des_graph des2) = Inr ()" and "s' = (des2, ev4)"
  using assms that
  by (auto simp: apply_effect_with_invalidations_def invalidate_observations_def Let_def and_then_Inr_iff map_err_Inr_iff)

lemma simulate_action_Inr:
  assumes "simulate_action (des, ev) action = Inr (result, s')"
  obtains des' ev' where "sa_contract result = describe_action action (des_graph des)"
    and "\<forall>p \<in> set (ac_prerequisites (sa_contract result)). \<not> is_violated (evaluate_prerequisite des ev p)"
    and "apply_effect_with_invalidations (des, ev) (ac_predicted_effect (sa_contract result))
      (ac_invalidated_facts (sa_contract result)) = Inr (sa_invalidated_facts result, (des', ev'))"
    and "s' = (des', apply_outputs (ac_provided_outputs (sa_contract result)) ev')"
  using assms that
  by (auto simp: simulate_action_def Let_def and_then_Inr_iff map_err_Inr_iff list_ex_iff evaluate_prerequisites_def
      split: if_splits)

lemma simulate_action_sim_inv:
  assumes "simulate_action s action = Inr (result, s')" and "sim_inv s"
  shows "sim_inv s'"
proof -
  obtain des ev where s: "s = (des, ev)" by (cases s)
  show ?thesis
  proof (rule simulate_action_Inr [OF assms(1) [unfolded s]])
    fix des' ev'
    assume e: "apply_effect_with_invalidations (des, ev) (ac_predicted_effect (sa_contract result))
      (ac_invalidated_facts (sa_contract result)) = Inr (sa_invalidated_facts result, (des', ev'))"
      and s': "s' = (des', apply_outputs (ac_provided_outputs (sa_contract result)) ev')"
    show ?thesis
    proof (rule apply_effect_Inr [OF e])
      fix s1 des2 ev3 ev4
      let ?ev = "invalidate_filesystem_checks (des_graph des) (ac_invalidated_facts (sa_contract result))
           (snd (invalidate_observations (des_graph des) (ac_invalidated_facts (sa_contract result)) ev))"
      assume graph: "apply_graph_effects (des, ?ev) (pe_graph (ac_predicted_effect (sa_contract result))) = Inr s1"
        and mounts: "apply_mount_effects s1 (pe_mounts (ac_predicted_effect (sa_contract result))) = Inr (des2, ev3)"
        and alloc: "apply_allocation_effects ev3 (pe_allocations (ac_predicted_effect (sa_contract result))) = Inr ev4"
        and valid: "validate_structure (des_graph des2) = Inr ()" and d: "(des', ev') = (des2, ev4)"
      have "work_inv (des, ?ev)"
        using assms(2) s by (auto simp: sim_inv_def invalidate_filesystem_checks_def invalidate_observations_def
            Let_def elim: work_inv_evidence)
      then have "work_inv s1"
        using try_fold_invariant [OF graph [unfolded apply_graph_effects_def], of work_inv]
          apply_graph_effect_work_inv by blast
      then have inv: "work_inv (des2, ev3)"
        using try_fold_invariant [OF mounts [unfolded apply_mount_effects_def], of work_inv]
          apply_mount_effect_work_inv by blast
      then have "work_inv s'"
        using s' d apply_allocation_effects_fields [OF alloc] by (auto elim: work_inv_evidence)
      moreover have "valid_structure (des_graph des2)"
        using valid inv validate_structure_valid_aux by (simp add: work_inv_def)
      ultimately show ?thesis using s' d by (simp add: sim_inv_def)
    qed
  qed
qed

end
