(* ===== verification/Simulation_Frame.thy ===== *)
theory Simulation_Frame
  imports Simulation_Correct
begin

text \<open>
  What an action leaves alone. The interface \<open>framed_steps\<close> states the contract of a
  transition function with a protection check: a step that does not touch an aspect keeps it.
  The simulator is its interpretation, with the nodes and mounts of a protected scope as
  aspects, so a plan without protection violations leaves the whole scope as it was.
\<close>

section \<open>The interface\<close>

locale framed_steps =
  fixes inv :: "'s \<Rightarrow> bool"
    and step :: "'s \<Rightarrow> 'a \<Rightarrow> ('e, 'r \<times> 's) result"
    and touches :: "'r \<Rightarrow> 'k \<Rightarrow> bool"
    and view :: "'k \<Rightarrow> 's \<Rightarrow> 'v"
  assumes step_inv: "inv s \<Longrightarrow> step s a = Inr (r, s') \<Longrightarrow> inv s'"
    and step_view: "inv s \<Longrightarrow> step s a = Inr (r, s') \<Longrightarrow> \<not> touches r k \<Longrightarrow> view k s' = view k s"
begin

text \<open>The results of a sequence of steps and the state they end in.\<close>

fun run :: "'s \<Rightarrow> 'a list \<Rightarrow> ('e, 'r list \<times> 's) result" where
  "run s [] = Inr ([], s)"
| "run s (a # as) = (case step s a of Inl e \<Rightarrow> Inl e
     | Inr (r, s') \<Rightarrow> (case run s' as of Inl e \<Rightarrow> Inl e | Inr (rs, t) \<Rightarrow> Inr (r # rs, t)))"

lemma run_keeps:
  assumes "run s as = Inr (rs, t)" and "inv s"
  shows "inv t \<and> (\<forall>k. (\<forall>r \<in> set rs. \<not> touches r k) \<longrightarrow> view k t = view k s)"
  using assms
proof (induction as arbitrary: s rs)
  case Nil
  then show ?case by simp
next
  case (Cons a as)
  from Cons.prems(1) obtain r s' rs' where r: "step s a = Inr (r, s')" "run s' as = Inr (rs', t)" "rs = r # rs'"
    by (auto split: sum.splits prod.splits)
  from Cons.IH [OF r(2) step_inv [OF Cons.prems(2) r(1)]] step_view [OF Cons.prems(2) r(1)] r(3)
  show ?case by auto
qed

end

section \<open>Effects on one aspect\<close>

definition incident :: "NodeId \<Rightarrow> Dependency \<Rightarrow> bool" where
  "incident n d \<longleftrightarrow> dep_from d = n \<or> dep_to d = n"

definition incident_rel :: "NodeId \<Rightarrow> Relation \<Rightarrow> bool" where
  "incident_rel n r \<longleftrightarrow> rel_from r = n \<or> rel_to r = n"

text \<open>A node with its properties, and the edges it is part of.\<close>

definition node_view :: "NodeId \<Rightarrow> NodeGraph \<Rightarrow> Node option \<times> Dependency list \<times> Relation list" where
  "node_view n g = (graph_node g n, filter (incident n) (g_dependencies g), filter (incident_rel n) (g_relations g))"

text \<open>The runtime mounts at, above and below a target.\<close>

definition near :: "ProtectedMount \<Rightarrow> PathBuf \<Rightarrow> MountContext \<Rightarrow> bool" where
  "near m target ctx \<longleftrightarrow> ctx = pm_context m \<and> (starts_with target (pm_target m) \<or> starts_with (pm_target m) target)"

definition runtime_view :: "ProtectedMount \<Rightarrow> MountSpec \<Rightarrow> MountEntry list" where
  "runtime_view m ms = filter (\<lambda>e. near m (me_target e) (me_context e)) (msp_runtime ms)"

definition persistent_view :: "ProtectedMount \<Rightarrow> MountSpec \<Rightarrow> MountEntry list" where
  "persistent_view m ms = filter (\<lambda>e. me_context e = pm_context m) (msp_persistent ms)"

lemma filter_others: "\<not> P e \<Longrightarrow> filter P (filter (\<lambda>x. x \<noteq> e) xs) = filter P xs"
  by (induction xs) auto

lemma graph_effect_view:
  assumes "apply_graph_effect s effect = Inr s'" and "work_inv s" and "\<not> graph_effect_touches effect n"
  shows "node_view n (des_graph (fst s')) = node_view n (des_graph (fst s))"
proof -
  obtain des ev where s: "s = (des, ev)" by (cases s)
  let ?g = "des_graph des"
  have g: "graph_inv ?g" using assms(2) s by (simp add: work_inv_def)
  have upd: "node_view n (des_graph (fst s')) = node_view n ?g"
    if "update_node (des, ev) m name f = Inr s'" "m \<noteq> n" for m name f
    by (rule update_node_Inr [OF that(1) g]) (use that(2) in \<open>simp add: node_view_def\<close>)
  show ?thesis
  proof (cases effect)
    case (InsertNode nid spec)
    then obtain g' where i: "insert_new ?g nid \<lparr>node_kind = spec, node_size = default_facts\<rparr> = Inr g'"
      and "des_graph (fst s') = g'"
      using assms(1) s by (auto simp: apply_graph_effect_def and_then_Inr_iff map_err_Inr_iff split: if_splits)
    then show ?thesis
      using assms(3) s InsertNode node_table.add_Inr [OF g i]
      by (auto simp: node_view_def graph_effect_touches_def insert_new_def split: option.splits)
  next
    case (RemoveNode nid)
    then obtain old g' where r: "remove_node ?g nid = (old, g')" and "des_graph (fst s') = g'"
      using assms(1) s by (auto simp: apply_graph_effect_def split: if_splits prod.splits)
    then show ?thesis
      using assms(3) s RemoveNode node_table.remove_law [OF g r]
      by (auto simp: node_view_def graph_effect_touches_def remove_node_def)
  next
    case (InsertDependency d)
    then show ?thesis using assms s
      by (auto simp: apply_graph_effect_def graph_effect_touches_def node_view_def graph_node_def incident_def insert_dependency_def)
  next
    case (RemoveDependency d)
    then show ?thesis using assms s filter_others [of "incident n" d]
      by (auto simp: apply_graph_effect_def graph_effect_touches_def node_view_def graph_node_def incident_def
          remove_dependency_def split: if_splits)
  next
    case (InsertRelation r)
    then show ?thesis using assms s
      by (auto simp: apply_graph_effect_def graph_effect_touches_def node_view_def graph_node_def incident_rel_def insert_relation_def)
  next
    case (RemoveRelation r)
    then show ?thesis using assms s filter_others [of "incident_rel n" r]
      by (auto simp: apply_graph_effect_def graph_effect_touches_def node_view_def graph_node_def incident_rel_def
          remove_relation_def split: if_splits)
  qed (use assms s upd in \<open>auto simp: apply_graph_effect_def graph_effect_touches_def split: if_splits\<close>)
qed

lemma graph_effects_view:
  assumes "apply_graph_effects s es = Inr s'" and "work_inv s" and "\<not> list_ex (\<lambda>e. graph_effect_touches e n) es"
  shows "node_view n (des_graph (fst s')) = node_view n (des_graph (fst s)) \<and> work_inv s'"
proof (rule try_fold_invariant [OF assms(1) [unfolded apply_graph_effects_def],
      where P = "\<lambda>t. node_view n (des_graph (fst t)) = node_view n (des_graph (fst s)) \<and> work_inv t"])
  show "node_view n (des_graph (fst s)) = node_view n (des_graph (fst s)) \<and> work_inv s" using assms(2) by simp
next
  fix t e t'
  assume "e \<in> set es" "node_view n (des_graph (fst t)) = node_view n (des_graph (fst s)) \<and> work_inv t"
    "apply_graph_effect t e = Inr t'"
  moreover from this have "\<not> graph_effect_touches e n" using assms(3) by (auto simp: list_ex_iff)
  ultimately show "node_view n (des_graph (fst t')) = node_view n (des_graph (fst s)) \<and> work_inv t'"
    using graph_effect_view apply_graph_effect_work_inv by metis
qed

lemma update_node_mounts: "update_node s m name f = Inr s' \<Longrightarrow> des_mounts (fst s') = des_mounts (fst s)"
  by (auto simp: update_node_def and_then_Inr_iff split: prod.splits)

lemma apply_graph_effect_mounts:
  assumes "apply_graph_effect s e = Inr s'"
  shows "des_mounts (fst s') = des_mounts (fst s)"
  using assms update_node_mounts [of s]
  by (cases e) (auto simp: apply_graph_effect_def and_then_Inr_iff split: prod.splits if_splits)

lemma graph_effects_mounts:
  assumes "apply_graph_effects s es = Inr s'"
  shows "des_mounts (fst s') = des_mounts (fst s)"
  by (rule try_fold_invariant [OF assms [unfolded apply_graph_effects_def],
        where P = "\<lambda>t. des_mounts (fst t) = des_mounts (fst s)"]) (auto dest: apply_graph_effect_mounts)

lemma apply_mount_effect_graph:
  "apply_mount_effect s e = Inr s' \<Longrightarrow> des_graph (fst s') = des_graph (fst s)"
  by (auto simp: apply_mount_effect_def with_runtime_def with_persistent_def split: prod.splits MountEffect.splits if_splits)

lemma mount_effects_graph:
  assumes "apply_mount_effects s es = Inr s'"
  shows "des_graph (fst s') = des_graph (fst s)"
  by (rule try_fold_invariant [OF assms [unfolded apply_mount_effects_def],
        where P = "\<lambda>t. des_graph (fst t) = des_graph (fst s)"]) (auto dest: apply_mount_effect_graph)

lemma drop_entry_view:
  "\<not> near m target ctx \<Longrightarrow> filter (\<lambda>e. near m (me_target e) (me_context e)) (drop_entry target ctx es)
     = filter (\<lambda>e. near m (me_target e) (me_context e)) es"
  unfolding drop_entry_def by (induction es) auto

lemma runtime_effects_view:
  assumes "apply_mount_effects s es = Inr s'" and "\<not> list_ex (\<lambda>e. runtime_effect_touches e m) es"
  shows "runtime_view m (des_mounts (fst s')) = runtime_view m (des_mounts (fst s))"
proof (rule try_fold_invariant [OF assms(1) [unfolded apply_mount_effects_def],
      where P = "\<lambda>t. runtime_view m (des_mounts (fst t)) = runtime_view m (des_mounts (fst s))"])
  fix t e t'
  assume "e \<in> set es" "runtime_view m (des_mounts (fst t)) = runtime_view m (des_mounts (fst s))"
    and step: "apply_mount_effect t e = Inr t'"
  moreover from this have "\<not> runtime_effect_touches e m" using assms(2) by (auto simp: list_ex_iff)
  then have "runtime_view m (des_mounts (fst t')) = runtime_view m (des_mounts (fst t))"
    using step by (cases e) (auto simp: apply_mount_effect_def runtime_effect_touches_def runtime_view_def with_runtime_def
        with_persistent_def drop_entry_view near_def [symmetric] split: prod.splits if_splits)
  ultimately show "runtime_view m (des_mounts (fst t')) = runtime_view m (des_mounts (fst s))" by simp
qed simp

definition persistent_effect_touches :: "MountEffect \<Rightarrow> ProtectedMount \<Rightarrow> bool" where
  "persistent_effect_touches e m = (case e of
      MountEffect.SetPersistent entry \<Rightarrow> me_context entry = pm_context m
    | MountEffect.RemovePersistent _ ctx \<Rightarrow> ctx = pm_context m
    | _ \<Rightarrow> False)"

lemma drop_entry_persistent_view:
  "ctx \<noteq> pm_context m \<Longrightarrow> filter (\<lambda>e. me_context e = pm_context m) (drop_entry target ctx es)
     = filter (\<lambda>e. me_context e = pm_context m) es"
  unfolding drop_entry_def by (induction es) auto

lemma persistent_effects_view:
  assumes "apply_mount_effects s es = Inr s'" and "\<not> list_ex (\<lambda>e. persistent_effect_touches e m) es"
  shows "persistent_view m (des_mounts (fst s')) = persistent_view m (des_mounts (fst s))"
proof (rule try_fold_invariant [OF assms(1) [unfolded apply_mount_effects_def],
      where P = "\<lambda>t. persistent_view m (des_mounts (fst t)) = persistent_view m (des_mounts (fst s))"])
  fix t e t'
  assume "e \<in> set es" "persistent_view m (des_mounts (fst t)) = persistent_view m (des_mounts (fst s))"
    and step: "apply_mount_effect t e = Inr t'"
  moreover from this have "\<not> persistent_effect_touches e m" using assms(2) by (auto simp: list_ex_iff)
  then have "persistent_view m (des_mounts (fst t')) = persistent_view m (des_mounts (fst t))"
    using step by (cases e) (auto simp: apply_mount_effect_def persistent_effect_touches_def persistent_view_def with_runtime_def
        with_persistent_def drop_entry_persistent_view split: prod.splits if_splits)
  ultimately show "persistent_view m (des_mounts (fst t')) = persistent_view m (des_mounts (fst s))" by simp
qed simp

lemma apply_mount_effect_runtime_unique:
  assumes "apply_mount_effect s e = Inr s'" and "runtime_unique (fst s)"
  shows "runtime_unique (fst s')"
proof -
  obtain des ev where s: "s = (des, ev)" by (cases s)
  show ?thesis
  proof (cases e)
    case (AddRuntime source target options ctx)
    then have "\<forall>m \<in> set (msp_runtime (des_mounts des)). mount_key m \<noteq> (target, ctx)"
      using assms(1) s by (auto simp: apply_mount_effect_def mount_at_def find_None_iff mount_key_def split: if_splits)
    then show ?thesis using AddRuntime assms s
      by (auto simp: apply_mount_effect_def runtime_unique_def with_runtime_def mount_key_def split: if_splits)
  qed (use assms s distinct_drop_entry in \<open>auto simp: apply_mount_effect_def runtime_unique_def with_runtime_def
      with_persistent_def split: if_splits\<close>)
qed

lemma simulate_action_runtime_unique:
  assumes "simulate_action s action = Inr (result, s')" and "runtime_unique (fst s)"
  shows "runtime_unique (fst s')"
proof -
  obtain des ev where s: "s = (des, ev)" by (cases s)
  show ?thesis
  proof (rule simulate_action_Inr [OF assms(1) [unfolded s]], erule apply_effect_Inr)
    fix des' ev' s1 des2 ev3 ev4
    assume "s' = (des', apply_outputs (ac_provided_outputs (sa_contract result)) ev')" "(des', ev') = (des2, ev4)"
      and g: "apply_graph_effects (des, invalidate_filesystem_checks (des_graph des) (ac_invalidated_facts (sa_contract result))
        (snd (invalidate_observations (des_graph des) (ac_invalidated_facts (sa_contract result)) ev)))
        (pe_graph (ac_predicted_effect (sa_contract result))) = Inr s1"
      and m: "apply_mount_effects s1 (pe_mounts (ac_predicted_effect (sa_contract result))) = Inr (des2, ev3)"
    moreover have "runtime_unique (fst s1)"
      using graph_effects_mounts [OF g] assms(2) s by (simp add: runtime_unique_def)
    then have "runtime_unique (fst (des2, ev3))"
      by (rule try_fold_invariant [OF m [unfolded apply_mount_effects_def], where P = "\<lambda>t. runtime_unique (fst t)"])
        (rule apply_mount_effect_runtime_unique)
    ultimately show ?thesis by simp
  qed
qed

section \<open>The simulator as an interpretation\<close>

definition aspect_touched :: "SimulatedAction \<Rightarrow> ProtectedAspect \<Rightarrow> bool" where
  "aspect_touched r k = (case k of
      ProtectedAspect.Node n \<Rightarrow> touches_node (sa_contract r) (sa_invalidated_facts r) n
    | ProtectedAspect.RuntimeMount m \<Rightarrow> list_ex (\<lambda>e. runtime_effect_touches e m) (pe_mounts (ac_predicted_effect (sa_contract r)))
    | ProtectedAspect.PersistentMount m \<Rightarrow> touches_persistent (sa_contract r) m)"

definition aspect_view :: "ProtectedAspect \<Rightarrow> SimState \<Rightarrow>
  (Node option \<times> Dependency list \<times> Relation list) option \<times> MountEntry list" where
  "aspect_view k s = (case k of
      ProtectedAspect.Node n \<Rightarrow> (Some (node_view n (des_graph (fst s))), [])
    | ProtectedAspect.RuntimeMount m \<Rightarrow> (None, runtime_view m (des_mounts (fst s)))
    | ProtectedAspect.PersistentMount m \<Rightarrow> (None, persistent_view m (des_mounts (fst s))))"

lemma persistent_touches_written:
  assumes "list_ex (\<lambda>e. persistent_effect_touches e m) (mfx (describe_action a g))"
  shows "touches_persistent (describe_action a g) m"
proof -
  obtain e where e: "e \<in> set (mfx (describe_action a g))" "persistent_effect_touches e m"
    using assms by (auto simp: list_ex_iff)
  then have "ActionResource.PersistentMountConfig (pm_context m) \<in> writes (describe_action a g)"
    using describe_mount_justified [OF e(1)] 
    by (auto simp: mount_justified_def persistent_effect_touches_def split: MountEffect.splits)
  then show ?thesis by (force simp: touches_persistent_def writes_def list_ex_iff)
qed

lemma simulate_action_view:
  assumes "simulate_action s action = Inr (result, s')" and "sim_inv s" and "\<not> aspect_touched result k"
  shows "aspect_view k s' = aspect_view k s"
proof -
  obtain des ev where s: "s = (des, ev)" by (cases s)
  show ?thesis
  proof (rule simulate_action_Inr [OF assms(1) [unfolded s]], erule apply_effect_Inr)
    fix des' ev' s1 des2 ev3 ev4
    let ?c = "sa_contract result"
    let ?ev = "invalidate_filesystem_checks (des_graph des) (ac_invalidated_facts ?c)
        (snd (invalidate_observations (des_graph des) (ac_invalidated_facts ?c) ev))"
    assume c: "?c = describe_action action (des_graph des)"
      and s': "s' = (des', apply_outputs (ac_provided_outputs ?c) ev')" "(des', ev') = (des2, ev4)"
      and g: "apply_graph_effects (des, ?ev) (pe_graph (ac_predicted_effect ?c)) = Inr s1"
      and m: "apply_mount_effects s1 (pe_mounts (ac_predicted_effect ?c)) = Inr (des2, ev3)"
    have "work_inv (des, ?ev)"
      using assms(2) s by (auto simp: sim_inv_def invalidate_filesystem_checks_def invalidate_observations_def
          Let_def elim: work_inv_evidence)
    note graph = graph_effects_view [OF g this] and mounts = graph_effects_mounts [OF g] mount_effects_graph [OF m]
    show ?thesis
    proof (cases k)
      case (Node n)
      then show ?thesis
        using assms(3) s s' graph mounts by (auto simp: aspect_view_def aspect_touched_def touches_node_def)
    next
      case (RuntimeMount p)
      then show ?thesis
        using assms(3) s s' runtime_effects_view [OF m] mounts by (simp add: aspect_view_def aspect_touched_def)
    next
      case (PersistentMount p)
      then have "\<not> list_ex (\<lambda>e. persistent_effect_touches e p) (pe_mounts (ac_predicted_effect ?c))"
        using assms(3) persistent_touches_written unfolding c aspect_touched_def mfx_def by auto
      then show ?thesis
        using PersistentMount s s' persistent_effects_view [OF m] mounts by (simp add: aspect_view_def)
    qed
  qed
qed

interpretation simulator: framed_steps sim_inv simulate_action aspect_touched aspect_view
  by unfold_locales (auto intro: simulate_action_sim_inv simulate_action_view)

end
