(* ===== verification/Goal_Correct.thy ===== *)
theory Goal_Correct
  imports Simulation_Frame Compose_Properties
begin

text \<open>
  Composition for a goal (\<^verbatim>\<open>compose_plan_for_goal_with_policy\<close>): the projection of an accepted
  plan is a valid configuration with the requested topology and mounts, and leaves every
  aspect of the protected scope as it was.
\<close>

section \<open>Replay as a run of the simulator\<close>

definition step_of :: "PlannedAction \<Rightarrow> SimulatedAction \<Rightarrow> SimulatedStep" where
  "step_of a r = \<lparr>ss_action = pa_id a, ss_checks = sa_checks r, ss_invalidated_facts = sa_invalidated_facts r\<rparr>"

definition trusted_of :: "PlannedAction \<Rightarrow> SimulatedAction \<Rightarrow> PlannedAction" where
  "trusted_of a r = a\<lparr>pa_informational_contract := sa_contract r\<rparr>"

lemma replay_run:
  assumes "try_fold (replay_step keys) (st, trusted, steps) as = Inr (st', trusted', steps')"
  shows "\<exists>rs. simulator.run st (map pa_operation as) = Inr (rs, st') \<and> length rs = length as
    \<and> steps' = steps @ map2 step_of as rs \<and> trusted' = trusted @ map2 trusted_of as rs"
  using assms
proof (induction as arbitrary: st trusted steps)
  case Nil
  then show ?case by simp
next
  case (Cons a as)
  from Cons.prems obtain r st1 where r: "simulate_action st (pa_operation a) = Inr (r, st1)"
    and rest: "try_fold (replay_step keys) (st1, trusted @ [trusted_of a r], steps @ [step_of a r]) as = Inr (st', trusted', steps')"
    by (auto simp: replay_step_def [of keys _ a] and_then_Inr_iff map_err_Inr_iff step_of_def trusted_of_def
        split: sum.splits prod.splits)
  from Cons.IH [OF rest] obtain rs where "simulator.run st1 (map pa_operation as) = Inr (rs, st')" "length rs = length as"
    "steps' = (steps @ [step_of a r]) @ map2 step_of as rs" "trusted' = (trusted @ [trusted_of a r]) @ map2 trusted_of as rs"
    by blast
  then show ?case using r by (intro exI [of _ "r # rs"]) simp
qed

lemma replay_plan_run:
  assumes "replay_plan keys current plan capacity = Inr (plan', simulation)"
  obtains ev ordered rs ev' where "validate_structure (cur_graph current) = Inr ()"
    and "evidence_new capacity = Inr ev" and "ordered_actions plan = Some ordered"
    and "simulator.run (from_current current, ev) (map pa_operation ordered) = Inr (rs, (sr_desired simulation, ev'))"
    and "length rs = length ordered" and "sr_steps simulation = map2 step_of ordered rs"
    and "sr_evidence simulation = evidence_summary ev'"
    and "plan_actions plan' = sort_key pa_id (map2 trusted_of ordered rs)"
proof -
  from assms obtain ev ordered des' ev' trusted steps where
    r: "validate_structure (cur_graph current) = Inr ()" "evidence_new capacity = Inr ev" "ordered_actions plan = Some ordered"
    "try_fold (replay_step keys) ((from_current current, ev), [], []) ordered = Inr ((des', ev'), trusted, steps)"
    "plan_actions plan' = sort_key pa_id trusted"
    "simulation = \<lparr>sr_desired = des', sr_evidence = evidence_summary ev', sr_steps = steps\<rparr>"
    by (auto simp: replay_plan_def and_then_Inr_iff map_err_Inr_iff ok_or_Inr_iff split: prod.splits)
  from replay_run [OF r(4)] obtain rs where
    "simulator.run (from_current current, ev) (map pa_operation ordered) = Inr (rs, (des', ev'))"
    "length rs = length ordered" "steps = map2 step_of ordered rs" "trusted = map2 trusted_of ordered rs" by auto
  then show thesis using that r by simp
qed

section \<open>The initial state\<close>

lemma evidence_new_fields:
  assumes "evidence_new capacity = Inr ev"
  shows "ev_projected_graph_nodes ev = [] \<and> ev_projected_persistent_targets ev = []
    \<and> ev_checked_filesystems ev = {} \<and> ev_invalidated_facts ev = []"
  by (rule try_fold_invariant [OF assms [unfolded evidence_new_def], where P = "\<lambda>ev. ev_projected_graph_nodes ev = []
        \<and> ev_projected_persistent_targets ev = [] \<and> ev_checked_filesystems ev = {} \<and> ev_invalidated_facts ev = []"])
    (auto simp: default_evidence_def split: if_splits)

lemma from_current_fields [simp]:
  "des_graph (from_current current) = cur_graph current" "msp_persistent (des_mounts (from_current current)) = []"
  "msp_runtime (des_mounts (from_current current)) = map entry_of_observed (ms_entries (cur_mounts current))"
  by (simp_all add: from_current_def)

lemma initial_sim_inv:
  assumes "validate_structure (cur_graph current) = Inr ()" and "evidence_new capacity = Inr ev" and "graph_inv (cur_graph current)"
  shows "sim_inv (from_current current, ev)"
  using assms evidence_new_fields [OF assms(2)] validate_structure_valid_aux [OF assms(3)]
  by (simp add: sim_inv_def work_inv_def mounts_inv_def projected_ok_def determined_ok_def)

text \<open>
  Everything a successful replay establishes about the projection, for any plan, composed or
  imported: the projected configuration is structurally valid, its persistent entries are
  unique and determined, and an aspect that no replayed action touches is as it was.
\<close>

lemma replay_keeps:
  assumes "replay_plan keys current plan capacity = Inr (plan', simulation)" and "graph_inv (cur_graph current)"
  obtains ordered rs ev' where "ordered_actions plan = Some ordered" and "length rs = length ordered"
    and "sr_steps simulation = map2 step_of ordered rs" and "plan_actions plan' = sort_key pa_id (map2 trusted_of ordered rs)"
    and "sim_inv (sr_desired simulation, ev')"
    and "\<forall>k ev. (\<forall>r \<in> set rs. \<not> aspect_touched r k) \<longrightarrow>
      aspect_view k (sr_desired simulation, ev') = aspect_view k (from_current current, ev)"
    and "sr_evidence simulation = evidence_summary ev'"
proof (rule replay_plan_run [OF assms(1)])
  fix ev ordered rs ev'
  assume a: "validate_structure (cur_graph current) = Inr ()" "evidence_new capacity = Inr ev" "ordered_actions plan = Some ordered"
    and run: "simulator.run (from_current current, ev) (map pa_operation ordered) = Inr (rs, (sr_desired simulation, ev'))"
    and b: "length rs = length ordered" "sr_steps simulation = map2 step_of ordered rs"
    "sr_evidence simulation = evidence_summary ev'" "plan_actions plan' = sort_key pa_id (map2 trusted_of ordered rs)"
  have "aspect_view k (from_current current, ev) = aspect_view k (from_current current, e)" for k e
    by (simp add: aspect_view_def split: ProtectedAspect.splits)
  then show thesis
    using that a b simulator.run_keeps [OF run initial_sim_inv [OF a(1,2) assms(2)]] by (metis (no_types, lifting))
qed

section \<open>Protection\<close>

definition scope_aspects :: "ProtectedScope \<Rightarrow> ProtectedAspect list" where
  "scope_aspects protected = map ProtectedAspect.Node (ps_nodes protected)
     @ map ProtectedAspect.RuntimeMount (ps_runtime_mounts protected)
     @ map ProtectedAspect.PersistentMount (ps_persistent_mounts protected)"

lemma push_violation_nonempty: "push_violation a k vs \<noteq> []"
  by (cases vs) (simp_all add: push_violation_def Let_def)

lemma push_violations_empty: "fold (push_violation a) aspects vs = [] \<longleftrightarrow> aspects = [] \<and> vs = []"
  by (induction aspects arbitrary: vs) (simp_all add: push_violation_nonempty)

lemma no_violations_pushed:
  assumes "fold (\<lambda>p. fold (push_violation (i p)) (h p)) ps vs = []"
  shows "vs = [] \<and> (\<forall>p \<in> set ps. h p = [])"
  using assms
proof (induction ps arbitrary: vs)
  case Nil
  then show ?case by simp
next
  case (Cons p ps)
  have "fold (push_violation (i p)) (h p) vs = [] \<and> (\<forall>p \<in> set ps. h p = [])"
    by (rule Cons.IH) (rule Cons.prems [unfolded fold_simps])
  then show ?case by (simp add: push_violations_empty)
qed

lemma no_violations:
  assumes "check_protected_scope plan simulation protected = Some []" and "ordered_actions plan = Some ordered"
    and "(a, step) \<in> set (zip ordered (sr_steps simulation))"
  shows "touched_aspects (pa_informational_contract a) (ss_invalidated_facts step) protected = []"
proof -
  let ?aspects = "\<lambda>p. touched_aspects (pa_informational_contract (fst p)) (ss_invalidated_facts (snd p)) protected"
  have "fold (\<lambda>p. fold (push_violation (pa_id (fst p))) (?aspects p)) (zip ordered (sr_steps simulation)) [] = []"
    using assms(1,2) by (simp add: check_protected_scope_def case_prod_beta')
  from no_violations_pushed [OF this] show ?thesis using assms(3) by fastforce
qed

lemma untouched_aspects:
  assumes "touched_aspects (sa_contract r) (sa_invalidated_facts r) protected = []" and "k \<in> set (scope_aspects protected)"
  shows "\<not> aspect_touched r k"
  using assms by (auto simp: touched_aspects_def scope_aspects_def aspect_touched_def filter_empty_conv)

lemma composed_trusted:
  assumes "composed current capacity draft final plan"
    and "plan_actions plan = sort_key pa_id (map2 trusted_of ordered rs)" and "mset ordered = mset (plan_actions plan)"
    and "(a, r) \<in> set (zip ordered rs)"
  shows "pa_informational_contract a = sa_contract r"
proof -
  have "trusted_of a r \<in> set (plan_actions plan)" using assms(2,4) by force
  moreover have "a \<in> set (plan_actions plan)" using assms(3,4) by (metis mset_eq_setD set_zip_leftD)
  ultimately have "trusted_of a r = a"
    using composed_unique [OF assms(1)] by (simp add: trusted_of_def)
  then show ?thesis by (simp add: trusted_of_def) (metis PlannedAction.select_convs(6) PlannedAction.surjective PlannedAction.update_convs(6))
qed

text \<open>The pieces of a successful composition for a goal.\<close>

lemma compose_for_goal_result:
  assumes "compose_plan_for_goal_with_policy keys current goal fragments capacity protected = Inr plan"
  obtains simulation violations where "validate_intent_coverage (des_intents goal) fragments = Inr ()"
    and "compose_plan_with_ordering current fragments [] capacity = Inr plan"
    and "replay_plan keys current plan capacity = Inr (plan, simulation)"
    and "check_protected_scope plan simulation protected = Some []"
    and "\<forall>c \<in> set (compare_goal (sr_desired simulation) (sr_evidence simulation) goal). \<forall>why. gc_status c \<noteq> GoalStatus.Violated why"
proof -
  from assms obtain report where cov: "validate_intent_coverage (des_intents goal) fragments = Inr ()"
    and compose: "compose_plan_with_ordering current fragments [] capacity = Inr plan"
    and report: "simulate_plan_for_goal_with_policy keys current plan goal capacity protected = Inr report"
    and none: "rep_protection_violations report = []"
    and goals: "find (\<lambda>c. case gc_status c of GoalStatus.Violated _ \<Rightarrow> True | _ \<Rightarrow> False) (rep_goal_checks report) = None"
    by (auto simp: compose_plan_for_goal_with_policy_def compose_plan_with_evidence_def and_then_Inr_iff map_err_Inr_iff neq_Nil_conv
        split: list.split_asm option.split_asm) (metis list.exhaust)
  obtain flat :: FlattenedFragments and final where "composed current capacity (ff_actions flat) final plan"
    using yields_result [OF compose_composed compose] by blast
  then obtain simulation where sim: "replay_plan keys current plan capacity = Inr (plan, simulation)"
    using composed_replays by blast
  let ?sim = "simulation\<lparr>sr_desired := (sr_desired simulation)\<lparr>des_intents := des_intents goal\<rparr>\<rparr>"
  from report sim none have scope: "check_protected_scope plan ?sim protected = Some []"
    and checks: "rep_goal_checks report = compare_goal (sr_desired ?sim) (sr_evidence ?sim) goal"
    by (auto simp: simulate_plan_for_goal_with_policy_def analyse_plan_def simulate_plan_with_evidence_def and_then_Inr_iff
        ok_or_Inr_iff Let_def)
  have "compare_goal (sr_desired ?sim) (sr_evidence ?sim) goal = compare_goal (sr_desired simulation) (sr_evidence simulation) goal"
    "check_protected_scope plan ?sim protected = check_protected_scope plan simulation protected"
    by (simp_all add: compare_goal_def persistent_mount_check_def check_protected_scope_def)
  then show thesis
    using that [OF cov compose sim] scope goals checks by (force simp: find_None_iff)
qed

lemma for_goal_untouched:
  assumes "compose_plan_for_goal_with_policy keys current goal fragments capacity protected = Inr plan"
    and "graph_inv (cur_graph current)"
  shows "\<exists>simulation ev. replay_plan keys current plan capacity = Inr (plan, simulation)
    \<and> sim_inv (sr_desired simulation, ev)
    \<and> (\<forall>k \<in> set (scope_aspects protected). aspect_view k (sr_desired simulation, ev) = aspect_view k (from_current current, ev))"
proof (rule compose_for_goal_result [OF assms(1)])
  fix simulation
  assume compose: "compose_plan_with_ordering current fragments [] capacity = Inr plan"
    and sim: "replay_plan keys current plan capacity = Inr (plan, simulation)"
    and scope: "check_protected_scope plan simulation protected = Some []"
  obtain flat :: FlattenedFragments and final where c: "composed current capacity (ff_actions flat) final plan"
    using yields_result [OF compose_composed compose] by blast
  show ?thesis
  proof (rule replay_keeps [OF sim assms(2)])
    fix ordered rs ev'
    assume o: "ordered_actions plan = Some ordered" "length rs = length ordered"
      and steps: "sr_steps simulation = map2 step_of ordered rs"
      and sorted: "plan_actions plan = sort_key pa_id (map2 trusted_of ordered rs)"
      and inv: "sim_inv (sr_desired simulation, ev')"
      and keep: "\<forall>k ev. (\<forall>r \<in> set rs. \<not> aspect_touched r k) \<longrightarrow>
        aspect_view k (sr_desired simulation, ev') = aspect_view k (from_current current, ev)"
    have same: "mset ordered = mset (plan_actions plan)" using compose_ordered_aux [OF compose] o(1) by auto
    have "\<not> aspect_touched r k" if r: "r \<in> set rs" and k: "k \<in> set (scope_aspects protected)" for r k
    proof -
      obtain i where i: "i < length rs" "rs ! i = r" using r by (metis in_set_conv_nth)
      then have "(ordered ! i, r) \<in> set (zip ordered rs)"
        and "(ordered ! i, step_of (ordered ! i) r) \<in> set (zip ordered (sr_steps simulation))"
        using o(2) steps by (auto simp: in_set_zip)
      then have "touched_aspects (sa_contract r) (sa_invalidated_facts r) protected = []"
        using no_violations [OF scope o(1)] composed_trusted [OF c sorted same] by (fastforce simp: step_of_def)
      then show ?thesis using untouched_aspects k by blast
    qed
    then show ?thesis using sim inv keep by blast
  qed
qed

section \<open>Goals\<close>

lemma topology_matches_kinds:
  assumes "graph_inv projected" and "topology_matches projected requested"
  shows "kind_at projected = kind_at requested"
    and "set (g_dependencies projected) = set (g_dependencies requested)"
    and "set (g_relations projected) = set (g_relations requested)"
proof -
  have dist: "distinct (map fst (g_nodes projected))" "distinct (g_dependencies projected)" "distinct (g_relations projected)"
    using assms(1) by (auto simp: graph_inv_def)
  have whole: "A = set ys" if "A \<subseteq> set ys" "card A = length ys" for A :: "'a set" and ys :: "'a list"
    using that by (metis card_length card_seteq List.finite_set)
  have kinds: "kind_at requested n = Some (spec_kind (node_kind x))" if "(n, x) \<in> set (g_nodes projected)" for n x
    using assms(2) that by (auto simp: topology_matches_def list_all_iff is_some_and_def split: option.splits)
  have "node_ids projected \<subseteq> set (map fst (g_nodes requested))"
    using kinds by (force simp: node_ids_def kind_at_def graph_node_def dest: map_of_SomeD)
  moreover have "card (node_ids projected) = length (map fst (g_nodes requested))"
    using assms(2) dist(1) distinct_card [OF dist(1)] by (simp add: node_ids_def topology_matches_def)
  ultimately have ids: "node_ids projected = node_ids requested"
    using whole by (metis list.set_map node_ids_def)
  show "kind_at projected = kind_at requested"
  proof
    fix n
    show "kind_at projected n = kind_at requested n"
    proof (cases "graph_node projected n")
      case None
      then have "graph_node requested n = None" using ids by (simp add: graph_node_None)
      then show ?thesis using None by (simp add: kind_at_def)
    next
      case (Some x)
      then have "(n, x) \<in> set (g_nodes projected)" by (simp add: graph_node_def map_of_SomeD)
      from kinds [OF this] show ?thesis using Some by (auto simp: kind_at_def)
    qed
  qed
  show "set (g_dependencies projected) = set (g_dependencies requested)"
    using assms(2) distinct_card [OF dist(2)]
    by (intro whole) (auto simp: topology_matches_def list_all_iff list_ex_iff)
  show "set (g_relations projected) = set (g_relations requested)"
    using assms(2) distinct_card [OF dist(3)]
    by (intro whole) (auto simp: topology_matches_def list_all_iff list_ex_iff)
qed

lemma compare_sizes_ok:
  assumes "try_fold (compare_size projected) u ns = Inr u'" and "(n, x) \<in> set ns" and "spec_size (node_kind x) = Some sz"
  shows "known_size projected n \<in> {None, Some sz}"
  using assms
proof (induction ns arbitrary: u)
  case Nil
  then show ?case by simp
next
  case (Cons p ns)
  from Cons.prems(1) obtain v where v: "compare_size projected u p = Inr v" "try_fold (compare_size projected) v ns = Inr u'"
    by (auto split: sum.splits)
  show ?case
  proof (cases "p = (n, x)")
    case True
    then show ?thesis using v(1) Cons.prems(3) by (auto simp: compare_size_def split: option.splits if_splits)
  next
    case False
    then show ?thesis using Cons.IH [OF v(2)] Cons.prems by auto
  qed
qed

lemma compare_graph_ok:
  assumes "\<forall>why. compare_graph projected requested \<noteq> GoalStatus.Violated why" and "graph_inv projected"
  shows "kind_at projected = kind_at requested \<and> set (g_dependencies projected) = set (g_dependencies requested)
    \<and> set (g_relations projected) = set (g_relations requested)
    \<and> (\<forall>(n, x) \<in> set (g_nodes requested). \<forall>sz. spec_size (node_kind x) = Some sz \<longrightarrow> known_size projected n \<in> {None, Some sz})"
proof -
  have violated: "\<exists>why. v = GoalStatus.Violated why" if "try_fold (compare_size projected) u ns = Inl v" for v u ns
    using that by (induction ns arbitrary: u) (auto simp: compare_size_def split: option.splits if_splits sum.splits)
  have top: "topology_matches projected requested"
    using assms(1) by (auto simp: compare_graph_def split: if_splits)
  then obtain u where u: "try_fold (compare_size projected) False (g_nodes requested) = Inr u"
    using assms(1) violated by (fastforce simp: compare_graph_def split: sum.splits)
  have "\<forall>(n, x) \<in> set (g_nodes requested). \<forall>sz. spec_size (node_kind x) = Some sz \<longrightarrow> known_size projected n \<in> {None, Some sz}"
    using compare_sizes_ok [OF u] by fastforce
  then show ?thesis
    using topology_matches_kinds [OF assms(2) top] by blast
qed

section \<open>Intents\<close>

text \<open>The operations of a plan that stand for one explicit intent.\<close>

definition intent_operations :: "ExecutionPlan \<Rightarrow> nat \<Rightarrow> ProviderAction list" where
  "intent_operations plan i = map pa_operation (filter (\<lambda>a. pa_origin a = FragmentOrigin.Intent i) (plan_actions plan))"

lemma view_operations:
  "map pa_operation (filter (\<lambda>a. pa_origin a = k) as)
     = map (\<lambda>v. fst (snd (snd v))) (filter (\<lambda>v. snd (snd (snd v)) = k) (map planned_view as))"
  by (induction as) (auto simp: planned_view_def)

lemma requested_operations:
  "map (\<lambda>v. fst (snd (snd v))) (filter (\<lambda>v. snd (snd (snd v)) = k) (concat (map fragment_view ps)))
     = concat (map (\<lambda>f. map fa_operation (pf_actions f)) (filter (\<lambda>f. pf_origin f = k) (map snd ps)))"
proof (induction ps)
  case Nil
  then show ?case by simp
next
  case (Cons p ps)
  have "map (\<lambda>v. fst (snd (snd v))) (filter (\<lambda>v. snd (snd (snd v)) = k) (fragment_view p))
      = (if pf_origin (snd p) = k then map fa_operation (pf_actions (snd p)) else [])"
    by (simp add: fragment_view_def filter_map comp_def)
  then show ?case using Cons by simp
qed

lemma validate_intent_coverage_ok:
  assumes "validate_intent_coverage intents fragments = Inr ()" and "i < length intents"
  shows "actions_cover_intent (intents ! i) (concat (map (\<lambda>f. map fa_operation (pf_actions f))
    (filter (\<lambda>f. pf_origin f = FragmentOrigin.Intent i) fragments)))"
proof -
  have "(i, intents ! i) \<in> set (enumerate 0 intents)" using assms(2) by (force simp: in_set_enumerate_eq)
  then show ?thesis using assms(1)
    by (auto simp: validate_intent_coverage_def and_then_Inr_iff try_fold_unit_Inr require_Inr_iff intent_is_covered_def)
qed

lemma intents_covered_aux:
  assumes "compose_plan_for_goal_with_policy keys current goal fragments capacity protected = Inr plan"
    and "i < length (des_intents goal)"
  shows "actions_cover_intent (des_intents goal ! i) (intent_operations plan i)"
proof (rule compose_for_goal_result [OF assms(1)])
  assume cov: "validate_intent_coverage (des_intents goal) fragments = Inr ()"
    and compose: "compose_plan_with_ordering current fragments [] capacity = Inr plan"
  have "intent_operations plan i = map (\<lambda>v. fst (snd (snd v)))
      (filter (\<lambda>v. snd (snd (snd v)) = FragmentOrigin.Intent i) (requested_actions fragments))"
    using compose_view_aux [OF compose] by (simp add: intent_operations_def view_operations)
  also have "\<dots> = concat (map (\<lambda>f. map fa_operation (pf_actions f))
      (filter (\<lambda>f. pf_origin f = FragmentOrigin.Intent i) fragments))"
    by (simp add: requested_actions_def requested_operations)
  finally show ?thesis using validate_intent_coverage_ok [OF cov assms(2)] by simp
qed

end
