(* ===== verification/Goal_Sample.thy ===== *)
theory Goal_Sample
  imports Goal_Correct
begin

text \<open>
  A sample composition for a goal: an explicit intent to activate a node, under a policy that
  protects the disk and the mounts at and around the root.
\<close>

definition goal_fragment :: PlanFragment where
  "goal_fragment = \<lparr>pf_actions = [\<lparr>fa_id = LocalActionId 0, fa_operation =
       ProviderAction.Lvm (LvmAction.SetActivation (NodeId 3) True)\<rparr>],
     pf_dependencies = [], pf_external_requirements = [], pf_origin = FragmentOrigin.Intent 0, pf_diagnostics = []\<rparr>"

definition goal_desired :: DesiredState where
  "goal_desired = (from_current sample_current)\<lparr>des_intents := [OperationIntent.SetActivation (NodeId 3) True]\<rparr>"

definition goal_scope :: ProtectedScope where
  "goal_scope = \<lparr>ps_nodes = [NodeId 1],
     ps_runtime_mounts = [\<lparr>pm_target = [RootDir], pm_context = MountContext.Host\<rparr>],
     ps_persistent_mounts = [\<lparr>pm_target = [RootDir], pm_context = MountContext.Host\<rparr>]\<rparr>"

lemma goal_run:
  "is_ok (compose_plan_for_goal_with_policy sample_keys sample_current goal_desired [goal_fragment] [] goal_scope)"
  by code_simp

definition goal_plan :: ExecutionPlan where
  "goal_plan = (case compose_plan_for_goal_with_policy sample_keys sample_current goal_desired [goal_fragment] [] goal_scope of
     Inr plan \<Rightarrow> plan | Inl _ \<Rightarrow> \<lparr>plan_actions = [], plan_dependencies = []\<rparr>)"

lemma goal_composes:
  "compose_plan_for_goal_with_policy sample_keys sample_current goal_desired [goal_fragment] [] goal_scope = Inr goal_plan"
  using goal_run by (auto simp: goal_plan_def is_ok_iff)

lemma sample_current_inv: "graph_inv (cur_graph sample_current)"
  by (simp add: sample_current_def sample_graph_inv)

end
