(* ===== verification/Goal_Properties.thy ===== *)
theory Goal_Properties
  imports Goal_Sample
begin

text \<open>
  What composition for a goal promises (\<^verbatim>\<open>compose_plan_for_goal_with_policy\<close>).
\<close>

text \<open>
  C3. A plan that is accepted under a policy leaves the protected scope alone: in the
  projection it leads to, every protected node has the same properties and the same
  dependencies and relations as in the baseline, the runtime mounts at, above and below a
  protected target are unchanged, and no persistent entry is written in a protected context.
\<close>

theorem protected_scope_kept:
  assumes "compose_plan_for_goal_with_policy keys current goal fragments capacity protected = Inr plan"
    and "graph_inv (cur_graph current)"
  shows "\<exists>simulation. replay_plan keys current plan capacity = Inr (plan, simulation)
    \<and> (\<forall>n \<in> set (ps_nodes protected).
        node_view n (des_graph (sr_desired simulation)) = node_view n (cur_graph current))
    \<and> (\<forall>m \<in> set (ps_runtime_mounts protected).
        runtime_view m (des_mounts (sr_desired simulation)) = runtime_view m (des_mounts (from_current current)))
    \<and> (\<forall>m \<in> set (ps_persistent_mounts protected). persistent_view m (des_mounts (sr_desired simulation)) = [])"
proof -
  obtain simulation ev where sim: "replay_plan keys current plan capacity = Inr (plan, simulation)"
    and keep: "\<And>k. k \<in> set (scope_aspects protected) \<Longrightarrow>
      aspect_view k (sr_desired simulation, ev) = aspect_view k (from_current current, ev)"
    using for_goal_untouched [OF assms] by blast
  have "node_view n (des_graph (sr_desired simulation)) = node_view n (cur_graph current)" if "n \<in> set (ps_nodes protected)" for n
    using keep [of "ProtectedAspect.Node n"] that by (simp add: scope_aspects_def aspect_view_def)
  moreover have "runtime_view m (des_mounts (sr_desired simulation)) = runtime_view m (des_mounts (from_current current))"
    if "m \<in> set (ps_runtime_mounts protected)" for m
    using keep [of "ProtectedAspect.RuntimeMount m"] that by (simp add: scope_aspects_def aspect_view_def)
  moreover have "persistent_view m (des_mounts (sr_desired simulation)) = []" if "m \<in> set (ps_persistent_mounts protected)" for m
    using keep [of "ProtectedAspect.PersistentMount m"] that by (simp add: scope_aspects_def aspect_view_def persistent_view_def)
  ultimately show ?thesis using sim by blast
qed

theorem protected_scope_kept_witness:
  "\<exists>simulation. replay_plan sample_keys sample_current goal_plan [] = Inr (goal_plan, simulation)
     \<and> node_view (NodeId 1) (des_graph (sr_desired simulation)) = node_view (NodeId 1) sample_graph"
  using protected_scope_kept [OF goal_composes sample_current_inv] by (auto simp: goal_scope_def sample_current_def)

text \<open>
  C5. A plan that is accepted for a goal reaches it: its projection is a structurally valid
  configuration with exactly the requested nodes, kinds, dependencies and relations; a
  requested capacity is the projected one wherever that is known; every requested runtime
  mount is present; and a requested persistent entry is present unless the plan left its
  target undetermined.
\<close>

theorem goal_reached:
  assumes "compose_plan_for_goal_with_policy keys current goal fragments capacity protected = Inr plan"
    and "graph_inv (cur_graph current)"
  shows "\<exists>simulation. replay_plan keys current plan capacity = Inr (plan, simulation)
    \<and> valid_structure (des_graph (sr_desired simulation))
    \<and> kind_at (des_graph (sr_desired simulation)) = kind_at (des_graph goal)
    \<and> set (g_dependencies (des_graph (sr_desired simulation))) = set (g_dependencies (des_graph goal))
    \<and> set (g_relations (des_graph (sr_desired simulation))) = set (g_relations (des_graph goal))
    \<and> (\<forall>(n, x) \<in> set (g_nodes (des_graph goal)). \<forall>sz. spec_size (node_kind x) = Some sz \<longrightarrow>
        known_size (des_graph (sr_desired simulation)) n \<in> {None, Some sz})
    \<and> set (msp_runtime (des_mounts goal)) \<subseteq> set (msp_runtime (des_mounts (sr_desired simulation)))
    \<and> (\<forall>e \<in> set (msp_persistent (des_mounts goal)). e \<in> set (msp_persistent (des_mounts (sr_desired simulation)))
        \<or> \<not> summary_persistent_mount_was_projected (sr_evidence simulation) (me_target e) (me_context e))"
proof -
  obtain simulation ev where sim: "replay_plan keys current plan capacity = Inr (plan, simulation)"
    and inv: "sim_inv (sr_desired simulation, ev)"
    using for_goal_untouched [OF assms] by blast
  have goals: "\<forall>c \<in> set (compare_goal (sr_desired simulation) (sr_evidence simulation) goal). \<forall>why. gc_status c \<noteq> GoalStatus.Violated why"
    by (rule compose_for_goal_result [OF assms(1)]) (use sim in simp)
  have same: "m = e" if "entry_matches m e" for m e :: MountEntry
    using that by (cases m; cases e) (simp add: entry_matches_def options_match_def)
  have "\<forall>why. compare_graph (des_graph (sr_desired simulation)) (des_graph goal) \<noteq> GoalStatus.Violated why"
    using goals by (auto simp: compare_goal_def)
  note graph = compare_graph_ok [OF this]
  have "e \<in> set (msp_runtime (des_mounts (sr_desired simulation)))" if "e \<in> set (msp_runtime (des_mounts goal))" for e
  proof -
    have "runtime_mount_check (msp_runtime (des_mounts (sr_desired simulation))) e
        \<in> set (compare_goal (sr_desired simulation) (sr_evidence simulation) goal)"
      using that by (simp add: compare_goal_def)
    then show ?thesis
      using goals same by (fastforce simp: runtime_mount_check_def list_ex_iff split: if_splits)
  qed
  moreover have "e \<in> set (msp_persistent (des_mounts (sr_desired simulation)))
      \<or> \<not> summary_persistent_mount_was_projected (sr_evidence simulation) (me_target e) (me_context e)"
    if "e \<in> set (msp_persistent (des_mounts goal))" for e
  proof -
    have "persistent_mount_check (sr_desired simulation) (sr_evidence simulation) e
        \<in> set (compare_goal (sr_desired simulation) (sr_evidence simulation) goal)"
      using that by (simp add: compare_goal_def)
    then show ?thesis
      using goals same by (fastforce simp: persistent_mount_check_def list_ex_iff split: if_splits)
  qed
  ultimately show ?thesis
    using sim inv graph by (auto simp: sim_inv_def work_inv_def)
qed

theorem goal_reached_witness:
  "\<exists>simulation. replay_plan sample_keys sample_current goal_plan [] = Inr (goal_plan, simulation)
     \<and> valid_structure (des_graph (sr_desired simulation))
     \<and> kind_at (des_graph (sr_desired simulation)) = kind_at sample_graph"
proof -
  have "des_graph goal_desired = sample_graph" by (simp add: goal_desired_def sample_current_def)
  then show ?thesis using goal_reached [OF goal_composes sample_current_inv] by auto
qed

text \<open>
  C14. Every explicit intent of the goal is carried out: the actions of an accepted plan that
  originate from an intent cover it.
\<close>

theorem intents_covered:
  assumes "compose_plan_for_goal_with_policy keys current goal fragments capacity protected = Inr plan"
    and "i < length (des_intents goal)"
  shows "actions_cover_intent (des_intents goal ! i) (intent_operations plan i)"
  using assms by (rule intents_covered_aux)

theorem intents_covered_witness:
  "ProviderAction.Lvm (LvmAction.SetActivation (NodeId 3) True) \<in> set (intent_operations goal_plan 0)"
  using intents_covered [OF goal_composes, of 0] by (simp add: goal_desired_def actions_cover_intent_def)

end
