(* ===== verification/Effect_Errors.thy ===== *)
theory Effect_Errors
  imports Simulation_Frame
begin

text \<open>
  Why an action that passed its prerequisites can still fail (\<^verbatim>\<open>simulate_action\<close>): the effects of a
  contract ask for nothing the prerequisites do not guarantee, four named errors apart.
\<close>

section \<open>Effects that passed their prerequisites\<close>

lemma not_violated_node:
  assumes "\<not> is_violated (evaluate_prerequisite des ev (ActionPrerequisite.NodeExists n))"
  shows "\<exists>x. graph_node (des_graph des) n = Some x"
  using assms by (auto simp: evaluate_prerequisite_def is_violated_def split: if_splits)

lemma not_violated_kind:
  assumes "\<not> is_violated (evaluate_prerequisite des ev (ActionPrerequisite.NodeKind n k))"
  shows "\<exists>x. graph_node (des_graph des) n = Some x \<and> matches_kind (spec_kind (node_kind x)) k"
  using assms by (auto simp: evaluate_prerequisite_def is_violated_def kind_at_def split: if_splits option.splits)

lemma matching_updates:
  "matches_kind (spec_kind (node_kind x)) NodeKindClass.Partition \<Longrightarrow> \<exists>y. set_attributes attrs x = Some y"
  "matches_kind (spec_kind (node_kind x)) NodeKindClass.Filesystem \<Longrightarrow> \<exists>y. set_label label x = Some y"
  "matches_kind (spec_kind (node_kind x)) NodeKindClass.BtrfsFilesystem \<Longrightarrow> \<exists>y. set_allocation allocation x = Some y"
  by (auto simp: matches_kind_def set_attributes_def set_label_def set_allocation_def
      split: NodeKind.splits FilesystemKind.splits)

lemma update_node_ok:
  assumes "graph_node (des_graph des) n = Some x" and "upd x = Some x'"
  shows "is_ok (update_node (des, ev) n name upd)"
  using assms by (simp add: update_node_def replace_existing_def)

lemma insert_dependencies_ok: "is_ok (apply_graph_effects s (map GraphEffect.InsertDependency ds))"
proof (induction ds arbitrary: s)
  case Nil
  then show ?case by (simp add: apply_graph_effects_def)
next
  case (Cons d ds)
  then show ?case by (cases s) (simp add: apply_graph_effects_def apply_graph_effect_def)
qed

lemma remove_dependencies_error:
  "apply_graph_effects s (map GraphEffect.RemoveDependency ds) = Inl e \<Longrightarrow> e = EffectApplicationError.MissingDependency"
proof (induction ds arbitrary: s)
  case Nil
  then show ?case by (simp add: apply_graph_effects_def)
next
  case (Cons d ds)
  then show ?case
    by (cases s) (auto simp: apply_graph_effects_def apply_graph_effect_def split: prod.splits if_splits sum.splits)
qed

lemma justified_errors:
  assumes "justified (des_graph des) R es" and "\<forall>p \<in> R. \<not> is_violated (evaluate_prerequisite des ev0 p)"
    and "apply_graph_effects (des, ev) es = Inl e"
  shows "e = EffectApplicationError.MissingDependency \<or> (\<exists>n. e = EffectApplicationError.DuplicateNode n)"
proof -
  have single: "\<not> is_ok (apply_graph_effect (des, ev) f)" if "es = [f]" for f
    using that assms(3) by (auto simp: apply_graph_effects_def is_ok_iff split: sum.splits)
  have exists: "ActionPrerequisite.NodeExists n \<in> R \<Longrightarrow> \<exists>x. graph_node (des_graph des) n = Some x" for n
    using assms(2) not_violated_node by blast
  have kind: "ActionPrerequisite.NodeKind n k \<in> R \<Longrightarrow>
      \<exists>x. graph_node (des_graph des) n = Some x \<and> matches_kind (spec_kind (node_kind x)) k" for n k
    using assms(2) not_violated_kind by blast
  from assms(1) show ?thesis
  proof cases
    case nothing
    then show ?thesis using assms(3) by (simp add: apply_graph_effects_def)
  next
    case (creation ds p spec)
    have "try_fold apply_graph_effect t (map GraphEffect.InsertDependency ds) \<noteq> Inl e" for t
      using insert_dependencies_ok [of t ds] by (auto simp: apply_graph_effects_def)
    then show ?thesis using creation(1) assms(3)
      by (auto simp: apply_graph_effects_def apply_graph_effect_def [of _ "GraphEffect.InsertNode p spec"] insert_new_def
          split: sum.splits if_splits option.splits)
  next
    case (resizing n sz)
    then show ?thesis using single exists [of n] update_node_ok by (fastforce simp: apply_graph_effect_def)
  next
    case (unsizing n)
    then show ?thesis using single exists [of n] update_node_ok by (fastforce simp: apply_graph_effect_def)
  next
    case (activating n active)
    then show ?thesis using single exists [of n] by (auto simp: apply_graph_effect_def)
  next
    case (attributes n attrs)
    then obtain x where "graph_node (des_graph des) n = Some x" "\<exists>y. set_attributes attrs x = Some y"
      using kind [of n] matching_updates by blast
    then show ?thesis using single attributes update_node_ok by (fastforce simp: apply_graph_effect_def)
  next
    case (labelling n label)
    then obtain x where "graph_node (des_graph des) n = Some x" "\<exists>y. set_label label x = Some y"
      using kind [of n] matching_updates by blast
    then show ?thesis using single labelling update_node_ok by (fastforce simp: apply_graph_effect_def)
  next
    case (converting n allocation)
    then obtain x where "graph_node (des_graph des) n = Some x" "\<exists>y. set_allocation allocation x = Some y"
      using kind [of n] matching_updates by blast
    then show ?thesis using single converting update_node_ok by (fastforce simp: apply_graph_effect_def)
  next
    case (removing n)
    then obtain x where "graph_node (des_graph des) n = Some x" using exists by blast
    then show ?thesis
      using removing(1) assms(3) remove_dependencies_error [unfolded apply_graph_effects_def]
      by (fastforce simp: apply_graph_effects_def apply_graph_effect_def remove_node_def)
  next
    case (joining d)
    then show ?thesis using single by (auto simp: apply_graph_effect_def)
  next
    case (leaving d)
    then show ?thesis using assms(3) by (auto simp: apply_graph_effects_def apply_graph_effect_def split: prod.splits if_splits sum.splits)
  qed
qed

lemma apply_graph_effect_capacity:
  assumes "apply_graph_effect s e = Inr s'"
  shows "ev_available_capacity (snd s') = ev_available_capacity (snd s)"
proof -
  have "update_node s n name f = Inr s' \<Longrightarrow> ?thesis" for n name f
    by (auto simp: update_node_def and_then_Inr_iff split: prod.splits if_splits)
  then show ?thesis using assms
    by (cases e) (auto simp: apply_graph_effect_def and_then_Inr_iff split: prod.splits if_splits)
qed

lemma apply_mount_effect_capacity:
  "apply_mount_effect s e = Inr s' \<Longrightarrow> ev_available_capacity (snd s') = ev_available_capacity (snd s)"
  by (auto simp: apply_mount_effect_def mark_persistent_target_def split: prod.splits MountEffect.splits if_splits)

lemma effects_capacity:
  "apply_graph_effects s es = Inr s' \<Longrightarrow> ev_available_capacity (snd s') = ev_available_capacity (snd s)"
  "apply_mount_effects s ms = Inr s' \<Longrightarrow> ev_available_capacity (snd s') = ev_available_capacity (snd s)"
  unfolding apply_graph_effects_def apply_mount_effects_def
  by (erule try_fold_invariant [where P = "\<lambda>t. ev_available_capacity (snd t) = ev_available_capacity (snd s)"];
      simp add: apply_graph_effect_capacity apply_mount_effect_capacity)+

lemma record_invalidations_capacity [simp]:
  "ev_available_capacity (fold record_invalidation fs ev) = ev_available_capacity ev"
  by (induction fs arbitrary: ev) (simp_all add: record_invalidation_def Let_def split: option.splits)

lemma mount_effects_no_error:
  assumes "\<forall>e \<in> set ms. mount_justified c e" and "length ms \<le> 1" and "\<forall>p \<in> reqs c. \<not> is_violated (evaluate_prerequisite des ev p)"
    and "des_mounts (fst s) = des_mounts des"
  shows "is_ok (apply_mount_effects s ms)"
proof (cases ms)
  case Nil
  then show ?thesis by (simp add: apply_mount_effects_def)
next
  case (Cons e es)
  then have ms: "ms = [e]" using assms(2) by (cases es) auto
  obtain d v where s: "s = (d, v)" by (cases s)
  have free: "ActionPrerequisite.MountTargetAvailable t ctx \<in> reqs c \<Longrightarrow> mount_at d t ctx = None"
    "ActionPrerequisite.MountDescendantsAbsent t ctx \<in> reqs c \<Longrightarrow> \<not> has_mounted_descendant d t ctx" for t ctx
    using assms(3,4) s by (fastforce simp: evaluate_prerequisite_def is_violated_def mount_at_def has_mounted_descendant_def
        split: if_splits)+
  have "is_ok (apply_mount_effect s e)"
    using assms(1) ms s free by (cases e) (auto simp: apply_mount_effect_def mount_justified_def)
  then show ?thesis using ms by (auto simp: apply_mount_effects_def is_ok_iff)
qed

lemma allocation_effects_error:
  assumes "allocation_justified c" and "\<forall>p \<in> reqs c. \<not> is_violated (evaluate_prerequisite des ev p)"
    and "ev_available_capacity ev' = ev_available_capacity ev" and "apply_allocation_effects ev' (afx c) = Inl e"
  shows "\<exists>domain. e = EffectApplicationError.CapacityOverflow domain"
proof (cases "afx c")
  case Nil
  then show ?thesis using assms(4) by (simp add: apply_allocation_effects_def)
next
  case (Cons a as)
  then have one: "afx c = [a]" using assms(1) by (cases as) (auto simp: allocation_justified_def)
  then have err: "apply_allocation_effect ev' a = Inl e"
    using assms(4) by (auto simp: apply_allocation_effects_def split: sum.splits)
  show ?thesis
  proof (cases a)
    case (Reserve domain amount)
    then have "ActionPrerequisite.CapacityAvailable domain (Some amount) \<in> reqs c"
      using assms(1) one by (simp add: allocation_justified_def)
    then have "\<not> is_violated (evaluate_capacity ev domain (Some amount))"
      using assms(2) by (fastforce simp: evaluate_prerequisite_def)
    then show ?thesis using err Reserve assms(3)
      by (auto simp: apply_allocation_effect_def evaluate_capacity_def is_violated_def checked_sub_def split: option.splits if_splits)
  qed (use err in \<open>auto simp: apply_allocation_effect_def split: option.splits\<close>)
qed

lemma apply_effect_Inl:
  assumes "apply_effect_with_invalidations (des, ev) effect facts = Inl e"
    and "ev2 = invalidate_filesystem_checks (des_graph des) facts (snd (invalidate_observations (des_graph des) facts ev))"
  obtains (graph) "apply_graph_effects (des, ev2) (pe_graph effect) = Inl e"
    | (mounts) s1 where "apply_graph_effects (des, ev2) (pe_graph effect) = Inr s1" "apply_mount_effects s1 (pe_mounts effect) = Inl e"
    | (allocation) s1 s2 where "apply_graph_effects (des, ev2) (pe_graph effect) = Inr s1"
        "apply_mount_effects s1 (pe_mounts effect) = Inr s2" "apply_allocation_effects (snd s2) (pe_allocations effect) = Inl e"
    | (invalid) g where "e = EffectApplicationError.Structure g"
proof (cases "apply_graph_effects (des, ev2) (pe_graph effect)")
  case (Inl e')
  then show thesis using assms graph
    by (simp add: apply_effect_with_invalidations_def Let_def case_prod_beta)
next
  case (Inr s1)
  note run = assms(1) [unfolded apply_effect_with_invalidations_def Let_def case_prod_beta fst_conv snd_conv,
      folded assms(2), unfolded Inr and_then_simps]
  show thesis
  proof (cases "apply_mount_effects s1 (pe_mounts effect)")
    case (Inl e')
    then show thesis using run mounts Inr by simp
  next
    case m: (Inr s2)
    show thesis
    proof (cases "apply_allocation_effects (snd s2) (pe_allocations effect)")
      case (Inl e')
      then show thesis using run m allocation Inr by simp
    next
      case (Inr ev4)
      then show thesis using run m invalid by (simp add: and_then_Inl_iff map_err_Inl_iff) blast
    qed
  qed
qed

lemma simulate_action_Inl:
  assumes "simulate_action (des, ev) action = Inl (ActionSimulationError.Effect e)" and "c = describe_action action (des_graph des)"
  shows "\<forall>p \<in> reqs c. \<not> is_violated (evaluate_prerequisite des ev p)"
    and "apply_effect_with_invalidations (des, ev) (ac_predicted_effect c) (ac_invalidated_facts c) = Inl e"
proof -
  note run = assms(1) [unfolded simulate_action_def Let_def prod.case, folded assms(2)]
  then have ok: "\<not> list_ex (\<lambda>k. is_violated (pc_status k)) (evaluate_prerequisites des ev (ac_prerequisites c))"
    by (auto split: if_splits)
  then show "\<forall>p \<in> reqs c. \<not> is_violated (evaluate_prerequisite des ev p)"
    by (auto simp: evaluate_prerequisites_def reqs_def list_ex_iff)
  from run ok show "apply_effect_with_invalidations (des, ev) (ac_predicted_effect c) (ac_invalidated_facts c) = Inl e"
    by (cases "apply_effect_with_invalidations (des, ev) (ac_predicted_effect c) (ac_invalidated_facts c)")
      (auto split: if_splits prod.splits)
qed

lemma simulate_effect_errors_aux:
  assumes "simulate_action s action = Inl (ActionSimulationError.Effect e)"
  shows "e = EffectApplicationError.MissingDependency \<or> (\<exists>n. e = EffectApplicationError.DuplicateNode n)
    \<or> (\<exists>d. e = EffectApplicationError.CapacityOverflow d) \<or> (\<exists>g. e = EffectApplicationError.Structure g)"
proof -
  obtain des ev where s: "s = (des, ev)" by (cases s)
  define c where "c = describe_action action (des_graph des)"
  define ev2 where "ev2 = invalidate_filesystem_checks (des_graph des) (ac_invalidated_facts c)
      (snd (invalidate_observations (des_graph des) (ac_invalidated_facts c) ev))"
  note ok = simulate_action_Inl(1) [OF assms [unfolded s] c_def]
  have cap: "ev_available_capacity ev2 = ev_available_capacity ev"
    by (simp add: ev2_def invalidate_filesystem_checks_def invalidate_observations_def Let_def)
  from simulate_action_Inl(2) [OF assms [unfolded s] c_def] ev2_def show ?thesis
  proof (cases rule: apply_effect_Inl)
    case graph
    then show ?thesis
      using justified_errors [OF describe_justified ok [unfolded c_def]] by (auto simp: gfx_def c_def)
  next
    case (mounts s1)
    then have "is_ok (apply_mount_effects s1 (mfx c))"
      using mount_effects_no_error [OF _ _ ok] describe_mount_justified describe_one_mount_effect graph_effects_mounts [OF mounts(1)]
      by (simp add: c_def)
    then show ?thesis using mounts by (simp add: mfx_def)
  next
    case (allocation s1 s2)
    then have "ev_available_capacity (snd s2) = ev_available_capacity ev" using effects_capacity cap by fastforce
    then show ?thesis
      using allocation_effects_error [OF _ ok] describe_allocation_justified allocation(3) by (auto simp: afx_def c_def)
  next
    case (invalid g)
    then show ?thesis by blast
  qed
qed

end
