(* ===== verification/Simulation_Properties.thy ===== *)
theory Simulation_Properties
  imports Effect_Errors Goal_Sample
begin

text \<open>
  What the simulation of actions promises: its invariant, the errors that remain possible once
  the prerequisites hold, the accounting of allocation domains, the spread of invalidated
  observations, and the conditions of shrinking and of destructive actions.
\<close>

section \<open>One simulated action\<close>

definition sample_state :: SimState where
  "sample_state = (from_current sample_current, default_evidence)"

definition sample_result :: "SimulatedAction \<times> SimState" where
  "sample_result = (case simulate_action sample_state sample_create of Inr r \<Rightarrow> r
     | Inl _ \<Rightarrow> (\<lparr>sa_contract = contract RestartPolicy.ManualRecovery, sa_checks = [], sa_invalidated_facts = []\<rparr>, sample_state))"

lemma sample_simulates: "simulate_action sample_state sample_create = Inr (fst sample_result, snd sample_result)"
proof -
  have "is_ok (simulate_action sample_state sample_create)" by code_simp
  then show ?thesis by (auto simp: sample_result_def is_ok_iff)
qed

lemma sample_state_inv: "sim_inv sample_state" "runtime_unique (fst sample_state)"
proof -
  have "evidence_new [] = Inr default_evidence" by (simp add: evidence_new_def)
  then show "sim_inv sample_state"
    using initial_sim_inv [of sample_current "[]"] sample_current_inv sample_graph_ok
    by (simp add: sample_state_def sample_current_def)
  show "runtime_unique (fst sample_state)"
    by (simp add: runtime_unique_def sample_state_def sample_current_def)
qed

text \<open>
  C7. Every simulated action preserves the invariant of the simulator: node identifiers stay
  unique, the graph stays structurally valid, every node that is marked as projected exists
  and is marked once, persistent mount entries have distinct targets and were all determined
  by an effect. A runtime mount table without stacked mounts stays free of them.
\<close>

theorem simulation_keeps_invariant:
  assumes "simulate_action s action = Inr (result, s')" and "sim_inv s"
  shows "sim_inv s' \<and> (runtime_unique (fst s) \<longrightarrow> runtime_unique (fst s'))"
  using simulate_action_sim_inv [OF assms] simulate_action_runtime_unique [OF assms(1)] by blast

theorem simulation_keeps_invariant_witness:
  "sim_inv (snd sample_result) \<and> runtime_unique (fst (snd sample_result))"
  using simulation_keeps_invariant [OF sample_simulates sample_state_inv(1)] sample_state_inv(2) by blast

text \<open>
  C12. The prerequisites of a contract guard its effects: once an action passed validation and
  no prerequisite is violated, applying its effects can only fail because a planned identity
  is taken, an edge that is removed with the action is not there, a released capacity
  overflows, or the resulting graph is structurally invalid. A missing node, a node of the
  wrong kind, an occupied mount target, a mounted descendant, a missing relation and
  insufficient capacity never surface as effect errors.
\<close>

theorem simulate_effect_errors:
  assumes "simulate_action s action = Inl (ActionSimulationError.Effect e)"
  shows "e = EffectApplicationError.MissingDependency \<or> (\<exists>n. e = EffectApplicationError.DuplicateNode n)
    \<or> (\<exists>d. e = EffectApplicationError.CapacityOverflow d) \<or> (\<exists>g. e = EffectApplicationError.Structure g)"
  using assms by (rule simulate_effect_errors_aux)

lemma sample_collision:
  "case simulate_action sample_state (ProviderAction.Filesystem
      (FilesystemAction.Create (NodeId 3) (NodeId 1) FilesystemKind.Ext4 None)) of
     Inl (ActionSimulationError.Effect _) \<Rightarrow> True | _ \<Rightarrow> False"
  by code_simp

theorem simulate_effect_errors_witness:
  "\<exists>e. simulate_action sample_state (ProviderAction.Filesystem
      (FilesystemAction.Create (NodeId 3) (NodeId 1) FilesystemKind.Ext4 None)) = Inl (ActionSimulationError.Effect e)
    \<and> e \<noteq> EffectApplicationError.MissingNode (NodeId 3)"
proof -
  obtain e where e: "simulate_action sample_state (ProviderAction.Filesystem
      (FilesystemAction.Create (NodeId 3) (NodeId 1) FilesystemKind.Ext4 None)) = Inl (ActionSimulationError.Effect e)"
    using sample_collision by (auto split: sum.splits ActionSimulationError.splits)
  from simulate_effect_errors [OF this] e show ?thesis by auto
qed

section \<open>Allocation domains\<close>

definition quantity_int :: "AllocationQuantity \<Rightarrow> int" where
  "quantity_int q = int (unat (quantity_get q))"

lemma quantity_checked:
  "checked_add (quantity_get a) (quantity_get b) = Some c \<Longrightarrow> quantity_int (AllocationQuantity c) = quantity_int a + quantity_int b"
  "checked_sub (quantity_get a) (quantity_get b) = Some c \<Longrightarrow> quantity_int (AllocationQuantity c) = quantity_int a - quantity_int b"
  unfolding checked_add_Some checked_sub_Some quantity_int_def AllocationQuantity.sel by linarith+

text \<open>The balance of a domain after a list of effects, as an unbounded integer.\<close>

fun balance :: "AllocationDomain \<Rightarrow> int \<Rightarrow> AllocationEffect list \<Rightarrow> int" where
  "balance d a [] = a"
| "balance d a (AllocationEffect.Reserve domain amount # es) =
     balance d (if domain = d then a - quantity_int amount else a) es"
| "balance d a (AllocationEffect.Release domain amount # es) =
     balance d (if domain = d then a + quantity_int amount else a) es"
| "balance d a (AllocationEffect.Invalidate domain # es) = balance d a es"

definition known_capacity :: "SimulationEvidence \<Rightarrow> AllocationDomain \<Rightarrow> int option" where
  "known_capacity ev d = map_option quantity_int (ev_available_capacity ev d)"

lemma apply_allocation_effect_balance:
  assumes "apply_allocation_effect ev e = Inr ev'"
  shows "known_capacity ev' d = (if e = AllocationEffect.Invalidate d then None
    else map_option (\<lambda>a. balance d a [e]) (known_capacity ev d))"
  using assms
  by (cases e; cases "ev_available_capacity ev d")
    (auto simp: apply_allocation_effect_def known_capacity_def quantity_checked split: option.splits)

text \<open>
  C16. Allocation effects are accounted exactly. A domain keeps a known capacity over a list of
  effects unless one of them invalidates it, and the known capacity is then the initial one
  plus everything released and minus everything reserved in that domain, computed without
  wrap-around; a domain whose capacity was unknown stays unknown.
\<close>

theorem allocation_accounting:
  assumes "apply_allocation_effects ev effects = Inr ev'"
  shows "known_capacity ev' d = (if AllocationEffect.Invalidate d \<in> set effects then None
    else map_option (\<lambda>a. balance d a effects) (known_capacity ev d))"
  using assms unfolding apply_allocation_effects_def
proof (induction effects arbitrary: ev)
  case Nil
  then show ?case by (simp add: option.map_ident)
next
  case (Cons e es)
  then obtain ev1 where ev1: "apply_allocation_effect ev e = Inr ev1" and rest: "try_fold apply_allocation_effect ev1 es = Inr ev'"
    by (auto split: sum.splits)
  have "balance d a (e # es) = balance d (balance d a [e]) es" for a by (cases e) auto
  then show ?case
    using Cons.IH [OF rest] apply_allocation_effect_balance [OF ev1, of d] by (auto simp: option.map_comp comp_def)
qed

definition sample_pool :: AllocationDomain where
  "sample_pool = AllocationDomain.LvmVolumeGroup (NodeId 1)"

definition sample_capacity :: SimulationEvidence where
  "sample_capacity = default_evidence\<lparr>ev_available_capacity := [sample_pool \<mapsto> AllocationQuantity 10]\<rparr>"

theorem allocation_accounting_witness:
  "\<exists>ev'. apply_allocation_effects sample_capacity [AllocationEffect.Reserve sample_pool (AllocationQuantity 7),
       AllocationEffect.Release sample_pool (AllocationQuantity 2)] = Inr ev' \<and> known_capacity ev' sample_pool = Some 5"
proof -
  obtain ev' where "apply_allocation_effects sample_capacity [AllocationEffect.Reserve sample_pool (AllocationQuantity 7),
       AllocationEffect.Release sample_pool (AllocationQuantity 2)] = Inr ev'"
    by (simp add: apply_allocation_effects_def apply_allocation_effect_def sample_capacity_def checked_sub_def checked_add_def)
  then show ?thesis using allocation_accounting [where d = sample_pool]
    by (fastforce simp: known_capacity_def sample_capacity_def quantity_int_def)
qed

section \<open>Invalidated observations\<close>

definition graph_edges :: "NodeGraph \<Rightarrow> (NodeId \<times> NodeId) set" where
  "graph_edges g = (\<lambda>d. (dep_from d, dep_to d)) ` set (g_dependencies g)"

definition content_graph_edges :: "NodeGraph \<Rightarrow> (NodeId \<times> NodeId) set" where
  "content_graph_edges g = (\<lambda>d. (dep_from d, dep_to d)) ` {d \<in> set (g_dependencies g).
     dep_kind d = DependencyKind.Backs \<or> (\<exists>offset. dep_kind d = DependencyKind.Contains offset)}"

text \<open>The nodes whose runtime presence, and those whose content, a list of facts makes stale.\<close>

definition stale_runtime :: "FactInvalidation list \<Rightarrow> NodeId set" where
  "stale_runtime facts = {n. \<exists>f \<in> set facts. fi_scope f = FactScope.Node n \<and> fi_kind f \<in> {FactKind.Activation, FactKind.Presence}}"

definition stale_content :: "FactInvalidation list \<Rightarrow> NodeId set" where
  "stale_content facts = {n. \<exists>f \<in> set facts. fi_scope f = FactScope.Node n
     \<and> fi_kind f \<in> {FactKind.Content, FactKind.Geometry, FactKind.Presence}}"

lemma stale_runtime_iff: "(\<exists>f \<in> set facts. runtime_node f = Some n) \<longleftrightarrow> n \<in> stale_runtime facts"
proof -
  have "runtime_node f = Some n \<longleftrightarrow> fi_scope f = FactScope.Node n \<and> fi_kind f \<in> {FactKind.Activation, FactKind.Presence}" for f
    by (cases "fi_scope f") (auto simp: runtime_node_def)
  then show ?thesis by (simp add: stale_runtime_def)
qed

lemma stale_content_nodes: "set (List.map_filter content_node facts) = stale_content facts"
proof -
  have "content_node f = Some n \<longleftrightarrow> fi_scope f = FactScope.Node n
      \<and> fi_kind f \<in> {FactKind.Content, FactKind.Geometry, FactKind.Presence}" for f n
    by (cases "fi_scope f") (auto simp: content_node_def)
  then show ?thesis by (simp add: stale_content_def in_map_filter set_eq_iff)
qed

lemma set_push_facts: "set (fold (\<lambda>m. push_fact (h m)) ms fs) = set fs \<union> h ` set ms"
  by (induction ms arbitrary: fs) (auto simp: push_fact_def)

lemma set_expand_fold:
  "set (fold (\<lambda>f expanded. case activation_node f of None \<Rightarrow> expanded
      | Some n \<Rightarrow> fold (\<lambda>m. push_fact (activation_fact m)) (walk E [n] []) expanded) fs acc)
   = set acc \<union> {activation_fact m | f n m. f \<in> set fs \<and> activation_node f = Some n \<and> (n, m) \<in> (set E)\<^sup>*}"
proof (induction fs arbitrary: acc)
  case Nil
  then show ?case by simp
next
  case (Cons f fs)
  show ?case
  proof (cases "activation_node f")
    case None
    then show ?thesis using Cons.IH by auto
  next
    case (Some n)
    have "{activation_fact m | g k m. g \<in> set (f # fs) \<and> activation_node g = Some k \<and> (k, m) \<in> (set E)\<^sup>*}
        = activation_fact ` ((set E)\<^sup>* `` {n})
          \<union> {activation_fact m | g k m. g \<in> set fs \<and> activation_node g = Some k \<and> (k, m) \<in> (set E)\<^sup>*}"
      using Some by auto
    moreover have "set (walk E [n] []) = (set E)\<^sup>* `` {n}" using set_walk [of E "[n]"] by simp
    ultimately show ?thesis
      by (simp add: Some Cons.IH set_push_facts del: walk.simps) blast
  qed
qed

lemma activation_node_iff: "activation_node f = Some n \<longleftrightarrow> f = activation_fact n"
  by (cases f) (auto simp: activation_node_def activation_fact_def split: FactScope.splits FactKind.splits)

lemma set_expand_invalidations:
  "set (expand_invalidations g facts)
     = set facts \<union> {activation_fact m | n m. activation_fact n \<in> set facts \<and> (n, m) \<in> (graph_edges g)\<^sup>*}"
proof -
  have "set (activation_edges g) = graph_edges g" by (simp add: activation_edges_def graph_edges_def)
  then show ?thesis
    unfolding expand_invalidations_def set_expand_fold activation_node_iff by auto
qed

lemma recorded_fields:
  "set (ev_invalidated_facts (fold record_invalidation fs ev)) = set (ev_invalidated_facts ev) \<union> set fs"
  "ev_activations (fold record_invalidation fs ev) n
     = (if \<exists>f \<in> set fs. runtime_node f = Some n then None else ev_activations ev n)"
  "ev_block_interfaces (fold record_invalidation fs ev) n
     = (if \<exists>f \<in> set fs. runtime_node f = Some n then None else ev_block_interfaces ev n)"
  by (induction fs arbitrary: ev) (auto simp: record_invalidation_def push_fact_def Let_def split: option.splits)

text \<open>
  C15. Invalidation spreads exactly as far as the topology says. An invalidated activation
  reaches the node and everything built on it through any chain of dependencies, and nothing
  else is added; every expanded fact is recorded as stale; the activation and endpoint claims
  are revoked for exactly the nodes whose activation or presence became stale; and a passed
  filesystem check survives exactly when the filesystem is not reachable, through edges that
  carry content, from a node whose content, geometry or presence changed.
\<close>

theorem invalidation_exact:
  assumes "invalidate_observations g facts ev = (expanded, ev')"
  shows "set expanded = set facts \<union> {activation_fact m | n m. activation_fact n \<in> set facts \<and> (n, m) \<in> (graph_edges g)\<^sup>*}
    \<and> (\<forall>scope k. is_observation_stale ev' scope k \<longleftrightarrow> is_observation_stale ev scope k
          \<or> \<lparr>fi_scope = scope, fi_kind = k\<rparr> \<in> set expanded)
    \<and> (\<forall>n. ev_activations ev' n = (if n \<in> stale_runtime expanded then None else ev_activations ev n)
         \<and> ev_block_interfaces ev' n = (if n \<in> stale_runtime expanded then None else ev_block_interfaces ev n))
    \<and> ev_checked_filesystems (invalidate_filesystem_checks g facts ev') = {fs \<in> ev_checked_filesystems ev'.
         \<not> (\<exists>n \<in> stale_content facts. (n, fs) \<in> (content_graph_edges g)\<^sup>*)}"
proof -
  have e: "expanded = expand_invalidations g facts" and ev': "ev' = fold record_invalidation expanded ev"
    using assms by (auto simp: invalidate_observations_def Let_def)
  have "carries_content k \<longleftrightarrow> k = DependencyKind.Backs \<or> (\<exists>offset. k = DependencyKind.Contains offset)" for k
    by (cases k) (auto simp: carries_content_def)
  then have "set (content_edges g) = content_graph_edges g" by (simp add: content_edges_def content_graph_edges_def)
  then have "ev_checked_filesystems (invalidate_filesystem_checks g facts ev') = {fs \<in> ev_checked_filesystems ev'.
         \<not> (\<exists>n \<in> stale_content facts. (n, fs) \<in> (content_graph_edges g)\<^sup>*)}"
    by (simp add: invalidate_filesystem_checks_def set_walk) (auto simp: Image_iff stale_content_nodes)
  moreover have "is_observation_stale ev' scope k \<longleftrightarrow> is_observation_stale ev scope k
      \<or> \<lparr>fi_scope = scope, fi_kind = k\<rparr> \<in> set expanded" for scope k
  proof -
    have "(\<exists>f \<in> A. fi_scope f = scope \<and> fi_kind f = k) \<longleftrightarrow> \<lparr>fi_scope = scope, fi_kind = k\<rparr> \<in> A" for A :: "FactInvalidation set"
    proof -
      have "fi_scope f = scope \<and> fi_kind f = k \<longleftrightarrow> f = \<lparr>fi_scope = scope, fi_kind = k\<rparr>" for f :: FactInvalidation
        by (cases f) auto
      then show ?thesis by auto
    qed
    then show ?thesis by (simp add: is_observation_stale_def list_ex_iff ev' recorded_fields)
  qed
  moreover have "ev_activations ev' n = (if n \<in> stale_runtime expanded then None else ev_activations ev n)
      \<and> ev_block_interfaces ev' n = (if n \<in> stale_runtime expanded then None else ev_block_interfaces ev n)" for n
    using recorded_fields(2,3) [of expanded ev n] ev' unfolding stale_runtime_iff by blast
  moreover have "set expanded = set facts \<union> {activation_fact m | n m. activation_fact n \<in> set facts \<and> (n, m) \<in> (graph_edges g)\<^sup>*}"
    using e set_expand_invalidations by simp
  ultimately show ?thesis by blast
qed

theorem invalidation_exact_witness:
  "activation_fact (NodeId 3) \<in> set (fst (invalidate_observations sample_graph [activation_fact (NodeId 1)] default_evidence))"
proof -
  have "(NodeId 1, NodeId 2) \<in> graph_edges sample_graph" "(NodeId 2, NodeId 3) \<in> graph_edges sample_graph"
    by (simp_all add: graph_edges_def sample_graph_def)
  then have "(NodeId 1, NodeId 3) \<in> (graph_edges sample_graph)\<^sup>*" by (meson rtrancl.simps)
  then show ?thesis
    using invalidation_exact [of sample_graph "[activation_fact (NodeId 1)]" default_evidence] by (auto simp: prod_eq_iff)
qed

section \<open>Shrinking and destruction\<close>

lemma checked_after_graph:
  assumes "apply_graph_effects s es = Inr s'"
  shows "ev_checked_filesystems (snd s') = ev_checked_filesystems (snd s)"
proof (rule try_fold_invariant [OF assms [unfolded apply_graph_effects_def],
      where P = "\<lambda>t. ev_checked_filesystems (snd t) = ev_checked_filesystems (snd s)"])
  fix t e t'
  assume "ev_checked_filesystems (snd t) = ev_checked_filesystems (snd s)" and run: "apply_graph_effect t e = Inr t'"
  moreover have "ev_checked_filesystems (snd t') = ev_checked_filesystems (snd t)"
  proof -
    have "update_node t n name f = Inr t' \<Longrightarrow> ?thesis" for n name f
      by (auto simp: update_node_def and_then_Inr_iff split: prod.splits if_splits)
    then show ?thesis using run
      by (cases e) (auto simp: apply_graph_effect_def and_then_Inr_iff split: prod.splits if_splits)
  qed
  ultimately show "ev_checked_filesystems (snd t') = ev_checked_filesystems (snd s)" by simp
qed simp

lemma checked_after_allocation_effect:
  "apply_allocation_effect ev e = Inr ev' \<Longrightarrow> ev_checked_filesystems ev' = ev_checked_filesystems ev"
  by (cases e) (auto simp: apply_allocation_effect_def split: option.splits)

lemma checked_after_allocation:
  assumes "apply_allocation_effects ev es = Inr ev'"
  shows "ev_checked_filesystems ev' = ev_checked_filesystems ev"
  by (rule try_fold_invariant [OF assms [unfolded apply_allocation_effects_def],
        where P = "\<lambda>e. ev_checked_filesystems e = ev_checked_filesystems ev"])
    (simp_all add: checked_after_allocation_effect)

text \<open>What the contract of a filesystem resize leaves behind: the geometry of the filesystem is stale, nothing is checked.\<close>

definition leaves_unchecked :: "NodeId \<Rightarrow> ActionContract \<Rightarrow> bool" where
  "leaves_unchecked fs c \<longleftrightarrow> \<lparr>fi_scope = FactScope.Node fs, fi_kind = FactKind.Geometry\<rparr> \<in> set (ac_invalidated_facts c)
     \<and> ActionOutput.FilesystemCheckPassed fs \<notin> set (ac_provided_outputs c)"

lemma leaves_unchecked_steps [simp]:
  "leaves_unchecked fs (prerequire ps c) = leaves_unchecked fs c" "leaves_unchecked fs (read_res r c) = leaves_unchecked fs c"
  "leaves_unchecked fs (access r m c) = leaves_unchecked fs c" "leaves_unchecked fs (write_res r c) = leaves_unchecked fs c"
  by (simp_all add: leaves_unchecked_def prerequire_def read_res_def write_res_def access_def)

lemma leaves_unchecked_backing [simp]:
  "leaves_unchecked fs (access_filesystem_backing g n m c) = leaves_unchecked fs c"
  unfolding access_filesystem_backing_def by (rule for_each_keep) (simp add: build_simps step_if_def)

lemma resize_leaves_unchecked:
  "leaves_unchecked fs (describe_action (ProviderAction.Filesystem (FilesystemAction.Resize fs sz)) g)"
proof -
  have base: "leaves_unchecked fs (resize_contract g fs sz NodeKindClass.Filesystem safety)" for safety
    by (simp add: resize_contract_def build_simps step_if_def leaves_unchecked_def contract_def require_kind_def prerequire_def
        write_res_def access_def graph_effects_def invalidate_def invalidate_scope_def postcond_def)
  let ?c = "describe_technology (ProviderAction.Filesystem (FilesystemAction.Resize fs sz)) g"
  have c: "leaves_unchecked fs ?c"
    by (simp add: describe_technology_def describe_filesystem_def build_simps step_if_def Let_def base)
  have outs: "ActionOutput.FilesystemCheckPassed fs \<notin> set (outputs_from_effect e)" for e
    by (auto simp: outputs_from_effect_def in_map_filter graph_output_def mount_output_def
        split: GraphEffect.splits MountEffect.splits if_splits)
  have "leaves_unchecked fs (add_output_resources (d\<lparr>ac_provided_outputs := outputs_from_effect (ac_predicted_effect d) @ ac_provided_outputs d\<rparr>))"
    if "leaves_unchecked fs d" for d
  proof -
    have "leaves_unchecked fs (add_output_resources d) = leaves_unchecked fs d" for d
      unfolding add_output_resources_def by (rule for_each_keep) simp
    then show ?thesis using that outs by (simp add: leaves_unchecked_def)
  qed
  then show ?thesis using c by (simp add: describe_action_def build_simps step_if_def)
qed

lemma apply_outputs_checked:
  "ev_checked_filesystems (apply_outputs outs ev)
     = ev_checked_filesystems ev \<union> {fs. ActionOutput.FilesystemCheckPassed fs \<in> set outs}"
  unfolding apply_outputs_def
  by (induction outs arbitrary: ev) (auto simp: apply_output_def split: ActionOutput.splits)

lemma resize_no_mount_effects: "mfx (describe_action (ProviderAction.Filesystem a) g) = []"
  by (simp add: describe_action_obs(3) describe_technology_def other_technologies_no_mounts)

lemma resize_revokes_check:
  assumes "simulate_action (des, ev) (ProviderAction.Filesystem (FilesystemAction.Resize fs sz)) = Inr (result, (des', ev'))"
  shows "fs \<notin> ev_checked_filesystems ev'"
proof (rule simulate_action_Inr [OF assms], erule apply_effect_Inr)
  let ?c = "describe_action (ProviderAction.Filesystem (FilesystemAction.Resize fs sz)) (des_graph des)"
  fix des1 ev1 s1 des2 ev3 ev4
  assume c: "sa_contract result = ?c"
    and fin: "(des', ev') = (des1, apply_outputs (ac_provided_outputs (sa_contract result)) ev1)" "(des1, ev1) = (des2, ev4)"
    and g: "apply_graph_effects (des, invalidate_filesystem_checks (des_graph des) (ac_invalidated_facts (sa_contract result))
      (snd (invalidate_observations (des_graph des) (ac_invalidated_facts (sa_contract result)) ev)))
      (pe_graph (ac_predicted_effect (sa_contract result))) = Inr s1"
    and m: "apply_mount_effects s1 (pe_mounts (ac_predicted_effect (sa_contract result))) = Inr (des2, ev3)"
    and a: "apply_allocation_effects ev3 (pe_allocations (ac_predicted_effect (sa_contract result))) = Inr ev4"
  have s1: "s1 = (des2, ev3)"
    using m c resize_no_mount_effects [of "FilesystemAction.Resize fs sz" "des_graph des"] by (simp add: mfx_def apply_mount_effects_def)
  have left: "leaves_unchecked fs (sa_contract result)" using c resize_leaves_unchecked by simp
  then have "fs \<in> set (List.map_filter content_node (ac_invalidated_facts (sa_contract result)))"
    by (force simp: leaves_unchecked_def in_map_filter content_node_def)
  then have "fs \<notin> ev_checked_filesystems (invalidate_filesystem_checks (des_graph des) (ac_invalidated_facts (sa_contract result)) e)" for e
    by (auto simp: invalidate_filesystem_checks_def set_walk)
  then have "fs \<notin> ev_checked_filesystems ev4"
    using checked_after_graph [OF g] checked_after_allocation [OF a] s1 by simp
  then show ?thesis using fin left by (simp add: apply_outputs_checked leaves_unchecked_def)
qed

lemma passed_prerequisite:
  assumes "simulate_action (des, ev) action = Inr (result, s')" and "p \<in> reqs (describe_action action (des_graph des))"
  shows "\<not> is_violated (evaluate_prerequisite des ev p)"
    and "\<lparr>pc_prerequisite = p, pc_status = evaluate_prerequisite des ev p\<rparr> \<in> set (sa_checks result)"
proof -
  show "\<not> is_violated (evaluate_prerequisite des ev p)"
    by (rule simulate_action_Inr [OF assms(1)]) (use assms(2) in \<open>simp add: reqs_def\<close>)
  show "\<lparr>pc_prerequisite = p, pc_status = evaluate_prerequisite des ev p\<rparr> \<in> set (sa_checks result)"
    using assms by (auto simp: simulate_action_def Let_def and_then_Inr_iff evaluate_prerequisites_def reqs_def
        split: if_splits prod.splits)
qed

text \<open>
  C11. A filesystem is only shrunk after a fresh check. When an action that may shrink a
  filesystem (its recorded size is larger, or not known) is simulated successfully, a forced
  check of that filesystem has passed and was not revoked since, no runtime mount uses the
  filesystem, and the check is used up: a further action that may shrink it is rejected until
  it is checked again.
\<close>

theorem shrink_needs_fresh_check:
  assumes "simulate_action (des, ev) (ProviderAction.Filesystem (FilesystemAction.Resize fs sz)) = Inr (result, (des', ev'))"
    and "is_none_or (known_size (des_graph des) fs) (\<lambda>current. current > sz)"
  shows "fs \<in> ev_checked_filesystems ev
    \<and> (\<forall>m \<in> set (msp_runtime (des_mounts des)). me_source m \<noteq> MountSource.Filesystem fs)
    \<and> fs \<notin> ev_checked_filesystems ev'
    \<and> (\<forall>sz'. is_none_or (known_size (des_graph des') fs) (\<lambda>current. current > sz') \<longrightarrow>
         \<not> is_ok (simulate_action (des', ev') (ProviderAction.Filesystem (FilesystemAction.Resize fs sz'))))"
proof -
  have checked: "fs \<in> ev_checked_filesystems e"
    if "simulate_action (d, e) (ProviderAction.Filesystem (FilesystemAction.Resize fs z)) = Inr (r, t)"
      and "is_none_or (known_size (des_graph d) fs) (\<lambda>current. current > z)" for d e z r t
    using passed_prerequisite(1) [OF that(1), of "ActionPrerequisite.FilesystemCheckPassed fs"] shrink_prepared [OF that(2)]
    by (auto simp: evaluate_prerequisite_def is_violated_def split: if_splits)
  have "\<not> is_violated (evaluate_prerequisite des ev (ActionPrerequisite.FilesystemUnmounted fs))"
    using passed_prerequisite(1) [OF assms(1)] shrink_prepared [OF assms(2)] by blast
  then have "\<forall>m \<in> set (msp_runtime (des_mounts des)). me_source m \<noteq> MountSource.Filesystem fs"
    by (auto simp: evaluate_prerequisite_def is_violated_def list_ex_iff Let_def split: if_splits)
  moreover have "\<not> is_ok (simulate_action (des', ev') (ProviderAction.Filesystem (FilesystemAction.Resize fs sz')))"
    if "is_none_or (known_size (des_graph des') fs) (\<lambda>current. current > sz')" for sz'
    using checked [of des' ev' sz'] that resize_revokes_check [OF assms(1)] by (auto simp: is_ok_iff)
  ultimately show ?thesis using checked [OF assms] resize_revokes_check [OF assms(1)] by blast
qed

definition shrink_state :: SimState where
  "shrink_state = ((from_current sample_current)\<lparr>des_graph := sample_graph\<lparr>
       g_nodes := g_nodes sample_graph @ [(NodeId 4, sample_node (NodeKind.Filesystem FilesystemKind.Ext4 None))],
       g_dependencies := g_dependencies sample_graph
         @ [\<lparr>dep_from = NodeId 3, dep_to = NodeId 4, dep_kind = DependencyKind.Backs\<rparr>]\<rparr>\<rparr>,
     default_evidence\<lparr>ev_checked_filesystems := {NodeId 4}\<rparr>)"

lemma shrink_simulates:
  "is_ok (simulate_action shrink_state (ProviderAction.Filesystem (FilesystemAction.Resize (NodeId 4) (Bytes 1048576))))"
  "is_none_or (known_size (des_graph (fst shrink_state)) (NodeId 4)) (\<lambda>current. current > Bytes 1048576)"
  by code_simp+

theorem shrink_needs_fresh_check_witness:
  "\<exists>result s'. simulate_action shrink_state (ProviderAction.Filesystem (FilesystemAction.Resize (NodeId 4) (Bytes 1048576)))
       = Inr (result, s') \<and> NodeId 4 \<in> ev_checked_filesystems (snd shrink_state) \<and> NodeId 4 \<notin> ev_checked_filesystems (snd s')"
proof -
  obtain result s' where run: "simulate_action (fst shrink_state, snd shrink_state)
      (ProviderAction.Filesystem (FilesystemAction.Resize (NodeId 4) (Bytes 1048576))) = Inr (result, (fst s', snd s'))"
    using shrink_simulates(1) by (auto simp: is_ok_iff)
  from shrink_needs_fresh_check [OF this shrink_simulates(2)] show ?thesis using run by auto
qed










end
