(* ===== verification/Plan_Document.thy ===== *)
theory Plan_Document
  imports Compose
begin

text \<open>
  Historical plan documents (\<^verbatim>\<open>storage-engine/src/wire.rs\<close>): the saved description of a plan with
  its baseline, goal and protected scope, and the analysis every document goes through before
  anything trusts it. Reading and writing JSON is not modelled; the comparison of two baselines,
  which the code makes on their canonical JSON, is a parameter.
\<close>

record HistoricalBaseline =
  hb_id :: uuid
  hb_snapshot :: CurrentState
  hb_capacity_evidence :: "CapacityEvidence list"

record PlanDocument =
  doc_schema_version :: u32
  doc_action_semantics_version :: u32
  doc_plan_id :: uuid
  doc_baseline :: HistoricalBaseline
  doc_requested_goal :: DesiredState
  doc_protected_scope :: ProtectedScope
  doc_actions :: "PlannedAction list"
  doc_dependencies :: "ActionDependency list"

record HistoricalAnalysis =
  ha_plan_id :: uuid
  ha_baseline_id :: uuid
  ha_plan :: ExecutionPlan
  ha_report :: SimulationReport

text \<open>The reason of a structural error is a message; a graph error stands for the message it is printed as.\<close>

datatype StructureReason = InvalidGraph GraphError | Reason string

datatype PlanDocumentError =
    SchemaVersion u32
  | SemanticsVersion u32
  | InvalidIdentity
  | BaselineMismatch
  | Structure StructureReason
  | Simulation PlanSimulationError
  | Composition CompositionError
  | GoalViolation GoalAspect
  | UncoveredIntent nat
  | ProtectionViolation ProtectionViolation

definition PLAN_SCHEMA_VERSION :: u32 where
  "PLAN_SCHEMA_VERSION = 3"

definition ACTION_SEMANTICS_VERSION :: u32 where
  "ACTION_SEMANTICS_VERSION = 11"

text \<open>The conversions of errors that the question mark operator applies.\<close>

definition map_fault :: "('e \<Rightarrow> 'f) \<Rightarrow> 'e fault \<Rightarrow> 'f fault" where
  "map_fault f x = (case x of Panic \<Rightarrow> Panic | OutOfFuel \<Rightarrow> OutOfFuel | Failed e \<Rightarrow> Failed (f e))"

definition structure_error :: "string \<Rightarrow> PlanDocumentError fault" where
  "structure_error reason = Failed (PlanDocumentError.Structure (StructureReason.Reason reason))"

section \<open>Structural validation\<close>

type_synonym Identities = "(FragmentId \<times> LocalActionId) set \<times> (FragmentId \<rightharpoonup> FragmentOrigin)"

definition check_action_identity ::
  "Identities \<Rightarrow> nat \<times> PlannedAction \<Rightarrow> (PlanDocumentError fault, Identities) result" where
  "check_action_identity s p = (case (s, p) of ((local_ids, origins), (index, action)) \<Rightarrow>
     if action_index (pa_id action) \<noteq> index
     then Inl (structure_error ''action IDs must be unique and contiguous from zero'')
     else if (pa_fragment action, pa_local_id action) \<in> local_ids
     then Inl (structure_error ''duplicate fragment-local action identity'')
     else if is_some_and (origins (pa_fragment action)) (\<lambda>origin. origin \<noteq> pa_origin action)
     then Inl (structure_error ''inconsistent origin within one fragment'')
     else Inr (insert (pa_fragment action, pa_local_id action) local_ids,
               origins(pa_fragment action \<mapsto> pa_origin action)))"

definition check_dependency_edge ::
  "nat \<Rightarrow> (ActionId \<times> ActionId) set \<Rightarrow> ActionDependency \<Rightarrow>
   (PlanDocumentError fault, (ActionId \<times> ActionId) set) result" where
  "check_dependency_edge n edges d =
     (if n \<le> action_index (ad_before d) \<or> n \<le> action_index (ad_after d)
         \<or> ad_before d = ad_after d \<or> (ad_before d, ad_after d) \<in> edges
      then Inl (structure_error ''invalid or duplicate dependency endpoints'')
      else Inr (insert (ad_before d, ad_after d) edges))"

definition check_document_graph :: "unit \<Rightarrow> NodeGraph \<Rightarrow> (PlanDocumentError fault, unit) result" where
  "check_document_graph _ g =
     map_err (\<lambda>e. Failed (PlanDocumentError.Structure (StructureReason.InvalidGraph e))) (validate_structure g)"

definition structural_plan :: "PlanDocument \<Rightarrow> (PlanDocumentError fault, ExecutionPlan) result" where
  "structural_plan doc =
     and_then (try_fold check_document_graph ()
       [cur_graph (hb_snapshot (doc_baseline doc)), des_graph (doc_requested_goal doc)]) (\<lambda>_.
     let actions = sort_key pa_id (doc_actions doc) in
     and_then (try_fold check_action_identity ({}, Map.empty) (enumerate 0 actions)) (\<lambda>_.
     and_then (try_fold (check_dependency_edge (length actions)) {} (doc_dependencies doc)) (\<lambda>_.
     and_then (map_err (map_fault PlanDocumentError.Composition)
       (topological_order (length actions) (doc_dependencies doc))) (\<lambda>_.
       Inr \<lparr>plan_actions = actions, plan_dependencies = doc_dependencies doc\<rparr>))))"

section \<open>Analysis\<close>

definition plan_contracts :: "ExecutionPlan \<Rightarrow> (ActionId \<times> ActionContract) list" where
  "plan_contracts plan = map (\<lambda>a. (pa_id a, pa_informational_contract a)) (plan_actions plan)"

definition is_goal_violation :: "GoalCheck \<Rightarrow> bool" where
  "is_goal_violation c = (case gc_status c of GoalStatus.Violated _ \<Rightarrow> True | _ \<Rightarrow> False)"

text \<open>The verdict on the report of the goal simulation: the last part of the analysis.\<close>

definition conclude_analysis ::
  "PlanDocument \<Rightarrow> ExecutionPlan \<Rightarrow> SimulationReport \<Rightarrow> (PlanDocumentError fault, HistoricalAnalysis) result" where
  "conclude_analysis doc plan report = (case rep_protection_violations report of
       v # _ \<Rightarrow> Inl (Failed (PlanDocumentError.ProtectionViolation v))
     | [] \<Rightarrow> (case find is_goal_violation (rep_goal_checks report) of
         Some check \<Rightarrow> Inl (Failed (PlanDocumentError.GoalViolation (gc_aspect check)))
       | None \<Rightarrow> (case find (\<lambda>c. \<not> ic_covered c) (rep_intent_coverage report) of
           Some intent \<Rightarrow> Inl (Failed (PlanDocumentError.UncoveredIntent (ic_index intent)))
         | None \<Rightarrow> Inr \<lparr>ha_plan_id = doc_plan_id doc, ha_baseline_id = hb_id (doc_baseline doc),
             ha_plan = plan, ha_report = report\<rparr>)))"

definition analyse_historical ::
  "ContractKeys \<Rightarrow> PlanDocument \<Rightarrow> (PlanDocumentError fault, HistoricalAnalysis) result" where
  "analyse_historical keys doc =
    (if doc_schema_version doc \<noteq> PLAN_SCHEMA_VERSION
     then Inl (Failed (PlanDocumentError.SchemaVersion (doc_schema_version doc)))
     else if doc_action_semantics_version doc \<noteq> ACTION_SEMANTICS_VERSION
     then Inl (Failed (PlanDocumentError.SemanticsVersion (doc_action_semantics_version doc)))
     else if uuid_is_nil (doc_plan_id doc) \<or> uuid_is_nil (hb_id (doc_baseline doc))
     then Inl (Failed PlanDocumentError.InvalidIdentity)
     else
     and_then (structural_plan doc) (\<lambda>draft.
     and_then (map_err (map_fault PlanDocumentError.Simulation)
       (replay_plan keys (hb_snapshot (doc_baseline doc)) draft (hb_capacity_evidence (doc_baseline doc)))) (\<lambda>(plan, _).
     and_then (map_err (map_fault PlanDocumentError.Composition)
       (validate_resource_order (plan_contracts plan) (plan_dependencies plan))) (\<lambda>_.
     and_then (map_err (map_fault PlanDocumentError.Simulation)
       (simulate_plan_for_goal_with_policy keys (hb_snapshot (doc_baseline doc)) plan (doc_requested_goal doc)
         (hb_capacity_evidence (doc_baseline doc)) (doc_protected_scope doc))) (\<lambda>report.
       conclude_analysis doc plan report)))))"

definition analyse_against ::
  "(HistoricalBaseline \<Rightarrow> HistoricalBaseline \<Rightarrow> (PlanDocumentError fault, bool) result) \<Rightarrow> ContractKeys \<Rightarrow>
   PlanDocument \<Rightarrow> HistoricalBaseline \<Rightarrow> (PlanDocumentError fault, HistoricalAnalysis) result" where
  "analyse_against has_same_observations keys doc expected =
     and_then (if hb_id (doc_baseline doc) \<noteq> hb_id expected then Inr False
               else has_same_observations (doc_baseline doc) expected) (\<lambda>same.
     if \<not> same then Inl (Failed PlanDocumentError.BaselineMismatch) else analyse_historical keys doc)"

text \<open>The identifiers that \<^verbatim>\<open>Uuid::now_v7\<close> draws are arguments.\<close>

definition capture_with_baseline ::
  "ContractKeys \<Rightarrow> uuid \<Rightarrow> ExecutionPlan \<Rightarrow> HistoricalBaseline \<Rightarrow> DesiredState \<Rightarrow> ProtectedScope \<Rightarrow>
   (PlanDocumentError fault, PlanDocument) result" where
  "capture_with_baseline keys fresh plan baseline goal protected =
     (let document = \<lparr>doc_schema_version = PLAN_SCHEMA_VERSION, doc_action_semantics_version = ACTION_SEMANTICS_VERSION,
        doc_plan_id = fresh, doc_baseline = baseline, doc_requested_goal = goal, doc_protected_scope = protected,
        doc_actions = plan_actions plan, doc_dependencies = plan_dependencies plan\<rparr> in
      and_then (analyse_historical keys document) (\<lambda>_. Inr document))"

definition capture ::
  "ContractKeys \<Rightarrow> uuid \<Rightarrow> uuid \<Rightarrow> ExecutionPlan \<Rightarrow> CurrentState \<Rightarrow> DesiredState \<Rightarrow> CapacityEvidence list \<Rightarrow>
   ProtectedScope \<Rightarrow> (PlanDocumentError fault, PlanDocument) result" where
  "capture keys fresh_plan fresh_baseline plan current goal capacity protected =
     capture_with_baseline keys fresh_plan plan
       \<lparr>hb_id = fresh_baseline, hb_snapshot = current, hb_capacity_evidence = capacity\<rparr> goal protected"

end
