(* ===== verification/Execution_Run.thy ===== *)
theory Execution_Run
  imports Plan_Document
begin

text \<open>
  Live observations (\<^verbatim>\<open>storage-engine/src/live.rs\<close>) and the lifecycle of one execution attempt
  (\<^verbatim>\<open>storage-engine/src/execution.rs\<close>). The methods of \<^verbatim>\<open>ExecutionRun\<close> take \<^verbatim>\<open>&mut self\<close>; each is a
  function from the run to its result and the run it leaves behind, on success and on failure,
  so what an error leaves behind is part of the model.
\<close>

section \<open>Live observations\<close>

record ObservationReference =
  or_probe_instance :: uuid
  or_epoch :: ProbeEpoch

record LiveObservation =
  lo_reference :: ObservationReference
  lo_snapshot :: CurrentState

datatype ObservationError =
    NilInstance
  | Graph GraphError
  | NilNode
  | NodeEpoch NodeId
  | MountSource NodeId

definition check_observed_node ::
  "ProbeEpoch \<Rightarrow> unit \<Rightarrow> NodeId \<times> Node \<Rightarrow> (ObservationError, unit) result" where
  "check_observed_node epoch _ p = (case p of (nid, n) \<Rightarrow>
     if uuid_is_nil (as_uuid nid) then Inl ObservationError.NilNode
     else if is_some_and (facts_observed_in (node_size n)) (\<lambda>e. e \<noteq> epoch) then Inl (ObservationError.NodeEpoch nid)
     else Inr ())"

definition check_observed_source :: "NodeGraph \<Rightarrow> unit \<Rightarrow> ObservedMount \<Rightarrow> (ObservationError, unit) result" where
  "check_observed_source g _ m = (case mount_source_node (om_source m) of
      None \<Rightarrow> Inr ()
    | Some n \<Rightarrow> if graph_node g n = None then Inl (ObservationError.MountSource n) else Inr ())"

definition validate_observation :: "LiveObservation \<Rightarrow> (ObservationError, unit) result" where
  "validate_observation obs =
     (if uuid_is_nil (or_probe_instance (lo_reference obs)) then Inl ObservationError.NilInstance
      else
      and_then (map_err ObservationError.Graph (validate_structure (cur_graph (lo_snapshot obs)))) (\<lambda>_.
      and_then (try_fold (check_observed_node (or_epoch (lo_reference obs))) () (g_nodes (cur_graph (lo_snapshot obs)))) (\<lambda>_.
        try_fold (check_observed_source (cur_graph (lo_snapshot obs))) () (ms_entries (cur_mounts (lo_snapshot obs))))))"

section \<open>Reports\<close>

datatype ActionRunState = Waiting | Checking | Admitted | Running | Verifying | Verified | Failed | OutcomeUnknown

datatype LiveCheckStatus = Satisfied | Violated string | Unknown string

record 'c LiveCheck =
  lc_condition :: 'c
  lc_status :: LiveCheckStatus

record AdmissionReport =
  ar_run_id :: uuid
  ar_action :: ActionId
  ar_observation :: LiveObservation
  ar_applicability :: LiveCheckStatus
  ar_held_resources :: "ResourceAccess list"
  ar_checks :: "ActionPrerequisite LiveCheck list"

datatype BackendOutcome = Succeeded | Failed string | OutcomeUnknown string

record BackendCompletion =
  bc_run_id :: uuid
  bc_action :: ActionId
  bc_outcome :: BackendOutcome
  bc_observation :: LiveObservation

record VerificationReport =
  vr_run_id :: uuid
  vr_action :: ActionId
  vr_observation :: ObservationReference
  vr_checks :: "Postcondition LiveCheck list"

record GoalVerificationReport =
  gv_run_id :: uuid
  gv_observation :: LiveObservation
  gv_checks :: "GoalAspect LiveCheck list"
  gv_preservation :: LiveCheckStatus

section \<open>The run\<close>

datatype RunEventKind =
    ActionState ActionId ActionRunState
  | Progress ActionId string
  | Admission ActionId bool
  | GoalVerification bool

record RunEvent =
  re_run_id :: uuid
  re_sequence :: u64
  re_kind :: RunEventKind

record EventsPage =
  page_events :: "RunEvent list"
  page_next_sequence :: u64
  page_gap :: bool

record ActionRun =
  act_state :: ActionRunState
  act_admission :: "AdmissionReport option"
  act_completion :: "BackendCompletion option"
  act_verification :: "VerificationReport option"
  act_pre_dispatch_failure :: "string option"
  act_unknown_reason :: "string option"

record ExecutionRun =
  run_run_id :: uuid
  run_document :: PlanDocument
  run_plan :: ExecutionPlan
  run_actions :: "ActionRun list"
  run_latest_observation :: "LiveObservation option"
  run_goal_aspects :: "GoalAspect list"
  run_goal_verification :: "GoalVerificationReport option"
  run_events :: "RunEvent list"
  run_next_event_sequence :: u64

datatype ExecutionRunError =
    Document PlanDocumentError
  | UnknownAction ActionId
  | InvalidTransition ActionId ActionRunState
  | PredecessorNotVerified ActionId ActionId
  | ActiveAction
  | RunStopped
  | ReportMismatch
  | IncompleteChecks
  | MissingResources
  | StaleObservation
  | InvalidObservation ObservationError
  | ActionsNotVerified
  | EventSequenceExhausted
  | InvalidEventCursor u64 u64
  | ProgressTooLarge

definition MAX_RUN_EVENTS :: nat where
  "MAX_RUN_EVENTS = 1024"

definition MAX_PROGRESS_BYTES :: nat where
  "MAX_PROGRESS_BYTES = 4096"

definition waiting_action :: ActionRun where
  "waiting_action = \<lparr>act_state = ActionRunState.Waiting, act_admission = None, act_completion = None,
     act_verification = None, act_pre_dispatch_failure = None, act_unknown_reason = None\<rparr>"

definition execution_run_new ::
  "ContractKeys \<Rightarrow> uuid \<Rightarrow> PlanDocument \<Rightarrow> (ExecutionRunError fault, ExecutionRun) result" where
  "execution_run_new keys fresh document =
     and_then (map_err (map_fault ExecutionRunError.Document) (analyse_historical keys document)) (\<lambda>analysis.
       Inr \<lparr>run_run_id = fresh, run_document = document, run_plan = ha_plan analysis,
         run_actions = map (\<lambda>_. waiting_action) (plan_actions (ha_plan analysis)),
         run_latest_observation = None,
         run_goal_aspects = map gc_aspect (rep_goal_checks (ha_report analysis)),
         run_goal_verification = None, run_events = [], run_next_event_sequence = 1\<rparr>)"

section \<open>Fallible methods\<close>

type_synonym 'a run_method = "ExecutionRun \<Rightarrow> (ExecutionRunError fault, 'a) result \<times> ExecutionRun"

definition returning :: "'a \<Rightarrow> 'a run_method" where
  "returning x run = (Inr x, run)"

definition failing :: "ExecutionRunError \<Rightarrow> 'a run_method" where
  "failing e run = (Inl (fault.Failed e), run)"

text \<open>\<open>asking\<close> is a call of a \<^verbatim>\<open>&self\<close> method with the question mark operator; \<open>doing\<close> of a \<^verbatim>\<open>&mut self\<close> one.\<close>

definition asking :: "(ExecutionRun \<Rightarrow> (ExecutionRunError fault, 'a) result) \<Rightarrow> ('a \<Rightarrow> 'b run_method) \<Rightarrow> 'b run_method" where
  "asking q k run = (case q run of Inl e \<Rightarrow> (Inl e, run) | Inr x \<Rightarrow> k x run)"

definition doing :: "'a run_method \<Rightarrow> ('a \<Rightarrow> 'b run_method) \<Rightarrow> 'b run_method" where
  "doing m k run = (case m run of (Inl e, run') \<Rightarrow> (Inl e, run') | (Inr x, run') \<Rightarrow> k x run')"

definition modifying :: "(ExecutionRun \<Rightarrow> ExecutionRun) \<Rightarrow> 'b run_method \<Rightarrow> 'b run_method" where
  "modifying f k run = k (f run)"

definition get_action :: "ActionId \<Rightarrow> ExecutionRun \<Rightarrow> (ExecutionRunError fault, ActionRun) result" where
  "get_action a run = ok_or (nth_opt (run_actions run) (action_index a)) (fault.Failed (ExecutionRunError.UnknownAction a))"

definition get_state :: "ActionId \<Rightarrow> ExecutionRun \<Rightarrow> (ExecutionRunError fault, ActionRunState) result" where
  "get_state a run = and_then (get_action a run) (\<lambda>r. Inr (act_state r))"

definition require_state :: "ActionId \<Rightarrow> ActionRunState \<Rightarrow> ExecutionRun \<Rightarrow> (ExecutionRunError fault, unit) result" where
  "require_state a expected run = and_then (get_action a run) (\<lambda>r.
     if act_state r \<noteq> expected then Inl (fault.Failed (ExecutionRunError.InvalidTransition a (act_state r))) else Inr ())"

definition check_report_identity :: "uuid \<Rightarrow> ExecutionRun \<Rightarrow> (ExecutionRunError fault, unit) result" where
  "check_report_identity rid run =
     (if rid \<noteq> run_run_id run then Inl (fault.Failed ExecutionRunError.ReportMismatch) else Inr ())"

definition check_fresh_observation :: "LiveObservation \<Rightarrow> ExecutionRun \<Rightarrow> (ExecutionRunError fault, unit) result" where
  "check_fresh_observation obs run =
     (if uuid_is_nil (or_probe_instance (lo_reference obs))
         \<or> is_some_and (run_latest_observation run) (\<lambda>latest.
             or_probe_instance (lo_reference latest) \<noteq> or_probe_instance (lo_reference obs)
             \<or> epoch_get (or_epoch (lo_reference latest)) \<ge> epoch_get (or_epoch (lo_reference obs)))
      then Inl (fault.Failed ExecutionRunError.StaleObservation)
      else map_err (\<lambda>e. fault.Failed (ExecutionRunError.InvalidObservation e)) (validate_observation obs))"

definition ensure_event_capacity :: "u64 \<Rightarrow> ExecutionRun \<Rightarrow> (ExecutionRunError fault, unit) result" where
  "ensure_event_capacity count run =
     and_then (ok_or (checked_add (run_next_event_sequence run) count) (fault.Failed ExecutionRunError.EventSequenceExhausted)) (\<lambda>_.
       Inr ())"

definition push_event :: "RunEventKind \<Rightarrow> unit run_method" where
  "push_event kind = asking (ensure_event_capacity 1) (\<lambda>_.
     modifying (\<lambda>run. run\<lparr>
       run_events := (if length (run_events run) = MAX_RUN_EVENTS then tl (run_events run) else run_events run)
         @ [\<lparr>re_run_id = run_run_id run, re_sequence = run_next_event_sequence run, re_kind = kind\<rparr>],
       run_next_event_sequence := run_next_event_sequence run + 1\<rparr>)
     (returning ()))"

text \<open>An indexing expression on the actions of the run: a panic when the index is out of range.\<close>

definition update_action :: "ActionId \<Rightarrow> (ActionRun \<Rightarrow> ActionRun) \<Rightarrow> unit run_method" where
  "update_action a f run = (if action_index a < length (run_actions run)
     then (Inr (), run\<lparr>run_actions := (run_actions run)[action_index a := f (run_actions run ! action_index a)]\<rparr>)
     else (Inl Panic, run))"

definition set_state :: "ActionId \<Rightarrow> ActionRunState \<Rightarrow> unit run_method" where
  "set_state a st = asking (ensure_event_capacity 1) (\<lambda>_.
     doing (update_action a (\<lambda>r. r\<lparr>act_state := st\<rparr>)) (\<lambda>_.
     push_event (RunEventKind.ActionState a st)))"

definition planned_contract :: "ActionId \<Rightarrow> ExecutionRun \<Rightarrow> (ExecutionRunError fault, ActionContract) result" where
  "planned_contract a run =
     ok_or (map_option pa_informational_contract (nth_opt (plan_actions (run_plan run)) (action_index a))) Panic"

section \<open>Evidence\<close>

fun no_repeats :: "'c list \<Rightarrow> 'c list \<Rightarrow> bool" where
  "no_repeats earlier [] = True"
| "no_repeats earlier (c # cs) = (c \<notin> set earlier \<and> no_repeats (earlier @ [c]) cs)"

definition checks_cover :: "'c list \<Rightarrow> 'c LiveCheck list \<Rightarrow> bool" where
  "checks_cover required checks \<longleftrightarrow>
     list_all (\<lambda>condition. list_ex (\<lambda>c. lc_condition c = condition) checks) required
     \<and> list_all (\<lambda>c. lc_condition c \<in> set required) checks \<and> no_repeats [] (map lc_condition checks)"

fun evidence_fold :: "LiveCheckStatus list \<Rightarrow> ActionRunState \<Rightarrow> ActionRunState \<Rightarrow> ActionRunState" where
  "evidence_fold [] unknown res = res"
| "evidence_fold (s # ss) unknown res = (case s of
      LiveCheckStatus.Violated _ \<Rightarrow> ActionRunState.Failed
    | LiveCheckStatus.Unknown _ \<Rightarrow> evidence_fold ss unknown unknown
    | LiveCheckStatus.Satisfied \<Rightarrow> evidence_fold ss unknown res)"

definition evidence_state :: "LiveCheckStatus list \<Rightarrow> ActionRunState \<Rightarrow> ActionRunState \<Rightarrow> ActionRunState" where
  "evidence_state statuses satisfied unknown = evidence_fold statuses unknown satisfied"

definition is_stopped :: "ActionRunState \<Rightarrow> bool" where
  "is_stopped st = (st \<in> {ActionRunState.Failed, ActionRunState.OutcomeUnknown})"

definition is_active :: "ActionRunState \<Rightarrow> bool" where
  "is_active st = (st \<in> {ActionRunState.Checking, ActionRunState.Admitted, ActionRunState.Running, ActionRunState.Verifying})"

section \<open>Transitions\<close>

definition check_predecessor :: "ActionId \<Rightarrow> ExecutionRun \<Rightarrow> unit \<Rightarrow> ActionDependency \<Rightarrow> (ExecutionRunError fault, unit) result" where
  "check_predecessor a run _ d = and_then (get_action (ad_before d) run) (\<lambda>p.
     if act_state p \<noteq> ActionRunState.Verified
     then Inl (fault.Failed (ExecutionRunError.PredecessorNotVerified a (ad_before d))) else Inr ())"

definition begin_check :: "ActionId \<Rightarrow> unit run_method" where
  "begin_check a = asking (require_state a ActionRunState.Waiting) (\<lambda>_ run.
     if list_ex (\<lambda>r. is_stopped (act_state r)) (run_actions run) then failing ExecutionRunError.RunStopped run
     else asking (\<lambda>run. try_fold (check_predecessor a run) ()
         (filter (\<lambda>d. ad_after d = a) (plan_dependencies (run_plan run)))) (\<lambda>_ run.
       if list_ex (\<lambda>r. is_active (act_state r)) (run_actions run) then failing ExecutionRunError.ActiveAction run
       else set_state a ActionRunState.Checking run) run)"

definition holds_resource :: "ResourceAccess list \<Rightarrow> ResourceAccess \<Rightarrow> bool" where
  "holds_resource held required = list_ex (\<lambda>h. ra_resource h = ra_resource required
     \<and> (ra_mode h = ResourceAccessMode.Write \<or> ra_mode h = ra_mode required)) held"

definition record_admission :: "AdmissionReport \<Rightarrow> bool run_method" where
  "record_admission report = (let a = ar_action report in
     asking (require_state a ActionRunState.Checking) (\<lambda>_.
     asking (check_report_identity (ar_run_id report)) (\<lambda>_.
     asking (check_fresh_observation (ar_observation report)) (\<lambda>_.
     asking (planned_contract a) (\<lambda>contract.
       if \<not> checks_cover (ac_prerequisites contract) (ar_checks report) then failing ExecutionRunError.IncompleteChecks
       else if list_ex (\<lambda>required. \<not> holds_resource (ar_held_resources report) required) (ac_affected_resources contract)
       then failing ExecutionRunError.MissingResources
       else
         let st = evidence_state (ar_applicability report # map lc_status (ar_checks report))
               ActionRunState.Admitted ActionRunState.Checking;
             admitted = (st = ActionRunState.Admitted) in
         asking (ensure_event_capacity (if st = ActionRunState.Checking then 1 else 2)) (\<lambda>_.
         modifying (\<lambda>run. run\<lparr>run_latest_observation := Some (ar_observation report)\<rparr>)
         (doing (update_action a (\<lambda>r. r\<lparr>act_admission := Some report\<rparr>)) (\<lambda>_.
         doing (push_event (RunEventKind.Admission a admitted)) (\<lambda>_.
         if st \<noteq> ActionRunState.Checking then doing (set_state a st) (\<lambda>_. returning admitted)
         else returning admitted)))))))))"

definition mark_dispatch_started :: "ActionId \<Rightarrow> unit run_method" where
  "mark_dispatch_started a = asking (require_state a ActionRunState.Admitted) (\<lambda>_. set_state a ActionRunState.Running)"

definition mark_pre_dispatch_failed :: "ActionId \<Rightarrow> string \<Rightarrow> unit run_method" where
  "mark_pre_dispatch_failed a reason = asking (require_state a ActionRunState.Admitted) (\<lambda>_.
     asking (ensure_event_capacity 1) (\<lambda>_.
     doing (update_action a (\<lambda>r. r\<lparr>act_pre_dispatch_failure := Some reason\<rparr>)) (\<lambda>_.
     set_state a ActionRunState.Failed)))"

definition outcome_state :: "BackendOutcome \<Rightarrow> ActionRunState" where
  "outcome_state outcome = (case outcome of
      BackendOutcome.Succeeded \<Rightarrow> ActionRunState.Verifying
    | BackendOutcome.Failed _ \<Rightarrow> ActionRunState.Failed
    | BackendOutcome.OutcomeUnknown _ \<Rightarrow> ActionRunState.OutcomeUnknown)"

definition record_completion :: "BackendCompletion \<Rightarrow> unit run_method" where
  "record_completion completion = (let a = bc_action completion in
     asking (require_state a ActionRunState.Running) (\<lambda>_.
     asking (check_report_identity (bc_run_id completion)) (\<lambda>_.
     asking (check_fresh_observation (bc_observation completion)) (\<lambda>_.
     asking (ensure_event_capacity 1) (\<lambda>_.
     modifying (\<lambda>run. run\<lparr>run_latest_observation := Some (bc_observation completion)\<rparr>)
     (doing (update_action a (\<lambda>r. r\<lparr>act_completion := Some completion\<rparr>)) (\<lambda>_.
     set_state a (outcome_state (bc_outcome completion)))))))))"

definition record_verification :: "VerificationReport \<Rightarrow> bool run_method" where
  "record_verification report = (let a = vr_action report in
     asking (require_state a ActionRunState.Verifying) (\<lambda>_.
     asking (check_report_identity (vr_run_id report)) (\<lambda>_.
     asking (get_action a) (\<lambda>r.
       if map_option (\<lambda>c. lo_reference (bc_observation c)) (act_completion r) \<noteq> Some (vr_observation report)
       then failing ExecutionRunError.ReportMismatch
       else asking (planned_contract a) (\<lambda>contract.
         if \<not> checks_cover (ac_postconditions contract) (vr_checks report) then failing ExecutionRunError.IncompleteChecks
         else
           let st = evidence_state (map lc_status (vr_checks report)) ActionRunState.Verified ActionRunState.OutcomeUnknown in
           asking (ensure_event_capacity 1) (\<lambda>_.
           doing (update_action a (\<lambda>r. r\<lparr>act_verification := Some report\<rparr>)) (\<lambda>_.
           doing (set_state a st) (\<lambda>_. returning (st = ActionRunState.Verified)))))))))"

definition mark_outcome_unknown :: "ActionId \<Rightarrow> string \<Rightarrow> unit run_method" where
  "mark_outcome_unknown a reason = asking (get_action a) (\<lambda>r.
     if act_state r \<notin> {ActionRunState.Running, ActionRunState.Verifying}
     then failing (ExecutionRunError.InvalidTransition a (act_state r))
     else asking (ensure_event_capacity 1) (\<lambda>_.
       doing (update_action a (\<lambda>r. r\<lparr>act_unknown_reason := Some reason\<rparr>)) (\<lambda>_.
       set_state a ActionRunState.OutcomeUnknown)))"

definition record_progress :: "ActionId \<Rightarrow> string \<Rightarrow> unit run_method" where
  "record_progress a detail = asking (require_state a ActionRunState.Running) (\<lambda>_.
     if length detail > MAX_PROGRESS_BYTES then failing ExecutionRunError.ProgressTooLarge
     else push_event (RunEventKind.Progress a detail))"

definition goal_satisfied :: "GoalVerificationReport \<Rightarrow> bool" where
  "goal_satisfied report \<longleftrightarrow> gv_preservation report = LiveCheckStatus.Satisfied
     \<and> list_all (\<lambda>c. lc_status c = LiveCheckStatus.Satisfied) (gv_checks report)"

definition record_goal_verification :: "GoalVerificationReport \<Rightarrow> bool run_method" where
  "record_goal_verification report run =
     (if \<not> list_all (\<lambda>r. act_state r = ActionRunState.Verified) (run_actions run)
      then failing ExecutionRunError.ActionsNotVerified run
      else
       asking (check_report_identity (gv_run_id report)) (\<lambda>_.
       asking (check_fresh_observation (gv_observation report)) (\<lambda>_ run.
         if \<not> checks_cover (run_goal_aspects run) (gv_checks report) then failing ExecutionRunError.IncompleteChecks run
         else asking (ensure_event_capacity 1) (\<lambda>_.
           modifying (\<lambda>run. run\<lparr>run_latest_observation := Some (gv_observation report), run_goal_verification := Some report\<rparr>)
           (doing (push_event (RunEventKind.GoalVerification (goal_satisfied report))) (\<lambda>_.
             returning (goal_satisfied report)))) run)) run)"

section \<open>Views\<close>

definition is_verified :: "ExecutionRun \<Rightarrow> bool" where
  "is_verified run = is_some_and (run_goal_verification run) goal_satisfied"

definition events_since :: "u64 \<Rightarrow> ExecutionRun \<Rightarrow> RunEvent list" where
  "events_since sequence run = filter (\<lambda>e. re_sequence e > sequence) (run_events run)"

text \<open>The subtractions are checked in a debug build; a sequence is never zero.\<close>

definition events_page :: "u64 \<Rightarrow> ExecutionRun \<Rightarrow> (ExecutionRunError fault, EventsPage) result" where
  "events_page since run =
     and_then (ok_or (checked_sub (run_next_event_sequence run) 1) Panic) (\<lambda>latest.
     if since > latest then Inl (fault.Failed (ExecutionRunError.InvalidEventCursor since latest))
     else and_then (case run_events run of [] \<Rightarrow> Inr False
         | first # _ \<Rightarrow> and_then (ok_or (checked_sub (re_sequence first) 1) Panic) (\<lambda>s. Inr (since < s))) (\<lambda>gap.
       Inr \<lparr>page_events = events_since since run, page_next_sequence = latest, page_gap = gap\<rparr>))"

record ActionStatus =
  as_action :: ActionId
  as_state :: ActionRunState
  as_applicability :: "LiveCheckStatus option"
  as_admission_observation :: "ObservationReference option"
  as_completion_observation :: "ObservationReference option"
  as_prerequisites :: "ActionPrerequisite LiveCheck list"
  as_outcome :: "BackendOutcome option"
  as_postconditions :: "Postcondition LiveCheck list option"
  as_pre_dispatch_failure :: "string option"
  as_unknown_reason :: "string option"

record RunSnapshot =
  rs_run_id :: uuid
  rs_plan_id :: uuid
  rs_actions :: "ActionStatus list"
  rs_finished :: bool
  rs_verified :: bool
  rs_event_sequence :: u64
  rs_observation :: "LiveObservation option"
  rs_goal_verification :: "GoalVerificationReport option"

definition action_status :: "PlannedAction \<times> ActionRun \<Rightarrow> ActionStatus" where
  "action_status p = (case p of (planned, action) \<Rightarrow> \<lparr>as_action = pa_id planned, as_state = act_state action,
     as_applicability = map_option ar_applicability (act_admission action),
     as_admission_observation = map_option (\<lambda>r. lo_reference (ar_observation r)) (act_admission action),
     as_completion_observation = map_option (\<lambda>c. lo_reference (bc_observation c)) (act_completion action),
     as_prerequisites = (case act_admission action of None \<Rightarrow> [] | Some r \<Rightarrow> ar_checks r),
     as_outcome = map_option bc_outcome (act_completion action),
     as_postconditions = map_option vr_checks (act_verification action),
     as_pre_dispatch_failure = act_pre_dispatch_failure action, as_unknown_reason = act_unknown_reason action\<rparr>)"

definition run_snapshot :: "ExecutionRun \<Rightarrow> (ExecutionRunError fault, RunSnapshot) result" where
  "run_snapshot run =
     and_then (ok_or (checked_sub (run_next_event_sequence run) 1) Panic) (\<lambda>latest.
       Inr \<lparr>rs_run_id = run_run_id run, rs_plan_id = doc_plan_id (run_document run),
         rs_actions = map action_status (zip (plan_actions (run_plan run)) (run_actions run)),
         rs_finished = (run_goal_verification run \<noteq> None \<or> run_next_event_sequence run = - 1
           \<or> list_ex (\<lambda>r. is_stopped (act_state r)) (run_actions run)),
         rs_verified = is_verified run, rs_event_sequence = latest,
         rs_observation = run_latest_observation run, rs_goal_verification = run_goal_verification run\<rparr>)"

end
