(* ===== verification/Correlate.thy ===== *)
theory Correlate
  imports Provider_Validate Storage_State
begin

text \<open>
  Correlation of observed objects by stable identity (\<^verbatim>\<open>storage-engine/src/editing/correlate.rs\<close>):
  which object of a new observation is the object that an older one knew, decided by durable
  identifiers only.
\<close>

section \<open>Text\<close>

text \<open>\<^verbatim>\<open>str::trim\<close> on UTF-8 bytes; \<open>trim_rev\<close> is its right half, on the reversed bytes.\<close>

fun trim_start :: "string \<Rightarrow> string" where
  "trim_start [] = []"
| "trim_start [a] = (if ws1 a then [] else [a])"
| "trim_start [a, b] = (if ws1 a then trim_start [b] else if ws2 a b then [] else [a, b])"
| "trim_start (a # b # c # s) = (if ws1 a then trim_start (b # c # s) else if ws2 a b then trim_start (c # s)
     else if ws3 a b c then trim_start s else a # b # c # s)"

fun trim_rev :: "string \<Rightarrow> string" where
  "trim_rev [] = []"
| "trim_rev [a] = (if ws1 a then [] else [a])"
| "trim_rev [b, a] = (if ws1 b then trim_rev [a] else if ws2 a b then [] else [b, a])"
| "trim_rev (c # b # a # s) = (if ws1 c then trim_rev (b # a # s) else if ws2 b c then trim_rev (a # s)
     else if ws3 a b c then trim_rev s else c # b # a # s)"

definition trim :: "string \<Rightarrow> string" where
  "trim s = rev (trim_rev (rev (trim_start s)))"

definition trimmed :: "string \<Rightarrow> bool" where
  "trimmed s \<longleftrightarrow> trim s \<noteq> [] \<and> trim s = s"

text \<open>The \<^verbatim>\<open>Debug\<close> form of an identity, which the messages of errors show.\<close>

definition hex_digit :: "nat \<Rightarrow> char" where
  "hex_digit n = ''0123456789abcdef'' ! n"

definition hex_digits :: "nat \<Rightarrow> nat \<Rightarrow> string" where
  "hex_digits width n = map (\<lambda>i. hex_digit (n div 16 ^ (width - 1 - i) mod 16)) [0..<width]"

definition show_uuid :: "uuid \<Rightarrow> string" where
  "show_uuid u = (let s = hex_digits 32 (unat u) in
     take 8 s @ ''-'' @ take 4 (drop 8 s) @ ''-'' @ take 4 (drop 12 s) @ ''-'' @ take 4 (drop 16 s) @ ''-'' @ drop 20 s)"

definition show_node :: "NodeId \<Rightarrow> string" where
  "show_node n = ''NodeId('' @ show_uuid (as_uuid n) @ '')''"

definition show_graph_error :: "GraphError \<Rightarrow> string" where
  "show_graph_error e = (case e of
      GraphError.DuplicateNode n \<Rightarrow> ''node '' @ show_node n @ '' already exists''
    | GraphError.MissingNode n \<Rightarrow> ''node '' @ show_node n @ '' is absent''
    | GraphError.DuplicateEdge \<Rightarrow> ''duplicate graph edge''
    | GraphError.SelfDependency n \<Rightarrow> ''node '' @ show_node n @ '' depends on itself''
    | GraphError.DependencyCycle \<Rightarrow> ''storage dependencies contain a cycle''
    | GraphError.ConflictingOwner n \<Rightarrow> ''node '' @ show_node n @ '' has conflicting containing edges''
    | GraphError.ConflictingRole n \<Rightarrow> ''node '' @ show_node n @ '' has conflicting dependency roles''
    | GraphError.PartitionOffset n \<Rightarrow> ''partition '' @ show_node n @ '' disagrees with its containing offset'')"

section \<open>Correlation\<close>

record NodeCorrelation =
  nc_source :: NodeId
  nc_target :: NodeId
  nc_identity :: ExternalId

datatype CorrelationError =
    Structure GraphError
  | MissingSource NodeId
  | NotPresent NodeId
  | NoIdentity NodeId
  | AmbiguousSource NodeId
  | MissingTarget NodeId
  | AmbiguousTarget NodeId
  | KindChanged NodeId NodeId

definition show_correlation_error :: "CorrelationError \<Rightarrow> string" where
  "show_correlation_error e = (case e of
      CorrelationError.Structure g \<Rightarrow> show_graph_error g
    | CorrelationError.MissingSource n \<Rightarrow> ''source node '' @ show_node n @ '' is absent''
    | CorrelationError.NotPresent n \<Rightarrow> ''node '' @ show_node n @ '' is not a present, non-nil observed object''
    | CorrelationError.NoIdentity n \<Rightarrow> ''node '' @ show_node n @ '' has no supported stable identity''
    | CorrelationError.AmbiguousSource n \<Rightarrow> ''source identity for node '' @ show_node n @ '' is ambiguous''
    | CorrelationError.MissingTarget n \<Rightarrow> ''node '' @ show_node n @ '' has no matching target identity''
    | CorrelationError.AmbiguousTarget n \<Rightarrow> ''target identity for node '' @ show_node n @ '' is ambiguous''
    | CorrelationError.KindChanged s t \<Rightarrow> ''node '' @ show_node s @ '' changed kind at '' @ show_node t)"

definition present :: "NodeId \<Rightarrow> Node \<Rightarrow> (CorrelationError, unit) result" where
  "present n node = (if uuid_is_nil (as_uuid n) \<or> facts_presence (node_size node) \<noteq> Presence.Present
     then Inl (CorrelationError.NotPresent n) else Inr ())"

definition supported_identity :: "Node \<Rightarrow> ExternalId \<Rightarrow> bool" where
  "supported_identity node identity = (case (spec_kind (node_kind node), identity) of
      (NodeKind.LvmVg _ _, ExternalId.LvmVgUuid value) \<Rightarrow> trimmed value
    | (NodeKind.LvmLv _, ExternalId.LvmLvUuid value) \<Rightarrow> trimmed value
    | (NodeKind.LvmPv, ExternalId.LvmPvUuid value) \<Rightarrow> trimmed value
    | (NodeKind.Disk, ExternalId.Wwn value) \<Rightarrow> trimmed value
    | (NodeKind.Partition _ _ _ _, ExternalId.GptPartitionUuid u) \<Rightarrow> \<not> uuid_is_nil u
    | (NodeKind.NvmeNamespace _, ExternalId.NvmeUuid u) \<Rightarrow> \<not> uuid_is_nil u
    | (NodeKind.NvmeNamespace _, ExternalId.NvmeNguid bytes) \<Rightarrow> list_ex (\<lambda>b. b \<noteq> 0) bytes
    | (NodeKind.NvmeNamespace _, ExternalId.NvmeEui64 bytes) \<Rightarrow> list_ex (\<lambda>b. b \<noteq> 0) bytes
    | (NodeKind.Filesystem kind _, ExternalId.Filesystem fs_type value) \<Rightarrow>
        fs_type = filesystem_as_str kind \<and> trimmed value
    | _ \<Rightarrow> False)"

text \<open>\<^verbatim>\<open>std::mem::discriminant\<close>: the variant of an identity.\<close>

definition discriminant :: "ExternalId \<Rightarrow> nat" where
  "discriminant i = (case i of
      ExternalId.Wwn _ \<Rightarrow> 0 | ExternalId.Serial _ _ \<Rightarrow> 1 | ExternalId.GptPartitionUuid _ \<Rightarrow> 2
    | ExternalId.MbrPartitionId _ _ \<Rightarrow> 3 | ExternalId.LuksUuid _ \<Rightarrow> 4 | ExternalId.MdUuid _ \<Rightarrow> 5
    | ExternalId.LvmPvUuid _ \<Rightarrow> 6 | ExternalId.LvmVgUuid _ \<Rightarrow> 7 | ExternalId.LvmLvUuid _ \<Rightarrow> 8
    | ExternalId.Filesystem _ _ \<Rightarrow> 9 | ExternalId.BtrfsFsid _ \<Rightarrow> 10 | ExternalId.BtrfsSubvolumeUuid _ \<Rightarrow> 11
    | ExternalId.ZfsGuid _ \<Rightarrow> 12 | ExternalId.NvmeNguid _ \<Rightarrow> 13 | ExternalId.NvmeEui64 _ \<Rightarrow> 14
    | ExternalId.NvmeUuid _ \<Rightarrow> 15 | ExternalId.Iscsi _ _ \<Rightarrow> 16 | ExternalId.NvmeOf _ _ \<Rightarrow> 17)"

definition one_of_variant :: "Node \<Rightarrow> ExternalId \<Rightarrow> bool" where
  "one_of_variant node identity \<longleftrightarrow>
     length (filter (\<lambda>item. discriminant item = discriminant identity) (facts_identities (node_size node))) = 1"

definition carries :: "ExternalId \<Rightarrow> NodeId \<times> Node \<Rightarrow> bool" where
  "carries identity p \<longleftrightarrow> identity \<in> set (facts_identities (node_size (snd p)))"

definition compatible_kinds :: "NodeKind \<Rightarrow> NodeKind \<Rightarrow> bool" where
  "compatible_kinds k k' = (case (k, k') of
      (NodeKind.LvmVg _ _, NodeKind.LvmVg _ _) \<Rightarrow> True
    | (NodeKind.LvmPv, NodeKind.LvmPv) \<Rightarrow> True
    | (NodeKind.Disk, NodeKind.Disk) \<Rightarrow> True
    | (NodeKind.Partition _ _ _ _, NodeKind.Partition _ _ _ _) \<Rightarrow> True
    | (NodeKind.NvmeNamespace left, NodeKind.NvmeNamespace right) \<Rightarrow> ns_format left = ns_format right
    | (NodeKind.LvmLv left, NodeKind.LvmLv right) \<Rightarrow> lv_kind left = lv_kind right
    | (NodeKind.Filesystem left _, NodeKind.Filesystem right _) \<Rightarrow> left = right
    | _ \<Rightarrow> False)"

definition is_physical_kind :: "NodeKind \<Rightarrow> bool" where
  "is_physical_kind k = (case k of NodeKind.Disk \<Rightarrow> True | NodeKind.NvmeNamespace _ \<Rightarrow> True | _ \<Rightarrow> False)"

text \<open>The match of a selected object that carries an identity of its own.\<close>

definition source_identity :: "CurrentState \<Rightarrow> NodeId \<Rightarrow> Node \<Rightarrow> (CorrelationError, ExternalId) result" where
  "source_identity current source node = (case filter (supported_identity node) (facts_identities (node_size node)) of
       [] \<Rightarrow> Inl (CorrelationError.NoIdentity source)
     | [identity] \<Rightarrow>
         if \<not> one_of_variant node identity \<or> length (filter (carries identity) (g_nodes (cur_graph current))) \<noteq> 1
         then Inl (CorrelationError.AmbiguousSource source) else Inr identity
     | _ \<Rightarrow> Inl (CorrelationError.AmbiguousSource source))"

definition match_identity ::
  "CurrentState \<Rightarrow> CurrentState \<Rightarrow> NodeId set \<Rightarrow> NodeId \<Rightarrow> Node \<Rightarrow> (CorrelationError, NodeCorrelation) result" where
  "match_identity current next_state targets source node =
     and_then (source_identity current source node) (\<lambda>identity.
     case filter (carries identity) (g_nodes (cur_graph next_state)) of
       [] \<Rightarrow> Inl (CorrelationError.MissingTarget source)
     | (target, candidate) # others \<Rightarrow>
         if others \<noteq> [] \<or> target \<in> targets then Inl (CorrelationError.AmbiguousTarget source)
         else and_then (present target candidate) (\<lambda>_.
           if \<not> compatible_kinds (spec_kind (node_kind node)) (spec_kind (node_kind candidate))
           then Inl (CorrelationError.KindChanged source target)
           else if \<not> one_of_variant candidate identity then Inl (CorrelationError.AmbiguousTarget source)
           else Inr \<lparr>nc_source = source, nc_target = target, nc_identity = identity\<rparr>))"

text \<open>
  One iteration of the loop over the selected objects. The state holds the objects seen, the
  targets taken and the matches so far; \<open>table\<close> matches a partition table.
\<close>

type_synonym CorrelationLoop = "NodeId set \<times> NodeId set \<times> NodeCorrelation list"

definition correlate_source ::
  "(NodeId \<Rightarrow> (CorrelationError, NodeCorrelation) result) \<Rightarrow> CurrentState \<Rightarrow> CurrentState \<Rightarrow>
   CorrelationLoop \<Rightarrow> NodeId \<Rightarrow> (CorrelationError, CorrelationLoop) result" where
  "correlate_source table current next_state st source = (case st of (seen, targets, found) \<Rightarrow>
     if source \<in> seen then Inr (seen, targets, found)
     else and_then (ok_or (graph_node (cur_graph current) source) (CorrelationError.MissingSource source)) (\<lambda>node.
       and_then (present source node) (\<lambda>_.
       and_then (if is_table_kind (spec_kind (node_kind node))
                 then and_then (table source) (\<lambda>binding.
                   if nc_target binding \<in> targets then Inl (CorrelationError.AmbiguousTarget source) else Inr binding)
                 else match_identity current next_state targets source node) (\<lambda>binding.
       Inr (insert source seen, insert (nc_target binding) targets, found @ [binding])))))"

definition correlate_with ::
  "(NodeId \<Rightarrow> (CorrelationError, NodeCorrelation) result) \<Rightarrow> CurrentState \<Rightarrow> CurrentState \<Rightarrow> NodeId list \<Rightarrow>
   (CorrelationError, NodeCorrelation list) result" where
  "correlate_with table current next_state selected =
     and_then (map_err CorrelationError.Structure (validate_structure (cur_graph current))) (\<lambda>_.
     and_then (map_err CorrelationError.Structure (validate_structure (cur_graph next_state))) (\<lambda>_.
     and_then (try_fold (correlate_source table current next_state) ({}, {}, []) selected) (\<lambda>(_, _, found). Inr found)))"

section \<open>Partition tables\<close>

definition backs_table :: "NodeGraph \<Rightarrow> NodeId \<Rightarrow> Dependency \<Rightarrow> bool" where
  "backs_table g parent dep \<longleftrightarrow> dep_from dep = parent \<and> dep_kind dep = DependencyKind.Backs
     \<and> is_some_and (graph_node g (dep_to dep)) (\<lambda>node. is_table_kind (spec_kind (node_kind node)))"

definition table_parent :: "NodeGraph \<Rightarrow> NodeId \<Rightarrow> (CorrelationError, NodeId) result" where
  "table_parent g source = (case filter (\<lambda>dep. dep_to dep = source) (g_dependencies g) of
       [] \<Rightarrow> Inl (CorrelationError.NoIdentity source)
     | parent # others \<Rightarrow>
         if others \<noteq> [] \<or> dep_kind parent \<noteq> DependencyKind.Backs
            \<or> \<not> is_some_and (graph_node g (dep_from parent)) (\<lambda>node. is_physical_kind (spec_kind (node_kind node)))
            \<or> length (filter (backs_table g (dep_from parent)) (g_dependencies g)) \<noteq> 1
         then Inl (CorrelationError.AmbiguousSource source) else Inr (dep_from parent))"

definition rename_missing :: "NodeId \<Rightarrow> CorrelationError \<Rightarrow> CorrelationError" where
  "rename_missing source e = (case e of CorrelationError.NoIdentity _ \<Rightarrow> CorrelationError.NoIdentity source | other \<Rightarrow> other)"

definition tables_on :: "NodeGraph \<Rightarrow> NodeId \<Rightarrow> (NodeId \<times> Node) list" where
  "tables_on g parent = filter (\<lambda>p. is_table_kind (spec_kind (node_kind (snd p))))
     (List.map_filter (\<lambda>dep. map_option (\<lambda>node. (dep_to dep, node)) (graph_node g (dep_to dep)))
       (filter (\<lambda>dep. dep_from dep = parent \<and> dep_kind dep = DependencyKind.Backs) (g_dependencies g)))"

text \<open>
  The match of the disk below a table is the recursive call \<open>correlate\<close>. That disk is never a
  table itself, so the recursion has depth one: \<open>correlate_nodes\<close> closes it with a second level
  whose table case is unreachable, and \<open>correlate_partition_table_eq\<close> below is the equation of
  the source.
\<close>

definition match_table ::
  "(NodeId list \<Rightarrow> (CorrelationError, NodeCorrelation list) result) \<Rightarrow> CurrentState \<Rightarrow> CurrentState \<Rightarrow> NodeId \<Rightarrow>
   (CorrelationError, NodeCorrelation) result" where
  "match_table correlate current next_state source =
     and_then (table_parent (cur_graph current) source) (\<lambda>parent.
     and_then (map_err (rename_missing source) (correlate [parent])) (\<lambda>bindings.
     and_then (ok_or (if bindings = [] then None else Some (last bindings)) (CorrelationError.NoIdentity source)) (\<lambda>matched.
     case tables_on (cur_graph next_state) (nc_target matched) of
       [] \<Rightarrow> Inl (CorrelationError.MissingTarget source)
     | (target, node) # others \<Rightarrow>
         if others \<noteq> [] \<or> length (filter (\<lambda>dep. dep_to dep = target) (g_dependencies (cur_graph next_state))) \<noteq> 1
         then Inl (CorrelationError.AmbiguousTarget source)
         else and_then (present target node) (\<lambda>_.
           if map_option (\<lambda>n. spec_kind (node_kind n)) (graph_node (cur_graph current) source) \<noteq> Some (spec_kind (node_kind node))
           then Inl (CorrelationError.KindChanged source target)
           else Inr \<lparr>nc_source = source, nc_target = target, nc_identity = nc_identity matched\<rparr>))))"

definition correlate_partition_table ::
  "CurrentState \<Rightarrow> CurrentState \<Rightarrow> NodeId \<Rightarrow> (CorrelationError, NodeCorrelation) result" where
  "correlate_partition_table current next_state =
     match_table (correlate_with (\<lambda>source. Inl (CorrelationError.NoIdentity source)) current next_state) current next_state"

definition correlate_nodes ::
  "CurrentState \<Rightarrow> CurrentState \<Rightarrow> NodeId list \<Rightarrow> (CorrelationError, NodeCorrelation list) result" where
  "correlate_nodes current next_state = correlate_with (correlate_partition_table current next_state) current next_state"

end
