(* ===== verification/Live_Checks.thy ===== *)
theory Live_Checks
  imports Execution_Run Correlate
begin

text \<open>
  Checks of conditions on an actual observation (\<^verbatim>\<open>storage-engine/src/live.rs\<close> and
  \<^verbatim>\<open>live/capacity.rs\<close>, \<^verbatim>\<open>live/mount.rs\<close>, \<^verbatim>\<open>live/verify.rs\<close>, \<^verbatim>\<open>live/goal.rs\<close>). Every check has three
  outcomes; what an observation cannot establish stays unknown.
\<close>

definition unknown :: "string \<Rightarrow> LiveCheckStatus" where
  "unknown reason = LiveCheckStatus.Unknown reason"

definition violated :: "string \<Rightarrow> LiveCheckStatus" where
  "violated reason = LiveCheckStatus.Violated reason"

definition qualify_observed_status :: "LiveObservation \<Rightarrow> LiveCheckStatus \<Rightarrow> LiveCheckStatus" where
  "qualify_observed_status observation status =
     (if status = LiveCheckStatus.Satisfied
         \<and> list_ex (\<lambda>d. diag_severity d \<noteq> DiagnosticSeverity.Warning) (cur_diagnostics (lo_snapshot observation))
      then unknown ''resolve blocking probe diagnostics before relying on observed facts'' else status)"

section \<open>Nodes of the observation\<close>

definition correlated_node ::
  "HistoricalBaseline \<Rightarrow> LiveObservation \<Rightarrow> NodeId \<Rightarrow> (LiveCheckStatus, NodeId \<times> Node) result" where
  "correlated_node baseline observation source =
     and_then (map_err (\<lambda>e. unknown (''fresh identity correlation: '' @ show_correlation_error e))
       (correlate_nodes (hb_snapshot baseline) (lo_snapshot observation) [source])) (\<lambda>mappings.
     and_then (ok_or (case mappings of [] \<Rightarrow> None | m # _ \<Rightarrow> Some m) (unknown ''missing identity correlation'')) (\<lambda>m.
     and_then (ok_or (graph_node (cur_graph (lo_snapshot observation)) (nc_target m)) (unknown ''correlated node is absent'')) (\<lambda>node.
       Inr (nc_target m, node))))"

definition output_identity :: "Node \<Rightarrow> ExternalId \<Rightarrow> bool" where
  "output_identity node identity = (case (spec_kind (node_kind node), identity) of
      (NodeKind.LvmLv _, ExternalId.LvmLvUuid u) \<Rightarrow> trimmed u
    | (NodeKind.Filesystem kind _, ExternalId.Filesystem fs_type value) \<Rightarrow> fs_type = filesystem_as_str kind \<and> trimmed value
    | _ \<Rightarrow> False)"

definition bound_node ::
  "HistoricalBaseline \<Rightarrow> LiveObservation \<Rightarrow> NodeId \<Rightarrow> NodeCorrelation list \<Rightarrow> (LiveCheckStatus, NodeId \<times> Node) result" where
  "bound_node baseline observation source bindings = (case filter (\<lambda>item. nc_source item = source) bindings of
       [] \<Rightarrow> Inl (unknown ''created output requires runtime UUID evidence'')
     | binding # others \<Rightarrow>
         if others \<noteq> [] \<or> length (filter (\<lambda>item. nc_target item = nc_target binding) bindings) \<noteq> 1
         then Inl (unknown ''created output binding is ambiguous'')
         else if list_ex (carries (nc_identity binding)) (g_nodes (cur_graph (hb_snapshot baseline)))
         then Inl (unknown ''created output UUID already exists in the historical baseline'')
         else and_then (ok_or (graph_node (cur_graph (lo_snapshot observation)) (nc_target binding)) (unknown ''bound output is absent'')) (\<lambda>node.
           if uuid_is_nil (as_uuid source) \<or> facts_presence (node_size node) \<noteq> Presence.Present
              \<or> \<not> output_identity node (nc_identity binding)
              \<or> nc_identity binding \<notin> set (facts_identities (node_size node))
              \<or> \<not> one_of_variant node (nc_identity binding)
              \<or> length (filter (carries (nc_identity binding)) (g_nodes (cur_graph (lo_snapshot observation)))) \<noteq> 1
           then Inl (unknown ''created output needs one unambiguous observed LV or filesystem UUID'')
           else Inr (nc_target binding, node)))"

definition result_node ::
  "HistoricalBaseline \<Rightarrow> LiveObservation \<Rightarrow> NodeId \<Rightarrow> NodeCorrelation list \<Rightarrow> (LiveCheckStatus, NodeId \<times> Node) result" where
  "result_node baseline observation source bindings =
     (if graph_node (cur_graph (hb_snapshot baseline)) source \<noteq> None then correlated_node baseline observation source
      else bound_node baseline observation source bindings)"

section \<open>Prerequisites\<close>

record ObservedPrerequisites =
  op_observation :: ObservationReference
  op_checks :: "ActionPrerequisite LiveCheck list"

definition prerequisite_node :: "ActionPrerequisite \<Rightarrow> NodeId option" where
  "prerequisite_node condition = (case condition of
      ActionPrerequisite.NodeExists n \<Rightarrow> Some n
    | ActionPrerequisite.NodeKind n _ \<Rightarrow> Some n
    | ActionPrerequisite.Writable n \<Rightarrow> Some n
    | ActionPrerequisite.NoUnexpectedConsumers n \<Rightarrow> Some n
    | ActionPrerequisite.NoUnexpectedRelations n \<Rightarrow> Some n
    | ActionPrerequisite.FilesystemUnmounted n \<Rightarrow> Some n
    | _ \<Rightarrow> None)"

definition check_writable :: "Node \<Rightarrow> LiveCheckStatus" where
  "check_writable node =
     (if matches_kind (spec_kind (node_kind node)) NodeKindClass.Block
      then (case Option.bind (facts_block (node_size node)) block_read_only of
          Some False \<Rightarrow> LiveCheckStatus.Satisfied
        | Some True \<Rightarrow> violated ''observed block endpoint is read-only''
        | None \<Rightarrow> unknown ''fresh block read-only status is required'')
      else unknown ''a supported observed block endpoint is required'')"

definition check_consumers :: "CurrentState \<Rightarrow> NodeId \<Rightarrow> LiveCheckStatus" where
  "check_consumers snapshot target =
     (if list_ex (\<lambda>dep. dep_from dep = target) (g_dependencies (cur_graph snapshot))
         \<or> list_ex (\<lambda>m. mount_source_node (om_source m) = Some target) (ms_entries (cur_mounts snapshot))
      then violated ''an upper-layer consumer is present in the observation''
      else unknown ''complete consumer and mount-namespace coverage is required'')"

definition check_relations :: "CurrentState \<Rightarrow> NodeId \<Rightarrow> LiveCheckStatus" where
  "check_relations snapshot target =
     (if list_ex (\<lambda>r. rel_from r = target \<or> rel_to r = target) (g_relations (cur_graph snapshot))
      then violated ''an incident storage relation is present in the observation''
      else unknown ''complete provider relation coverage is required'')"

definition check_unmounted :: "CurrentState \<Rightarrow> NodeId \<Rightarrow> Node \<Rightarrow> LiveCheckStatus" where
  "check_unmounted snapshot target node =
     (if \<not> matches_kind (spec_kind (node_kind node)) NodeKindClass.Filesystem
      then violated ''correlated node is not a filesystem''
      else if list_ex (\<lambda>m. om_source m = MountSource.Filesystem target) (ms_entries (cur_mounts snapshot))
      then violated ''filesystem is mounted in an observed namespace''
      else unknown ''complete mount-namespace coverage and resolved mount sources are required'')"

definition check_fact :: "CurrentState \<Rightarrow> ActionPrerequisite \<Rightarrow> NodeId \<Rightarrow> Node \<Rightarrow> LiveCheckStatus" where
  "check_fact snapshot condition target node = (case condition of
      ActionPrerequisite.NodeExists _ \<Rightarrow> LiveCheckStatus.Satisfied
    | ActionPrerequisite.NodeKind _ expected \<Rightarrow>
        if matches_kind (spec_kind (node_kind node)) expected then LiveCheckStatus.Satisfied
        else violated ''observed node kind does not satisfy the frozen condition''
    | ActionPrerequisite.Writable _ \<Rightarrow> check_writable node
    | ActionPrerequisite.NoUnexpectedConsumers _ \<Rightarrow> check_consumers snapshot target
    | ActionPrerequisite.NoUnexpectedRelations _ \<Rightarrow> check_relations snapshot target
    | ActionPrerequisite.FilesystemUnmounted _ \<Rightarrow> check_unmounted snapshot target node
    | _ \<Rightarrow> unknown ''a supported observed block endpoint is required'')"

definition check_node_fact ::
  "HistoricalBaseline \<Rightarrow> LiveObservation \<Rightarrow> ActionPrerequisite \<Rightarrow> NodeCorrelation list \<Rightarrow> LiveCheckStatus" where
  "check_node_fact baseline observation condition bindings = (case prerequisite_node condition of
       None \<Rightarrow> unknown ''runtime provider evidence is required for this condition''
     | Some source \<Rightarrow> (case result_node baseline observation source bindings of
         Inl status \<Rightarrow> status
       | Inr (target, node) \<Rightarrow> check_fact (lo_snapshot observation) condition target node))"

definition check_prerequisites_with_bindings ::
  "HistoricalBaseline \<Rightarrow> LiveObservation \<Rightarrow> ActionPrerequisite list \<Rightarrow> NodeCorrelation list \<Rightarrow>
   (ObservationError, ObservedPrerequisites) result" where
  "check_prerequisites_with_bindings baseline observation prerequisites bindings =
     and_then (validate_observation observation) (\<lambda>_.
     and_then (map_err ObservationError.Graph (validate_structure (cur_graph (hb_snapshot baseline)))) (\<lambda>_.
     Inr \<lparr>op_observation = lo_reference observation,
       op_checks = map (\<lambda>condition. \<lparr>lc_condition = condition,
         lc_status = qualify_observed_status observation (check_node_fact baseline observation condition bindings)\<rparr>) prerequisites\<rparr>))"

definition check_observed_prerequisites ::
  "HistoricalBaseline \<Rightarrow> LiveObservation \<Rightarrow> ActionPrerequisite list \<Rightarrow> (ObservationError, ObservedPrerequisites) result" where
  "check_observed_prerequisites baseline observation prerequisites =
     check_prerequisites_with_bindings baseline observation prerequisites []"

section \<open>Capacity\<close>

definition same_extent :: "Node option \<Rightarrow> Node \<Rightarrow> bool" where
  "same_extent original current = (case map_option (\<lambda>n. spec_kind (node_kind n)) original of
      Some (NodeKind.LvmVg _ (Some old)) \<Rightarrow> (case spec_kind (node_kind current) of
          NodeKind.LvmVg _ (Some new) \<Rightarrow> old = new | _ \<Rightarrow> False)
    | _ \<Rightarrow> False)"

definition check_capacity ::
  "HistoricalBaseline \<Rightarrow> LiveObservation \<Rightarrow> CapacityEvidence list \<Rightarrow> AllocationDomain \<Rightarrow> AllocationQuantity option \<Rightarrow> LiveCheckStatus" where
  "check_capacity baseline observation capacity domain amount = (case amount of
       None \<Rightarrow> unknown ''exact provider allocation requirement is needed''
     | Some needed \<Rightarrow> (case domain of AllocationDomain.LvmVolumeGroup source \<Rightarrow>
         (case correlated_node baseline observation source of
           Inl status \<Rightarrow> status
         | Inr (target, current) \<Rightarrow>
             if \<not> same_extent (graph_node (cur_graph (hb_snapshot baseline)) source) current
             then unknown ''VG allocation units changed or are unknown; review the frozen plan again''
             else (case find (\<lambda>value. ce_domain value = AllocationDomain.LvmVolumeGroup target) capacity of
               None \<Rightarrow> unknown ''validated same-pass VG free capacity is required''
             | Some measured \<Rightarrow>
                 if quantity_get needed \<le> quantity_get (ce_available measured) then LiveCheckStatus.Satisfied
                 else violated ''fresh VG free capacity is smaller than the frozen allocation requirement''))))"

definition recheck_capacity ::
  "HistoricalBaseline \<Rightarrow> LiveObservation \<Rightarrow> CapacityEvidence list \<Rightarrow> ActionPrerequisite LiveCheck \<Rightarrow> ActionPrerequisite LiveCheck" where
  "recheck_capacity baseline observation capacity check = (case lc_condition check of
      ActionPrerequisite.CapacityAvailable domain amount \<Rightarrow>
        check\<lparr>lc_status := qualify_observed_status observation (check_capacity baseline observation capacity domain amount)\<rparr>
    | _ \<Rightarrow> check)"

definition check_observed_prerequisites_with_bindings ::
  "HistoricalBaseline \<Rightarrow> LiveObservation \<Rightarrow> CapacityEvidence list \<Rightarrow> ActionPrerequisite list \<Rightarrow> NodeCorrelation list \<Rightarrow>
   (ObservationError, ObservedPrerequisites) result" where
  "check_observed_prerequisites_with_bindings baseline observation capacity prerequisites bindings =
     and_then (check_prerequisites_with_bindings baseline observation prerequisites bindings) (\<lambda>report.
     Inr (report\<lparr>op_checks := map (recheck_capacity baseline observation capacity) (op_checks report)\<rparr>))"

definition check_observed_prerequisites_with_capacity ::
  "HistoricalBaseline \<Rightarrow> LiveObservation \<Rightarrow> CapacityEvidence list \<Rightarrow> ActionPrerequisite list \<Rightarrow>
   (ObservationError, ObservedPrerequisites) result" where
  "check_observed_prerequisites_with_capacity baseline observation capacity prerequisites =
     check_observed_prerequisites_with_bindings baseline observation capacity prerequisites []"

end
