(* ===== verification/Live_Results.thy ===== *)
theory Live_Results
  imports Live_Checks
begin

text \<open>
  Checks of results on an actual observation (\<^verbatim>\<open>storage-engine/src/live/mount.rs\<close>,
  \<^verbatim>\<open>live/verify.rs\<close>, \<^verbatim>\<open>live/goal.rs\<close>): observed mounts, postconditions and the final goal.
\<close>

section \<open>Mounts\<close>

text \<open>Whether a string has a white space character, on its UTF-8 bytes.\<close>

fun has_whitespace :: "string \<Rightarrow> bool" where
  "has_whitespace [] = False"
| "has_whitespace [a] = ws1 a"
| "has_whitespace [a, b] = (ws1 a \<or> ws2 a b \<or> has_whitespace [b])"
| "has_whitespace (a # b # c # s) = (ws1 a \<or> ws2 a b \<or> ws3 a b c \<or> has_whitespace (b # c # s))"

definition option_key :: "string \<Rightarrow> string" where
  "option_key option = takeWhile (\<lambda>c. c \<noteq> CHR ''='') option"

fun plain_options :: "string set \<Rightarrow> string list \<Rightarrow> bool" where
  "plain_options keys [] = True"
| "plain_options keys (option # rest) =
     (option \<noteq> [] \<and> option \<noteq> ''defaults'' \<and> CHR '','' \<notin> set option \<and> CHR 0x00 \<notin> set option \<and> \<not> has_whitespace option
      \<and> option_key option \<noteq> [] \<and> option_key option \<notin> keys \<and> plain_options (insert (option_key option) keys) rest)"

definition option_groups :: "string list list" where
  "option_groups = [[''exec'', ''noexec''], [''suid'', ''nosuid''], [''dev'', ''nodev''],
     [''atime'', ''noatime'', ''relatime'', ''strictatime''], [''diratime'', ''nodiratime'']]"

definition explicit_options :: "string list \<Rightarrow> string list option" where
  "explicit_options options =
     (if \<not> plain_options {} options then None
      else if (''rw'' \<in> set options) = (''ro'' \<in> set options) then None
      else if list_ex (\<lambda>group. 1 < length (filter (\<lambda>option. option \<in> set options) group)) option_groups then None
      else Some (sort options))"

definition options_status :: "string list \<Rightarrow> string list \<Rightarrow> LiveCheckStatus" where
  "options_status requested observed = (case (explicit_options requested, explicit_options observed) of
      (Some r, Some ob) \<Rightarrow> if r = ob then LiveCheckStatus.Satisfied
        else violated ''observed mount options differ from the requested goal''
    | _ \<Rightarrow> unknown ''explicit normalized mount options with one access mode are required'')"

definition observed_source ::
  "HistoricalBaseline \<Rightarrow> LiveObservation \<Rightarrow> MountSource \<Rightarrow> NodeCorrelation list \<Rightarrow> (LiveCheckStatus, MountSource) result" where
  "observed_source baseline observation source bindings = (case source of
      MountSource.Filesystem n \<Rightarrow> and_then (result_node baseline observation n bindings) (\<lambda>(target, node).
        if matches_kind (spec_kind (node_kind node)) NodeKindClass.Filesystem then Inr (MountSource.Filesystem target)
        else Inl (violated ''correlated mount source is not a filesystem''))
    | MountSource.Tmpfs \<Rightarrow> Inr MountSource.Tmpfs
    | _ \<Rightarrow> Inl (unknown ''independent evidence for this mount source is required''))"

definition is_other_source :: "MountSource \<Rightarrow> bool" where
  "is_other_source s = (case s of MountSource.Other _ \<Rightarrow> True | _ \<Rightarrow> False)"

definition observed_mount ::
  "HistoricalBaseline \<Rightarrow> LiveObservation \<Rightarrow> MountSource \<Rightarrow> PathBuf \<Rightarrow> MountContext \<Rightarrow> NodeCorrelation list \<Rightarrow>
   (LiveCheckStatus, ObservedMount) result" where
  "observed_mount baseline observation source target context bindings =
     (if context \<noteq> MountContext.Host then Inl (unknown ''independent mount namespace evidence is required'')
      else if \<not> valid_policy_path target then Inl (unknown ''mount target must be a normalized absolute path'')
      else and_then (observed_source baseline observation source bindings) (\<lambda>src.
        case filter (\<lambda>m. om_target m = target \<and> om_context m = context) (ms_entries (cur_mounts (lo_snapshot observation))) of
          [] \<Rightarrow> Inl (unknown ''requested mount was not observed; complete coverage is required'')
        | mount # others \<Rightarrow>
            if others \<noteq> [] then Inl (unknown ''multiple mount records occupy the requested target'')
            else if is_other_source (om_source mount) then Inl (unknown ''observed mount source is unresolved'')
            else if om_source mount \<noteq> src then Inl (violated ''mount target is occupied by a different source'')
            else Inr mount))"

section \<open>Postconditions\<close>

record ObservedPostconditions =
  opc_observation :: ObservationReference
  opc_checks :: "Postcondition LiveCheck list"

definition dependency_result :: "LiveObservation \<Rightarrow> Postcondition \<Rightarrow> NodeId \<Rightarrow> NodeId \<Rightarrow> DependencyKind \<Rightarrow> LiveCheckStatus" where
  "dependency_result observation condition source target kind =
     (let here = list_ex (\<lambda>actual. dep_from actual = source \<and> dep_to actual = target \<and> dep_kind actual = kind)
        (g_dependencies (cur_graph (lo_snapshot observation))) in
      case (condition, here) of
        (Postcondition.DependencyPresent _, True) \<Rightarrow> LiveCheckStatus.Satisfied
      | (Postcondition.DependencyAbsent _, True) \<Rightarrow> violated ''dependency is still present in the observed graph''
      | _ \<Rightarrow> unknown ''complete dependency coverage is required to establish absence'')"

definition check_dependency_result ::
  "HistoricalBaseline \<Rightarrow> LiveObservation \<Rightarrow> Postcondition \<Rightarrow> Dependency \<Rightarrow> NodeCorrelation list \<Rightarrow> LiveCheckStatus" where
  "check_dependency_result baseline observation condition dep bindings =
     (case result_node baseline observation (dep_from dep) bindings of
        Inl status \<Rightarrow> status
      | Inr (source, _) \<Rightarrow> (case result_node baseline observation (dep_to dep) bindings of
          Inl status \<Rightarrow> status
        | Inr (target, _) \<Rightarrow> dependency_result observation condition source target (dep_kind dep)))"

definition size_result :: "Bytes option \<Rightarrow> Bytes \<Rightarrow> LiveCheckStatus" where
  "size_result actual expected = (case actual of
      Some found \<Rightarrow> if found = expected then LiveCheckStatus.Satisfied
        else violated ''observed size differs from the requested result''
    | None \<Rightarrow> unknown ''fresh observed node size is required'')"

definition is_lv :: "NodeKind \<Rightarrow> bool" where
  "is_lv k = (case k of NodeKind.LvmLv _ \<Rightarrow> True | _ \<Rightarrow> False)"

definition node_result :: "Postcondition \<Rightarrow> Node \<Rightarrow> LiveCheckStatus" where
  "node_result condition node = (case condition of
      Postcondition.Activation _ active \<Rightarrow>
        if is_lv (spec_kind (node_kind node)) then (case facts_lvm_active (node_size node) of
            Some actual \<Rightarrow> if actual = active then LiveCheckStatus.Satisfied
              else violated ''observed LV activation differs from the requested result''
          | None \<Rightarrow> unknown ''fresh unambiguous native LV activation state is required'')
        else unknown ''unsupported observed node result''
    | Postcondition.NodeAbsent _ \<Rightarrow> violated ''correlated object is still present in the observation''
    | Postcondition.NodeReprobed _ \<Rightarrow> LiveCheckStatus.Satisfied
    | Postcondition.NodeSize _ expected \<Rightarrow> size_result (spec_size (node_kind node)) expected
    | Postcondition.NodeMatches _ spec \<Rightarrow>
        if spec_kind (node_kind node) \<noteq> spec_kind spec
        then violated ''observed node kind or properties differ from the requested result''
        else (case spec_size spec of None \<Rightarrow> LiveCheckStatus.Satisfied | Some expected \<Rightarrow> size_result (spec_size (node_kind node)) expected)
    | Postcondition.FilesystemLabel _ label \<Rightarrow> (case spec_kind (node_kind node) of
          NodeKind.Filesystem _ actual \<Rightarrow> if actual = label then LiveCheckStatus.Satisfied
            else violated ''observed filesystem label differs from the requested result''
        | _ \<Rightarrow> violated ''correlated object is not a filesystem'')
    | _ \<Rightarrow> unknown ''unsupported observed node result'')"

definition postcondition_node :: "Postcondition \<Rightarrow> NodeId option" where
  "postcondition_node condition = (case condition of
      Postcondition.NodeMatches n _ \<Rightarrow> Some n
    | Postcondition.NodeSize n _ \<Rightarrow> Some n
    | Postcondition.NodeReprobed n \<Rightarrow> Some n
    | Postcondition.Activation n _ \<Rightarrow> Some n
    | Postcondition.FilesystemLabel n _ \<Rightarrow> Some n
    | Postcondition.NodeAbsent n \<Rightarrow> Some n
    | _ \<Rightarrow> None)"

definition check_node_result ::
  "HistoricalBaseline \<Rightarrow> LiveObservation \<Rightarrow> Postcondition \<Rightarrow> NodeCorrelation list \<Rightarrow> LiveCheckStatus" where
  "check_node_result baseline observation condition bindings = (case postcondition_node condition of
      None \<Rightarrow> unknown ''provider result or complete observation coverage is required for this postcondition''
    | Some source \<Rightarrow> (case result_node baseline observation source bindings of
        Inl status \<Rightarrow> status
      | Inr (_, node) \<Rightarrow> node_result condition node))"

definition check_result ::
  "HistoricalBaseline \<Rightarrow> LiveObservation \<Rightarrow> Postcondition \<Rightarrow> NodeCorrelation list \<Rightarrow> LiveCheckStatus" where
  "check_result baseline observation condition bindings = (case condition of
      Postcondition.DependencyPresent dep \<Rightarrow> check_dependency_result baseline observation condition dep bindings
    | Postcondition.DependencyAbsent dep \<Rightarrow> check_dependency_result baseline observation condition dep bindings
    | Postcondition.RuntimeMountPresent source target context \<Rightarrow>
        (case observed_mount baseline observation source target context bindings of
          Inl status \<Rightarrow> status | Inr _ \<Rightarrow> LiveCheckStatus.Satisfied)
    | Postcondition.RuntimeMountAbsent target context \<Rightarrow>
        if list_ex (\<lambda>m. om_target m = target \<and> om_context m = context) (ms_entries (cur_mounts (lo_snapshot observation)))
        then violated ''mount target is still occupied in an observed context''
        else unknown ''complete mount namespace coverage is required to establish absence''
    | _ \<Rightarrow> check_node_result baseline observation condition bindings)"

definition check_observed_postconditions_with_bindings ::
  "HistoricalBaseline \<Rightarrow> LiveObservation \<Rightarrow> Postcondition list \<Rightarrow> NodeCorrelation list \<Rightarrow>
   (ObservationError, ObservedPostconditions) result" where
  "check_observed_postconditions_with_bindings baseline observation postconditions bindings =
     and_then (validate_observation observation) (\<lambda>_.
     and_then (map_err ObservationError.Graph (validate_structure (cur_graph (hb_snapshot baseline)))) (\<lambda>_.
     Inr \<lparr>opc_observation = lo_reference observation,
       opc_checks = map (\<lambda>condition. \<lparr>lc_condition = condition,
         lc_status = qualify_observed_status observation (check_result baseline observation condition bindings)\<rparr>) postconditions\<rparr>))"

definition check_observed_postconditions ::
  "HistoricalBaseline \<Rightarrow> LiveObservation \<Rightarrow> Postcondition list \<Rightarrow> (ObservationError, ObservedPostconditions) result" where
  "check_observed_postconditions baseline observation postconditions =
     check_observed_postconditions_with_bindings baseline observation postconditions []"

section \<open>The final goal\<close>

record ExecutionContext =
  ctx_run_id :: uuid
  ctx_plan_id :: uuid
  ctx_plan :: ExecutionPlan
  ctx_historical_baseline :: HistoricalBaseline
  ctx_requested_goal :: DesiredState
  ctx_protected_scope :: ProtectedScope

definition run_context :: "ExecutionRun \<Rightarrow> ExecutionContext" where
  "run_context run = \<lparr>ctx_run_id = run_run_id run, ctx_plan_id = doc_plan_id (run_document run), ctx_plan = run_plan run,
     ctx_historical_baseline = doc_baseline (run_document run), ctx_requested_goal = doc_requested_goal (run_document run),
     ctx_protected_scope = doc_protected_scope (run_document run)\<rparr>"

text \<open>The one-to-one correlation of the nodes of the goal, in the order of their iteration.\<close>

definition map_goal_node ::
  "ExecutionContext \<Rightarrow> LiveObservation \<Rightarrow> NodeCorrelation list \<Rightarrow> (NodeId \<times> NodeId) list \<Rightarrow> NodeId \<times> Node \<Rightarrow>
   (LiveCheckStatus, (NodeId \<times> NodeId) list) result" where
  "map_goal_node context observation bindings mapping p = (case p of (n, requested) \<Rightarrow>
     and_then (result_node (ctx_historical_baseline context) observation n bindings) (\<lambda>(target, node).
     if target \<in> snd ` set mapping then Inl (unknown ''final graph correlation is not one-to-one'')
     else if spec_kind (node_kind requested) \<noteq> spec_kind (node_kind node)
     then Inl (violated ''final node properties differ from the requested goal'')
     else (case spec_size (node_kind requested) of
         None \<Rightarrow> Inr (mapping @ [(n, target)])
       | Some expected \<Rightarrow> (case spec_size (node_kind node) of
           Some actual \<Rightarrow> if actual = expected then Inr (mapping @ [(n, target)])
             else Inl (violated ''final node capacity differs from the requested goal'')
         | None \<Rightarrow> Inl (unknown ''final managed node capacity is unknown'')))))"

text \<open>
  Whether the image of an edge is among the actual ones. An index into the mapping that is
  absent panics, which is \<open>None\<close>; the endpoints are looked up in the order of the source.
\<close>

fun edge_observed :: "(NodeId \<times> NodeId) list \<Rightarrow> NodeId \<times> NodeId \<times> 'k \<Rightarrow> (NodeId \<times> NodeId \<times> 'k) list \<Rightarrow> bool option" where
  "edge_observed mapping e [] = Some False"
| "edge_observed mapping (source, target, kind) ((source', target', kind') # rest) = (case map_of mapping source of
     None \<Rightarrow> None
   | Some s \<Rightarrow> if source' \<noteq> s then edge_observed mapping (source, target, kind) rest
       else (case map_of mapping target of
         None \<Rightarrow> None
       | Some t \<Rightarrow> if target' = t \<and> kind' = kind then Some True else edge_observed mapping (source, target, kind) rest))"

fun edge_missing :: "(NodeId \<times> NodeId) list \<Rightarrow> (NodeId \<times> NodeId \<times> 'k) list \<Rightarrow> (NodeId \<times> NodeId \<times> 'k) list \<Rightarrow> bool option" where
  "edge_missing mapping [] actual = Some False"
| "edge_missing mapping (e # rest) actual = (case edge_observed mapping e actual of
     None \<Rightarrow> None | Some True \<Rightarrow> edge_missing mapping rest actual | Some False \<Rightarrow> Some True)"

definition dep_triple :: "Dependency \<Rightarrow> NodeId \<times> NodeId \<times> DependencyKind" where
  "dep_triple e = (dep_from e, dep_to e, dep_kind e)"

definition rel_triple :: "Relation \<Rightarrow> NodeId \<times> NodeId \<times> RelationKind" where
  "rel_triple r = (rel_from r, rel_to r, rel_kind r)"

definition topology_differs :: "(NodeId \<times> NodeId) list \<Rightarrow> NodeGraph \<Rightarrow> NodeGraph \<Rightarrow> bool option" where
  "topology_differs mapping goal actual =
     (if length (g_nodes goal) \<noteq> length (g_nodes actual) \<or> length (g_dependencies goal) \<noteq> length (g_dependencies actual)
         \<or> length (g_relations goal) \<noteq> length (g_relations actual) then Some True
      else (case edge_missing mapping (map dep_triple (g_dependencies goal)) (map dep_triple (g_dependencies actual)) of
          Some False \<Rightarrow> edge_missing mapping (map rel_triple (g_relations goal)) (map rel_triple (g_relations actual))
        | other \<Rightarrow> other))"

definition activation_status ::
  "ExecutionContext \<Rightarrow> LiveObservation \<Rightarrow> NodeCorrelation list \<Rightarrow> NodeId \<Rightarrow> bool \<Rightarrow> LiveCheckStatus" where
  "activation_status context observation bindings target active =
     (case result_node (ctx_historical_baseline context) observation target bindings of
        Inl status \<Rightarrow> status
      | Inr (_, node) \<Rightarrow>
          if \<not> is_lv (spec_kind (node_kind node)) then unknown ''final activation verification supports only logical volumes''
          else (case facts_lvm_active (node_size node) of
              None \<Rightarrow> unknown ''final LV activation state is unknown''
            | Some actual \<Rightarrow>
                if actual \<noteq> active then violated ''final LV activation differs from the reviewed request''
                else if active \<and> \<not> is_some_and (facts_block (node_size node)) (\<lambda>block.
                    block_read_only block = Some False \<and> block_geometry block \<noteq> None \<and> block_paths block \<noteq> [])
                then unknown ''final active LV requires a known writable block interface''
                else LiveCheckStatus.Satisfied))"

text \<open>The two loops over requested activations stop at the first status that is not satisfied.\<close>

definition settle_activation :: "LiveCheckStatus \<Rightarrow> 'a \<Rightarrow> (LiveCheckStatus, 'a) result" where
  "settle_activation status x = (if status \<noteq> LiveCheckStatus.Satisfied then Inl status else Inr x)"

definition planned_activation ::
  "ExecutionContext \<Rightarrow> LiveObservation \<Rightarrow> NodeCorrelation list \<Rightarrow> NodeId set \<Rightarrow> PlannedAction \<Rightarrow> (LiveCheckStatus, NodeId set) result" where
  "planned_activation context observation bindings seen action = (case pa_operation action of
      ProviderAction.Lvm (LvmAction.SetActivation target active) \<Rightarrow>
        if target \<in> seen then Inr seen
        else settle_activation (activation_status context observation bindings target active) (insert target seen)
    | _ \<Rightarrow> Inr seen)"

definition intended_activation ::
  "ExecutionContext \<Rightarrow> LiveObservation \<Rightarrow> NodeCorrelation list \<Rightarrow> unit \<Rightarrow> OperationIntent \<Rightarrow> (LiveCheckStatus, unit) result" where
  "intended_activation context observation bindings _ intent = (case intent of
      OperationIntent.SetActivation target active \<Rightarrow>
        settle_activation (activation_status context observation bindings target active) ()
    | _ \<Rightarrow> Inl (unknown ''independent final evidence for the requested operation intent is required''))"

definition activations_status ::
  "ExecutionContext \<Rightarrow> LiveObservation \<Rightarrow> NodeCorrelation list \<Rightarrow> PlannedAction list \<Rightarrow> LiveCheckStatus" where
  "activations_status context observation bindings ordered =
     (case and_then (try_fold (planned_activation context observation bindings) {} (rev ordered)) (\<lambda>_.
        try_fold (intended_activation context observation bindings) () (des_intents (ctx_requested_goal context))) of
        Inl status \<Rightarrow> status | Inr _ \<Rightarrow> LiveCheckStatus.Satisfied)"

definition graph_status ::
  "ExecutionContext \<Rightarrow> LiveObservation \<Rightarrow> NodeCorrelation list \<Rightarrow> (ObservationError fault, LiveCheckStatus) result" where
  "graph_status context observation bindings =
     (case try_fold (map_goal_node context observation bindings) [] (g_nodes (des_graph (ctx_requested_goal context))) of
        Inl status \<Rightarrow> Inr status
      | Inr mapping \<Rightarrow> (case topology_differs mapping (des_graph (ctx_requested_goal context)) (cur_graph (lo_snapshot observation)) of
          None \<Rightarrow> Inl Panic
        | Some True \<Rightarrow> Inr (violated ''final topology differs from the requested goal'')
        | Some False \<Rightarrow> (case ordered_actions (ctx_plan context) of
            None \<Rightarrow> Inl Panic
          | Some ordered \<Rightarrow> Inr (activations_status context observation bindings ordered))))"

definition runtime_goal_check ::
  "ExecutionContext \<Rightarrow> LiveObservation \<Rightarrow> NodeCorrelation list \<Rightarrow> MountEntry \<Rightarrow> GoalAspect LiveCheck" where
  "runtime_goal_check context observation bindings mount =
     \<lparr>lc_condition = GoalAspect.RuntimeMount (me_target mount) (me_context mount),
      lc_status = qualify_observed_status observation
        (case observed_mount (ctx_historical_baseline context) observation (me_source mount) (me_target mount) (me_context mount) bindings of
          Inl status \<Rightarrow> status | Inr actual \<Rightarrow> options_status (me_options mount) (om_options actual))\<rparr>"

definition persistent_goal_check :: "MountEntry \<Rightarrow> GoalAspect LiveCheck" where
  "persistent_goal_check mount = \<lparr>lc_condition = GoalAspect.PersistentMount (me_target mount) (me_context mount),
     lc_status = unknown ''independent persistent configuration verification is required''\<rparr>"

definition boot_goal_check :: "BootSpec \<Rightarrow> GoalAspect LiveCheck" where
  "boot_goal_check boot = \<lparr>lc_condition = GoalAspect.Boot,
     lc_status = (case boot of BootSpec.Unmanaged \<Rightarrow> LiveCheckStatus.Satisfied
       | _ \<Rightarrow> unknown ''independent managed boot verification is required'')\<rparr>"

definition check_observed_goal ::
  "ExecutionContext \<Rightarrow> LiveObservation \<Rightarrow> NodeCorrelation list \<Rightarrow> (ObservationError fault, GoalAspect LiveCheck list) result" where
  "check_observed_goal context observation bindings =
     and_then (map_err fault.Failed (validate_observation observation)) (\<lambda>_.
     and_then (map_err (fault.Failed \<circ> ObservationError.Graph)
       (validate_structure (cur_graph (hb_snapshot (ctx_historical_baseline context))))) (\<lambda>_.
     and_then (map_err (fault.Failed \<circ> ObservationError.Graph) (validate_structure (des_graph (ctx_requested_goal context)))) (\<lambda>_.
     and_then (graph_status context observation bindings) (\<lambda>status.
     Inr ([\<lparr>lc_condition = GoalAspect.Graph, lc_status = qualify_observed_status observation status\<rparr>]
       @ map (runtime_goal_check context observation bindings) (msp_runtime (des_mounts (ctx_requested_goal context)))
       @ map persistent_goal_check (msp_persistent (des_mounts (ctx_requested_goal context)))
       @ [boot_goal_check (des_boot (ctx_requested_goal context))])))))"

end
