(* ===== verification/Correlate_Correct.thy ===== *)
theory Correlate_Correct
  imports Correlate
begin

text \<open>
  What a match of the correlation guarantees, and that a selection is matched object by object.
\<close>

section \<open>The recursion of the source\<close>

lemma correlate_with_plain:
  assumes "\<And>source node. source \<in> set selected \<Longrightarrow> graph_node (cur_graph current) source = Some node \<Longrightarrow>
      \<not> is_table_kind (spec_kind (node_kind node))"
  shows "correlate_with t current next_state selected = correlate_with t' current next_state selected"
proof -
  have "try_fold (correlate_source t current next_state) st selected = try_fold (correlate_source t' current next_state) st selected" for st
    using assms
  proof (induction selected arbitrary: st)
    case (Cons source rest)
    have "correlate_source t current next_state st source = correlate_source t' current next_state st source"
      using Cons.prems by (cases "graph_node (cur_graph current) source") (auto simp: correlate_source_def split: prod.splits)
    moreover have "try_fold (correlate_source t current next_state) st' rest = try_fold (correlate_source t' current next_state) st' rest" for st'
      using Cons.prems by (intro Cons.IH) auto
    ultimately show ?case by (simp split: sum.splits)
  qed simp
  then show ?thesis by (simp add: correlate_with_def)
qed

lemma physical_not_table: "is_physical_kind k \<Longrightarrow> \<not> is_table_kind k"
  by (cases k) (simp_all add: is_physical_kind_def is_table_kind_def)

lemma table_parent_physical:
  assumes "table_parent g source = Inr parent"
  shows "\<exists>node. graph_node g parent = Some node \<and> is_physical_kind (spec_kind (node_kind node))"
  using assms by (auto simp: table_parent_def is_some_and_def split: list.splits if_splits option.splits)

lemma correlate_partition_table_eq:
  "correlate_partition_table current next_state source = match_table (correlate_nodes current next_state) current next_state source"
proof (cases "table_parent (cur_graph current) source")
  case (Inl e)
  then show ?thesis by (simp add: correlate_partition_table_def match_table_def)
next
  case (Inr parent)
  then have "correlate_with (\<lambda>source. Inl (CorrelationError.NoIdentity source)) current next_state [parent]
      = correlate_nodes current next_state [parent]"
    unfolding correlate_nodes_def using physical_not_table table_parent_physical [OF Inr] by (intro correlate_with_plain) auto
  then show ?thesis using Inr by (simp add: correlate_partition_table_def match_table_def)
qed

section \<open>Matches\<close>

text \<open>Two observed objects carry one identity, of a kind that identifies them, and no other object of either graph does.\<close>

definition identified :: "CurrentState \<Rightarrow> CurrentState \<Rightarrow> NodeCorrelation \<Rightarrow> bool" where
  "identified current next_state m \<longleftrightarrow> (\<exists>node candidate.
     graph_node (cur_graph current) (nc_source m) = Some node \<and> graph_node (cur_graph next_state) (nc_target m) = Some candidate
     \<and> supported_identity node (nc_identity m) \<and> compatible_kinds (spec_kind (node_kind node)) (spec_kind (node_kind candidate))
     \<and> (\<forall>n other. graph_node (cur_graph current) n = Some other \<longrightarrow> (nc_identity m \<in> set (facts_identities (node_size other)) \<longleftrightarrow> n = nc_source m))
     \<and> (\<forall>n other. graph_node (cur_graph next_state) n = Some other \<longrightarrow> (nc_identity m \<in> set (facts_identities (node_size other)) \<longleftrightarrow> n = nc_target m)))"

text \<open>Two partition tables of one type are the only tables on two disks that carry one identity.\<close>

definition only_table_on :: "NodeGraph \<Rightarrow> NodeId \<Rightarrow> NodeId \<Rightarrow> bool" where
  "only_table_on g disk table \<longleftrightarrow>
     {dep \<in> set (g_dependencies g). dep_to dep = table} = {\<lparr>dep_from = disk, dep_to = table, dep_kind = DependencyKind.Backs\<rparr>}
     \<and> (\<forall>dep \<in> set (g_dependencies g). backs_table g disk dep \<longrightarrow> dep_to dep = table)"

definition same_table :: "CurrentState \<Rightarrow> CurrentState \<Rightarrow> NodeCorrelation \<Rightarrow> bool" where
  "same_table current next_state m \<longleftrightarrow> (\<exists>node candidate disk.
     graph_node (cur_graph current) (nc_source m) = Some node \<and> graph_node (cur_graph next_state) (nc_target m) = Some candidate
     \<and> is_table_kind (spec_kind (node_kind node)) \<and> spec_kind (node_kind candidate) = spec_kind (node_kind node)
     \<and> identified current next_state disk \<and> nc_identity disk = nc_identity m
     \<and> only_table_on (cur_graph current) (nc_source disk) (nc_source m)
     \<and> only_table_on (cur_graph next_state) (nc_target disk) (nc_target m))"

definition observed :: "CurrentState \<Rightarrow> NodeId \<Rightarrow> bool" where
  "observed state n \<longleftrightarrow> \<not> uuid_is_nil (as_uuid n)
     \<and> (\<exists>node. graph_node (cur_graph state) n = Some node \<and> facts_presence (node_size node) = Presence.Present)"

definition same_object :: "CurrentState \<Rightarrow> CurrentState \<Rightarrow> NodeCorrelation \<Rightarrow> bool" where
  "same_object current next_state m \<longleftrightarrow> observed current (nc_source m) \<and> observed next_state (nc_target m)
     \<and> (identified current next_state m \<or> same_table current next_state m)"

lemma present_Inr: "present n node = Inr u \<longleftrightarrow> \<not> uuid_is_nil (as_uuid n) \<and> facts_presence (node_size node) = Presence.Present"
  by (simp add: present_def)

lemma single_filter: "length (filter P xs) = 1 \<Longrightarrow> x \<in> set xs \<Longrightarrow> P x \<Longrightarrow> y \<in> set xs \<Longrightarrow> P y \<Longrightarrow> y = x"
  by (induction xs) (auto split: if_splits simp: filter_empty_conv)

lemma filter_set_one:
  assumes "filter P xs = [x]"
  shows "x \<in> set xs \<and> P x"
proof -
  have "x \<in> set (filter P xs)" by (simp add: assms)
  then show ?thesis by simp
qed

lemma carried_once:
  assumes "length (filter (carries identity) (g_nodes g)) = 1" and "(source, node) \<in> set (g_nodes g)" and "carries identity (source, node)"
    and "graph_node g n = Some other" and "identity \<in> set (facts_identities (node_size other))"
  shows "n = source"
proof -
  have "(n, other) \<in> set (g_nodes g)" using assms(4) by (simp add: graph_node_def map_of_SomeD)
  moreover have "carries identity (n, other)" using assms(5) by (simp add: carries_def)
  ultimately show ?thesis using single_filter [OF assms(1,2,3)] by blast
qed

lemma source_identity_Inr:
  assumes "source_identity current source node = Inr identity" and "graph_node (cur_graph current) source = Some node"
  shows "supported_identity node identity \<and> (\<forall>n other. graph_node (cur_graph current) n = Some other \<longrightarrow>
      (identity \<in> set (facts_identities (node_size other)) \<longleftrightarrow> n = source))"
proof -
  from assms(1) have one: "filter (supported_identity node) (facts_identities (node_size node)) = [identity]"
    and unique: "length (filter (carries identity) (g_nodes (cur_graph current))) = 1"
    by (auto simp: source_identity_def split: list.splits if_splits)
  have own: "supported_identity node identity" "identity \<in> set (facts_identities (node_size node))"
    using filter_set_one [OF one] by auto
  have here: "(source, node) \<in> set (g_nodes (cur_graph current))" "carries identity (source, node)"
    using assms(2) own by (simp_all add: graph_node_def carries_def map_of_SomeD)
  have "n = source" if "graph_node (cur_graph current) n = Some other" "identity \<in> set (facts_identities (node_size other))" for n other
    using carried_once [OF unique here that] .
  then show ?thesis using own assms(2) by (metis option.inject)
qed

lemma match_identity_sound:
  assumes "match_identity current next_state targets source node = Inr m" and "graph_node (cur_graph current) source = Some node"
    and "graph_inv (cur_graph next_state)"
  shows "nc_source m = source \<and> nc_target m \<notin> targets \<and> observed next_state (nc_target m) \<and> identified current next_state m"
proof -
  from assms(1) obtain identity where identity: "source_identity current source node = Inr identity" and
    matched: "(case filter (carries identity) (g_nodes (cur_graph next_state)) of
       [] \<Rightarrow> Inl (CorrelationError.MissingTarget source)
     | (target, candidate) # others \<Rightarrow>
         if others \<noteq> [] \<or> target \<in> targets then Inl (CorrelationError.AmbiguousTarget source)
         else and_then (present target candidate) (\<lambda>_.
           if \<not> compatible_kinds (spec_kind (node_kind node)) (spec_kind (node_kind candidate))
           then Inl (CorrelationError.KindChanged source target)
           else if \<not> one_of_variant candidate identity then Inl (CorrelationError.AmbiguousTarget source)
           else Inr \<lparr>nc_source = source, nc_target = target, nc_identity = identity\<rparr>)) = Inr m"
    unfolding match_identity_def and_then_Inr_iff by blast
  from matched obtain target candidate where
    found: "filter (carries identity) (g_nodes (cur_graph next_state)) = [(target, candidate)]"
    and fresh: "target \<notin> targets" and pres: "present target candidate = Inr ()"
    and kinds: "compatible_kinds (spec_kind (node_kind node)) (spec_kind (node_kind candidate))"
    and m: "m = \<lparr>nc_source = source, nc_target = target, nc_identity = identity\<rparr>"
    by (cases "filter (carries identity) (g_nodes (cur_graph next_state))")
      (auto simp: and_then_Inr_iff split: if_splits)
  have there: "(target, candidate) \<in> set (g_nodes (cur_graph next_state))" "carries identity (target, candidate)"
    using filter_set_one [OF found] by auto
  then have node: "graph_node (cur_graph next_state) target = Some candidate"
    using assms(3) by (simp add: graph_node_def graph_inv_def)
  have "n = target" if "graph_node (cur_graph next_state) n = Some other" "identity \<in> set (facts_identities (node_size other))" for n other
    using carried_once [OF _ there that] found by simp
  then have "\<forall>n other. graph_node (cur_graph next_state) n = Some other \<longrightarrow>
      (identity \<in> set (facts_identities (node_size other)) \<longleftrightarrow> n = target)"
    using node there(2) by (metis carries_def option.inject snd_conv)
  then have "identified current next_state m"
    using source_identity_Inr [OF identity assms(2)] node kinds assms(2) unfolding identified_def m by fastforce
  then show ?thesis using fresh pres node by (auto simp: m observed_def present_Inr)
qed

section \<open>Selections\<close>

text \<open>The loop: every object seen has its match, under distinct targets.\<close>

definition loop_inv :: "CurrentState \<Rightarrow> CurrentState \<Rightarrow> CorrelationLoop \<Rightarrow> bool" where
  "loop_inv current next_state st = (case st of (seen, targets, found) \<Rightarrow>
     seen = nc_source ` set found \<and> targets = nc_target ` set found \<and> distinct (map nc_source found) \<and> distinct (map nc_target found)
     \<and> (\<forall>m \<in> set found. same_object current next_state m))"

lemma correlate_source_step:
  assumes "correlate_source table current next_state st source = Inr st'" and "loop_inv current next_state st"
    and "graph_inv (cur_graph next_state)"
    and "\<And>m. table source = Inr m \<Longrightarrow> nc_source m = source \<and> observed next_state (nc_target m) \<and> same_table current next_state m"
  shows "loop_inv current next_state st'"
proof -
  obtain seen targets found where st: "st = (seen, targets, found)" by (cases st) auto
  show ?thesis
  proof (cases "source \<in> seen")
    case True
    then show ?thesis using assms(1,2) by (simp add: correlate_source_def st)
  next
    case False
    with assms(1) obtain node m where node: "graph_node (cur_graph current) source = Some node" and pres: "present source node = Inr ()"
      and m: "if is_table_kind (spec_kind (node_kind node)) then table source = Inr m \<and> nc_target m \<notin> targets
        else match_identity current next_state targets source node = Inr m"
      and st': "st' = (insert source seen, insert (nc_target m) targets, found @ [m])"
      by (auto simp: correlate_source_def st and_then_Inr_iff ok_or_Inr_iff split: if_splits)
    have "nc_source m = source \<and> nc_target m \<notin> targets \<and> observed next_state (nc_target m)
        \<and> (identified current next_state m \<or> same_table current next_state m)"
      using m assms(4) match_identity_sound [OF _ node assms(3)] by (auto split: if_splits)
    moreover have "observed current source" using node pres by (auto simp: observed_def present_Inr)
    ultimately show ?thesis using assms(2) False by (auto simp: loop_inv_def st st' same_object_def)
  qed
qed

lemma correlate_source_seen:
  assumes "try_fold (correlate_source table current next_state) st selected = Inr st'"
  shows "fst st' = fst st \<union> set selected"
  using assms
proof (induction selected arbitrary: st)
  case (Cons source rest)
  then obtain mid where step: "correlate_source table current next_state st source = Inr mid"
    and rest: "try_fold (correlate_source table current next_state) mid rest = Inr st'"
    by (auto split: sum.splits)
  have "fst mid = insert source (fst st)"
    using step by (cases st) (auto simp: correlate_source_def and_then_Inr_iff split: if_splits)
  then show ?case using Cons.IH [OF rest] by auto
qed simp

lemma correlate_with_sound:
  assumes "correlate_with table current next_state selected = Inr ms" and "graph_inv (cur_graph next_state)"
    and "\<And>source m. table source = Inr m \<Longrightarrow> nc_source m = source \<and> observed next_state (nc_target m) \<and> same_table current next_state m"
  shows "nc_source ` set ms = set selected \<and> distinct (map nc_source ms) \<and> distinct (map nc_target ms)
    \<and> (\<forall>m \<in> set ms. same_object current next_state m)"
proof -
  from assms(1) obtain seen targets where
    loop: "try_fold (correlate_source table current next_state) ({}, {}, []) selected = Inr (seen, targets, ms)"
    by (auto simp: correlate_with_def and_then_Inr_iff)
  have "loop_inv current next_state (seen, targets, ms)"
    by (rule try_fold_invariant [OF loop]) (simp add: loop_inv_def, rule correlate_source_step [OF _ _ assms(2,3)])
  moreover have "seen = set selected" using correlate_source_seen [OF loop] by simp
  ultimately show ?thesis by (simp add: loop_inv_def)
qed

section \<open>Tables\<close>

lemma only_edge:
  assumes "length (filter (\<lambda>dep. dep_to dep = table) deps) = 1" and "dep \<in> set deps" and "dep_to dep = table"
  shows "{d \<in> set deps. dep_to d = table} = {dep}"
  using single_filter [OF assms] assms(2,3) by blast

lemma table_parent_only:
  assumes "table_parent g source = Inr parent" and "graph_node g source = Some node" and "is_table_kind (spec_kind (node_kind node))"
  shows "only_table_on g parent source"
proof -
  from assms(1) obtain p where p: "filter (\<lambda>dep. dep_to dep = source) (g_dependencies g) = [p]" "dep_kind p = DependencyKind.Backs"
    "dep_from p = parent" "length (filter (backs_table g parent) (g_dependencies g)) = 1"
    by (auto simp: table_parent_def split: list.splits if_splits)
  note mem = filter_set_one [OF p(1)]
  have shape: "p = \<lparr>dep_from = parent, dep_to = source, dep_kind = DependencyKind.Backs\<rparr>" using mem p(2,3) by simp
  have "{d \<in> set (g_dependencies g). dep_to d = source} = {p}" using only_edge [of source "g_dependencies g" p] p(1) mem by simp
  moreover have "backs_table g parent p" using assms(2,3) mem p(2,3) by (simp add: backs_table_def is_some_and_def)
  then have "\<forall>d \<in> set (g_dependencies g). backs_table g parent d \<longrightarrow> dep_to d = source"
    using single_filter [OF p(4), of p] mem by blast
  ultimately show ?thesis unfolding only_table_on_def using shape by simp
qed

lemma tables_on_iff:
  "(n, node) \<in> set (tables_on g parent) \<longleftrightarrow> graph_node g n = Some node \<and> is_table_kind (spec_kind (node_kind node))
     \<and> (\<exists>dep \<in> set (g_dependencies g). dep_from dep = parent \<and> dep_kind dep = DependencyKind.Backs \<and> dep_to dep = n)"
  by (force simp: tables_on_def map_filter_def image_iff)

lemma tables_on_only:
  assumes "tables_on g parent = [(table, node)]" and "length (filter (\<lambda>dep. dep_to dep = table) (g_dependencies g)) = 1"
  shows "only_table_on g parent table"
proof -
  have here: "(table, node) \<in> set (tables_on g parent)" using assms(1) by simp
  then obtain dep where dep: "dep \<in> set (g_dependencies g)" "dep_from dep = parent" "dep_kind dep = DependencyKind.Backs" "dep_to dep = table"
    by (auto simp: tables_on_iff)
  have "dep_to d = table" if d: "d \<in> set (g_dependencies g)" "backs_table g parent d" for d
  proof -
    obtain other where "graph_node g (dep_to d) = Some other" "is_table_kind (spec_kind (node_kind other))"
      using d(2) by (auto simp: backs_table_def is_some_and_def split: option.splits)
    then have "(dep_to d, other) \<in> set (tables_on g parent)" using d by (auto simp: tables_on_iff backs_table_def)
    then show ?thesis by (simp add: assms(1))
  qed
  moreover have "dep = \<lparr>dep_from = parent, dep_to = table, dep_kind = DependencyKind.Backs\<rparr>" using dep by simp
  ultimately show ?thesis using only_edge [OF assms(2) dep(1,4)] by (auto simp: only_table_on_def)
qed

lemma disk_identified:
  assumes "correlate_with (\<lambda>source. Inl (CorrelationError.NoIdentity source)) current next_state [parent] = Inr ms"
    and "graph_inv (cur_graph next_state)" and "table_parent (cur_graph current) source = Inr parent"
  shows "\<exists>disk. ms = [disk] \<and> nc_source disk = parent \<and> identified current next_state disk"
proof -
  have sound: "nc_source ` set ms = {parent}" "distinct (map nc_source ms)" "\<forall>m \<in> set ms. same_object current next_state m"
    using correlate_with_sound [OF assms(1,2)] by auto
  have "length ms = 1" using sound(1,2) by (metis One_nat_def card.empty card_insert_disjoint distinct_card finite.emptyI insert_absorb insert_not_empty length_map list.set_map)
  then obtain disk where disk: "ms = [disk]" by (auto simp: length_Suc_conv)
  have "\<not> same_table current next_state disk"
    using physical_not_table table_parent_physical [OF assms(3)] sound(1) disk by (auto simp: same_table_def)
  then show ?thesis using sound disk by (auto simp: same_object_def)
qed

lemma correlate_partition_table_sound:
  assumes "correlate_partition_table current next_state source = Inr m" and "graph_inv (cur_graph next_state)"
  shows "nc_source m = source \<and> observed next_state (nc_target m) \<and> same_table current next_state m"
proof -
  from assms(1) obtain parent ms where parent: "table_parent (cur_graph current) source = Inr parent"
    and ms: "correlate_with (\<lambda>source. Inl (CorrelationError.NoIdentity source)) current next_state [parent] = Inr ms"
    by (auto simp: correlate_partition_table_def match_table_def and_then_Inr_iff map_err_Inr_iff)
  obtain disk where disk: "ms = [disk]" "nc_source disk = parent" "identified current next_state disk"
    using disk_identified [OF ms assms(2) parent] by blast
  obtain target node where found: "tables_on (cur_graph next_state) (nc_target disk) = [(target, node)]"
    and one: "length (filter (\<lambda>dep. dep_to dep = target) (g_dependencies (cur_graph next_state))) = 1"
    and pres: "present target node = Inr ()"
    and kind: "map_option (\<lambda>n. spec_kind (node_kind n)) (graph_node (cur_graph current) source) = Some (spec_kind (node_kind node))"
    and m: "m = \<lparr>nc_source = source, nc_target = target, nc_identity = nc_identity disk\<rparr>"
    using assms(1) parent ms disk(1)
    by (cases "tables_on (cur_graph next_state) (nc_target disk)")
      (auto simp: correlate_partition_table_def match_table_def and_then_Inr_iff split: if_splits)
  have next_node: "graph_node (cur_graph next_state) target = Some node" "is_table_kind (spec_kind (node_kind node))"
    using found tables_on_iff [of target node "cur_graph next_state" "nc_target disk"] by simp_all
  obtain old where old: "graph_node (cur_graph current) source = Some old" "spec_kind (node_kind old) = spec_kind (node_kind node)"
    using kind by auto
  have "same_table current next_state m"
    unfolding same_table_def m
    using old next_node disk tables_on_only [OF found one] table_parent_only [OF parent old(1)] by (intro exI [of _ old] exI [of _ node] exI [of _ disk]) simp
  then show ?thesis using next_node pres by (auto simp: m observed_def present_Inr)
qed

lemma correlate_nodes_sound:
  assumes "correlate_nodes current next_state selected = Inr ms" and "graph_inv (cur_graph next_state)"
  shows "nc_source ` set ms = set selected \<and> distinct (map nc_source ms) \<and> distinct (map nc_target ms)
    \<and> (\<forall>m \<in> set ms. same_object current next_state m)"
  using correlate_with_sound [OF _ assms(2), of "correlate_partition_table current next_state"] assms(1)
    correlate_partition_table_sound [OF _ assms(2)] unfolding correlate_nodes_def by blast

section \<open>One object at a time\<close>

lemma match_identity_fewer:
  "match_identity current next_state targets source node = Inr m \<Longrightarrow> match_identity current next_state {} source node = Inr m"
proof (cases "source_identity current source node")
  case (Inr identity)
  assume "match_identity current next_state targets source node = Inr m"
  then show ?thesis using Inr
    by (cases "filter (carries identity) (g_nodes (cur_graph next_state))") (auto simp: match_identity_def split: if_splits)
qed (simp add: match_identity_def)

lemma correlate_source_skip: "source \<in> fst st \<Longrightarrow> correlate_source table current next_state st source = Inr st"
  by (cases st) (simp add: correlate_source_def)

lemma correlate_source_alone:
  assumes "correlate_source table current next_state (seen, targets, found) source = Inr (seen', targets', found')" and "source \<notin> seen"
  shows "\<exists>m. found' = found @ [m]
    \<and> correlate_source table current next_state ({}, {}, []) source = Inr ({source}, {nc_target m}, [m])"
proof -
  from assms obtain node m where node: "graph_node (cur_graph current) source = Some node" and pres: "present source node = Inr ()"
    and m: "(if is_table_kind (spec_kind (node_kind node)) then and_then (table source) (\<lambda>binding.
        if nc_target binding \<in> targets then Inl (CorrelationError.AmbiguousTarget source) else Inr binding)
      else match_identity current next_state targets source node) = Inr m" and found: "found' = found @ [m]"
    by (auto simp: correlate_source_def and_then_Inr_iff ok_or_Inr_iff)
  have "(if is_table_kind (spec_kind (node_kind node)) then and_then (table source) (\<lambda>binding.
        if nc_target binding \<in> {} then Inl (CorrelationError.AmbiguousTarget source) else Inr binding)
      else match_identity current next_state {} source node) = Inr m"
    using m match_identity_fewer by (auto simp: and_then_Inr_iff split: if_splits)
  then show ?thesis using node pres found by (simp add: correlate_source_def)
qed

text \<open>The match of an object does not depend on what else is selected.\<close>

lemma correlate_nodes_alone:
  assumes "correlate_nodes current next_state selected = Inr ms" and "m \<in> set ms" and "graph_inv (cur_graph next_state)"
  shows "correlate_nodes current next_state [nc_source m] = Inr [m]"
proof -
  let ?step = "correlate_source (correlate_partition_table current next_state) current next_state"
  from assms(1) obtain seen targets where valid: "validate_structure (cur_graph current) = Inr ()" "validate_structure (cur_graph next_state) = Inr ()"
    and loop: "try_fold ?step ({}, {}, []) selected = Inr (seen, targets, ms)"
    by (auto simp: correlate_nodes_def correlate_with_def and_then_Inr_iff map_err_Inr_iff)
  let ?P = "\<lambda>st. \<forall>m \<in> set (snd (snd st)). \<exists>source. ?step ({}, {}, []) source = Inr ({source}, {nc_target m}, [m])"
  have "?P (seen, targets, ms)"
  proof (rule try_fold_invariant [OF loop, of ?P])
    show "?P st'" if kept: "?P st" and step: "?step st source = Inr st'" for st source st'
    proof (cases "source \<in> fst st")
      case True
      then show ?thesis using kept step correlate_source_skip [of source st] by simp
    next
      case False
      then obtain m where "snd (snd st') = snd (snd st) @ [m]" "?step ({}, {}, []) source = Inr ({source}, {nc_target m}, [m])"
        using correlate_source_alone [of _ current next_state "fst st" "fst (snd st)" "snd (snd st)" source "fst st'" "fst (snd st')" "snd (snd st')"] step
        by auto
      then show ?thesis using kept by auto
    qed
  qed simp
  then obtain source where alone: "?step ({}, {}, []) source = Inr ({source}, {nc_target m}, [m])" using assms(2) by auto
  then have "correlate_nodes current next_state [source] = Inr [m]" using valid by (simp add: correlate_nodes_def correlate_with_def)
  moreover have "nc_source m = source" using correlate_nodes_sound [OF calculation assms(3)] by auto
  ultimately show ?thesis by simp
qed

end
