(* ===== verification/Live_Correct.thy ===== *)
theory Live_Correct
  imports Live_Results Correlate_Correct
begin

text \<open>
  What satisfied live checks say about the observation.
\<close>

section \<open>Nodes\<close>

text \<open>The observed counterpart of a node, where there is one.\<close>

definition counterpart :: "HistoricalBaseline \<Rightarrow> LiveObservation \<Rightarrow> NodeCorrelation list \<Rightarrow> NodeId \<Rightarrow> NodeId" where
  "counterpart baseline observation bindings n = fst (projr (result_node baseline observation n bindings))"

text \<open>A node created by the run: known by a fresh identity that exactly one observed object carries.\<close>

definition created_object :: "HistoricalBaseline \<Rightarrow> LiveObservation \<Rightarrow> NodeCorrelation list \<Rightarrow> NodeId \<Rightarrow> NodeId \<Rightarrow> bool" where
  "created_object baseline observation bindings n t \<longleftrightarrow> graph_node (cur_graph (hb_snapshot baseline)) n = None
     \<and> (\<exists>b \<in> set bindings. nc_source b = n \<and> nc_target b = t
        \<and> (\<forall>m other. graph_node (cur_graph (hb_snapshot baseline)) m = Some other \<longrightarrow> nc_identity b \<notin> set (facts_identities (node_size other)))
        \<and> (\<forall>m other. graph_node (cur_graph (lo_snapshot observation)) m = Some other \<longrightarrow>
             (nc_identity b \<in> set (facts_identities (node_size other)) \<longleftrightarrow> m = t)))"

definition stands_for :: "HistoricalBaseline \<Rightarrow> LiveObservation \<Rightarrow> NodeCorrelation list \<Rightarrow> NodeId \<Rightarrow> NodeId \<Rightarrow> bool" where
  "stands_for baseline observation bindings n t \<longleftrightarrow>
     (\<exists>m. nc_source m = n \<and> nc_target m = t \<and> same_object (hb_snapshot baseline) (lo_snapshot observation) m)
     \<or> created_object baseline observation bindings n t"

lemma head_option [simp]: "(case xs of [] \<Rightarrow> None | m # _ \<Rightarrow> Some m) = Some y \<longleftrightarrow> (\<exists>ys. xs = y # ys)"
  by (cases xs) auto

lemma correlated_node_sound:
  assumes "correlated_node baseline observation n = Inr (t, node)" and "graph_inv (cur_graph (lo_snapshot observation))"
  shows "graph_node (cur_graph (lo_snapshot observation)) t = Some node
    \<and> (\<exists>m. nc_source m = n \<and> nc_target m = t \<and> same_object (hb_snapshot baseline) (lo_snapshot observation) m)"
proof -
  from assms(1) obtain m ms where ms: "correlate_nodes (hb_snapshot baseline) (lo_snapshot observation) [n] = Inr (m # ms)"
    and node: "graph_node (cur_graph (lo_snapshot observation)) (nc_target m) = Some node" "t = nc_target m"
    by (auto simp: correlated_node_def and_then_Inr_iff map_err_Inr_iff ok_or_Inr_iff)
  show ?thesis using correlate_nodes_sound [OF ms assms(2)] node by auto
qed

lemma bound_node_sound:
  assumes "bound_node baseline observation n bindings = Inr (t, node)" and "graph_node (cur_graph (hb_snapshot baseline)) n = None"
  shows "graph_node (cur_graph (lo_snapshot observation)) t = Some node \<and> created_object baseline observation bindings n t"
proof (cases "filter (\<lambda>item. nc_source item = n) bindings")
  case Nil
  then show ?thesis using assms(1) by (simp add: bound_node_def)
next
  case (Cons b others)
  have "b \<in> set (filter (\<lambda>item. nc_source item = n) bindings)" by (simp add: Cons)
  then have b: "b \<in> set bindings" "nc_source b = n" by simp_all
  from assms(1) Cons have t: "t = nc_target b" and node: "graph_node (cur_graph (lo_snapshot observation)) (nc_target b) = Some node"
    and old: "\<not> list_ex (carries (nc_identity b)) (g_nodes (cur_graph (hb_snapshot baseline)))"
    and own: "nc_identity b \<in> set (facts_identities (node_size node))"
    and unique: "length (filter (carries (nc_identity b)) (g_nodes (cur_graph (lo_snapshot observation)))) = 1"
    by (auto simp: bound_node_def and_then_Inr_iff ok_or_Inr_iff split: if_splits)
  have here: "(nc_target b, node) \<in> set (g_nodes (cur_graph (lo_snapshot observation)))" "carries (nc_identity b) (nc_target b, node)"
    using node own by (simp_all add: graph_node_def carries_def map_of_SomeD)
  have "nc_identity b \<notin> set (facts_identities (node_size other))" if "graph_node (cur_graph (hb_snapshot baseline)) m = Some other" for m other
    using old map_of_SomeD [OF that [unfolded graph_node_def]] by (auto simp: list_ex_iff carries_def)
  moreover have "nc_identity b \<in> set (facts_identities (node_size other)) \<longleftrightarrow> m = nc_target b"
    if "graph_node (cur_graph (lo_snapshot observation)) m = Some other" for m other
    using carried_once [OF unique here that] that node own by auto
  ultimately show ?thesis using b node assms(2) unfolding created_object_def t by blast
qed

lemma result_node_sound:
  assumes "result_node baseline observation n bindings = Inr (t, node)" and "graph_inv (cur_graph (lo_snapshot observation))"
  shows "graph_node (cur_graph (lo_snapshot observation)) t = Some node \<and> t = counterpart baseline observation bindings n
    \<and> stands_for baseline observation bindings n t"
proof -
  have "graph_node (cur_graph (lo_snapshot observation)) t = Some node \<and> stands_for baseline observation bindings n t"
    using assms correlated_node_sound bound_node_sound
    by (fastforce simp: result_node_def stands_for_def split: if_splits)
  then show ?thesis using assms(1) by (simp add: counterpart_def)
qed

section \<open>Statuses\<close>

lemma status_simps [simp]:
  "unknown r \<noteq> LiveCheckStatus.Satisfied" "violated r \<noteq> LiveCheckStatus.Satisfied"
  "LiveCheckStatus.Satisfied \<noteq> unknown r" "LiveCheckStatus.Satisfied \<noteq> violated r"
  by (simp_all add: unknown_def violated_def)

definition undisturbed :: "LiveObservation \<Rightarrow> bool" where
  "undisturbed observation \<longleftrightarrow>
     (\<forall>d \<in> set (cur_diagnostics (lo_snapshot observation)). diag_severity d = DiagnosticSeverity.Warning)"

lemma qualify_satisfied:
  "qualify_observed_status observation status = LiveCheckStatus.Satisfied \<longleftrightarrow> status = LiveCheckStatus.Satisfied \<and> undisturbed observation"
  by (auto simp: qualify_observed_status_def undisturbed_def list_ex_iff)

lemma no_status_satisfied:
  "correlated_node baseline observation n = Inl status \<Longrightarrow> status \<noteq> LiveCheckStatus.Satisfied"
  "bound_node baseline observation n bindings = Inl status \<Longrightarrow> status \<noteq> LiveCheckStatus.Satisfied"
proof -
  show "correlated_node baseline observation n = Inl status \<Longrightarrow> status \<noteq> LiveCheckStatus.Satisfied"
    by (auto simp: correlated_node_def and_then_Inl_iff map_err_Inl_iff ok_or_Inl_iff)
  show "bound_node baseline observation n bindings = Inl status \<Longrightarrow> status \<noteq> LiveCheckStatus.Satisfied"
    by (cases "filter (\<lambda>item. nc_source item = n) bindings") (auto simp: bound_node_def and_then_Inl_iff ok_or_Inl_iff split: if_splits)
qed

lemma result_node_Inl: "result_node baseline observation n bindings = Inl status \<Longrightarrow> status \<noteq> LiveCheckStatus.Satisfied"
  using no_status_satisfied by (auto simp: result_node_def split: if_splits)

lemma node_status [simp]:
  "correlated_node baseline observation n \<noteq> Inl LiveCheckStatus.Satisfied" "result_node baseline observation n bindings \<noteq> Inl LiveCheckStatus.Satisfied"
  using no_status_satisfied(1) result_node_Inl by blast+

section \<open>Prerequisites\<close>

text \<open>
  What a satisfied check of a prerequisite establishes. Conditions that need knowledge of
  absence, of other namespaces or of a provider are never satisfied by an observation.
\<close>

definition known_node :: "HistoricalBaseline \<Rightarrow> LiveObservation \<Rightarrow> NodeCorrelation list \<Rightarrow> NodeId \<Rightarrow> NodeId \<Rightarrow> Node \<Rightarrow> bool" where
  "known_node baseline observation bindings n t node \<longleftrightarrow>
     stands_for baseline observation bindings n t \<and> graph_node (cur_graph (lo_snapshot observation)) t = Some node"

definition established ::
  "HistoricalBaseline \<Rightarrow> LiveObservation \<Rightarrow> CapacityEvidence list \<Rightarrow> NodeCorrelation list \<Rightarrow> ActionPrerequisite \<Rightarrow> bool" where
  "established baseline observation capacity bindings condition = (case condition of
      ActionPrerequisite.NodeExists n \<Rightarrow> \<exists>t node. known_node baseline observation bindings n t node
    | ActionPrerequisite.NodeKind n expected \<Rightarrow>
        \<exists>t node. known_node baseline observation bindings n t node \<and> matches_kind (spec_kind (node_kind node)) expected
    | ActionPrerequisite.Writable n \<Rightarrow> \<exists>t node block. known_node baseline observation bindings n t node
        \<and> matches_kind (spec_kind (node_kind node)) NodeKindClass.Block
        \<and> facts_block (node_size node) = Some block \<and> block_read_only block = Some False
    | ActionPrerequisite.CapacityAvailable (AllocationDomain.LvmVolumeGroup n) (Some amount) \<Rightarrow>
        \<exists>t node measured. known_node baseline observation bindings n t node
        \<and> same_extent (graph_node (cur_graph (hb_snapshot baseline)) n) node \<and> measured \<in> set capacity
        \<and> ce_domain measured = AllocationDomain.LvmVolumeGroup t \<and> quantity_get amount \<le> quantity_get (ce_available measured)
    | _ \<Rightarrow> False)"

lemma check_fact_satisfied:
  assumes "check_fact snapshot condition target node = LiveCheckStatus.Satisfied" and "prerequisite_node condition = Some n"
    and "known_node baseline observation bindings n target node"
  shows "established baseline observation capacity bindings condition"
  using assms
  by (cases condition)
    (auto simp: check_fact_def prerequisite_node_def established_def check_writable_def check_consumers_def check_relations_def check_unmounted_def
      bind_eq_Some_conv split: if_splits option.splits bool.splits)

lemma check_node_fact_satisfied:
  assumes "check_node_fact baseline observation condition bindings = LiveCheckStatus.Satisfied"
    and "graph_inv (cur_graph (lo_snapshot observation))"
  shows "established baseline observation capacity bindings condition"
proof (cases "prerequisite_node condition")
  case None
  then show ?thesis using assms(1) by (simp add: check_node_fact_def)
next
  case (Some n)
  with assms(1) obtain target node where found: "result_node baseline observation n bindings = Inr (target, node)"
    and fact: "check_fact (lo_snapshot observation) condition target node = LiveCheckStatus.Satisfied"
    by (auto simp: check_node_fact_def split: sum.splits)
  have "known_node baseline observation bindings n target node" using result_node_sound [OF found assms(2)] unfolding known_node_def by blast
  then show ?thesis by (rule check_fact_satisfied [OF fact Some])
qed

lemma check_capacity_satisfied:
  assumes "check_capacity baseline observation capacity domain amount = LiveCheckStatus.Satisfied"
    and "graph_inv (cur_graph (lo_snapshot observation))"
  shows "established baseline observation capacity bindings (ActionPrerequisite.CapacityAvailable domain amount)"
proof (cases amount)
  case None
  then show ?thesis using assms(1) by (simp add: check_capacity_def)
next
  case (Some needed)
  obtain n where domain: "domain = AllocationDomain.LvmVolumeGroup n" by (cases domain) auto
  from assms(1) Some domain obtain target node where found: "correlated_node baseline observation n = Inr (target, node)"
    by (auto simp: check_capacity_def split: sum.splits)
  with assms(1) Some domain obtain measured where
    "find (\<lambda>value. ce_domain value = AllocationDomain.LvmVolumeGroup target) capacity = Some measured"
    "same_extent (graph_node (cur_graph (hb_snapshot baseline)) n) node" "quantity_get needed \<le> quantity_get (ce_available measured)"
    by (auto simp: check_capacity_def split: if_splits option.splits)
  then show ?thesis using correlated_node_sound [OF found assms(2)] Some domain
    by (auto simp: established_def known_node_def stands_for_def find_Some_iff intro: nth_mem)
qed

lemma observed_prerequisites_aux:
  assumes "check_observed_prerequisites_with_bindings baseline observation capacity prerequisites bindings = Inr report"
    and "graph_inv (cur_graph (lo_snapshot observation))"
  shows "op_observation report = lo_reference observation \<and> map lc_condition (op_checks report) = prerequisites
    \<and> (\<forall>c \<in> set (op_checks report). lc_status c = LiveCheckStatus.Satisfied \<longrightarrow>
         undisturbed observation \<and> established baseline observation capacity bindings (lc_condition c))"
proof -
  let ?plain = "\<lambda>condition. \<lparr>lc_condition = condition,
    lc_status = qualify_observed_status observation (check_node_fact baseline observation condition bindings)\<rparr>"
  have report: "report = \<lparr>op_observation = lo_reference observation,
      op_checks = map (recheck_capacity baseline observation capacity \<circ> ?plain) prerequisites\<rparr>"
    using assms(1) by (auto simp: check_observed_prerequisites_with_bindings_def check_prerequisites_with_bindings_def and_then_Inr_iff)
  have cond: "lc_condition (recheck_capacity baseline observation capacity c) = lc_condition c" for c
    by (cases "lc_condition c") (simp_all add: recheck_capacity_def)
  have "undisturbed observation \<and> established baseline observation capacity bindings condition"
    if "lc_status (recheck_capacity baseline observation capacity (?plain condition)) = LiveCheckStatus.Satisfied" for condition
  proof (cases "\<exists>domain amount. condition = ActionPrerequisite.CapacityAvailable domain amount")
    case True
    then show ?thesis using that check_capacity_satisfied [OF _ assms(2)] by (auto simp: recheck_capacity_def qualify_satisfied)
  next
    case False
    then have "recheck_capacity baseline observation capacity (?plain condition) = ?plain condition"
      by (cases condition) (simp_all add: recheck_capacity_def)
    then show ?thesis using that check_node_fact_satisfied [OF _ assms(2)] by (simp add: qualify_satisfied)
  qed
  then show ?thesis using cond by (auto simp: report comp_def)
qed

section \<open>Graphs\<close>

lemma edge_observed_Some:
  "map_of mapping s = Some s' \<Longrightarrow> map_of mapping t = Some t' \<Longrightarrow>
   edge_observed mapping (s, t, k) actual = Some ((s', t', k) \<in> set actual)"
  by (induction actual) auto

definition move_edge :: "(NodeId \<Rightarrow> NodeId) \<Rightarrow> NodeId \<times> NodeId \<times> 'k \<Rightarrow> NodeId \<times> NodeId \<times> 'k" where
  "move_edge f e = (case e of (s, t, k) \<Rightarrow> (f s, f t, k))"

lemma edge_missing_Some:
  assumes "\<And>s t k. (s, t, k) \<in> set es \<Longrightarrow> map_of mapping s = Some (f s) \<and> map_of mapping t = Some (f t)"
  shows "edge_missing mapping es actual = Some (\<not> move_edge f ` set es \<subseteq> set actual)"
  using assms
proof (induction es)
  case (Cons e es)
  obtain s t k where e: "e = (s, t, k)" by (cases e) auto
  have "edge_observed mapping e actual = Some (move_edge f e \<in> set actual)"
    using Cons.prems [of s t k] by (simp add: e edge_observed_Some move_edge_def)
  moreover have "edge_missing mapping es actual = Some (\<not> move_edge f ` set es \<subseteq> set actual)"
    using Cons.prems by (intro Cons.IH) (meson list.set_intros(2))
  ultimately show ?case by (auto split: bool.splits)
qed simp

text \<open>Edges that are all observed, as many as there are, are exactly the observed ones.\<close>

lemma edges_exact:
  assumes "inj_on f V" and "\<And>s t k. (s, t, k) \<in> set es \<Longrightarrow> s \<in> V \<and> t \<in> V"
    and "distinct es" and "distinct actual" and "length es = length actual" and "move_edge f ` set es \<subseteq> set actual"
  shows "set actual = move_edge f ` set es"
proof -
  have "inj_on (move_edge f) (set es)"
    using assms(1,2) by (auto simp: inj_on_def move_edge_def)
  then have "card (move_edge f ` set es) = length es" using assms(3) by (simp add: card_image distinct_card)
  then show ?thesis using assms(4,5,6) by (metis card_subset_eq distinct_card finite_set)
qed

text \<open>The nodes of the goal are mapped one to one.\<close>

definition requested_at :: "NodeGraph \<Rightarrow> Node \<Rightarrow> NodeId \<Rightarrow> bool" where
  "requested_at g requested t \<longleftrightarrow> (\<exists>node. graph_node g t = Some node \<and> spec_kind (node_kind node) = spec_kind (node_kind requested)
     \<and> (spec_size (node_kind requested) \<noteq> None \<longrightarrow> spec_size (node_kind node) = spec_size (node_kind requested)))"

lemma map_goal_node_Inr:
  assumes "map_goal_node context observation bindings mapping (n, requested) = Inr mapping'"
    and "graph_inv (cur_graph (lo_snapshot observation))"
  shows "\<exists>t. mapping' = mapping @ [(n, t)] \<and> t \<notin> snd ` set mapping
    \<and> t = counterpart (ctx_historical_baseline context) observation bindings n
    \<and> stands_for (ctx_historical_baseline context) observation bindings n t
    \<and> requested_at (cur_graph (lo_snapshot observation)) requested t"
proof -
  from assms(1) obtain t node where found: "result_node (ctx_historical_baseline context) observation n bindings = Inr (t, node)"
    and "mapping' = mapping @ [(n, t)]" "t \<notin> snd ` set mapping" "spec_kind (node_kind requested) = spec_kind (node_kind node)"
    "spec_size (node_kind requested) \<noteq> None \<longrightarrow> spec_size (node_kind node) = spec_size (node_kind requested)"
    by (auto simp: map_goal_node_def and_then_Inr_iff split: if_splits option.splits)
  then show ?thesis using result_node_sound [OF found assms(2)] by (auto simp: requested_at_def)
qed

lemma map_goal_nodes_Inr:
  assumes "try_fold (map_goal_node context observation bindings) mapping ns = Inr mapping'"
    and "graph_inv (cur_graph (lo_snapshot observation))" and "distinct (map snd mapping)"
  shows "mapping' = mapping @ map (\<lambda>p. (fst p, counterpart (ctx_historical_baseline context) observation bindings (fst p))) ns
    \<and> distinct (map snd mapping') \<and> (\<forall>(n, requested) \<in> set ns.
        stands_for (ctx_historical_baseline context) observation bindings n (counterpart (ctx_historical_baseline context) observation bindings n)
        \<and> requested_at (cur_graph (lo_snapshot observation)) requested (counterpart (ctx_historical_baseline context) observation bindings n))"
  using assms
proof (induction ns arbitrary: mapping)
  case (Cons p ns)
  obtain n requested where p: "p = (n, requested)" by (cases p) auto
  from Cons.prems(1) obtain mid where step: "map_goal_node context observation bindings mapping p = Inr mid"
    and rest: "try_fold (map_goal_node context observation bindings) mid ns = Inr mapping'"
    by (auto split: sum.splits)
  from map_goal_node_Inr [OF step [unfolded p] assms(2)] obtain t where t: "mid = mapping @ [(n, t)]" "t \<notin> snd ` set mapping"
    "t = counterpart (ctx_historical_baseline context) observation bindings n"
    "stands_for (ctx_historical_baseline context) observation bindings n t"
    "requested_at (cur_graph (lo_snapshot observation)) requested t" by blast
  have "distinct (map snd mid)" using t(1,2) Cons.prems(3) by auto
  note ih = Cons.IH [OF rest assms(2) this]
  have "mapping' = mapping @ map (\<lambda>p. (fst p, counterpart (ctx_historical_baseline context) observation bindings (fst p))) (p # ns)"
    using ih t(1,3) by (simp add: p)
  moreover have "\<forall>(n, requested) \<in> set (p # ns).
        stands_for (ctx_historical_baseline context) observation bindings n (counterpart (ctx_historical_baseline context) observation bindings n)
        \<and> requested_at (cur_graph (lo_snapshot observation)) requested (counterpart (ctx_historical_baseline context) observation bindings n)"
    using ih t(3-5) unfolding p by simp
  ultimately show ?case using ih by blast
qed simp

end
