(* ===== verification/Machine.thy ===== *)
theory Machine
  imports Prelude
begin

text \<open>
  Objects whose operations either succeed and move the object, or fail and leave it alone. A
  client that only knows this contract can reason about any sequence of calls, failed ones
  included: the locale proves it once for every such object of the program.
\<close>

locale atomic_machine =
  fixes perform :: "'op \<Rightarrow> 's \<Rightarrow> ('e, 'r) result \<times> 's"
    and inv :: "'s \<Rightarrow> bool"
  assumes perform_keeps: "inv s \<Longrightarrow> perform op s = (Inr x, s') \<Longrightarrow> inv s'"
    and failure_keeps: "inv s \<Longrightarrow> perform op s = (Inl e, s') \<Longrightarrow> s' = s"
begin

text \<open>The states a caller can bring the object to.\<close>

inductive leads_to :: "'s \<Rightarrow> 's \<Rightarrow> bool" where
  here: "leads_to s s"
| there: "leads_to s t \<Longrightarrow> snd (perform op t) = u \<Longrightarrow> leads_to s u"

lemma perform_inv: "inv s \<Longrightarrow> inv (snd (perform op s))"
  by (cases "perform op s"; cases "fst (perform op s)") (auto dest: perform_keeps failure_keeps)

lemma leads_to_inv: "leads_to s t \<Longrightarrow> inv s \<Longrightarrow> inv t"
  by (induction rule: leads_to.induct) (auto intro: perform_inv)

text \<open>A relation that every successful operation respects holds between any two states.\<close>

lemma leads_to_respects:
  assumes "leads_to s t" and "inv s" and "\<And>u. R u u" and "\<And>u v w. R u v \<Longrightarrow> R v w \<Longrightarrow> R u w"
    and step: "\<And>u op x v. inv u \<Longrightarrow> perform op u = (Inr x, v) \<Longrightarrow> R u v"
  shows "R s t"
  using assms(1,2)
proof (induction rule: leads_to.induct)
  case (here s)
  then show ?case using assms(3) by blast
next
  case (there s t op u)
  then have t: "inv t" by (blast intro: leads_to_inv)
  have "R t u"
  proof (cases "fst (perform op t)")
    case (Inl e)
    then show ?thesis using failure_keeps [OF t, of op e] there.hyps(2) assms(3) by (cases "perform op t") auto
  next
    case (Inr x)
    then show ?thesis using step [OF t, of op x] there.hyps(2) by (cases "perform op t") auto
  qed
  then show ?case using there assms(4) by blast
qed

text \<open>An object on which every operation fails never changes again.\<close>

lemma leads_to_final:
  assumes "leads_to s t" and "inv s" and "\<And>op. \<exists>e. fst (perform op s) = Inl e"
  shows "t = s"
  using assms(1,2,3)
proof (induction rule: leads_to.induct)
  case (here s)
  then show ?case by simp
next
  case (there s t op u)
  then have "t = s" by blast
  then show ?case using there failure_keeps [of s op] by (cases "perform op s") (metis fst_conv snd_conv)
qed

end

end
