(* ===== verification/Run_Correct.thy ===== *)
theory Run_Correct
  imports Execution_Run Machine
begin

text \<open>
  The methods of \<^verbatim>\<open>ExecutionRun\<close> as guarded transitions: each either fails, without a panic and
  without touching the run, or moves exactly one thing and publishes events.
\<close>

named_theorems run_simps \<open>unfolding of the combinators of fallible methods\<close>

lemma run_combinators [run_simps]:
  "returning y run = (Inr y, run)" "failing e run = (Inl (fault.Failed e), run)"
  "asking q k run = (case q run of Inl e \<Rightarrow> (Inl e, run) | Inr x \<Rightarrow> k x run)"
  "doing m j run = (case m run of (Inl e, run') \<Rightarrow> (Inl e, run') | (Inr x, run') \<Rightarrow> j x run')"
  "modifying f n run = n (f run)"
  by (simp_all add: returning_def failing_def asking_def doing_def modifying_def)

section \<open>Publishing\<close>

definition has_room :: "nat \<Rightarrow> ExecutionRun \<Rightarrow> bool" where
  "has_room n run \<longleftrightarrow> unat (run_next_event_sequence run) + n < 2 ^ 64"

definition publish :: "RunEventKind \<Rightarrow> ExecutionRun \<Rightarrow> ExecutionRun" where
  "publish kind run = run\<lparr>
     run_events := (if length (run_events run) = MAX_RUN_EVENTS then tl (run_events run) else run_events run)
       @ [\<lparr>re_run_id = run_run_id run, re_sequence = run_next_event_sequence run, re_kind = kind\<rparr>],
     run_next_event_sequence := run_next_event_sequence run + 1\<rparr>"

definition with_action :: "ActionId \<Rightarrow> (ActionRun \<Rightarrow> ActionRun) \<Rightarrow> ExecutionRun \<Rightarrow> ExecutionRun" where
  "with_action a f run = run\<lparr>run_actions := (run_actions run)[action_index a := f (run_actions run ! action_index a)]\<rparr>"

lemma ensure_event_capacity_eq [run_simps]:
  "ensure_event_capacity 1 run = (if has_room 1 run then Inr () else Inl (fault.Failed ExecutionRunError.EventSequenceExhausted))"
  "ensure_event_capacity 2 run = (if has_room 2 run then Inr () else Inl (fault.Failed ExecutionRunError.EventSequenceExhausted))"
  by (simp_all add: ensure_event_capacity_def has_room_def checked_add_def)

lemma push_event_eq [run_simps]:
  "push_event kind run = (if has_room 1 run then (Inr (), publish kind run)
     else (Inl (fault.Failed ExecutionRunError.EventSequenceExhausted), run))"
  by (simp add: push_event_def publish_def run_simps)

lemma publish_fields [simp]:
  "run_run_id (publish k run) = run_run_id run" "run_document (publish k run) = run_document run"
  "run_plan (publish k run) = run_plan run" "run_actions (publish k run) = run_actions run"
  "run_latest_observation (publish k run) = run_latest_observation run"
  "run_goal_aspects (publish k run) = run_goal_aspects run"
  "run_goal_verification (publish k run) = run_goal_verification run"
  "run_next_event_sequence (publish k run) = run_next_event_sequence run + 1"
  by (simp_all add: publish_def)

lemma with_action_fields [simp]:
  "run_run_id (with_action a f run) = run_run_id run" "run_document (with_action a f run) = run_document run"
  "run_plan (with_action a f run) = run_plan run"
  "run_latest_observation (with_action a f run) = run_latest_observation run"
  "run_goal_aspects (with_action a f run) = run_goal_aspects run"
  "run_goal_verification (with_action a f run) = run_goal_verification run"
  "run_events (with_action a f run) = run_events run"
  "run_next_event_sequence (with_action a f run) = run_next_event_sequence run"
  "length (run_actions (with_action a f run)) = length (run_actions run)"
  by (simp_all add: with_action_def)

lemma has_room_with_action [simp]: "has_room n (with_action a f run) = has_room n run"
  by (simp add: has_room_def)

lemma has_room_observation [simp]:
  "has_room n (run\<lparr>run_latest_observation := ob\<rparr>) = has_room n run"
  "has_room n (run\<lparr>run_latest_observation := ob, run_goal_verification := g\<rparr>) = has_room n run"
  by (simp_all add: has_room_def)

lemma has_room_publish: "has_room (Suc n) run \<Longrightarrow> has_room n (publish k run)"
proof -
  assume room: "has_room (Suc n) run"
  then have "unat (run_next_event_sequence run + 1) = unat (run_next_event_sequence run) + 1"
    unfolding has_room_def by (subst unat_add_lem [THEN iffD1]) auto
  then show ?thesis using room by (simp add: has_room_def)
qed

lemma has_room_mono: "has_room n run \<Longrightarrow> m \<le> n \<Longrightarrow> has_room m run"
  by (simp add: has_room_def)

lemma update_action_eq:
  "action_index a < length (run_actions run) \<Longrightarrow> update_action a f run = (Inr (), with_action a f run)"
  by (simp add: update_action_def with_action_def)

definition with_state :: "ActionRunState \<Rightarrow> ActionRun \<Rightarrow> ActionRun" where
  "with_state st r = r\<lparr>act_state := st\<rparr>"

lemma set_state_eq:
  "action_index a < length (run_actions run) \<Longrightarrow>
   set_state a st run = (if has_room 1 run then (Inr (), publish (RunEventKind.ActionState a st) (with_action a (with_state st) run))
     else (Inl (fault.Failed ExecutionRunError.EventSequenceExhausted), run))"
  by (simp add: set_state_def run_simps update_action_eq with_state_def [abs_def])

section \<open>Guards\<close>

definition in_state :: "ActionId \<Rightarrow> ActionRunState \<Rightarrow> ExecutionRun \<Rightarrow> bool" where
  "in_state a st run \<longleftrightarrow> action_index a < length (run_actions run) \<and> act_state (run_actions run ! action_index a) = st"

lemma get_action_Inr: "get_action a run = Inr r \<longleftrightarrow> action_index a < length (run_actions run) \<and> r = run_actions run ! action_index a"
  by (auto simp: get_action_def ok_or_Inr_iff nth_opt_def)

lemma get_action_Inl: "get_action a run = Inl e \<Longrightarrow> e \<noteq> Panic"
  by (auto simp: get_action_def ok_or_Inl_iff)

lemma require_state_Inr: "require_state a st run = Inr u \<longleftrightarrow> in_state a st run"
  by (auto simp: require_state_def and_then_Inr_iff get_action_Inr in_state_def)

lemma require_state_Inl: "require_state a st run = Inl e \<Longrightarrow> e \<noteq> Panic"
  by (auto simp: require_state_def and_then_Inl_iff dest: get_action_Inl split: if_splits)

definition fresh_observation :: "LiveObservation \<Rightarrow> ExecutionRun \<Rightarrow> bool" where
  "fresh_observation obs run \<longleftrightarrow> validate_observation obs = Inr ()
     \<and> (\<forall>latest. run_latest_observation run = Some latest \<longrightarrow>
          or_probe_instance (lo_reference latest) = or_probe_instance (lo_reference obs)
          \<and> epoch_get (or_epoch (lo_reference latest)) < epoch_get (or_epoch (lo_reference obs)))"

lemma check_fresh_observation_Inr: "check_fresh_observation obs run = Inr u \<longleftrightarrow> fresh_observation obs run"
  by (cases "run_latest_observation run")
    (auto simp: check_fresh_observation_def fresh_observation_def map_err_Inr_iff validate_observation_def is_some_and_def)

lemma check_fresh_observation_Inl: "check_fresh_observation obs run = Inl e \<Longrightarrow> e \<noteq> Panic"
  by (auto simp: check_fresh_observation_def map_err_Inl_iff split: if_splits)

lemma check_report_identity_Inr: "check_report_identity rid run = Inr u \<longleftrightarrow> rid = run_run_id run"
  by (simp add: check_report_identity_def)

lemma check_report_identity_Inl: "check_report_identity rid run = Inl e \<Longrightarrow> e \<noteq> Panic"
  by (auto simp: check_report_identity_def split: if_splits)

text \<open>A run has one entry per planned action, and the plan is one that a document analysis accepts.\<close>

definition run_shaped :: "ExecutionRun \<Rightarrow> bool" where
  "run_shaped run \<longleftrightarrow> length (run_actions run) = length (plan_actions (run_plan run))
     \<and> deps_within (length (plan_actions (run_plan run)), plan_dependencies (run_plan run))"

definition contract_of :: "ExecutionRun \<Rightarrow> ActionId \<Rightarrow> ActionContract" where
  "contract_of run a = pa_informational_contract (plan_actions (run_plan run) ! action_index a)"

lemma planned_contract_eq:
  "run_shaped run \<Longrightarrow> action_index a < length (run_actions run) \<Longrightarrow> planned_contract a run = Inr (contract_of run a)"
  by (simp add: planned_contract_def nth_opt_def run_shaped_def contract_of_def)

definition predecessors_verified :: "ActionId \<Rightarrow> ExecutionRun \<Rightarrow> bool" where
  "predecessors_verified a run \<longleftrightarrow>
     (\<forall>d \<in> set (plan_dependencies (run_plan run)). ad_after d = a \<longrightarrow> in_state (ad_before d) ActionRunState.Verified run)"

lemma check_predecessor_Inr: "check_predecessor a run u d = Inr w \<longleftrightarrow> in_state (ad_before d) ActionRunState.Verified run"
  by (auto simp: check_predecessor_def and_then_Inr_iff get_action_Inr in_state_def)

lemma check_predecessor_Inl: "check_predecessor a run u d = Inl e \<Longrightarrow> e \<noteq> Panic"
  by (auto simp: check_predecessor_def and_then_Inl_iff dest: get_action_Inl split: if_splits)

lemma predecessors_Inr:
  "try_fold (check_predecessor a run) () (filter (\<lambda>d. ad_after d = a) (plan_dependencies (run_plan run))) = Inr u
     \<longleftrightarrow> predecessors_verified a run"
proof -
  have "try_fold (check_predecessor a run) () ds = Inr u \<longleftrightarrow> (\<forall>d \<in> set ds. in_state (ad_before d) ActionRunState.Verified run)" for ds
    using try_fold_unit_Inr [of "check_predecessor a run" ds] by (simp add: check_predecessor_Inr)
  then show ?thesis by (auto simp: predecessors_verified_def)
qed

lemma predecessors_Inl: "try_fold (check_predecessor a run) () ds = Inl e \<Longrightarrow> e \<noteq> Panic"
  by (induction ds) (auto dest: check_predecessor_Inl split: sum.splits)

lemmas guard_Inr = require_state_Inr check_fresh_observation_Inr check_report_identity_Inr predecessors_Inr get_action_Inr
lemmas guard_Inl = require_state_Inl check_fresh_observation_Inl check_report_identity_Inl predecessors_Inl get_action_Inl

section \<open>Each method, completely\<close>

text \<open>A call that failed with a typed error and left the run as it was.\<close>

definition rejected :: "(ExecutionRunError fault, 'a) result \<times> ExecutionRun \<Rightarrow> ExecutionRun \<Rightarrow> bool" where
  "rejected p run \<longleftrightarrow> snd p = run \<and> (\<exists>e. fst p = Inl e \<and> e \<noteq> Panic)"

lemma rejected_asking:
  assumes "\<And>e. q run = Inl e \<Longrightarrow> e \<noteq> Panic" and "\<And>x. q run = Inr x \<Longrightarrow> rejected (k x run) run \<or> P"
  shows "rejected (asking q k run) run \<or> P"
  using assms by (cases "q run") (auto simp: run_combinators rejected_def)

lemma rejected_failing: "rejected (failing e run) run"
  by (simp add: rejected_def run_combinators)

lemma begin_check_cases:
  "rejected (begin_check a run) run
   \<or> (begin_check a run = (Inr (), publish (RunEventKind.ActionState a ActionRunState.Checking)
         (with_action a (with_state ActionRunState.Checking) run))
      \<and> in_state a ActionRunState.Waiting run \<and> predecessors_verified a run \<and> has_room 1 run
      \<and> (\<forall>r \<in> set (run_actions run). \<not> is_stopped (act_state r) \<and> \<not> is_active (act_state r)))"
  unfolding begin_check_def
proof (rule rejected_asking, erule require_state_Inl, goal_cases)
  case (1 u)
  then have a: "in_state a ActionRunState.Waiting run" by (simp add: require_state_Inr)
  then have len: "action_index a < length (run_actions run)" by (simp add: in_state_def)
  show ?case
  proof (cases "list_ex (\<lambda>r. is_stopped (act_state r)) (run_actions run) \<or> list_ex (\<lambda>r. is_active (act_state r)) (run_actions run)")
    case True
    then show ?thesis
      by (auto simp: run_combinators rejected_def guard_Inr split: sum.splits dest: guard_Inl)
  next
    case False
    then show ?thesis using a len 1
      by (auto simp: run_combinators set_state_eq rejected_def predecessors_Inr list_ex_iff
          split: sum.splits dest: guard_Inl)
  qed
qed

end
