(* ===== verification/Run_Methods.thy ===== *)
theory Run_Methods
  imports Run_Correct
begin

text \<open>The remaining methods of \<^verbatim>\<open>ExecutionRun\<close>, each by its complete case distinction.\<close>

lemma mark_dispatch_started_cases:
  "rejected (mark_dispatch_started a run) run
   \<or> (mark_dispatch_started a run = (Inr (), publish (RunEventKind.ActionState a ActionRunState.Running)
         (with_action a (with_state ActionRunState.Running) run))
      \<and> in_state a ActionRunState.Admitted run \<and> has_room 1 run)"
  unfolding mark_dispatch_started_def
proof (rule rejected_asking, erule require_state_Inl, goal_cases)
  case (1 u)
  then have "in_state a ActionRunState.Admitted run" by (simp add: require_state_Inr)
  then show ?case using 1 by (simp add: run_combinators set_state_eq rejected_def in_state_def)
qed

lemma mark_pre_dispatch_failed_cases:
  "rejected (mark_pre_dispatch_failed a reason run) run
   \<or> (mark_pre_dispatch_failed a reason run = (Inr (), publish (RunEventKind.ActionState a ActionRunState.Failed)
         (with_action a (with_state ActionRunState.Failed)
           (with_action a (\<lambda>r. r\<lparr>act_pre_dispatch_failure := Some reason\<rparr>) run)))
      \<and> in_state a ActionRunState.Admitted run \<and> has_room 1 run)"
  unfolding mark_pre_dispatch_failed_def
proof (rule rejected_asking, erule require_state_Inl, goal_cases)
  case (1 u)
  then have "in_state a ActionRunState.Admitted run" by (simp add: require_state_Inr)
  then show ?case using 1 by (simp add: run_combinators set_state_eq update_action_eq rejected_def in_state_def ensure_event_capacity_eq)
qed

lemma mark_outcome_unknown_cases:
  "rejected (mark_outcome_unknown a reason run) run
   \<or> (mark_outcome_unknown a reason run = (Inr (), publish (RunEventKind.ActionState a ActionRunState.OutcomeUnknown)
         (with_action a (with_state ActionRunState.OutcomeUnknown)
           (with_action a (\<lambda>r. r\<lparr>act_unknown_reason := Some reason\<rparr>) run)))
      \<and> (in_state a ActionRunState.Running run \<or> in_state a ActionRunState.Verifying run) \<and> has_room 1 run)"
  unfolding mark_outcome_unknown_def
proof (rule rejected_asking, erule get_action_Inl, goal_cases)
  case (1 r)
  then have "action_index a < length (run_actions run)" "r = run_actions run ! action_index a" by (simp_all add: get_action_Inr)
  then show ?case using 1
    by (auto simp: run_combinators set_state_eq update_action_eq rejected_def in_state_def ensure_event_capacity_eq)
qed

lemma record_progress_cases:
  "rejected (record_progress a detail run) run
   \<or> (record_progress a detail run = (Inr (), publish (RunEventKind.Progress a detail) run)
      \<and> in_state a ActionRunState.Running run \<and> length detail \<le> MAX_PROGRESS_BYTES \<and> has_room 1 run)"
  unfolding record_progress_def
proof (rule rejected_asking, erule require_state_Inl, goal_cases)
  case (1 u)
  then have "in_state a ActionRunState.Running run" by (simp add: require_state_Inr)
  then show ?case using 1 by (simp add: run_combinators push_event_eq rejected_def)
qed

lemma record_completion_cases:
  assumes "a = bc_action completion"
  shows "rejected (record_completion completion run) run
   \<or> (record_completion completion run = (Inr (), publish (RunEventKind.ActionState a (outcome_state (bc_outcome completion)))
         (with_action a (with_state (outcome_state (bc_outcome completion)))
           (with_action a (\<lambda>r. r\<lparr>act_completion := Some completion\<rparr>)
             (run\<lparr>run_latest_observation := Some (bc_observation completion)\<rparr>))))
      \<and> in_state a ActionRunState.Running run \<and> bc_run_id completion = run_run_id run
      \<and> fresh_observation (bc_observation completion) run \<and> has_room 1 run)"
proof (cases "in_state a ActionRunState.Running run \<and> bc_run_id completion = run_run_id run
      \<and> fresh_observation (bc_observation completion) run \<and> has_room 1 run")
  case True
  then have "require_state a ActionRunState.Running run = Inr ()" "check_report_identity (bc_run_id completion) run = Inr ()"
    "check_fresh_observation (bc_observation completion) run = Inr ()" "action_index a < length (run_actions run)"
    by (simp_all add: guard_Inr in_state_def)
  then show ?thesis using True
    by (simp add: record_completion_def Let_def run_combinators ensure_event_capacity_eq update_action_eq set_state_eq assms [symmetric])
next
  case False
  then have "rejected (record_completion completion run) run"
    unfolding record_completion_def Let_def assms [symmetric]
    by (auto simp: run_combinators ensure_event_capacity_eq guard_Inr rejected_def split: sum.splits dest: guard_Inl)
  then show ?thesis by blast
qed

section \<open>Evidence\<close>

lemma evidence_fold_satisfied:
  assumes "good \<noteq> ActionRunState.Failed" and "unknown \<noteq> good"
  shows "evidence_fold ss unknown res = good \<longleftrightarrow> list_all (\<lambda>s. s = LiveCheckStatus.Satisfied) ss \<and> res = good"
  using assms by (induction ss arbitrary: res) (auto split: LiveCheckStatus.splits)

lemma evidence_satisfied:
  assumes "good \<noteq> ActionRunState.Failed" and "unknown \<noteq> good"
  shows "evidence_state ss good unknown = good \<longleftrightarrow> list_all (\<lambda>s. s = LiveCheckStatus.Satisfied) ss"
  using evidence_fold_satisfied [OF assms] by (simp add: evidence_state_def)

lemma evidence_violated:
  assumes "good \<noteq> ActionRunState.Failed" and "unknown \<noteq> ActionRunState.Failed"
  shows "evidence_state ss good unknown = ActionRunState.Failed \<longleftrightarrow> (\<exists>why. LiveCheckStatus.Violated why \<in> set ss)"
proof -
  have "evidence_fold ss unknown res = ActionRunState.Failed \<longleftrightarrow> (\<exists>why. LiveCheckStatus.Violated why \<in> set ss)"
    if "res \<noteq> ActionRunState.Failed" for res
    using that assms(2) by (induction ss arbitrary: res) (auto split: LiveCheckStatus.splits)
  then show ?thesis using assms(1) by (simp add: evidence_state_def)
qed

lemma evidence_range: "evidence_state ss good unknown \<in> {good, unknown, ActionRunState.Failed}"
proof -
  have "evidence_fold ss unknown res \<in> {res, unknown, ActionRunState.Failed}" for res
    by (induction ss arbitrary: res) (auto split: LiveCheckStatus.splits)
  then show ?thesis by (simp add: evidence_state_def)
qed

lemma no_repeats_distinct: "no_repeats earlier cs \<longleftrightarrow> distinct cs \<and> set cs \<inter> set earlier = {}"
  by (induction cs arbitrary: earlier) auto

text \<open>Coverage: every required condition is answered exactly once and nothing else is.\<close>

lemma checks_cover_iff:
  "checks_cover required checks \<longleftrightarrow> set (map lc_condition checks) = set required \<and> distinct (map lc_condition checks)"
proof -
  have "(\<exists>c \<in> set checks. lc_condition c = condition) \<longleftrightarrow> condition \<in> lc_condition ` set checks" for condition by auto
  then show ?thesis by (auto simp: checks_cover_def list_all_iff list_ex_iff no_repeats_distinct)
qed

section \<open>Verification and admission\<close>

lemma rejected_ask:
  assumes "\<And>e. q run = Inl e \<Longrightarrow> e \<noteq> Panic" and "\<And>x. q run = Inr x \<Longrightarrow> rejected (k x run) run"
  shows "rejected (asking q k run) run"
  using rejected_asking [of q run k False] assms by blast

lemma record_verification_cases:
  assumes "run_shaped run" and "a = vr_action report"
    and "st = evidence_state (map lc_status (vr_checks report)) ActionRunState.Verified ActionRunState.OutcomeUnknown"
  shows "rejected (record_verification report run) run
   \<or> (record_verification report run = (Inr (st = ActionRunState.Verified), publish (RunEventKind.ActionState a st)
         (with_action a (with_state st) (with_action a (\<lambda>r. r\<lparr>act_verification := Some report\<rparr>) run)))
      \<and> in_state a ActionRunState.Verifying run \<and> vr_run_id report = run_run_id run
      \<and> map_option (\<lambda>c. lo_reference (bc_observation c)) (act_completion (run_actions run ! action_index a)) = Some (vr_observation report)
      \<and> checks_cover (ac_postconditions (contract_of run a)) (vr_checks report) \<and> has_room 1 run)"
proof (cases "in_state a ActionRunState.Verifying run \<and> vr_run_id report = run_run_id run")
  case True
  then have "require_state a ActionRunState.Verifying run = Inr ()" "check_report_identity (vr_run_id report) run = Inr ()"
    "get_action a run = Inr (run_actions run ! action_index a)" "action_index a < length (run_actions run)"
    by (simp_all add: guard_Inr in_state_def)
  then show ?thesis using True
    by (simp add: record_verification_def Let_def run_combinators ensure_event_capacity_eq update_action_eq set_state_eq
        planned_contract_eq [OF assms(1)] assms(2,3) [symmetric] rejected_def)
next
  case False
  then have "rejected (record_verification report run) run"
    unfolding record_verification_def Let_def assms(2) [symmetric]
    by (auto simp: run_combinators guard_Inr rejected_def split: sum.splits dest: guard_Inl)
  then show ?thesis by blast
qed

lemma record_goal_verification_cases:
  "rejected (record_goal_verification report run) run
   \<or> (record_goal_verification report run = (Inr (goal_satisfied report), publish (RunEventKind.GoalVerification (goal_satisfied report))
         (run\<lparr>run_latest_observation := Some (gv_observation report), run_goal_verification := Some report\<rparr>))
      \<and> (\<forall>r \<in> set (run_actions run). act_state r = ActionRunState.Verified) \<and> gv_run_id report = run_run_id run
      \<and> fresh_observation (gv_observation report) run
      \<and> checks_cover (run_goal_aspects run) (gv_checks report) \<and> has_room 1 run)"
proof (cases "(\<forall>r \<in> set (run_actions run). act_state r = ActionRunState.Verified) \<and> gv_run_id report = run_run_id run
    \<and> fresh_observation (gv_observation report) run")
  case True
  then have "check_report_identity (gv_run_id report) run = Inr ()" "check_fresh_observation (gv_observation report) run = Inr ()"
    by (simp_all add: guard_Inr)
  then show ?thesis using True
    by (simp add: record_goal_verification_def list_all_iff run_combinators ensure_event_capacity_eq push_event_eq rejected_def)
next
  case False
  then have "rejected (record_goal_verification report run) run"
    by (auto simp: record_goal_verification_def list_all_iff run_combinators guard_Inr rejected_def split: sum.splits dest: guard_Inl)
  then show ?thesis by blast
qed

text \<open>What an admission report has to establish before the checker looks at its verdict.\<close>

definition admission_complete :: "AdmissionReport \<Rightarrow> ExecutionRun \<Rightarrow> bool" where
  "admission_complete report run \<longleftrightarrow> ar_run_id report = run_run_id run
     \<and> checks_cover (ac_prerequisites (contract_of run (ar_action report))) (ar_checks report)
     \<and> (\<forall>required \<in> set (ac_affected_resources (contract_of run (ar_action report))). holds_resource (ar_held_resources report) required)"

definition admission_state :: "AdmissionReport \<Rightarrow> ActionRunState" where
  "admission_state report = evidence_state (ar_applicability report # map lc_status (ar_checks report))
     ActionRunState.Admitted ActionRunState.Checking"

definition admitted_run :: "AdmissionReport \<Rightarrow> ExecutionRun \<Rightarrow> ExecutionRun" where
  "admitted_run report run = (let a = ar_action report; st = admission_state report;
     run' = publish (RunEventKind.Admission a (st = ActionRunState.Admitted))
       (with_action a (\<lambda>r. r\<lparr>act_admission := Some report\<rparr>) (run\<lparr>run_latest_observation := Some (ar_observation report)\<rparr>)) in
     if st = ActionRunState.Checking then run' else publish (RunEventKind.ActionState a st) (with_action a (with_state st) run'))"

lemma admission_body:
  assumes "action_index a < length (run_actions run)" and "a = ar_action report" and "st = admission_state report"
  shows "asking (ensure_event_capacity (if st = ActionRunState.Checking then 1 else 2)) (\<lambda>_.
      modifying (\<lambda>run. run\<lparr>run_latest_observation := Some (ar_observation report)\<rparr>)
      (doing (update_action a (\<lambda>r. r\<lparr>act_admission := Some report\<rparr>)) (\<lambda>_.
      doing (push_event (RunEventKind.Admission a (st = ActionRunState.Admitted))) (\<lambda>_.
      if st \<noteq> ActionRunState.Checking then doing (set_state a st) (\<lambda>_. returning (st = ActionRunState.Admitted))
      else returning (st = ActionRunState.Admitted))))) run
    = (if has_room (if st = ActionRunState.Checking then 1 else 2) run
       then (Inr (st = ActionRunState.Admitted), admitted_run report run)
       else (Inl (fault.Failed ExecutionRunError.EventSequenceExhausted), run))"
proof (cases "st = ActionRunState.Checking")
  case True
  then show ?thesis using assms
    by (simp add: run_combinators ensure_event_capacity_eq update_action_eq push_event_eq admitted_run_def Let_def)
next
  case False
  have one: "has_room 2 run \<Longrightarrow> has_room 1 run" by (simp add: has_room_def)
  let ?run = "with_action a (\<lambda>r. r\<lparr>act_admission := Some report\<rparr>) (run\<lparr>run_latest_observation := Some (ar_observation report)\<rparr>)"
  have two: "has_room 2 run \<Longrightarrow> has_room 1 (publish k ?run)" for k
    by (rule has_room_publish) (simp add: numeral_2_eq_2)
  show ?thesis using False assms one two
    by (simp add: run_combinators ensure_event_capacity_eq update_action_eq set_state_eq push_event_eq admitted_run_def Let_def)
qed

lemma record_admission_cases:
  assumes "run_shaped run" and "a = ar_action report"
  shows "rejected (record_admission report run) run
   \<or> (record_admission report run = (Inr (admission_state report = ActionRunState.Admitted), admitted_run report run)
      \<and> in_state a ActionRunState.Checking run \<and> admission_complete report run
      \<and> fresh_observation (ar_observation report) run
      \<and> has_room (if admission_state report = ActionRunState.Checking then 1 else 2) run)"
proof (cases "in_state a ActionRunState.Checking run \<and> ar_run_id report = run_run_id run \<and> fresh_observation (ar_observation report) run")
  case True
  then have g: "require_state a ActionRunState.Checking run = Inr ()" "check_report_identity (ar_run_id report) run = Inr ()"
    "check_fresh_observation (ar_observation report) run = Inr ()" "action_index a < length (run_actions run)"
    by (simp_all add: guard_Inr in_state_def)
  have "record_admission report run =
     (if \<not> checks_cover (ac_prerequisites (contract_of run a)) (ar_checks report) then failing ExecutionRunError.IncompleteChecks run
      else if list_ex (\<lambda>required. \<not> holds_resource (ar_held_resources report) required) (ac_affected_resources (contract_of run a))
      then failing ExecutionRunError.MissingResources run
      else if has_room (if admission_state report = ActionRunState.Checking then 1 else 2) run
       then (Inr (admission_state report = ActionRunState.Admitted), admitted_run report run)
       else (Inl (fault.Failed ExecutionRunError.EventSequenceExhausted), run))"
    unfolding record_admission_def Let_def assms(2) [symmetric] admission_state_def [symmetric]
    by (simp add: asking_def [of "require_state a ActionRunState.Checking"] asking_def [of "check_report_identity (ar_run_id report)"]
        asking_def [of "check_fresh_observation (ar_observation report)"] asking_def [of "planned_contract a"] g
        planned_contract_eq [OF assms(1) g(4)] admission_body [OF g(4) assms(2) refl])
  then show ?thesis using True assms(2)
    by (simp add: rejected_def failing_def admission_complete_def list_ex_iff)
next
  case False
  have "rejected (record_admission report run) run"
    unfolding record_admission_def Let_def assms(2) [symmetric]
    by (rule rejected_ask, erule guard_Inl, rule rejected_ask, erule guard_Inl, rule rejected_ask, erule guard_Inl)
      (use False in \<open>simp add: guard_Inr\<close>)
  then show ?thesis by blast
qed

end
