(* ===== verification/Run_Invariant.thy ===== *)
theory Run_Invariant
  imports Run_Methods
begin

text \<open>
  A run under arbitrary calls: the operations as data, the transitions they can make, and the
  invariant of every run that a caller can produce.
\<close>

section \<open>Calls\<close>

datatype RunOp =
    BeginCheck ActionId
  | RecordAdmission AdmissionReport
  | MarkDispatchStarted ActionId
  | MarkPreDispatchFailed ActionId string
  | RecordCompletion BackendCompletion
  | RecordVerification VerificationReport
  | MarkOutcomeUnknown ActionId string
  | RecordProgress ActionId string
  | RecordGoalVerification GoalVerificationReport

definition unit_result :: "('e, unit) result \<times> 's \<Rightarrow> ('e, bool) result \<times> 's" where
  "unit_result p = (map_sum id (\<lambda>_. True) (fst p), snd p)"

definition perform_op :: "RunOp \<Rightarrow> ExecutionRun \<Rightarrow> (ExecutionRunError fault, bool) result \<times> ExecutionRun" where
  "perform_op op run = (case op of
      RunOp.BeginCheck a \<Rightarrow> unit_result (begin_check a run)
    | RunOp.RecordAdmission report \<Rightarrow> record_admission report run
    | RunOp.MarkDispatchStarted a \<Rightarrow> unit_result (mark_dispatch_started a run)
    | RunOp.MarkPreDispatchFailed a reason \<Rightarrow> unit_result (mark_pre_dispatch_failed a reason run)
    | RunOp.RecordCompletion completion \<Rightarrow> unit_result (record_completion completion run)
    | RunOp.RecordVerification report \<Rightarrow> record_verification report run
    | RunOp.MarkOutcomeUnknown a reason \<Rightarrow> unit_result (mark_outcome_unknown a reason run)
    | RunOp.RecordProgress a detail \<Rightarrow> unit_result (record_progress a detail run)
    | RunOp.RecordGoalVerification report \<Rightarrow> record_goal_verification report run)"

section \<open>Transitions\<close>

definition quiet :: "ExecutionRun \<Rightarrow> bool" where
  "quiet run \<longleftrightarrow> (\<forall>r \<in> set (run_actions run). \<not> is_stopped (act_state r) \<and> \<not> is_active (act_state r))"

definition settled :: "ActionId \<Rightarrow> ActionRunState \<Rightarrow> ExecutionRun \<Rightarrow> ExecutionRun" where
  "settled a st run = publish (RunEventKind.ActionState a st) (with_action a (with_state st) run)"

inductive moves :: "ExecutionRun \<Rightarrow> RunOp \<Rightarrow> ExecutionRun \<Rightarrow> bool" where
  check: "in_state a ActionRunState.Waiting run \<Longrightarrow> predecessors_verified a run \<Longrightarrow> quiet run \<Longrightarrow> has_room 1 run \<Longrightarrow>
    moves run (RunOp.BeginCheck a) (settled a ActionRunState.Checking run)"
| admit: "in_state (ar_action report) ActionRunState.Checking run \<Longrightarrow> admission_complete report run \<Longrightarrow>
    fresh_observation (ar_observation report) run \<Longrightarrow>
    has_room (if admission_state report = ActionRunState.Checking then 1 else 2) run \<Longrightarrow>
    moves run (RunOp.RecordAdmission report) (admitted_run report run)"
| dispatch: "in_state a ActionRunState.Admitted run \<Longrightarrow> has_room 1 run \<Longrightarrow>
    moves run (RunOp.MarkDispatchStarted a) (settled a ActionRunState.Running run)"
| abandon: "in_state a ActionRunState.Admitted run \<Longrightarrow> has_room 1 run \<Longrightarrow>
    moves run (RunOp.MarkPreDispatchFailed a reason) (settled a ActionRunState.Failed
      (with_action a (\<lambda>r. r\<lparr>act_pre_dispatch_failure := Some reason\<rparr>) run))"
| complete: "in_state (bc_action c) ActionRunState.Running run \<Longrightarrow> bc_run_id c = run_run_id run \<Longrightarrow>
    fresh_observation (bc_observation c) run \<Longrightarrow> has_room 1 run \<Longrightarrow>
    moves run (RunOp.RecordCompletion c) (settled (bc_action c) (outcome_state (bc_outcome c))
      (with_action (bc_action c) (\<lambda>r. r\<lparr>act_completion := Some c\<rparr>)
        (run\<lparr>run_latest_observation := Some (bc_observation c)\<rparr>)))"
| verify: "in_state (vr_action report) ActionRunState.Verifying run \<Longrightarrow> vr_run_id report = run_run_id run \<Longrightarrow>
    map_option (\<lambda>c. lo_reference (bc_observation c)) (act_completion (run_actions run ! action_index (vr_action report)))
      = Some (vr_observation report) \<Longrightarrow>
    checks_cover (ac_postconditions (contract_of run (vr_action report))) (vr_checks report) \<Longrightarrow> has_room 1 run \<Longrightarrow>
    moves run (RunOp.RecordVerification report) (settled (vr_action report)
      (evidence_state (map lc_status (vr_checks report)) ActionRunState.Verified ActionRunState.OutcomeUnknown)
      (with_action (vr_action report) (\<lambda>r. r\<lparr>act_verification := Some report\<rparr>) run))"
| lose: "in_state a ActionRunState.Running run \<or> in_state a ActionRunState.Verifying run \<Longrightarrow> has_room 1 run \<Longrightarrow>
    moves run (RunOp.MarkOutcomeUnknown a reason) (settled a ActionRunState.OutcomeUnknown
      (with_action a (\<lambda>r. r\<lparr>act_unknown_reason := Some reason\<rparr>) run))"
| progress: "in_state a ActionRunState.Running run \<Longrightarrow> length detail \<le> MAX_PROGRESS_BYTES \<Longrightarrow> has_room 1 run \<Longrightarrow>
    moves run (RunOp.RecordProgress a detail) (publish (RunEventKind.Progress a detail) run)"
| goal: "\<forall>r \<in> set (run_actions run). act_state r = ActionRunState.Verified \<Longrightarrow> gv_run_id report = run_run_id run \<Longrightarrow>
    fresh_observation (gv_observation report) run \<Longrightarrow> checks_cover (run_goal_aspects run) (gv_checks report) \<Longrightarrow> has_room 1 run \<Longrightarrow>
    moves run (RunOp.RecordGoalVerification report) (publish (RunEventKind.GoalVerification (goal_satisfied report))
      (run\<lparr>run_latest_observation := Some (gv_observation report), run_goal_verification := Some report\<rparr>))"

inductive_cases moves_cases: "moves run op run'"

lemma unit_result_Inr: "unit_result (Inr u, s) = (Inr True, s)"
  by (simp add: unit_result_def)

lemma rejected_unit: "rejected p run \<Longrightarrow> rejected (unit_result p) run"
  by (auto simp: rejected_def unit_result_def)

lemma perform_moves:
  assumes "run_shaped run"
  shows "rejected (perform_op op run) run \<or> (\<exists>x run'. perform_op op run = (Inr x, run') \<and> moves run op run')"
proof (cases op)
  case (BeginCheck a)
  then show ?thesis using begin_check_cases [of a run] moves.check [of a run]
    by (auto simp: perform_op_def unit_result_Inr quiet_def settled_def intro: rejected_unit)
next
  case (RecordAdmission report)
  then show ?thesis using record_admission_cases [OF assms refl, of report] moves.admit [of report run]
    by (auto simp: perform_op_def)
next
  case (MarkDispatchStarted a)
  then show ?thesis using mark_dispatch_started_cases [of a run] moves.dispatch [of a run]
    by (auto simp: perform_op_def unit_result_Inr settled_def intro: rejected_unit)
next
  case (MarkPreDispatchFailed a reason)
  then show ?thesis using mark_pre_dispatch_failed_cases [of a reason run] moves.abandon [of a run reason]
    by (auto simp: perform_op_def unit_result_Inr settled_def intro: rejected_unit)
next
  case (RecordCompletion c)
  then show ?thesis using record_completion_cases [OF refl, of c run] moves.complete [of c run]
    by (auto simp: perform_op_def unit_result_Inr settled_def intro: rejected_unit)
next
  case (RecordVerification report)
  then show ?thesis using record_verification_cases [OF assms refl refl, of report] moves.verify [of report run]
    by (auto simp: perform_op_def settled_def)
next
  case (MarkOutcomeUnknown a reason)
  then show ?thesis using mark_outcome_unknown_cases [of a reason run] moves.lose [of a run reason]
    by (auto simp: perform_op_def unit_result_Inr settled_def intro: rejected_unit)
next
  case (RecordProgress a detail)
  then show ?thesis using record_progress_cases [of a detail run] moves.progress [of a run detail]
    by (auto simp: perform_op_def unit_result_Inr intro: rejected_unit)
next
  case (RecordGoalVerification report)
  then show ?thesis using record_goal_verification_cases [of report run] moves.goal [of run report]
    by (auto simp: perform_op_def)
qed

section \<open>Lifecycle states\<close>

definition states :: "ExecutionRun \<Rightarrow> ActionRunState list" where
  "states run = map act_state (run_actions run)"

definition edges :: "ExecutionRun \<Rightarrow> (nat \<times> nat) set" where
  "edges run = set (dep_pairs (plan_dependencies (run_plan run)))"

text \<open>
  The invariant of the vector of states: at most one action is active, none is while another
  has stopped the run, and an action that has left \<open>Waiting\<close> has only verified predecessors.
\<close>

definition serial :: "(nat \<times> nat) set \<Rightarrow> ActionRunState list \<Rightarrow> bool" where
  "serial E sts \<longleftrightarrow>
     (\<forall>i < length sts. \<forall>j < length sts. is_active (sts ! i) \<longrightarrow> is_active (sts ! j) \<or> is_stopped (sts ! j) \<longrightarrow> i = j)
     \<and> (\<forall>(i, j) \<in> E. j < length sts \<longrightarrow> sts ! j \<noteq> ActionRunState.Waiting \<longrightarrow> i < length sts \<and> sts ! i = ActionRunState.Verified)"

lemma serial_update:
  assumes only: "\<And>j. j < length sts \<Longrightarrow> j \<noteq> i \<Longrightarrow> \<not> is_active (sts ! j) \<and> \<not> is_stopped (sts ! j)"
    and before: "\<And>p q. (p, q) \<in> E \<Longrightarrow> q < length sts \<Longrightarrow> sts[i := st] ! q \<noteq> ActionRunState.Waiting \<Longrightarrow>
      p < length sts \<and> sts[i := st] ! p = ActionRunState.Verified"
  shows "serial E (sts[i := st])"
proof -
  have "x = i" if "x < length sts" "is_active (sts[i := st] ! x) \<or> is_stopped (sts[i := st] ! x)" for x
    using only [of x] that by (cases "x = i") auto
  then have "\<forall>x < length sts. \<forall>y < length sts. is_active (sts[i := st] ! x) \<longrightarrow>
      is_active (sts[i := st] ! y) \<or> is_stopped (sts[i := st] ! y) \<longrightarrow> x = y" by metis
  then show ?thesis using before by (auto simp: serial_def)
qed

lemma serial_start:
  assumes "serial E sts" and quiet: "\<forall>s \<in> set sts. \<not> is_active s \<and> \<not> is_stopped s"
    and before: "\<forall>(p, q) \<in> E. q = i \<longrightarrow> p < length sts \<and> sts ! p = ActionRunState.Verified" and "sts ! i = ActionRunState.Waiting"
  shows "serial E (sts[i := ActionRunState.Checking])"
proof (rule serial_update)
  show "\<not> is_active (sts ! j) \<and> \<not> is_stopped (sts ! j)" if "j < length sts" for j using quiet that by simp
next
  fix p q
  assume e: "(p, q) \<in> E" "q < length sts" "sts[i := ActionRunState.Checking] ! q \<noteq> ActionRunState.Waiting"
  have "p < length sts \<and> sts ! p = ActionRunState.Verified"
  proof (cases "q = i")
    case True
    then show ?thesis using before e(1) by auto
  next
    case False
    then show ?thesis using e assms(1) unfolding serial_def by fastforce
  qed
  moreover from this have "p \<noteq> i" using assms(4) by auto
  ultimately show "p < length sts \<and> sts[i := ActionRunState.Checking] ! p = ActionRunState.Verified" by simp
qed

lemma serial_move:
  assumes "serial E sts" and "is_active (sts ! i)" and "i < length sts"
  shows "serial E (sts[i := st])"
proof (rule serial_update)
  show "\<not> is_active (sts ! j) \<and> \<not> is_stopped (sts ! j)" if "j < length sts" "j \<noteq> i" for j
    using assms that unfolding serial_def by blast
next
  fix p q
  assume e: "(p, q) \<in> E" "q < length sts" "sts[i := st] ! q \<noteq> ActionRunState.Waiting"
  have "sts ! q \<noteq> ActionRunState.Waiting" using e assms(2) by (cases "q = i") (auto simp: is_active_def)
  then have "p < length sts \<and> sts ! p = ActionRunState.Verified" using assms(1) e unfolding serial_def by fastforce
  moreover from this have "p \<noteq> i" using assms(2) by (auto simp: is_active_def)
  ultimately show "p < length sts \<and> sts[i := st] ! p = ActionRunState.Verified" by simp
qed

lemma states_publish [simp]: "states (publish k run) = states run"
  by (simp add: states_def)

lemma states_observed [simp]:
  "states (run\<lparr>run_latest_observation := ob\<rparr>) = states run"
  "states (run\<lparr>run_latest_observation := ob, run_goal_verification := g\<rparr>) = states run"
  by (simp_all add: states_def)

lemma states_with_action: "states (with_action a f run) = (states run)[action_index a := act_state (f (run_actions run ! action_index a))]"
  by (simp add: states_def with_action_def map_update)

lemma states_evidence:
  assumes "\<And>r. act_state (f r) = act_state r"
  shows "states (with_action a f run) = states run"
proof (cases "action_index a < length (run_actions run)")
  case True
  then show ?thesis using assms by (simp add: states_with_action) (simp add: states_def list_update_same_conv)
next
  case False
  then show ?thesis by (simp add: with_action_def states_def list_update_beyond)
qed

lemma states_settled: "states (settled a st run) = (states run)[action_index a := st]"
  by (simp add: settled_def states_with_action with_state_def)

lemma states_admitted: "states (admitted_run report run)
    = (states run)[action_index (ar_action report) := (if admission_state report = ActionRunState.Checking
        then states run ! action_index (ar_action report) else admission_state report)]"
  by (simp add: admitted_run_def Let_def states_evidence [of "\<lambda>r. r\<lparr>act_admission := Some report\<rparr>"])
    (simp add: states_with_action states_evidence with_state_def)

lemma edges_publish [simp]:
  "edges (publish k run) = edges run" "edges (with_action a f run) = edges run"
  "edges (run\<lparr>run_latest_observation := ob\<rparr>) = edges run"
  "edges (run\<lparr>run_latest_observation := ob, run_goal_verification := g\<rparr>) = edges run"
  by (simp_all add: edges_def)

lemma in_state_states: "in_state a st run \<longleftrightarrow> action_index a < length (states run) \<and> states run ! action_index a = st"
  by (auto simp: in_state_def states_def)

end
