(* ===== verification/Run_Evidence.thy ===== *)
theory Run_Evidence
  imports Run_Invariant
begin

text \<open>
  What the evidence retained by a run amounts to, and the log of its events. Together with the
  discipline of the states these form the invariant that every call preserves.
\<close>

section \<open>Evidence behind each state\<close>

definition all_satisfied :: "'c LiveCheck list \<Rightarrow> bool" where
  "all_satisfied checks \<longleftrightarrow> (\<forall>c \<in> set checks. lc_status c = LiveCheckStatus.Satisfied)"

definition newer :: "LiveObservation \<Rightarrow> LiveObservation \<Rightarrow> bool" where
  "newer later earlier \<longleftrightarrow> or_probe_instance (lo_reference later) = or_probe_instance (lo_reference earlier)
     \<and> epoch_get (or_epoch (lo_reference earlier)) < epoch_get (or_epoch (lo_reference later))"

definition not_older :: "LiveObservation \<Rightarrow> LiveObservation \<Rightarrow> bool" where
  "not_older later earlier \<longleftrightarrow> or_probe_instance (lo_reference later) = or_probe_instance (lo_reference earlier)
     \<and> epoch_get (or_epoch (lo_reference earlier)) \<le> epoch_get (or_epoch (lo_reference later))"

definition admission_proves :: "uuid \<Rightarrow> ActionContract \<Rightarrow> AdmissionReport \<Rightarrow> bool" where
  "admission_proves rid c report \<longleftrightarrow> ar_run_id report = rid \<and> ar_applicability report = LiveCheckStatus.Satisfied
     \<and> checks_cover (ac_prerequisites c) (ar_checks report) \<and> all_satisfied (ar_checks report)
     \<and> (\<forall>required \<in> set (ac_affected_resources c). holds_resource (ar_held_resources report) required)"

definition completion_proves :: "uuid \<Rightarrow> AdmissionReport \<Rightarrow> BackendCompletion \<Rightarrow> bool" where
  "completion_proves rid report completion \<longleftrightarrow> bc_run_id completion = rid \<and> bc_outcome completion = BackendOutcome.Succeeded
     \<and> newer (bc_observation completion) (ar_observation report)"

definition verification_proves :: "uuid \<Rightarrow> ActionContract \<Rightarrow> BackendCompletion \<Rightarrow> VerificationReport \<Rightarrow> bool" where
  "verification_proves rid c completion report \<longleftrightarrow> vr_run_id report = rid
     \<and> vr_observation report = lo_reference (bc_observation completion)
     \<and> checks_cover (ac_postconditions c) (vr_checks report) \<and> all_satisfied (vr_checks report)"

definition evidence_ok :: "uuid \<Rightarrow> ActionContract \<Rightarrow> ActionRun \<Rightarrow> bool" where
  "evidence_ok rid c r \<longleftrightarrow>
     (act_state r \<in> {ActionRunState.Admitted, ActionRunState.Running, ActionRunState.Verifying, ActionRunState.Verified} \<longrightarrow>
        (\<exists>report. act_admission r = Some report \<and> admission_proves rid c report))
     \<and> (act_state r \<in> {ActionRunState.Verifying, ActionRunState.Verified} \<longrightarrow>
        (\<exists>report completion. act_admission r = Some report \<and> act_completion r = Some completion \<and> completion_proves rid report completion))
     \<and> (act_state r = ActionRunState.Verified \<longrightarrow>
        (\<exists>completion report. act_completion r = Some completion \<and> act_verification r = Some report
           \<and> verification_proves rid c completion report))"

definition evidence_inv :: "ExecutionRun \<Rightarrow> bool" where
  "evidence_inv run \<longleftrightarrow> (\<forall>i < length (run_actions run).
     evidence_ok (run_run_id run) (pa_informational_contract (plan_actions (run_plan run) ! i)) (run_actions run ! i))"

text \<open>No admission is based on an observation newer than the latest one.\<close>

definition observed_inv :: "ExecutionRun \<Rightarrow> bool" where
  "observed_inv run \<longleftrightarrow> (\<forall>r \<in> set (run_actions run). \<forall>report. act_admission r = Some report \<longrightarrow>
     (\<exists>latest. run_latest_observation run = Some latest \<and> not_older latest (ar_observation report)))"

definition goal_inv :: "ExecutionRun \<Rightarrow> bool" where
  "goal_inv run \<longleftrightarrow> (\<forall>report. run_goal_verification run = Some report \<longrightarrow>
     (\<forall>r \<in> set (run_actions run). act_state r = ActionRunState.Verified)
     \<and> gv_run_id report = run_run_id run \<and> checks_cover (run_goal_aspects run) (gv_checks report))"

lemma with_action_nth:
  "i < length (run_actions run) \<Longrightarrow> run_actions (with_action a f run) ! i
     = (if i = action_index a then f (run_actions run ! i) else run_actions run ! i)"
  by (auto simp: with_action_def nth_list_update)

lemma in_set_with_action:
  "r \<in> set (run_actions (with_action a f run)) \<Longrightarrow> action_index a < length (run_actions run) \<Longrightarrow>
     r \<in> set (run_actions run) \<or> r = f (run_actions run ! action_index a)"
  by (auto simp: with_action_def dest: set_update_subset_insert [THEN subsetD])

lemma evidence_inv_publish [simp]: "evidence_inv (publish k run) = evidence_inv run"
  by (simp add: evidence_inv_def)

lemma evidence_inv_observed [simp]:
  "evidence_inv (run\<lparr>run_latest_observation := ob\<rparr>) = evidence_inv run"
  "evidence_inv (run\<lparr>run_latest_observation := ob, run_goal_verification := g\<rparr>) = evidence_inv run"
  by (simp_all add: evidence_inv_def)

lemma evidence_inv_with_action:
  assumes "evidence_inv run" and "action_index a < length (run_actions run) \<Longrightarrow>
      evidence_ok (run_run_id run) (contract_of run a) (f (run_actions run ! action_index a))"
  shows "evidence_inv (with_action a f run)"
  using assms by (auto simp: evidence_inv_def with_action_nth contract_of_def)

lemma settled_fields:
  "run_run_id (settled a st run) = run_run_id run" "run_plan (settled a st run) = run_plan run"
  "run_goal_aspects (settled a st run) = run_goal_aspects run" "run_latest_observation (settled a st run) = run_latest_observation run"
  "run_goal_verification (settled a st run) = run_goal_verification run"
  by (simp_all add: settled_def)

text \<open>Two updates of one action are one.\<close>

lemma with_action_twice: "with_action a f (with_action a g run) = with_action a (\<lambda>r. f (g r)) run"
  by (cases "action_index a < length (run_actions run)") (simp_all add: with_action_def list_update_beyond)

lemma evidence_inv_settled:
  assumes "evidence_inv run" and "action_index a < length (run_actions run) \<Longrightarrow>
      evidence_ok (run_run_id run) (contract_of run a) ((f (run_actions run ! action_index a))\<lparr>act_state := st\<rparr>)"
  shows "evidence_inv (settled a st (with_action a f run))"
  using assms unfolding settled_def with_action_twice by (auto simp: with_state_def intro: evidence_inv_with_action)

lemma evidence_inv_state:
  assumes "evidence_inv run" and "action_index a < length (run_actions run) \<Longrightarrow>
      evidence_ok (run_run_id run) (contract_of run a) ((run_actions run ! action_index a)\<lparr>act_state := st\<rparr>)"
  shows "evidence_inv (settled a st run)"
  using assms unfolding settled_def by (auto simp: with_state_def intro: evidence_inv_with_action)

lemma evidence_at:
  assumes "evidence_inv run" and "in_state a st run"
  shows "evidence_ok (run_run_id run) (contract_of run a) (run_actions run ! action_index a)"
  using assms by (simp add: evidence_inv_def in_state_def contract_of_def)

lemma contract_of_observed [simp]:
  "contract_of (run\<lparr>run_latest_observation := ob\<rparr>) a = contract_of run a"
  by (simp add: contract_of_def)

lemma evidence_ok_unproved:
  "act_state r \<in> {ActionRunState.Waiting, ActionRunState.Checking, ActionRunState.Failed, ActionRunState.OutcomeUnknown}
     \<Longrightarrow> evidence_ok rid c r"
  by (auto simp: evidence_ok_def)

lemma admission_admitted:
  assumes "admission_state report = ActionRunState.Admitted" and "admission_complete report run"
  shows "admission_proves (run_run_id run) (contract_of run (ar_action report)) report"
  using assms unfolding admission_state_def
  by (subst (asm) evidence_satisfied) (auto simp: admission_complete_def admission_proves_def all_satisfied_def list_all_iff)

lemma moves_evidence:
  assumes "moves run op run'" and "evidence_inv run" and "observed_inv run"
  shows "evidence_inv run'"
  using assms(1)
proof cases
  case (check a)
  then show ?thesis using assms(2) by (auto intro!: evidence_inv_state evidence_ok_unproved)
next
  case (admit report)
  let ?f = "\<lambda>r. r\<lparr>act_admission := Some report\<rparr>"
  let ?run = "run\<lparr>run_latest_observation := Some (ar_observation report)\<rparr>"
  show ?thesis
  proof (cases "admission_state report = ActionRunState.Checking")
    case True
    then show ?thesis using admit assms(2)
      by (auto simp: admitted_run_def Let_def in_state_def intro!: evidence_inv_with_action evidence_ok_unproved)
  next
    case False
    have "evidence_ok (run_run_id run) (contract_of run (ar_action report))
        ((?f (run_actions run ! action_index (ar_action report)))\<lparr>act_state := admission_state report\<rparr>)"
    proof (cases "admission_state report = ActionRunState.Admitted")
      case True
      then show ?thesis using admission_admitted [OF True admit(4)] by (simp add: evidence_ok_def)
    next
      case False
      then show ?thesis using \<open>admission_state report \<noteq> ActionRunState.Checking\<close>
          evidence_range [of "ar_applicability report # map lc_status (ar_checks report)" ActionRunState.Admitted ActionRunState.Checking]
        by (intro evidence_ok_unproved) (auto simp: admission_state_def)
    qed
    then show ?thesis using admit(2) False assms(2)
      by (auto simp: admitted_run_def Let_def with_action_def [symmetric] evidence_inv_def with_action_nth with_state_def contract_of_def)
  qed
next
  case (dispatch a)
  then show ?thesis using evidence_at [OF assms(2) dispatch(3)] assms(2)
    by (auto simp: in_state_def evidence_ok_def intro!: evidence_inv_state)
next
  case (abandon a reason)
  then show ?thesis using assms(2) by (auto intro!: evidence_inv_settled evidence_ok_unproved)
next
  case (lose a reason)
  then show ?thesis using assms(2) by (auto intro!: evidence_inv_settled evidence_ok_unproved)
next
  case (progress a detail)
  then show ?thesis using assms(2) by simp
next
  case (goal report)
  then show ?thesis using assms(2) by simp
next
  case (complete c)
  let ?r = "run_actions run ! action_index (bc_action c)"
  obtain report where report: "act_admission ?r = Some report" "admission_proves (run_run_id run) (contract_of run (bc_action c)) report"
    using evidence_at [OF assms(2) complete(3)] complete(3) by (auto simp: evidence_ok_def in_state_def)
  have "?r \<in> set (run_actions run)" using complete(3) by (simp add: in_state_def)
  then have "newer (bc_observation c) (ar_observation report)"
    using assms(3) report(1) complete(5) by (fastforce simp: observed_inv_def fresh_observation_def newer_def not_older_def)
  then have "evidence_ok (run_run_id run) (contract_of run (bc_action c))
      (?r\<lparr>act_completion := Some c, act_state := outcome_state (bc_outcome c)\<rparr>)"
    using report complete(4)
    by (cases "bc_outcome c") (auto simp: outcome_state_def evidence_ok_def completion_proves_def)
  then show ?thesis using complete assms(2) by (auto intro!: evidence_inv_settled)
next
  case (verify report)
  let ?r = "run_actions run ! action_index (vr_action report)"
  let ?st = "evidence_state (map lc_status (vr_checks report)) ActionRunState.Verified ActionRunState.OutcomeUnknown"
  have ok: "evidence_ok (run_run_id run) (contract_of run (vr_action report)) ?r" "act_state ?r = ActionRunState.Verifying"
    using evidence_at [OF assms(2) verify(3)] verify(3) by (simp_all add: in_state_def)
  have "evidence_ok (run_run_id run) (contract_of run (vr_action report)) (?r\<lparr>act_verification := Some report, act_state := ?st\<rparr>)"
  proof (cases "?st = ActionRunState.Verified")
    case True
    then have "all_satisfied (vr_checks report)"
      by (subst (asm) evidence_satisfied) (auto simp: all_satisfied_def list_all_iff)
    then show ?thesis using True ok verify(4-6) by (auto simp: evidence_ok_def verification_proves_def)
  next
    case False
    then show ?thesis
      using evidence_range [of "map lc_status (vr_checks report)" ActionRunState.Verified ActionRunState.OutcomeUnknown]
      by (intro evidence_ok_unproved) auto
  qed
  then show ?thesis using verify assms(2) by (auto intro!: evidence_inv_settled)
qed

section \<open>The other conjuncts\<close>

text \<open>Every transition leaves the identity, the plan and the goal of a run alone.\<close>

definition same_task :: "ExecutionRun \<Rightarrow> ExecutionRun \<Rightarrow> bool" where
  "same_task run run' \<longleftrightarrow> run_run_id run' = run_run_id run \<and> run_document run' = run_document run \<and> run_plan run' = run_plan run
     \<and> run_goal_aspects run' = run_goal_aspects run \<and> length (run_actions run') = length (run_actions run)"

lemma moves_same_task: "moves run op run' \<Longrightarrow> same_task run run'"
  by (erule moves.cases) (simp_all add: same_task_def settled_def admitted_run_def Let_def)

lemma states_length [simp]: "length (states run) = length (run_actions run)"
  by (simp add: states_def)

lemma set_states: "set (states run) = act_state ` set (run_actions run)"
  by (simp add: states_def)

lemma moves_serial:
  assumes "moves run op run'" and "serial (edges run) (states run)" and "run_shaped run"
  shows "serial (edges run') (states run')"
proof -
  have same: "edges run' = edges run" using moves_same_task [OF assms(1)] by (simp add: same_task_def edges_def)
  have move: "serial (edges run) ((states run)[action_index a := st])" if "in_state a st0 run" "is_active st0" for a st0 st
    using serial_move [OF assms(2), of "action_index a" st] that by (simp add: in_state_states)
  from assms(1) have "serial (edges run) (states run')"
  proof cases
    case (check a)
    have "\<forall>(p, q) \<in> edges run. q = action_index a \<longrightarrow> p < length (states run) \<and> states run ! p = ActionRunState.Verified"
    proof clarify
      fix p
      assume "(p, action_index a) \<in> edges run"
      then obtain d where d: "d \<in> set (plan_dependencies (run_plan run))" "p = action_index (ad_before d)"
        "action_index (ad_after d) = action_index a" by (auto simp: edges_def dep_pairs_def)
      then have "ad_after d = a" using inj_action_index by (simp add: inj_eq)
      then show "p < length (states run) \<and> states run ! p = ActionRunState.Verified"
        using check(4) d by (auto simp: predecessors_verified_def in_state_states)
    qed
    moreover have "\<forall>s \<in> set (states run). \<not> is_active s \<and> \<not> is_stopped s"
      using check(5) by (auto simp: quiet_def set_states)
    ultimately show ?thesis using serial_start [OF assms(2)] check(2,3) by (simp add: states_settled in_state_states)
  next
    case (admit report)
    then show ?thesis using move [of "ar_action report" ActionRunState.Checking] by (simp add: states_admitted is_active_def)
  qed (use assms(2) move in \<open>auto simp: states_settled states_evidence is_active_def\<close>)
  then show ?thesis using same by simp
qed

lemma moves_observed:
  assumes "moves run op run'" and "observed_inv run"
  shows "observed_inv run'"
proof -
  have renewed: "\<exists>latest. Some ob = Some latest \<and> not_older latest (ar_observation report)"
    if "fresh_observation ob run" "r \<in> set (run_actions run)" "act_admission r = Some report" for ob r report
    using assms(2) that unfolding observed_inv_def fresh_observation_def not_older_def by fastforce
  have kept: "act_admission r' \<in> act_admission ` set (run_actions run)"
    if "r' \<in> set (run_actions (with_action a f run))" "\<And>r. act_admission (f r) = act_admission r" for r' a f
  proof (cases "action_index a < length (run_actions run)")
    case True
    then show ?thesis using in_set_with_action [OF that(1)] that(2) by auto
  next
    case False
    then show ?thesis using that(1) by (auto simp: with_action_def list_update_beyond)
  qed
  have same: "observed_inv (publish k (with_action a f run))" if "\<And>r. act_admission (f r) = act_admission r" for k a f
    using kept [OF _ that] assms(2) unfolding observed_inv_def by (fastforce simp: image_iff)
  have seen: "observed_inv (publish k (with_action a f (run\<lparr>run_latest_observation := Some ob\<rparr>)))"
    if "\<And>r. act_admission (f r) = act_admission r" "fresh_observation ob run" for k a f ob
    using kept [OF _ that(1)] renewed [OF that(2)] unfolding observed_inv_def
    by (fastforce simp: image_iff with_action_def)
  from assms(1) show ?thesis
  proof cases
    case (admit report)
    let ?f = "\<lambda>r. r\<lparr>act_admission := Some report\<rparr>"
    have "\<exists>latest. Some (ar_observation report) = Some latest \<and> not_older latest (ar_observation rep)"
      if "act_admission r = Some rep" "r \<in> set (run_actions run) \<or> act_admission r = Some report" for r rep
      using that renewed [OF admit(5)] by (auto simp: not_older_def)
    moreover have "r \<in> set (run_actions (admitted_run report run)) \<Longrightarrow> r \<in> set (run_actions run) \<or> act_admission r = Some report" for r
      using admit(3)
      by (auto simp: admitted_run_def Let_def in_state_def with_action_twice with_action_def with_state_def
          dest!: set_update_subset_insert [THEN subsetD] split: if_splits)
    moreover have "run_latest_observation (admitted_run report run) = Some (ar_observation report)"
      by (simp add: admitted_run_def Let_def)
    ultimately show ?thesis using admit(2) unfolding observed_inv_def by metis
  next
    case (complete c)
    then show ?thesis using seen by (simp add: settled_def with_action_twice with_state_def)
  next
    case (goal report)
    then show ?thesis using renewed [OF goal(5)] by (auto simp: observed_inv_def)
  next
    case (progress a detail)
    then show ?thesis using assms(2) by (simp add: observed_inv_def)
  qed (use same in \<open>simp_all add: settled_def with_action_twice with_state_def [abs_def]\<close>)
qed

lemma moves_goal:
  assumes "moves run op run'" and "goal_inv run"
  shows "goal_inv run'"
proof (cases "\<exists>report. op = RunOp.RecordGoalVerification report")
  case True
  then show ?thesis using assms(1) by (auto elim!: moves.cases simp: goal_inv_def)
next
  case False
  then have "\<exists>a st. in_state a st run \<and> st \<noteq> ActionRunState.Verified" "run_goal_verification run' = run_goal_verification run"
    using assms(1) by (auto elim!: moves.cases simp: settled_def admitted_run_def Let_def)
  then have "run_goal_verification run' = None"
    using assms(2) unfolding goal_inv_def in_state_def by (metis nth_mem option.exhaust)
  then show ?thesis by (simp add: goal_inv_def)
qed

section \<open>The event log\<close>

text \<open>The retained events are the most recent ones, numbered without gaps.\<close>

definition log_inv :: "ExecutionRun \<Rightarrow> bool" where
  "log_inv run \<longleftrightarrow> 1 \<le> unat (run_next_event_sequence run) \<and> length (run_events run) \<le> MAX_RUN_EVENTS
     \<and> map (\<lambda>e. unat (re_sequence e)) (run_events run)
        = [max 1 (unat (run_next_event_sequence run) - MAX_RUN_EVENTS)..<unat (run_next_event_sequence run)]
     \<and> (\<forall>e \<in> set (run_events run). re_run_id e = run_run_id run)"

lemma log_inv_cong:
  "run_events run' = run_events run \<Longrightarrow> run_next_event_sequence run' = run_next_event_sequence run \<Longrightarrow>
   run_run_id run' = run_run_id run \<Longrightarrow> log_inv run' = log_inv run"
  by (simp add: log_inv_def)

lemma log_inv_with_action [simp]: "log_inv (with_action a f run) = log_inv run"
  by (rule log_inv_cong) simp_all

lemma log_inv_observed [simp]:
  "log_inv (run\<lparr>run_latest_observation := ob\<rparr>) = log_inv run"
  "log_inv (run\<lparr>run_latest_observation := ob, run_goal_verification := g\<rparr>) = log_inv run"
  by (rule log_inv_cong; simp)+

lemma tl_upt: "tl [i..<j] = [Suc i..<j]"
  by (cases "i < j") (simp_all add: upt_rec [of i])

lemma log_inv_publish:
  assumes "log_inv run" and "has_room 1 run"
  shows "log_inv (publish k run)"
proof -
  let ?n = "unat (run_next_event_sequence run)" and ?m = MAX_RUN_EVENTS
  have next_id: "unat (run_next_event_sequence run + 1) = Suc ?n"
    using assms(2) unfolding has_room_def by (subst unat_add_lem [THEN iffD1]) auto
  have seqs: "map (\<lambda>e. unat (re_sequence e)) (run_events run) = [max 1 (?n - ?m)..<?n]" and n: "1 \<le> ?n"
    using assms(1) by (simp_all add: log_inv_def)
  then have len: "length (run_events run) = ?n - max 1 (?n - ?m)" by (metis length_map length_upt)
  show ?thesis
  proof (cases "length (run_events run) = ?m")
    case True
    then have full: "?n - ?m \<ge> 1" using len n by (simp add: MAX_RUN_EVENTS_def max_def split: if_splits)
    have "map (\<lambda>e. unat (re_sequence e)) (tl (run_events run)) = [Suc (?n - ?m)..<?n]"
      using seqs full by (simp add: map_tl tl_upt max_def)
    moreover have "Suc ?n - ?m = Suc (?n - ?m)" using full by simp
    moreover have "Suc (?n - ?m) \<le> ?n" using full by (simp add: MAX_RUN_EVENTS_def)
    ultimately show ?thesis using True assms(1) n full next_id
      by (auto simp: log_inv_def publish_def max_def dest: list.set_sel(2) [rotated])
  next
    case False
    then have "length (run_events run) < ?m" using assms(1) by (simp add: log_inv_def)
    then have "max 1 (Suc ?n - ?m) = 1" "max 1 (?n - ?m) = 1" using len n by (auto simp: max_def split: if_splits)
    then show ?thesis using False assms(1) n next_id seqs by (simp add: log_inv_def publish_def)
  qed
qed

lemma moves_log:
  assumes "moves run op run'" and "log_inv run"
  shows "log_inv run'"
  using assms(1)
proof cases
  case (admit report)
  have two: "has_room 2 r \<Longrightarrow> has_room 1 (publish k r) \<and> has_room 1 r" for k r
    using has_room_publish [of 1 r k] has_room_mono [of 2 r 1] by (simp add: numeral_2_eq_2)
  show ?thesis using admit assms(2) two
    by (auto simp: admitted_run_def Let_def intro!: log_inv_publish split: if_splits)
qed (use assms(2) in \<open>auto simp: settled_def intro!: log_inv_publish\<close>)

end
