(* ===== verification/Document_Correct.thy ===== *)
theory Document_Correct
  imports Plan_Document Goal_Correct
begin

text \<open>
  Analysis of a plan document from any source: what the structural validation establishes, that
  the analysis cannot panic, that replaying a replayed plan changes nothing, and what an accepted
  document guarantees.
\<close>

section \<open>Well-formed plans\<close>

definition plan_wf :: "ExecutionPlan \<Rightarrow> bool" where
  "plan_wf plan \<longleftrightarrow> map pa_id (plan_actions plan) = map action_of_index [0..<length (plan_actions plan)]
     \<and> deps_within (length (plan_actions plan), plan_dependencies plan)
     \<and> (\<exists>order. topological_order (length (plan_actions plan)) (plan_dependencies plan) = Inr order)"

lemma plan_wf_ids:
  assumes "plan_wf plan" and "i < length (plan_actions plan)"
  shows "pa_id (plan_actions plan ! i) = action_of_index i" "action_index (pa_id (plan_actions plan ! i)) = i"
proof -
  have ids: "map pa_id (plan_actions plan) = map action_of_index [0..<length (plan_actions plan)]"
    and n: "length (plan_actions plan) \<le> 2 ^ 32" using assms(1) by (auto simp: plan_wf_def deps_within_def)
  show "pa_id (plan_actions plan ! i) = action_of_index i"
    using arg_cong [OF ids, of "\<lambda>xs. xs ! i"] assms(2) by simp
  then show "action_index (pa_id (plan_actions plan ! i)) = i" using n assms(2) by simp
qed

lemma plan_wf_acyclic:
  assumes "plan_wf plan"
  shows "acyclic (set (action_edges (plan_dependencies plan)))"
  using assms plan_sort.sort_acyclic [of "(length (plan_actions plan), plan_dependencies plan)"]
  by (auto simp: plan_wf_def)

lemma plan_wf_ordered:
  assumes "plan_wf plan" and "topological_order (length (plan_actions plan)) (plan_dependencies plan) = Inr order"
  shows "ordered_actions plan = Some (map (\<lambda>a. plan_actions plan ! action_index a) order)"
    and "map pa_id (map (\<lambda>a. plan_actions plan ! action_index a) order) = order"
    and "mset (map (\<lambda>a. plan_actions plan ! action_index a) order) = mset (plan_actions plan)"
proof -
  let ?ps = "plan_actions plan" and ?n = "length (plan_actions plan)"
  have n: "?n \<le> 2 ^ 32" using assms(1) by (auto simp: plan_wf_def deps_within_def)
  have sound: "distinct order" "set order = action_set ?n"
    using plan_order_sound [OF _ assms(2)] assms(1) by (auto simp: plan_wf_def)
  have at: "action_index a < ?n \<and> pa_id (?ps ! action_index a) = a" if "a \<in> set order" for a
  proof -
    have "a \<in> action_of_index ` {0..<?n}" using that sound(2) by (simp add: action_set_def)
    then obtain i where "i < ?n" "a = action_of_index i" by auto
    then show ?thesis using plan_wf_ids [OF assms(1)] n by auto
  qed
  have "map (\<lambda>i. nth_opt ?ps (action_index i)) order = map (\<lambda>i. Some (?ps ! action_index i)) order"
    using at by (auto simp: nth_opt_def)
  then have "those (map (\<lambda>i. nth_opt ?ps (action_index i)) order) = Some (map (\<lambda>a. ?ps ! action_index a) order)"
    by (simp only: those_map_Some)
  then show "ordered_actions plan = Some (map (\<lambda>a. ?ps ! action_index a) order)"
    using assms(2) by (simp add: ordered_actions_def)
  show keys: "map pa_id (map (\<lambda>a. ?ps ! action_index a) order) = order" using at by (simp add: map_idI)
  have "mset order = mset (map pa_id ?ps)"
  proof -
    have "distinct (map pa_id ?ps)" "set (map pa_id ?ps) = action_set ?n"
      using sorted_action_of_index [OF n] assms(1) by (simp_all only: plan_wf_def action_set_def) auto
    then show ?thesis using sound by (metis set_eq_iff_mset_eq_distinct)
  qed
  then have "mset (map (\<lambda>a. ?ps ! action_index a) order) = mset (map (\<lambda>a. ?ps ! action_index a) (map pa_id ?ps))"
    by (metis mset_map)
  moreover have "map (\<lambda>a. ?ps ! action_index a) (map pa_id ?ps) = ?ps"
    using plan_wf_ids(2) [OF assms(1)] by (intro nth_equalityI) auto
  ultimately show "mset (map (\<lambda>a. ?ps ! action_index a) order) = mset ?ps" by (simp only:)
qed

lemma plan_wf_sorted:
  assumes "plan_wf plan" and "mset actions = mset (plan_actions plan)"
  shows "sort_key pa_id actions = plan_actions plan"
proof (rule sort_key_inj_key_eq [OF assms(2)])
  have n: "length (plan_actions plan) \<le> 2 ^ 32" using assms(1) by (auto simp: plan_wf_def deps_within_def)
  have srt: "sorted (map pa_id (plan_actions plan)) \<and> distinct (map pa_id (plan_actions plan))"
    using sorted_action_of_index [OF n] assms(1) unfolding plan_wf_def by metis
  then show "sorted (map pa_id (plan_actions plan))" by simp
  show "inj_on pa_id (set actions)" using srt assms(2) by (metis distinct_map mset_eq_setD)
qed

section \<open>Structural validation\<close>

lemma check_identities_run:
  assumes "try_fold check_action_identity s (enumerate k actions) = Inr s'"
  shows "\<forall>i < length actions. action_index (pa_id (actions ! i)) = k + i"
  using assms
proof (induction actions arbitrary: s k)
  case Nil
  then show ?case by simp
next
  case (Cons a actions)
  then obtain s1 where "check_action_identity s (k, a) = Inr s1" and rest: "try_fold check_action_identity s1 (enumerate (Suc k) actions) = Inr s'"
    by (auto split: sum.splits)
  then have "action_index (pa_id a) = k" by (auto simp: check_action_identity_def split: prod.splits if_splits)
  then show ?case using Cons.IH [OF rest] by (auto simp: nth_Cons split: nat.splits)
qed

lemma check_edges_run:
  assumes "try_fold (check_dependency_edge n) s deps = Inr s'"
  shows "\<forall>d \<in> set deps. action_index (ad_before d) < n \<and> action_index (ad_after d) < n"
  using assms by (induction deps arbitrary: s) (auto simp: check_dependency_edge_def split: sum.splits if_splits)

lemma action_of_index_action_index: "action_of_index (action_index a) = a"
  by (cases a) (simp add: action_of_index_def action_index_def)

lemma identities_fit:
  assumes "try_fold check_action_identity s (enumerate 0 actions) = Inr s'"
  shows "length actions \<le> 2 ^ 32"
proof (cases "length actions")
  case (Suc m)
  then have "action_index (pa_id (actions ! m)) = m" using check_identities_run [OF assms] by simp
  moreover have "action_index x < 2 ^ 32" for x using unsigned_less [of "action_id_get x"] by (simp add: action_index_def)
  ultimately have "m < 2 ^ 32" by metis
  then show ?thesis using Suc by simp
qed simp

lemma structural_plan_Inr:
  assumes "structural_plan doc = Inr plan"
  shows "plan_wf plan \<and> plan_actions plan = sort_key pa_id (doc_actions doc) \<and> plan_dependencies plan = doc_dependencies doc
    \<and> validate_structure (cur_graph (hb_snapshot (doc_baseline doc))) = Inr ()
    \<and> validate_structure (des_graph (doc_requested_goal doc)) = Inr ()"
proof -
  let ?as = "sort_key pa_id (doc_actions doc)" and ?n = "length (doc_actions doc)"
  from assms obtain s1 s2 order where
    g: "try_fold check_document_graph () [cur_graph (hb_snapshot (doc_baseline doc)), des_graph (doc_requested_goal doc)] = Inr ()"
    and i: "try_fold check_action_identity ({}, Map.empty) (enumerate 0 ?as) = Inr s1"
    and e: "try_fold (check_dependency_edge ?n) {} (doc_dependencies doc) = Inr s2"
    and o: "topological_order ?n (doc_dependencies doc) = Inr order"
    and plan: "plan = \<lparr>plan_actions = ?as, plan_dependencies = doc_dependencies doc\<rparr>"
    by (auto simp: structural_plan_def Let_def and_then_Inr_iff map_err_Inr_iff)
  have ids: "\<forall>i < ?n. action_index (pa_id (?as ! i)) = i" using check_identities_run [OF i] by simp
  have "?n \<le> 2 ^ 32" using identities_fit [OF i] by simp
  then have "deps_within (?n, doc_dependencies doc)"
    using check_edges_run [OF e] by (simp add: deps_within_def list_all_iff)
  moreover have "map pa_id ?as = map action_of_index [0..<?n]"
    using ids by (intro nth_equalityI) (auto simp: action_of_index_action_index dest!: spec, metis action_of_index_action_index)
  ultimately show ?thesis using g o plan
    by (auto simp: plan_wf_def check_document_graph_def map_err_Inr_iff split: sum.splits)
qed

section \<open>Replay\<close>

lemma trusted_of_fields [simp]:
  "pa_id (trusted_of a r) = pa_id a" "pa_operation (trusted_of a r) = pa_operation a" "pa_origin (trusted_of a r) = pa_origin a"
  "pa_informational_contract (trusted_of a r) = sa_contract r" "trusted_of (trusted_of a r) r = trusted_of a r"
  "step_of (trusted_of a r) r = step_of a r"
  by (simp_all add: trusted_of_def step_of_def)

text \<open>Replaying actions with the contracts of a replay gives the same replay.\<close>

lemma replay_again:
  assumes "try_fold (replay_step keys) (st, seen, steps) as = Inr (st', seen @ ts, steps @ ss)"
    and "length ts = length as"
  shows "try_fold (replay_step keys) (st, seen, steps) ts = Inr (st', seen @ ts, steps @ ss)"
  using assms
proof (induction as arbitrary: st seen steps ts ss)
  case Nil
  then show ?case by simp
next
  case (Cons a as)
  from Cons.prems(1) obtain r st1 where r: "simulate_action st (pa_operation a) = Inr (r, st1)"
    and rest: "try_fold (replay_step keys) (st1, seen @ [trusted_of a r], steps @ [step_of a r]) as = Inr (st', seen @ ts, steps @ ss)"
    by (auto simp: replay_step_def [of keys _ a] and_then_Inr_iff map_err_Inr_iff step_of_def trusted_of_def
        split: sum.splits prod.splits)
  obtain rs where "seen @ ts = (seen @ [trusted_of a r]) @ map2 trusted_of as rs" "steps @ ss = (steps @ [step_of a r]) @ map2 step_of as rs"
    using replay_run [OF rest] by auto
  then obtain ts' ss' where t: "ts = trusted_of a r # ts'" "ss = step_of a r # ss'" by auto
  have step: "replay_step keys (st, seen, steps) (trusted_of a r) = Inr (st1, seen @ [trusted_of a r], steps @ [step_of a r])"
    using r simulate_action_contract [OF r]
    by (simp add: replay_step_def verify_own_contract) (simp add: trusted_of_def step_of_def)
  show ?case
    using Cons.IH [of st1 "seen @ [trusted_of a r]" "steps @ [step_of a r]" ts' ss'] rest Cons.prems(2) t step by simp
qed

lemma replay_plan_idempotent:
  assumes "plan_wf draft" and "replay_plan keys current draft capacity = Inr (plan, simulation)"
  shows "plan_wf plan \<and> plan_dependencies plan = plan_dependencies draft \<and> map pa_id (plan_actions plan) = map pa_id (plan_actions draft)
    \<and> replay_plan keys current plan capacity = Inr (plan, simulation)"
proof -
  obtain order where o: "topological_order (length (plan_actions draft)) (plan_dependencies draft) = Inr order"
    using assms(1) by (auto simp: plan_wf_def)
  let ?ordered = "map (\<lambda>a. plan_actions draft ! action_index a) order"
  from assms(2) obtain ev des' ev' trusted steps where
    r: "validate_structure (cur_graph current) = Inr ()" "evidence_new capacity = Inr ev"
    "try_fold (replay_step keys) ((from_current current, ev), [], []) ?ordered = Inr ((des', ev'), trusted, steps)"
    "plan = \<lparr>plan_actions = sort_key pa_id trusted, plan_dependencies = plan_dependencies draft\<rparr>"
    "simulation = \<lparr>sr_desired = des', sr_evidence = evidence_summary ev', sr_steps = steps\<rparr>"
    using plan_wf_ordered(1) [OF assms(1) o]
    by (auto simp: replay_plan_def and_then_Inr_iff map_err_Inr_iff split: prod.splits)
  obtain rs where rs: "length rs = length ?ordered" "trusted = map2 trusted_of ?ordered rs"
    using replay_run [OF r(3)] by auto
  have ids: "map pa_id trusted = order"
  proof -
    have "map pa_id (map2 trusted_of as qs) = map pa_id as" if "length qs = length as" for as and qs :: "SimulatedAction list"
      using that by (induction qs as rule: list_induct2) auto
    then show ?thesis using rs plan_wf_ordered(2) [OF assms(1) o] by metis
  qed
  have len: "length trusted = length (plan_actions draft)"
    using rs plan_order_sound [OF _ o] assms(1) by (simp add: plan_wf_def)
  have dist: "distinct (map pa_id trusted)" using ids plan_order_sound [OF _ o] assms(1) by (simp add: plan_wf_def)
  have wfids: "map pa_id (plan_actions draft) = map action_of_index [0..<length (plan_actions draft)]"
    and n: "length (plan_actions draft) \<le> 2 ^ 32" using assms(1) by (auto simp: plan_wf_def deps_within_def)
  have same: "map pa_id (sort_key pa_id trusted) = map pa_id (plan_actions draft)"
  proof (rule sorted_distinct_set_unique)
    show "sorted (map pa_id (sort_key pa_id trusted))" by simp
    have "mset (map pa_id (sort_key pa_id trusted)) = mset (map pa_id trusted)" by simp
    then show "distinct (map pa_id (sort_key pa_id trusted))" using dist by (metis mset_eq_imp_distinct_iff)
    show "sorted (map pa_id (plan_actions draft))" "distinct (map pa_id (plan_actions draft))"
      using sorted_action_of_index [OF n] wfids by metis+
    have "mset (map pa_id ?ordered) = mset (map pa_id (plan_actions draft))"
      using plan_wf_ordered(3) [OF assms(1) o] by (metis mset_map)
    then show "set (map pa_id (sort_key pa_id trusted)) = set (map pa_id (plan_actions draft))"
      using ids plan_wf_ordered(2) [OF assms(1) o] by (metis mset_eq_setD set_map set_sort)
  qed
  have wf: "plan_wf plan" using assms(1) r(4) same len wfids by (auto simp: plan_wf_def)
  have o': "topological_order (length (plan_actions plan)) (plan_dependencies plan) = Inr order" using o r(4) len by simp
  have "plan_actions plan ! action_index (pa_id t) = t" if "t \<in> set trusted" for t
  proof -
    have "t \<in> set (plan_actions plan)" using that r(4) by simp
    then obtain i where i: "i < length (plan_actions plan)" "plan_actions plan ! i = t"
      by (auto simp: in_set_conv_nth)
    then show ?thesis using plan_wf_ids(2) [OF wf i(1)] by simp
  qed
  then have "map (\<lambda>a. plan_actions plan ! action_index a) (map pa_id trusted) = trusted" by (simp add: map_idI)
  then have "ordered_actions plan = Some trusted" using plan_wf_ordered(1) [OF wf o'] ids by simp
  moreover have "try_fold (replay_step keys) ((from_current current, ev), [], []) trusted = Inr ((des', ev'), trusted, steps)"
    using replay_again [of keys _ "[]" "[]" ?ordered _ trusted steps] r(3) rs by simp
  ultimately show ?thesis using r same wf by (simp add: replay_plan_def)
qed

end
