(* ===== verification/Document_Analysis.thy ===== *)
theory Document_Analysis
  imports Document_Correct Simulation_Properties
begin

text \<open>
  The analysis of plan documents as a whole: it never panics, and an accepted document
  describes a plan with every guarantee that composition gives.
\<close>

lemma yields_map_fault: "yields P r \<Longrightarrow> yields P (map_err (map_fault h) r)"
  by (auto simp: yields_def map_fault_def split: sum.splits fault.splits)

lemma structural_plan_yields: "yields plan_wf (structural_plan doc)"
proof (rule yields_result_mono [where P = "\<lambda>_. True"])
  show "plan_wf plan" if "structural_plan doc = Inr plan" for plan using structural_plan_Inr [OF that] by blast
  show "yields (\<lambda>_. True) (structural_plan doc)"
    unfolding structural_plan_def Let_def
  proof (intro yields_and_then yields_map_fault)
    show "yields (\<lambda>_. True) (try_fold check_document_graph ()
        [cur_graph (hb_snapshot (doc_baseline doc)), des_graph (doc_requested_goal doc)])"
      unfolding check_document_graph_def by (intro yields_try_fold yields_map_err_Failed TrueI)
    show "yields (\<lambda>_. True) (try_fold check_action_identity ({}, Map.empty) (enumerate 0 (sort_key pa_id (doc_actions doc))))"
      by (intro yields_try_fold) (auto simp: check_action_identity_def structure_error_def split: prod.splits)
    show "yields (\<lambda>_. True) (try_fold (check_dependency_edge (length (sort_key pa_id (doc_actions doc)))) {} (doc_dependencies doc))"
      by (intro yields_try_fold) (auto simp: check_dependency_edge_def structure_error_def)
    fix s1 s2
    assume i: "try_fold check_action_identity ({}, Map.empty) (enumerate 0 (sort_key pa_id (doc_actions doc))) = Inr s1"
      and e: "try_fold (check_dependency_edge (length (sort_key pa_id (doc_actions doc)))) {} (doc_dependencies doc) = Inr s2"
    have "deps_within (length (sort_key pa_id (doc_actions doc)), doc_dependencies doc)"
      using identities_fit [OF i] check_edges_run [OF e] by (simp add: deps_within_def list_all_iff)
    then show "yields (\<lambda>_. True) (topological_order (length (sort_key pa_id (doc_actions doc))) (doc_dependencies doc))"
      using topological_order_error by (fastforce simp: yields_def split: sum.splits fault.splits)
  qed simp
qed

lemma replay_step_yields: "yields (\<lambda>_. True) (replay_step keys s a)"
  by (cases s) (auto simp: replay_step_def intro!: yields_and_then yields_map_err_Failed split: prod.splits)

lemma replay_plan_yields:
  assumes "plan_wf plan"
  shows "yields (\<lambda>_. True) (replay_plan keys current plan capacity)"
proof -
  obtain order where o: "topological_order (length (plan_actions plan)) (plan_dependencies plan) = Inr order"
    using assms by (auto simp: plan_wf_def)
  show ?thesis
    unfolding replay_plan_def plan_wf_ordered(1) [OF assms o]
    by (auto intro!: yields_and_then yields_map_err_Failed yields_try_fold replay_step_yields split: prod.splits)
qed

text \<open>What an accepted document has established.\<close>

definition accepted :: "ContractKeys \<Rightarrow> PlanDocument \<Rightarrow> HistoricalAnalysis \<Rightarrow> SimulationResult \<Rightarrow> bool" where
  "accepted keys doc analysis simulation \<longleftrightarrow> plan_wf (ha_plan analysis)
     \<and> plan_dependencies (ha_plan analysis) = doc_dependencies doc
     \<and> length (plan_actions (ha_plan analysis)) = length (doc_actions doc)
     \<and> replay_plan keys (hb_snapshot (doc_baseline doc)) (ha_plan analysis) (hb_capacity_evidence (doc_baseline doc))
         = Inr (ha_plan analysis, simulation)
     \<and> validate_resource_order (plan_contracts (ha_plan analysis)) (plan_dependencies (ha_plan analysis)) = Inr ()
     \<and> check_protected_scope (ha_plan analysis) simulation (doc_protected_scope doc) = Some []
     \<and> rep_goal_checks (ha_report analysis)
         = compare_goal (sr_desired simulation) (sr_evidence simulation) (doc_requested_goal doc)
     \<and> (\<forall>c \<in> set (rep_goal_checks (ha_report analysis)). \<not> is_goal_violation c)
     \<and> (\<exists>ordered. ordered_actions (ha_plan analysis) = Some ordered
         \<and> (\<forall>p \<in> set (enumerate 0 (des_intents (doc_requested_goal doc))). ic_covered (intent_coverage ordered p)))"

lemma simulate_for_goal_report:
  assumes "plan_wf plan" and sim: "replay_plan keys current plan capacity = Inr (plan, simulation)"
  shows "yields (\<lambda>report. check_protected_scope plan simulation protected = Some (rep_protection_violations report)
      \<and> rep_goal_checks report = compare_goal (sr_desired simulation) (sr_evidence simulation) goal
      \<and> (\<exists>ordered. ordered_actions plan = Some ordered
          \<and> rep_intent_coverage report = map (intent_coverage ordered) (enumerate 0 (des_intents goal))))
    (simulate_plan_for_goal_with_policy keys current plan goal capacity protected)"
proof -
  obtain order where "topological_order (length (plan_actions plan)) (plan_dependencies plan) = Inr order"
    using assms by (auto simp: plan_wf_def)
  then obtain ordered where o: "ordered_actions plan = Some ordered" using plan_wf_ordered(1) [OF assms(1)] by blast
  let ?sim = "simulation\<lparr>sr_desired := (sr_desired simulation)\<lparr>des_intents := des_intents goal\<rparr>\<rparr>"
  obtain vs where vs: "check_protected_scope plan simulation protected = Some vs"
    using o by (simp add: check_protected_scope_def)
  have same: "compare_goal (sr_desired ?sim) (sr_evidence ?sim) goal = compare_goal (sr_desired simulation) (sr_evidence simulation) goal"
    "check_protected_scope plan ?sim protected = Some vs"
    using vs by (simp_all add: compare_goal_def persistent_mount_check_def check_protected_scope_def)
  have scope: "yields (\<lambda>_. True) (validate_protected_scope protected)"
    unfolding validate_protected_scope_def by (intro yields_try_fold) (auto simp: Let_def)
  have origins: "yields (\<lambda>_. True) (try_fold (check_intent_origin (des_intents goal)) () (plan_actions plan))"
    by (intro yields_try_fold) (auto simp: check_intent_origin_def intro: yields_require split: FragmentOrigin.splits)
  have analysed: "yields (\<lambda>report. rep_protection_violations report = vs \<and> rep_simulation report = ?sim
      \<and> rep_intent_coverage report = map (intent_coverage ordered) (enumerate 0 (des_intents goal)))
    (analyse_plan keys current plan (des_intents goal) capacity protected)"
    unfolding analyse_plan_def
    by (rule yields_and_then [OF scope], rule yields_and_then [OF origins])
      (simp add: simulate_plan_with_evidence_def sim o same Let_def)
  show ?thesis
    unfolding simulate_plan_for_goal_with_policy_def
    by (rule yields_and_then, rule yields_map_err_Failed, rule TrueI, rule yields_and_then [OF analysed])
      (use same vs o in \<open>simp add: Let_def\<close>)
qed

lemma conclude_analysis_Inr:
  "conclude_analysis doc plan report = Inr analysis \<longleftrightarrow> rep_protection_violations report = []
     \<and> (\<forall>c \<in> set (rep_goal_checks report). \<not> is_goal_violation c) \<and> (\<forall>c \<in> set (rep_intent_coverage report). ic_covered c)
     \<and> analysis = \<lparr>ha_plan_id = doc_plan_id doc, ha_baseline_id = hb_id (doc_baseline doc), ha_plan = plan, ha_report = report\<rparr>"
  by (auto simp: conclude_analysis_def find_None_iff find_Some_iff split: list.split option.split)

lemma conclude_analysis_yields: "yields (\<lambda>analysis. conclude_analysis doc plan report = Inr analysis) (conclude_analysis doc plan report)"
  by (auto simp: conclude_analysis_def yields_def split: list.split option.split)

lemma accepted_conclusion:
  assumes "conclude_analysis doc plan report = Inr analysis"
    and "plan_wf plan" "plan_dependencies plan = doc_dependencies doc" "length (plan_actions plan) = length (doc_actions doc)"
    and "replay_plan keys (hb_snapshot (doc_baseline doc)) plan (hb_capacity_evidence (doc_baseline doc)) = Inr (plan, simulation)"
    and "validate_resource_order (plan_contracts plan) (plan_dependencies plan) = Inr ()"
    and "check_protected_scope plan simulation (doc_protected_scope doc) = Some (rep_protection_violations report)
      \<and> rep_goal_checks report = compare_goal (sr_desired simulation) (sr_evidence simulation) (doc_requested_goal doc)
      \<and> (\<exists>ordered. ordered_actions plan = Some ordered
          \<and> rep_intent_coverage report = map (intent_coverage ordered) (enumerate 0 (des_intents (doc_requested_goal doc))))"
  shows "accepted keys doc analysis simulation"
proof -
  have fields: "ha_plan analysis = plan" "ha_report analysis = report" "rep_protection_violations report = []"
    and checks: "\<forall>c \<in> set (rep_goal_checks report). \<not> is_goal_violation c" "\<forall>c \<in> set (rep_intent_coverage report). ic_covered c"
    using assms(1) by (simp_all add: conclude_analysis_Inr)
  show ?thesis unfolding accepted_def fields using assms(2-7) checks fields(3) by (auto simp del: in_set_enumerate_eq)
qed

lemma analyse_historical_yields:
  "yields (\<lambda>analysis. \<exists>simulation. accepted keys doc analysis simulation) (analyse_historical keys doc)"
proof -
  let ?current = "hb_snapshot (doc_baseline doc)" and ?capacity = "hb_capacity_evidence (doc_baseline doc)"
  have "yields (\<lambda>analysis. \<exists>simulation. accepted keys doc analysis simulation)
     (and_then (map_err (map_fault PlanDocumentError.Composition)
       (validate_resource_order (plan_contracts plan) (plan_dependencies plan))) (\<lambda>_.
     and_then (map_err (map_fault PlanDocumentError.Simulation)
       (simulate_plan_for_goal_with_policy keys ?current plan (doc_requested_goal doc) ?capacity (doc_protected_scope doc))) (\<lambda>report.
       conclude_analysis doc plan report)))"
    if st: "structural_plan doc = Inr draft" and wf: "plan_wf draft"
      and "map_err (map_fault PlanDocumentError.Simulation) (replay_plan keys ?current draft ?capacity) = Inr (plan, simulation)"
    for draft plan simulation
  proof -
    have "replay_plan keys ?current draft ?capacity = Inr (plan, simulation)" using that(3) by (simp add: map_err_Inr_iff)
    note again = replay_plan_idempotent [OF wf this]
    then have pwf: "plan_wf plan" and sim: "replay_plan keys ?current plan ?capacity = Inr (plan, simulation)" by blast+
    have deps: "plan_dependencies plan = doc_dependencies doc" using again structural_plan_Inr [OF st] by simp
    have len: "length (plan_actions plan) = length (doc_actions doc)"
      using again structural_plan_Inr [OF st] by (metis length_map length_sort)
    show ?thesis
    proof (rule yields_and_then [OF yields_map_fault [OF validate_resource_order_yields]],
        rule yields_and_then [OF yields_map_fault [OF simulate_for_goal_report [OF pwf sim]]],
        rule yields_mono [OF conclude_analysis_yields], goal_cases)
      case (1 u report analysis)
      have "validate_resource_order (plan_contracts plan) (plan_dependencies plan) = Inr ()"
        using 1(1) by (simp add: map_err_Inr_iff)
      from accepted_conclusion [OF 1(5) pwf deps len sim this 1(4)] show ?case by blast
    qed
  qed
  then have "yields (\<lambda>analysis. \<exists>simulation. accepted keys doc analysis simulation)
    (and_then (structural_plan doc) (\<lambda>draft.
     and_then (map_err (map_fault PlanDocumentError.Simulation) (replay_plan keys ?current draft ?capacity)) (\<lambda>(plan, _).
     and_then (map_err (map_fault PlanDocumentError.Composition)
       (validate_resource_order (plan_contracts plan) (plan_dependencies plan))) (\<lambda>_.
     and_then (map_err (map_fault PlanDocumentError.Simulation)
       (simulate_plan_for_goal_with_policy keys ?current plan (doc_requested_goal doc) ?capacity (doc_protected_scope doc))) (\<lambda>report.
       conclude_analysis doc plan report)))))"
    by (intro yields_and_then [OF structural_plan_yields] yields_and_then [OF yields_map_fault [OF replay_plan_yields]])
      (auto split: prod.split)
  then show ?thesis by (simp add: analyse_historical_def)
qed

section \<open>What an accepted document guarantees\<close>

lemma wf_trusted:
  assumes "plan_wf plan" and "plan_actions plan = sort_key pa_id (map2 trusted_of ordered rs)"
    and "mset ordered = mset (plan_actions plan)" and "(a, r) \<in> set (zip ordered rs)"
  shows "pa_informational_contract a = sa_contract r"
proof -
  have "trusted_of a r \<in> set (plan_actions plan)" using assms(2,4) by force
  moreover have "a \<in> set (plan_actions plan)" using assms(3,4) by (metis mset_eq_setD set_zip_leftD)
  ultimately have "trusted_of a r = a"
    using plan_wf_ids(2) [OF assms(1)] by (auto simp: in_set_conv_nth) (metis trusted_of_fields(1))
  then show ?thesis using trusted_of_fields(4) by metis
qed

lemma accepted_untouched:
  assumes "accepted keys doc analysis simulation" and "graph_inv (cur_graph (hb_snapshot (doc_baseline doc)))"
  shows "\<exists>ev. sim_inv (sr_desired simulation, ev)
    \<and> (\<forall>k \<in> set (scope_aspects (doc_protected_scope doc)).
        aspect_view k (sr_desired simulation, ev) = aspect_view k (from_current (hb_snapshot (doc_baseline doc)), ev))"
proof -
  let ?plan = "ha_plan analysis"
  have wf: "plan_wf ?plan" and scope: "check_protected_scope ?plan simulation (doc_protected_scope doc) = Some []"
    and sim: "replay_plan keys (hb_snapshot (doc_baseline doc)) ?plan (hb_capacity_evidence (doc_baseline doc)) = Inr (?plan, simulation)"
    using assms(1) by (auto simp: accepted_def)
  obtain order where topo: "topological_order (length (plan_actions ?plan)) (plan_dependencies ?plan) = Inr order"
    using wf by (auto simp: plan_wf_def)
  show ?thesis
  proof (rule replay_keeps [OF sim assms(2)])
    fix ordered rs ev'
    assume o: "ordered_actions ?plan = Some ordered" "length rs = length ordered"
      and steps: "sr_steps simulation = map2 step_of ordered rs"
      and sorted: "plan_actions ?plan = sort_key pa_id (map2 trusted_of ordered rs)"
      and inv: "sim_inv (sr_desired simulation, ev')"
      and keep: "\<forall>k ev. (\<forall>r \<in> set rs. \<not> aspect_touched r k) \<longrightarrow>
        aspect_view k (sr_desired simulation, ev') = aspect_view k (from_current (hb_snapshot (doc_baseline doc)), ev)"
    have same: "mset ordered = mset (plan_actions ?plan)" using plan_wf_ordered [OF wf topo] o(1) by simp
    have "\<not> aspect_touched r k" if r: "r \<in> set rs" and k: "k \<in> set (scope_aspects (doc_protected_scope doc))" for r k
    proof -
      obtain i where i: "i < length rs" "rs ! i = r" using r by (metis in_set_conv_nth)
      then have "(ordered ! i, r) \<in> set (zip ordered rs)"
        and "(ordered ! i, step_of (ordered ! i) r) \<in> set (zip ordered (sr_steps simulation))"
        using o(2) steps by (auto simp: in_set_zip)
      then have "touched_aspects (sa_contract r) (sa_invalidated_facts r) (doc_protected_scope doc) = []"
        using no_violations [OF scope o(1)] wf_trusted [OF wf sorted same] by (fastforce simp: step_of_def)
      then show ?thesis using untouched_aspects k by blast
    qed
    then show ?thesis using inv keep by blast
  qed
qed

lemma accepted_conflicts_ordered:
  assumes "accepted keys doc analysis simulation"
    and "a \<in> set (plan_actions (ha_plan analysis))" and "b \<in> set (plan_actions (ha_plan analysis))" and "pa_id a \<noteq> pa_id b"
    and "conflicts_on r (pa_informational_contract a) (pa_informational_contract b)"
  shows "(pa_id a, pa_id b) \<in> (set (action_edges (doc_dependencies doc)))\<^sup>+
    \<or> (pa_id b, pa_id a) \<in> (set (action_edges (doc_dependencies doc)))\<^sup>+"
proof -
  have wf: "plan_wf (ha_plan analysis)" and deps: "plan_dependencies (ha_plan analysis) = doc_dependencies doc"
    and valid: "validate_resource_order (plan_contracts (ha_plan analysis)) (plan_dependencies (ha_plan analysis)) = Inr ()"
    using assms(1) by (auto simp: accepted_def)
  have "distinct (map fst (plan_contracts (ha_plan analysis)))"
    using plan_wf_ids(2) [OF wf] by (auto simp: plan_contracts_def comp_def distinct_conv_nth) (metis)
  then have "map_of (plan_contracts (ha_plan analysis)) (pa_id p) = Some (pa_informational_contract p)"
    if "p \<in> set (plan_actions (ha_plan analysis))" for p
    using that by (intro map_of_is_SomeI) (auto simp: plan_contracts_def)
  from validate_resource_order_Inr [OF valid this [OF assms(2)] this [OF assms(3)] assms(4,5)]
  show ?thesis by (simp add: dependency_path_iff_aux deps)
qed

text \<open>
  C37. The analysis of a plan document is total: whatever a document contains, and wherever it
  comes from, the analysis returns a result or a typed error. The identifiers and endpoints are
  validated before any of the algorithms that index arrays with them run, so none of them can
  panic.
\<close>

theorem document_analysis_never_panics:
  "analyse_historical keys doc \<noteq> Inl Panic \<and> analyse_historical keys doc \<noteq> Inl OutOfFuel"
  using yields_not_panic [OF analyse_historical_yields] .

text \<open>
  C31. An accepted document is as good as a composed plan. Its actions are numbered consecutively
  and its dependencies are acyclic; conflicting accesses are ordered by them; the projection of
  the plan from the saved baseline keeps every protected aspect and is structurally valid with
  exactly the requested nodes and edges.
\<close>

theorem accepted_document_sound:
  assumes "analyse_historical keys doc = Inr analysis" and "graph_inv (cur_graph (hb_snapshot (doc_baseline doc)))"
  shows "map pa_id (plan_actions (ha_plan analysis)) = map action_of_index [0..<length (doc_actions doc)]
    \<and> acyclic (set (action_edges (doc_dependencies doc)))
    \<and> (\<forall>a \<in> set (plan_actions (ha_plan analysis)). \<forall>b \<in> set (plan_actions (ha_plan analysis)). \<forall>r.
        pa_id a \<noteq> pa_id b \<longrightarrow> conflicts_on r (pa_informational_contract a) (pa_informational_contract b) \<longrightarrow>
        (pa_id a, pa_id b) \<in> (set (action_edges (doc_dependencies doc)))\<^sup>+
        \<or> (pa_id b, pa_id a) \<in> (set (action_edges (doc_dependencies doc)))\<^sup>+)
    \<and> (\<exists>simulation. replay_plan keys (hb_snapshot (doc_baseline doc)) (ha_plan analysis) (hb_capacity_evidence (doc_baseline doc))
           = Inr (ha_plan analysis, simulation)
        \<and> (\<forall>n \<in> set (ps_nodes (doc_protected_scope doc)).
             node_view n (des_graph (sr_desired simulation)) = node_view n (cur_graph (hb_snapshot (doc_baseline doc))))
        \<and> valid_structure (des_graph (sr_desired simulation))
        \<and> kind_at (des_graph (sr_desired simulation)) = kind_at (des_graph (doc_requested_goal doc))
        \<and> set (g_dependencies (des_graph (sr_desired simulation))) = set (g_dependencies (des_graph (doc_requested_goal doc))))"
proof -
  obtain simulation where acc: "accepted keys doc analysis simulation"
    using yields_result [OF analyse_historical_yields assms(1)] by blast
  have wf: "plan_wf (ha_plan analysis)" and deps: "plan_dependencies (ha_plan analysis) = doc_dependencies doc"
    and sim: "replay_plan keys (hb_snapshot (doc_baseline doc)) (ha_plan analysis) (hb_capacity_evidence (doc_baseline doc))
       = Inr (ha_plan analysis, simulation)"
    and goals: "\<forall>c \<in> set (compare_goal (sr_desired simulation) (sr_evidence simulation) (doc_requested_goal doc)). \<not> is_goal_violation c"
    using acc by (auto simp: accepted_def)
  have len: "length (plan_actions (ha_plan analysis)) = length (doc_actions doc)" using acc by (simp add: accepted_def)
  obtain ev where inv: "sim_inv (sr_desired simulation, ev)"
    and keep: "\<And>k. k \<in> set (scope_aspects (doc_protected_scope doc)) \<Longrightarrow>
      aspect_view k (sr_desired simulation, ev) = aspect_view k (from_current (hb_snapshot (doc_baseline doc)), ev)"
    using accepted_untouched [OF acc assms(2)] by blast
  have nodes: "node_view n (des_graph (sr_desired simulation)) = node_view n (cur_graph (hb_snapshot (doc_baseline doc)))"
    if "n \<in> set (ps_nodes (doc_protected_scope doc))" for n
    using keep [of "ProtectedAspect.Node n"] that by (simp add: scope_aspects_def aspect_view_def)
  have "\<forall>why. compare_graph (des_graph (sr_desired simulation)) (des_graph (doc_requested_goal doc)) \<noteq> GoalStatus.Violated why"
    using goals by (auto simp: compare_goal_def is_goal_violation_def)
  note graph = compare_graph_ok [OF this]
  have "graph_inv (des_graph (sr_desired simulation)) \<and> valid_structure (des_graph (sr_desired simulation))"
    using inv by (simp add: sim_inv_def work_inv_def)
  then have "\<exists>simulation. replay_plan keys (hb_snapshot (doc_baseline doc)) (ha_plan analysis) (hb_capacity_evidence (doc_baseline doc))
           = Inr (ha_plan analysis, simulation)
        \<and> (\<forall>n \<in> set (ps_nodes (doc_protected_scope doc)).
             node_view n (des_graph (sr_desired simulation)) = node_view n (cur_graph (hb_snapshot (doc_baseline doc))))
        \<and> valid_structure (des_graph (sr_desired simulation))
        \<and> kind_at (des_graph (sr_desired simulation)) = kind_at (des_graph (doc_requested_goal doc))
        \<and> set (g_dependencies (des_graph (sr_desired simulation))) = set (g_dependencies (des_graph (doc_requested_goal doc)))"
    using sim nodes graph by blast
  moreover have "map pa_id (plan_actions (ha_plan analysis)) = map action_of_index [0..<length (doc_actions doc)]"
    using wf len by (simp add: plan_wf_def)
  moreover have "acyclic (set (action_edges (doc_dependencies doc)))" using plan_wf_acyclic [OF wf] deps by simp
  ultimately show ?thesis using accepted_conflicts_ordered [OF acc] by blast
qed

end
