(* ===== verification/Document_Sample.thy ===== *)
theory Document_Sample
  imports Document_Analysis
begin

text \<open>
  A sample document with one action that carries out an explicit intent, and its analysis.
\<close>

definition document_action :: PlannedAction where
  "document_action = \<lparr>pa_id = ActionId 0, pa_operation = ProviderAction.Lvm (LvmAction.SetActivation (NodeId 3) True),
     pa_fragment = FragmentId 0, pa_local_id = LocalActionId 0, pa_origin = FragmentOrigin.Intent 0,
     pa_informational_contract = describe_action (ProviderAction.Lvm (LvmAction.SetActivation (NodeId 3) True)) sample_graph\<rparr>"

definition sample_document :: PlanDocument where
  "sample_document = \<lparr>doc_schema_version = PLAN_SCHEMA_VERSION, doc_action_semantics_version = ACTION_SEMANTICS_VERSION,
     doc_plan_id = 5, doc_baseline = \<lparr>hb_id = 6, hb_snapshot = sample_current, hb_capacity_evidence = []\<rparr>,
     doc_requested_goal = goal_desired, doc_protected_scope = goal_scope,
     doc_actions = [document_action], doc_dependencies = []\<rparr>"

lemma sample_document_ok: "is_ok (analyse_historical sample_keys sample_document)"
  by code_simp

definition sample_analysis :: HistoricalAnalysis where
  "sample_analysis = projr (analyse_historical sample_keys sample_document)"

lemma sample_analysed: "analyse_historical sample_keys sample_document = Inr sample_analysis"
  using sample_document_ok by (auto simp: sample_analysis_def is_ok_iff)

theorem accepted_document_sound_witness:
  "\<exists>simulation. map pa_id (plan_actions (ha_plan sample_analysis)) = [action_of_index 0]
     \<and> replay_plan sample_keys sample_current (ha_plan sample_analysis) [] = Inr (ha_plan sample_analysis, simulation)
     \<and> node_view (NodeId 1) (des_graph (sr_desired simulation)) = node_view (NodeId 1) sample_graph"
proof -
  have inv: "graph_inv (cur_graph (hb_snapshot (doc_baseline sample_document)))"
    using sample_current_inv by (simp add: sample_document_def)
  show ?thesis using accepted_document_sound [OF sample_analysed inv]
    by (auto simp: sample_document_def goal_scope_def sample_current_def)
qed

end
