(* ===== verification/Run_Properties.thy ===== *)
theory Run_Properties
  imports Run_Evidence Document_Sample
begin

text \<open>
  What an execution run promises to its callers, for every sequence of calls, failed ones
  included (\<^verbatim>\<open>storage-engine/src/execution.rs\<close>).
\<close>

section \<open>The invariant\<close>

definition run_inv :: "ExecutionRun \<Rightarrow> bool" where
  "run_inv run \<longleftrightarrow> run_shaped run \<and> plan_wf (run_plan run) \<and> serial (edges run) (states run)
     \<and> evidence_inv run \<and> observed_inv run \<and> goal_inv run \<and> log_inv run"

lemma moves_inv:
  assumes "moves run op run'" and "run_inv run"
  shows "run_inv run'"
proof -
  have "run_shaped run' \<and> plan_wf (run_plan run')"
    using moves_same_task [OF assms(1)] assms(2) by (simp add: same_task_def run_inv_def run_shaped_def)
  then show ?thesis
    using assms moves_serial moves_evidence moves_observed moves_goal moves_log unfolding run_inv_def by blast
qed

lemma perform_Inr: "run_inv run \<Longrightarrow> perform_op op run = (Inr x, run') \<Longrightarrow> moves run op run'"
  using perform_moves [of run op] by (auto simp: run_inv_def rejected_def)

lemma perform_Inl: "run_inv run \<Longrightarrow> perform_op op run = (Inl e, run') \<Longrightarrow> run' = run \<and> e \<noteq> Panic"
  using perform_moves [of run op] by (auto simp: run_inv_def rejected_def)

interpretation execution: atomic_machine perform_op run_inv
  by unfold_locales (use perform_Inr moves_inv perform_Inl in blast)+

lemma new_run_inv:
  assumes "execution_run_new keys fresh doc = Inr run"
  shows "run_inv run \<and> run_goal_verification run = None \<and> run_events run = [] \<and> run_next_event_sequence run = 1"
proof -
  from assms obtain analysis where a: "analyse_historical keys doc = Inr analysis"
    and run: "run_plan run = ha_plan analysis" "run_actions run = map (\<lambda>_. waiting_action) (plan_actions (ha_plan analysis))"
    "run_goal_verification run = None" "run_events run = []" "run_next_event_sequence run = 1"
    by (auto simp: execution_run_new_def and_then_Inr_iff map_err_Inr_iff)
  obtain simulation where "accepted keys doc analysis simulation"
    using yields_result [OF analyse_historical_yields a] by blast
  then have wf: "plan_wf (ha_plan analysis)" by (simp add: accepted_def)
  have within: "\<forall>(p, q) \<in> edges run. p < length (run_actions run) \<and> q < length (run_actions run)"
    using wf run by (auto simp: edges_def dep_pairs_def plan_wf_def deps_within_def list_all_iff)
  have waiting: "states run ! i = ActionRunState.Waiting" if "i < length (run_actions run)" for i
    using that run by (simp add: states_def waiting_action_def)
  have "serial (edges run) (states run)"
    using within waiting by (auto simp: serial_def is_active_def)
  moreover have "run_shaped run" using wf run by (simp add: run_shaped_def plan_wf_def)
  moreover have "evidence_inv run" using run by (auto simp: evidence_inv_def waiting_action_def intro: evidence_ok_unproved)
  moreover have "observed_inv run" "goal_inv run" "log_inv run"
    using run by (auto simp: observed_inv_def goal_inv_def log_inv_def waiting_action_def MAX_RUN_EVENTS_def)
  ultimately show ?thesis using wf run by (simp add: run_inv_def)
qed

text \<open>The runs a caller can produce.\<close>

definition reachable_run :: "ExecutionRun \<Rightarrow> bool" where
  "reachable_run run \<longleftrightarrow> (\<exists>keys fresh doc start. execution_run_new keys fresh doc = Inr start \<and> execution.leads_to start run)"

lemma reachable_inv: "reachable_run run \<Longrightarrow> run_inv run"
  using execution.leads_to_inv new_run_inv by (auto simp: reachable_run_def)

lemma filter_upt_after: "a = max 1 b \<Longrightarrow> filter (\<lambda>k. m < k) [a..<n] = [max (Suc m) b..<n]"
proof -
  have "filter (\<lambda>k. m < k) [a..<n] = [max (Suc m) a..<n]" for a :: nat
    by (induction n) (auto simp: max_def not_less_eq_eq)
  moreover assume "a = max 1 b"
  ultimately show ?thesis by (simp add: max_def)
qed

section \<open>A sample run\<close>

definition sample_run_start :: ExecutionRun where
  "sample_run_start = projr (execution_run_new sample_keys 9 sample_document)"

lemma sample_run_new: "execution_run_new sample_keys 9 sample_document = Inr sample_run_start"
  by (simp add: sample_run_start_def execution_run_new_def sample_analysed)

lemma sample_run_reachable: "reachable_run sample_run_start"
  unfolding reachable_run_def using sample_run_new execution.here by blast

lemma begin_check_succeeds:
  assumes "in_state a ActionRunState.Waiting run" and "predecessors_verified a run" and "quiet run" and "has_room 1 run"
  shows "begin_check a run = (Inr (), settled a ActionRunState.Checking run)"
proof -
  have "require_state a ActionRunState.Waiting run = Inr ()" using assms(1) by (simp add: require_state_Inr)
  moreover have "try_fold (check_predecessor a run) () (filter (\<lambda>d. ad_after d = a) (plan_dependencies (run_plan run))) = Inr ()"
    using assms(2) by (simp add: predecessors_Inr)
  moreover have "\<not> list_ex (\<lambda>r. is_stopped (act_state r)) (run_actions run)" "\<not> list_ex (\<lambda>r. is_active (act_state r)) (run_actions run)"
    using assms(3) by (auto simp: quiet_def list_ex_iff)
  ultimately show ?thesis
    using assms(1,4) by (simp add: begin_check_def run_combinators set_state_eq settled_def in_state_def)
qed

definition sample_run_checking :: ExecutionRun where
  "sample_run_checking = settled (ActionId 0) ActionRunState.Checking sample_run_start"

lemma sample_run_actions: "run_actions sample_run_start = [waiting_action]" "plan_dependencies (run_plan sample_run_start) = []"
proof -
  obtain simulation where acc: "accepted sample_keys sample_document sample_analysis simulation"
    using yields_result [OF analyse_historical_yields sample_analysed] by blast
  then have len: "length (plan_actions (ha_plan sample_analysis)) = 1" by (simp add: accepted_def sample_document_def)
  have run: "sample_run_start = \<lparr>run_run_id = 9, run_document = sample_document, run_plan = ha_plan sample_analysis,
         run_actions = map (\<lambda>_. waiting_action) (plan_actions (ha_plan sample_analysis)),
         run_latest_observation = None, run_goal_aspects = map gc_aspect (rep_goal_checks (ha_report sample_analysis)),
         run_goal_verification = None, run_events = [], run_next_event_sequence = 1\<rparr>"
    by (simp add: sample_run_start_def execution_run_new_def sample_analysed)
  have "plan_dependencies (ha_plan sample_analysis) = []" using acc by (simp add: accepted_def sample_document_def)
  then show "plan_dependencies (run_plan sample_run_start) = []" by (simp add: run)
  obtain p where "plan_actions (ha_plan sample_analysis) = [p]" using len by (auto simp: length_Suc_conv)
  then show "run_actions sample_run_start = [waiting_action]" by (simp add: run)
qed

lemma sample_run_begins: "begin_check (ActionId 0) sample_run_start = (Inr (), sample_run_checking)"
  unfolding sample_run_checking_def
  using new_run_inv [OF sample_run_new]
  by (intro begin_check_succeeds)
    (auto simp: in_state_def sample_run_actions waiting_action_def action_index_def predecessors_verified_def quiet_def
      is_stopped_def is_active_def has_room_def)

lemma sample_run_checking_reachable: "reachable_run sample_run_checking"
proof -
  have "snd (perform_op (RunOp.BeginCheck (ActionId 0)) sample_run_start) = sample_run_checking"
    by (simp add: perform_op_def sample_run_begins unit_result_def)
  then show ?thesis unfolding reachable_run_def using sample_run_new execution.there [OF execution.here] by blast
qed

section \<open>Properties\<close>

text \<open>
  C18. Execution is serial and respects the plan. In every run a caller can produce, at most one
  action is being checked, admitted, run or verified, none is while another one has failed, and
  an action that has left \<^verbatim>\<open>Waiting\<close> has only verified predecessors.
\<close>

theorem run_serial:
  assumes "reachable_run run"
  shows "(\<forall>i < length (run_actions run). \<forall>j < length (run_actions run). is_active (act_state (run_actions run ! i)) \<longrightarrow>
      is_active (act_state (run_actions run ! j)) \<or> is_stopped (act_state (run_actions run ! j)) \<longrightarrow> i = j)
    \<and> (\<forall>d \<in> set (plan_dependencies (run_plan run)).
        act_state (run_actions run ! action_index (ad_after d)) \<noteq> ActionRunState.Waiting \<longrightarrow>
        act_state (run_actions run ! action_index (ad_before d)) = ActionRunState.Verified)"
proof -
  have ser: "serial (edges run) (states run)" and shape: "run_shaped run"
    using reachable_inv [OF assms] by (simp_all add: run_inv_def)
  have at: "states run ! i = act_state (run_actions run ! i)" if "i < length (run_actions run)" for i
    using that by (simp add: states_def)
  have "act_state (run_actions run ! action_index (ad_before d)) = ActionRunState.Verified"
    if "d \<in> set (plan_dependencies (run_plan run))" "act_state (run_actions run ! action_index (ad_after d)) \<noteq> ActionRunState.Waiting" for d
  proof -
    have "(action_index (ad_before d), action_index (ad_after d)) \<in> edges run" using that(1) by (force simp: edges_def dep_pairs_def)
    moreover have "action_index (ad_after d) < length (run_actions run)" "action_index (ad_before d) < length (run_actions run)"
      using that(1) shape by (auto simp: run_shaped_def deps_within_def list_all_iff)
    ultimately show ?thesis using ser that(2) at by (fastforce simp: serial_def)
  qed
  then show ?thesis using ser at by (auto simp: serial_def)
qed

theorem run_serial_witness:
  "reachable_run sample_run_checking \<and> act_state (run_actions sample_run_checking ! 0) = ActionRunState.Checking
     \<and> card {i. i < length (run_actions sample_run_checking) \<and> is_active (act_state (run_actions sample_run_checking ! i))} = 1"
proof -
  have len: "length (run_actions sample_run_checking) = 1" and st: "act_state (run_actions sample_run_checking ! 0) = ActionRunState.Checking"
    by (simp_all add: sample_run_checking_def settled_def sample_run_actions with_action_def action_index_def with_state_def)
  from run_serial [OF sample_run_checking_reachable] len st
  have "{i. i < length (run_actions sample_run_checking) \<and> is_active (act_state (run_actions sample_run_checking ! i))} = {0}"
    by (auto simp: is_active_def)
  then show ?thesis using st sample_run_checking_reachable by simp
qed

text \<open>
  C19. A failed call changes nothing. Whatever method is called on a run that a caller can
  produce, if it returns an error then the run is exactly what it was before the call, and no
  method can panic.
\<close>

theorem run_failures_atomic:
  assumes "reachable_run run" and "perform_op op run = (Inl e, run')"
  shows "run' = run \<and> e \<noteq> Panic"
  using perform_Inl [OF reachable_inv [OF assms(1)] assms(2)] .

theorem run_failures_atomic_witness:
  "\<exists>e run'. perform_op (RunOp.BeginCheck (ActionId 7)) sample_run_start = (Inl e, run') \<and> run' = sample_run_start"
proof -
  have "fst (begin_check (ActionId 7) sample_run_start) = Inl (fault.Failed (ExecutionRunError.UnknownAction (ActionId 7)))"
    by (simp add: begin_check_def run_combinators require_state_def get_action_def nth_opt_def sample_run_actions action_index_def)
  then obtain run' where "perform_op (RunOp.BeginCheck (ActionId 7)) sample_run_start
      = (Inl (fault.Failed (ExecutionRunError.UnknownAction (ActionId 7))), run')"
    by (cases "begin_check (ActionId 7) sample_run_start") (simp add: perform_op_def unit_result_def)
  then show ?thesis using run_failures_atomic [OF sample_run_reachable] by blast
qed

text \<open>
  C17. A run that reports success has earned it. When a run a caller can produce is verified,
  every action of its plan is verified; each was admitted on a report that answers exactly its
  prerequisites, all of them satisfied, while holding every resource its contract names; its
  backend succeeded, and was observed by the same probe after the admission; a report on that
  very observation answers exactly its postconditions, all of them satisfied; and the final
  report answers exactly the requested aspects of the goal, all satisfied and with the protected
  scope preserved.
\<close>

theorem verified_run_evidence:
  assumes "reachable_run run" and "is_verified run"
  shows "(\<forall>i < length (plan_actions (run_plan run)). \<exists>admission completion verification.
        act_state (run_actions run ! i) = ActionRunState.Verified \<and> act_admission (run_actions run ! i) = Some admission
        \<and> act_completion (run_actions run ! i) = Some completion \<and> act_verification (run_actions run ! i) = Some verification
        \<and> (\<forall>c \<in> set (ar_checks admission). lc_status c = LiveCheckStatus.Satisfied)
        \<and> set (map lc_condition (ar_checks admission)) = set (ac_prerequisites (pa_informational_contract (plan_actions (run_plan run) ! i)))
        \<and> (\<forall>required \<in> set (ac_affected_resources (pa_informational_contract (plan_actions (run_plan run) ! i))).
             holds_resource (ar_held_resources admission) required)
        \<and> bc_outcome completion = BackendOutcome.Succeeded \<and> newer (bc_observation completion) (ar_observation admission)
        \<and> vr_observation verification = lo_reference (bc_observation completion)
        \<and> (\<forall>c \<in> set (vr_checks verification). lc_status c = LiveCheckStatus.Satisfied)
        \<and> set (map lc_condition (vr_checks verification)) = set (ac_postconditions (pa_informational_contract (plan_actions (run_plan run) ! i))))
    \<and> (\<exists>report. run_goal_verification run = Some report \<and> gv_preservation report = LiveCheckStatus.Satisfied
        \<and> (\<forall>c \<in> set (gv_checks report). lc_status c = LiveCheckStatus.Satisfied)
        \<and> set (map lc_condition (gv_checks report)) = set (run_goal_aspects run))"
proof -
  have inv: "evidence_inv run" "goal_inv run" "run_shaped run" using reachable_inv [OF assms(1)] by (simp_all add: run_inv_def)
  obtain report where report: "run_goal_verification run = Some report" "goal_satisfied report"
    using assms(2) by (auto simp: is_verified_def is_some_and_def split: option.splits)
  have all: "\<forall>r \<in> set (run_actions run). act_state r = ActionRunState.Verified"
    and cover: "checks_cover (run_goal_aspects run) (gv_checks report)"
    using inv(2) report(1) by (auto simp: goal_inv_def)
  have goal: "\<exists>report. run_goal_verification run = Some report \<and> gv_preservation report = LiveCheckStatus.Satisfied
        \<and> (\<forall>c \<in> set (gv_checks report). lc_status c = LiveCheckStatus.Satisfied)
        \<and> set (map lc_condition (gv_checks report)) = set (run_goal_aspects run)"
    using report cover by (auto simp: goal_satisfied_def checks_cover_iff list_all_iff)
  have "\<exists>admission completion verification. act_state (run_actions run ! i) = ActionRunState.Verified
        \<and> act_admission (run_actions run ! i) = Some admission \<and> act_completion (run_actions run ! i) = Some completion
        \<and> act_verification (run_actions run ! i) = Some verification
        \<and> admission_proves (run_run_id run) (pa_informational_contract (plan_actions (run_plan run) ! i)) admission
        \<and> completion_proves (run_run_id run) admission completion
        \<and> verification_proves (run_run_id run) (pa_informational_contract (plan_actions (run_plan run) ! i)) completion verification"
    if "i < length (plan_actions (run_plan run))" for i
  proof -
    have i: "i < length (run_actions run)" using that inv(3) by (simp add: run_shaped_def)
    then have "act_state (run_actions run ! i) = ActionRunState.Verified" using all by simp
    moreover have "evidence_ok (run_run_id run) (pa_informational_contract (plan_actions (run_plan run) ! i)) (run_actions run ! i)"
      using inv(1) i by (simp add: evidence_inv_def)
    ultimately show ?thesis by (auto simp: evidence_ok_def)
  qed
  then show ?thesis using goal
    unfolding admission_proves_def completion_proves_def verification_proves_def checks_cover_iff all_satisfied_def by blast
qed

text \<open>
  C20. A failure is final. Once an action of a run has failed or its outcome is unknown, every
  further call is rejected, so no other action can ever start and the run stays as it is.
\<close>

theorem stopped_run_final:
  assumes "reachable_run run" and "r \<in> set (run_actions run)" and "is_stopped (act_state r)"
  shows "(\<exists>e. fst (perform_op op run) = Inl e) \<and> (execution.leads_to run run' \<longrightarrow> run' = run)"
proof -
  note inv = reachable_inv [OF assms(1)]
  have ser: "serial (edges run) (states run)" using inv by (simp add: run_inv_def)
  obtain j where j: "j < length (states run)" "is_stopped (states run ! j)"
    using assms(2,3) by (auto simp: in_set_conv_nth states_def)
  have idle: "\<not> in_state a st run" if "is_active st" for a st
  proof
    assume "in_state a st run"
    then have "action_index a = j" using ser j that by (auto simp: serial_def in_state_states)
    then show False using \<open>in_state a st run\<close> that j by (auto simp: in_state_states is_active_def is_stopped_def)
  qed
  have "\<not> moves run opr run''" for opr run''
    using assms(2,3) idle
    by (auto elim!: moves.cases simp: quiet_def is_active_def is_stopped_def)
  then have none: "\<exists>e. fst (perform_op opr run) = Inl e" for opr
    using perform_moves [of run opr] inv by (auto simp: run_inv_def rejected_def)
  then show ?thesis using execution.leads_to_final inv by blast
qed

text \<open>
  C36. Replay of events is exact. For every cursor that the run has published, the page holds
  exactly the retained events after the cursor, in order and without holes up to the last
  published one; it reports a gap exactly when an event after the cursor has been evicted, and
  at most 1024 events are retained; a cursor of the future is rejected.
\<close>

theorem events_page_exact:
  assumes "reachable_run run"
  shows "length (run_events run) \<le> 1024
    \<and> (case events_page since run of
        Inl e \<Rightarrow> e = fault.Failed (ExecutionRunError.InvalidEventCursor since (run_next_event_sequence run - 1))
          \<and> unat (run_next_event_sequence run) \<le> unat since
      | Inr page \<Rightarrow> unat since < unat (run_next_event_sequence run)
          \<and> page_next_sequence page = run_next_event_sequence run - 1
          \<and> map (\<lambda>e. unat (re_sequence e)) (page_events page)
             = [max (Suc (unat since)) (unat (run_next_event_sequence run) - 1024)..<unat (run_next_event_sequence run)]
          \<and> (page_gap page \<longleftrightarrow> Suc (unat since) < unat (run_next_event_sequence run) - 1024))"
proof -
  let ?n = "unat (run_next_event_sequence run)"
  have n: "1 \<le> ?n" and seqs: "map (\<lambda>e. unat (re_sequence e)) (run_events run) = [max 1 (?n - 1024)..<?n]"
    and len: "length (run_events run) \<le> 1024"
    using reachable_inv [OF assms] by (simp_all add: run_inv_def log_inv_def MAX_RUN_EVENTS_def)
  have latest: "checked_sub (run_next_event_sequence run) 1 = Some (run_next_event_sequence run - 1)"
    and latest_nat: "unat (run_next_event_sequence run - 1) = ?n - 1"
    using n by (simp_all add: checked_sub_def word_le_nat_alt unat_sub)
  have past: "since > run_next_event_sequence run - 1 \<longleftrightarrow> ?n \<le> unat since"
    using n latest_nat by (auto simp: word_less_nat_alt)
  have after: "map (\<lambda>e. unat (re_sequence e)) (events_since since run) = [max (Suc (unat since)) (?n - 1024)..<?n]"
  proof -
    have "map (\<lambda>e. unat (re_sequence e)) (events_since since run)
        = filter (\<lambda>k. unat since < k) (map (\<lambda>e. unat (re_sequence e)) (run_events run))"
      by (simp add: events_since_def filter_map comp_def word_less_nat_alt)
    also have "\<dots> = [max (Suc (unat since)) (?n - 1024)..<?n]"
      unfolding seqs by (rule filter_upt_after) simp
    finally show ?thesis .
  qed
  have gap: "\<exists>s. checked_sub (re_sequence e) 1 = Some s \<and> (since < s \<longleftrightarrow> Suc (unat since) < ?n - 1024)"
    if "run_events run = e # es" for e es
  proof -
    have first: "unat (re_sequence e) = max 1 (?n - 1024)" using seqs that by (metis list.inject list.simps(9) upt_eq_Cons_conv)
    then have "1 \<le> re_sequence e" by (simp add: word_le_nat_alt)
    then show ?thesis using first by (auto simp: checked_sub_def word_less_nat_alt unat_sub max_def)
  qed
  show ?thesis
  proof (cases "run_events run")
    case Nil
    then have "[max 1 (?n - 1024)..<?n] = []" using seqs by simp
    then have "?n \<le> max 1 (?n - 1024)" by (simp only: upt_eq_Nil_conv) linarith
    then have "?n \<le> 1" by linarith
    then show ?thesis using Nil n len latest past after by (auto simp: events_page_def)
  next
    case (Cons e es)
    obtain s where "checked_sub (re_sequence e) 1 = Some s" "since < s \<longleftrightarrow> Suc (unat since) < ?n - 1024" using gap [OF Cons] by blast
    then show ?thesis using Cons len latest past after by (auto simp: events_page_def)
  qed
qed

text \<open>
  C21. A run never gets stuck: as long as no action has failed, none is active, some action is
  not yet verified and event numbers remain, there is an action whose check can begin.
\<close>

theorem run_not_stuck:
  assumes "reachable_run run" and "\<forall>r \<in> set (run_actions run). \<not> is_stopped (act_state r) \<and> \<not> is_active (act_state r)"
    and "r \<in> set (run_actions run)" and "act_state r \<noteq> ActionRunState.Verified"
    and "unat (run_next_event_sequence run) < 2 ^ 64 - 1"
  shows "\<exists>a run'. begin_check a run = (Inr (), run') \<and> act_state (run_actions run' ! action_index a) = ActionRunState.Checking"
proof -
  have wf: "plan_wf (run_plan run)" and shape: "run_shaped run" using reachable_inv [OF assms(1)] by (simp_all add: run_inv_def)
  let ?E = "set (dep_pairs (plan_dependencies (run_plan run)))"
  let ?W = "{i. i < length (run_actions run) \<and> act_state (run_actions run ! i) = ActionRunState.Waiting}"
  have only: "act_state (run_actions run ! i) \<in> {ActionRunState.Waiting, ActionRunState.Verified}" if "i < length (run_actions run)" for i
    using assms(2) nth_mem [OF that] by (cases "act_state (run_actions run ! i)") (auto simp: is_stopped_def is_active_def)
  obtain k where k: "k \<in> ?W" using assms(3,4) only by (force simp: in_set_conv_nth)
  have "acyclic ?E" using plan_wf_acyclic [OF wf] by (simp add: acyclic_edges_iff)
  then have "wf ?E" by (simp add: finite_acyclic_wf)
  then obtain i where i: "i \<in> ?W" and least: "\<And>j. (j, i) \<in> ?E \<Longrightarrow> j \<notin> ?W"
    using k by (meson wfE_min)
  let ?a = "action_of_index i"
  have n: "length (run_actions run) \<le> 2 ^ 32" using shape by (simp add: run_shaped_def deps_within_def)
  then have idx: "action_index ?a = i" using i by simp
  have "in_state (ad_before d) ActionRunState.Verified run"
    if "d \<in> set (plan_dependencies (run_plan run))" "ad_after d = ?a" for d
  proof -
    have b: "action_index (ad_before d) < length (run_actions run)"
      using that shape by (auto simp: run_shaped_def deps_within_def list_all_iff)
    have "(action_index (ad_before d), i) \<in> ?E" using that idx by (force simp: dep_pairs_def)
    then show ?thesis using least b only [OF b] by (auto simp: in_state_def)
  qed
  then have "predecessors_verified ?a run" by (simp add: predecessors_verified_def)
  moreover have "in_state ?a ActionRunState.Waiting run" using i idx by (simp add: in_state_def)
  moreover have "quiet run" "has_room 1 run" using assms(2,5) by (auto simp: quiet_def has_room_def)
  ultimately have "begin_check ?a run = (Inr (), settled ?a ActionRunState.Checking run)" by (intro begin_check_succeeds)
  moreover have "act_state (run_actions (settled ?a ActionRunState.Checking run) ! i) = ActionRunState.Checking"
    using i idx by (simp add: settled_def with_action_nth with_state_def)
  ultimately show ?thesis using idx by (intro exI) auto
qed

theorem run_not_stuck_witness:
  "\<exists>a run'. begin_check a sample_run_start = (Inr (), run')"
proof -
  have "run_next_event_sequence sample_run_start = 1" using new_run_inv [OF sample_run_new] by simp
  then show ?thesis
    using run_not_stuck [OF sample_run_reachable, of waiting_action]
    by (auto simp: sample_run_actions waiting_action_def is_stopped_def is_active_def)
qed

section \<open>What never changes\<close>

definition settled_kept :: "ExecutionRun \<Rightarrow> ExecutionRun \<Rightarrow> bool" where
  "settled_kept run run' \<longleftrightarrow> (\<forall>i < length (run_actions run). act_state (run_actions run ! i) = ActionRunState.Verified \<longrightarrow>
     run_actions run' ! i = run_actions run ! i)"

definition not_rewound :: "LiveObservation option \<Rightarrow> LiveObservation option \<Rightarrow> bool" where
  "not_rewound earlier later \<longleftrightarrow> (\<forall>ob. earlier = Some ob \<longrightarrow> (\<exists>ob'. later = Some ob' \<and> not_older ob' ob))"

definition progressed :: "ExecutionRun \<Rightarrow> ExecutionRun \<Rightarrow> bool" where
  "progressed run run' \<longleftrightarrow> same_task run run' \<and> settled_kept run run'
     \<and> not_rewound (run_latest_observation run) (run_latest_observation run')"

lemma not_rewound_trans: "not_rewound x y \<Longrightarrow> not_rewound y z \<Longrightarrow> not_rewound x z"
  by (fastforce simp: not_rewound_def not_older_def)

lemma not_rewound_refl [simp]: "not_rewound x x"
  by (simp add: not_rewound_def not_older_def)

lemma progressed_trans: "progressed u v \<Longrightarrow> progressed v w \<Longrightarrow> progressed u w"
  by (auto simp: progressed_def same_task_def settled_kept_def intro: not_rewound_trans)

lemma kept_with_action:
  "in_state a st run \<Longrightarrow> st \<noteq> ActionRunState.Verified \<Longrightarrow> run_actions run' = run_actions run \<Longrightarrow>
   settled_kept run (publish k (with_action a f run'))"
  by (auto simp: settled_kept_def in_state_def with_action_nth)

lemma kept_settled:
  "in_state a st run \<Longrightarrow> st \<noteq> ActionRunState.Verified \<Longrightarrow> run_actions run' = run_actions run \<Longrightarrow>
   settled_kept run (settled a st' (with_action a f run'))"
  unfolding settled_def with_action_twice by (rule kept_with_action)

lemma fresh_not_rewound: "fresh_observation ob run \<Longrightarrow> not_rewound (run_latest_observation run) (Some ob)"
  unfolding fresh_observation_def not_rewound_def not_older_def by (metis option.inject order_less_imp_le)

lemma kept_admitted:
  assumes "in_state (ar_action report) ActionRunState.Checking run"
  shows "settled_kept run (admitted_run report run)"
proof -
  have "run_actions (publish k (with_action a f (publish k' (with_action a f' run'))))
      = run_actions (publish k (with_action a (\<lambda>r. f (f' r)) run'))" for k k' a f f' run'
    by (cases "action_index a < length (run_actions run')") (simp_all add: with_action_def list_update_beyond)
  then show ?thesis
    using kept_with_action [OF assms, of "run\<lparr>run_latest_observation := Some (ar_observation report)\<rparr>"]
    by (simp add: admitted_run_def Let_def settled_kept_def)
qed

lemma moves_kept:
  assumes "moves run op run'"
  shows "settled_kept run run'"
  using assms
proof cases
  case (check a)
  then show ?thesis unfolding settled_def by (auto intro: kept_with_action)
next
  case (admit report)
  then show ?thesis using kept_admitted by simp
next
  case (dispatch a)
  then show ?thesis unfolding settled_def by (auto intro: kept_with_action)
next
  case (complete c)
  then show ?thesis by (auto intro: kept_settled)
next
  case (abandon a reason)
  then show ?thesis by (auto intro: kept_settled)
next
  case (verify report)
  then show ?thesis by (auto intro: kept_settled)
next
  case (lose a reason)
  then show ?thesis by (auto intro: kept_settled)
qed (auto simp: settled_kept_def)

lemma moves_not_rewound:
  assumes "moves run op run'"
  shows "not_rewound (run_latest_observation run) (run_latest_observation run')"
  using assms by cases (auto simp: settled_def admitted_run_def Let_def intro: fresh_not_rewound)

lemma moves_progressed: "moves run op run' \<Longrightarrow> progressed run run'"
  by (simp add: progressed_def moves_same_task moves_kept moves_not_rewound)

text \<open>
  C35. Runs only move forward. Between any two moments of a run the plan, the goal and the
  identity are the same, an action that was verified still is, with the very evidence it had,
  and the latest observation is never replaced by an older one or by one of another probe.
\<close>

theorem run_monotone:
  assumes "reachable_run run" and "execution.leads_to run run'"
  shows "run_plan run' = run_plan run \<and> run_run_id run' = run_run_id run \<and> run_goal_aspects run' = run_goal_aspects run
    \<and> (\<forall>i < length (run_actions run). act_state (run_actions run ! i) = ActionRunState.Verified \<longrightarrow>
          run_actions run' ! i = run_actions run ! i)
    \<and> (\<forall>ob. run_latest_observation run = Some ob \<longrightarrow>
          (\<exists>ob'. run_latest_observation run' = Some ob' \<and> not_older ob' ob))"
proof -
  have "progressed run run'"
  proof (rule execution.leads_to_respects [OF assms(2) reachable_inv [OF assms(1)], of progressed])
    show "progressed u u" for u by (simp add: progressed_def same_task_def settled_kept_def)
    show "progressed u w" if "progressed u v" "progressed v w" for u v w using that by (rule progressed_trans)
    show "progressed u v" if "run_inv u" "perform_op opr u = (Inr x, v)" for u v opr x
      using perform_Inr [OF that] by (rule moves_progressed)
  qed
  then show ?thesis by (simp add: progressed_def same_task_def settled_kept_def not_rewound_def)
qed

end
