(* ===== verification/Live_Properties.thy ===== *)
theory Live_Properties
  imports Live_Correct Run_Properties
begin

text \<open>
  What live evidence is worth: the correlation of objects, the prerequisites it can establish, and
  the final goal of a verified run.
\<close>

section \<open>The final goal\<close>

definition same_edges :: "(NodeId \<Rightarrow> NodeId) \<Rightarrow> NodeGraph \<Rightarrow> NodeGraph \<Rightarrow> bool" where
  "same_edges f goal actual \<longleftrightarrow>
     dep_triple ` set (g_dependencies actual) = move_edge f ` dep_triple ` set (g_dependencies goal)
     \<and> rel_triple ` set (g_relations actual) = move_edge f ` rel_triple ` set (g_relations goal)"

text \<open>A renaming of the nodes of the goal makes it the observed graph.\<close>

definition graph_realised :: "(NodeId \<Rightarrow> NodeId) \<Rightarrow> NodeGraph \<Rightarrow> NodeGraph \<Rightarrow> bool" where
  "graph_realised f goal actual \<longleftrightarrow> bij_betw f (node_ids goal) (node_ids actual) \<and> same_edges f goal actual
     \<and> (\<forall>(n, requested) \<in> set (g_nodes goal). requested_at actual requested (f n))"

definition rename_source :: "(NodeId \<Rightarrow> NodeId) \<Rightarrow> MountSource \<Rightarrow> MountSource" where
  "rename_source f source = (case source of MountSource.Filesystem n \<Rightarrow> MountSource.Filesystem (f n) | other \<Rightarrow> other)"

definition mount_realised :: "(NodeId \<Rightarrow> NodeId) \<Rightarrow> MountEntry \<Rightarrow> CurrentState \<Rightarrow> bool" where
  "mount_realised f mount actual \<longleftrightarrow> (\<exists>m. filter (\<lambda>m. om_target m = me_target mount \<and> om_context m = me_context mount) (ms_entries (cur_mounts actual)) = [m]
     \<and> om_source m = rename_source f (me_source mount) \<and> mset (om_options m) = mset (me_options mount))"

lemma validated_endpoints:
  assumes "validate_structure g = Inr ()" and "graph_inv g"
  shows "(s, t, k) \<in> dep_triple ` set (g_dependencies g) \<Longrightarrow> s \<in> node_ids g \<and> t \<in> node_ids g"
    and "(s, t, k') \<in> rel_triple ` set (g_relations g) \<Longrightarrow> s \<in> node_ids g \<and> t \<in> node_ids g"
  using assms by (auto simp: validate_structure_valid_aux valid_structure_def endpoints_ok_def dep_triple_def rel_triple_def)

lemma distinct_triples:
  "distinct (map dep_triple ds) \<longleftrightarrow> distinct ds" "distinct (map rel_triple rs) \<longleftrightarrow> distinct rs"
  by (auto simp: distinct_map inj_on_def dep_triple_def rel_triple_def)

lemma map_of_pairs: "n \<in> fst ` set ps \<Longrightarrow> map_of (map (\<lambda>p. (fst p, f (fst p))) ps) n = Some (f n)"
  by (induction ps) auto

lemma topology_decided:
  assumes valid: "validate_structure goal = Inr ()" "graph_inv goal" and "\<And>n. n \<in> node_ids goal \<Longrightarrow> map_of mapping n = Some (f n)"
  shows "topology_differs mapping goal actual = Some (\<not> (length (g_nodes goal) = length (g_nodes actual)
      \<and> length (g_dependencies goal) = length (g_dependencies actual) \<and> length (g_relations goal) = length (g_relations actual)
      \<and> move_edge f ` dep_triple ` set (g_dependencies goal) \<subseteq> dep_triple ` set (g_dependencies actual)
      \<and> move_edge f ` rel_triple ` set (g_relations goal) \<subseteq> rel_triple ` set (g_relations actual)))"
proof -
  have deps: "edge_missing mapping (map dep_triple (g_dependencies goal)) es
      = Some (\<not> move_edge f ` dep_triple ` set (g_dependencies goal) \<subseteq> set es)" for es
    using edge_missing_Some [of "map dep_triple (g_dependencies goal)" mapping f es] validated_endpoints(1) [OF valid] assms(3) by simp
  have rels: "edge_missing mapping (map rel_triple (g_relations goal)) es
      = Some (\<not> move_edge f ` rel_triple ` set (g_relations goal) \<subseteq> set es)" for es
    using edge_missing_Some [of "map rel_triple (g_relations goal)" mapping f es] validated_endpoints(2) [OF valid] assms(3) by simp
  show ?thesis unfolding topology_differs_def deps rels by (auto split: bool.splits)
qed

lemma topology_exact:
  assumes valid: "validate_structure goal = Inr ()" "graph_inv goal" and "graph_inv actual" and "inj_on f (node_ids goal)"
    and "topology_differs mapping goal actual = Some False" and "\<And>n. n \<in> node_ids goal \<Longrightarrow> map_of mapping n = Some (f n)"
    and "\<And>n. n \<in> node_ids goal \<Longrightarrow> f n \<in> node_ids actual"
  shows "bij_betw f (node_ids goal) (node_ids actual) \<and> same_edges f goal actual"
proof -
  have len: "length (g_nodes goal) = length (g_nodes actual)" "length (g_dependencies goal) = length (g_dependencies actual)"
    "length (g_relations goal) = length (g_relations actual)"
    and sub: "move_edge f ` dep_triple ` set (g_dependencies goal) \<subseteq> dep_triple ` set (g_dependencies actual)"
    "move_edge f ` rel_triple ` set (g_relations goal) \<subseteq> rel_triple ` set (g_relations actual)"
    using assms(5) topology_decided [OF valid assms(6), of actual] by simp_all
  have card: "card (node_ids g) = length (g_nodes g)" if "graph_inv g" for g
    using that by (metis distinct_card graph_inv_def length_map list.set_map node_ids_def)
  have "f ` node_ids goal = node_ids actual"
  proof (rule card_subset_eq)
    show "finite (node_ids actual)" by (simp add: node_ids_def)
    show "card (f ` node_ids goal) = card (node_ids actual)" using assms(2-4) len(1) by (simp add: card_image card)
  qed (use assms(7) in blast)
  moreover have "set (map dep_triple (g_dependencies actual)) = move_edge f ` set (map dep_triple (g_dependencies goal))"
    using assms(2-4) len(2) sub(1) validated_endpoints(1) [OF valid]
    by (intro edges_exact [of f "node_ids goal"]) (simp_all add: graph_inv_def distinct_triples)
  moreover have "set (map rel_triple (g_relations actual)) = move_edge f ` set (map rel_triple (g_relations goal))"
    using assms(2-4) len(3) sub(2) validated_endpoints(2) [OF valid]
    by (intro edges_exact [of f "node_ids goal"]) (simp_all add: graph_inv_def distinct_triples)
  ultimately show ?thesis using assms(4) by (simp add: bij_betw_def same_edges_def)
qed

lemma graph_status_decided:
  assumes "validate_structure (des_graph (ctx_requested_goal context)) = Inr ()" and "graph_inv (des_graph (ctx_requested_goal context))"
    and "graph_inv (cur_graph (lo_snapshot observation))" and "plan_wf (ctx_plan context)"
  shows "\<exists>status. graph_status context observation bindings = Inr status \<and> (status = LiveCheckStatus.Satisfied \<longrightarrow>
     graph_realised (counterpart (ctx_historical_baseline context) observation bindings)
       (des_graph (ctx_requested_goal context)) (cur_graph (lo_snapshot observation))
     \<and> (\<forall>n \<in> node_ids (des_graph (ctx_requested_goal context)). stands_for (ctx_historical_baseline context) observation bindings n
          (counterpart (ctx_historical_baseline context) observation bindings n)))"
proof (cases "try_fold (map_goal_node context observation bindings) [] (g_nodes (des_graph (ctx_requested_goal context)))")
  case (Inl status)
  have "status \<noteq> LiveCheckStatus.Satisfied"
    using try_fold_error [OF Inl, of "\<lambda>_. True"]
    by (auto simp: map_goal_node_def and_then_Inl_iff split: if_splits option.splits)
  then show ?thesis using Inl by (simp add: graph_status_def)
next
  case (Inr mapping)
  let ?f = "counterpart (ctx_historical_baseline context) observation bindings"
  let ?goal = "des_graph (ctx_requested_goal context)" and ?actual = "cur_graph (lo_snapshot observation)"
  have "distinct (map snd ([] :: (NodeId \<times> NodeId) list))" by simp
  note nodes = map_goal_nodes_Inr [OF Inr assms(3) this, unfolded append_Nil]
  have mapping: "mapping = map (\<lambda>p. (fst p, ?f (fst p))) (g_nodes ?goal)" and dist: "distinct (map snd mapping)"
    and each: "\<forall>(n, requested) \<in> set (g_nodes ?goal). stands_for (ctx_historical_baseline context) observation bindings n (?f n) \<and> requested_at ?actual requested (?f n)"
    using nodes by blast+
  have inj: "inj_on ?f (node_ids ?goal)"
    using dist unfolding mapping node_ids_def by (auto simp: distinct_map comp_def inj_on_def)
  have lookup: "map_of mapping n = Some (?f n)" if "n \<in> node_ids ?goal" for n
    using that unfolding mapping node_ids_def by (rule map_of_pairs)
  have there: "?f n \<in> node_ids ?actual" if n: "n \<in> node_ids ?goal" for n
  proof -
    obtain requested where "(n, requested) \<in> set (g_nodes ?goal)" using n by (auto simp: node_ids_def)
    then have "requested_at ?actual requested (?f n)" using each by blast
    then show ?thesis by (auto simp: requested_at_def intro: graph_node_Some)
  qed
  obtain b where topology: "topology_differs mapping ?goal ?actual = Some b" using topology_decided [OF assms(1,2) lookup] by blast
  obtain ordered where ordered: "ordered_actions (ctx_plan context) = Some ordered"
    using assms(4) plan_wf_ordered(1) [OF assms(4)] by (auto simp: plan_wf_def)
  show ?thesis
  proof (cases b)
    case True
    then show ?thesis using Inr topology by (simp add: graph_status_def)
  next
    case False
    then have "graph_realised ?f ?goal ?actual"
      using topology_exact [OF assms(1-3) inj _ lookup there] topology each by (auto simp: graph_realised_def)
    moreover have "\<forall>n \<in> node_ids ?goal. stands_for (ctx_historical_baseline context) observation bindings n (?f n)"
      using each by (auto simp: node_ids_def)
    ultimately show ?thesis using Inr topology False ordered by (simp add: graph_status_def)
  qed
qed

lemma options_satisfied:
  "options_status requested actual = LiveCheckStatus.Satisfied \<Longrightarrow> mset actual = mset requested"
proof -
  have "explicit_options xs = Some ys \<Longrightarrow> mset ys = mset xs" for xs ys
    by (simp add: explicit_options_def split: if_splits) (metis mset_sort)
  moreover assume "options_status requested actual = LiveCheckStatus.Satisfied"
  then obtain ys where "explicit_options requested = Some ys" "explicit_options actual = Some ys"
    by (auto simp: options_status_def split: option.splits if_splits)
  ultimately show ?thesis by metis
qed

lemma observed_mount_Inr:
  assumes "observed_mount baseline observation source target context bindings = Inr m"
    and "graph_inv (cur_graph (lo_snapshot observation))"
  shows "filter (\<lambda>m. om_target m = target \<and> om_context m = context) (ms_entries (cur_mounts (lo_snapshot observation))) = [m]
    \<and> om_source m = rename_source (counterpart baseline observation bindings) source"
proof -
  from assms(1) obtain src where src: "observed_source baseline observation source bindings = Inr src"
    and m: "(case filter (\<lambda>m. om_target m = target \<and> om_context m = context) (ms_entries (cur_mounts (lo_snapshot observation))) of
          [] \<Rightarrow> Inl (unknown ''requested mount was not observed; complete coverage is required'')
        | mount # others \<Rightarrow>
            if others \<noteq> [] then Inl (unknown ''multiple mount records occupy the requested target'')
            else if is_other_source (om_source mount) then Inl (unknown ''observed mount source is unresolved'')
            else if om_source mount \<noteq> src then Inl (violated ''mount target is occupied by a different source'')
            else Inr mount) = Inr m"
    unfolding observed_mount_def by (auto simp: and_then_Inr_iff split: if_splits)
  have "src = rename_source (counterpart baseline observation bindings) source"
  proof (cases source)
    case (Filesystem n)
    then show ?thesis using src result_node_sound [OF _ assms(2)]
      by (auto simp: observed_source_def rename_source_def and_then_Inr_iff split: if_splits)
  qed (use src in \<open>simp_all add: observed_source_def rename_source_def\<close>)
  then show ?thesis using m
    by (cases "filter (\<lambda>m. om_target m = target \<and> om_context m = context) (ms_entries (cur_mounts (lo_snapshot observation)))")
      (auto split: if_splits)
qed

lemma observed_mount_status [simp]:
  "observed_mount baseline observation source target context bindings \<noteq> Inl LiveCheckStatus.Satisfied"
proof -
  have "observed_source baseline observation source bindings \<noteq> Inl LiveCheckStatus.Satisfied"
    by (cases source) (auto simp: observed_source_def and_then_Inl_iff split: if_splits)
  then show ?thesis
    by (cases "filter (\<lambda>m. om_target m = target \<and> om_context m = context) (ms_entries (cur_mounts (lo_snapshot observation)))")
      (auto simp: observed_mount_def and_then_Inl_iff split: if_splits)
qed

lemma runtime_goal_satisfied:
  assumes "lc_status (runtime_goal_check context observation bindings mount) = LiveCheckStatus.Satisfied"
    and "graph_inv (cur_graph (lo_snapshot observation))"
  shows "mount_realised (counterpart (ctx_historical_baseline context) observation bindings) mount (lo_snapshot observation)"
proof -
  from assms(1) obtain m where
    m: "observed_mount (ctx_historical_baseline context) observation (me_source mount) (me_target mount) (me_context mount) bindings = Inr m"
    and options: "options_status (me_options mount) (om_options m) = LiveCheckStatus.Satisfied"
    by (auto simp: runtime_goal_check_def qualify_satisfied split: sum.splits)
  show ?thesis using observed_mount_Inr [OF m assms(2)] options_satisfied [OF options] by (auto simp: mount_realised_def)
qed

text \<open>The abstract meaning of a goal that is observed to hold.\<close>

definition goal_realised :: "(NodeId \<Rightarrow> NodeId) \<Rightarrow> DesiredState \<Rightarrow> CurrentState \<Rightarrow> bool" where
  "goal_realised f goal actual \<longleftrightarrow> graph_realised f (des_graph goal) (cur_graph actual)
     \<and> (\<forall>mount \<in> set (msp_runtime (des_mounts goal)). mount_realised f mount actual)
     \<and> msp_persistent (des_mounts goal) = [] \<and> des_boot goal = BootSpec.Unmanaged"

lemma observed_goal_Inr:
  assumes "check_observed_goal context observation bindings = Inr checks"
  shows "\<exists>status. graph_status context observation bindings = Inr status
    \<and> validate_structure (des_graph (ctx_requested_goal context)) = Inr ()
    \<and> checks = [\<lparr>lc_condition = GoalAspect.Graph, lc_status = qualify_observed_status observation status\<rparr>]
       @ map (runtime_goal_check context observation bindings) (msp_runtime (des_mounts (ctx_requested_goal context)))
       @ map persistent_goal_check (msp_persistent (des_mounts (ctx_requested_goal context)))
       @ [boot_goal_check (des_boot (ctx_requested_goal context))]"
  using assms unfolding check_observed_goal_def and_then_Inr_iff map_err_Inr_iff by auto

lemma observed_goal_total:
  assumes "plan_wf (ctx_plan context)" and "graph_inv (des_graph (ctx_requested_goal context))" and "graph_inv (cur_graph (lo_snapshot observation))"
  shows "check_observed_goal context observation bindings \<notin> {Inl Panic, Inl OutOfFuel}"
proof (cases "validate_structure (des_graph (ctx_requested_goal context))")
  case (Inl e)
  then show ?thesis by (simp add: check_observed_goal_def and_then_Inl_iff map_err_Inl_iff)
next
  case (Inr u)
  then obtain status where "graph_status context observation bindings = Inr status"
    using graph_status_decided [OF _ assms(2,3,1)] by auto
  then show ?thesis by (simp add: check_observed_goal_def and_then_Inl_iff map_err_Inl_iff)
qed

lemma not_persistent: "lc_status (persistent_goal_check mount) \<noteq> LiveCheckStatus.Satisfied"
  by (simp add: persistent_goal_check_def)

lemma observed_goal_satisfied:
  assumes "plan_wf (ctx_plan context)" and "graph_inv (des_graph (ctx_requested_goal context))" and "graph_inv (cur_graph (lo_snapshot observation))"
    and "check_observed_goal context observation bindings = Inr checks" and all: "\<forall>c \<in> set checks. lc_status c = LiveCheckStatus.Satisfied"
  shows "undisturbed observation
    \<and> goal_realised (counterpart (ctx_historical_baseline context) observation bindings) (ctx_requested_goal context) (lo_snapshot observation)
    \<and> (\<forall>n \<in> node_ids (des_graph (ctx_requested_goal context)). stands_for (ctx_historical_baseline context) observation bindings n
         (counterpart (ctx_historical_baseline context) observation bindings n))"
proof -
  obtain status where status: "graph_status context observation bindings = Inr status"
    and valid: "validate_structure (des_graph (ctx_requested_goal context)) = Inr ()"
    and eq: "checks = [\<lparr>lc_condition = GoalAspect.Graph, lc_status = qualify_observed_status observation status\<rparr>]
       @ map (runtime_goal_check context observation bindings) (msp_runtime (des_mounts (ctx_requested_goal context)))
       @ map persistent_goal_check (msp_persistent (des_mounts (ctx_requested_goal context)))
       @ [boot_goal_check (des_boot (ctx_requested_goal context))]"
    using observed_goal_Inr [OF assms(4)] by (elim exE conjE)
  have first: "lc_status \<lparr>lc_condition = GoalAspect.Graph, lc_status = qualify_observed_status observation status\<rparr> = LiveCheckStatus.Satisfied"
    by (rule bspec [OF all]) (simp add: eq)
  then have graph: "status = LiveCheckStatus.Satisfied" "undisturbed observation" by (simp_all add: qualify_satisfied)
  have mounts: "lc_status (runtime_goal_check context observation bindings mount) = LiveCheckStatus.Satisfied"
    if "mount \<in> set (msp_runtime (des_mounts (ctx_requested_goal context)))" for mount
    using that by (intro bspec [OF all]) (simp add: eq)
  have persistent: "lc_status (persistent_goal_check mount) = LiveCheckStatus.Satisfied"
    if "mount \<in> set (msp_persistent (des_mounts (ctx_requested_goal context)))" for mount
    using that by (intro bspec [OF all]) (simp add: eq)
  have boot: "lc_status (boot_goal_check (des_boot (ctx_requested_goal context))) = LiveCheckStatus.Satisfied"
    by (rule bspec [OF all]) (simp add: eq)
  have "\<forall>mount \<in> set (msp_runtime (des_mounts (ctx_requested_goal context))).
      mount_realised (counterpart (ctx_historical_baseline context) observation bindings) mount (lo_snapshot observation)"
    using mounts runtime_goal_satisfied [OF _ assms(3)] by blast
  moreover have "msp_persistent (des_mounts (ctx_requested_goal context)) = []"
    using persistent not_persistent by (metis list.set_intros(1) neq_Nil_conv)
  moreover have "des_boot (ctx_requested_goal context) = BootSpec.Unmanaged"
    using boot by (cases "des_boot (ctx_requested_goal context)") (simp_all add: boot_goal_check_def)
  moreover obtain status' where "graph_status context observation bindings = Inr status'"
    "status' = LiveCheckStatus.Satisfied \<longrightarrow> graph_realised (counterpart (ctx_historical_baseline context) observation bindings)
       (des_graph (ctx_requested_goal context)) (cur_graph (lo_snapshot observation))
     \<and> (\<forall>n \<in> node_ids (des_graph (ctx_requested_goal context)). stands_for (ctx_historical_baseline context) observation bindings n
          (counterpart (ctx_historical_baseline context) observation bindings n))"
    using graph_status_decided [OF valid assms(2,3,1), of bindings] by (elim exE conjE)
  ultimately show ?thesis using status graph by (simp add: goal_realised_def)
qed

section \<open>Properties\<close>

text \<open>
  C34. Correlation never confuses objects. When a selection is correlated with a new observation,
  every selected object has exactly one match and no two share a target. Both sides of a match
  are present, and either they carry one durable identity that no other object of either graph
  carries, with compatible kinds, or they are partition tables of one type, each the only table on
  a disk, and the two disks are matched by such an identity. The match of an object does not
  depend on what else is selected.
\<close>

theorem correlation_sound:
  assumes "correlate_nodes current next_state selected = Inr ms" and "graph_inv (cur_graph next_state)"
  shows "nc_source ` set ms = set selected \<and> distinct (map nc_source ms) \<and> distinct (map nc_target ms)
    \<and> (\<forall>m \<in> set ms. observed current (nc_source m) \<and> observed next_state (nc_target m)
         \<and> (identified current next_state m \<or> same_table current next_state m)
         \<and> correlate_nodes current next_state [nc_source m] = Inr [m])"
  using correlate_nodes_sound [OF assms] correlate_nodes_alone [OF assms(1) _ assms(2)] by (simp add: same_object_def)

text \<open>
  C33. Live evidence is never overstated. A report on prerequisites answers exactly the conditions
  asked, in their order, for the observation it names. A condition is only reported as satisfied
  when the observation has no diagnostic above a warning and shows the fact on an object that is
  identified beyond doubt: existence, kind, write access, or enough free capacity in unchanged
  units. Everything else, absence of users included, is never reported as satisfied.
\<close>

theorem observed_prerequisites_sound:
  assumes "check_observed_prerequisites_with_bindings baseline observation capacity prerequisites bindings = Inr report"
    and "graph_inv (cur_graph (lo_snapshot observation))"
  shows "op_observation report = lo_reference observation \<and> map lc_condition (op_checks report) = prerequisites
    \<and> (\<forall>c \<in> set (op_checks report). lc_status c = LiveCheckStatus.Satisfied \<longrightarrow>
         undisturbed observation \<and> established baseline observation capacity bindings (lc_condition c))"
  using observed_prerequisites_aux [OF assms] .

text \<open>
  C32. A verified run has reached its goal. The check of the final goal never panics on a run a
  caller can produce. If the report that a verified run rests on is the outcome of that check,
  then a renaming of nodes makes the requested graph exactly the observed one: a bijection of the
  nodes that keeps kinds, requested sizes, dependencies and relations, and that maps every node to
  an object identified by a durable identity. Every requested mount is the only one observed at its
  target, with the renamed source and the requested options, and nothing was requested that an
  observation cannot show.
\<close>

theorem verified_run_reaches_goal:
  assumes "reachable_run run" and "graph_inv (des_graph (doc_requested_goal (run_document run)))"
    and "graph_inv (cur_graph (lo_snapshot observation))"
  shows "check_observed_goal (run_context run) observation bindings \<notin> {Inl Panic, Inl OutOfFuel}
    \<and> (\<forall>report. is_verified run \<longrightarrow> run_goal_verification run = Some report \<longrightarrow> gv_observation report = observation \<longrightarrow>
         check_observed_goal (run_context run) observation bindings = Inr (gv_checks report) \<longrightarrow>
         undisturbed observation
         \<and> goal_realised (counterpart (doc_baseline (run_document run)) observation bindings)
             (doc_requested_goal (run_document run)) (lo_snapshot observation)
         \<and> (\<forall>n \<in> node_ids (des_graph (doc_requested_goal (run_document run))).
              stands_for (doc_baseline (run_document run)) observation bindings n
                (counterpart (doc_baseline (run_document run)) observation bindings n)))"
proof -
  have ctx: "plan_wf (ctx_plan (run_context run))" "graph_inv (des_graph (ctx_requested_goal (run_context run)))"
    "ctx_historical_baseline (run_context run) = doc_baseline (run_document run)"
    "ctx_requested_goal (run_context run) = doc_requested_goal (run_document run)"
    using reachable_inv [OF assms(1)] assms(2) by (simp_all add: run_context_def run_inv_def)
  have "\<forall>c \<in> set (gv_checks report). lc_status c = LiveCheckStatus.Satisfied"
    if "is_verified run" "run_goal_verification run = Some report" for report
    using that by (auto simp: is_verified_def is_some_and_def goal_satisfied_def list_all_iff)
  then show ?thesis
    using observed_goal_total [OF ctx(1,2) assms(3)] observed_goal_satisfied [OF ctx(1,2) assms(3)] unfolding ctx(3,4) by blast
qed

end
