(* ===== verification/Run_Sample.thy ===== *)
theory Run_Sample
  imports Run_Properties
begin

text \<open>
  A sample execution, from the first check of its only action to the final verification.
\<close>

lemma checked_add_code [code]:
  fixes a b :: "'n::len word"
  shows "checked_add a b = (if a \<le> a + b then Some (a + b) else None)"
proof -
  have "a \<le> a + b \<longleftrightarrow> unat a + unat b < 2 ^ LENGTH('n)" by (metis no_olen_add_nat)
  then show ?thesis by (simp add: checked_add_def)
qed

definition sample_observation :: "u64 \<Rightarrow> LiveObservation" where
  "sample_observation epoch = \<lparr>lo_reference = \<lparr>or_probe_instance = 3, or_epoch = ProbeEpoch epoch\<rparr>, lo_snapshot = sample_current\<rparr>"

definition satisfied_check :: "'c \<Rightarrow> 'c LiveCheck" where
  "satisfied_check c = \<lparr>lc_condition = c, lc_status = LiveCheckStatus.Satisfied\<rparr>"

definition sample_contract :: ActionContract where
  "sample_contract = pa_informational_contract document_action"

definition sample_calls :: "RunOp list" where
  "sample_calls = [RunOp.BeginCheck (ActionId 0),
     RunOp.RecordAdmission \<lparr>ar_run_id = 9, ar_action = ActionId 0, ar_observation = sample_observation 1,
       ar_applicability = LiveCheckStatus.Satisfied, ar_held_resources = ac_affected_resources sample_contract,
       ar_checks = map satisfied_check (ac_prerequisites sample_contract)\<rparr>,
     RunOp.MarkDispatchStarted (ActionId 0),
     RunOp.RecordProgress (ActionId 0) ''half way'',
     RunOp.RecordCompletion \<lparr>bc_run_id = 9, bc_action = ActionId 0, bc_outcome = BackendOutcome.Succeeded,
       bc_observation = sample_observation 2\<rparr>,
     RunOp.RecordVerification \<lparr>vr_run_id = 9, vr_action = ActionId 0, vr_observation = lo_reference (sample_observation 2),
       vr_checks = map satisfied_check (ac_postconditions sample_contract)\<rparr>,
     RunOp.RecordGoalVerification \<lparr>gv_run_id = 9, gv_observation = sample_observation 3,
       gv_checks = map satisfied_check [GoalAspect.Graph, GoalAspect.Boot], gv_preservation = LiveCheckStatus.Satisfied\<rparr>]"

definition run_calls :: "RunOp list \<Rightarrow> ExecutionRun \<Rightarrow> ExecutionRun" where
  "run_calls ops run = fold (\<lambda>op run. snd (perform_op op run)) ops run"

lemma run_calls_leads_to: "execution.leads_to run (run_calls ops run)"
proof -
  have "execution.leads_to start (fold (\<lambda>op run. snd (perform_op op run)) ops r)" if "execution.leads_to start r" for start r
    using that by (induction ops arbitrary: r) (auto intro: execution.there)
  then show ?thesis using execution.here by (simp add: run_calls_def)
qed

text \<open>The run before its final verification, the finished run, and a run whose first check fails.\<close>

definition sample_verified :: ExecutionRun where
  "sample_verified = run_calls (butlast sample_calls) sample_run_start"

definition sample_finished :: ExecutionRun where
  "sample_finished = snd (perform_op (last sample_calls) sample_verified)"

definition sample_aborted_calls :: "RunOp list" where
  "sample_aborted_calls = [RunOp.BeginCheck (ActionId 0),
     RunOp.RecordAdmission \<lparr>ar_run_id = 9, ar_action = ActionId 0, ar_observation = sample_observation 1,
       ar_applicability = LiveCheckStatus.Violated ''the disk is in use'', ar_held_resources = ac_affected_resources sample_contract,
       ar_checks = map satisfied_check (ac_prerequisites sample_contract)\<rparr>]"

definition sample_aborted :: ExecutionRun where
  "sample_aborted = run_calls sample_aborted_calls sample_run_start"

definition sample_states :: "ExecutionRun \<Rightarrow> bool" where
  "sample_states start = (let verified = run_calls (butlast sample_calls) start;
       finished = snd (perform_op (last sample_calls) verified); aborted = run_calls sample_aborted_calls start in
     act_state (run_actions verified ! 0) = ActionRunState.Verified \<and> length (run_actions verified) = 1
     \<and> is_verified finished \<and> run_next_event_sequence finished = 9
     \<and> act_state (run_actions aborted ! 0) = ActionRunState.Failed \<and> length (run_actions aborted) = 1
     \<and> map_option (or_epoch \<circ> lo_reference) (run_latest_observation verified) = Some (ProbeEpoch 2))"

lemma sample_states_hold: "sample_states sample_run_start"
  by code_simp

lemma sample_states_are:
  "act_state (run_actions sample_verified ! 0) = ActionRunState.Verified" "length (run_actions sample_verified) = 1"
  "is_verified sample_finished" "run_next_event_sequence sample_finished = 9"
  "act_state (run_actions sample_aborted ! 0) = ActionRunState.Failed" "length (run_actions sample_aborted) = 1"
  "map_option (or_epoch \<circ> lo_reference) (run_latest_observation sample_verified) = Some (ProbeEpoch 2)"
  using sample_states_hold
  by (simp_all add: sample_states_def Let_def sample_verified_def sample_finished_def sample_aborted_def)

lemma sample_reachable:
  "reachable_run sample_verified" "reachable_run sample_finished" "reachable_run sample_aborted"
  "execution.leads_to sample_verified sample_finished"
proof -
  show "reachable_run sample_verified" "reachable_run sample_aborted"
    unfolding reachable_run_def sample_verified_def sample_aborted_def using sample_run_new run_calls_leads_to by blast+
  show "execution.leads_to sample_verified sample_finished"
    unfolding sample_finished_def by (rule execution.there [OF execution.here]) simp
  show "reachable_run sample_finished"
    unfolding reachable_run_def using sample_run_new run_calls_leads_to sample_verified_def sample_finished_def execution.there by metis
qed

section \<open>Witnesses\<close>

theorem verified_run_evidence_witness:
  "is_verified sample_finished \<and> (\<exists>report. run_goal_verification sample_finished = Some report
     \<and> gv_preservation report = LiveCheckStatus.Satisfied
     \<and> set (map lc_condition (gv_checks report)) = set (run_goal_aspects sample_finished))"
  using verified_run_evidence [OF sample_reachable(2) sample_states_are(3)] sample_states_are(3) by blast

theorem stopped_run_final_witness:
  "act_state (run_actions sample_aborted ! 0) = ActionRunState.Failed
     \<and> (\<exists>e. fst (perform_op (RunOp.BeginCheck (ActionId 0)) sample_aborted) = Inl e)"
proof -
  have "run_actions sample_aborted ! 0 \<in> set (run_actions sample_aborted)" using sample_states_are(6) by simp
  then show ?thesis
    using stopped_run_final [OF sample_reachable(3)] sample_states_are(5) by (simp add: is_stopped_def)
qed

theorem events_page_exact_witness:
  "\<exists>page. events_page 2 sample_finished = Inr page \<and> map (\<lambda>e. unat (re_sequence e)) (page_events page) = [3, 4, 5, 6, 7, 8]
     \<and> \<not> page_gap page"
  using events_page_exact [OF sample_reachable(2), of 2] sample_states_are(4)
  by (auto simp: upt_conv_Cons split: sum.splits)

theorem run_monotone_witness:
  "act_state (run_actions sample_verified ! 0) = ActionRunState.Verified
     \<and> run_actions sample_finished ! 0 = run_actions sample_verified ! 0
     \<and> (\<exists>ob ob'. run_latest_observation sample_verified = Some ob \<and> run_latest_observation sample_finished = Some ob' \<and> not_older ob' ob)"
  using run_monotone [OF sample_reachable(1,4)] sample_states_are(1,2,7) by (auto simp del: comp_apply)

end
