(* ===== verification/Live_Sample.thy ===== *)
theory Live_Sample
  imports Live_Properties Run_Sample
begin

text \<open>
  A sample execution that activates a logical volume, with the checks of its final goal made on
  an observation that knows the same objects under other node identities.
\<close>

definition live_vg :: "Node" where
  "live_vg = \<lparr>node_kind = \<lparr>spec_kind = NodeKind.LvmVg ''vg'' (Some (Bytes 4194304)), spec_size = Some (Bytes 8388608)\<rparr>,
     node_size = default_facts\<lparr>facts_presence := Presence.Present, facts_identities := [ExternalId.LvmVgUuid ''vg-uuid'']\<rparr>\<rparr>"

definition live_block :: BlockFacts where
  "live_block = \<lparr>block_paths = [[RootDir, Normal ''dev'']], block_devno = \<lparr>dev_major = 253, dev_minor = 0\<rparr>,
     block_geometry = Some \<lparr>geo_logical_block_size = BlockSize 512, geo_physical_block_size = None, geo_alignment_offset = None,
       geo_minimum_io_size = None, geo_optimal_io_size = None\<rparr>, block_read_only = Some False\<rparr>"

definition live_lv :: "bool option \<Rightarrow> BlockFacts option \<Rightarrow> Node" where
  "live_lv active block = \<lparr>node_kind = \<lparr>spec_kind = NodeKind.LvmLv \<lparr>lv_name = ''root'', lv_kind = LvmLvKind.Linear\<rparr>, spec_size = Some (Bytes 4194304)\<rparr>,
     node_size = default_facts\<lparr>facts_lvm_active := active, facts_presence := Presence.Present,
       facts_identities := [ExternalId.LvmLvUuid ''lv-uuid''], facts_block := block\<rparr>\<rparr>"

definition live_graph :: "uuid \<Rightarrow> Node \<Rightarrow> NodeGraph" where
  "live_graph base lv = \<lparr>g_nodes = [(NodeId (base + 1), live_vg), (NodeId (base + 3), lv)],
     g_dependencies = [\<lparr>dep_from = NodeId (base + 1), dep_to = NodeId (base + 3), dep_kind = DependencyKind.Provides\<rparr>], g_relations = []\<rparr>"

definition live_state :: "NodeGraph \<Rightarrow> CurrentState" where
  "live_state g = sample_current\<lparr>cur_graph := g\<rparr>"

definition live_baseline :: CurrentState where
  "live_baseline = live_state (live_graph 0 (live_lv (Some False) None))"

definition live_goal :: DesiredState where
  "live_goal = (from_current live_baseline)\<lparr>des_intents := [OperationIntent.SetActivation (NodeId 3) True]\<rparr>"

definition live_action :: PlannedAction where
  "live_action = document_action\<lparr>pa_informational_contract :=
     describe_action (ProviderAction.Lvm (LvmAction.SetActivation (NodeId 3) True)) (cur_graph live_baseline)\<rparr>"

definition live_document :: PlanDocument where
  "live_document = sample_document\<lparr>doc_baseline := \<lparr>hb_id = 6, hb_snapshot = live_baseline, hb_capacity_evidence = []\<rparr>,
     doc_requested_goal := live_goal, doc_protected_scope := \<lparr>ps_nodes = [], ps_runtime_mounts = [], ps_persistent_mounts = []\<rparr>,
     doc_actions := [live_action]\<rparr>"

definition live_observation :: "u64 \<Rightarrow> LiveObservation" where
  "live_observation epoch = \<lparr>lo_reference = \<lparr>or_probe_instance = 3, or_epoch = ProbeEpoch epoch\<rparr>,
     lo_snapshot = live_state (live_graph 10 (live_lv (Some True) (Some live_block)))\<rparr>"

definition live_calls :: "ExecutionContext \<Rightarrow> RunOp list" where
  "live_calls context = [RunOp.BeginCheck (ActionId 0),
     RunOp.RecordAdmission \<lparr>ar_run_id = 9, ar_action = ActionId 0, ar_observation = live_observation 1,
       ar_applicability = LiveCheckStatus.Satisfied, ar_held_resources = ac_affected_resources (pa_informational_contract live_action),
       ar_checks = map satisfied_check (ac_prerequisites (pa_informational_contract live_action))\<rparr>,
     RunOp.MarkDispatchStarted (ActionId 0),
     RunOp.RecordCompletion \<lparr>bc_run_id = 9, bc_action = ActionId 0, bc_outcome = BackendOutcome.Succeeded,
       bc_observation = live_observation 2\<rparr>,
     RunOp.RecordVerification \<lparr>vr_run_id = 9, vr_action = ActionId 0, vr_observation = lo_reference (live_observation 2),
       vr_checks = map satisfied_check (ac_postconditions (pa_informational_contract live_action))\<rparr>,
     RunOp.RecordGoalVerification \<lparr>gv_run_id = 9, gv_observation = live_observation 3,
       gv_checks = projr (check_observed_goal context (live_observation 3) []), gv_preservation = LiveCheckStatus.Satisfied\<rparr>]"

definition live_start :: "(ExecutionRunError fault, ExecutionRun) result" where
  "live_start = execution_run_new sample_keys 9 live_document"

definition live_verdict :: "ExecutionRun \<Rightarrow> bool" where
  "live_verdict start = (case check_observed_goal (run_context start) (live_observation 3) [] of Inl _ \<Rightarrow> False
     | Inr checks \<Rightarrow> let finished = run_calls (live_calls (run_context start)) start in is_verified finished
         \<and> map_option (\<lambda>r. (gv_observation r, gv_checks r)) (run_goal_verification finished) = Some (live_observation 3, checks))"

definition live_works :: bool where
  "live_works = (case live_start of Inl _ \<Rightarrow> False | Inr start \<Rightarrow> live_verdict start)"

lemma live_works_holds: "live_works"
  by code_simp

definition live_begun :: ExecutionRun where
  "live_begun = projr live_start"

definition live_finished :: ExecutionRun where
  "live_finished = run_calls (live_calls (run_context live_begun)) live_begun"

lemma live_begun_new: "execution_run_new sample_keys 9 live_document = Inr live_begun" "live_verdict live_begun"
  using live_works_holds by (auto simp: live_works_def live_begun_def live_start_def split: sum.splits)

lemma live_reachable: "execution.leads_to live_begun live_finished" "reachable_run live_finished"
  unfolding reachable_run_def live_finished_def using run_calls_leads_to live_begun_new(1) by blast+

lemma new_run_document: "execution_run_new keys fresh doc = Inr run \<Longrightarrow> run_document run = doc"
  by (auto simp: execution_run_new_def and_then_Inr_iff)

lemma live_document_kept: "run_document live_finished = live_document" "run_context live_finished = run_context live_begun"
proof -
  have inv: "run_inv live_begun" using new_run_inv [OF live_begun_new(1)] by blast
  have "same_task live_begun live_finished"
  proof (rule execution.leads_to_respects [OF live_reachable(1) inv, of same_task])
    show "same_task u v" if "run_inv u" "perform_op opr u = (Inr x, v)" for u v opr x
      using perform_Inr [OF that] by (rule moves_same_task)
  qed (simp_all add: same_task_def)
  moreover have "run_document live_begun = live_document"
    using live_begun_new(1) by (rule new_run_document)
  ultimately show "run_document live_finished = live_document" "run_context live_finished = run_context live_begun"
    by (simp_all add: same_task_def run_context_def)
qed

lemma live_graph_inv: "graph_inv (live_graph base lv)"
  by (simp add: live_graph_def graph_inv_def)

section \<open>Witnesses\<close>

theorem verified_run_reaches_goal_witness:
  "is_verified live_finished \<and> (\<exists>f. goal_realised f live_goal (lo_snapshot (live_observation 3))
     \<and> bij_betw f {NodeId 1, NodeId 3} {NodeId 11, NodeId 13})"
proof -
  from live_begun_new(2) obtain checks where checks: "check_observed_goal (run_context live_begun) (live_observation 3) [] = Inr checks"
    and verified: "is_verified live_finished"
    and report: "map_option (\<lambda>r. (gv_observation r, gv_checks r)) (run_goal_verification live_finished) = Some (live_observation 3, checks)"
    by (auto simp: live_verdict_def live_finished_def Let_def split: sum.splits)
  obtain r where r: "run_goal_verification live_finished = Some r" "gv_observation r = live_observation 3" "gv_checks r = checks"
    using report by auto
  have inv: "graph_inv (des_graph (doc_requested_goal (run_document live_finished)))" "graph_inv (cur_graph (lo_snapshot (live_observation 3)))"
    by (simp_all add: live_document_kept live_document_def live_goal_def from_current_def live_baseline_def live_state_def live_graph_inv live_observation_def)
  have "goal_realised (counterpart (doc_baseline (run_document live_finished)) (live_observation 3) []) live_goal (lo_snapshot (live_observation 3))"
    using verified_run_reaches_goal [OF live_reachable(2) inv, of "[]"] verified r checks live_document_kept
    by (auto simp: live_document_def)
  then show ?thesis using verified
    by (auto simp: goal_realised_def graph_realised_def live_goal_def from_current_def live_baseline_def live_state_def live_graph_def
        live_observation_def node_ids_def)
qed

definition live_report :: "(ObservationError, ObservedPrerequisites) result" where
  "live_report = check_observed_prerequisites_with_bindings (doc_baseline live_document) (live_observation 3)
     [\<lparr>ce_domain = AllocationDomain.LvmVolumeGroup (NodeId 11), ce_available = AllocationQuantity 1\<rparr>]
     [ActionPrerequisite.CapacityAvailable (AllocationDomain.LvmVolumeGroup (NodeId 1)) (Some (AllocationQuantity 1))] []"

lemma live_report_satisfied: "(case live_report of Inl _ \<Rightarrow> False | Inr r \<Rightarrow> map lc_status (op_checks r) = [LiveCheckStatus.Satisfied])"
  by code_simp

theorem observed_prerequisites_sound_witness:
  "\<exists>report c. live_report = Inr report \<and> op_checks report = [c] \<and> lc_status c = LiveCheckStatus.Satisfied
     \<and> established (doc_baseline live_document) (live_observation 3)
        [\<lparr>ce_domain = AllocationDomain.LvmVolumeGroup (NodeId 11), ce_available = AllocationQuantity 1\<rparr>] [] (lc_condition c)"
proof -
  obtain report c where report: "live_report = Inr report" and c: "op_checks report = [c]" "lc_status c = LiveCheckStatus.Satisfied"
    using live_report_satisfied by (auto split: sum.splits)
  have inv: "graph_inv (cur_graph (lo_snapshot (live_observation 3)))"
    by (simp add: live_observation_def live_state_def live_graph_inv)
  show ?thesis using observed_prerequisites_sound [OF report [unfolded live_report_def] inv] report c by auto
qed

lemma live_correlated: "is_ok (correlate_nodes live_baseline (lo_snapshot (live_observation 3)) [NodeId 3, NodeId 1, NodeId 3])"
  by code_simp

theorem correlation_sound_witness:
  "\<exists>ms. correlate_nodes live_baseline (lo_snapshot (live_observation 3)) [NodeId 3, NodeId 1, NodeId 3] = Inr ms
     \<and> nc_source ` set ms = {NodeId 1, NodeId 3} \<and> distinct (map nc_target ms)"
proof -
  obtain ms where ms: "correlate_nodes live_baseline (lo_snapshot (live_observation 3)) [NodeId 3, NodeId 1, NodeId 3] = Inr ms"
    using live_correlated by (auto simp: is_ok_iff)
  have inv: "graph_inv (cur_graph (lo_snapshot (live_observation 3)))"
    by (simp add: live_observation_def live_state_def live_graph_inv)
  show ?thesis using correlation_sound [OF ms inv] ms by auto
qed

end
