(* ===== verification/Draft_Requests.thy ===== *)
theory Draft_Requests
  imports Compose
begin

text \<open>
  Editable user requests (\<^verbatim>\<open>storage-engine/src/editing/request.rs\<close>, \<^verbatim>\<open>draft.rs\<close>), their translation
  into fragments of actions (\<^verbatim>\<open>lower.rs\<close>) and the independent check that the actions carry out
  the request (\<^verbatim>\<open>coverage.rs\<close>).
\<close>

section \<open>Requests\<close>

datatype PlanRequest =
    CreatePartition NodeId u32 Bytes Bytes "UsageRole option" PartitionAttributes
  | FormatLuks NodeId LuksVersion CredentialRef
  | OpenLuks NodeId string CredentialRef bool
  | CreateLv NodeId string Bytes LvmLvKind bool
  | ResizeLv NodeId Bytes
  | ResizeFilesystem NodeId Bytes
  | DeletePartition NodeId
  | RemoveLv NodeId
  | CloseLuks NodeId
  | CreateFilesystem NodeId FilesystemKind "string option"
  | Mount MountEntry
  | PersistMount MountEntry
  | Unmount PathBuf MountContext
  | RemovePersistentMount PathBuf MountContext
  | SetFilesystemLabel NodeId "string option"
  | Maintenance OperationIntent

definition creates_node :: "PlanRequest \<Rightarrow> bool" where
  "creates_node request = (case request of
      PlanRequest.CreatePartition _ _ _ _ _ _ \<Rightarrow> True | PlanRequest.FormatLuks _ _ _ \<Rightarrow> True
    | PlanRequest.OpenLuks _ _ _ _ \<Rightarrow> True | PlanRequest.CreateLv _ _ _ _ _ \<Rightarrow> True
    | PlanRequest.CreateFilesystem _ _ _ \<Rightarrow> True | _ \<Rightarrow> False)"

definition source_nodes :: "MountSource \<Rightarrow> NodeId list" where
  "source_nodes source = (case source of
      MountSource.Filesystem n \<Rightarrow> [n] | MountSource.BtrfsSubvolume n \<Rightarrow> [n] | MountSource.ZfsDataset n \<Rightarrow> [n] | _ \<Rightarrow> [])"

definition intent_nodes :: "OperationIntent \<Rightarrow> NodeId list" where
  "intent_nodes intent = (case intent of
      OperationIntent.Reformat target _ \<Rightarrow> [target]
    | OperationIntent.Check target _ \<Rightarrow> [target]
    | OperationIntent.Repair target _ \<Rightarrow> [target]
    | OperationIntent.SetActivation target _ \<Rightarrow> [target]
    | OperationIntent.ReplaceMember grp old new \<Rightarrow> [grp, old, new]
    | OperationIntent.ConvertBtrfsProfiles fs _ \<Rightarrow> [fs])"

definition request_nodes :: "PlanRequest \<Rightarrow> NodeId list" where
  "request_nodes request = (case request of
      PlanRequest.CreatePartition table _ _ _ _ _ \<Rightarrow> [table]
    | PlanRequest.CreateLv vg _ _ _ _ \<Rightarrow> [vg]
    | PlanRequest.ResizeLv lv _ \<Rightarrow> [lv]
    | PlanRequest.RemoveLv lv \<Rightarrow> [lv]
    | PlanRequest.DeletePartition part \<Rightarrow> [part]
    | PlanRequest.CloseLuks mapping \<Rightarrow> [mapping]
    | PlanRequest.CreateFilesystem backing _ _ \<Rightarrow> [backing]
    | PlanRequest.FormatLuks backing _ _ \<Rightarrow> [backing]
    | PlanRequest.OpenLuks container _ _ _ \<Rightarrow> [container]
    | PlanRequest.SetFilesystemLabel fs _ \<Rightarrow> [fs]
    | PlanRequest.ResizeFilesystem fs _ \<Rightarrow> [fs]
    | PlanRequest.Mount entry \<Rightarrow> source_nodes (me_source entry)
    | PlanRequest.PersistMount entry \<Rightarrow> source_nodes (me_source entry)
    | PlanRequest.Unmount _ _ \<Rightarrow> []
    | PlanRequest.RemovePersistentMount _ _ \<Rightarrow> []
    | PlanRequest.Maintenance intent \<Rightarrow> intent_nodes intent)"

text \<open>Rebinding of inputs; \<open>mapping\<close> is the map of correlated identities.\<close>

definition remap :: "(NodeId \<rightharpoonup> NodeId) \<Rightarrow> NodeId \<Rightarrow> NodeId" where
  "remap mapping n = (case mapping n of None \<Rightarrow> n | Some target \<Rightarrow> target)"

definition remap_source :: "(NodeId \<rightharpoonup> NodeId) \<Rightarrow> MountSource \<Rightarrow> MountSource" where
  "remap_source mapping source = (case source of
      MountSource.Filesystem n \<Rightarrow> MountSource.Filesystem (remap mapping n)
    | MountSource.BtrfsSubvolume n \<Rightarrow> MountSource.BtrfsSubvolume (remap mapping n)
    | MountSource.ZfsDataset n \<Rightarrow> MountSource.ZfsDataset (remap mapping n)
    | other \<Rightarrow> other)"

definition remap_entry :: "(NodeId \<rightharpoonup> NodeId) \<Rightarrow> MountEntry \<Rightarrow> MountEntry" where
  "remap_entry mapping entry = entry\<lparr>me_source := remap_source mapping (me_source entry)\<rparr>"

definition remap_intent :: "(NodeId \<rightharpoonup> NodeId) \<Rightarrow> OperationIntent \<Rightarrow> OperationIntent" where
  "remap_intent mapping intent = (case intent of
      OperationIntent.Reformat target kind \<Rightarrow> OperationIntent.Reformat (remap mapping target) kind
    | OperationIntent.Check target force \<Rightarrow> OperationIntent.Check (remap mapping target) force
    | OperationIntent.Repair target force \<Rightarrow> OperationIntent.Repair (remap mapping target) force
    | OperationIntent.SetActivation target active \<Rightarrow> OperationIntent.SetActivation (remap mapping target) active
    | OperationIntent.ReplaceMember grp old new \<Rightarrow>
        OperationIntent.ReplaceMember (remap mapping grp) (remap mapping old) (remap mapping new)
    | OperationIntent.ConvertBtrfsProfiles fs allocation \<Rightarrow>
        OperationIntent.ConvertBtrfsProfiles (remap mapping fs) allocation)"

definition remap_nodes :: "(NodeId \<rightharpoonup> NodeId) \<Rightarrow> PlanRequest \<Rightarrow> PlanRequest" where
  "remap_nodes mapping request = (case request of
      PlanRequest.CreatePartition table number offset sz role attributes \<Rightarrow>
        PlanRequest.CreatePartition (remap mapping table) number offset sz role attributes
    | PlanRequest.CreateLv vg name sz layout activate \<Rightarrow> PlanRequest.CreateLv (remap mapping vg) name sz layout activate
    | PlanRequest.ResizeLv lv new_size \<Rightarrow> PlanRequest.ResizeLv (remap mapping lv) new_size
    | PlanRequest.RemoveLv lv \<Rightarrow> PlanRequest.RemoveLv (remap mapping lv)
    | PlanRequest.DeletePartition part \<Rightarrow> PlanRequest.DeletePartition (remap mapping part)
    | PlanRequest.CloseLuks m \<Rightarrow> PlanRequest.CloseLuks (remap mapping m)
    | PlanRequest.CreateFilesystem backing fs label \<Rightarrow> PlanRequest.CreateFilesystem (remap mapping backing) fs label
    | PlanRequest.FormatLuks backing version credential \<Rightarrow> PlanRequest.FormatLuks (remap mapping backing) version credential
    | PlanRequest.OpenLuks container name credential read_only \<Rightarrow>
        PlanRequest.OpenLuks (remap mapping container) name credential read_only
    | PlanRequest.SetFilesystemLabel fs label \<Rightarrow> PlanRequest.SetFilesystemLabel (remap mapping fs) label
    | PlanRequest.ResizeFilesystem fs new_size \<Rightarrow> PlanRequest.ResizeFilesystem (remap mapping fs) new_size
    | PlanRequest.Mount entry \<Rightarrow> PlanRequest.Mount (remap_entry mapping entry)
    | PlanRequest.PersistMount entry \<Rightarrow> PlanRequest.PersistMount (remap_entry mapping entry)
    | PlanRequest.Unmount target ctx \<Rightarrow> PlanRequest.Unmount target ctx
    | PlanRequest.RemovePersistentMount target ctx \<Rightarrow> PlanRequest.RemovePersistentMount target ctx
    | PlanRequest.Maintenance intent \<Rightarrow> PlanRequest.Maintenance (remap_intent mapping intent))"

section \<open>Drafts\<close>

datatype OperationId = OperationId (operation_uuid: uuid)

datatype DraftRevision = DraftRevision (revision_get: u64)

definition revision_next :: "DraftRevision \<Rightarrow> DraftRevision option" where
  "revision_next r = map_option DraftRevision (checked_add (revision_get r) 1)"

record PlanOperation =
  po_id :: OperationId
  po_request :: PlanRequest
  po_created_node :: "NodeId option"

text \<open>The identities that \<^verbatim>\<open>OperationId::new\<close> and \<^verbatim>\<open>NodeId::new\<close> draw are arguments.\<close>

definition plan_operation_new :: "OperationId \<Rightarrow> NodeId \<Rightarrow> PlanRequest \<Rightarrow> PlanOperation" where
  "plan_operation_new fresh fresh_node request = \<lparr>po_id = fresh, po_request = request,
     po_created_node = (if creates_node request then Some fresh_node else None)\<rparr>"

record PlanDraft =
  pd_operations :: "PlanOperation list"
  pd_protected_scope :: ProtectedScope

definition empty_draft :: PlanDraft where
  "empty_draft = \<lparr>pd_operations = [], pd_protected_scope = \<lparr>ps_nodes = [], ps_runtime_mounts = [], ps_persistent_mounts = []\<rparr>\<rparr>"

section \<open>Lowering\<close>

definition draft_diagnostic :: "string \<Rightarrow> string \<Rightarrow> Diagnostic" where
  "draft_diagnostic code message = \<lparr>diag_code = code, diag_severity = DiagnosticSeverity.Error, diag_subjects = [],
     diag_message = message, diag_evidence = None, diag_suggested_remedy = None\<rparr>"

definition lower_fail :: "string \<Rightarrow> string \<Rightarrow> (Diagnostic list, 'a) result" where
  "lower_fail code message = Inl [draft_diagnostic code message]"

text \<open>The actions of a request, what they require of other requests, and their origin.\<close>

type_synonym Recipe = "ProviderAction list \<times> ExternalRequirement list \<times> FragmentOrigin"

definition output_node_or :: "NodeId option \<Rightarrow> string \<Rightarrow> (Diagnostic list, NodeId) result" where
  "output_node_or created message = (case created of Some n \<Rightarrow> Inr n | None \<Rightarrow> lower_fail ''draft.created_node'' message)"

definition lower_request :: "PlanRequest \<Rightarrow> NodeId option \<Rightarrow> nat option \<Rightarrow> (Diagnostic list, Recipe) result" where
  "lower_request request created intent_index = (case request of
      PlanRequest.CreatePartition table number offset sz role attributes \<Rightarrow>
        and_then (output_node_or created ''missing partition output ID'') (\<lambda>node.
        Inr ([ProviderAction.Partition (PartitionAction.Create table node number offset sz role attributes)], [],
          FragmentOrigin.Change node ''create partition at exact byte extent''))
    | PlanRequest.FormatLuks backing version credential \<Rightarrow>
        and_then (output_node_or created ''missing LUKS container output ID'') (\<lambda>node.
        Inr ([ProviderAction.Luks (LuksAction.Format backing node version credential)],
          [\<lparr>er_action = LocalActionId 0, er_prerequisite = ActionPrerequisite.Writable backing\<rparr>],
          FragmentOrigin.Change node ''format LUKS container''))
    | PlanRequest.OpenLuks container name credential read_only \<Rightarrow>
        and_then (output_node_or created ''missing dm-crypt mapping output ID'') (\<lambda>node.
        Inr ([ProviderAction.Luks (LuksAction.Open container node name credential read_only)], [],
          FragmentOrigin.Change node ''open LUKS mapping''))
    | PlanRequest.CreateLv vg name sz layout activate \<Rightarrow>
        if layout \<noteq> LvmLvKind.Linear then lower_fail ''draft.unsupported_layout'' ''only linear LV creation is supported''
        else and_then (output_node_or created ''missing LV output ID'') (\<lambda>node.
        Inr (ProviderAction.Lvm (LvmAction.CreateLv vg node name sz layout)
            # (if activate then [ProviderAction.Lvm (LvmAction.SetActivation node True)] else []), [],
          FragmentOrigin.Change node ''create logical volume''))
    | PlanRequest.CreateFilesystem backing fs label \<Rightarrow>
        if fs \<noteq> FilesystemKind.Ext4 then lower_fail ''draft.unsupported_filesystem'' ''only ext4 creation is supported''
        else and_then (output_node_or created ''missing filesystem output ID'') (\<lambda>node.
        Inr ([ProviderAction.Filesystem (FilesystemAction.Create backing node fs label)],
          [\<lparr>er_action = LocalActionId 0, er_prerequisite = ActionPrerequisite.Writable backing\<rparr>],
          FragmentOrigin.Change node ''create filesystem''))
    | PlanRequest.ResizeLv lv new_size \<Rightarrow>
        Inr ([ProviderAction.Lvm (LvmAction.ResizeLv lv new_size)], [], FragmentOrigin.Change lv ''resize logical volume'')
    | PlanRequest.ResizeFilesystem fs new_size \<Rightarrow>
        Inr ([ProviderAction.Filesystem (FilesystemAction.Resize fs new_size)], [], FragmentOrigin.Change fs ''resize ext filesystem'')
    | PlanRequest.DeletePartition part \<Rightarrow>
        Inr ([ProviderAction.Partition (PartitionAction.Delete part)], [], FragmentOrigin.Change part ''delete selected partition'')
    | PlanRequest.RemoveLv lv \<Rightarrow>
        Inr ([ProviderAction.Lvm (LvmAction.RemoveLv lv)], [], FragmentOrigin.Change lv ''remove selected logical volume'')
    | PlanRequest.CloseLuks mapping \<Rightarrow>
        Inr ([ProviderAction.Luks (LuksAction.Close mapping)], [], FragmentOrigin.Change mapping ''close selected LUKS mapping'')
    | PlanRequest.Mount entry \<Rightarrow>
        Inr ([ProviderAction.Mount (MountAction.Mount (me_source entry) (me_target entry) (me_options entry) (me_context entry))], [],
          FragmentOrigin.Mount (me_target entry) (me_context entry))
    | PlanRequest.PersistMount entry \<Rightarrow>
        Inr ([ProviderAction.Mount (MountAction.Persist entry)], [], FragmentOrigin.Mount (me_target entry) (me_context entry))
    | PlanRequest.Unmount target ctx \<Rightarrow>
        Inr ([ProviderAction.Mount (MountAction.Unmount target ctx)], [], FragmentOrigin.Mount target ctx)
    | PlanRequest.RemovePersistentMount target ctx \<Rightarrow>
        Inr ([ProviderAction.Mount (MountAction.RemovePersistent target ctx)], [], FragmentOrigin.Mount target ctx)
    | PlanRequest.SetFilesystemLabel fs label \<Rightarrow>
        Inr ([ProviderAction.Filesystem (FilesystemAction.SetLabel fs label)], [], FragmentOrigin.Change fs ''set filesystem label'')
    | PlanRequest.Maintenance intent \<Rightarrow> (case intent of
        OperationIntent.Check target force \<Rightarrow> (case intent_index of
            None \<Rightarrow> lower_fail ''draft.intent_index'' ''maintenance request needs an intent index''
          | Some index \<Rightarrow> Inr ([ProviderAction.Filesystem (FilesystemAction.Check target force)], [], FragmentOrigin.Intent index))
      | _ \<Rightarrow> lower_fail ''draft.unsupported_intent'' ''only read-only filesystem Check is supported''))"

definition fragment_of_recipe :: "Recipe \<Rightarrow> PlanFragment" where
  "fragment_of_recipe recipe = (case recipe of (operations, requirements, origin) \<Rightarrow>
     \<lparr>pf_actions = map (\<lambda>(index, operation). \<lparr>fa_id = LocalActionId (of_nat index), fa_operation = operation\<rparr>) (enumerate 0 operations),
      pf_dependencies = (if length operations = 2 then
        [\<lparr>fd_before = LocalActionId 0, fd_after = LocalActionId 1, fd_reason = DependencyReason.RequestedOrder\<rparr>] else []),
      pf_external_requirements = requirements, pf_origin = origin, pf_diagnostics = []\<rparr>)"

definition lower_operation :: "PlanOperation \<Rightarrow> nat option \<Rightarrow> (Diagnostic list, PlanFragment) result" where
  "lower_operation operation intent_index =
     (if creates_node (po_request operation) \<noteq> (po_created_node operation \<noteq> None)
      then lower_fail ''draft.created_node'' ''creating requests require an output ID; other requests must not have one''
      else and_then (lower_request (po_request operation) (po_created_node operation) intent_index) (\<lambda>recipe.
        Inr (fragment_of_recipe recipe)))"

section \<open>Coverage\<close>

record RequestCoverage =
  rc_operation :: OperationId
  rc_covered :: bool
  rc_diagnostics :: "Diagnostic list"

definition covers_request :: "PlanRequest \<Rightarrow> NodeId option \<Rightarrow> ProviderAction list \<Rightarrow> bool" where
  "covers_request request created actions = (case request of
      PlanRequest.CreatePartition table number offset sz role attributes \<Rightarrow> (case actions of
          [ProviderAction.Partition (PartitionAction.Create table' node number' offset' sz' role' attributes')] \<Rightarrow>
            table = table' \<and> created = Some node \<and> number = number' \<and> offset = offset' \<and> sz = sz' \<and> role = role' \<and> attributes = attributes'
        | _ \<Rightarrow> False)
    | PlanRequest.FormatLuks backing version credential \<Rightarrow> (case actions of
          [ProviderAction.Luks (LuksAction.Format target node version' credential')] \<Rightarrow>
            backing = target \<and> created = Some node \<and> version = version' \<and> credential = credential'
        | _ \<Rightarrow> False)
    | PlanRequest.OpenLuks container name credential read_only \<Rightarrow> (case actions of
          [ProviderAction.Luks (LuksAction.Open container' node name' credential' read_only')] \<Rightarrow>
            container = container' \<and> created = Some node \<and> name = name' \<and> credential = credential' \<and> read_only = read_only'
        | _ \<Rightarrow> False)
    | PlanRequest.CreateLv vg name sz layout activate \<Rightarrow> (case actions of
          ProviderAction.Lvm (LvmAction.CreateLv vg' node name' sz' layout') # tail \<Rightarrow>
            layout = LvmLvKind.Linear \<and> vg = vg' \<and> created = Some node \<and> name = name' \<and> sz = sz' \<and> layout = layout'
            \<and> (if activate then tail = [ProviderAction.Lvm (LvmAction.SetActivation node True)] else tail = [])
        | _ \<Rightarrow> False)
    | PlanRequest.CreateFilesystem backing fs label \<Rightarrow> (case actions of
          [ProviderAction.Filesystem (FilesystemAction.Create backing' node fs' label')] \<Rightarrow>
            fs = FilesystemKind.Ext4 \<and> backing = backing' \<and> created = Some node \<and> fs = fs' \<and> label = label'
        | _ \<Rightarrow> False)
    | PlanRequest.ResizeLv lv new_size \<Rightarrow> actions = [ProviderAction.Lvm (LvmAction.ResizeLv lv new_size)]
    | PlanRequest.ResizeFilesystem fs new_size \<Rightarrow> actions = [ProviderAction.Filesystem (FilesystemAction.Resize fs new_size)]
    | PlanRequest.DeletePartition part \<Rightarrow> actions = [ProviderAction.Partition (PartitionAction.Delete part)]
    | PlanRequest.RemoveLv lv \<Rightarrow> actions = [ProviderAction.Lvm (LvmAction.RemoveLv lv)]
    | PlanRequest.CloseLuks mapping \<Rightarrow> actions = [ProviderAction.Luks (LuksAction.Close mapping)]
    | PlanRequest.Mount entry \<Rightarrow> actions = [ProviderAction.Mount
        (MountAction.Mount (me_source entry) (me_target entry) (me_options entry) (me_context entry))]
    | PlanRequest.PersistMount entry \<Rightarrow> actions = [ProviderAction.Mount (MountAction.Persist entry)]
    | PlanRequest.Unmount target ctx \<Rightarrow> actions = [ProviderAction.Mount (MountAction.Unmount target ctx)]
    | PlanRequest.RemovePersistentMount target ctx \<Rightarrow> actions = [ProviderAction.Mount (MountAction.RemovePersistent target ctx)]
    | PlanRequest.SetFilesystemLabel fs label \<Rightarrow> actions = [ProviderAction.Filesystem (FilesystemAction.SetLabel fs label)]
    | PlanRequest.Maintenance intent \<Rightarrow> (case (intent, actions) of
          (OperationIntent.Check _ _, [ProviderAction.Filesystem (FilesystemAction.Check _ _)]) \<Rightarrow> actions_cover_intent intent actions
        | _ \<Rightarrow> False))"

definition request_coverage :: "PlanOperation \<Rightarrow> ProviderAction list \<Rightarrow> RequestCoverage" where
  "request_coverage operation actions =
     (let covered = covers_request (po_request operation) (po_created_node operation) actions in
      \<lparr>rc_operation = po_id operation, rc_covered = covered,
       rc_diagnostics = (if covered then [] else [draft_diagnostic ''draft.request_uncovered''
         ''generated actions do not exactly implement the supported request recipe''])\<rparr>)"

section \<open>Every lowered request is covered\<close>

lemma output_node_or_Inr: "output_node_or created message = Inr n \<longleftrightarrow> created = Some n"
  by (cases created) (simp_all add: output_node_or_def lower_fail_def)

lemma lower_request_covers:
  assumes "lower_request request created index = Inr (operations, requirements, origin)"
  shows "covers_request request created operations"
  using assms
proof (cases request)
  case (Maintenance intent)
  then show ?thesis using assms
    by (cases intent) (auto simp: lower_request_def covers_request_def lower_fail_def actions_cover_intent_def split: option.splits)
qed (auto simp: lower_request_def covers_request_def lower_fail_def and_then_Inr_iff output_node_or_Inr
      split: if_splits)

lemma lower_operation_covers:
  assumes "lower_operation operation index = Inr fragment"
  shows "rc_covered (request_coverage operation (map fa_operation (pf_actions fragment)))"
proof -
  from assms obtain operations requirements origin where
    r: "lower_request (po_request operation) (po_created_node operation) index = Inr (operations, requirements, origin)"
    and f: "fragment = fragment_of_recipe (operations, requirements, origin)"
    by (auto simp: lower_operation_def lower_fail_def and_then_Inr_iff split: if_splits)
  have "map fa_operation (pf_actions fragment) = operations"
    by (simp add: f fragment_of_recipe_def comp_def case_prod_unfold)
  then show ?thesis using lower_request_covers [OF r] by (simp add: request_coverage_def Let_def)
qed

end
