(* ===== verification/Draft_Build.thy ===== *)
theory Draft_Build
  imports Draft_Requests Plan_Document
begin

text \<open>
  From a draft to its forecast (\<^verbatim>\<open>storage-engine/src/editing/build.rs\<close>, \<^verbatim>\<open>preview.rs\<close>): validation of
  identities and references, lowering, composition in the order of the user, analysis, and the
  status of the result. The texts that the interface shows for a failed build are not modelled.
\<close>

record OperationActions =
  oa_operation :: OperationId
  oa_fragments :: "FragmentId list"
  oa_actions :: "ActionId list"

record OperationDiagnostic =
  od_operation :: "OperationId option"
  od_diagnostic :: Diagnostic
  od_checks :: "PrerequisiteCheck list"

record PlanPreview =
  pv_plan :: ExecutionPlan
  pv_report :: SimulationReport
  pv_source_map :: "OperationActions list"
  pv_request_coverage :: "RequestCoverage list"
  pv_diagnostics :: "OperationDiagnostic list"

datatype DraftBuildError =
    Draft "OperationDiagnostic list"
  | Composition CompositionError "OperationActions list"
  | Simulation PlanSimulationError "OperationActions list"

section \<open>Validation\<close>

definition draft_issue :: "OperationId option \<Rightarrow> string \<Rightarrow> string \<Rightarrow> OperationDiagnostic" where
  "draft_issue operation code message = \<lparr>od_operation = operation, od_diagnostic = draft_diagnostic code message, od_checks = []\<rparr>"

text \<open>The identities seen so far: operations, and outputs that are acceptable.\<close>

type_synonym DraftIdentities = "OperationId set \<times> NodeId set"

definition operation_issues :: "HistoricalBaseline \<Rightarrow> DraftIdentities \<Rightarrow> PlanOperation \<Rightarrow> OperationDiagnostic list" where
  "operation_issues baseline seen operation = (case seen of (operations, outputs) \<Rightarrow>
     (if uuid_is_nil (operation_uuid (po_id operation)) \<or> po_id operation \<in> operations
      then [draft_issue (Some (po_id operation)) ''draft.operation_identity'' ''operation identities must be non-nil and unique''] else [])
     @ (if creates_node (po_request operation) \<noteq> (po_created_node operation \<noteq> None)
        then [draft_issue (Some (po_id operation)) ''draft.created_node'' ''output identity does not match the request kind''] else [])
     @ (case po_created_node operation of
          Some node \<Rightarrow> if uuid_is_nil (as_uuid node) \<or> graph_node (cur_graph (hb_snapshot baseline)) node \<noteq> None \<or> node \<in> outputs
            then [draft_issue (Some (po_id operation)) ''draft.output_identity'' ''planned nodes must be non-nil, unique, and absent from the baseline''] else []
        | None \<Rightarrow> []))"

definition note_operation :: "HistoricalBaseline \<Rightarrow> PlanOperation \<Rightarrow> DraftIdentities \<Rightarrow> DraftIdentities" where
  "note_operation baseline operation seen = (case seen of (operations, outputs) \<Rightarrow>
     (if uuid_is_nil (operation_uuid (po_id operation)) then operations else insert (po_id operation) operations,
      case po_created_node operation of
        Some node \<Rightarrow> if uuid_is_nil (as_uuid node) \<or> graph_node (cur_graph (hb_snapshot baseline)) node \<noteq> None then outputs else insert node outputs
      | None \<Rightarrow> outputs))"

fun identity_issues :: "HistoricalBaseline \<Rightarrow> DraftIdentities \<Rightarrow> PlanOperation list \<Rightarrow> OperationDiagnostic list" where
  "identity_issues baseline seen [] = []"
| "identity_issues baseline seen (operation # rest) =
     operation_issues baseline seen operation @ identity_issues baseline (note_operation baseline operation seen) rest"

definition input_issues :: "HistoricalBaseline \<Rightarrow> NodeId set \<Rightarrow> PlanOperation \<Rightarrow> OperationDiagnostic list" where
  "input_issues baseline outputs operation = concat (map (\<lambda>node.
     if graph_node (cur_graph (hb_snapshot baseline)) node = None \<and> node \<notin> outputs
     then [draft_issue (Some (po_id operation)) ''draft.unresolved_input'' ''request input is absent from the baseline and draft outputs''] else [])
     (request_nodes (po_request operation)))"

definition validate_draft :: "HistoricalBaseline \<Rightarrow> PlanDraft \<Rightarrow> (DraftBuildError, unit) result" where
  "validate_draft baseline draft =
     (let outputs = snd (fold (note_operation baseline) (pd_operations draft) ({}, {}));
          diagnostics = (if uuid_is_nil (hb_id baseline)
              then [draft_issue None ''draft.baseline_identity'' ''baseline identity must not be nil''] else [])
            @ identity_issues baseline ({}, {}) (pd_operations draft)
            @ concat (map (input_issues baseline outputs) (pd_operations draft)) in
      if diagnostics = [] then Inr () else Inl (DraftBuildError.Draft diagnostics))"

section \<open>Composition\<close>

text \<open>The actions of a fragment that nothing in it precedes, and those that nothing in it follows.\<close>

definition fragment_roots :: "nat \<times> PlanFragment \<Rightarrow> FragmentActionRef list" where
  "fragment_roots p = (case p of (index, fragment) \<Rightarrow>
     map (\<lambda>action. \<lparr>far_fragment = FragmentId (of_nat index), far_action = fa_id action\<rparr>)
       (filter (\<lambda>action. \<not> list_ex (\<lambda>d. fd_after d = fa_id action) (pf_dependencies fragment)) (pf_actions fragment)))"

definition fragment_sinks :: "nat \<times> PlanFragment \<Rightarrow> FragmentActionRef list" where
  "fragment_sinks p = (case p of (index, fragment) \<Rightarrow>
     map (\<lambda>action. \<lparr>far_fragment = FragmentId (of_nat index), far_action = fa_id action\<rparr>)
       (filter (\<lambda>action. \<not> list_ex (\<lambda>d. fd_before d = fa_id action) (pf_dependencies fragment)) (pf_actions fragment)))"

text \<open>The explicit order of the user: each request after the previous one that has actions.\<close>

fun requested_order :: "FragmentActionRef list \<Rightarrow> (nat \<times> PlanFragment) list \<Rightarrow> FragmentOrdering list" where
  "requested_order sinks [] = []"
| "requested_order sinks (p # rest) =
     (if pf_actions (snd p) = [] then requested_order sinks rest
      else concat (map (\<lambda>before. map (\<lambda>after. \<lparr>fo_before = before, fo_after = after, fo_reason = DependencyReason.RequestedOrder\<rparr>)
             (fragment_roots p)) sinks)
        @ requested_order (fragment_sinks p) rest)"

definition own_actions :: "IdMap \<Rightarrow> nat \<Rightarrow> PlanFragment \<Rightarrow> (DraftBuildError fault, ActionId list) result" where
  "own_actions ids index fragment = ok_or (those (map (\<lambda>action. ids (index, fa_id action)) (pf_actions fragment))) Panic"

definition map_operation ::
  "IdMap \<Rightarrow> OperationActions list \<Rightarrow> nat \<times> PlanOperation \<times> PlanFragment \<Rightarrow> (DraftBuildError fault, OperationActions list) result" where
  "map_operation ids source_map p = (case p of (index, operation, fragment) \<Rightarrow>
     and_then (own_actions ids index fragment) (\<lambda>actions.
     Inr (source_map @ [\<lparr>oa_operation = po_id operation, oa_fragments = [FragmentId (of_nat index)], oa_actions = actions\<rparr>])))"

definition cover_operation ::
  "ExecutionPlan \<Rightarrow> RequestCoverage list \<Rightarrow> PlanOperation \<times> OperationActions \<Rightarrow> (DraftBuildError fault, RequestCoverage list) result" where
  "cover_operation plan coverage p = (case p of (operation, mapping) \<Rightarrow>
     and_then (ok_or (those (map (\<lambda>i. map_option pa_operation (nth_opt (plan_actions plan) (action_index i))) (oa_actions mapping))) Panic) (\<lambda>actions.
     Inr (coverage @ [request_coverage operation actions])))"

definition lowering_diagnostics :: "PlanOperation \<times> PlanFragment \<Rightarrow> OperationDiagnostic list" where
  "lowering_diagnostics p = (case p of (operation, fragment) \<Rightarrow>
     map (\<lambda>d. \<lparr>od_operation = Some (po_id operation), od_diagnostic = d, od_checks = []\<rparr>) (pf_diagnostics fragment))"

definition build_fragments ::
  "ContractKeys \<Rightarrow> HistoricalBaseline \<Rightarrow> PlanDraft \<Rightarrow> PlanFragment list \<Rightarrow> OperationIntent list \<Rightarrow>
   (DraftBuildError fault, PlanPreview) result" where
  "build_fragments keys baseline draft fragments intents =
     and_then (map_err (map_fault (\<lambda>e. DraftBuildError.Composition e [])) (fragment_action_ids fragments)) (\<lambda>ids.
     and_then (try_fold (map_operation ids) [] (enumerate 0 (zip (pd_operations draft) fragments))) (\<lambda>source_map.
     and_then (map_err (map_fault (\<lambda>e. DraftBuildError.Composition e source_map))
       (compose_plan_with_ordering (hb_snapshot baseline) fragments (requested_order [] (enumerate 0 fragments)) (hb_capacity_evidence baseline))) (\<lambda>plan.
     and_then (map_err (map_fault (\<lambda>e. DraftBuildError.Simulation e source_map))
       (analyse_plan keys (hb_snapshot baseline) plan intents (hb_capacity_evidence baseline) (pd_protected_scope draft))) (\<lambda>report.
     and_then (try_fold (cover_operation plan) [] (zip (pd_operations draft) source_map)) (\<lambda>coverage.
       Inr \<lparr>pv_plan = plan, pv_report = report, pv_source_map = source_map, pv_request_coverage = coverage,
         pv_diagnostics = concat (map lowering_diagnostics (zip (pd_operations draft) fragments))\<rparr>)))))"

definition lower_next ::
  "OperationIntent list \<times> PlanFragment list \<Rightarrow> PlanOperation \<Rightarrow> (DraftBuildError fault, OperationIntent list \<times> PlanFragment list) result" where
  "lower_next st operation = (case st of (intents, fragments) \<Rightarrow>
     let (intents', index) = (case po_request operation of
           PlanRequest.Maintenance intent \<Rightarrow> (intents @ [intent], Some (length intents)) | _ \<Rightarrow> (intents, None)) in
     and_then (map_err (\<lambda>errors. fault.Failed (DraftBuildError.Draft
         (map (\<lambda>d. \<lparr>od_operation = Some (po_id operation), od_diagnostic = d, od_checks = []\<rparr>) errors))) (lower_operation operation index)) (\<lambda>fragment.
     Inr (intents', fragments @ [fragment])))"

definition build_preview :: "ContractKeys \<Rightarrow> HistoricalBaseline \<Rightarrow> PlanDraft \<Rightarrow> (DraftBuildError fault, PlanPreview) result" where
  "build_preview keys baseline draft =
     and_then (map_err fault.Failed (validate_draft baseline draft)) (\<lambda>_.
     and_then (try_fold lower_next ([], []) (pd_operations draft)) (\<lambda>(intents, fragments).
       build_fragments keys baseline draft fragments intents))"

section \<open>Previews\<close>

datatype PreviewStatus = Invalid | Blocked | Conditional | Complete

datatype PreviewState = Calculated PlanPreview | Invalid DraftBuildError

definition preview_status :: "PlanPreview \<Rightarrow> PreviewStatus" where
  "preview_status preview =
     (if rep_protection_violations (pv_report preview) \<noteq> []
         \<or> list_ex (\<lambda>c. \<not> rc_covered c) (pv_request_coverage preview)
         \<or> list_ex (\<lambda>c. \<not> ic_covered c) (rep_intent_coverage (pv_report preview))
         \<or> list_ex is_goal_violation (rep_goal_checks (pv_report preview))
         \<or> list_ex (\<lambda>d. diag_severity (od_diagnostic d) = DiagnosticSeverity.Error) (pv_diagnostics preview)
      then PreviewStatus.Blocked
      else if is_complete (pv_report preview) then PreviewStatus.Complete else PreviewStatus.Conditional)"

definition state_status :: "PreviewState \<Rightarrow> PreviewStatus" where
  "state_status st = (case st of PreviewState.Calculated preview \<Rightarrow> preview_status preview | PreviewState.Invalid _ \<Rightarrow> PreviewStatus.Invalid)"

definition calculated :: "PreviewState \<Rightarrow> PlanPreview option" where
  "calculated st = (case st of PreviewState.Calculated preview \<Rightarrow> Some preview | PreviewState.Invalid _ \<Rightarrow> None)"

definition is_internal :: "DraftBuildError \<Rightarrow> bool" where
  "is_internal e = (case e of
      DraftBuildError.Composition source _ \<Rightarrow> (case source of
          CompositionError.MissingRequirementCheck _ \<Rightarrow> True | CompositionError.MissingAnalysedContract _ \<Rightarrow> True
        | CompositionError.RequirementNotInContract _ \<Rightarrow> True | CompositionError.UnknownLocalDependency _ \<Rightarrow> True
        | CompositionError.UnknownRequirementAction _ _ \<Rightarrow> True | CompositionError.DuplicateLocalAction _ _ \<Rightarrow> True
        | CompositionError.UnknownOrderingAction _ \<Rightarrow> True | _ \<Rightarrow> False)
    | DraftBuildError.Simulation source _ \<Rightarrow> (case source of
          PlanSimulationError.ContractMismatch _ \<Rightarrow> True | PlanSimulationError.UnknownIntentOrigin _ _ \<Rightarrow> True | _ \<Rightarrow> False)
    | DraftBuildError.Draft _ \<Rightarrow> False)"

end
