(* ===== verification/Plan_Session.thy ===== *)
theory Plan_Session
  imports Draft_Build Correlate
begin

text \<open>
  Editing sessions (\<^verbatim>\<open>storage-engine/src/editing/session.rs\<close>), saved drafts and frozen plans
  (\<^verbatim>\<open>document.rs\<close>) and the translation of a draft to a new observation (\<^verbatim>\<open>rebase.rs\<close>). Methods that
  take \<^verbatim>\<open>&mut self\<close> return their result with the session they leave behind. Fresh identities and
  the size of a document in JSON are arguments.
\<close>

section \<open>Data\<close>

datatype PlanEdit =
    Add PlanRequest
  | Replace OperationId PlanRequest
  | Remove "OperationId list"
  | MoveBefore OperationId "OperationId option"
  | SetProtection ProtectedScope
  | Clear

record EditReceipt =
  rcp_revision :: DraftRevision
  rcp_added_operation :: "OperationId option"
  rcp_created_node :: "NodeId option"

datatype EditError =
    RevisionConflict DraftRevision DraftRevision
  | UnknownOperation OperationId
  | RequestKindChange OperationId
  | NotCreatedLv OperationId
  | NotCreatedPartition OperationId
  | NotResize OperationId
  | DependentOperations "OperationId list"
  | NoUndo
  | NoRedo
  | RevisionExhausted
  | OperationLimit
  | InternalBuild DraftBuildError

record PlanSession =
  ses_id :: uuid
  ses_revision :: DraftRevision
  ses_baseline :: HistoricalBaseline
  ses_draft :: PlanDraft
  ses_preview :: PreviewState
  ses_history_limit :: nat
  ses_undo :: "PlanDraft list"
  ses_redo :: "PlanDraft list"

definition DEFAULT_HISTORY_LIMIT :: nat where
  "DEFAULT_HISTORY_LIMIT = 64"

definition MAX_DRAFT_OPERATIONS :: nat where
  "MAX_DRAFT_OPERATIONS = 256"

definition MAX_DRAFT_JSON_BYTES :: nat where
  "MAX_DRAFT_JSON_BYTES = 1024 * 1024"

definition DRAFT_SCHEMA_VERSION :: u32 where
  "DRAFT_SCHEMA_VERSION = 5"

text \<open>A result of a build becomes a state of the preview; a panic stays one.\<close>

definition preview_of :: "(DraftBuildError fault, PlanPreview) result \<Rightarrow> (DraftBuildError fault, PreviewState) result" where
  "preview_of r = (case r of
      Inr preview \<Rightarrow> Inr (PreviewState.Calculated preview)
    | Inl (fault.Failed e) \<Rightarrow> if is_internal e then Inl (fault.Failed e) else Inr (PreviewState.Invalid e)
    | Inl f \<Rightarrow> Inl f)"

definition session_new ::
  "ContractKeys \<Rightarrow> uuid \<Rightarrow> HistoricalBaseline \<Rightarrow> (DraftBuildError fault, PlanSession) result" where
  "session_new keys fresh baseline =
     and_then (build_preview keys baseline empty_draft) (\<lambda>preview.
     Inr \<lparr>ses_id = fresh, ses_revision = DraftRevision 0, ses_baseline = baseline, ses_draft = empty_draft,
       ses_preview = PreviewState.Calculated preview, ses_history_limit = DEFAULT_HISTORY_LIMIT, ses_undo = [], ses_redo = []\<rparr>)"

section \<open>Edits of a draft\<close>

fun position :: "('a \<Rightarrow> bool) \<Rightarrow> 'a list \<Rightarrow> nat option" where
  "position P [] = None"
| "position P (x # xs) = (if P x then Some 0 else map_option Suc (position P xs))"

definition operation_index :: "PlanOperation list \<Rightarrow> OperationId \<Rightarrow> (EditError, nat) result" where
  "operation_index operations i = ok_or (position (\<lambda>operation. po_id operation = i) operations) (EditError.UnknownOperation i)"

definition request_discriminant :: "PlanRequest \<Rightarrow> nat" where
  "request_discriminant request = (case request of
      PlanRequest.CreatePartition _ _ _ _ _ _ \<Rightarrow> 0 | PlanRequest.FormatLuks _ _ _ \<Rightarrow> 1 | PlanRequest.OpenLuks _ _ _ _ \<Rightarrow> 2
    | PlanRequest.CreateLv _ _ _ _ _ \<Rightarrow> 3 | PlanRequest.ResizeLv _ _ \<Rightarrow> 4 | PlanRequest.ResizeFilesystem _ _ \<Rightarrow> 5
    | PlanRequest.DeletePartition _ \<Rightarrow> 6 | PlanRequest.RemoveLv _ \<Rightarrow> 7 | PlanRequest.CloseLuks _ \<Rightarrow> 8
    | PlanRequest.CreateFilesystem _ _ _ \<Rightarrow> 9 | PlanRequest.Mount _ \<Rightarrow> 10 | PlanRequest.PersistMount _ \<Rightarrow> 11
    | PlanRequest.Unmount _ _ \<Rightarrow> 12 | PlanRequest.RemovePersistentMount _ _ \<Rightarrow> 13 | PlanRequest.SetFilesystemLabel _ _ \<Rightarrow> 14
    | PlanRequest.Maintenance _ \<Rightarrow> 15)"

definition intent_discriminant :: "OperationIntent \<Rightarrow> nat" where
  "intent_discriminant intent = (case intent of
      OperationIntent.Reformat _ _ \<Rightarrow> 0 | OperationIntent.ReplaceMember _ _ _ \<Rightarrow> 1 | OperationIntent.ConvertBtrfsProfiles _ _ \<Rightarrow> 2
    | OperationIntent.Check _ _ \<Rightarrow> 3 | OperationIntent.Repair _ _ \<Rightarrow> 4 | OperationIntent.SetActivation _ _ \<Rightarrow> 5)"

definition same_kind :: "PlanRequest \<Rightarrow> PlanRequest \<Rightarrow> bool" where
  "same_kind previous request = (request_discriminant previous = request_discriminant request
     \<and> (case (previous, request) of
          (PlanRequest.Maintenance left, PlanRequest.Maintenance right) \<Rightarrow> intent_discriminant left = intent_discriminant right
        | _ \<Rightarrow> True))"

text \<open>The requests whose inputs cease to exist with the affected ones: one pass, and all passes.\<close>

definition impact_pass :: "PlanOperation list \<Rightarrow> OperationId set \<Rightarrow> OperationId set" where
  "impact_pass operations affected =
     (let outputs = set (List.map_filter po_created_node (filter (\<lambda>operation. po_id operation \<in> affected) operations)) in
      affected \<union> set (map po_id (filter (\<lambda>operation. list_ex (\<lambda>node. node \<in> outputs) (request_nodes (po_request operation))) operations)))"

lemma impact_pass_grows: "affected \<subseteq> impact_pass operations affected" "impact_pass operations affected \<subseteq> affected \<union> po_id ` set operations"
  by (auto simp: impact_pass_def Let_def)

function impact_loop :: "PlanOperation list \<Rightarrow> OperationId set \<Rightarrow> OperationId set" where
  "impact_loop operations affected =
     (if impact_pass operations affected = affected then affected else impact_loop operations (impact_pass operations affected))"
  by pat_completeness auto

termination
proof (relation "measure (\<lambda>(operations, affected). card (po_id ` set operations - affected))")
  fix operations :: "PlanOperation list" and affected
  assume "impact_pass operations affected \<noteq> affected"
  then obtain i where "i \<in> impact_pass operations affected" "i \<notin> affected" using impact_pass_grows(1) by blast
  then have "po_id ` set operations - impact_pass operations affected \<subset> po_id ` set operations - affected"
    using impact_pass_grows [where affected = affected and operations = operations] by blast
  then show "((operations, impact_pass operations affected), operations, affected)
      \<in> measure (\<lambda>(operations, affected). card (po_id ` set operations - affected))"
    by (simp add: psubset_card_mono)
qed simp

declare impact_loop.simps [simp del]

definition removal_impact :: "PlanOperation list \<Rightarrow> OperationId list \<Rightarrow> (EditError, OperationId list) result" where
  "removal_impact draft operations =
     and_then (try_fold (\<lambda>_ operation. and_then (operation_index draft operation) (\<lambda>_. Inr ())) () operations) (\<lambda>_.
     Inr (filter (\<lambda>i. i \<in> impact_loop draft (set operations)) (map po_id draft)))"

definition remove_operations :: "PlanOperation list \<Rightarrow> OperationId list \<Rightarrow> (EditError, PlanOperation list) result" where
  "remove_operations draft operations =
     and_then (removal_impact draft operations) (\<lambda>affected.
     let missing = filter (\<lambda>i. i \<notin> set operations) affected in
     if missing \<noteq> [] then Inl (EditError.DependentOperations missing)
     else Inr (filter (\<lambda>operation. po_id operation \<notin> set operations) draft))"

definition remove_at :: "nat \<Rightarrow> 'a list \<Rightarrow> 'a list" where
  "remove_at i xs = take i xs @ drop (Suc i) xs"

definition insert_at :: "nat \<Rightarrow> 'a \<Rightarrow> 'a list \<Rightarrow> 'a list" where
  "insert_at i x xs = take i xs @ x # drop i xs"

definition move_before :: "PlanOperation list \<Rightarrow> OperationId \<Rightarrow> OperationId option \<Rightarrow> (EditError, PlanOperation list) result" where
  "move_before draft operation before =
     and_then (operation_index draft operation) (\<lambda>index.
     and_then (case before of None \<Rightarrow> Inr () | Some other \<Rightarrow> and_then (operation_index draft other) (\<lambda>_. Inr ())) (\<lambda>_.
     if before = Some operation then Inr draft
     else (let moved = draft ! index; rest = remove_at index draft in
       and_then (case before of Some other \<Rightarrow> operation_index rest other | None \<Rightarrow> Inr (length rest)) (\<lambda>target.
       Inr (insert_at target moved rest)))))"

text \<open>The draft after an edit, with the identities that an addition allocates.\<close>

definition apply_edit ::
  "OperationId \<Rightarrow> NodeId \<Rightarrow> PlanEdit \<Rightarrow> PlanDraft \<Rightarrow> (EditError, PlanDraft \<times> OperationId option \<times> NodeId option) result" where
  "apply_edit fresh fresh_node edit draft = (case edit of
      PlanEdit.Add request \<Rightarrow>
        if MAX_DRAFT_OPERATIONS \<le> length (pd_operations draft) then Inl EditError.OperationLimit
        else (let operation = plan_operation_new fresh fresh_node request in
          Inr (draft\<lparr>pd_operations := pd_operations draft @ [operation]\<rparr>, Some (po_id operation), po_created_node operation))
    | PlanEdit.Replace operation request \<Rightarrow>
        and_then (operation_index (pd_operations draft) operation) (\<lambda>index.
        if \<not> same_kind (po_request (pd_operations draft ! index)) request then Inl (EditError.RequestKindChange operation)
        else Inr (draft\<lparr>pd_operations := (pd_operations draft)[index := (pd_operations draft ! index)\<lparr>po_request := request\<rparr>]\<rparr>, None, None))
    | PlanEdit.Remove operations \<Rightarrow>
        and_then (remove_operations (pd_operations draft) operations) (\<lambda>rest. Inr (draft\<lparr>pd_operations := rest\<rparr>, None, None))
    | PlanEdit.MoveBefore operation before \<Rightarrow>
        and_then (move_before (pd_operations draft) operation before) (\<lambda>rest. Inr (draft\<lparr>pd_operations := rest\<rparr>, None, None))
    | PlanEdit.SetProtection protected \<Rightarrow> Inr (draft\<lparr>pd_protected_scope := protected\<rparr>, None, None)
    | PlanEdit.Clear \<Rightarrow> Inr (draft\<lparr>pd_operations := []\<rparr>, None, None))"

section \<open>Methods of a session\<close>

definition check_revision :: "PlanSession \<Rightarrow> DraftRevision \<Rightarrow> (EditError, DraftRevision) result" where
  "check_revision s expected =
     (if expected \<noteq> ses_revision s then Inl (EditError.RevisionConflict expected (ses_revision s))
      else ok_or (revision_next (ses_revision s)) EditError.RevisionExhausted)"

definition build_candidate :: "ContractKeys \<Rightarrow> PlanSession \<Rightarrow> PlanDraft \<Rightarrow> (EditError fault, PreviewState) result" where
  "build_candidate keys s candidate =
     map_err (map_fault EditError.InternalBuild) (preview_of (build_preview keys (ses_baseline s) candidate))"

definition push_history :: "PlanDraft list \<Rightarrow> PlanDraft \<Rightarrow> nat \<Rightarrow> PlanDraft list" where
  "push_history history draft limit =
     (if limit = 0 then history
      else (if limit \<le> length history then tl history else history) @ [draft])"

text \<open>A method that computes a new session or fails and leaves it.\<close>

definition publishing :: "('e, 'r \<times> PlanSession) result \<Rightarrow> PlanSession \<Rightarrow> ('e, 'r) result \<times> PlanSession" where
  "publishing r s = (case r of Inl e \<Rightarrow> (Inl e, s) | Inr (x, s') \<Rightarrow> (Inr x, s'))"

definition session_edit ::
  "ContractKeys \<Rightarrow> OperationId \<Rightarrow> NodeId \<Rightarrow> DraftRevision \<Rightarrow> PlanEdit \<Rightarrow> PlanSession \<Rightarrow> (EditError fault, EditReceipt) result \<times> PlanSession" where
  "session_edit keys fresh fresh_node expected edit s = publishing
     (and_then (map_err fault.Failed (check_revision s expected)) (\<lambda>revision.
      and_then (map_err fault.Failed (apply_edit fresh fresh_node edit (ses_draft s))) (\<lambda>(candidate, added, created).
      and_then (build_candidate keys s candidate) (\<lambda>preview.
        Inr (\<lparr>rcp_revision = revision, rcp_added_operation = added, rcp_created_node = created\<rparr>,
          s\<lparr>ses_undo := push_history (ses_undo s) (ses_draft s) (ses_history_limit s), ses_draft := candidate,
            ses_redo := [], ses_preview := preview, ses_revision := revision\<rparr>))))) s"

definition session_undo :: "ContractKeys \<Rightarrow> DraftRevision \<Rightarrow> PlanSession \<Rightarrow> (EditError fault, DraftRevision) result \<times> PlanSession" where
  "session_undo keys expected s = publishing
     (and_then (map_err fault.Failed (check_revision s expected)) (\<lambda>revision.
      and_then (ok_or (if ses_undo s = [] then None else Some (last (ses_undo s))) (fault.Failed EditError.NoUndo)) (\<lambda>candidate.
      and_then (build_candidate keys s candidate) (\<lambda>preview.
        Inr (revision, s\<lparr>ses_undo := butlast (ses_undo s),
            ses_redo := push_history (ses_redo s) (ses_draft s) (ses_history_limit s), ses_draft := candidate,
            ses_preview := preview, ses_revision := revision\<rparr>))))) s"

definition session_redo :: "ContractKeys \<Rightarrow> DraftRevision \<Rightarrow> PlanSession \<Rightarrow> (EditError fault, DraftRevision) result \<times> PlanSession" where
  "session_redo keys expected s = publishing
     (and_then (map_err fault.Failed (check_revision s expected)) (\<lambda>revision.
      and_then (ok_or (if ses_redo s = [] then None else Some (last (ses_redo s))) (fault.Failed EditError.NoRedo)) (\<lambda>candidate.
      and_then (build_candidate keys s candidate) (\<lambda>preview.
        Inr (revision, s\<lparr>ses_redo := butlast (ses_redo s),
            ses_undo := push_history (ses_undo s) (ses_draft s) (ses_history_limit s), ses_draft := candidate,
            ses_preview := preview, ses_revision := revision\<rparr>))))) s"

definition set_history_limit :: "nat \<Rightarrow> PlanSession \<Rightarrow> PlanSession" where
  "set_history_limit limit s = s\<lparr>ses_history_limit := limit,
     ses_undo := drop (length (ses_undo s) - limit) (ses_undo s), ses_redo := drop (length (ses_redo s) - limit) (ses_redo s)\<rparr>"

definition session_removal_impact :: "PlanSession \<Rightarrow> OperationId \<Rightarrow> (EditError, OperationId list) result" where
  "session_removal_impact s operation = removal_impact (pd_operations (ses_draft s)) [operation]"

text \<open>Additions of common requests.\<close>

definition add_lv ::
  "ContractKeys \<Rightarrow> OperationId \<Rightarrow> NodeId \<Rightarrow> DraftRevision \<Rightarrow> NodeId \<Rightarrow> string \<Rightarrow> Bytes \<Rightarrow> PlanSession \<Rightarrow>
   (EditError fault, EditReceipt) result \<times> PlanSession" where
  "add_lv keys fresh fresh_node expected vg name sz =
     session_edit keys fresh fresh_node expected (PlanEdit.Add (PlanRequest.CreateLv vg name sz LvmLvKind.Linear True))"

definition add_filesystem ::
  "ContractKeys \<Rightarrow> OperationId \<Rightarrow> NodeId \<Rightarrow> DraftRevision \<Rightarrow> NodeId \<Rightarrow> FilesystemKind \<Rightarrow> PlanSession \<Rightarrow>
   (EditError fault, EditReceipt) result \<times> PlanSession" where
  "add_filesystem keys fresh fresh_node expected backing fs =
     session_edit keys fresh fresh_node expected (PlanEdit.Add (PlanRequest.CreateFilesystem backing fs None))"

definition session_mount ::
  "ContractKeys \<Rightarrow> OperationId \<Rightarrow> NodeId \<Rightarrow> DraftRevision \<Rightarrow> MountEntry \<Rightarrow> PlanSession \<Rightarrow>
   (EditError fault, EditReceipt) result \<times> PlanSession" where
  "session_mount keys fresh fresh_node expected entry =
     session_edit keys fresh fresh_node expected (PlanEdit.Add (PlanRequest.Mount entry))"

definition persist_mount ::
  "ContractKeys \<Rightarrow> OperationId \<Rightarrow> NodeId \<Rightarrow> DraftRevision \<Rightarrow> MountEntry \<Rightarrow> PlanSession \<Rightarrow>
   (EditError fault, EditReceipt) result \<times> PlanSession" where
  "persist_mount keys fresh fresh_node expected entry =
     session_edit keys fresh fresh_node expected (PlanEdit.Add (PlanRequest.PersistMount entry))"

text \<open>Edits of one parameter: they find the request, change it, and replace it.\<close>

definition change_request ::
  "ContractKeys \<Rightarrow> DraftRevision \<Rightarrow> OperationId \<Rightarrow> (PlanRequest \<Rightarrow> (EditError, PlanRequest) result) \<Rightarrow> PlanSession \<Rightarrow>
   (EditError fault, EditReceipt) result \<times> PlanSession" where
  "change_request keys expected operation change s =
     (case and_then (check_revision s expected) (\<lambda>_.
        and_then (operation_index (pd_operations (ses_draft s)) operation) (\<lambda>index.
          change (po_request (pd_operations (ses_draft s) ! index)))) of
        Inl e \<Rightarrow> (Inl (fault.Failed e), s)
      | Inr request \<Rightarrow> session_edit keys (OperationId 0) (NodeId 0) expected (PlanEdit.Replace operation request) s)"

definition set_created_lv_size ::
  "ContractKeys \<Rightarrow> DraftRevision \<Rightarrow> OperationId \<Rightarrow> Bytes \<Rightarrow> PlanSession \<Rightarrow> (EditError fault, EditReceipt) result \<times> PlanSession" where
  "set_created_lv_size keys expected operation sz = change_request keys expected operation (\<lambda>request. case request of
      PlanRequest.CreateLv vg name _ layout activate \<Rightarrow> Inr (PlanRequest.CreateLv vg name sz layout activate)
    | _ \<Rightarrow> Inl (EditError.NotCreatedLv operation))"

definition set_created_partition_extent ::
  "ContractKeys \<Rightarrow> DraftRevision \<Rightarrow> OperationId \<Rightarrow> Bytes \<Rightarrow> Bytes \<Rightarrow> PlanSession \<Rightarrow> (EditError fault, EditReceipt) result \<times> PlanSession" where
  "set_created_partition_extent keys expected operation offset sz = change_request keys expected operation (\<lambda>request. case request of
      PlanRequest.CreatePartition table number _ _ role attributes \<Rightarrow> Inr (PlanRequest.CreatePartition table number offset sz role attributes)
    | _ \<Rightarrow> Inl (EditError.NotCreatedPartition operation))"

definition set_resize_size ::
  "ContractKeys \<Rightarrow> DraftRevision \<Rightarrow> OperationId \<Rightarrow> Bytes \<Rightarrow> PlanSession \<Rightarrow> (EditError fault, EditReceipt) result \<times> PlanSession" where
  "set_resize_size keys expected operation sz = change_request keys expected operation (\<lambda>request. case request of
      PlanRequest.ResizeLv lv _ \<Rightarrow> Inr (PlanRequest.ResizeLv lv sz)
    | PlanRequest.ResizeFilesystem fs _ \<Rightarrow> Inr (PlanRequest.ResizeFilesystem fs sz)
    | _ \<Rightarrow> Inl (EditError.NotResize operation))"

section \<open>Documents\<close>

record DraftDocument =
  dd_schema_version :: u32
  dd_session_id :: uuid
  dd_revision :: DraftRevision
  dd_baseline :: HistoricalBaseline
  dd_draft :: PlanDraft

datatype DraftDocumentError =
    Json
  | SchemaVersion u64
  | RequestVersion u32 OperationId
  | InvalidSessionIdentity
  | TooLarge
  | TooManyOperations
  | Inputs DraftBuildError

definition draft_document :: "PlanSession \<Rightarrow> DraftDocument" where
  "draft_document s = \<lparr>dd_schema_version = DRAFT_SCHEMA_VERSION, dd_session_id = ses_id s, dd_revision = ses_revision s,
     dd_baseline = ses_baseline s, dd_draft = ses_draft s\<rparr>"

definition required_version :: "PlanRequest \<Rightarrow> u32" where
  "required_version request = (case request of
      PlanRequest.DeletePartition _ \<Rightarrow> 5 | PlanRequest.RemoveLv _ \<Rightarrow> 5 | PlanRequest.CloseLuks _ \<Rightarrow> 5
    | PlanRequest.ResizeLv _ _ \<Rightarrow> 4 | PlanRequest.ResizeFilesystem _ _ \<Rightarrow> 4
    | PlanRequest.FormatLuks _ _ _ \<Rightarrow> 3 | PlanRequest.OpenLuks _ _ _ _ \<Rightarrow> 3
    | PlanRequest.CreatePartition _ _ _ _ _ _ \<Rightarrow> 2 | _ \<Rightarrow> 1)"

definition validate_document ::
  "(DraftDocument \<Rightarrow> nat option) \<Rightarrow> ContractKeys \<Rightarrow> DraftDocument \<Rightarrow> (DraftDocumentError fault, unit) result" where
  "validate_document json_size keys doc =
     (if \<not> (1 \<le> dd_schema_version doc \<and> dd_schema_version doc \<le> DRAFT_SCHEMA_VERSION)
      then Inl (fault.Failed (DraftDocumentError.SchemaVersion (ucast (dd_schema_version doc))))
      else case find (\<lambda>operation. dd_schema_version doc < required_version (po_request operation)) (pd_operations (dd_draft doc)) of
        Some operation \<Rightarrow> Inl (fault.Failed (DraftDocumentError.RequestVersion (dd_schema_version doc) (po_id operation)))
      | None \<Rightarrow>
          if uuid_is_nil (dd_session_id doc) then Inl (fault.Failed DraftDocumentError.InvalidSessionIdentity)
          else if MAX_DRAFT_OPERATIONS < length (pd_operations (dd_draft doc)) then Inl (fault.Failed DraftDocumentError.TooManyOperations)
          else and_then (ok_or (json_size doc) (fault.Failed DraftDocumentError.Json)) (\<lambda>n.
            if MAX_DRAFT_JSON_BYTES < n then Inl (fault.Failed DraftDocumentError.TooLarge)
            else and_then (map_err (fault.Failed \<circ> DraftDocumentError.Inputs) (validate_draft (dd_baseline doc) (dd_draft doc))) (\<lambda>_.
              and_then (map_err (map_fault DraftDocumentError.Inputs) (build_preview keys (dd_baseline doc) empty_draft)) (\<lambda>_. Inr ()))))"

definition from_document ::
  "(DraftDocument \<Rightarrow> nat option) \<Rightarrow> ContractKeys \<Rightarrow> DraftDocument \<Rightarrow> (DraftDocumentError fault, PlanSession) result" where
  "from_document json_size keys doc =
     and_then (validate_document json_size keys doc) (\<lambda>_.
     and_then (map_err (map_fault DraftDocumentError.Inputs) (preview_of (build_preview keys (dd_baseline doc) (dd_draft doc)))) (\<lambda>preview.
     Inr \<lparr>ses_id = dd_session_id doc, ses_revision = dd_revision doc, ses_baseline = dd_baseline doc, ses_draft = dd_draft doc,
       ses_preview = preview, ses_history_limit = DEFAULT_HISTORY_LIMIT, ses_undo = [], ses_redo = []\<rparr>))"

record FrozenPlan =
  fp_session_id :: uuid
  fp_revision :: DraftRevision
  fp_document :: PlanDocument
  fp_source_map :: "OperationActions list"

datatype FreezeError =
    RevisionConflict DraftRevision DraftRevision
  | Unavailable PreviewStatus
  | Document PlanDocumentError

definition session_freeze ::
  "ContractKeys \<Rightarrow> uuid \<Rightarrow> DraftRevision \<Rightarrow> PlanSession \<Rightarrow> (FreezeError fault, FrozenPlan) result" where
  "session_freeze keys fresh expected s =
     (if expected \<noteq> ses_revision s then Inl (fault.Failed (FreezeError.RevisionConflict expected (ses_revision s)))
      else let status = state_status (ses_preview s) in
      if status \<notin> {PreviewStatus.Complete, PreviewStatus.Conditional} then Inl (fault.Failed (FreezeError.Unavailable status))
      else and_then (ok_or (calculated (ses_preview s)) (fault.Failed (FreezeError.Unavailable status))) (\<lambda>preview.
        and_then (map_err (map_fault FreezeError.Document)
          (capture_with_baseline keys fresh (pv_plan preview) (ses_baseline s)
            (sr_desired (rep_simulation (pv_report preview))) (pd_protected_scope (ses_draft s)))) (\<lambda>document.
        Inr \<lparr>fp_session_id = ses_id s, fp_revision = ses_revision s, fp_document = document, fp_source_map = pv_source_map preview\<rparr>)))"

section \<open>Rebasing\<close>

datatype RebaseError =
    RevisionConflict DraftRevision DraftRevision
  | SourceContextChanged
  | RevisionExhausted
  | SameBaselineIdentity
  | Inputs DraftBuildError
  | Correlation CorrelationError
  | OutputCollision NodeId
  | UnsupportedOperation OperationId
  | UnsupportedMountContext MountContext

record RebasePreview =
  rb_source :: DraftDocument
  rb_baseline :: HistoricalBaseline
  rb_draft :: PlanDraft
  rb_preview :: PreviewState
  rb_correlations :: "NodeCorrelation list"

definition rebase_mount :: "OperationId \<Rightarrow> MountEntry \<Rightarrow> (RebaseError, unit) result" where
  "rebase_mount operation entry =
     (if me_context entry \<noteq> MountContext.Host then Inl (RebaseError.UnsupportedMountContext (me_context entry))
      else (case me_source entry of MountSource.Filesystem _ \<Rightarrow> Inr () | MountSource.Tmpfs \<Rightarrow> Inr ()
        | _ \<Rightarrow> Inl (RebaseError.UnsupportedOperation operation)))"

definition rebase_operation :: "HistoricalBaseline \<Rightarrow> unit \<Rightarrow> PlanOperation \<Rightarrow> (RebaseError, unit) result" where
  "rebase_operation next_base _ operation =
     and_then (case po_created_node operation of
         Some output \<Rightarrow> if graph_node (cur_graph (hb_snapshot next_base)) output \<noteq> None then Inl (RebaseError.OutputCollision output) else Inr ()
       | None \<Rightarrow> Inr ()) (\<lambda>_.
     case po_request operation of
       PlanRequest.Unmount _ _ \<Rightarrow> Inl (RebaseError.UnsupportedOperation (po_id operation))
     | PlanRequest.RemovePersistentMount _ _ \<Rightarrow> Inl (RebaseError.UnsupportedOperation (po_id operation))
     | PlanRequest.Mount entry \<Rightarrow> rebase_mount (po_id operation) entry
     | PlanRequest.PersistMount entry \<Rightarrow> rebase_mount (po_id operation) entry
     | _ \<Rightarrow> Inr ())"

definition rebase_protected :: "unit \<Rightarrow> ProtectedMount \<Rightarrow> (RebaseError, unit) result" where
  "rebase_protected _ protected =
     (if pm_context protected \<noteq> MountContext.Host then Inl (RebaseError.UnsupportedMountContext (pm_context protected)) else Inr ())"

definition draft_outputs :: "PlanDraft \<Rightarrow> NodeId set" where
  "draft_outputs draft = set (List.map_filter po_created_node (pd_operations draft))"

definition rebase_selection :: "PlanDraft \<Rightarrow> NodeId list" where
  "rebase_selection draft = filter (\<lambda>node. node \<notin> draft_outputs draft)
     (concat (map (\<lambda>operation. request_nodes (po_request operation)) (pd_operations draft)) @ ps_nodes (pd_protected_scope draft))"

definition rebase_mapping :: "NodeCorrelation list \<Rightarrow> NodeId \<rightharpoonup> NodeId" where
  "rebase_mapping correlations = map_of (rev (map (\<lambda>binding. (nc_source binding, nc_target binding)) correlations))"

definition translate_draft :: "(NodeId \<rightharpoonup> NodeId) \<Rightarrow> PlanDraft \<Rightarrow> PlanDraft" where
  "translate_draft mapping draft = draft\<lparr>
     pd_operations := map (\<lambda>operation. operation\<lparr>po_request := remap_nodes mapping (po_request operation)\<rparr>) (pd_operations draft),
     pd_protected_scope := (pd_protected_scope draft)\<lparr>ps_nodes := map (remap mapping) (ps_nodes (pd_protected_scope draft))\<rparr>\<rparr>"

definition remap_draft ::
  "ContractKeys \<Rightarrow> HistoricalBaseline \<Rightarrow> PlanDraft \<Rightarrow> HistoricalBaseline \<Rightarrow> (RebaseError fault, PlanDraft \<times> NodeCorrelation list) result" where
  "remap_draft keys current draft next_base =
     (if hb_id current = hb_id next_base then Inl (fault.Failed RebaseError.SameBaselineIdentity)
      else
      and_then (map_err (fault.Failed \<circ> RebaseError.Inputs) (validate_draft current draft)) (\<lambda>_.
      and_then (map_err (map_fault RebaseError.Inputs) (build_preview keys next_base empty_draft)) (\<lambda>_.
      and_then (map_err fault.Failed (try_fold (rebase_operation next_base) () (pd_operations draft))) (\<lambda>_.
      and_then (map_err fault.Failed (try_fold rebase_protected ()
        (ps_runtime_mounts (pd_protected_scope draft) @ ps_persistent_mounts (pd_protected_scope draft)))) (\<lambda>_.
      and_then (map_err (fault.Failed \<circ> RebaseError.Correlation)
        (correlate_nodes (hb_snapshot current) (hb_snapshot next_base) (rebase_selection draft))) (\<lambda>correlations.
      let translated = translate_draft (rebase_mapping correlations) draft in
      and_then (map_err (fault.Failed \<circ> RebaseError.Inputs) (validate_draft next_base translated)) (\<lambda>_.
      Inr (translated, correlations))))))))"

definition prepare_rebase ::
  "ContractKeys \<Rightarrow> DraftRevision \<Rightarrow> HistoricalBaseline \<Rightarrow> PlanSession \<Rightarrow> (RebaseError fault, RebasePreview) result" where
  "prepare_rebase keys expected baseline s =
     (if expected \<noteq> ses_revision s then Inl (fault.Failed (RebaseError.RevisionConflict expected (ses_revision s)))
      else let source = draft_document s in
      and_then (remap_draft keys (dd_baseline source) (dd_draft source) baseline) (\<lambda>(draft, correlations).
      and_then (map_err (map_fault RebaseError.Inputs) (preview_of (build_preview keys baseline draft))) (\<lambda>preview.
      Inr \<lparr>rb_source = source, rb_baseline = baseline, rb_draft = draft, rb_preview = preview, rb_correlations = correlations\<rparr>)))"

definition accept_rebase :: "DraftRevision \<Rightarrow> RebasePreview \<Rightarrow> PlanSession \<Rightarrow> (RebaseError fault, DraftRevision) result \<times> PlanSession" where
  "accept_rebase expected review s = publishing
     (if expected \<noteq> ses_revision s then Inl (fault.Failed (RebaseError.RevisionConflict expected (ses_revision s)))
      else if dd_revision (rb_source review) \<noteq> ses_revision s
      then Inl (fault.Failed (RebaseError.RevisionConflict (dd_revision (rb_source review)) (ses_revision s)))
      else if dd_session_id (rb_source review) \<noteq> ses_id s \<or> dd_baseline (rb_source review) \<noteq> ses_baseline s
         \<or> dd_draft (rb_source review) \<noteq> ses_draft s
      then Inl (fault.Failed RebaseError.SourceContextChanged)
      else and_then (ok_or (revision_next (ses_revision s)) (fault.Failed RebaseError.RevisionExhausted)) (\<lambda>revision.
        Inr (revision, s\<lparr>ses_baseline := rb_baseline review, ses_draft := rb_draft review, ses_preview := rb_preview review,
          ses_revision := revision, ses_undo := [], ses_redo := []\<rparr>))) s"

end
