(* ===== verification/Draft_Correct.thy ===== *)
theory Draft_Correct
  imports Draft_Build Document_Analysis
begin

text \<open>
  Forecasts of drafts: a composed plan is well formed and passes the analysis of documents, the
  lowering of requests keeps the correspondence between requests, fragments and actions, and the
  order of the user becomes an order of the actions.
\<close>

section \<open>Composed plans are well formed\<close>

lemma composed_analysis:
  assumes "composed current capacity draft final plan"
  obtains order where "topological_order (length (plan_actions plan)) (plan_dependencies plan) = Inr order"
    and "map fst (ao_contracts final) = order"
    and "length draft = length (plan_actions plan)"
proof -
  have len: "length draft = length (plan_actions plan)" using assms by (auto simp: composed_def dest: list_all2_lengthD)
  have "analysed current capacity draft [] (final, plan_dependencies plan)" "draft_ok draft"
    "grown (length draft) {} (plan_dependencies plan)" using assms by (auto simp: composed_def grown_def)
  from analysed_contracts(1) [OF this(2,1,3)] show thesis using that len by simp
qed

lemma composed_plan_wf: "composed current capacity draft final plan \<Longrightarrow> plan_wf plan"
proof (rule composed_analysis, assumption)
  fix order
  assume c: "composed current capacity draft final plan"
    and o: "topological_order (length (plan_actions plan)) (plan_dependencies plan) = Inr order"
    and len: "length draft = length (plan_actions plan)"
  have "map pa_id (plan_actions plan) = map action_of_index [0..<length (plan_actions plan)]"
    using composed_ids(2) [OF c] len by simp
  then show "plan_wf plan" using c o len by (auto simp: plan_wf_def composed_def)
qed

lemma try_fold_cong: "(\<And>s x. x \<in> set xs \<Longrightarrow> f s x = g s x) \<Longrightarrow> try_fold f s xs = try_fold g s xs"
  by (induction xs arbitrary: s) (auto split: sum.splits)

lemma composed_resource_order:
  assumes "composed current capacity draft final plan"
  shows "validate_resource_order (plan_contracts plan) (plan_dependencies plan) = Inr ()"
proof (rule composed_analysis [OF assms])
  fix order
  assume o: "topological_order (length (plan_actions plan)) (plan_dependencies plan) = Inr order"
    and keys: "map fst (ao_contracts final) = order"
  note wf = composed_plan_wf [OF assms]
  have "mset order = mset (map pa_id (plan_actions plan))"
    using plan_wf_ordered(2,3) [OF wf o] by (metis mset_map)
  then have same: "sort (map fst (ao_contracts final)) = sort (map fst (plan_contracts plan))"
    unfolding keys by (simp add: plan_contracts_def comp_def) (metis mset_map properties_for_sort sorted_sort mset_sort)
  have at: "map_of (plan_contracts plan) a = map_of (ao_contracts final) a" if a: "a \<in> set (map fst (plan_contracts plan))" for a
  proof -
    obtain p where p: "p \<in> set (plan_actions plan)" "a = pa_id p" using a by (auto simp: plan_contracts_def)
    have "distinct (map fst (plan_contracts plan))"
      using plan_wf_ids(2) [OF wf] by (auto simp: plan_contracts_def comp_def distinct_conv_nth) (metis)
    then have "map_of (plan_contracts plan) a = Some (pa_informational_contract p)"
      using p by (intro map_of_is_SomeI) (auto simp: plan_contracts_def)
    then show ?thesis using composed_drafted [OF assms p(1)] p(2) by (auto simp: frozen_as_def)
  qed
  have "check_pair (map_of (plan_contracts plan)) deps s q = check_pair (map_of (ao_contracts final)) deps s q"
    if "q \<in> set (ordered_pairs (sort (map fst (plan_contracts plan))))" for q s deps
  proof -
    have "fst q \<in> set (map fst (plan_contracts plan))" "snd q \<in> set (map fst (plan_contracts plan))"
      using that ordered_pairs_subset [of "sort (map fst (plan_contracts plan))"] by (cases q; force)+
    from at [OF this(1)] at [OF this(2)] show ?thesis by (cases q) (simp add: check_pair_def cong: option.case_cong)
  qed
  then have "validate_resource_order (plan_contracts plan) (plan_dependencies plan)
      = validate_resource_order (ao_contracts final) (plan_dependencies plan)"
    unfolding validate_resource_order_def same by (intro try_fold_cong) blast
  then show ?thesis using assms by (simp add: composed_def)
qed

lemma compose_plan_facts:
  assumes "compose_plan_with_ordering current fragments order_edges capacity = Inr plan"
  shows "plan_wf plan" "distinct (action_edges (plan_dependencies plan))"
    "validate_resource_order (plan_contracts plan) (plan_dependencies plan) = Inr ()"
    "validate_structure (cur_graph current) = Inr ()"
    "\<exists>simulation. replay_plan keys current plan capacity = Inr (plan, simulation)"
proof -
  obtain draft final where c: "composed current capacity draft final plan" using compose_result [OF assms] by blast
  show "plan_wf plan" using composed_plan_wf [OF c] .
  show "distinct (action_edges (plan_dependencies plan))" "validate_structure (cur_graph current) = Inr ()"
    using c by (simp_all add: composed_def)
  show "validate_resource_order (plan_contracts plan) (plan_dependencies plan) = Inr ()" using composed_resource_order [OF c] .
  show "\<exists>simulation. replay_plan keys current plan capacity = Inr (plan, simulation)" using composed_replays [OF c] by blast
qed

section \<open>A projection meets itself as a goal\<close>

lemma kind_at_node: "graph_inv g \<Longrightarrow> (n, x) \<in> set (g_nodes g) \<Longrightarrow> graph_node g n = Some x"
  by (simp add: graph_inv_def graph_node_def)

lemma compare_size_self:
  assumes "graph_inv g" and "set ps \<subseteq> set (g_nodes g)"
  shows "\<exists>u. try_fold (compare_size g) unknown ps = Inr u"
  using assms(2)
proof (induction ps arbitrary: unknown)
  case Nil
  then show ?case by simp
next
  case (Cons p ps)
  have "\<exists>u. compare_size g unknown p = Inr u"
    using Cons.prems kind_at_node [OF assms(1), of "fst p" "snd p"]
    by (auto simp: compare_size_def known_size_def split: option.split)
  then show ?case using Cons by auto
qed

lemma compare_graph_self:
  assumes "graph_inv g"
  shows "compare_graph g g \<noteq> GoalStatus.Violated why"
proof -
  have "topology_matches g g"
    using kind_at_node [OF assms] by (auto simp: topology_matches_def list_all_iff list_ex_iff kind_at_def is_some_and_def)
  moreover obtain u where "try_fold (compare_size g) False (g_nodes g) = Inr u" using compare_size_self [OF assms] by blast
  ultimately show ?thesis by (simp add: compare_graph_def)
qed

lemma compare_goal_self:
  assumes "graph_inv (des_graph des)" and "c \<in> set (compare_goal des ev des)"
  shows "\<not> is_goal_violation c"
proof -
  have self: "entry_matches m m" for m by (simp add: entry_matches_def options_match_def)
  have "\<exists>m \<in> set ms. entry_matches m entry" if "entry \<in> set ms" for entry ms using that self by blast
  then show ?thesis
    using assms(2) compare_graph_self [OF assms(1)]
    by (auto simp: compare_goal_def is_goal_violation_def runtime_mount_check_def persistent_mount_check_def list_ex_iff
        split: BootSpec.split_asm GoalStatus.split)
qed

section \<open>Analysis of a composed plan\<close>

text \<open>The report of a plan that replays: what it says, and that only the policy or an origin can be rejected.\<close>

lemma analysed_report:
  assumes "plan_wf plan" and "replay_plan keys current plan capacity = Inr (plan, simulation)"
  obtains ordered violations where "ordered_actions plan = Some ordered"
    and "check_protected_scope plan simulation protected = Some violations"
    and "analyse_plan keys current plan intents capacity protected =
      and_then (validate_protected_scope protected) (\<lambda>_.
      and_then (try_fold (check_intent_origin intents) () (plan_actions plan)) (\<lambda>_.
        Inr \<lparr>rep_simulation = simulation\<lparr>sr_desired := (sr_desired simulation)\<lparr>des_intents := intents\<rparr>\<rparr>, rep_goal_checks = [],
          rep_intent_coverage = map (intent_coverage ordered) (enumerate 0 intents),
          rep_unresolved_obligations = concat (map step_obligations (sr_steps simulation)),
          rep_protection_violations = violations\<rparr>))"
proof -
  obtain order where "topological_order (length (plan_actions plan)) (plan_dependencies plan) = Inr order"
    using assms by (auto simp: plan_wf_def)
  then obtain ordered where o: "ordered_actions plan = Some ordered" using plan_wf_ordered(1) [OF assms(1)] by blast
  then obtain violations where v: "check_protected_scope plan simulation protected = Some violations"
    by (simp add: check_protected_scope_def)
  have "check_protected_scope plan (simulation\<lparr>sr_desired := d\<rparr>) protected = Some violations" for d
    using v by (simp add: check_protected_scope_def)
  then show thesis
    using that [OF o v] assms(2) o by (simp add: analyse_plan_def simulate_plan_with_evidence_def Let_def)
qed

section \<open>Documents of composed plans are accepted\<close>

lemma identities_accepted:
  assumes "\<forall>i < length as. action_index (pa_id (as ! i)) = k + i"
    and "distinct (map (\<lambda>a. (pa_fragment a, pa_local_id a)) as)"
    and "\<forall>a \<in> set as. (pa_fragment a, pa_local_id a) \<notin> fst s"
    and "\<forall>a \<in> set as. \<forall>origin. snd s (pa_fragment a) = Some origin \<longrightarrow> origin = pa_origin a"
    and "\<forall>a \<in> set as. \<forall>b \<in> set as. pa_fragment a = pa_fragment b \<longrightarrow> pa_origin a = pa_origin b"
  shows "\<exists>s'. try_fold check_action_identity s (enumerate k as) = Inr s'"
  using assms
proof (induction as arbitrary: s k)
  case Nil
  show ?case by simp
next
  case (Cons a as)
  obtain seen origins where s: "s = (seen, origins)" by (cases s)
  have new: "action_index (pa_id a) = k" "(pa_fragment a, pa_local_id a) \<notin> seen"
    "\<not> is_some_and (origins (pa_fragment a)) (\<lambda>origin. origin \<noteq> pa_origin a)"
    using Cons.prems(1) [rule_format, of 0] Cons.prems(3,4) by (auto simp: s is_some_and_def split: option.splits)
  let ?t = "(insert (pa_fragment a, pa_local_id a) seen, origins(pa_fragment a \<mapsto> pa_origin a))"
  have step: "check_action_identity s (k, a) = Inr ?t"
    using new by (simp add: check_action_identity_def s)
  have "\<exists>s'. try_fold check_action_identity ?t (enumerate (Suc k) as) = Inr s'"
  proof (rule Cons.IH)
    show "\<forall>i < length as. action_index (pa_id (as ! i)) = Suc k + i"
      using Cons.prems(1) [rule_format, of "Suc _"] by simp
    show "distinct (map (\<lambda>a. (pa_fragment a, pa_local_id a)) as)" using Cons.prems(2) by simp
    show "\<forall>b \<in> set as. (pa_fragment b, pa_local_id b) \<notin> fst ?t" 
      using Cons.prems(2,3) by (auto simp: s image_iff)
    show "\<forall>b \<in> set as. \<forall>origin. snd ?t (pa_fragment b) = Some origin \<longrightarrow> origin = pa_origin b"
    proof (intro ballI allI impI)
      fix b origin
      assume b: "b \<in> set as" and found: "snd ?t (pa_fragment b) = Some origin"
      show "origin = pa_origin b"
      proof (cases "pa_fragment b = pa_fragment a")
        case True
        then show ?thesis using found Cons.prems(5) [rule_format, of a b] b by simp
      next
        case False
        then show ?thesis using found Cons.prems(4) [rule_format, of b origin] b by (simp add: s)
      qed
    qed
    show "\<forall>a \<in> set as. \<forall>b \<in> set as. pa_fragment a = pa_fragment b \<longrightarrow> pa_origin a = pa_origin b"
      using Cons.prems(5) unfolding set_simps by blast
  qed
  then show ?case using step by simp
qed

lemma edges_accepted:
  assumes "\<forall>d \<in> set deps. action_index (ad_before d) < n \<and> action_index (ad_after d) < n \<and> ad_before d \<noteq> ad_after d"
    and "distinct (action_edges deps)" and "set (action_edges deps) \<inter> seen = {}"
  shows "\<exists>s'. try_fold (check_dependency_edge n) seen deps = Inr s'"
  using assms
proof (induction deps arbitrary: seen)
  case Nil
  then show ?case by simp
next
  case (Cons d deps)
  have "check_dependency_edge n seen d = Inr (insert (ad_before d, ad_after d) seen)"
    using Cons.prems by (auto simp: check_dependency_edge_def action_edges_def)
  then show ?case
    using Cons.IH [of "insert (ad_before d, ad_after d) seen"] Cons.prems by (auto simp: action_edges_def)
qed

text \<open>The identities and origins of planned actions are those of the fragments.\<close>

definition flat_actions :: "PlanFragment list \<Rightarrow> (nat \<times> PlanFragment \<times> FragmentAction) list" where
  "flat_actions fragments = concat (map (\<lambda>(i, f). map (\<lambda>a. (i, f, a)) (pf_actions f)) (enumerate 0 fragments))"

lemma flat_requested: "requested_actions fragments
    = map (\<lambda>(i, f, a). (FragmentId (of_nat i), fa_id a, fa_operation a, pf_origin f)) (flat_actions fragments)"
  by (auto simp: requested_actions_def flat_actions_def fragment_view_def [abs_def] map_concat comp_def case_prod_unfold)

lemma flat_keys: "all_keys fragments = map (\<lambda>(i, f, a). (i, fa_id a)) (flat_actions fragments)"
  by (auto simp: all_keys_def flat_actions_def fragment_keys_def [abs_def] map_concat comp_def case_prod_unfold)

lemma flat_actions_in: "(i, f, a) \<in> set (flat_actions fragments) \<longleftrightarrow> i < length fragments \<and> f = fragments ! i \<and> a \<in> set (pf_actions f)"
  by (force simp: flat_actions_def in_set_enumerate_eq)

lemma assign_fragments_small:
  assumes "try_fold assign_fragment s (enumerate k fragments) = Inr s'"
  shows "\<forall>i < length fragments. k + i < 2 ^ 32"
  using assms
proof (induction fragments arbitrary: s k)
  case Nil
  then show ?case by simp
next
  case (Cons f fragments)
  then obtain s1 where "assign_fragment s (k, f) = Inr s1" and rest: "try_fold assign_fragment s1 (enumerate (Suc k) fragments) = Inr s'"
    by (auto split: sum.splits)
  then have "k < 2 ^ 32" by (auto simp: assign_fragment_def u32_try_from_def and_then_Inr_iff split: prod.splits if_splits)
  then show ?case using Cons.IH [OF rest] by (auto simp: less_Suc_eq_0_disj)
qed

lemma flatten_small: "fragment_action_ids fragments = Inr ids \<Longrightarrow> i < length fragments \<Longrightarrow> i < 2 ^ 32"
  using assign_fragments_small [of _ 0 fragments] by (fastforce simp: fragment_action_ids_def and_then_Inr_iff)

lemma composed_identities:
  assumes "compose_plan_with_ordering current fragments order_edges capacity = Inr plan"
  shows "distinct (map (\<lambda>a. (pa_fragment a, pa_local_id a)) (plan_actions plan))"
    and "a \<in> set (plan_actions plan) \<Longrightarrow> b \<in> set (plan_actions plan) \<Longrightarrow> pa_fragment a = pa_fragment b \<Longrightarrow> pa_origin a = pa_origin b"
proof -
  obtain flat where "flatten_fragments fragments = Inr flat" using compose_result [OF assms] by blast
  then obtain ids where ids: "fragment_action_ids fragments = Inr ids" by (auto simp: flatten_fragments_def and_then_Inr_iff)
  have small: "i < 2 ^ 32" if "(i, f, x) \<in> set (flat_actions fragments)" for i f x
    using flatten_small [OF ids] that by (simp add: flat_actions_in)
  have inj: "i = j" if "FragmentId (of_nat i) = FragmentId (of_nat j)" "i < 2 ^ 32" "j < 2 ^ 32" for i j
    using that by (simp add: word_of_nat_eq_iff take_bit_nat_eq_self)
  have view: "map planned_view (plan_actions plan) = map (\<lambda>(i, f, x). (FragmentId (of_nat i), fa_id x, fa_operation x, pf_origin f)) (flat_actions fragments)"
    using compose_view_aux [OF assms] by (simp add: flat_requested)
  have "map (\<lambda>a. (pa_fragment a, pa_local_id a)) (plan_actions plan)
      = map (\<lambda>(i, f, x). (FragmentId (of_nat i), fa_id x)) (flat_actions fragments)"
    using arg_cong [OF view, of "map (\<lambda>(f, l, _). (f, l))"] by (simp add: planned_view_def comp_def case_prod_unfold)
  also have "\<dots> = map (\<lambda>(i, l). (FragmentId (of_nat i), l)) (all_keys fragments)"
    by (simp add: flat_keys comp_def case_prod_unfold)
  finally have keys: "map (\<lambda>a. (pa_fragment a, pa_local_id a)) (plan_actions plan)
      = map (\<lambda>(i, l). (FragmentId (of_nat i), l)) (all_keys fragments)" .
  have "distinct (all_keys fragments)"
    using yields_result [OF fragment_action_ids_assigned ids] by (simp add: assigned_def)
  moreover have "inj_on (\<lambda>(i, l). (FragmentId (of_nat i), l)) (set (all_keys fragments))"
  proof (rule inj_onI)
    have bound: "fst k < 2 ^ 32" if "k \<in> set (all_keys fragments)" for k
      using that small by (auto simp: flat_keys)
    show "k = k'" if "k \<in> set (all_keys fragments)" "k' \<in> set (all_keys fragments)"
      "(case k of (i, l) \<Rightarrow> (FragmentId (of_nat i), l)) = (case k' of (i, l) \<Rightarrow> (FragmentId (of_nat i), l))" for k k'
      using that(3) inj [of "fst k" "fst k'"] bound [OF that(1)] bound [OF that(2)] by (cases k; cases k') simp
  qed
  ultimately show "distinct (map (\<lambda>a. (pa_fragment a, pa_local_id a)) (plan_actions plan))"
    unfolding keys by (simp add: distinct_map)
  have found: "\<exists>i f x. (i, f, x) \<in> set (flat_actions fragments) \<and> pa_fragment c = FragmentId (of_nat i) \<and> pa_origin c = pf_origin f"
    if "c \<in> set (plan_actions plan)" for c
  proof -
    have "planned_view c \<in> set (map planned_view (plan_actions plan))" using that by simp
    then show ?thesis unfolding view by (auto simp: planned_view_def)
  qed
  show "pa_origin a = pa_origin b" if "a \<in> set (plan_actions plan)" "b \<in> set (plan_actions plan)" "pa_fragment a = pa_fragment b"
    using found [OF that(1)] found [OF that(2)] that(3) inj small by (metis flat_actions_in)
qed

lemma composed_structural:
  assumes "compose_plan_with_ordering (hb_snapshot (doc_baseline doc)) fragments order_edges capacity = Inr plan"
    and "doc_actions doc = plan_actions plan" and "doc_dependencies doc = plan_dependencies plan"
    and "validate_structure (des_graph (doc_requested_goal doc)) = Inr ()"
  shows "structural_plan doc = Inr plan"
proof -
  note facts = compose_plan_facts [OF assms(1)]
  have sorted: "sort_key pa_id (plan_actions plan) = plan_actions plan" using plan_wf_sorted [OF facts(1)] by simp
  have within: "deps_within (length (plan_actions plan), plan_dependencies plan)" using facts(1) by (simp add: plan_wf_def)
  obtain s1 where s1: "try_fold check_action_identity ({}, Map.empty) (enumerate 0 (plan_actions plan)) = Inr s1"
  proof -
    have "\<exists>s. try_fold check_action_identity ({}, Map.empty) (enumerate 0 (plan_actions plan)) = Inr s"
    proof (rule identities_accepted)
      show "\<forall>i < length (plan_actions plan). action_index (pa_id (plan_actions plan ! i)) = 0 + i"
        using plan_wf_ids(2) [OF facts(1)] by simp
      show "\<forall>a \<in> set (plan_actions plan). \<forall>b \<in> set (plan_actions plan). pa_fragment a = pa_fragment b \<longrightarrow> pa_origin a = pa_origin b"
        using composed_identities(2) [OF assms(1)] by blast
    qed (simp_all add: composed_identities(1) [OF assms(1)])
    then show thesis using that by blast
  qed
  have "ad_before d \<noteq> ad_after d" if "d \<in> set (plan_dependencies plan)" for d
    using plan_wf_acyclic [OF facts(1)] that by (auto simp: acyclic_def action_edges_def)
  then obtain s2 where s2: "try_fold (check_dependency_edge (length (plan_actions plan))) {} (plan_dependencies plan) = Inr s2"
    using edges_accepted [of "plan_dependencies plan" "length (plan_actions plan)" "{}"] within facts(2)
    by (auto simp: deps_within_def list_all_iff)
  obtain order where "topological_order (length (plan_actions plan)) (plan_dependencies plan) = Inr order"
    using facts(1) by (auto simp: plan_wf_def)
  then show ?thesis
    using assms(2-4) facts(4) sorted s1 s2 by (simp add: structural_plan_def check_document_graph_def)
qed

text \<open>
  The document that captures a composed plan together with its own projection is accepted as
  soon as the report on the plan has neither protection violations nor uncovered intents.
\<close>

lemma composed_document_accepted:
  assumes compose: "compose_plan_with_ordering (hb_snapshot baseline) fragments order_edges (hb_capacity_evidence baseline) = Inr plan"
    and report: "analyse_plan keys (hb_snapshot baseline) plan intents (hb_capacity_evidence baseline) protected = Inr report"
    and clean: "rep_protection_violations report = []" "\<forall>c \<in> set (rep_intent_coverage report). ic_covered c"
    and inv: "graph_inv (cur_graph (hb_snapshot baseline))"
    and ids: "\<not> uuid_is_nil fresh" "\<not> uuid_is_nil (hb_id baseline)"
  shows "\<exists>doc analysis. capture_with_baseline keys fresh plan baseline (sr_desired (rep_simulation report)) protected = Inr doc
    \<and> doc_actions doc = plan_actions plan \<and> doc_dependencies doc = plan_dependencies plan
    \<and> analyse_historical keys doc = Inr analysis \<and> ha_plan analysis = plan"
proof -
  let ?current = "hb_snapshot baseline" and ?capacity = "hb_capacity_evidence baseline"
    and ?goal = "sr_desired (rep_simulation report)"
  define doc where "doc = \<lparr>doc_schema_version = PLAN_SCHEMA_VERSION, doc_action_semantics_version = ACTION_SEMANTICS_VERSION,
    doc_plan_id = fresh, doc_baseline = baseline, doc_requested_goal = ?goal, doc_protected_scope = protected,
    doc_actions = plan_actions plan, doc_dependencies = plan_dependencies plan\<rparr>"
  note facts = compose_plan_facts [OF compose]
  obtain simulation where sim: "replay_plan keys ?current plan ?capacity = Inr (plan, simulation)" using facts(5) by blast
  obtain ordered violations where run: "analyse_plan keys ?current plan intents ?capacity protected =
      and_then (validate_protected_scope protected) (\<lambda>_.
      and_then (try_fold (check_intent_origin intents) () (plan_actions plan)) (\<lambda>_.
        Inr \<lparr>rep_simulation = simulation\<lparr>sr_desired := (sr_desired simulation)\<lparr>des_intents := intents\<rparr>\<rparr>, rep_goal_checks = [],
          rep_intent_coverage = map (intent_coverage ordered) (enumerate 0 intents),
          rep_unresolved_obligations = concat (map step_obligations (sr_steps simulation)),
          rep_protection_violations = violations\<rparr>))"
    using analysed_report [OF facts(1) sim] by metis
  have goal: "?goal = (sr_desired simulation)\<lparr>des_intents := intents\<rparr>"
    using report unfolding run by (auto simp: and_then_Inr_iff)
  obtain ev where "sim_inv (sr_desired simulation, ev)" by (rule replay_keeps [OF sim inv])
  then have graph: "graph_inv (des_graph ?goal)" "validate_structure (des_graph ?goal) = Inr ()"
    using validate_structure_valid_aux [of "des_graph (sr_desired simulation)"] by (simp_all add: goal sim_inv_def work_inv_def)
  have structural: "structural_plan doc = Inr plan"
    by (rule composed_structural [where fragments = fragments and order_edges = order_edges and capacity = ?capacity])
      (use compose graph(2) in \<open>simp_all add: doc_def\<close>)
  let ?report = "report\<lparr>rep_goal_checks := compare_goal ?goal (sr_evidence (rep_simulation report)) ?goal,
      rep_unresolved_obligations := rep_unresolved_obligations report
        @ goal_obligations (compare_goal ?goal (sr_evidence (rep_simulation report)) ?goal)\<rparr>"
  have "simulate_plan_for_goal_with_policy keys ?current plan ?goal ?capacity protected = Inr ?report"
    using report graph(2) by (simp add: simulate_plan_for_goal_with_policy_def goal Let_def)
  moreover obtain analysis where a: "conclude_analysis doc plan ?report = Inr analysis" "ha_plan analysis = plan"
    using clean compare_goal_self [OF graph(1)] by (fastforce simp: conclude_analysis_Inr)
  ultimately have "analyse_historical keys doc = Inr analysis"
    using structural sim facts(3) ids by (simp add: analyse_historical_def doc_def)
  moreover from this have "capture_with_baseline keys fresh plan baseline ?goal protected = Inr doc"
    by (simp add: capture_with_baseline_def doc_def Let_def)
  ultimately show ?thesis using a(2) by (auto simp: doc_def)
qed

end
