(* ===== verification/Draft_Preview.thy ===== *)
theory Draft_Preview
  imports Draft_Correct
begin

text \<open>
  What a calculated preview says about the draft it was built from: which actions serve which
  request, that they carry it out, and that the order of the user is an order of the actions.
\<close>

section \<open>Lowered requests\<close>

text \<open>A fragment of a request: one action, or two in a declared order, that carry the request out.\<close>

definition lowered :: "PlanOperation \<Rightarrow> PlanFragment \<Rightarrow> bool" where
  "lowered operation f \<longleftrightarrow> rc_covered (request_coverage operation (map fa_operation (pf_actions f))) \<and> pf_diagnostics f = []
     \<and> (\<exists>first second. pf_actions f = [first] \<and> fa_id first = LocalActionId 0 \<and> pf_dependencies f = []
        \<or> pf_actions f = [first, second] \<and> fa_id first = LocalActionId 0 \<and> fa_id second = LocalActionId 1
          \<and> pf_dependencies f = [\<lparr>fd_before = LocalActionId 0, fd_after = LocalActionId 1, fd_reason = DependencyReason.RequestedOrder\<rparr>])"

lemma lower_request_length:
  assumes "lower_request request created index = Inr (operations, requirements, origin)"
  shows "length operations = 1 \<or> length operations = 2"
  using assms
proof (cases request)
  case (Maintenance intent)
  then show ?thesis using assms by (cases intent) (auto simp: lower_request_def lower_fail_def split: option.splits)
qed (auto simp: lower_request_def lower_fail_def and_then_Inr_iff split: if_splits)

lemma lower_request_origin:
  assumes "lower_request request created index = Inr (operations, requirements, origin)"
  shows "(case request of PlanRequest.Maintenance intent \<Rightarrow> \<exists>k. index = Some k \<and> origin = FragmentOrigin.Intent k
      \<and> actions_cover_intent intent operations | _ \<Rightarrow> \<forall>k. origin \<noteq> FragmentOrigin.Intent k)"
  using assms
proof (cases request)
  case (Maintenance intent)
  then show ?thesis using assms
    by (cases intent) (auto simp: lower_request_def lower_fail_def actions_cover_intent_def split: option.splits)
qed (auto simp: lower_request_def lower_fail_def and_then_Inr_iff split: if_splits)

lemma lower_operation_facts:
  assumes "lower_operation operation index = Inr f"
  shows "lowered operation f"
    and "(case po_request operation of PlanRequest.Maintenance intent \<Rightarrow> \<exists>k. index = Some k \<and> pf_origin f = FragmentOrigin.Intent k
      \<and> actions_cover_intent intent (map fa_operation (pf_actions f)) | _ \<Rightarrow> \<forall>k. pf_origin f \<noteq> FragmentOrigin.Intent k)"
proof -
  from assms obtain operations requirements origin where
    r: "lower_request (po_request operation) (po_created_node operation) index = Inr (operations, requirements, origin)"
    and f: "f = fragment_of_recipe (operations, requirements, origin)"
    by (auto simp: lower_operation_def lower_fail_def and_then_Inr_iff split: if_splits)
  have ops: "map fa_operation (pf_actions f) = operations" by (simp add: f fragment_of_recipe_def comp_def case_prod_unfold)
  show "lowered operation f"
    using lower_operation_covers [OF assms] lower_request_length [OF r]
    by (auto simp: lowered_def f fragment_of_recipe_def length_Suc_conv numeral_2_eq_2)
  show "(case po_request operation of PlanRequest.Maintenance intent \<Rightarrow> \<exists>k. index = Some k \<and> pf_origin f = FragmentOrigin.Intent k
      \<and> actions_cover_intent intent (map fa_operation (pf_actions f)) | _ \<Rightarrow> \<forall>k. pf_origin f \<noteq> FragmentOrigin.Intent k)"
  proof -
    have o: "pf_origin f = origin" by (simp add: f fragment_of_recipe_def)
    show ?thesis using lower_request_origin [OF r] unfolding ops o .
  qed
qed

text \<open>The maintenance intents of the draft and the fragments that name them.\<close>

definition intents_served :: "OperationIntent list \<Rightarrow> PlanFragment list \<Rightarrow> bool" where
  "intents_served intents fragments \<longleftrightarrow>
     (\<forall>f \<in> set fragments. \<forall>k. pf_origin f = FragmentOrigin.Intent k \<longrightarrow> k < length intents)
     \<and> (\<forall>k < length intents. \<exists>f \<in> set fragments. pf_origin f = FragmentOrigin.Intent k
          \<and> actions_cover_intent (intents ! k) (map fa_operation (pf_actions f)))"

lemma intents_served_other:
  "intents_served intents fragments \<Longrightarrow> \<forall>k. pf_origin f \<noteq> FragmentOrigin.Intent k \<Longrightarrow> intents_served intents (fragments @ [f])"
  by (fastforce simp: intents_served_def)

lemma intents_served_next:
  assumes "intents_served intents fragments" and "pf_origin f = FragmentOrigin.Intent (length intents)"
    and "actions_cover_intent intent (map fa_operation (pf_actions f))"
  shows "intents_served (intents @ [intent]) (fragments @ [f])"
  using assms by (fastforce simp: intents_served_def nth_append less_Suc_eq)

lemma lower_drafts:
  "yields (\<lambda>(intents, fragments). list_all2 lowered operations fragments \<and> intents_served intents fragments)
     (try_fold lower_next ([], []) operations)"
proof (rule yields_try_fold_prefix [where P = "\<lambda>ys (intents, fragments). list_all2 lowered ys fragments \<and> intents_served intents fragments"],
    goal_cases)
  case 1
  then show ?case by (simp add: intents_served_def)
next
  case (2 ys operation zs s)
  obtain intents fragments where s: "s = (intents, fragments)" by (cases s)
  have prev: "list_all2 lowered ys fragments" "intents_served intents fragments" using 2(2) s by simp_all
  let ?fail = "\<lambda>errors. fault.Failed (DraftBuildError.Draft
    (map (\<lambda>d. \<lparr>od_operation = Some (po_id operation), od_diagnostic = d, od_checks = []\<rparr>) errors))"
  have step: "yields (\<lambda>(intents, fragments). list_all2 lowered (ys @ [operation]) fragments \<and> intents_served intents fragments)
      (and_then (map_err ?fail (lower_operation operation index)) (\<lambda>f. Inr (intents', fragments @ [f])))"
    if "\<And>f. lower_operation operation index = Inr f \<Longrightarrow> intents_served intents' (fragments @ [f])" for index intents'
    using that lower_operation_facts(1) prev(1)
    by (cases "lower_operation operation index") (auto intro!: yields_Inr list_all2_appendI)
  show ?case
  proof (cases "\<exists>intent. po_request operation = PlanRequest.Maintenance intent")
    case True
    then obtain intent where intent: "po_request operation = PlanRequest.Maintenance intent" by blast
    have "intents_served (intents @ [intent]) (fragments @ [f])" if "lower_operation operation (Some (length intents)) = Inr f" for f
      using lower_operation_facts(2) [OF that] intent intents_served_next [OF prev(2)] by simp
    then show ?thesis using step by (simp add: lower_next_def s intent)
  next
    case False
    have "intents_served intents (fragments @ [f])" if "lower_operation operation None = Inr f" for f
      using lower_operation_facts(2) [OF that] False intents_served_other [OF prev(2)] by (cases "po_request operation") auto
    then have "yields (\<lambda>(intents, fragments). list_all2 lowered (ys @ [operation]) fragments \<and> intents_served intents fragments)
      (and_then (map_err ?fail (lower_operation operation None)) (\<lambda>f. Inr (intents, fragments @ [f])))" by (rule step)
    then show ?thesis using False by (cases "po_request operation") (simp_all add: lower_next_def s)
  qed
qed

section \<open>Requests and actions of the plan\<close>

text \<open>The plan of a preview and the identifiers of its fragments' actions.\<close>

definition plan_of :: "IdMap \<Rightarrow> PlanFragment list \<Rightarrow> ExecutionPlan \<Rightarrow> bool" where
  "plan_of ids fragments plan \<longleftrightarrow> assigned (all_keys fragments) (ids, length (all_keys fragments))
     \<and> map planned_view (plan_actions plan) = requested_actions fragments \<and> plan_wf plan"

lemma compose_plan_of:
  assumes "compose_plan_with_ordering current fragments order_edges capacity = Inr plan" and "fragment_action_ids fragments = Inr ids"
  shows "plan_of ids fragments plan"
  using compose_view_aux [OF assms(1)] compose_plan_facts(1) [OF assms(1)] yields_result [OF fragment_action_ids_assigned assms(2)]
  by (simp add: plan_of_def)

text \<open>The action of the plan that stands for an action of a fragment.\<close>

lemma planned_at:
  assumes "plan_of ids fragments plan" and "i < length fragments" and "a \<in> set (pf_actions (fragments ! i))"
  obtains p where "p \<in> set (plan_actions plan)" and "ids (i, fa_id a) = Some (pa_id p)"
    and "nth_opt (plan_actions plan) (action_index (pa_id p)) = Some p"
    and "planned_view p = (FragmentId (of_nat i), fa_id a, fa_operation a, pf_origin (fragments ! i))"
proof -
  have keys: "assigned (all_keys fragments) (ids, length (all_keys fragments))" and wf: "plan_wf plan"
    and view: "map planned_view (plan_actions plan) = map (\<lambda>(i, f, x). (FragmentId (of_nat i), fa_id x, fa_operation x, pf_origin f)) (flat_actions fragments)"
    using assms(1) by (simp_all add: plan_of_def flat_requested)
  have "(i, fragments ! i, a) \<in> set (flat_actions fragments)" using assms(2,3) by (simp add: flat_actions_in)
  then obtain k where k: "k < length (flat_actions fragments)" "flat_actions fragments ! k = (i, fragments ! i, a)"
    by (metis in_set_conv_nth)
  have len: "length (plan_actions plan) = length (flat_actions fragments)" using arg_cong [OF view, of length] by simp
  have "all_keys fragments ! k = (i, fa_id a)" using k by (simp add: flat_keys)
  then have "ids (i, fa_id a) = Some (action_of_index k)"
    using assigned_lookup [OF keys, of k] k(1) by (simp add: flat_keys)
  moreover have "planned_view (plan_actions plan ! k) = (FragmentId (of_nat i), fa_id a, fa_operation a, pf_origin (fragments ! i))"
    using arg_cong [OF view, of "\<lambda>xs. xs ! k"] k len by simp
  ultimately show thesis
    using that [of "plan_actions plan ! k"] plan_wf_ids [OF wf, of k] k(1) len by (simp add: nth_opt_def)
qed

text \<open>The identifiers of the actions of one fragment.\<close>

definition own :: "IdMap \<Rightarrow> nat \<Rightarrow> PlanFragment \<Rightarrow> ActionId list" where
  "own ids i f = map (\<lambda>a. the (ids (i, fa_id a))) (pf_actions f)"

lemma own_operations:
  assumes "plan_of ids fragments plan" and "i < length fragments"
  shows "those (map (\<lambda>x. map_option pa_operation (nth_opt (plan_actions plan) (action_index x))) (own ids i (fragments ! i)))
    = Some (map fa_operation (pf_actions (fragments ! i)))"
proof -
  have "map_option pa_operation (nth_opt (plan_actions plan) (action_index (the (ids (i, fa_id a))))) = Some (fa_operation a)"
    if "a \<in> set (pf_actions (fragments ! i))" for a
    by (rule planned_at [OF assms that]) (auto simp: planned_view_def)
  then have "map (\<lambda>x. map_option pa_operation (nth_opt (plan_actions plan) (action_index x))) (own ids i (fragments ! i))
      = map (\<lambda>a. Some (fa_operation a)) (pf_actions (fragments ! i))"
    by (auto simp: own_def)
  then show ?thesis by (simp only: those_map_Some)
qed

text \<open>The source map of a draft: one entry for each request, in order.\<close>

definition source_entries :: "IdMap \<Rightarrow> PlanOperation list \<Rightarrow> PlanFragment list \<Rightarrow> OperationActions list" where
  "source_entries ids operations fragments = map (\<lambda>i. \<lparr>oa_operation = po_id (operations ! i),
     oa_fragments = [FragmentId (of_nat i)], oa_actions = own ids i (fragments ! i)\<rparr>) [0..<length fragments]"

lemma source_entries_simps [simp]:
  "length (source_entries ids operations fragments) = length fragments"
  "i < length fragments \<Longrightarrow> source_entries ids operations fragments ! i = \<lparr>oa_operation = po_id (operations ! i),
     oa_fragments = [FragmentId (of_nat i)], oa_actions = own ids i (fragments ! i)\<rparr>"
  by (simp_all add: source_entries_def)

lemma try_fold_collect:
  assumes "\<And>s x. x \<in> set xs \<Longrightarrow> f s x = Inr (s @ [g x])"
  shows "try_fold f s xs = Inr (s @ map g xs)"
  using assms by (induction xs arbitrary: s) auto

lemma own_actions_assigned:
  assumes "assigned (all_keys fragments) (ids, length (all_keys fragments))" and "i < length fragments"
  shows "own_actions ids i (fragments ! i) = Inr (own ids i (fragments ! i))"
proof -
  have "\<exists>x. ids (i, fa_id a) = Some x" if a: "a \<in> set (pf_actions (fragments ! i))" for a
  proof -
    have "(i, fragments ! i, a) \<in> set (flat_actions fragments)" using a assms(2) by (simp add: flat_actions_in)
    then have "(i, fa_id a) \<in> set (all_keys fragments)" unfolding flat_keys set_map by (rule rev_image_eqI) simp
    then show ?thesis using assigned_lookup [OF assms(1)] by (metis in_set_conv_nth)
  qed
  then have "map (\<lambda>a. ids (i, fa_id a)) (pf_actions (fragments ! i)) = map (\<lambda>a. Some (the (ids (i, fa_id a)))) (pf_actions (fragments ! i))"
    by (intro map_cong refl) fastforce
  then have "those (map (\<lambda>a. ids (i, fa_id a)) (pf_actions (fragments ! i))) = Some (own ids i (fragments ! i))"
    by (simp only: those_map_Some own_def)
  then show ?thesis by (simp add: own_actions_def)
qed

lemma source_map_entries:
  assumes "assigned (all_keys fragments) (ids, length (all_keys fragments))" and "length operations = length fragments"
  shows "try_fold (map_operation ids) [] (enumerate 0 (zip operations fragments)) = Inr (source_entries ids operations fragments)"
proof -
  let ?g = "\<lambda>(i, operation, f). \<lparr>oa_operation = po_id operation, oa_fragments = [FragmentId (of_nat i)], oa_actions = own ids i f\<rparr>"
  have "map_operation ids s p = Inr (s @ [?g p])" if "p \<in> set (enumerate 0 (zip operations fragments))" for s p
    using that own_actions_assigned [OF assms(1)] assms(2)
    by (cases p rule: prod_cases3) (auto simp: map_operation_def in_set_enumerate_eq)
  then have "try_fold (map_operation ids) [] (enumerate 0 (zip operations fragments)) = Inr ([] @ map ?g (enumerate 0 (zip operations fragments)))"
    by (rule try_fold_collect)
  also have "map ?g (enumerate 0 (zip operations fragments)) = source_entries ids operations fragments"
    using assms(2) by (auto simp: source_entries_def nth_enumerate_eq intro!: nth_equalityI)
  finally show ?thesis by simp
qed

lemma coverage_entries:
  assumes "plan_of ids fragments plan" and "length operations = length fragments"
  shows "try_fold (cover_operation plan) [] (zip operations (source_entries ids operations fragments))
    = Inr (map2 (\<lambda>operation f. request_coverage operation (map fa_operation (pf_actions f))) operations fragments)"
proof -
  let ?g = "\<lambda>(operation, entry). request_coverage operation
    (the (those (map (\<lambda>i. map_option pa_operation (nth_opt (plan_actions plan) (action_index i))) (oa_actions entry))))"
  have "cover_operation plan s p = Inr (s @ [?g p])" if "p \<in> set (zip operations (source_entries ids operations fragments))" for s p
    using that own_operations [OF assms(1)] assms(2)
    by (cases p rule: prod.exhaust) (auto simp: cover_operation_def in_set_zip)
  then have "try_fold (cover_operation plan) [] (zip operations (source_entries ids operations fragments))
      = Inr ([] @ map ?g (zip operations (source_entries ids operations fragments)))"
    by (rule try_fold_collect)
  also have "map ?g (zip operations (source_entries ids operations fragments))
      = map2 (\<lambda>operation f. request_coverage operation (map fa_operation (pf_actions f))) operations fragments"
    using own_operations [OF assms(1)] assms(2) by (auto intro!: nth_equalityI)
  finally show ?thesis by simp
qed

section \<open>Calculated previews\<close>

definition previewed ::
  "ContractKeys \<Rightarrow> HistoricalBaseline \<Rightarrow> PlanDraft \<Rightarrow> PlanFragment list \<Rightarrow> OperationIntent list \<Rightarrow> IdMap \<Rightarrow> PlanPreview \<Rightarrow> bool" where
  "previewed keys baseline draft fragments intents ids preview \<longleftrightarrow>
     list_all2 lowered (pd_operations draft) fragments \<and> intents_served intents fragments
     \<and> fragment_action_ids fragments = Inr ids
     \<and> compose_plan_with_ordering (hb_snapshot baseline) fragments (requested_order [] (enumerate 0 fragments))
         (hb_capacity_evidence baseline) = Inr (pv_plan preview)
     \<and> analyse_plan keys (hb_snapshot baseline) (pv_plan preview) intents (hb_capacity_evidence baseline)
         (pd_protected_scope draft) = Inr (pv_report preview)
     \<and> pv_source_map preview = source_entries ids (pd_operations draft) fragments
     \<and> pv_request_coverage preview = map2 (\<lambda>operation f. request_coverage operation (map fa_operation (pf_actions f)))
         (pd_operations draft) fragments
     \<and> pv_diagnostics preview = []"

text \<open>What a failed build reports: a rejected composition, or a rejected protection policy.\<close>

definition explained :: "PlanDraft \<Rightarrow> (DraftBuildError fault, PlanPreview) result \<Rightarrow> bool" where
  "explained draft r = (case r of
      Inl (fault.Failed (DraftBuildError.Simulation e source_map)) \<Rightarrow> validate_protected_scope (pd_protected_scope draft) = Inl (fault.Failed e)
    | Inl fault.Panic \<Rightarrow> False | Inl fault.OutOfFuel \<Rightarrow> False | _ \<Rightarrow> True)"

lemma origins_known:
  assumes "intents_served intents fragments" and "map planned_view (plan_actions plan) = requested_actions fragments"
  shows "try_fold (check_intent_origin intents) () (plan_actions plan) = Inr ()"
proof -
  have "check_intent_origin intents () a = Inr ()" if a: "a \<in> set (plan_actions plan)" for a
  proof -
    have "planned_view a \<in> set (requested_actions fragments)" using a unfolding assms(2) [symmetric] by simp
    then obtain i where "i < length fragments" "pa_origin a = pf_origin (fragments ! i)"
      by (auto simp: flat_requested planned_view_def flat_actions_in)
    then show ?thesis using assms(1) nth_mem [of i fragments]
      by (auto simp: check_intent_origin_def intents_served_def require_def simp del: nth_mem split: FragmentOrigin.split)
  qed
  then show ?thesis by (simp add: try_fold_unit_Inr)
qed

lemma validate_scope_yields: "yields (\<lambda>_. True) (validate_protected_scope protected)"
  unfolding validate_protected_scope_def by (intro yields_try_fold) (auto simp: Let_def)

lemma lowering_diagnostics_none:
  "list_all2 lowered operations fragments \<Longrightarrow> concat (map lowering_diagnostics (zip operations fragments)) = []"
  by (induction rule: list_all2_induct) (auto simp: lowering_diagnostics_def lowered_def)

lemma build_fragments_explained:
  assumes "list_all2 lowered (pd_operations draft) fragments" and "intents_served intents fragments"
  shows "explained draft (build_fragments keys baseline draft fragments intents)"
    and "build_fragments keys baseline draft fragments intents = Inr preview \<Longrightarrow> \<exists>ids. previewed keys baseline draft fragments intents ids preview"
proof -
  let ?current = "hb_snapshot baseline" and ?capacity = "hb_capacity_evidence baseline" and ?protected = "pd_protected_scope draft"
    and ?edges = "requested_order [] (enumerate 0 fragments)"
  have len: "length (pd_operations draft) = length fragments" using assms(1) by (rule list_all2_lengthD)
  have "explained draft (build_fragments keys baseline draft fragments intents)
    \<and> (build_fragments keys baseline draft fragments intents = Inr preview \<longrightarrow> (\<exists>ids. previewed keys baseline draft fragments intents ids preview))"
  proof (cases "fragment_action_ids fragments")
    case (Inl e)
    then show ?thesis using yields_not_panic [OF fragment_action_ids_assigned, of fragments]
      by (cases e) (auto simp: build_fragments_def explained_def map_fault_def)
  next
    case (Inr ids)
    note keys = yields_result [OF fragment_action_ids_assigned Inr]
    note src = source_map_entries [OF keys len]
    show ?thesis
    proof (cases "compose_plan_with_ordering ?current fragments ?edges ?capacity")
      case (Inl e)
      then show ?thesis using Inr src yields_not_panic [OF compose_composed, of ?current fragments ?edges ?capacity]
        by (cases e) (auto simp: build_fragments_def explained_def map_fault_def)
    next
      case plan: (Inr plan)
      note facts = compose_plan_facts [OF plan]
      note of = compose_plan_of [OF plan Inr]
      obtain simulation where sim: "replay_plan keys ?current plan ?capacity = Inr (plan, simulation)" using facts(5) by blast
      have origins: "try_fold (check_intent_origin intents) () (plan_actions plan) = Inr ()"
        using origins_known [OF assms(2)] of unfolding plan_of_def by blast
      show ?thesis
      proof (cases "validate_protected_scope ?protected")
        case (Inl e)
        then have "analyse_plan keys ?current plan intents ?capacity ?protected = Inl e" by (simp add: analyse_plan_def)
        then show ?thesis using Inl Inr src plan yields_not_panic [OF validate_scope_yields, of ?protected]
          by (cases e) (auto simp: build_fragments_def explained_def map_fault_def)
      next
        case scope: (Inr u)
        obtain report where report: "analyse_plan keys ?current plan intents ?capacity ?protected = Inr report"
          by (rule analysed_report [OF facts(1) sim, of ?protected intents]) (simp add: scope origins)
        have "build_fragments keys baseline draft fragments intents = Inr \<lparr>pv_plan = plan, pv_report = report,
            pv_source_map = source_entries ids (pd_operations draft) fragments,
            pv_request_coverage = map2 (\<lambda>operation f. request_coverage operation (map fa_operation (pf_actions f))) (pd_operations draft) fragments,
            pv_diagnostics = []\<rparr>"
          using Inr src plan report coverage_entries [OF of len] lowering_diagnostics_none [OF assms(1)]
          by (simp add: build_fragments_def)
        then show ?thesis using assms Inr plan report by (auto simp: explained_def previewed_def)
      qed
    qed
  qed
  then show "explained draft (build_fragments keys baseline draft fragments intents)"
    "build_fragments keys baseline draft fragments intents = Inr preview \<Longrightarrow> \<exists>ids. previewed keys baseline draft fragments intents ids preview"
    by blast+
qed

lemma build_preview_explained:
  "explained draft (build_preview keys baseline draft)"
  "build_preview keys baseline draft = Inr preview \<Longrightarrow> validate_draft baseline draft = Inr ()
    \<and> (\<exists>fragments intents ids. previewed keys baseline draft fragments intents ids preview)"
proof -
  have draft_error: "explained draft (Inl (fault.Failed e))" if "validate_draft baseline draft = Inl e" for e
    using that by (auto simp: validate_draft_def Let_def explained_def split: if_splits)
  have lower_error: "explained draft (Inl e)" if lower: "try_fold lower_next ([], []) (pd_operations draft) = Inl e" for e
  proof -
    obtain s x where "lower_next s x = Inl e" using try_fold_error [OF lower, of "\<lambda>_. True"] by blast
    then have "\<exists>ds. e = fault.Failed (DraftBuildError.Draft ds)"
      by (auto simp: lower_next_def and_then_Inl_iff map_err_Inl_iff Let_def split: prod.splits)
    then show ?thesis by (auto simp: explained_def)
  qed
  have "explained draft (build_preview keys baseline draft)
    \<and> (build_preview keys baseline draft = Inr preview \<longrightarrow> validate_draft baseline draft = Inr ()
        \<and> (\<exists>fragments intents ids. previewed keys baseline draft fragments intents ids preview))"
  proof (cases "validate_draft baseline draft")
    case (Inl e)
    then show ?thesis using draft_error by (simp add: build_preview_def)
  next
    case valid: (Inr u)
    show ?thesis
    proof (cases "try_fold lower_next ([], []) (pd_operations draft)")
      case (Inl e)
      then show ?thesis using lower_error valid by (simp add: build_preview_def)
    next
      case (Inr p)
      obtain intents fragments where p: "p = (intents, fragments)" by (cases p)
      then have "list_all2 lowered (pd_operations draft) fragments" "intents_served intents fragments"
        using yields_result [OF lower_drafts Inr] by simp_all
      from build_fragments_explained [OF this] show ?thesis using valid Inr p by (simp add: build_preview_def) blast
    qed
  qed
  then show "explained draft (build_preview keys baseline draft)"
    "build_preview keys baseline draft = Inr preview \<Longrightarrow> validate_draft baseline draft = Inr ()
      \<and> (\<exists>fragments intents ids. previewed keys baseline draft fragments intents ids preview)"
    by blast+
qed

lemma previewed_plan_of: "previewed keys baseline draft fragments intents ids preview \<Longrightarrow> plan_of ids fragments (pv_plan preview)"
  by (auto simp: previewed_def intro: compose_plan_of)

lemma previewed_covered:
  assumes "previewed keys baseline draft fragments intents ids preview" and "c \<in> set (pv_request_coverage preview)"
  shows "rc_covered c"
  using assms by (auto simp: previewed_def lowered_def list_all2_conv_all_nth in_set_zip)

lemma cover_intent_mono: "actions_cover_intent intent xs \<Longrightarrow> set xs \<subseteq> set ys \<Longrightarrow> actions_cover_intent intent ys"
  by (auto simp: actions_cover_intent_def split: OperationIntent.splits)

lemma analysed_fields:
  assumes "analyse_plan keys current plan intents capacity protected = Inr report"
  shows "rep_goal_checks report = []"
    and "\<exists>ordered. ordered_actions plan = Some ordered \<and> rep_intent_coverage report = map (intent_coverage ordered) (enumerate 0 intents)"
  using assms by (auto simp: analyse_plan_def and_then_Inr_iff ok_or_Inr_iff Let_def)

lemma previewed_intents:
  assumes "previewed keys baseline draft fragments intents ids preview" and "c \<in> set (rep_intent_coverage (pv_report preview))"
  shows "ic_covered c"
proof -
  note of = previewed_plan_of [OF assms(1)]
  have report: "analyse_plan keys (hb_snapshot baseline) (pv_plan preview) intents (hb_capacity_evidence baseline)
      (pd_protected_scope draft) = Inr (pv_report preview)" and served: "intents_served intents fragments"
    and wf: "plan_wf (pv_plan preview)"
    using assms(1) of by (simp_all add: previewed_def plan_of_def)
  obtain ordered where o: "ordered_actions (pv_plan preview) = Some ordered"
    and cov: "rep_intent_coverage (pv_report preview) = map (intent_coverage ordered) (enumerate 0 intents)"
    using analysed_fields(2) [OF report] by blast
  have same: "set ordered = set (plan_actions (pv_plan preview))"
  proof -
    obtain order where "topological_order (length (plan_actions (pv_plan preview))) (plan_dependencies (pv_plan preview)) = Inr order"
      using wf by (auto simp: plan_wf_def)
    from plan_wf_ordered(1,3) [OF wf this] have "mset ordered = mset (plan_actions (pv_plan preview))" using o by (metis option.inject)
    then show ?thesis by (rule mset_eq_setD)
  qed
  obtain k where k: "k < length intents" "c = intent_coverage ordered (k, intents ! k)"
    using assms(2) unfolding cov by (auto simp: in_set_enumerate_eq)
  obtain f where f: "f \<in> set fragments" "pf_origin f = FragmentOrigin.Intent k"
    "actions_cover_intent (intents ! k) (map fa_operation (pf_actions f))"
    using served k(1) unfolding intents_served_def by blast
  obtain i where i: "i < length fragments" "fragments ! i = f" using f(1) by (metis in_set_conv_nth)
  have "fa_operation a \<in> set (map pa_operation (filter (\<lambda>p. pa_origin p = FragmentOrigin.Intent k) ordered))"
    if "a \<in> set (pf_actions f)" for a
    by (rule planned_at [OF of i(1)]) (use that i(2) f(2) same in \<open>auto simp: planned_view_def intro!: rev_image_eqI\<close>)
  then have "actions_cover_intent (intents ! k) (map pa_operation (filter (\<lambda>p. pa_origin p = FragmentOrigin.Intent k) ordered))"
    by (intro cover_intent_mono [OF f(3)]) auto
  then show ?thesis using k(2) by (simp add: intent_coverage_def Let_def)
qed

text \<open>So a calculated preview is blocked by protection violations only.\<close>

lemma previewed_blocked:
  assumes "previewed keys baseline draft fragments intents ids preview"
  shows "preview_status preview = PreviewStatus.Blocked \<longleftrightarrow> rep_protection_violations (pv_report preview) \<noteq> []"
proof -
  have "rep_goal_checks (pv_report preview) = []"
    using assms analysed_fields(1) unfolding previewed_def by blast
  then show ?thesis
    using assms previewed_covered [OF assms] previewed_intents [OF assms]
    by (auto simp: preview_status_def list_ex_iff previewed_def)
qed

section \<open>The order of the user\<close>

lemma requested_order_adjacent:
  assumes "pf_actions (snd p) \<noteq> []" and "before \<in> set sinks" and "after \<in> set (fragment_roots p)"
  shows "\<lparr>fo_before = before, fo_after = after, fo_reason = DependencyReason.RequestedOrder\<rparr> \<in> set (requested_order sinks (p # rest))"
  using assms by auto

lemma requested_order_later:
  assumes "\<forall>p \<in> set (xs @ [q]). pf_actions (snd p) \<noteq> []"
  shows "set (requested_order (fragment_sinks q) rest) \<subseteq> set (requested_order sinks (xs @ q # rest))"
  using assms by (induction xs arbitrary: sinks) (auto simp: subset_iff)

lemma enumerate_split:
  assumes "Suc i < length xs"
  shows "enumerate 0 xs = enumerate 0 (take i xs) @ (i, xs ! i) # (Suc i, xs ! Suc i) # enumerate (Suc (Suc i)) (drop (Suc (Suc i)) xs)"
proof -
  have "xs = take i xs @ xs ! i # xs ! Suc i # drop (Suc (Suc i)) xs"
    using assms by (metis Cons_nth_drop_Suc Suc_lessD append_take_drop_id)
  then have "enumerate 0 xs = enumerate 0 (take i xs @ xs ! i # xs ! Suc i # drop (Suc (Suc i)) xs)" by simp
  then show ?thesis using assms by (simp add: enumerate_append_eq)
qed

lemma requested_order_next:
  assumes "\<forall>f \<in> set fragments. pf_actions f \<noteq> []" and "Suc i < length fragments"
    and "before \<in> set (fragment_sinks (i, fragments ! i))" and "after \<in> set (fragment_roots (Suc i, fragments ! Suc i))"
  shows "\<lparr>fo_before = before, fo_after = after, fo_reason = DependencyReason.RequestedOrder\<rparr>
    \<in> set (requested_order [] (enumerate 0 fragments))"
proof -
  have all: "\<forall>p \<in> set (enumerate 0 fragments). pf_actions (snd p) \<noteq> []" using assms(1) by (auto simp: in_set_enumerate_eq)
  have "\<lparr>fo_before = before, fo_after = after, fo_reason = DependencyReason.RequestedOrder\<rparr>
      \<in> set (requested_order (fragment_sinks (i, fragments ! i))
          ((Suc i, fragments ! Suc i) # enumerate (Suc (Suc i)) (drop (Suc (Suc i)) fragments)))"
    using assms by (intro requested_order_adjacent) simp_all
  moreover have "\<forall>p \<in> set (enumerate 0 (take i fragments) @ [(i, fragments ! i)]). pf_actions (snd p) \<noteq> []"
    using all unfolding enumerate_split [OF assms(2)] by simp
  ultimately show ?thesis
    unfolding enumerate_split [OF assms(2)] using requested_order_later by blast
qed

text \<open>The explicit orderings become dependencies of the plan.\<close>

lemma bind_orderings_run:
  assumes "try_fold (bind_ordering endpoints) deps es = Inr deps'"
  shows "set (action_edges deps) \<subseteq> set (action_edges deps')
    \<and> (\<forall>e \<in> set es. \<exists>a b. endpoints (fo_before e) = Some a \<and> endpoints (fo_after e) = Some b \<and> (a, b) \<in> set (action_edges deps'))"
  using assms
proof (induction es arbitrary: deps)
  case Nil
  then show ?case by simp
next
  case (Cons e es)
  then obtain d where d: "bind_ordering endpoints deps e = Inr d" and rest: "try_fold (bind_ordering endpoints) d es = Inr deps'"
    by (auto split: sum.splits)
  then obtain a b where "endpoints (fo_before e) = Some a" "endpoints (fo_after e) = Some b"
    "set (action_edges d) = insert (a, b) (set (action_edges deps))"
    by (auto simp: bind_ordering_def and_then_Inr_iff ok_or_Inr_iff dest: add_dependency_Inr(2))
  then show ?case using Cons.IH [OF rest] by auto
qed

text \<open>An action of the draft of the composer is the one with its fragment and local identifier.\<close>

lemma drafted_identity:
  assumes compose: "compose_plan_with_ordering current fragments order_edges capacity = Inr plan"
    and c: "composed current capacity draft final plan" and of: "plan_of ids fragments plan"
    and a: "i < length fragments" "a \<in> set (pf_actions (fragments ! i))"
    and d: "d \<in> set draft" "da_fragment d = FragmentId (of_nat i)" "da_local_id d = fa_id a"
  shows "ids (i, fa_id a) = Some (da_id d)"
proof (rule planned_at [OF of a])
  fix p
  assume p: "p \<in> set (plan_actions plan)" "ids (i, fa_id a) = Some (pa_id p)"
    "planned_view p = (FragmentId (of_nat i), fa_id a, fa_operation a, pf_origin (fragments ! i))"
  obtain q where q: "q \<in> set (plan_actions plan)" "frozen_as (ao_contracts final) d q" using composed_frozen [OF c d(1)] by blast
  have "(pa_fragment q, pa_local_id q) = (pa_fragment p, pa_local_id p)" using q(2) d(2,3) p(3) by (simp add: frozen_as_def planned_view_def)
  then have "q = p" using composed_identities(1) [OF compose] p(1) q(1) by (auto simp: distinct_map dest: inj_onD)
  then show ?thesis using p(2) q(2) by (simp add: frozen_as_def)
qed

lemma declared_edge:
  assumes compose: "compose_plan_with_ordering current fragments order_edges capacity = Inr plan" and of: "plan_of ids fragments plan"
    and i: "i < length fragments" and d: "d \<in> set (pf_dependencies (fragments ! i))"
    and a: "a \<in> set (pf_actions (fragments ! i))" "fd_before d = fa_id a"
    and b: "b \<in> set (pf_actions (fragments ! i))" "fd_after d = fa_id b"
  shows "(the (ids (i, fa_id a)), the (ids (i, fa_id b))) \<in> set (action_edges (plan_dependencies plan))"
proof (rule compose_result [OF compose])
  fix flat final
  assume flat: "flatten_fragments fragments = Inr flat" and c: "composed current capacity (ff_actions flat) final plan"
    and sub: "set (action_edges (ff_dependencies flat)) \<subseteq> set (action_edges (plan_dependencies plan))"
  show ?thesis
  proof (rule flatten_fragments_keeps [OF flat])
    fix ids'
    assume drafted: "ids_of_draft ids' (ff_actions flat)" and "\<forall>p \<in> set (enumerate 0 fragments). linked ids' p (ff_dependencies flat)"
    then have "linked ids' (i, fragments ! i) (ff_dependencies flat)" using i by (auto simp: in_set_enumerate_eq)
    then obtain x y where xy: "ids' (i, fa_id a) = Some x" "ids' (i, fa_id b) = Some y" "(x, y) \<in> set (action_edges (ff_dependencies flat))"
      using d a(2) b(2) by (fastforce simp: linked_def)
    have "ids (i, fa_id e) = Some z" if "ids' (i, fa_id e) = Some z" and e: "e \<in> set (pf_actions (fragments ! i))" for e z
      using drafted [unfolded ids_of_draft_def, rule_format, OF that(1)] drafted_identity [OF compose c of i e] by blast
    then show ?thesis using xy a(1) b(1) sub by fastforce
  qed
qed

lemma ordering_edge:
  assumes compose: "compose_plan_with_ordering current fragments order_edges capacity = Inr plan" and of: "plan_of ids fragments plan"
    and e: "e \<in> set order_edges"
    and a: "i < length fragments" "a \<in> set (pf_actions (fragments ! i))" "fo_before e = \<lparr>far_fragment = FragmentId (of_nat i), far_action = fa_id a\<rparr>"
    and b: "j < length fragments" "b \<in> set (pf_actions (fragments ! j))" "fo_after e = \<lparr>far_fragment = FragmentId (of_nat j), far_action = fa_id b\<rparr>"
  shows "(the (ids (i, fa_id a)), the (ids (j, fa_id b))) \<in> set (action_edges (plan_dependencies plan))"
proof (rule compose_ordering_bound [OF compose])
  fix flat final deps
  assume bound: "try_fold (bind_ordering (draft_endpoints (ff_actions flat))) (ff_dependencies flat) order_edges = Inr deps"
    and sub: "set (action_edges deps) \<subseteq> set (action_edges (plan_dependencies plan))"
    and c: "composed current capacity (ff_actions flat) final plan"
  obtain x y where xy: "draft_endpoints (ff_actions flat) (fo_before e) = Some x" "draft_endpoints (ff_actions flat) (fo_after e) = Some y"
    "(x, y) \<in> set (action_edges deps)"
    using bind_orderings_run [OF bound] e by blast
  have "ids (k, fa_id l) = Some z" if k: "k < length fragments" "l \<in> set (pf_actions (fragments ! k))"
    and z: "draft_endpoints (ff_actions flat) \<lparr>far_fragment = FragmentId (of_nat k), far_action = fa_id l\<rparr> = Some z" for k l z
    using map_of_SomeD [OF z [unfolded draft_endpoints_def]] drafted_identity [OF compose c of k] by auto
  then show ?thesis using xy a b sub by fastforce
qed

text \<open>The first and the last action of a lowered request.\<close>

lemma lowered_ends:
  assumes "lowered operation f"
  shows "pf_actions f \<noteq> []"
    and "\<lparr>far_fragment = FragmentId (of_nat i), far_action = fa_id (hd (pf_actions f))\<rparr> \<in> set (fragment_roots (i, f))"
    and "\<lparr>far_fragment = FragmentId (of_nat i), far_action = fa_id (last (pf_actions f))\<rparr> \<in> set (fragment_sinks (i, f))"
    and "a \<in> set (pf_actions f) \<Longrightarrow> a = last (pf_actions f)
      \<or> (\<exists>d \<in> set (pf_dependencies f). fd_before d = fa_id a \<and> fd_after d = fa_id (last (pf_actions f)))"
    and "a \<in> set (pf_actions f) \<Longrightarrow> a = hd (pf_actions f)
      \<or> (\<exists>d \<in> set (pf_dependencies f). fd_before d = fa_id (hd (pf_actions f)) \<and> fd_after d = fa_id a)"
  using assms by (auto simp: lowered_def fragment_roots_def fragment_sinks_def)

lemma previewed_order:
  assumes "previewed keys baseline draft fragments intents ids preview" and "i < j" "j < length fragments"
    and "x \<in> set (own ids i (fragments ! i))" "y \<in> set (own ids j (fragments ! j))"
  shows "(x, y) \<in> (set (action_edges (plan_dependencies (pv_plan preview))))\<^sup>+"
proof -
  let ?E = "set (action_edges (plan_dependencies (pv_plan preview)))"
  let ?id = "\<lambda>i a. the (ids (i, fa_id a))" and ?first = "\<lambda>i. hd (pf_actions (fragments ! i))" and ?last = "\<lambda>i. last (pf_actions (fragments ! i))"
  note of = previewed_plan_of [OF assms(1)]
  have compose: "compose_plan_with_ordering (hb_snapshot baseline) fragments (requested_order [] (enumerate 0 fragments))
      (hb_capacity_evidence baseline) = Inr (pv_plan preview)" and low: "list_all2 lowered (pd_operations draft) fragments"
    using assms(1) by (simp_all add: previewed_def)
  have ends: "\<exists>operation. lowered operation (fragments ! k)" if "k < length fragments" for k
    using low that by (auto simp: list_all2_conv_all_nth)
  have nonempty: "pf_actions (fragments ! k) \<noteq> []" if "k < length fragments" for k using ends [OF that] lowered_ends(1) by blast
  have step: "(?id k (?last k), ?id (Suc k) (?first (Suc k))) \<in> ?E" if k: "Suc k < length fragments" for k
  proof (rule ordering_edge [OF compose of])
    show "\<lparr>fo_before = \<lparr>far_fragment = FragmentId (of_nat k), far_action = fa_id (?last k)\<rparr>,
        fo_after = \<lparr>far_fragment = FragmentId (of_nat (Suc k)), far_action = fa_id (?first (Suc k))\<rparr>,
        fo_reason = DependencyReason.RequestedOrder\<rparr> \<in> set (requested_order [] (enumerate 0 fragments))"
      using nonempty ends [OF k] ends [of k] k lowered_ends(2,3)
      by (intro requested_order_next) (auto simp: in_set_conv_nth simp del: of_nat_Suc)
  qed (use nonempty k in auto)
  have from_first: "a = ?first k \<or> (?id k (?first k), ?id k a) \<in> ?E"
    and to_last: "a = ?last k \<or> (?id k a, ?id k (?last k)) \<in> ?E"
    if k: "k < length fragments" and a: "a \<in> set (pf_actions (fragments ! k))" for k a
    using ends [OF k] lowered_ends(4,5) [OF _ a] declared_edge [OF compose of k _ a] declared_edge [OF compose of k] nonempty [OF k] a
    by (metis hd_in_set, metis last_in_set)
  have within: "(?id k (?first k), ?id k (?last k)) \<in> ?E\<^sup>*" if k: "k < length fragments" for k
    using from_first [OF k, of "?last k"] nonempty [OF k] by (metis last_in_set r_into_rtrancl rtrancl.rtrancl_refl)
  have "(?id i (?last i), ?id j (?first j)) \<in> ?E\<^sup>+" using assms(2,3)
  proof (induction j)
    case 0
    then show ?case by simp
  next
    case (Suc j)
    show ?case
    proof (cases "i = j")
      case True
      then show ?thesis using step Suc.prems(2) by blast
    next
      case False
      then have "(?id i (?last i), ?id j (?last j)) \<in> ?E\<^sup>+"
        using Suc within [of j] by (auto intro: trancl_rtrancl_trancl)
      then show ?thesis using step [OF Suc.prems(2)] by (rule trancl_into_trancl)
    qed
  qed
  moreover obtain a where a: "a \<in> set (pf_actions (fragments ! i))" "x = ?id i a" using assms(4) by (auto simp: own_def)
  moreover obtain b where b: "b \<in> set (pf_actions (fragments ! j))" "y = ?id j b" using assms(5) by (auto simp: own_def)
  moreover have "(x, ?id i (?last i)) \<in> ?E\<^sup>*" using to_last [OF _ a(1)] a(2) assms(2,3) by auto
  moreover have "(?id j (?first j), y) \<in> ?E\<^sup>*" using from_first [OF _ b(1)] b(2) assms(3) by auto
  ultimately show ?thesis by (meson rtrancl_trancl_trancl trancl_rtrancl_trancl)
qed

section \<open>Every action belongs to one request\<close>

lemma source_map_partition:
  assumes "plan_of ids fragments plan"
  shows "concat (map oa_actions (source_entries ids operations fragments)) = map pa_id (plan_actions plan)"
proof -
  have keys: "assigned (all_keys fragments) (ids, length (all_keys fragments))" and wf: "plan_wf plan"
    and view: "map planned_view (plan_actions plan) = requested_actions fragments" using assms by (simp_all add: plan_of_def)
  have enum: "enumerate 0 fragments = map (\<lambda>i. (i, fragments ! i)) [0..<length fragments]"
    by (auto simp: enumerate_eq_zip intro!: nth_equalityI)
  have "concat (map oa_actions (source_entries ids operations fragments)) = map (\<lambda>k. the (ids k)) (all_keys fragments)"
    by (simp add: source_entries_def own_def all_keys_def enum fragment_keys_def [abs_def] map_concat comp_def)
  also have "\<dots> = map action_of_index [0..<length (all_keys fragments)]"
    using assigned_lookup [OF keys] by (auto intro!: nth_equalityI)
  also have "length (all_keys fragments) = length (plan_actions plan)"
    using arg_cong [OF view, of length] by (simp add: flat_requested flat_keys)
  also have "map action_of_index [0..<length (plan_actions plan)] = map pa_id (plan_actions plan)"
    using wf by (simp add: plan_wf_def)
  finally show ?thesis .
qed

end
