(* ===== verification/Session_Correct.thy ===== *)
theory Session_Correct
  imports Plan_Session Draft_Preview Machine Correlate_Correct
begin

text \<open>
  Editing sessions as objects whose calls succeed or leave them alone: the invariant of a
  session, that every call keeps it, and what removal and history do to the draft.
\<close>

section \<open>Calls and their invariant\<close>

datatype SessionCall =
    Edit OperationId NodeId DraftRevision PlanEdit
  | SetCreatedLvSize DraftRevision OperationId Bytes
  | SetCreatedPartitionExtent DraftRevision OperationId Bytes Bytes
  | SetResizeSize DraftRevision OperationId Bytes
  | Undo DraftRevision
  | Redo DraftRevision
  | SetHistoryLimit nat
  | AcceptRebase DraftRevision DraftRevision HistoricalBaseline PlanSession

datatype SessionError = Editing "EditError fault" | Rebasing "RebaseError fault"

definition reply :: "('e \<Rightarrow> SessionError) \<Rightarrow> ('r \<Rightarrow> DraftRevision) \<Rightarrow> ('e, 'r) result \<times> PlanSession \<Rightarrow>
    (SessionError, DraftRevision) result \<times> PlanSession" where
  "reply err revision p = (map_err err (and_then (fst p) (\<lambda>r. Inr (revision r))), snd p)"

text \<open>
  A call on a session. A review of a rebase is one that was prepared from some session, with
  some expected revision and baseline: reviews cannot be made in any other way.
\<close>

definition call_session :: "ContractKeys \<Rightarrow> SessionCall \<Rightarrow> PlanSession \<Rightarrow> (SessionError, DraftRevision) result \<times> PlanSession" where
  "call_session keys c s = (case c of
      SessionCall.Edit fresh fresh_node expected edit \<Rightarrow> reply SessionError.Editing rcp_revision (session_edit keys fresh fresh_node expected edit s)
    | SessionCall.SetCreatedLvSize expected operation sz \<Rightarrow> reply SessionError.Editing rcp_revision (set_created_lv_size keys expected operation sz s)
    | SessionCall.SetCreatedPartitionExtent expected operation offset sz \<Rightarrow>
        reply SessionError.Editing rcp_revision (set_created_partition_extent keys expected operation offset sz s)
    | SessionCall.SetResizeSize expected operation sz \<Rightarrow> reply SessionError.Editing rcp_revision (set_resize_size keys expected operation sz s)
    | SessionCall.Undo expected \<Rightarrow> reply SessionError.Editing id (session_undo keys expected s)
    | SessionCall.Redo expected \<Rightarrow> reply SessionError.Editing id (session_redo keys expected s)
    | SessionCall.SetHistoryLimit limit \<Rightarrow> (Inr (ses_revision s), set_history_limit limit s)
    | SessionCall.AcceptRebase expected prepared baseline source \<Rightarrow> (case prepare_rebase keys prepared baseline source of
          Inl e \<Rightarrow> (Inl (SessionError.Rebasing e), s)
        | Inr review \<Rightarrow> reply SessionError.Rebasing id (accept_rebase expected review s)))"

definition bounded_draft :: "PlanDraft \<Rightarrow> bool" where
  "bounded_draft draft \<longleftrightarrow> length (pd_operations draft) \<le> MAX_DRAFT_OPERATIONS"

definition session_inv :: "ContractKeys \<Rightarrow> PlanSession \<Rightarrow> bool" where
  "session_inv keys s \<longleftrightarrow> preview_of (build_preview keys (ses_baseline s) (ses_draft s)) = Inr (ses_preview s)
     \<and> length (ses_undo s) \<le> ses_history_limit s \<and> length (ses_redo s) \<le> ses_history_limit s
     \<and> bounded_draft (ses_draft s) \<and> (\<forall>d \<in> set (ses_undo s) \<union> set (ses_redo s). bounded_draft d)"

section \<open>Edits\<close>

lemma position_Some: "position P xs = Some i \<Longrightarrow> i < length xs \<and> P (xs ! i)"
  by (induction xs arbitrary: i) (auto split: if_splits)

lemma operation_index_Inr: "operation_index operations x = Inr i \<Longrightarrow> i < length operations \<and> po_id (operations ! i) = x"
  using position_Some by (auto simp: operation_index_def ok_or_Inr_iff)

lemma push_history_length: "length history \<le> limit \<Longrightarrow> length (push_history history draft limit) \<le> limit"
  by (cases history) (auto simp: push_history_def)

lemma set_push_history: "set (push_history history draft limit) \<subseteq> insert draft (set history)"
  by (auto simp: push_history_def dest: list.set_sel(2) [rotated])

lemma length_remove_at: "i < length xs \<Longrightarrow> length (remove_at i xs) = length xs - 1"
  by (simp add: remove_at_def min_def)

lemma length_insert_at: "i \<le> length xs \<Longrightarrow> length (insert_at i x xs) = Suc (length xs)"
  by (simp add: insert_at_def min_def)

lemma move_before_length: "move_before operations x before = Inr rest \<Longrightarrow> length rest = length operations"
  by (fastforce simp: move_before_def and_then_Inr_iff Let_def length_insert_at length_remove_at
      dest!: operation_index_Inr split: if_splits option.splits)

lemma apply_edit_bounded:
  assumes "apply_edit fresh fresh_node edit draft = Inr (candidate, added, created)" and "bounded_draft draft"
  shows "bounded_draft candidate"
proof (cases edit)
  case (MoveBefore x before)
  then show ?thesis using assms by (auto simp: apply_edit_def and_then_Inr_iff bounded_draft_def dest!: move_before_length)
next
  case (Remove xs)
  then show ?thesis using assms
    by (auto simp: apply_edit_def and_then_Inr_iff bounded_draft_def remove_operations_def Let_def split: if_splits
        intro: order_trans [OF length_filter_le])
qed (use assms in \<open>auto simp: apply_edit_def and_then_Inr_iff bounded_draft_def Let_def split: if_splits\<close>)

lemma check_revision_Inr:
  "check_revision s expected = Inr revision \<longleftrightarrow> expected = ses_revision s \<and> revision_next (ses_revision s) = Some revision"
  by (auto simp: check_revision_def ok_or_Inr_iff)

lemma build_candidate_Inr:
  "build_candidate keys s candidate = Inr preview \<longleftrightarrow> preview_of (build_preview keys (ses_baseline s) candidate) = Inr preview"
  by (simp add: build_candidate_def map_err_Inr_iff)

lemma publishing_iff:
  "publishing r s = (Inl e, t) \<longleftrightarrow> r = Inl e \<and> t = s" "publishing r s = (Inr x, t) \<longleftrightarrow> r = Inr (x, t)"
  by (auto simp: publishing_def split: sum.split prod.split)

lemma session_edit_Inr:
  assumes "session_edit keys fresh fresh_node expected edit s = (Inr receipt, t)"
  obtains revision candidate added created preview where "check_revision s expected = Inr revision"
    and "apply_edit fresh fresh_node edit (ses_draft s) = Inr (candidate, added, created)"
    and "build_candidate keys s candidate = Inr preview"
    and "receipt = \<lparr>rcp_revision = revision, rcp_added_operation = added, rcp_created_node = created\<rparr>"
    and "t = s\<lparr>ses_undo := push_history (ses_undo s) (ses_draft s) (ses_history_limit s), ses_draft := candidate,
            ses_redo := [], ses_preview := preview, ses_revision := revision\<rparr>"
  using assms unfolding session_edit_def publishing_iff by (auto simp: and_then_Inr_iff map_err_Inr_iff)

lemma session_undo_Inr:
  "session_undo keys expected s = (Inr revision, t) \<longleftrightarrow> check_revision s expected = Inr revision \<and> ses_undo s \<noteq> []
     \<and> (\<exists>preview. build_candidate keys s (last (ses_undo s)) = Inr preview
        \<and> t = s\<lparr>ses_undo := butlast (ses_undo s), ses_redo := push_history (ses_redo s) (ses_draft s) (ses_history_limit s),
            ses_draft := last (ses_undo s), ses_preview := preview, ses_revision := revision\<rparr>)"
  unfolding session_undo_def publishing_iff by (auto simp: and_then_Inr_iff map_err_Inr_iff ok_or_Inr_iff)

lemma session_redo_Inr:
  "session_redo keys expected s = (Inr revision, t) \<longleftrightarrow> check_revision s expected = Inr revision \<and> ses_redo s \<noteq> []
     \<and> (\<exists>preview. build_candidate keys s (last (ses_redo s)) = Inr preview
        \<and> t = s\<lparr>ses_redo := butlast (ses_redo s), ses_undo := push_history (ses_undo s) (ses_draft s) (ses_history_limit s),
            ses_draft := last (ses_redo s), ses_preview := preview, ses_revision := revision\<rparr>)"
  unfolding session_redo_def publishing_iff by (auto simp: and_then_Inr_iff map_err_Inr_iff ok_or_Inr_iff)

section \<open>Outcomes of calls\<close>

text \<open>
  A successful call either changes the retention of history, or publishes a draft with its own
  preview under the next revision.
\<close>

definition published :: "ContractKeys \<Rightarrow> PlanSession \<Rightarrow> PlanSession \<Rightarrow> bool" where
  "published keys s t \<longleftrightarrow> ses_id t = ses_id s \<and> ses_history_limit t = ses_history_limit s
     \<and> revision_next (ses_revision s) = Some (ses_revision t)
     \<and> preview_of (build_preview keys (ses_baseline t) (ses_draft t)) = Inr (ses_preview t)
     \<and> (bounded_draft (ses_draft s) \<and> (\<forall>d \<in> set (ses_undo s) \<union> set (ses_redo s). bounded_draft d) \<longrightarrow>
          bounded_draft (ses_draft t) \<and> (\<forall>d \<in> set (ses_undo t) \<union> set (ses_redo t). bounded_draft d))
     \<and> (length (ses_undo s) \<le> ses_history_limit s \<and> length (ses_redo s) \<le> ses_history_limit s \<longrightarrow>
          length (ses_undo t) \<le> ses_history_limit t \<and> length (ses_redo t) \<le> ses_history_limit t)"

lemma bounded_push: "bounded_draft draft \<Longrightarrow> \<forall>d \<in> set history. bounded_draft d \<Longrightarrow> \<forall>d \<in> set (push_history history draft limit). bounded_draft d"
  using set_push_history by blast

lemma published_history:
  assumes "revision_next (ses_revision s) = Some revision" and "preview_of (build_preview keys (ses_baseline s) candidate) = Inr preview"
    and "bounded_draft (ses_draft s) \<Longrightarrow> \<forall>d \<in> set (ses_undo s) \<union> set (ses_redo s). bounded_draft d \<Longrightarrow>
      bounded_draft candidate \<and> (\<forall>d \<in> set undo \<union> set redo. bounded_draft d)"
    and "length (ses_undo s) \<le> ses_history_limit s \<Longrightarrow> length (ses_redo s) \<le> ses_history_limit s \<Longrightarrow>
      length undo \<le> ses_history_limit s \<and> length redo \<le> ses_history_limit s"
  shows "published keys s (s\<lparr>ses_undo := undo, ses_redo := redo, ses_draft := candidate, ses_preview := preview, ses_revision := revision\<rparr>)"
  using assms by (simp add: published_def)

lemma session_edit_published:
  assumes "session_edit keys fresh fresh_node expected edit s = (r, t)"
  shows "(\<exists>e. r = Inl e) \<and> t = s \<or> (\<exists>receipt. r = Inr receipt \<and> rcp_revision receipt = ses_revision t \<and> expected = ses_revision s) \<and> published keys s t"
proof (cases r)
  case (Inl e)
  then show ?thesis using assms unfolding session_edit_def Inl publishing_iff by simp
next
  case (Inr receipt)
  from assms [unfolded Inr] show ?thesis
  proof (rule session_edit_Inr)
    fix revision candidate added created preview
    assume run: "check_revision s expected = Inr revision"
      "apply_edit fresh fresh_node edit (ses_draft s) = Inr (candidate, added, created)" "build_candidate keys s candidate = Inr preview"
      and t: "receipt = \<lparr>rcp_revision = revision, rcp_added_operation = added, rcp_created_node = created\<rparr>"
        "t = s\<lparr>ses_undo := push_history (ses_undo s) (ses_draft s) (ses_history_limit s), ses_draft := candidate,
              ses_redo := [], ses_preview := preview, ses_revision := revision\<rparr>"
    have "published keys s (s\<lparr>ses_undo := push_history (ses_undo s) (ses_draft s) (ses_history_limit s), ses_redo := [],
        ses_draft := candidate, ses_preview := preview, ses_revision := revision\<rparr>)"
    proof (rule published_history)
      show "revision_next (ses_revision s) = Some revision" "preview_of (build_preview keys (ses_baseline s) candidate) = Inr preview"
        using run by (simp_all add: check_revision_Inr build_candidate_Inr)
      show "bounded_draft candidate \<and> (\<forall>d \<in> set (push_history (ses_undo s) (ses_draft s) (ses_history_limit s)) \<union> set []. bounded_draft d)"
        if "bounded_draft (ses_draft s)" "\<forall>d \<in> set (ses_undo s) \<union> set (ses_redo s). bounded_draft d"
        using apply_edit_bounded [OF run(2) that(1)] bounded_push [OF that(1), of "ses_undo s" "ses_history_limit s"] that(2) by simp
    qed (simp add: push_history_length)
    also have "s\<lparr>ses_undo := push_history (ses_undo s) (ses_draft s) (ses_history_limit s), ses_redo := [],
        ses_draft := candidate, ses_preview := preview, ses_revision := revision\<rparr> = t" unfolding t(2) by (cases s) simp
    finally show ?thesis using Inr run(1) t by (simp add: check_revision_Inr)
  qed
qed

lemma session_undo_published:
  assumes "session_undo keys expected s = (r, t)"
  shows "(\<exists>e. r = Inl e) \<and> t = s \<or> r = Inr (ses_revision t) \<and> expected = ses_revision s \<and> published keys s t"
proof (cases r)
  case (Inl e)
  then show ?thesis using assms unfolding session_undo_def Inl publishing_iff by simp
next
  case (Inr revision)
  then obtain preview where run: "check_revision s expected = Inr revision" "ses_undo s \<noteq> []"
      "build_candidate keys s (last (ses_undo s)) = Inr preview"
    and t: "t = s\<lparr>ses_undo := butlast (ses_undo s), ses_redo := push_history (ses_redo s) (ses_draft s) (ses_history_limit s),
      ses_draft := last (ses_undo s), ses_preview := preview, ses_revision := revision\<rparr>"
    using assms unfolding Inr session_undo_Inr by blast
  have "published keys s t"
    unfolding t
  proof (rule published_history)
    show "revision_next (ses_revision s) = Some revision" "preview_of (build_preview keys (ses_baseline s) (last (ses_undo s))) = Inr preview"
      using run by (simp_all add: check_revision_Inr build_candidate_Inr)
    show "bounded_draft (last (ses_undo s)) \<and> (\<forall>d \<in> set (butlast (ses_undo s))
        \<union> set (push_history (ses_redo s) (ses_draft s) (ses_history_limit s)). bounded_draft d)"
      if "bounded_draft (ses_draft s)" "\<forall>d \<in> set (ses_undo s) \<union> set (ses_redo s). bounded_draft d"
      using bounded_push [OF that(1), of "ses_redo s" "ses_history_limit s"] that(2) run(2) by (auto dest: in_set_butlastD)
  qed (simp add: push_history_length)
  then show ?thesis using Inr run(1) t by (simp add: check_revision_Inr)
qed

lemma session_redo_published:
  assumes "session_redo keys expected s = (r, t)"
  shows "(\<exists>e. r = Inl e) \<and> t = s \<or> r = Inr (ses_revision t) \<and> expected = ses_revision s \<and> published keys s t"
proof (cases r)
  case (Inl e)
  then show ?thesis using assms unfolding session_redo_def Inl publishing_iff by simp
next
  case (Inr revision)
  then obtain preview where run: "check_revision s expected = Inr revision" "ses_redo s \<noteq> []"
      "build_candidate keys s (last (ses_redo s)) = Inr preview"
    and t: "t = s\<lparr>ses_redo := butlast (ses_redo s), ses_undo := push_history (ses_undo s) (ses_draft s) (ses_history_limit s),
      ses_draft := last (ses_redo s), ses_preview := preview, ses_revision := revision\<rparr>"
    using assms unfolding Inr session_redo_Inr by blast
  have "published keys s (s\<lparr>ses_undo := push_history (ses_undo s) (ses_draft s) (ses_history_limit s), ses_redo := butlast (ses_redo s),
      ses_draft := last (ses_redo s), ses_preview := preview, ses_revision := revision\<rparr>)"
  proof (rule published_history)
    show "revision_next (ses_revision s) = Some revision" "preview_of (build_preview keys (ses_baseline s) (last (ses_redo s))) = Inr preview"
      using run by (simp_all add: check_revision_Inr build_candidate_Inr)
    show "bounded_draft (last (ses_redo s)) \<and> (\<forall>d \<in> set (push_history (ses_undo s) (ses_draft s) (ses_history_limit s))
        \<union> set (butlast (ses_redo s)). bounded_draft d)"
      if "bounded_draft (ses_draft s)" "\<forall>d \<in> set (ses_undo s) \<union> set (ses_redo s). bounded_draft d"
      using bounded_push [OF that(1), of "ses_undo s" "ses_history_limit s"] that(2) run(2) by (auto dest: in_set_butlastD)
  qed (simp add: push_history_length)
  also have "s\<lparr>ses_undo := push_history (ses_undo s) (ses_draft s) (ses_history_limit s), ses_redo := butlast (ses_redo s),
      ses_draft := last (ses_redo s), ses_preview := preview, ses_revision := revision\<rparr> = t" unfolding t by (cases s) simp
  finally show ?thesis using Inr run(1) t by (simp add: check_revision_Inr)
qed

lemma change_request_published:
  assumes "change_request keys expected operation change s = (r, t)"
  shows "(\<exists>e. r = Inl e) \<and> t = s \<or> (\<exists>receipt. r = Inr receipt \<and> rcp_revision receipt = ses_revision t \<and> expected = ses_revision s) \<and> published keys s t"
  using assms session_edit_published [of keys "OperationId 0" "NodeId 0" expected _ s r t]
  by (auto simp: change_request_def split: sum.splits)

lemma translate_draft_length [simp]: "length (pd_operations (translate_draft mapping draft)) = length (pd_operations draft)"
  by (simp add: translate_draft_def)

lemma remap_draft_Inr:
  assumes "remap_draft keys current draft next_base = Inr (translated, correlations)"
  shows "validate_draft current draft = Inr ()" and "validate_draft next_base translated = Inr ()"
    and "translated = translate_draft (rebase_mapping correlations) draft"
    and "correlate_nodes (hb_snapshot current) (hb_snapshot next_base) (rebase_selection draft) = Inr correlations"
    and "hb_id current \<noteq> hb_id next_base" and "try_fold (rebase_operation next_base) () (pd_operations draft) = Inr ()"
  using assms by (auto simp: remap_draft_def and_then_Inr_iff map_err_Inr_iff Let_def split: if_splits)

lemma prepare_rebase_Inr:
  assumes "prepare_rebase keys expected baseline s = Inr review"
  shows "rb_source review = draft_document s" "rb_baseline review = baseline"
    and "preview_of (build_preview keys baseline (rb_draft review)) = Inr (rb_preview review)"
    and "remap_draft keys (ses_baseline s) (ses_draft s) baseline = Inr (rb_draft review, rb_correlations review)"
  using assms by (auto simp: prepare_rebase_def and_then_Inr_iff map_err_Inr_iff Let_def draft_document_def split: if_splits)

lemma accept_rebase_published:
  assumes "prepare_rebase keys prepared baseline source = Inr review" and "accept_rebase expected review s = (r, t)"
  shows "(\<exists>e. r = Inl e) \<and> t = s \<or> r = Inr (ses_revision t) \<and> expected = ses_revision s \<and> published keys s t"
proof (cases r)
  case (Inl e)
  then show ?thesis using assms(2) unfolding accept_rebase_def Inl publishing_iff by simp
next
  case (Inr revision)
  from assms(2) have run: "expected = ses_revision s" "dd_draft (rb_source review) = ses_draft s"
    "revision_next (ses_revision s) = Some revision"
    and t: "t = s\<lparr>ses_baseline := rb_baseline review, ses_draft := rb_draft review, ses_preview := rb_preview review,
          ses_revision := revision, ses_undo := [], ses_redo := []\<rparr>"
    unfolding accept_rebase_def Inr publishing_iff by (auto simp: and_then_Inr_iff ok_or_Inr_iff split: if_splits)
  have "rb_draft review = translate_draft (rebase_mapping (rb_correlations review)) (ses_draft s)"
    using remap_draft_Inr(3) [OF prepare_rebase_Inr(4) [OF assms(1)]] prepare_rebase_Inr(1) [OF assms(1)] run(2)
    by (simp add: draft_document_def)
  then show ?thesis using Inr run t prepare_rebase_Inr(2,3) [OF assms(1)] by (simp add: published_def bounded_draft_def)
qed

text \<open>Either nothing happened, or the session that is left has been published.\<close>

definition settled :: "ContractKeys \<Rightarrow> PlanSession \<Rightarrow> (SessionError, DraftRevision) result \<times> PlanSession \<Rightarrow> bool" where
  "settled keys s p \<longleftrightarrow> (\<exists>e. fst p = Inl e) \<and> snd p = s \<or> fst p = Inr (ses_revision (snd p)) \<and> published keys s (snd p)"

lemma reply_settled:
  assumes "(\<exists>e. fst p = Inl e) \<and> snd p = s \<or> (\<exists>x. fst p = Inr x \<and> get x = ses_revision (snd p)) \<and> published keys s (snd p)"
  shows "settled keys s (reply err get p)"
  using assms by (auto simp: settled_def reply_def)

lemma call_settled: "settled keys s (call_session keys c s) \<or> (\<exists>limit. call_session keys c s = (Inr (ses_revision s), set_history_limit limit s))"
proof (cases c)
  case (Edit fresh fresh_node expected edit)
  then show ?thesis
    using reply_settled [of "session_edit keys fresh fresh_node expected edit s" s rcp_revision keys SessionError.Editing]
      session_edit_published [OF surjective_pairing, of keys fresh fresh_node expected edit s]
    by (simp add: call_session_def) blast
next
  case (SetCreatedLvSize expected operation sz)
  then show ?thesis
    using reply_settled [of "set_created_lv_size keys expected operation sz s" s rcp_revision keys SessionError.Editing]
      change_request_published [OF surjective_pairing, of keys expected operation _ s]
    unfolding set_created_lv_size_def by (simp add: call_session_def set_created_lv_size_def) blast
next
  case (SetCreatedPartitionExtent expected operation offset sz)
  then show ?thesis
    using reply_settled [of "set_created_partition_extent keys expected operation offset sz s" s rcp_revision keys SessionError.Editing]
      change_request_published [OF surjective_pairing, of keys expected operation _ s]
    unfolding set_created_partition_extent_def by (simp add: call_session_def set_created_partition_extent_def) blast
next
  case (SetResizeSize expected operation sz)
  then show ?thesis
    using reply_settled [of "set_resize_size keys expected operation sz s" s rcp_revision keys SessionError.Editing]
      change_request_published [OF surjective_pairing, of keys expected operation _ s]
    unfolding set_resize_size_def by (simp add: call_session_def set_resize_size_def) blast
next
  case (Undo expected)
  then show ?thesis
    using reply_settled [of "session_undo keys expected s" s id keys SessionError.Editing]
      session_undo_published [OF surjective_pairing, of keys expected s]
    by (simp add: call_session_def) blast
next
  case (Redo expected)
  then show ?thesis
    using reply_settled [of "session_redo keys expected s" s id keys SessionError.Editing]
      session_redo_published [OF surjective_pairing, of keys expected s]
    by (simp add: call_session_def) blast
next
  case (SetHistoryLimit limit)
  then show ?thesis by (auto simp: call_session_def)
next
  case (AcceptRebase expected prepared baseline source)
  show ?thesis
  proof (cases "prepare_rebase keys prepared baseline source")
    case (Inl e)
    then show ?thesis using AcceptRebase by (simp add: call_session_def settled_def)
  next
    case (Inr review)
    then show ?thesis
      using AcceptRebase reply_settled [of "accept_rebase expected review s" s id keys SessionError.Rebasing]
        accept_rebase_published [OF Inr surjective_pairing, of expected s]
      by (simp add: call_session_def) blast
  qed
qed

section \<open>The session as an atomic object\<close>

lemma published_inv: "session_inv keys s \<Longrightarrow> published keys s t \<Longrightarrow> session_inv keys t"
  by (auto simp: session_inv_def published_def)

lemma limit_inv: "session_inv keys s \<Longrightarrow> session_inv keys (set_history_limit limit s)"
  by (auto simp: session_inv_def set_history_limit_def dest: in_set_dropD)

interpretation session: atomic_machine "call_session keys" "session_inv keys" for keys
proof
  show "session_inv keys t" if "session_inv keys s" "call_session keys c s = (Inr x, t)" for s c x t
    using call_settled [of keys s c] that published_inv limit_inv by (auto simp: settled_def)
  show "t = s" if "session_inv keys s" "call_session keys c s = (Inl e, t)" for s c e t
    using call_settled [of keys s c] that(2) by (auto simp: settled_def)
qed

lemma published_revision:
  assumes "published keys s t"
  shows "unat (revision_get (ses_revision t)) = Suc (unat (revision_get (ses_revision s)))"
proof -
  have "revision_next (ses_revision s) = Some (ses_revision t)" using assms by (simp add: published_def)
  then obtain z where "DraftRevision z = ses_revision t" "checked_add (revision_get (ses_revision s)) 1 = Some z"
    by (auto simp: revision_next_def)
  then show ?thesis by (cases "ses_revision t") (auto simp: checked_add_Some)
qed

lemma new_session_inv: "session_new keys fresh baseline = Inr s \<Longrightarrow> session_inv keys s"
  by (auto simp: session_new_def and_then_Inr_iff session_inv_def preview_of_def bounded_draft_def empty_draft_def)

lemma validate_document_Inr:
  assumes "validate_document json_size keys doc = Inr u"
  shows "bounded_draft (dd_draft doc)" "validate_draft (dd_baseline doc) (dd_draft doc) = Inr ()"
    "is_ok (build_preview keys (dd_baseline doc) empty_draft)"
  using assms by (auto simp: validate_document_def bounded_draft_def and_then_Inr_iff map_err_Inr_iff is_ok_iff
      split: if_splits option.splits)

lemma opened_session_inv: "from_document json_size keys doc = Inr s \<Longrightarrow> session_inv keys s"
  using validate_document_Inr(1) by (auto simp: from_document_def and_then_Inr_iff map_err_Inr_iff session_inv_def)

text \<open>What a caller can rely on between two states of a session.\<close>

definition advanced :: "PlanSession \<Rightarrow> PlanSession \<Rightarrow> bool" where
  "advanced s t \<longleftrightarrow> ses_id t = ses_id s \<and> unat (revision_get (ses_revision s)) \<le> unat (revision_get (ses_revision t))
     \<and> (ses_revision t = ses_revision s \<longrightarrow> ses_draft t = ses_draft s \<and> ses_baseline t = ses_baseline s \<and> ses_preview t = ses_preview s)"

lemma call_advanced:
  assumes "call_session keys c s = (Inr x, t)"
  shows "advanced s t"
proof (cases "published keys s t")
  case True
  then show ?thesis using published_revision [OF True] by (auto simp: advanced_def published_def)
next
  case False
  then show ?thesis using call_settled [of keys s c] assms by (auto simp: settled_def advanced_def set_history_limit_def)
qed

lemma advanced_trans:
  assumes "advanced s t" and "advanced t u"
  shows "advanced s u"
proof -
  have "ses_revision t = ses_revision s" if "ses_revision u = ses_revision s"
  proof -
    have "unat (revision_get (ses_revision t)) = unat (revision_get (ses_revision s))" using assms that by (simp add: advanced_def)
    then show ?thesis by (cases "ses_revision s"; cases "ses_revision t") (simp add: word_unat_eq_iff)
  qed
  then show ?thesis using assms by (auto simp: advanced_def)
qed

lemma reachable_advanced: "session.leads_to keys s t \<Longrightarrow> session_inv keys s \<Longrightarrow> advanced s t"
proof (rule session.leads_to_respects [where R = advanced])
  show "advanced u u" for u by (simp add: advanced_def)
qed (blast intro: call_advanced advanced_trans)+

end
