(* ===== verification/Draft_Valid.thy ===== *)
theory Draft_Valid
  imports Session_Correct
begin

text \<open>
  Valid drafts, declaratively: identities are proper and unique, outputs are new, and every
  input exists or is made by the draft. The validation accepts exactly these drafts, and
  removing or moving requests keeps them valid.
\<close>

section \<open>Actions that serve a request\<close>

lemma lowered_request: "lowered operation f \<Longrightarrow> covers_request (po_request operation) (po_created_node operation) (map fa_operation (pf_actions f))"
  by (simp add: lowered_def request_coverage_def Let_def)

lemma own_served:
  assumes "plan_of ids fragments plan" and "i < length fragments"
  shows "\<exists>ps. set ps \<subseteq> set (plan_actions plan) \<and> map pa_id ps = own ids i (fragments ! i)
    \<and> map pa_operation ps = map fa_operation (pf_actions (fragments ! i))"
proof -
  have "\<exists>p. p \<in> set (plan_actions plan) \<and> ids (i, fa_id a) = Some (pa_id p) \<and> pa_operation p = fa_operation a"
    if "a \<in> set (pf_actions (fragments ! i))" for a
    by (rule planned_at [OF assms that]) (auto simp: planned_view_def)
  then obtain h where h: "\<And>a. a \<in> set (pf_actions (fragments ! i)) \<Longrightarrow>
      h a \<in> set (plan_actions plan) \<and> ids (i, fa_id a) = Some (pa_id (h a)) \<and> pa_operation (h a) = fa_operation a" by metis
  show ?thesis by (rule exI [of _ "map h (pf_actions (fragments ! i))"]) (auto simp: own_def h)
qed

text \<open>Pushing again what was just taken back changes nothing.\<close>

lemma push_history_again:
  assumes "length history \<le> limit" and "0 < limit"
  shows "push_history (butlast (push_history history draft limit)) draft limit = push_history history draft limit"
  using assms by (cases history) (auto simp: push_history_def)

section \<open>Validity\<close>

definition made_nodes :: "PlanOperation list \<Rightarrow> NodeId list" where
  "made_nodes operations = List.map_filter po_created_node operations"

definition new_node :: "HistoricalBaseline \<Rightarrow> NodeId \<Rightarrow> bool" where
  "new_node baseline n \<longleftrightarrow> \<not> uuid_is_nil (as_uuid n) \<and> graph_node (cur_graph (hb_snapshot baseline)) n = None"

definition proper_operation :: "PlanOperation \<Rightarrow> bool" where
  "proper_operation operation \<longleftrightarrow> \<not> uuid_is_nil (operation_uuid (po_id operation))
     \<and> (creates_node (po_request operation) \<longleftrightarrow> po_created_node operation \<noteq> None)"

definition valid_draft :: "HistoricalBaseline \<Rightarrow> PlanOperation list \<Rightarrow> bool" where
  "valid_draft baseline operations \<longleftrightarrow> \<not> uuid_is_nil (hb_id baseline)
     \<and> distinct (map po_id operations) \<and> list_all proper_operation operations
     \<and> distinct (made_nodes operations) \<and> list_all (new_node baseline) (made_nodes operations)
     \<and> (\<forall>operation \<in> set operations. \<forall>n \<in> set (request_nodes (po_request operation)).
          graph_node (cur_graph (hb_snapshot baseline)) n \<noteq> None \<or> n \<in> set (made_nodes operations))"

lemma made_nodes_simps [simp]:
  "made_nodes [] = []" "made_nodes (operation # rest) = (case po_created_node operation of None \<Rightarrow> made_nodes rest | Some n \<Rightarrow> n # made_nodes rest)"
  by (simp_all add: made_nodes_def List.map_filter_def split: option.split)

lemma set_made_nodes: "n \<in> set (made_nodes operations) \<longleftrightarrow> (\<exists>operation \<in> set operations. po_created_node operation = Some n)"
  by (induction operations) (auto split: option.splits)

lemma operation_issues_none:
  "operation_issues baseline (seen, made) operation = [] \<longleftrightarrow> proper_operation operation \<and> po_id operation \<notin> seen
     \<and> (\<forall>n. po_created_node operation = Some n \<longrightarrow> new_node baseline n \<and> n \<notin> made)"
  by (auto simp: operation_issues_def proper_operation_def new_node_def split: option.split if_splits)

lemma note_operation_new:
  assumes "proper_operation operation" and "\<And>n. po_created_node operation = Some n \<Longrightarrow> new_node baseline n"
  shows "note_operation baseline operation (seen, made) = (insert (po_id operation) seen, made \<union> set (made_nodes [operation]))"
  using assms by (auto simp: note_operation_def proper_operation_def new_node_def split: option.split)

lemma identity_issues_none:
  "identity_issues baseline (seen, made) operations = [] \<longleftrightarrow>
     distinct (map po_id operations) \<and> set (map po_id operations) \<inter> seen = {} \<and> list_all proper_operation operations
     \<and> distinct (made_nodes operations) \<and> set (made_nodes operations) \<inter> made = {} \<and> list_all (new_node baseline) (made_nodes operations)"
proof (induction operations arbitrary: seen made)
  case Nil
  then show ?case by simp
next
  case (Cons operation rest)
  show ?case
  proof (cases "operation_issues baseline (seen, made) operation = []")
    case True
    then have facts: "proper_operation operation" "po_id operation \<notin> seen"
      "\<And>n. po_created_node operation = Some n \<Longrightarrow> new_node baseline n \<and> n \<notin> made"
      by (simp_all add: operation_issues_none)
    then have "note_operation baseline operation (seen, made) = (insert (po_id operation) seen, made \<union> set (made_nodes [operation]))"
      using note_operation_new by blast
    then show ?thesis using True Cons.IH facts by (cases "po_created_node operation") auto
  next
    case False
    then show ?thesis by (auto simp: operation_issues_none split: option.splits)
  qed
qed

lemma noted_outputs:
  assumes "list_all (new_node baseline) (made_nodes operations)"
  shows "snd (fold (note_operation baseline) operations (seen, made)) = made \<union> set (made_nodes operations)"
  using assms
proof (induction operations arbitrary: seen made)
  case Nil
  then show ?case by simp
next
  case (Cons operation rest)
  have "snd (note_operation baseline operation (seen, made)) = made \<union> set (made_nodes [operation])"
    using Cons.prems by (auto simp: note_operation_def new_node_def split: option.splits)
  then show ?case using Cons.IH [of "fst (note_operation baseline operation (seen, made))"] Cons.prems
    by (cases "note_operation baseline operation (seen, made)") (auto split: option.splits)
qed

lemma input_issues_none:
  "input_issues baseline made operation = [] \<longleftrightarrow> (\<forall>n \<in> set (request_nodes (po_request operation)).
     graph_node (cur_graph (hb_snapshot baseline)) n \<noteq> None \<or> n \<in> made)"
proof -
  have none: "concat (map (\<lambda>n. if P n then [issue] else []) ns) = [] \<longleftrightarrow> (\<forall>n \<in> set ns. \<not> P n)" for P :: "NodeId \<Rightarrow> bool" and issue :: OperationDiagnostic and ns
    by (induction ns) auto
  show ?thesis unfolding input_issues_def none by auto
qed

lemma validate_draft_valid: "validate_draft baseline draft = Inr () \<longleftrightarrow> valid_draft baseline (pd_operations draft)"
proof (cases "identity_issues baseline ({}, {}) (pd_operations draft) = []")
  case True
  then have "snd (fold (note_operation baseline) (pd_operations draft) ({}, {})) = set (made_nodes (pd_operations draft))"
    using noted_outputs by (simp add: identity_issues_none)
  then show ?thesis using True
    by (auto simp: validate_draft_def valid_draft_def identity_issues_none input_issues_none Let_def)
next
  case False
  then show ?thesis by (auto simp: validate_draft_def valid_draft_def identity_issues_none Let_def)
qed

section \<open>Existence dependencies\<close>

text \<open>One request depends on another when it uses the node that the other makes.\<close>

definition needs :: "PlanOperation list \<Rightarrow> (OperationId \<times> OperationId) set" where
  "needs operations = {(po_id a, po_id b) | a b. a \<in> set operations \<and> b \<in> set operations
     \<and> (\<exists>n. po_created_node a = Some n \<and> n \<in> set (request_nodes (po_request b)))}"

lemma impact_pass_needs: "impact_pass operations affected = affected \<union> needs operations `` affected"
  by (auto simp: impact_pass_def needs_def Let_def list_ex_iff set_made_nodes [unfolded made_nodes_def] Image_iff)

lemma impact_loop_closure: "impact_loop operations affected = (needs operations)\<^sup>* `` affected"
proof (induction operations affected rule: impact_loop.induct)
  case (1 operations affected)
  show ?case
  proof (cases "impact_pass operations affected = affected")
    case True
    then have "needs operations `` affected \<subseteq> affected" by (auto simp: impact_pass_needs)
    then have "(needs operations)\<^sup>* `` affected = affected" by (rule Image_closed_trancl)
    then show ?thesis using True by (simp add: impact_loop.simps)
  next
    case False
    then have "impact_loop operations affected = (needs operations)\<^sup>* `` (affected \<union> needs operations `` affected)"
      using 1 by (simp add: impact_loop.simps [of operations affected] impact_pass_needs)
    also have "\<dots> = (needs operations)\<^sup>* `` affected"
      by (auto simp: Image_iff) (meson converse_rtrancl_into_rtrancl)
    finally show ?thesis .
  qed
qed

section \<open>Removal\<close>

lemma position_None: "position P xs = None \<longleftrightarrow> (\<forall>x \<in> set xs. \<not> P x)"
  by (induction xs) auto

lemma operation_index_ok: "is_ok (operation_index operations x) \<longleftrightarrow> x \<in> po_id ` set operations"
  using position_None [of "\<lambda>operation. po_id operation = x" operations]
  by (cases "position (\<lambda>operation. po_id operation = x) operations") (auto simp: operation_index_def)

lemma removal_impact_Inr:
  "removal_impact operations selected = Inr affected \<longleftrightarrow> set selected \<subseteq> po_id ` set operations
     \<and> affected = filter (\<lambda>x. x \<in> (needs operations)\<^sup>* `` set selected) (map po_id operations)"
proof -
  have "try_fold (\<lambda>_ x. and_then (operation_index operations x) (\<lambda>_. Inr ())) () selected = Inr () \<longleftrightarrow> set selected \<subseteq> po_id ` set operations"
    using operation_index_ok [of operations] by (auto simp: try_fold_unit_Inr and_then_Inr_iff is_ok_iff)
  then show ?thesis by (auto simp: removal_impact_def and_then_Inr_iff impact_loop_closure)
qed

lemma needs_ids: "(x, y) \<in> needs operations \<Longrightarrow> y \<in> po_id ` set operations"
  by (auto simp: needs_def)

lemma remove_operations_Inr:
  "remove_operations operations selected = Inr rest \<longleftrightarrow> set selected \<subseteq> po_id ` set operations
     \<and> needs operations `` set selected \<subseteq> set selected \<and> rest = filter (\<lambda>operation. po_id operation \<notin> set selected) operations"
proof -
  let ?closure = "(needs operations)\<^sup>* `` set selected"
  have "needs operations `` set selected \<subseteq> set selected" if "\<forall>x \<in> po_id ` set operations. x \<in> ?closure \<longrightarrow> x \<in> set selected"
  proof
    fix y
    assume y: "y \<in> needs operations `` set selected"
    then have "y \<in> po_id ` set operations" "y \<in> ?closure" using needs_ids by (auto simp: Image_iff)
    then show "y \<in> set selected" using that by blast
  qed
  moreover have "?closure = set selected" if "needs operations `` set selected \<subseteq> set selected"
    using that by (rule Image_closed_trancl)
  moreover have "filter (\<lambda>x. x \<notin> set selected) (filter (\<lambda>x. x \<in> ?closure) (map po_id operations)) = [] \<longleftrightarrow>
      (\<forall>x \<in> po_id ` set operations. x \<in> ?closure \<longrightarrow> x \<in> set selected)"
    by (auto simp: filter_empty_conv)
  ultimately have missing: "filter (\<lambda>x. x \<notin> set selected) (filter (\<lambda>x. x \<in> ?closure) (map po_id operations)) = [] \<longleftrightarrow>
      needs operations `` set selected \<subseteq> set selected" by blast
  show ?thesis
  proof (cases "set selected \<subseteq> po_id ` set operations")
    case True
    then have "removal_impact operations selected = Inr (filter (\<lambda>x. x \<in> ?closure) (map po_id operations))"
      by (simp add: removal_impact_Inr)
    then show ?thesis unfolding remove_operations_def using True missing by (auto simp: Let_def simp del: filter_filter)
  next
    case False
    then have "removal_impact operations selected \<noteq> Inr affected" for affected by (simp add: removal_impact_Inr)
    then show ?thesis using False by (auto simp: remove_operations_def and_then_Inr_iff)
  qed
qed

lemma made_nodes_filter: "set (made_nodes (filter P operations)) \<subseteq> set (made_nodes operations)"
  by (auto simp: set_made_nodes)

lemma distinct_made_nodes_filter: "distinct (made_nodes operations) \<Longrightarrow> distinct (made_nodes (filter P operations))"
  using made_nodes_filter by (induction operations) (auto split: option.splits)

lemma remove_operations_valid:
  assumes "valid_draft baseline operations" and "remove_operations operations selected = Inr rest"
  shows "valid_draft baseline rest"
proof -
  have closed: "needs operations `` set selected \<subseteq> set selected"
    and rest: "rest = filter (\<lambda>operation. po_id operation \<notin> set selected) operations"
    using assms(2) by (simp_all add: remove_operations_Inr)
  have kept: "n \<in> set (made_nodes rest)"
    if b: "b \<in> set rest" and n: "n \<in> set (request_nodes (po_request b))" "n \<in> set (made_nodes operations)" for b n
  proof -
    obtain a where a: "a \<in> set operations" "po_created_node a = Some n" using n(2) by (auto simp: set_made_nodes)
    then have "(po_id a, po_id b) \<in> needs operations" using b n(1) by (auto simp: needs_def rest)
    then have "po_id a \<notin> set selected" using closed b by (auto simp: rest)
    then show ?thesis using a by (auto simp: set_made_nodes rest)
  qed
  have inputs: "graph_node (cur_graph (hb_snapshot baseline)) n \<noteq> None \<or> n \<in> set (made_nodes rest)"
    if "b \<in> set rest" "n \<in> set (request_nodes (po_request b))" for b n
  proof -
    have "b \<in> set operations" using that(1) by (simp add: rest)
    then show ?thesis using kept [OF that] assms(1) that(2) unfolding valid_draft_def by blast
  qed
  have "list_all (new_node baseline) (made_nodes rest)" "distinct (map po_id rest)" "list_all proper_operation rest"
    using assms(1) made_nodes_filter [of _ operations] by (auto simp: valid_draft_def rest list_all_iff distinct_map_filter)
  then show ?thesis
    using assms(1) inputs unfolding valid_draft_def rest by (blast intro: distinct_made_nodes_filter)
qed

section \<open>Moves\<close>

lemma mset_move: "i < length xs \<Longrightarrow> mset (insert_at j (xs ! i) (remove_at i xs)) = mset xs"
proof -
  assume "i < length xs"
  then have "xs = take i xs @ xs ! i # drop (Suc i) xs" by (simp add: id_take_nth_drop)
  then have "mset xs = add_mset (xs ! i) (mset (remove_at i xs))" by (metis mset_append mset.simps(2) remove_at_def union_mset_add_mset_right)
  moreover have "mset (insert_at j x ys) = add_mset x (mset ys)" for x :: 'a and ys
    by (simp add: insert_at_def) (metis append_take_drop_id mset_append)
  ultimately show ?thesis by simp
qed

lemma move_before_mset: "move_before operations x before = Inr rest \<Longrightarrow> mset rest = mset operations"
  by (auto simp: move_before_def and_then_Inr_iff Let_def mset_move dest!: operation_index_Inr split: if_splits)

lemma mset_made_nodes: "mset (made_nodes operations) = image_mset the (filter_mset (\<lambda>x. x \<noteq> None) (image_mset po_created_node (mset operations)))"
  by (induction operations) (auto split: option.splits)

lemma valid_draft_mset:
  assumes "mset rest = mset operations"
  shows "valid_draft baseline rest \<longleftrightarrow> valid_draft baseline operations"
proof -
  have "mset (made_nodes rest) = mset (made_nodes operations)" by (simp add: mset_made_nodes assms)
  moreover have "mset (map po_id rest) = mset (map po_id operations)" using assms by simp
  ultimately have "distinct (made_nodes rest) = distinct (made_nodes operations)" "set (made_nodes rest) = set (made_nodes operations)"
    "distinct (map po_id rest) = distinct (map po_id operations)" "set rest = set operations"
    using assms by (metis mset_eq_imp_distinct_iff mset_eq_setD)+
  then show ?thesis by (simp add: valid_draft_def list_all_iff)
qed

end
