(* ===== verification/Session_Properties.thy ===== *)
theory Session_Properties
  imports Draft_Valid
begin

text \<open>
  What the planning session promises to the user interface that edits through it.
\<close>

section \<open>Lemmas\<close>

lemma calculated_preview:
  assumes "session_inv keys s" and "ses_preview s = PreviewState.Calculated preview"
  shows "build_preview keys (ses_baseline s) (ses_draft s) = Inr preview"
  using assms by (auto simp: session_inv_def preview_of_def split: sum.splits fault.splits if_splits)

lemma status_cases: "preview_status preview \<in> {PreviewStatus.Complete, PreviewStatus.Conditional} \<longleftrightarrow> preview_status preview \<noteq> PreviewStatus.Blocked"
  by (simp add: preview_status_def)

lemma clean_preview_accepted:
  assumes built: "build_preview keys baseline draft = Inr preview" and clean: "rep_protection_violations (pv_report preview) = []"
    and inv: "graph_inv (cur_graph (hb_snapshot baseline))" and fresh: "\<not> uuid_is_nil fresh"
  shows "\<exists>doc analysis. capture_with_baseline keys fresh (pv_plan preview) baseline (sr_desired (rep_simulation (pv_report preview)))
      (pd_protected_scope draft) = Inr doc \<and> analyse_historical keys doc = Inr analysis \<and> ha_plan analysis = pv_plan preview"
proof -
  obtain fragments intents ids where p: "previewed keys baseline draft fragments intents ids preview"
    and valid: "validate_draft baseline draft = Inr ()" using build_preview_explained(2) [OF built] by blast
  have "\<not> uuid_is_nil (hb_id baseline)" using valid by (simp add: validate_draft_valid valid_draft_def)
  then show ?thesis
    using composed_document_accepted [of baseline fragments _ "pv_plan preview" keys intents "pd_protected_scope draft" "pv_report preview", OF _ _ clean _ inv fresh]
      p previewed_intents [OF p] unfolding previewed_def by blast
qed

lemma request_nodes_remap: "request_nodes (remap_nodes mapping request) = map (remap mapping) (request_nodes request)"
  by (cases request) (auto simp: request_nodes_def remap_nodes_def remap_entry_def remap_source_def source_nodes_def
      remap_intent_def intent_nodes_def split: MountSource.split OperationIntent.split)

lemma rebase_mapping_of:
  assumes "distinct (map nc_source ms)"
  shows "rebase_mapping ms n = Some m' \<longleftrightarrow> (\<exists>m \<in> set ms. nc_source m = n \<and> nc_target m = m')"
    and "rebase_mapping ms n = None \<longleftrightarrow> n \<notin> nc_source ` set ms"
proof -
  have "distinct (map fst (map (\<lambda>m. (nc_source m, nc_target m)) ms))" using assms by (simp add: comp_def)
  then have eq: "rebase_mapping ms = map_of (map (\<lambda>m. (nc_source m, nc_target m)) ms)"
    unfolding rebase_mapping_def by (metis distinct_rev map_of_inject_set rev_map set_rev)
  show "rebase_mapping ms n = Some m' \<longleftrightarrow> (\<exists>m \<in> set ms. nc_source m = n \<and> nc_target m = m')"
    using assms unfolding eq by (auto simp: comp_def map_of_eq_Some_iff)
  show "rebase_mapping ms n = None \<longleftrightarrow> n \<notin> nc_source ` set ms" unfolding eq by (force simp: map_of_eq_None_iff)
qed

lemma remap_same_objects:
  assumes corr: "correlate_nodes current next_state selected = Inr ms" and inv: "graph_inv (cur_graph next_state)"
  shows "inj_on (remap (rebase_mapping ms)) (set selected)"
    and "\<forall>n \<in> set selected. \<exists>identity.
      same_object current next_state \<lparr>nc_source = n, nc_target = remap (rebase_mapping ms) n, nc_identity = identity\<rparr>"
    and "n \<notin> set selected \<Longrightarrow> remap (rebase_mapping ms) n = n"
proof -
  let ?f = "remap (rebase_mapping ms)"
  have sound: "nc_source ` set ms = set selected" "distinct (map nc_source ms)" "distinct (map nc_target ms)"
    "\<forall>m \<in> set ms. same_object current next_state m"
    using correlate_nodes_sound [OF corr inv] by auto
  have target: "?f (nc_source m) = nc_target m" if "m \<in> set ms" for m
    using rebase_mapping_of(1) [OF sound(2), of "nc_source m" "nc_target m"] that by (auto simp: remap_def)
  show "inj_on ?f (set selected)"
    unfolding sound(1) [symmetric]
  proof (rule inj_onI)
    fix a b
    assume "a \<in> nc_source ` set ms" "b \<in> nc_source ` set ms" and eq: "?f a = ?f b"
    then obtain m m' where m: "m \<in> set ms" "a = nc_source m" "m' \<in> set ms" "b = nc_source m'" by blast
    then have "nc_target m = nc_target m'" using eq target by metis
    then show "a = b" using m sound(3) by (metis distinct_map inj_onD)
  qed
  show "\<forall>n \<in> set selected. \<exists>identity. same_object current next_state \<lparr>nc_source = n, nc_target = ?f n, nc_identity = identity\<rparr>"
    unfolding sound(1) [symmetric]
  proof (rule ballI, erule imageE, hypsubst, rule exI)
    fix m
    assume m: "m \<in> set ms"
    have "\<lparr>nc_source = nc_source m, nc_target = ?f (nc_source m), nc_identity = nc_identity m\<rparr> = m"
      unfolding target [OF m] by simp
    then show "same_object current next_state \<lparr>nc_source = nc_source m, nc_target = ?f (nc_source m), nc_identity = nc_identity m\<rparr>"
      using m sound(4) by (simp only:)
  qed
  show "?f n = n" if "n \<notin> set selected"
    using rebase_mapping_of(2) [OF sound(2), of n] that by (simp add: remap_def sound(1))
qed

lemma same_kind_remap: "same_kind request (remap_nodes mapping request)"
  by (cases request) (auto simp: same_kind_def request_discriminant_def remap_nodes_def remap_intent_def intent_discriminant_def
      split: OperationIntent.split)

lemma translate_draft_operations:
  "map po_id (pd_operations (translate_draft mapping draft)) = map po_id (pd_operations draft)"
  "map po_created_node (pd_operations (translate_draft mapping draft)) = map po_created_node (pd_operations draft)"
  "list_all2 (\<lambda>new old. same_kind (po_request old) (po_request new)
     \<and> request_nodes (po_request new) = map (remap mapping) (request_nodes (po_request old)))
     (pd_operations (translate_draft mapping draft)) (pd_operations draft)"
  by (simp_all add: translate_draft_def comp_def list_all2_conv_all_nth request_nodes_remap same_kind_remap)

section \<open>Forecasts\<close>

text \<open>
  C23. A calculated preview serves the draft. Its source map has one entry for every request, in
  the order of the draft, and divides the actions of the plan among the requests without gap or
  overlap. The actions of an entry carry out its request, which the independent coverage report
  confirms, and run in the order of the user: every action of an earlier request precedes every
  action of a later one, directly or through other actions.
\<close>

theorem preview_serves_draft:
  assumes "build_preview keys baseline draft = Inr preview"
  shows "map oa_operation (pv_source_map preview) = map po_id (pd_operations draft)
    \<and> concat (map oa_actions (pv_source_map preview)) = map pa_id (plan_actions (pv_plan preview))
    \<and> (\<forall>i < length (pd_operations draft). \<exists>ps. set ps \<subseteq> set (plan_actions (pv_plan preview))
        \<and> map pa_id ps = oa_actions (pv_source_map preview ! i)
        \<and> covers_request (po_request (pd_operations draft ! i)) (po_created_node (pd_operations draft ! i)) (map pa_operation ps))
    \<and> map rc_operation (pv_request_coverage preview) = map po_id (pd_operations draft)
    \<and> list_all rc_covered (pv_request_coverage preview)
    \<and> (\<forall>i j x y. i < j \<longrightarrow> j < length (pd_operations draft) \<longrightarrow> x \<in> set (oa_actions (pv_source_map preview ! i)) \<longrightarrow>
        y \<in> set (oa_actions (pv_source_map preview ! j)) \<longrightarrow>
        (x, y) \<in> (set (action_edges (plan_dependencies (pv_plan preview))))\<^sup>+)"
proof -
  obtain fragments intents ids where p: "previewed keys baseline draft fragments intents ids preview"
    using build_preview_explained(2) [OF assms] by blast
  let ?ops = "pd_operations draft" and ?plan = "pv_plan preview"
  have low: "list_all2 lowered ?ops fragments" and src: "pv_source_map preview = source_entries ids ?ops fragments"
    and cov: "pv_request_coverage preview = map2 (\<lambda>operation f. request_coverage operation (map fa_operation (pf_actions f))) ?ops fragments"
    using p by (simp_all add: previewed_def)
  have len: "length ?ops = length fragments" using low by (rule list_all2_lengthD)
  note of = previewed_plan_of [OF p]
  have serve: "\<exists>ps. set ps \<subseteq> set (plan_actions ?plan) \<and> map pa_id ps = oa_actions (pv_source_map preview ! i)
      \<and> covers_request (po_request (?ops ! i)) (po_created_node (?ops ! i)) (map pa_operation ps)" if i: "i < length ?ops" for i
  proof -
    have i': "i < length fragments" using i len by simp
    obtain ps where "set ps \<subseteq> set (plan_actions ?plan)" "map pa_id ps = own ids i (fragments ! i)"
      "map pa_operation ps = map fa_operation (pf_actions (fragments ! i))" using own_served [OF of i'] by blast
    then show ?thesis using lowered_request [OF list_all2_nthD [OF low i]] i' by (auto simp: src)
  qed
  have "map oa_operation (pv_source_map preview) = map po_id ?ops" "map rc_operation (pv_request_coverage preview) = map po_id ?ops"
    using len by (auto simp: src cov request_coverage_def Let_def intro!: nth_equalityI)
  then show ?thesis
    using serve previewed_order [OF p] source_map_partition [OF of] previewed_covered [OF p] len by (auto simp: src list_all_iff)
qed

text \<open>
  C28. Forecasting is total, and a failure is explained: a build of any draft on any baseline returns
  a preview or a typed error. The internal inconsistencies that the analysis guards against, a
  contract that does not match or an unknown intent, never arise: once a draft composes, only
  an ill-formed protection policy makes its analysis fail. And a preview is only ever blocked
  because an action touches something that the user protects.
\<close>

theorem preview_failures_explained:
  "build_preview keys baseline draft \<noteq> Inl fault.Panic \<and> build_preview keys baseline draft \<noteq> Inl fault.OutOfFuel
   \<and> (\<forall>e source_map. build_preview keys baseline draft = Inl (fault.Failed (DraftBuildError.Simulation e source_map)) \<longrightarrow>
        validate_protected_scope (pd_protected_scope draft) = Inl (fault.Failed e))
   \<and> (\<forall>preview. build_preview keys baseline draft = Inr preview \<longrightarrow>
        (preview_status preview = PreviewStatus.Blocked \<longleftrightarrow> rep_protection_violations (pv_report preview) \<noteq> []))"
  using build_preview_explained [where draft=draft and keys=keys and baseline=baseline] previewed_blocked
  by (fastforce simp: explained_def)

section \<open>Edits\<close>

text \<open>
  C30. The validation of drafts is exact: it accepts a draft if and only if the baseline is
  identified, the identities of requests are proper and distinct, exactly the creating requests
  reserve an output, the outputs are proper, distinct and absent from the baseline, and every
  input is a node of the baseline or the output of a request.
\<close>

theorem validate_draft_iff:
  "validate_draft baseline draft = Inr () \<longleftrightarrow> valid_draft baseline (pd_operations draft)"
  by (rule validate_draft_valid)

text \<open>
  C27. Cancelling requests never leaves a dangling reference. The reported impact of a removal is
  exactly what depends on the selected requests through chains of created and used nodes.
  A removal succeeds precisely when the selection exists and contains everything that depends on it,
  removes exactly the selection, and turns a valid draft into a valid draft.
\<close>

theorem removal_exact:
  "(removal_impact operations selected = Inr affected \<longleftrightarrow> set selected \<subseteq> po_id ` set operations
      \<and> affected = filter (\<lambda>x. x \<in> (needs operations)\<^sup>* `` set selected) (map po_id operations))
   \<and> (remove_operations operations selected = Inr rest \<longleftrightarrow> set selected \<subseteq> po_id ` set operations
      \<and> needs operations `` set selected \<subseteq> set selected
      \<and> rest = filter (\<lambda>operation. po_id operation \<notin> set selected) operations)
   \<and> (remove_operations operations selected = Inr rest \<longrightarrow> valid_draft baseline operations \<longrightarrow> valid_draft baseline rest)"
  using removal_impact_Inr remove_operations_Inr remove_operations_valid by blast

section \<open>Sessions\<close>

text \<open>
  C24. A session is never stale and never half changed. Whatever calls are made on a new session or
  on one opened from a document, failed ones included, the preview is the one of the current
  draft on the current baseline, the history and the drafts in it stay within their bounds, the
  identity stays, and the revision never goes back: as long as it is the same, so are draft,
  baseline and preview.
\<close>

theorem session_consistent:
  assumes "session_new keys fresh baseline = Inr s \<or> from_document json_size keys doc = Inr s" and "session.leads_to keys s t"
  shows "preview_of (build_preview keys (ses_baseline t) (ses_draft t)) = Inr (ses_preview t)
    \<and> length (ses_undo t) \<le> ses_history_limit t \<and> length (ses_redo t) \<le> ses_history_limit t
    \<and> (\<forall>d \<in> insert (ses_draft t) (set (ses_undo t) \<union> set (ses_redo t)). length (pd_operations d) \<le> MAX_DRAFT_OPERATIONS)
    \<and> ses_id t = ses_id s \<and> unat (revision_get (ses_revision s)) \<le> unat (revision_get (ses_revision t))
    \<and> (ses_revision t = ses_revision s \<longrightarrow> ses_draft t = ses_draft s \<and> ses_baseline t = ses_baseline s \<and> ses_preview t = ses_preview s)"
proof -
  have inv: "session_inv keys s" using assms(1) new_session_inv opened_session_inv by blast
  from session.leads_to_inv [OF assms(2) inv] reachable_advanced [OF assms(2) inv]
  show ?thesis by (auto simp: session_inv_def advanced_def bounded_draft_def)
qed


section \<open>Freezing, saving and rebasing\<close>

text \<open>
  C22. Whatever the preview shows as executable can be frozen, and nothing else. On a well-formed
  baseline, freezing the current revision succeeds precisely when the preview is calculated and
  touches nothing protected: the analysis that a frozen document has to pass never rejects a plan
  that the session has shown. The frozen document carries the identity, revision, baseline, policy and plan of the
  session, and its own analysis yields that plan again.
\<close>

theorem freeze_exact:
  assumes inv: "session_inv keys s" and "graph_inv (cur_graph (hb_snapshot (ses_baseline s)))" and "\<not> uuid_is_nil fresh"
  shows "(is_ok (session_freeze keys fresh (ses_revision s) s) \<longleftrightarrow>
      (\<exists>preview. ses_preview s = PreviewState.Calculated preview \<and> rep_protection_violations (pv_report preview) = []))
    \<and> (\<forall>frozen. session_freeze keys fresh (ses_revision s) s = Inr frozen \<longrightarrow>
        (\<exists>preview analysis. ses_preview s = PreviewState.Calculated preview
          \<and> analyse_historical keys (fp_document frozen) = Inr analysis \<and> ha_plan analysis = pv_plan preview
          \<and> fp_source_map frozen = pv_source_map preview \<and> fp_session_id frozen = ses_id s \<and> fp_revision frozen = ses_revision s
          \<and> doc_baseline (fp_document frozen) = ses_baseline s \<and> doc_protected_scope (fp_document frozen) = pd_protected_scope (ses_draft s)))"
proof (cases "ses_preview s")
  case (Invalid e)
  then show ?thesis by (simp add: session_freeze_def state_status_def)
next
  case (Calculated preview)
  note built = calculated_preview [OF inv Calculated]
  have blocked: "preview_status preview = PreviewStatus.Blocked \<longleftrightarrow> rep_protection_violations (pv_report preview) \<noteq> []"
    using build_preview_explained(2) [OF built] previewed_blocked by blast
  show ?thesis
  proof (cases "rep_protection_violations (pv_report preview) = []")
    case False
    then show ?thesis using Calculated blocked by (simp add: session_freeze_def state_status_def)
  next
    case True
    obtain doc analysis where doc: "capture_with_baseline keys fresh (pv_plan preview) (ses_baseline s)
        (sr_desired (rep_simulation (pv_report preview))) (pd_protected_scope (ses_draft s)) = Inr doc"
      and a: "analyse_historical keys doc = Inr analysis" "ha_plan analysis = pv_plan preview"
      using clean_preview_accepted [OF built True assms(2,3)] by blast
    have "doc_baseline doc = ses_baseline s" "doc_protected_scope doc = pd_protected_scope (ses_draft s)"
      using doc by (auto simp: capture_with_baseline_def and_then_Inr_iff Let_def)
    moreover have "session_freeze keys fresh (ses_revision s) s = Inr \<lparr>fp_session_id = ses_id s, fp_revision = ses_revision s,
        fp_document = doc, fp_source_map = pv_source_map preview\<rparr>"
      using status_cases [of preview] blocked True doc by (simp add: session_freeze_def state_status_def Calculated calculated_def Let_def)
    ultimately show ?thesis using Calculated True a by simp
  qed
qed

text \<open>
  C29. Saving and opening a session loses nothing but its history. The document of a consistent
  session can be opened exactly when the identity is proper, the draft is valid for its baseline,
  the document is within the size limit and the baseline alone can be forecast; what is opened
  is the session itself, with the same draft, baseline, revision and preview, an empty history and the
  default limit.
\<close>

theorem save_open_roundtrip:
  assumes "session_inv keys s"
  shows "from_document json_size keys (draft_document s) = Inr t \<longleftrightarrow>
    \<not> uuid_is_nil (ses_id s) \<and> valid_draft (ses_baseline s) (pd_operations (ses_draft s))
    \<and> (\<exists>n \<le> MAX_DRAFT_JSON_BYTES. json_size (draft_document s) = Some n)
    \<and> is_ok (build_preview keys (ses_baseline s) empty_draft)
    \<and> t = s\<lparr>ses_history_limit := DEFAULT_HISTORY_LIMIT, ses_undo := [], ses_redo := []\<rparr>"
proof -
  have versions: "find (\<lambda>operation. DRAFT_SCHEMA_VERSION < required_version (po_request operation)) operations = None" for operations
    by (auto simp: find_None_iff DRAFT_SCHEMA_VERSION_def required_version_def split: PlanRequest.split)
  have first: "1 \<le> DRAFT_SCHEMA_VERSION" by (simp add: DRAFT_SCHEMA_VERSION_def)
  have valid: "validate_document json_size keys (draft_document s) = Inr () \<longleftrightarrow> \<not> uuid_is_nil (ses_id s)
      \<and> valid_draft (ses_baseline s) (pd_operations (ses_draft s))
      \<and> (\<exists>n \<le> MAX_DRAFT_JSON_BYTES. json_size (draft_document s) = Some n) \<and> is_ok (build_preview keys (ses_baseline s) empty_draft)"
    using assms first unfolding validate_document_def by (auto simp: draft_document_def versions session_inv_def bounded_draft_def not_less
        and_then_Inr_iff map_err_Inr_iff ok_or_Inr_iff is_ok_iff validate_draft_valid [symmetric])
  have "from_document json_size keys (draft_document s) = Inr t \<longleftrightarrow> validate_document json_size keys (draft_document s) = Inr ()
      \<and> t = s\<lparr>ses_history_limit := DEFAULT_HISTORY_LIMIT, ses_undo := [], ses_redo := []\<rparr>"
    using assms by (cases s) (auto simp: from_document_def and_then_Inr_iff map_err_Inr_iff draft_document_def session_inv_def)
  then show ?thesis unfolding valid by simp
qed

text \<open>
  C26. A rebase moves a draft to a new observation without changing what the user asked for. When it can
  be prepared, the requests keep their identities, their outputs and their kinds, the translated draft is valid for the new
  baseline, and each input is rebound to the same object: an output of the draft stays itself, and a node of
  the old observation becomes the one of the new observation that provably is the same
  device, never the same node twice. Accepting the review on the session it came from publishes that draft.
\<close>

theorem rebase_keeps_meaning:
  assumes prepare: "prepare_rebase keys (ses_revision s) baseline s = Inr review" and inv: "graph_inv (cur_graph (hb_snapshot baseline))"
    and "revision_next (ses_revision s) = Some revision"
  shows "\<exists>mapping. inj_on mapping (set (rebase_selection (ses_draft s)))
    \<and> (\<forall>n \<in> set (rebase_selection (ses_draft s)). \<exists>identity.
        same_object (hb_snapshot (ses_baseline s)) (hb_snapshot baseline) \<lparr>nc_source = n, nc_target = mapping n, nc_identity = identity\<rparr>)
    \<and> (\<forall>n \<in> draft_outputs (ses_draft s). mapping n = n)
    \<and> map po_id (pd_operations (rb_draft review)) = map po_id (pd_operations (ses_draft s))
    \<and> map po_created_node (pd_operations (rb_draft review)) = map po_created_node (pd_operations (ses_draft s))
    \<and> list_all2 (\<lambda>new old. same_kind (po_request old) (po_request new)
         \<and> request_nodes (po_request new) = map mapping (request_nodes (po_request old)))
        (pd_operations (rb_draft review)) (pd_operations (ses_draft s))
    \<and> valid_draft baseline (pd_operations (rb_draft review))
    \<and> accept_rebase (ses_revision s) review s = (Inr revision, s\<lparr>ses_baseline := baseline, ses_draft := rb_draft review,
        ses_preview := rb_preview review, ses_revision := revision, ses_undo := [], ses_redo := []\<rparr>)"
proof -
  note r = prepare_rebase_Inr [OF prepare]
  note t = remap_draft_Inr [OF r(4)]
  let ?f = "remap (rebase_mapping (rb_correlations review))"
  note same = remap_same_objects [OF t(4) inv]
  have "\<forall>n \<in> draft_outputs (ses_draft s). ?f n = n" using same(3) by (auto simp: rebase_selection_def)
  moreover have "valid_draft baseline (pd_operations (rb_draft review))" using t(2) by (simp add: validate_draft_valid)
  moreover have "accept_rebase (ses_revision s) review s = (Inr revision, s\<lparr>ses_baseline := baseline, ses_draft := rb_draft review,
        ses_preview := rb_preview review, ses_revision := revision, ses_undo := [], ses_redo := []\<rparr>)"
    using assms(3) r(1,2) by (simp add: accept_rebase_def publishing_def draft_document_def)
  ultimately show ?thesis
    using same(1,2) translate_draft_operations [of "rebase_mapping (rb_correlations review)" "ses_draft s", folded t(3)]
    by (intro exI [of _ ?f] conjI)
qed

end
