(* ===== verification/Session_Sample.thy ===== *)
theory Session_Sample
  imports Session_Properties Live_Sample
begin

text \<open>
  The properties of planning sessions on a concrete one: a filesystem is requested on a logical
  volume and mounted; the session is saved, opened, edited, frozen and rebased to an observation in
  which the volume has another identity.
\<close>

section \<open>A sample session\<close>

definition session_baseline :: "uuid \<Rightarrow> uuid \<Rightarrow> HistoricalBaseline" where
  "session_baseline i base = \<lparr>hb_id = i, hb_snapshot = live_state (live_graph base (live_lv (Some True) (Some live_block))),
     hb_capacity_evidence = []\<rparr>"

definition session_draft :: PlanDraft where
  "session_draft = empty_draft\<lparr>pd_operations := [
     \<lparr>po_id = OperationId 1, po_request = PlanRequest.CreateFilesystem (NodeId 3) FilesystemKind.Ext4 None, po_created_node = Some (NodeId 4)\<rparr>,
     \<lparr>po_id = OperationId 2, po_request = PlanRequest.Mount \<lparr>me_source = MountSource.Filesystem (NodeId 4),
        me_target = [RootDir, Normal ''data''], me_options = [''rw''], me_context = MountContext.Host\<rparr>, po_created_node = None\<rparr>]\<rparr>"

definition session_saved :: DraftDocument where
  "session_saved = \<lparr>dd_schema_version = 5, dd_session_id = 7, dd_revision = DraftRevision 0,
     dd_baseline = session_baseline 6 0, dd_draft = session_draft\<rparr>"

definition session_verdict :: "PlanPreview \<Rightarrow> bool" where
  "session_verdict p \<longleftrightarrow> map oa_actions (pv_source_map p) = [[ActionId 0], [ActionId 1]] \<and> rep_protection_violations (pv_report p) = []"

definition session_works :: bool where
  "session_works = (case build_preview sample_keys (session_baseline 6 0) session_draft of Inl _ \<Rightarrow> False | Inr p \<Rightarrow> session_verdict p)"

definition session_rebased :: bool where
  "session_rebased = (case remap_draft sample_keys (session_baseline 6 0) session_draft (session_baseline 8 10) of
     Inl _ \<Rightarrow> False | Inr (draft, _) \<Rightarrow> is_ok (preview_of (build_preview sample_keys (session_baseline 8 10) draft)))"

lemma session_works_holds: "session_works"
  by code_simp

lemma session_rebased_holds: "session_rebased"
  by code_simp

lemma session_valid: "is_ok (build_preview sample_keys (session_baseline 6 0) empty_draft)" "is_ok (validate_draft (session_baseline 6 0) session_draft)"
  by code_simp+

definition session_preview :: PlanPreview where
  "session_preview = projr (build_preview sample_keys (session_baseline 6 0) session_draft)"

lemma session_built:
  "build_preview sample_keys (session_baseline 6 0) session_draft = Inr session_preview" "session_verdict session_preview"
  using session_works_holds by (auto simp: session_works_def session_preview_def split: sum.splits)

definition session_opened :: PlanSession where
  "session_opened = \<lparr>ses_id = 7, ses_revision = DraftRevision 0, ses_baseline = session_baseline 6 0, ses_draft = session_draft,
     ses_preview = PreviewState.Calculated session_preview, ses_history_limit = 64, ses_undo = [], ses_redo = []\<rparr>"

lemma session_opened_fields [simp]:
  "ses_id session_opened = 7" "ses_revision session_opened = DraftRevision 0" "ses_baseline session_opened = session_baseline 6 0"
  "ses_draft session_opened = session_draft" "ses_preview session_opened = PreviewState.Calculated session_preview"
  "ses_history_limit session_opened = 64" "ses_undo session_opened = []" "ses_redo session_opened = []"
  by (simp_all add: session_opened_def)

lemma session_opened_from: "from_document (\<lambda>_. Some 100) sample_keys session_saved = Inr session_opened"
proof -
  have "validate_document (\<lambda>_. Some 100) sample_keys session_saved = Inr ()"
    using session_valid by (auto simp: validate_document_def session_saved_def session_draft_def required_version_def DRAFT_SCHEMA_VERSION_def
        MAX_DRAFT_OPERATIONS_def MAX_DRAFT_JSON_BYTES_def uuid_is_nil_def is_ok_iff)
  then show ?thesis
    by (simp add: from_document_def session_built preview_of_def session_opened_def DEFAULT_HISTORY_LIMIT_def session_saved_def)
qed

lemma session_opened_inv: "session_inv sample_keys session_opened"
  by (rule opened_session_inv [OF session_opened_from])

lemma session_cleared:
  "\<exists>receipt t. session_edit sample_keys (OperationId 0) (NodeId 0) (DraftRevision 0) PlanEdit.Clear session_opened = (Inr receipt, t)
     \<and> ses_revision t = DraftRevision 1 \<and> ses_draft t = empty_draft"
proof -
  obtain p where "build_preview sample_keys (session_baseline 6 0) empty_draft = Inr p" using session_valid by (auto simp: is_ok_iff)
  then have "build_candidate sample_keys session_opened empty_draft = Inr (PreviewState.Calculated p)"
    by (simp add: build_candidate_def preview_of_def)
  moreover have "session_draft\<lparr>pd_operations := []\<rparr> = empty_draft" by (simp add: session_draft_def empty_draft_def)
  ultimately show ?thesis
    by (simp add: session_edit_def publishing_def check_revision_def revision_next_def checked_add_def apply_edit_def)
qed

lemma session_graph_inv: "graph_inv (cur_graph (hb_snapshot (session_baseline i base)))"
  by (simp add: session_baseline_def live_state_def live_graph_inv)

lemma session_reviewed: "\<exists>review. prepare_rebase sample_keys (DraftRevision 0) (session_baseline 8 10) session_opened = Inr review"
  using session_rebased_holds by (fastforce simp: session_rebased_def prepare_rebase_def draft_document_def is_ok_iff Let_def split: sum.splits prod.splits)

section \<open>Witnesses\<close>

theorem preview_serves_draft_witness:
  "\<exists>preview. build_preview sample_keys (session_baseline 6 0) session_draft = Inr preview
     \<and> map oa_operation (pv_source_map preview) = [OperationId 1, OperationId 2]
     \<and> (ActionId 0, ActionId 1) \<in> (set (action_edges (plan_dependencies (pv_plan preview))))\<^sup>+"
proof -
  have acts: "oa_actions (pv_source_map session_preview ! 0) = [ActionId 0]" "oa_actions (pv_source_map session_preview ! 1) = [ActionId 1]"
    using session_built(2) by (auto simp: session_verdict_def)
  have "\<forall>i j x y. i < j \<longrightarrow> j < length (pd_operations session_draft) \<longrightarrow> x \<in> set (oa_actions (pv_source_map session_preview ! i)) \<longrightarrow>
      y \<in> set (oa_actions (pv_source_map session_preview ! j)) \<longrightarrow>
      (x, y) \<in> (set (action_edges (plan_dependencies (pv_plan session_preview))))\<^sup>+"
    and ids: "map oa_operation (pv_source_map session_preview) = map po_id (pd_operations session_draft)"
    using preview_serves_draft [OF session_built(1)] by blast+
  from this(1) [rule_format, of 0 1 "ActionId 0" "ActionId 1"] ids show ?thesis
    using session_built(1) acts by (simp add: session_draft_def)
qed

theorem preview_failures_explained_witness:
  "\<exists>preview. build_preview sample_keys (session_baseline 6 0) session_draft = Inr preview \<and> preview_status preview \<noteq> PreviewStatus.Blocked"
  using preview_failures_explained [of sample_keys "session_baseline 6 0" session_draft] session_built by (simp add: session_verdict_def)

theorem removal_exact_witness:
  "remove_operations (pd_operations session_draft) [OperationId 2] = Inr [hd (pd_operations session_draft)]
     \<and> valid_draft (session_baseline 6 0) [hd (pd_operations session_draft)]"
proof -
  have "needs (pd_operations session_draft) `` {OperationId 2} \<subseteq> {OperationId 2}"
    by (auto simp: needs_def session_draft_def)
  moreover have "valid_draft (session_baseline 6 0) (pd_operations session_draft)"
    using session_valid(2) by (auto simp: is_ok_iff validate_draft_valid [symmetric])
  ultimately show ?thesis
    using removal_exact [of "pd_operations session_draft" "[OperationId 2]" "[]" "[hd (pd_operations session_draft)]" "session_baseline 6 0"]
    by (auto simp: session_draft_def)
qed

theorem session_consistent_witness:
  "\<exists>t. session.leads_to sample_keys session_opened t \<and> ses_draft t = empty_draft \<and> ses_revision t = DraftRevision 1
     \<and> preview_of (build_preview sample_keys (ses_baseline t) empty_draft) = Inr (ses_preview t)"
proof -
  obtain receipt t where edit: "session_edit sample_keys (OperationId 0) (NodeId 0) (DraftRevision 0) PlanEdit.Clear session_opened = (Inr receipt, t)"
    and t: "ses_revision t = DraftRevision 1" "ses_draft t = empty_draft" using session_cleared by blast
  have "snd (call_session sample_keys (SessionCall.Edit (OperationId 0) (NodeId 0) (DraftRevision 0) PlanEdit.Clear) session_opened) = t"
    by (simp add: call_session_def reply_def edit)
  then have "session.leads_to sample_keys session_opened t" by (rule session.there [OF session.here])
  then show ?thesis using session_consistent [of sample_keys 0 "session_baseline 6 0" session_opened "\<lambda>_. Some 100" session_saved t] session_opened_from t
    by auto
qed


theorem freeze_exact_witness: "\<exists>frozen. session_freeze sample_keys 11 (DraftRevision 0) session_opened = Inr frozen \<and> fp_session_id frozen = 7"
  using freeze_exact [OF session_opened_inv, of 11] session_built(2)
  by (fastforce simp: session_graph_inv uuid_is_nil_def session_verdict_def is_ok_iff)

theorem save_open_roundtrip_witness:
  "from_document (\<lambda>_. Some 100) sample_keys (draft_document session_opened) = Inr session_opened"
proof -
  have "session_opened\<lparr>ses_history_limit := DEFAULT_HISTORY_LIMIT, ses_undo := [], ses_redo := []\<rparr> = session_opened"
    by (simp add: session_opened_def DEFAULT_HISTORY_LIMIT_def)
  moreover have "valid_draft (session_baseline 6 0) (pd_operations session_draft)"
    using session_valid(2) by (auto simp: is_ok_iff validate_draft_valid [symmetric])
  ultimately show ?thesis using save_open_roundtrip [OF session_opened_inv, of "\<lambda>_. Some 100" session_opened] session_valid(1)
    by (simp add: uuid_is_nil_def MAX_DRAFT_JSON_BYTES_def)
qed

theorem rebase_keeps_meaning_witness:
  "\<exists>review t. prepare_rebase sample_keys (DraftRevision 0) (session_baseline 8 10) session_opened = Inr review
     \<and> accept_rebase (DraftRevision 0) review session_opened = (Inr (DraftRevision 1), t)
     \<and> map po_id (pd_operations (ses_draft t)) = [OperationId 1, OperationId 2]"
proof -
  obtain review where review: "prepare_rebase sample_keys (ses_revision session_opened) (session_baseline 8 10) session_opened = Inr review"
    using session_reviewed by auto
  have next_revision: "revision_next (ses_revision session_opened) = Some (DraftRevision 1)" by (simp add: revision_next_def checked_add_def)
  show ?thesis using rebase_keeps_meaning [OF review session_graph_inv next_revision] review by (auto simp: session_draft_def)
qed

end
