(* ===== verification/Runtime_System.thy ===== *)
theory Runtime_System
  imports Execution_Run
begin

text \<open>
  Procedures of the execution runtime: functions of a world that return a result and the world
  they leave behind, and the calls of the operating system they are made of. The operating
  system, whose code is not part of the program, is an argument (\<open>Os\<close>); its methods are named
  after the calls of \<^verbatim>\<open>rustix\<close> and the standard library that the sources use.
\<close>

section \<open>Procedures\<close>

type_synonym ('w, 'e, 'a) proc = "'w \<Rightarrow> ('e, 'a) result \<times> 'w"

definition give :: "'a \<Rightarrow> ('w, 'e, 'a) proc" where
  "give x w = (Inr x, w)"

definition refuse :: "'e \<Rightarrow> ('w, 'e, 'a) proc" where
  "refuse e w = (Inl e, w)"

definition given :: "('e, 'a) result \<Rightarrow> ('w, 'e, 'a) proc" where
  "given r w = (r, w)"

text \<open>The question mark operator between two calls.\<close>

definition seq :: "('w, 'e, 'a) proc \<Rightarrow> ('a \<Rightarrow> ('w, 'e, 'b) proc) \<Rightarrow> ('w, 'e, 'b) proc" where
  "seq m k w = (case m w of (Inl e, w') \<Rightarrow> (Inl e, w') | (Inr x, w') \<Rightarrow> k x w')"

text \<open>A call whose failure is inspected by what follows.\<close>

definition tried :: "('w, 'e, 'a) proc \<Rightarrow> (('e, 'a) result \<Rightarrow> ('w, 'f, 'b) proc) \<Rightarrow> ('w, 'f, 'b) proc" where
  "tried m k w = (case m w of (r, w') \<Rightarrow> k r w')"

definition recast :: "('e \<Rightarrow> 'f) \<Rightarrow> ('w, 'e, 'a) proc \<Rightarrow> ('w, 'f, 'a) proc" where
  "recast f m w = (case m w of (r, w') \<Rightarrow> (map_err f r, w'))"

definition changed :: "('w \<Rightarrow> 'w) \<Rightarrow> ('w, 'e, unit) proc" where
  "changed f w = (Inr (), f w)"

text \<open>A value that is dropped when its scope is left, on success and on failure.\<close>

definition scoped :: "('w, 'e, 'a) proc \<Rightarrow> ('a \<Rightarrow> 'w \<Rightarrow> 'w) \<Rightarrow> ('a \<Rightarrow> ('w, 'e, 'b) proc) \<Rightarrow> ('w, 'e, 'b) proc" where
  "scoped acquire discard body = seq acquire (\<lambda>x. tried (body x) (\<lambda>r w. (r, discard x w)))"

text \<open>A value that is dropped when its scope is left with a failure, and otherwise moved out of it.\<close>

definition kept :: "('w, 'e, 'a) proc \<Rightarrow> ('a \<Rightarrow> 'w \<Rightarrow> 'w) \<Rightarrow> ('a \<Rightarrow> ('w, 'e, 'b) proc) \<Rightarrow> ('w, 'e, 'b) proc" where
  "kept acquire discard body = seq acquire (\<lambda>x. tried (body x) (\<lambda>r w. (r, if is_ok r then w else discard x w)))"

section \<open>Calls of the operating system\<close>

datatype Errno = NOENT | EXIST | WOULDBLOCK | OtherErrno int

type_synonym fd = nat

datatype OFlags = CREATE | EXCL | RDONLY | WRONLY | RDWR | CLOEXEC | NOFOLLOW | NONBLOCK | DIRECTORY

record Stat =
  st_dev :: u64
  st_ino :: u64
  st_mode :: u32
  st_nlink :: u64
  st_uid :: u32
  st_size :: int

record 'w Os =
  os_euid :: "u32"
  os_open :: "string \<Rightarrow> OFlags set \<Rightarrow> u32 \<Rightarrow> ('w, Errno, fd) proc"
  os_openat :: "fd \<Rightarrow> string \<Rightarrow> OFlags set \<Rightarrow> u32 \<Rightarrow> ('w, Errno, fd) proc"
  os_dup :: "fd \<Rightarrow> ('w, Errno, fd) proc"
  os_close :: "fd \<Rightarrow> 'w \<Rightarrow> 'w"
  os_fstat :: "fd \<Rightarrow> ('w, Errno, Stat) proc"
  os_statat :: "fd \<Rightarrow> string \<Rightarrow> ('w, Errno, Stat) proc"
  os_flock :: "fd \<Rightarrow> ('w, Errno, unit) proc"
  os_fchmod :: "fd \<Rightarrow> u32 \<Rightarrow> ('w, Errno, unit) proc"
  os_write_all :: "fd \<Rightarrow> string \<Rightarrow> ('w, Errno, unit) proc"
  os_sync_all :: "fd \<Rightarrow> ('w, Errno, unit) proc"
  os_rename_noreplace :: "fd \<Rightarrow> string \<Rightarrow> string \<Rightarrow> ('w, Errno, unit) proc"
  os_fsync :: "fd \<Rightarrow> ('w, Errno, unit) proc"
  os_unlinkat :: "fd \<Rightarrow> string \<Rightarrow> ('w, Errno, unit) proc"
  os_read_to_end :: "fd \<Rightarrow> nat \<Rightarrow> ('w, Errno, string) proc"
  os_fresh_uuid :: "'w \<Rightarrow> uuid \<times> 'w"

text \<open>The kind and the permissions in the mode of a file, in octal digits.\<close>

definition octal :: "nat list \<Rightarrow> u32" where
  "octal ds = of_nat (foldl (\<lambda>n d. 8 * n + d) 0 ds)"

definition is_regular_file :: "Stat \<Rightarrow> bool" where
  "is_regular_file info \<longleftrightarrow> and (st_mode info) (octal [1,7,0,0,0,0]) = octal [1,0,0,0,0,0]"

definition OWNER_READ_WRITE :: u32 where
  "OWNER_READ_WRITE = octal [6,0,0]"

end
