(* ===== verification/Runtime_Lease.thy ===== *)
theory Runtime_Lease
  imports Runtime_System
begin

text \<open>
  The exclusion of concurrent executions (\<^verbatim>\<open>storage-runtime/src/lease.rs\<close>): one lock file in one
  private directory, checked again before every use, and leases of it for one action.
\<close>

definition LOCK_FILE :: string where
  "LOCK_FILE = ''execution.lock''"

datatype LeaseError =
    Io Errno
  | InsecureDirectory
  | InvalidLockFile
  | Busy
  | NotChecking
  | Run ExecutionRunError

record ExecutionRoot =
  root_directory :: fd

record HostExecutionLock =
  hel_directory :: fd
  hel_lock :: fd

record ExecutionLease =
  el_host_lock :: HostExecutionLock
  el_run_id :: uuid
  el_action :: ActionId
  el_resources :: "ResourceAccess list"

definition validate_directory :: "'w Os \<Rightarrow> fd \<Rightarrow> ('w, LeaseError, unit) proc" where
  "validate_directory os dir =
     seq (recast LeaseError.Io (os_fstat os dir)) (\<lambda>info.
     if st_uid info \<noteq> os_euid os \<or> and (st_mode info) (octal [7,7,7,7]) \<noteq> octal [7,0,0] \<or> st_nlink info = 0
     then refuse LeaseError.InsecureDirectory else give ())"

definition validate_lock :: "'w Os \<Rightarrow> fd \<Rightarrow> fd \<Rightarrow> ('w, LeaseError, unit) proc" where
  "validate_lock os dir lock =
     seq (recast LeaseError.Io (os_fstat os lock)) (\<lambda>info.
     seq (recast LeaseError.Io (os_statat os dir LOCK_FILE)) (\<lambda>named.
     if \<not> is_regular_file info \<or> st_uid info \<noteq> os_euid os \<or> and (st_mode info) (octal [7,1,7,7]) \<noteq> 0
        \<or> st_nlink info \<noteq> 1 \<or> st_dev info \<noteq> st_dev named \<or> st_ino info \<noteq> st_ino named
     then refuse LeaseError.InvalidLockFile else give ()))"

definition root_try_clone :: "'w Os \<Rightarrow> ExecutionRoot \<Rightarrow> ('w, LeaseError, ExecutionRoot) proc" where
  "root_try_clone os root = seq (recast LeaseError.Io (os_dup os (root_directory root))) (\<lambda>dir. give \<lparr>root_directory = dir\<rparr>)"

definition root_open :: "'w Os \<Rightarrow> string \<Rightarrow> ('w, LeaseError, ExecutionRoot) proc" where
  "root_open os path =
     kept (recast LeaseError.Io (os_open os path {RDONLY, DIRECTORY, CLOEXEC, NOFOLLOW} 0)) (os_close os) (\<lambda>dir.
     seq (validate_directory os dir) (\<lambda>_. give \<lparr>root_directory = dir\<rparr>))"

text \<open>The guard closes both descriptors when it is dropped, which releases the lock.\<close>

definition drop_lock :: "'w Os \<Rightarrow> HostExecutionLock \<Rightarrow> 'w \<Rightarrow> 'w" where
  "drop_lock os lock w = os_close os (hel_lock lock) (os_close os (hel_directory lock) w)"

definition try_lock_host :: "'w Os \<Rightarrow> ExecutionRoot \<Rightarrow> ('w, LeaseError, HostExecutionLock) proc" where
  "try_lock_host os root =
     seq (validate_directory os (root_directory root)) (\<lambda>_.
     kept (recast LeaseError.Io (os_openat os (root_directory root) LOCK_FILE {CREATE, RDWR, CLOEXEC, NOFOLLOW, NONBLOCK} OWNER_READ_WRITE))
       (os_close os) (\<lambda>lock.
     seq (validate_lock os (root_directory root) lock) (\<lambda>_.
     seq (recast (\<lambda>e. if e = WOULDBLOCK then LeaseError.Busy else LeaseError.Io e) (os_flock os lock)) (\<lambda>_.
     seq (validate_lock os (root_directory root) lock) (\<lambda>_.
     kept (recast LeaseError.Io (os_dup os (root_directory root))) (os_close os) (\<lambda>dir.
     seq (validate_directory os dir) (\<lambda>_.
     give \<lparr>hel_directory = dir, hel_lock = lock\<rparr>)))))))"

definition lock_validate :: "'w Os \<Rightarrow> HostExecutionLock \<Rightarrow> ('w, LeaseError, unit) proc" where
  "lock_validate os lock =
     seq (validate_directory os (hel_directory lock)) (\<lambda>_. validate_lock os (hel_directory lock) (hel_lock lock))"

section \<open>Leases\<close>

definition lease_from_lock :: "HostExecutionLock \<Rightarrow> ExecutionRun \<Rightarrow> ActionId \<Rightarrow> (LeaseError fault, ExecutionLease) result" where
  "lease_from_lock lock run action =
     and_then (map_err (map_fault LeaseError.Run) (get_state action run)) (\<lambda>st.
     if st \<noteq> ActionRunState.Checking then Inl (fault.Failed LeaseError.NotChecking)
     else and_then (ok_or (find (\<lambda>candidate. pa_id candidate = action) (plan_actions (run_plan run)))
         (fault.Failed (LeaseError.Run (ExecutionRunError.UnknownAction action)))) (\<lambda>planned.
       Inr \<lparr>el_host_lock = lock, el_run_id = run_run_id run, el_action = action,
         el_resources = ac_affected_resources (pa_informational_contract planned)\<rparr>))"

definition drop_lease :: "'w Os \<Rightarrow> ExecutionLease \<Rightarrow> 'w \<Rightarrow> 'w" where
  "drop_lease os lease = drop_lock os (el_host_lock lease)"

definition under_host_lock ::
  "'w Os \<Rightarrow> HostExecutionLock \<Rightarrow> ExecutionRun \<Rightarrow> ActionId \<Rightarrow> ('w, LeaseError fault, ExecutionLease) proc" where
  "under_host_lock os lock run action =
     kept (kept (recast (fault.Failed \<circ> LeaseError.Io) (os_dup os (hel_directory lock))) (os_close os) (\<lambda>dir.
         seq (recast (fault.Failed \<circ> LeaseError.Io) (os_dup os (hel_lock lock))) (\<lambda>l.
         give \<lparr>hel_directory = dir, hel_lock = l\<rparr>))) (drop_lock os) (\<lambda>own.
     given (lease_from_lock own run action))"

definition try_acquire ::
  "'w Os \<Rightarrow> ExecutionRoot \<Rightarrow> ExecutionRun \<Rightarrow> ActionId \<Rightarrow> ('w, LeaseError fault, ExecutionLease) proc" where
  "try_acquire os root run action =
     seq (given (map_err (map_fault LeaseError.Run) (get_state action run))) (\<lambda>st.
     if st \<noteq> ActionRunState.Checking then refuse (fault.Failed LeaseError.NotChecking)
     else kept (recast fault.Failed (try_lock_host os root)) (drop_lock os) (\<lambda>lock.
       given (lease_from_lock lock run action)))"

end
