(* ===== verification/Runtime_Checkpoint.thy ===== *)
theory Runtime_Checkpoint
  imports Runtime_Lease Draft_Requests Correlate "HOL-Library.List_Lexorder" "HOL-Library.Char_ord"
begin

text \<open>
  The checkpoint of the action whose dispatch may have begun
  (\<^verbatim>\<open>storage-runtime/src/checkpoint.rs\<close>) and the store that publishes and removes it
  (\<^verbatim>\<open>storage-runtime/src/checkpoint/store.rs\<close>). Reading and writing JSON and the digest of a plan
  are arguments.
\<close>

section \<open>Data\<close>

definition CHECKPOINT_SCHEMA_VERSION :: u16 where
  "CHECKPOINT_SCHEMA_VERSION = 1"

definition MAX_CHECKPOINT_BYTES :: nat where
  "MAX_CHECKPOINT_BYTES = 64 * 1024"

definition MAX_TARGETS :: nat where
  "MAX_TARGETS = 64"

definition MAX_EXTERNAL_IDS :: nat where
  "MAX_EXTERNAL_IDS = 16"

definition MAX_STRING_BYTES :: nat where
  "MAX_STRING_BYTES = 1024"

definition ACTIVE_FILE :: string where
  "ACTIVE_FILE = ''active-attempt.json''"

datatype CheckpointError =
    Lease LeaseError
  | Io Errno
  | Json
  | SchemaVersion u16
  | TooLarge
  | InvalidData string
  | UnsupportedAction
  | NotAdmitted
  | AlreadyActive
  | AttemptMismatch
  | InvalidFile
  | Poisoned
  | Run ExecutionRunError
  | Document PlanDocumentError

datatype BackendId = BackendId string

record TargetFingerprint =
  tf_planned_id :: NodeId
  tf_external_ids :: "ExternalId list"

record ActiveAttempt =
  aa_schema_version :: u16
  aa_run_id :: uuid
  aa_plan_id :: uuid
  aa_action_id :: ActionId
  aa_operation_id :: "OperationId option"
  aa_action :: ProviderAction
  aa_targets :: "TargetFingerprint list"
  aa_plan_digest :: string
  aa_backend_id :: BackendId

datatype PrimaryIdentity = VolumeGroup | LogicalVolume | Filesystem

datatype JsonValue =
    Null
  | Bool bool
  | Number int
  | String string
  | Array "JsonValue list"
  | Object "(string \<times> JsonValue) list"

text \<open>The codecs of \<^verbatim>\<open>serde_json\<close> for an attempt, and the digest of the canonical form of a document.\<close>

record Codec =
  js_to_value :: "ActiveAttempt \<Rightarrow> JsonValue option"
  js_to_vec :: "ActiveAttempt \<Rightarrow> string option"
  js_from_slice :: "string \<Rightarrow> ActiveAttempt option"
  js_value_from_slice :: "string \<Rightarrow> JsonValue option"
  plan_digest :: "PlanDocument \<Rightarrow> (PlanDocumentError, string) result"

section \<open>Validation\<close>

definition EXT4_HOST_MOUNT_OPTIONS :: "string list" where
  "EXT4_HOST_MOUNT_OPTIONS = [''rw'', ''nosuid'', ''nodev'', ''noexec'', ''relatime'']"

definition is_ext4_host_mount :: "ProviderAction \<Rightarrow> bool" where
  "is_ext4_host_mount action = (case action of
      ProviderAction.Mount (MountAction.Mount (MountSource.Filesystem _) target options MountContext.Host) \<Rightarrow>
        sort options = sort EXT4_HOST_MOUNT_OPTIONS \<and> is_absolute target \<and> target \<noteq> [RootDir]
        \<and> list_all (\<lambda>part. case part of RootDir \<Rightarrow> True | Normal _ \<Rightarrow> True | _ \<Rightarrow> False) target \<and> \<not> path_has_nul target
    | _ \<Rightarrow> False)"

text \<open>
  A text that \<^verbatim>\<open>Uuid::parse_str\<close> reads as an identity other than nil and that is the text of
  that identity.
\<close>

definition hex_value :: "char \<Rightarrow> nat" where
  "hex_value c = (case find (\<lambda>n. hex_digit n = c) [0..<16] of Some n \<Rightarrow> n | None \<Rightarrow> 0)"

definition read_uuid :: "string \<Rightarrow> uuid" where
  "read_uuid s = of_nat (foldl (\<lambda>n c. 16 * n + hex_value c) 0 (filter (\<lambda>c. c \<noteq> CHR ''-'') s))"

definition canonical_uuid :: "string \<Rightarrow> bool" where
  "canonical_uuid s \<longleftrightarrow> \<not> uuid_is_nil (read_uuid s) \<and> show_uuid (read_uuid s) = s"

fun check_string_limits :: "JsonValue \<Rightarrow> (CheckpointError, unit) result"
  and check_all_limits :: "JsonValue list \<Rightarrow> (CheckpointError, unit) result"
  and check_entry_limits :: "(string \<times> JsonValue) list \<Rightarrow> (CheckpointError, unit) result" where
  "check_string_limits (JsonValue.String txt) = require (length txt \<le> MAX_STRING_BYTES) CheckpointError.TooLarge"
| "check_string_limits (JsonValue.Array values) = check_all_limits values"
| "check_string_limits (JsonValue.Object entries) = check_entry_limits entries"
| "check_string_limits _ = Inr ()"
| "check_all_limits [] = Inr ()"
| "check_all_limits (v # vs) = and_then (check_string_limits v) (\<lambda>_. check_all_limits vs)"
| "check_entry_limits [] = Inr ()"
| "check_entry_limits ((k, v) # es) = and_then (check_string_limits v) (\<lambda>_. check_entry_limits es)"

definition label_fits :: "string option \<Rightarrow> bool" where
  "label_fits label = (case label of None \<Rightarrow> True | Some l \<Rightarrow> length l \<le> 16 \<and> CHR 0x00 \<notin> set l)"

definition primary_target :: "ProviderAction \<Rightarrow> (CheckpointError, NodeId \<times> PrimaryIdentity) result" where
  "primary_target action = (case action of
      ProviderAction.Lvm (LvmAction.CreateLv vg planned name sz layout) \<Rightarrow>
        if \<not> uuid_is_nil (as_uuid planned) \<and> as_u64 sz \<noteq> 0 then Inr (vg, PrimaryIdentity.VolumeGroup) else Inl CheckpointError.UnsupportedAction
    | ProviderAction.Lvm (LvmAction.SetActivation target active) \<Rightarrow> Inr (target, PrimaryIdentity.LogicalVolume)
    | ProviderAction.Filesystem (FilesystemAction.Create backing planned FilesystemKind.Ext4 label) \<Rightarrow>
        if \<not> uuid_is_nil (as_uuid planned) \<and> planned \<noteq> backing \<and> label_fits label
        then Inr (backing, PrimaryIdentity.LogicalVolume) else Inl CheckpointError.UnsupportedAction
    | ProviderAction.Mount (MountAction.Mount (MountSource.Filesystem fs) target options context) \<Rightarrow>
        if is_ext4_host_mount action then Inr (fs, PrimaryIdentity.Filesystem) else Inl CheckpointError.UnsupportedAction
    | _ \<Rightarrow> Inl CheckpointError.UnsupportedAction)"

definition carries_native :: "PrimaryIdentity \<Rightarrow> ExternalId \<Rightarrow> bool" where
  "carries_native kind identity = (case (kind, identity) of
      (PrimaryIdentity.VolumeGroup, ExternalId.LvmVgUuid value) \<Rightarrow> trim value \<noteq> []
    | (PrimaryIdentity.LogicalVolume, ExternalId.LvmLvUuid value) \<Rightarrow> trim value \<noteq> []
    | (PrimaryIdentity.Filesystem, ExternalId.Filesystem fs_type value) \<Rightarrow> fs_type = ''ext4'' \<and> canonical_uuid value
    | _ \<Rightarrow> False)"

definition check_target_identity ::
  "NodeId \<Rightarrow> PrimaryIdentity \<Rightarrow> TargetFingerprint list \<Rightarrow> TargetFingerprint \<Rightarrow> (CheckpointError, TargetFingerprint list) result" where
  "check_target_identity primary kind earlier target =
     (if uuid_is_nil (as_uuid (tf_planned_id target)) \<or> list_ex (\<lambda>other. tf_planned_id other = tf_planned_id target) earlier
         \<or> tf_external_ids target = []
      then Inl (CheckpointError.InvalidData ''missing or duplicate target identity'')
      else if MAX_EXTERNAL_IDS < length (tf_external_ids target) then Inl CheckpointError.TooLarge
      else if tf_planned_id target = primary \<and> \<not> list_ex (carries_native kind) (tf_external_ids target)
      then Inl (CheckpointError.InvalidData ''primary target requires its native UUID'')
      else Inr (earlier @ [target]))"

definition is_digest_char :: "char \<Rightarrow> bool" where
  "is_digest_char c \<longleftrightarrow> (CHR ''0'' \<le> c \<and> c \<le> CHR ''9'') \<or> (CHR ''a'' \<le> c \<and> c \<le> CHR ''f'')"

definition validate_attempt :: "Codec \<Rightarrow> ActiveAttempt \<Rightarrow> (CheckpointError, unit) result" where
  "validate_attempt codec attempt =
     (if aa_schema_version attempt \<noteq> CHECKPOINT_SCHEMA_VERSION then Inl (CheckpointError.SchemaVersion (aa_schema_version attempt))
      else if uuid_is_nil (aa_run_id attempt) \<or> uuid_is_nil (aa_plan_id attempt)
        \<or> is_some_and (aa_operation_id attempt) (\<lambda>i. uuid_is_nil (operation_uuid i))
      then Inl (CheckpointError.InvalidData ''nil attempt identity'')
      else if length (aa_plan_digest attempt) \<noteq> 64 \<or> \<not> list_all is_digest_char (aa_plan_digest attempt)
      then Inl (CheckpointError.InvalidData ''invalid SHA-256 plan digest'')
      else
      and_then (primary_target (aa_action attempt)) (\<lambda>(primary, kind).
      if aa_targets attempt = [] \<or> \<not> list_ex (\<lambda>target. tf_planned_id target = primary) (aa_targets attempt)
      then Inl (CheckpointError.InvalidData ''missing primary target fingerprint'')
      else if MAX_TARGETS < length (aa_targets attempt) then Inl CheckpointError.TooLarge
      else
      and_then (try_fold (check_target_identity primary kind) [] (aa_targets attempt)) (\<lambda>_.
      and_then (ok_or (js_to_value codec attempt) CheckpointError.Json) check_string_limits)))"

definition to_bytes :: "Codec \<Rightarrow> ActiveAttempt \<Rightarrow> (CheckpointError, string) result" where
  "to_bytes codec attempt =
     and_then (validate_attempt codec attempt) (\<lambda>_.
     and_then (ok_or (js_to_vec codec attempt) CheckpointError.Json) (\<lambda>bytes.
     if MAX_CHECKPOINT_BYTES < length bytes then Inl CheckpointError.TooLarge else Inr bytes))"

definition from_bytes :: "Codec \<Rightarrow> string \<Rightarrow> (CheckpointError, ActiveAttempt) result" where
  "from_bytes codec bytes =
     (if MAX_CHECKPOINT_BYTES < length bytes then Inl CheckpointError.TooLarge
      else
      and_then (ok_or (js_from_slice codec bytes) CheckpointError.Json) (\<lambda>attempt.
      and_then (validate_attempt codec attempt) (\<lambda>_.
      and_then (ok_or (js_value_from_slice codec bytes) CheckpointError.Json) (\<lambda>inp.
      and_then (ok_or (js_to_value codec attempt) CheckpointError.Json) (\<lambda>out.
      if inp \<noteq> out then Inl (CheckpointError.InvalidData ''unrecognized or noncanonical fields'')
      else Inr attempt)))))"

text \<open>Indexing the plan with the action panics when it is out of range.\<close>

definition capture_attempt ::
  "Codec \<Rightarrow> ExecutionRun \<Rightarrow> ActionId \<Rightarrow> OperationId option \<Rightarrow> TargetFingerprint list \<Rightarrow> BackendId \<Rightarrow>
   (CheckpointError fault, ActiveAttempt) result" where
  "capture_attempt codec run action_id operation_id targets backend =
     and_then (map_err (map_fault CheckpointError.Run) (get_state action_id run)) (\<lambda>st.
     if st \<noteq> ActionRunState.Admitted then Inl (fault.Failed CheckpointError.NotAdmitted)
     else
     and_then (ok_or (nth_opt (plan_actions (run_plan run)) (action_index action_id)) Panic) (\<lambda>planned.
     and_then (map_err (fault.Failed \<circ> CheckpointError.Document) (plan_digest codec (run_document run))) (\<lambda>digest.
     let attempt = \<lparr>aa_schema_version = CHECKPOINT_SCHEMA_VERSION, aa_run_id = run_run_id run, aa_plan_id = doc_plan_id (run_document run),
           aa_action_id = action_id, aa_operation_id = operation_id, aa_action = pa_operation planned, aa_targets = targets,
           aa_plan_digest = digest, aa_backend_id = backend\<rparr> in
     and_then (map_err fault.Failed (to_bytes codec attempt)) (\<lambda>_. Inr attempt))))"

section \<open>The store\<close>

text \<open>
  A store is a lock and a flag that a failed mutation sets; its methods run on the flag and the
  world.
\<close>

definition outside :: "('w, 'e, 'a) proc \<Rightarrow> (bool \<times> 'w, 'e, 'a) proc" where
  "outside m s = (case s of (poisoned, w) \<Rightarrow> case m w of (r, w') \<Rightarrow> (r, poisoned, w'))"

definition poison :: "bool \<times> 'w \<Rightarrow> bool \<times> 'w" where
  "poison s = (True, snd s)"

definition require_healthy :: "(bool \<times> 'w, CheckpointError, unit) proc" where
  "require_healthy s = (if fst s then (Inl CheckpointError.Poisoned, s) else (Inr (), s))"

definition validate_file :: "'w Os \<Rightarrow> Stat \<Rightarrow> (CheckpointError, unit) result" where
  "validate_file os info =
     (if \<not> is_regular_file info \<or> st_uid info \<noteq> os_euid os \<or> and (st_mode info) (octal [7,1,7,7]) \<noteq> 0 \<or> st_nlink info \<noteq> 1
      then Inl CheckpointError.InvalidFile else Inr ())"

definition read_current :: "'w Os \<Rightarrow> Codec \<Rightarrow> HostExecutionLock \<Rightarrow> ('w, CheckpointError, (ActiveAttempt \<times> Stat) option) proc" where
  "read_current os codec lock =
     seq (recast CheckpointError.Lease (lock_validate os lock)) (\<lambda>_.
     tried (os_openat os (hel_directory lock) ACTIVE_FILE {RDONLY, CLOEXEC, NOFOLLOW, NONBLOCK} 0) (\<lambda>opened.
     case opened of
       Inl NOENT \<Rightarrow> give None
     | Inl e \<Rightarrow> refuse (CheckpointError.Io e)
     | Inr file \<Rightarrow> scoped (give file) (os_close os) (\<lambda>_.
         seq (recast CheckpointError.Io (os_fstat os file)) (\<lambda>info.
         seq (given (validate_file os info)) (\<lambda>_.
         if int MAX_CHECKPOINT_BYTES < st_size info then refuse CheckpointError.TooLarge
         else
         seq (recast CheckpointError.Io (os_read_to_end os file (MAX_CHECKPOINT_BYTES + 1))) (\<lambda>bytes.
         seq (given (from_bytes codec bytes)) (\<lambda>attempt. give (Some (attempt, info)))))))))"

definition inspect :: "'w Os \<Rightarrow> Codec \<Rightarrow> HostExecutionLock \<Rightarrow> ('w, CheckpointError, ActiveAttempt option) proc" where
  "inspect os codec lock = seq (read_current os codec lock) (\<lambda>current. give (map_option fst current))"

definition temporary_name :: "uuid \<Rightarrow> string" where
  "temporary_name fresh = ''.active-attempt-'' @ show_uuid fresh @ ''.tmp''"

text \<open>The staged file is complete and synchronised before it takes the active name.\<close>

definition publish_staged :: "'w Os \<Rightarrow> HostExecutionLock \<Rightarrow> string \<Rightarrow> string \<Rightarrow> fd \<Rightarrow> ('w, CheckpointError, unit) proc" where
  "publish_staged os lock temporary bytes file =
     scoped (give file) (os_close os) (\<lambda>_.
     seq (recast CheckpointError.Io (os_fchmod os file OWNER_READ_WRITE)) (\<lambda>_.
     seq (recast CheckpointError.Io (os_write_all os file bytes)) (\<lambda>_.
     seq (recast CheckpointError.Io (os_sync_all os file)) (\<lambda>_.
     seq (recast CheckpointError.Lease (lock_validate os lock)) (\<lambda>_.
     seq (recast (\<lambda>e. if e = EXIST then CheckpointError.AlreadyActive else CheckpointError.Io e)
       (os_rename_noreplace os (hel_directory lock) temporary ACTIVE_FILE)) (\<lambda>_.
     recast CheckpointError.Io (os_fsync os (hel_directory lock))))))))"

definition arm :: "'w Os \<Rightarrow> Codec \<Rightarrow> HostExecutionLock \<Rightarrow> ActiveAttempt \<Rightarrow> (bool \<times> 'w, CheckpointError, unit) proc" where
  "arm os codec lock attempt =
     seq require_healthy (\<lambda>_.
     seq (outside (inspect os codec lock)) (\<lambda>current.
     if current \<noteq> None then refuse CheckpointError.AlreadyActive
     else
     seq (given (to_bytes codec attempt)) (\<lambda>bytes (poisoned, w).
     case os_fresh_uuid os w of (fresh, w) \<Rightarrow>
     (let temporary = temporary_name fresh in
     tried (outside (os_openat os (hel_directory lock) temporary {CREATE, EXCL, WRONLY, CLOEXEC, NOFOLLOW} OWNER_READ_WRITE)) (\<lambda>opened.
     case opened of
       Inl e \<Rightarrow> (\<lambda>s. (Inl (CheckpointError.Io e), poison s))
     | Inr file \<Rightarrow>
         tried (outside (publish_staged os lock temporary bytes file)) (\<lambda>r.
         case r of
           Inr _ \<Rightarrow> give ()
         | Inl e \<Rightarrow> tried (outside (os_unlinkat os (hel_directory lock) temporary)) (\<lambda>_ s. (Inl e, poison s)))) (poisoned, w)))))"

definition clear :: "'w Os \<Rightarrow> Codec \<Rightarrow> HostExecutionLock \<Rightarrow> ActiveAttempt \<Rightarrow> (bool \<times> 'w, CheckpointError, unit) proc" where
  "clear os codec lock expected =
     seq require_healthy (\<lambda>_.
     seq (outside (read_current os codec lock)) (\<lambda>current.
     case current of
       None \<Rightarrow> refuse CheckpointError.AttemptMismatch
     | Some (attempt, original) \<Rightarrow>
         if attempt \<noteq> expected then refuse CheckpointError.AttemptMismatch
         else
         seq (outside (recast CheckpointError.Io (os_statat os (hel_directory lock) ACTIVE_FILE))) (\<lambda>now.
         seq (given (validate_file os now)) (\<lambda>_.
         if st_dev original \<noteq> st_dev now \<or> st_ino original \<noteq> st_ino now then refuse CheckpointError.InvalidFile
         else
         tried (outside (
           seq (recast CheckpointError.Lease (lock_validate os lock)) (\<lambda>_.
           seq (recast CheckpointError.Io (os_unlinkat os (hel_directory lock) ACTIVE_FILE)) (\<lambda>_.
           recast CheckpointError.Io (os_fsync os (hel_directory lock)))))) (\<lambda>r s.
         (r, if is_ok r then s else poison s))))))"

end
