(* ===== verification/Lvm_Write.thy ===== *)
theory Lvm_Write
  imports Storage_State
begin

text \<open>
  The requests of the narrow LVM recipes (\<^verbatim>\<open>storage-provider/src/lvm_write.rs\<close>): what a request may
  name, how its target is checked in a native report, and which new volume a report shows. The
  reports are those of \<^verbatim>\<open>storage-provider/src/lib.rs\<close>, less the fields that no code here reads.
\<close>

section \<open>Reports\<close>

record LvmPvEntry =
  pve_uuid :: string
  pve_vg_name :: "string option"
  pve_vg_uuid :: "string option"
  pve_size :: u64
  pve_free :: u64
  pve_missing :: bool

record LvmVgEntry =
  vge_name :: string
  vge_uuid :: string
  vge_size :: u64
  vge_extent_size :: u64
  vge_free :: u64
  vge_pv_count :: u64
  vge_exported :: bool

record LvmLvEntry =
  lve_name :: string
  lve_vg_name :: string
  lve_uuid :: string
  lve_size :: u64
  lve_segment_type :: "string option"
  lve_attributes :: "string option"

record LvmEntry =
  le_pvs :: "LvmPvEntry list"
  le_vgs :: "LvmVgEntry list"
  le_lvs :: "LvmLvEntry list"

section \<open>Names\<close>

definition is_ascii_alphanumeric :: "char \<Rightarrow> bool" where
  "is_ascii_alphanumeric c \<longleftrightarrow> c \<in> set ''abcdefghijklmnopqrstuvwxyzABCDEFGHIJKLMNOPQRSTUVWXYZ0123456789''"

definition str_starts_with :: "string \<Rightarrow> string \<Rightarrow> bool" where
  "str_starts_with s p \<longleftrightarrow> take (length p) s = p"

definition str_contains :: "string \<Rightarrow> string \<Rightarrow> bool" where
  "str_contains s sub \<longleftrightarrow> list_ex (\<lambda>i. str_starts_with (drop i s) sub) [0..<Suc (length s)]"

definition valid_name :: "string \<Rightarrow> bool" where
  "valid_name name \<longleftrightarrow> name \<noteq> [] \<and> length name \<le> 127 \<and> \<not> str_starts_with name ''-'' \<and> name \<noteq> ''.'' \<and> name \<noteq> ''..''
     \<and> list_all (\<lambda>c. is_ascii_alphanumeric c \<or> c \<in> set ''+_.-'') name"

definition RESERVED_NAMES :: "string list" where
  "RESERVED_NAMES = [''_cdata'', ''_cmeta'', ''_corig'', ''_mimage'', ''_mlog'', ''_pmspare'', ''_rimage'', ''_rmeta'',
     ''_tdata'', ''_tmeta'', ''_vdata'', ''_vorigin'']"

definition valid_lv_name :: "string \<Rightarrow> bool" where
  "valid_lv_name name \<longleftrightarrow> valid_name name \<and> \<not> str_starts_with name ''snapshot'' \<and> \<not> str_starts_with name ''pvmove''
     \<and> \<not> list_ex (str_contains name) RESERVED_NAMES"

definition valid_uuid :: "string \<Rightarrow> bool" where
  "valid_uuid uuid \<longleftrightarrow> uuid \<noteq> [] \<and> list_all (\<lambda>c. is_ascii_alphanumeric c \<or> c = CHR ''-'') uuid"

text \<open>The state column of the attributes of a volume.\<close>

definition lv_activation :: "LvmLvEntry \<Rightarrow> bool option" where
  "lv_activation lv = (case lve_attributes lv of None \<Rightarrow> None | Some attributes \<Rightarrow>
     if length attributes \<noteq> 10 \<or> \<not> list_all (\<lambda>c. is_ascii_alphanumeric c \<or> c = CHR ''-'') attributes then None
     else if attributes ! 4 = CHR ''a'' then Some True else if attributes ! 4 = CHR ''-'' then Some False else None)"

section \<open>Requests\<close>

datatype LvmWriteError = ExecutionNotDeclared | InvalidRequest | TargetChanged | Native

record LinearLvRequest =
  lr_vg_name :: string
  lr_vg_uuid :: string
  lr_lv_name :: string
  lr_size :: u64

record LvActivationRequest =
  la_vg_name :: string
  la_vg_uuid :: string
  la_lv_name :: string
  la_lv_uuid :: string
  la_size :: u64

definition linear_lv_new :: "string \<Rightarrow> string \<Rightarrow> string \<Rightarrow> u64 \<Rightarrow> (LvmWriteError, LinearLvRequest) result" where
  "linear_lv_new vg uuid lv sz =
     (if \<not> valid_name vg \<or> \<not> valid_lv_name lv \<or> \<not> valid_uuid uuid \<or> sz = 0 then Inl LvmWriteError.InvalidRequest
      else Inr \<lparr>lr_vg_name = vg, lr_vg_uuid = uuid, lr_lv_name = lv, lr_size = sz\<rparr>)"

definition activation_new :: "string \<Rightarrow> string \<Rightarrow> string \<Rightarrow> string \<Rightarrow> u64 \<Rightarrow> (LvmWriteError, LvActivationRequest) result" where
  "activation_new vg uuid lv lv_uuid sz =
     (if \<not> valid_name vg \<or> \<not> valid_lv_name lv \<or> \<not> valid_uuid uuid \<or> \<not> valid_uuid lv_uuid \<or> sz = 0 then Inl LvmWriteError.InvalidRequest
      else Inr \<lparr>la_vg_name = vg, la_vg_uuid = uuid, la_lv_name = lv, la_lv_uuid = lv_uuid, la_size = sz\<rparr>)"

definition pv_incomplete :: "LvmEntry \<Rightarrow> string \<Rightarrow> string \<Rightarrow> LvmPvEntry \<Rightarrow> bool" where
  "pv_incomplete state name uuid pv \<longleftrightarrow> pve_vg_name pv \<noteq> Some name \<or> pve_vg_uuid pv \<noteq> Some uuid \<or> pve_missing pv
     \<or> \<not> valid_uuid (pve_uuid pv) \<or> pve_size pv = 0 \<or> pve_free pv > pve_size pv
     \<or> length (filter (\<lambda>other. pve_uuid other = pve_uuid pv) (le_pvs state)) \<noteq> 1"

definition checked_vg :: "LvmEntry \<Rightarrow> string \<Rightarrow> string \<Rightarrow> (LvmWriteError, LvmVgEntry) result" where
  "checked_vg state name uuid = (case filter (\<lambda>vg. vge_name vg = name \<or> vge_uuid vg = uuid) (le_vgs state) of
      [] \<Rightarrow> Inl LvmWriteError.TargetChanged
    | vg # rest \<Rightarrow>
        if rest \<noteq> [] \<or> vge_name vg \<noteq> name \<or> vge_uuid vg \<noteq> uuid \<or> vge_exported vg \<or> vge_extent_size vg = 0 \<or> vge_free vg > vge_size vg
        then Inl LvmWriteError.TargetChanged
        else let members = filter (\<lambda>pv. pve_vg_name pv = Some name \<or> pve_vg_uuid pv = Some uuid) (le_pvs state) in
          if vge_pv_count vg = 0 \<or> of_nat (length members) \<noteq> vge_pv_count vg \<or> list_ex (pv_incomplete state name uuid) members
          then Inl LvmWriteError.TargetChanged else Inr vg)"

definition check_target :: "LinearLvRequest \<Rightarrow> LvmEntry \<Rightarrow> (LvmWriteError, unit) result" where
  "check_target request state =
     and_then (checked_vg state (lr_vg_name request) (lr_vg_uuid request)) (\<lambda>vg.
     if \<not> is_multiple_of (lr_size request) (vge_extent_size vg) \<or> vge_free vg < lr_size request
        \<or> list_ex (\<lambda>lv. lve_vg_name lv = lr_vg_name request \<and> lve_name lv = lr_lv_name request) (le_lvs state)
     then Inl LvmWriteError.TargetChanged else Inr ())"

definition created_uuid :: "LinearLvRequest \<Rightarrow> LvmEntry \<Rightarrow> LvmEntry \<Rightarrow> (LvmWriteError, string) result" where
  "created_uuid request before after =
     (case filter (\<lambda>vg. vge_name vg = lr_vg_name request \<or> vge_uuid vg = lr_vg_uuid request) (le_vgs after) of
        [] \<Rightarrow> Inl LvmWriteError.TargetChanged
      | vg # rest \<Rightarrow>
          if rest \<noteq> [] \<or> vge_name vg \<noteq> lr_vg_name request \<or> vge_uuid vg \<noteq> lr_vg_uuid request \<or> vge_exported vg
          then Inl LvmWriteError.TargetChanged
          else case filter (\<lambda>lv. lve_vg_name lv = lr_vg_name request \<and> lve_name lv = lr_lv_name request) (le_lvs after) of
            [] \<Rightarrow> Inl LvmWriteError.TargetChanged
          | lv # others \<Rightarrow>
              if others \<noteq> [] \<or> lve_size lv \<noteq> lr_size request \<or> lve_segment_type lv \<noteq> Some ''linear'' \<or> lve_uuid lv = []
                 \<or> \<not> list_all (\<lambda>c. is_ascii_alphanumeric c \<or> c = CHR ''-'') (lve_uuid lv)
                 \<or> length (filter (\<lambda>other. lve_uuid other = lve_uuid lv) (le_lvs after)) \<noteq> 1
                 \<or> list_ex (\<lambda>other. lve_uuid other = lve_uuid lv) (le_lvs before)
              then Inl LvmWriteError.TargetChanged else Inr (lve_uuid lv))"

definition observed_lv :: "LvActivationRequest \<Rightarrow> LvmEntry \<Rightarrow> (LvmWriteError, LvmLvEntry) result" where
  "observed_lv request state =
     and_then (checked_vg state (la_vg_name request) (la_vg_uuid request)) (\<lambda>_.
     case filter (\<lambda>lv. lve_vg_name lv = la_vg_name request \<and> lve_name lv = la_lv_name request \<or> lve_uuid lv = la_lv_uuid request)
         (le_lvs state) of
       [] \<Rightarrow> Inl LvmWriteError.TargetChanged
     | lv # others \<Rightarrow>
         if others \<noteq> [] \<or> lve_vg_name lv \<noteq> la_vg_name request \<or> lve_name lv \<noteq> la_lv_name request \<or> lve_uuid lv \<noteq> la_lv_uuid request
            \<or> lve_size lv \<noteq> la_size request \<or> lve_segment_type lv \<noteq> Some ''linear''
         then Inl LvmWriteError.TargetChanged else Inr lv)"

end
