(* ===== verification/Capacity_Observe.thy ===== *)
theory Capacity_Observe
  imports Plan_Document Lvm_Write Correlate
begin

text \<open>
  The binding of measured volume groups to an observation
  (\<^verbatim>\<open>storage-engine/src/observe.rs\<close>). The evidence text of a rejected measurement, which shows the
  identity with the escapes of the standard library, is an argument.
\<close>

record LvmVgObservation =
  vo_node :: NodeId
  vo_vg :: LvmVgEntry

definition is_vg_uuid :: "ExternalId \<Rightarrow> bool" where
  "is_vg_uuid identity = (case identity of ExternalId.LvmVgUuid _ \<Rightarrow> True | _ \<Rightarrow> False)"

text \<open>The nodes that carry an identity, once for each time they carry it.\<close>

definition graph_uuid_nodes :: "NodeGraph \<Rightarrow> string \<Rightarrow> NodeId list" where
  "graph_uuid_nodes g uuid = concat (map (\<lambda>(i, node). map (\<lambda>_. i)
     (filter (\<lambda>identity. identity = ExternalId.LvmVgUuid uuid) (facts_identities (node_size node)))) (g_nodes g))"

definition matched_node :: "CurrentState \<Rightarrow> LvmVgObservation \<Rightarrow> bool" where
  "matched_node snapshot observation = is_some_and (graph_node (cur_graph snapshot) (vo_node observation)) (\<lambda>node.
     (case spec_kind (node_kind node) of
        NodeKind.LvmVg name (Some extent) \<Rightarrow> name = vge_name (vo_vg observation) \<and> extent = Bytes (vge_extent_size (vo_vg observation))
      | _ \<Rightarrow> False)
     \<and> spec_size (node_kind node) = Some (Bytes (vge_size (vo_vg observation)))
     \<and> facts_presence (node_size node) = Presence.Present
     \<and> length (filter is_vg_uuid (facts_identities (node_size node))) = 1)"

definition exact_measure :: "LvmVgEntry \<Rightarrow> bool" where
  "exact_measure vg \<longleftrightarrow> vge_extent_size vg \<noteq> 0 \<and> vge_free vg \<le> vge_size vg
     \<and> is_multiple_of (vge_free vg) (vge_extent_size vg) \<and> is_multiple_of (vge_size vg) (vge_extent_size vg)"

definition unique_measure :: "CurrentState \<Rightarrow> LvmVgObservation list \<Rightarrow> LvmVgObservation \<Rightarrow> bool" where
  "unique_measure snapshot observations observation \<longleftrightarrow>
     length (filter (\<lambda>other. vo_node other = vo_node observation) observations) = 1
     \<and> length (filter (\<lambda>other. vge_uuid (vo_vg other) = vge_uuid (vo_vg observation)) observations) = 1
     \<and> graph_uuid_nodes (cur_graph snapshot) (vge_uuid (vo_vg observation)) = [vo_node observation]"

definition unknown_capacity :: "(LvmVgEntry \<Rightarrow> string) \<Rightarrow> LvmVgObservation \<Rightarrow> Diagnostic" where
  "unknown_capacity describe observation = \<lparr>diag_code = ''baseline.lvm_capacity_unknown'', diag_severity = DiagnosticSeverity.MissingInformation,
     diag_subjects = [DiagnosticSubject.Node (vo_node observation)],
     diag_message = ''LVM capacity cannot be bound uniquely and exactly to this observed VG'',
     diag_evidence = Some (describe (vo_vg observation)),
     diag_suggested_remedy = Some ''repeat the complete probe; inspect VG identity and extent measurements''\<rparr>"

definition bind_measure ::
  "(LvmVgEntry \<Rightarrow> string) \<Rightarrow> LvmVgObservation list \<Rightarrow> CurrentState \<times> CapacityEvidence list \<Rightarrow> LvmVgObservation \<Rightarrow>
   CurrentState \<times> CapacityEvidence list" where
  "bind_measure describe observations state observation = (case state of (snapshot, evidence) \<Rightarrow>
     let vg = vo_vg observation in
     if matched_node snapshot observation \<and> exact_measure vg \<and> unique_measure snapshot observations observation
        \<and> \<not> vge_exported vg \<and> trim (vge_uuid vg) \<noteq> [] \<and> trim (vge_uuid vg) = vge_uuid vg
     then (snapshot, evidence @ [\<lparr>ce_domain = AllocationDomain.LvmVolumeGroup (vo_node observation),
       ce_available = AllocationQuantity (vge_free vg div vge_extent_size vg)\<rparr>])
     else (snapshot\<lparr>cur_diagnostics := cur_diagnostics snapshot @ [unknown_capacity describe observation]\<rparr>, evidence))"

definition from_lvm_observations ::
  "(LvmVgEntry \<Rightarrow> string) \<Rightarrow> uuid \<Rightarrow> CurrentState \<Rightarrow> LvmVgObservation list \<Rightarrow> (PlanSimulationError, HistoricalBaseline) result" where
  "from_lvm_observations describe fresh snapshot observations =
     and_then (map_err PlanSimulationError.Structure (validate_structure (cur_graph snapshot))) (\<lambda>_.
     case foldl (bind_measure describe observations) (snapshot, []) observations of (measured, evidence) \<Rightarrow>
       Inr \<lparr>hb_id = fresh, hb_snapshot = measured, hb_capacity_evidence = evidence\<rparr>)"

end
