(* ===== verification/Runtime_Scope.thy ===== *)
theory Runtime_Scope
  imports Runtime_Checkpoint Capacity_Observe
begin

text \<open>
  The comparison of the live storage around a target with the reviewed one (\<open>check_scope\<close> of
  \<^verbatim>\<open>storage-runtime/src/targets.rs\<close>) and the evidence for a new filesystem
  (\<^verbatim>\<open>storage-runtime/src/filesystem.rs\<close>).
\<close>

section \<open>New filesystems\<close>

datatype FilesystemEvidenceError = Identity

definition ext4_identity :: "string \<Rightarrow> ExternalId" where
  "ext4_identity uuid = ExternalId.Filesystem ''ext4'' uuid"

definition is_lv_node :: "Node \<Rightarrow> bool" where
  "is_lv_node node = (case spec_kind (node_kind node) of NodeKind.LvmLv _ \<Rightarrow> True | _ \<Rightarrow> False)"

definition is_filesystem_identity :: "ExternalId \<Rightarrow> bool" where
  "is_filesystem_identity identity = (case identity of ExternalId.Filesystem _ _ \<Rightarrow> True | _ \<Rightarrow> False)"

definition observe_ext4 ::
  "LiveObservation \<Rightarrow> NodeId \<Rightarrow> string \<Rightarrow> string option \<Rightarrow> (FilesystemEvidenceError, NodeId) result" where
  "observe_ext4 observed backing uuid label =
     and_then (map_err (\<lambda>_. FilesystemEvidenceError.Identity) (validate_observation observed)) (\<lambda>_.
     let g = cur_graph (lo_snapshot observed) in
     if \<not> canonical_uuid uuid
        \<or> \<not> is_some_and (graph_node g backing) (\<lambda>node. facts_presence (node_size node) = Presence.Present \<and> is_lv_node node)
     then Inl FilesystemEvidenceError.Identity
     else case filter (carries (ext4_identity uuid)) (g_nodes g) of
       [] \<Rightarrow> Inl FilesystemEvidenceError.Identity
     | (i, node) # rest \<Rightarrow>
         if rest \<noteq> [] \<or> facts_presence (node_size node) \<noteq> Presence.Present
            \<or> spec_kind (node_kind node) \<noteq> NodeKind.Filesystem FilesystemKind.Ext4 label
            \<or> length (filter is_filesystem_identity (facts_identities (node_size node))) \<noteq> 1
            \<or> list_ex (\<lambda>e. dep_from e = i) (g_dependencies g)
            \<or> list_ex (\<lambda>e. rel_from e = i \<or> rel_to e = i) (g_relations g)
         then Inl FilesystemEvidenceError.Identity
         else (case filter (\<lambda>e. dep_to e = i) (g_dependencies g) of
             [parent] \<Rightarrow> if dep_from parent = backing \<and> dep_kind parent = DependencyKind.Backs then Inr i else Inl FilesystemEvidenceError.Identity
           | _ \<Rightarrow> Inl FilesystemEvidenceError.Identity))"

definition correlate_created_ext4 ::
  "LiveObservation \<Rightarrow> LiveObservation \<Rightarrow> NodeId \<Rightarrow> NodeId \<Rightarrow> string \<Rightarrow> string option \<Rightarrow>
   (FilesystemEvidenceError, NodeCorrelation) result" where
  "correlate_created_ext4 before after planned backing uuid label =
     and_then (map_err (\<lambda>_. FilesystemEvidenceError.Identity) (validate_observation before)) (\<lambda>_.
     and_then (map_err (\<lambda>_. FilesystemEvidenceError.Identity) (validate_observation after)) (\<lambda>_.
     let g = cur_graph (lo_snapshot before) in
     if uuid_is_nil (as_uuid planned) \<or> graph_node g planned \<noteq> None
        \<or> or_probe_instance (lo_reference before) \<noteq> or_probe_instance (lo_reference after)
        \<or> epoch_get (or_epoch (lo_reference before)) \<ge> epoch_get (or_epoch (lo_reference after))
        \<or> \<not> canonical_uuid uuid
     then Inl FilesystemEvidenceError.Identity
     else if list_ex (carries (ext4_identity uuid)) (g_nodes g) then Inl FilesystemEvidenceError.Identity
     else
     and_then (map_err (\<lambda>_. FilesystemEvidenceError.Identity) (correlate_nodes (lo_snapshot before) (lo_snapshot after) [backing])) (\<lambda>mapping.
     case mapping of [] \<Rightarrow> Inl FilesystemEvidenceError.Identity
     | first # _ \<Rightarrow>
         if \<not> is_some_and (graph_node g backing) is_lv_node then Inl FilesystemEvidenceError.Identity
         else and_then (observe_ext4 after (nc_target first) uuid label) (\<lambda>target.
           Inr \<lparr>nc_source = planned, nc_target = target, nc_identity = ext4_identity uuid\<rparr>))))"

section \<open>The connected component\<close>

definition extend_edge :: "NodeId \<times> NodeId \<Rightarrow> NodeId list \<Rightarrow> NodeId list" where
  "extend_edge e selected = (case e of (a, b) \<Rightarrow>
     let there = (if a \<in> set selected \<and> b \<notin> set selected then selected @ [b] else selected) in
     if b \<in> set there \<and> a \<notin> set there then there @ [a] else there)"

definition graph_links :: "NodeGraph \<Rightarrow> (NodeId \<times> NodeId) list" where
  "graph_links g = map (\<lambda>e. (dep_from e, dep_to e)) (g_dependencies g) @ map (\<lambda>e. (rel_from e, rel_to e)) (g_relations g)"

definition scope_pass :: "NodeGraph \<Rightarrow> NodeId list \<Rightarrow> NodeId list" where
  "scope_pass g selected = fold extend_edge (graph_links g) selected"

lemma extend_edge_grows: "\<exists>new. extend_edge e selected = selected @ new \<and> set new \<subseteq> {fst e, snd e} - set selected \<and> distinct new"
  by (cases e) (auto simp: extend_edge_def Let_def)

lemma fold_extend_grows:
  "\<exists>new. fold extend_edge es selected = selected @ new \<and> set new \<subseteq> fst ` set es \<union> snd ` set es \<and> set new \<inter> set selected = {} \<and> distinct new"
proof (induction es arbitrary: selected)
  case Nil
  then show ?case by simp
next
  case (Cons e es)
  obtain new where new: "extend_edge e selected = selected @ new" "set new \<subseteq> {fst e, snd e} - set selected" "distinct new"
    using extend_edge_grows by blast
  obtain more_nodes where "fold extend_edge es (selected @ new) = (selected @ new) @ more_nodes"
    "set more_nodes \<subseteq> fst ` set es \<union> snd ` set es" "set more_nodes \<inter> set (selected @ new) = {}" "distinct more_nodes"
    using Cons.IH by blast
  then show ?case using new by (intro exI [of _ "new @ more_nodes"]) auto
qed

definition link_ends :: "NodeGraph \<Rightarrow> NodeId set" where
  "link_ends g = fst ` set (graph_links g) \<union> snd ` set (graph_links g)"

lemma scope_pass_grows:
  "\<exists>new. scope_pass g selected = selected @ new \<and> set new \<subseteq> link_ends g \<and> set new \<inter> set selected = {} \<and> distinct new"
  unfolding scope_pass_def link_ends_def by (rule fold_extend_grows)

function scope_loop :: "NodeGraph \<Rightarrow> NodeId list \<Rightarrow> NodeId list" where
  "scope_loop g selected =
     (if length (scope_pass g selected) = length selected then scope_pass g selected else scope_loop g (scope_pass g selected))"
  by pat_completeness auto

termination
proof (relation "measure (\<lambda>(g, selected). card (link_ends g - set selected))")
  fix g selected
  assume grown: "length (scope_pass g selected) \<noteq> length selected"
  obtain new where new: "scope_pass g selected = selected @ new" "set new \<subseteq> link_ends g" "set new \<inter> set selected = {}"
    using scope_pass_grows by blast
  then have "new \<noteq> []" using grown by auto
  then have "link_ends g - set (scope_pass g selected) \<subset> link_ends g - set selected" using new by (cases new) auto
  then show "((g, scope_pass g selected), g, selected) \<in> measure (\<lambda>(g, selected). card (link_ends g - set selected))"
    by (simp add: psubset_card_mono link_ends_def)
qed simp

declare scope_loop.simps [simp del]

section \<open>The comparison\<close>

datatype TargetError =
    Observation ObservationError
  | Correlation CorrelationError
  | Run ExecutionRunError
  | UnsupportedAction
  | FilesystemEndpoint
  | UnverifiedOutput
  | NativeRequest LvmWriteError
  | ScopeChanged
  | NameConflict
  | Json

definition is_physical_scope :: "NodeKind \<Rightarrow> bool" where
  "is_physical_scope kind = (case kind of NodeKind.Disk \<Rightarrow> True | NodeKind.NvmeNamespace _ \<Rightarrow> True | NodeKind.Partition _ _ _ _ \<Rightarrow> True | _ \<Rightarrow> False)"

definition spec_changed :: "CurrentState \<Rightarrow> CurrentState \<Rightarrow> NodeCorrelation \<Rightarrow> bool" where
  "spec_changed baseline current m \<longleftrightarrow>
     map_option node_kind (graph_node (cur_graph baseline) (nc_source m)) \<noteq> map_option node_kind (graph_node (cur_graph current) (nc_target m))"

definition block_changed :: "CurrentState \<Rightarrow> CurrentState \<Rightarrow> NodeCorrelation \<Rightarrow> bool" where
  "block_changed baseline current m = (case graph_node (cur_graph baseline) (nc_source m) of None \<Rightarrow> True
     | Some original \<Rightarrow> is_physical_scope (spec_kind (node_kind original)) \<and>
         (case graph_node (cur_graph current) (nc_target m) of None \<Rightarrow> True
          | Some now \<Rightarrow> (case (facts_block (node_size original), facts_block (node_size now)) of
              (Some before, Some after) \<Rightarrow> \<not> is_some_and (spec_size (node_kind original)) (\<lambda>sz. as_u64 sz \<noteq> 0)
                \<or> block_geometry before = None \<or> block_geometry after \<noteq> block_geometry before \<or> block_read_only after \<noteq> Some False
            | _ \<Rightarrow> True)))"

text \<open>Renaming the ends of an edge indexes the correlation, and panics when an end is missing.\<close>

definition rename_dependency :: "(NodeId \<rightharpoonup> NodeId) \<Rightarrow> Dependency list \<Rightarrow> Dependency \<Rightarrow> (TargetError fault, Dependency list) result" where
  "rename_dependency ids done_edges e = (case (ids (dep_from e), ids (dep_to e)) of
      (Some a, Some b) \<Rightarrow> Inr (done_edges @ [e\<lparr>dep_from := a, dep_to := b\<rparr>])
    | _ \<Rightarrow> Inl Panic)"

definition rename_relation :: "(NodeId \<rightharpoonup> NodeId) \<Rightarrow> Relation list \<Rightarrow> Relation \<Rightarrow> (TargetError fault, Relation list) result" where
  "rename_relation ids done_edges e = (case (ids (rel_from e), ids (rel_to e)) of
      (Some a, Some b) \<Rightarrow> Inr (done_edges @ [e\<lparr>rel_from := a, rel_to := b\<rparr>])
    | _ \<Rightarrow> Inl Panic)"

definition edges_match :: "'a list \<Rightarrow> 'a list \<Rightarrow> bool" where
  "edges_match expected actual \<longleftrightarrow> length expected = length actual \<and> list_all (\<lambda>e. e \<in> set actual) expected"

fun repeated_mount :: "ObservedMount list \<Rightarrow> ObservedMount list \<Rightarrow> bool" where
  "repeated_mount earlier [] = False"
| "repeated_mount earlier (m # ms) =
     (list_ex (\<lambda>other. om_target other = om_target m \<and> om_context other = om_context m) earlier \<or> repeated_mount (earlier @ [m]) ms)"

definition sort_options :: "ObservedMount \<Rightarrow> ObservedMount" where
  "sort_options m = m\<lparr>om_options := sort (om_options m)\<rparr>"

definition rename_mount :: "CurrentState \<Rightarrow> CurrentState \<Rightarrow> ObservedMount \<Rightarrow> (TargetError, ObservedMount) result" where
  "rename_mount baseline current m =
     (let renamed = (\<lambda>make n. and_then (map_err TargetError.Correlation (correlate_nodes baseline current [n])) (\<lambda>mapping.
        case mapping of [] \<Rightarrow> Inl TargetError.ScopeChanged | first # _ \<Rightarrow> Inr (sort_options (m\<lparr>om_source := make (nc_target first)\<rparr>)))) in
      case om_source m of
        MountSource.Filesystem n \<Rightarrow> renamed MountSource.Filesystem n
      | MountSource.BtrfsSubvolume n \<Rightarrow> renamed MountSource.BtrfsSubvolume n
      | MountSource.ZfsDataset n \<Rightarrow> renamed MountSource.ZfsDataset n
      | _ \<Rightarrow> Inr (sort_options m))"

fun try_map :: "('a \<Rightarrow> ('e, 'b) result) \<Rightarrow> 'a list \<Rightarrow> ('e, 'b list) result" where
  "try_map f [] = Inr []"
| "try_map f (x # xs) = and_then (f x) (\<lambda>y. and_then (try_map f xs) (\<lambda>ys. Inr (y # ys)))"

definition check_scope_mounts ::
  "(ObservedMount \<Rightarrow> string option) \<Rightarrow> CurrentState \<Rightarrow> CurrentState \<Rightarrow> (TargetError, unit) result" where
  "check_scope_mounts mount_json baseline current =
     (let mounts = ms_entries (cur_mounts baseline); actual = ms_entries (cur_mounts current) in
      if repeated_mount [] mounts \<or> repeated_mount [] actual then Inl TargetError.ScopeChanged
      else
      and_then (try_map (rename_mount baseline current) mounts) (\<lambda>mounts.
      and_then (try_map (\<lambda>m. ok_or (mount_json m) TargetError.Json) mounts) (\<lambda>expected.
      and_then (try_map (\<lambda>m. ok_or (mount_json (sort_options m)) TargetError.Json) actual) (\<lambda>actual.
      if sort expected \<noteq> sort actual then Inl TargetError.ScopeChanged else Inr ()))))"

definition touches_ids :: "(NodeId \<rightharpoonup> NodeId) \<Rightarrow> NodeId \<Rightarrow> NodeId \<Rightarrow> bool" where
  "touches_ids ids a b \<longleftrightarrow> ids a \<noteq> None \<or> ids b \<noteq> None"

definition check_scope ::
  "(ObservedMount \<Rightarrow> string option) \<Rightarrow> CurrentState \<Rightarrow> CurrentState \<Rightarrow> NodeId \<Rightarrow> (TargetError fault, unit) result" where
  "check_scope mount_json baseline current source =
     and_then (map_err (fault.Failed \<circ> TargetError.Correlation)
       (correlate_nodes baseline current (scope_loop (cur_graph baseline) [source]))) (\<lambda>mapping.
     let ids = map_of (rev (map (\<lambda>m. (nc_source m, nc_target m)) mapping)); targets = nc_target ` set mapping in
     if list_ex (spec_changed baseline current) mapping \<or> list_ex (block_changed baseline current) mapping
     then Inl (fault.Failed TargetError.ScopeChanged)
     else
     and_then (try_fold (rename_dependency ids) []
       (filter (\<lambda>e. touches_ids ids (dep_from e) (dep_to e)) (g_dependencies (cur_graph baseline)))) (\<lambda>dependencies.
     if \<not> edges_match dependencies (filter (\<lambda>e. dep_from e \<in> targets \<or> dep_to e \<in> targets) (g_dependencies (cur_graph current)))
     then Inl (fault.Failed TargetError.ScopeChanged)
     else
     and_then (try_fold (rename_relation ids) []
       (filter (\<lambda>e. touches_ids ids (rel_from e) (rel_to e)) (g_relations (cur_graph baseline)))) (\<lambda>relations.
     if \<not> edges_match relations (filter (\<lambda>e. rel_from e \<in> targets \<or> rel_to e \<in> targets) (g_relations (cur_graph current)))
     then Inl (fault.Failed TargetError.ScopeChanged)
     else map_err fault.Failed (check_scope_mounts mount_json baseline current))))"

end
