(* ===== verification/Runtime_Bindings.thy ===== *)
theory Runtime_Bindings
  imports Runtime_Scope Live_Results
begin

text \<open>
  The verified outputs of a run (\<^verbatim>\<open>storage-runtime/src/bindings.rs\<close>) and the resolution of the
  targets of an action by stable identity (\<^verbatim>\<open>storage-runtime/src/targets.rs\<close>). The two maps of
  bindings are lists in the order of their iteration, with the planned node as the key.
\<close>

section \<open>Bindings\<close>

datatype BindingError =
    NotVerified
  | Identity
  | InterfaceUnknown
  | Scope TargetError
  | Run ExecutionRunError
  | Observation ObservationError

record PendingLvBinding =
  lb_run_id :: uuid
  lb_action :: ActionId
  lb_observation :: ObservationReference
  lb_planned :: NodeId
  lb_uuid :: string
  lb_vg_uuid :: string
  lb_spec :: NodeSpec

record PendingFilesystemBinding =
  fb_run_id :: uuid
  fb_action :: ActionId
  fb_observation :: ObservationReference
  fb_planned :: NodeId
  fb_uuid :: string
  fb_backing :: NodeId
  fb_spec :: NodeSpec

record OutputBindings =
  ob_run_id :: uuid
  ob_entries :: "PendingLvBinding list"
  ob_filesystems :: "PendingFilesystemBinding list"
  ob_mounts :: "ObservedMount list"

definition bindings_new :: "ExecutionRun \<Rightarrow> OutputBindings" where
  "bindings_new run = \<lparr>ob_run_id = run_run_id run, ob_entries = [], ob_filesystems = [], ob_mounts = []\<rparr>"

definition entry_of :: "OutputBindings \<Rightarrow> NodeId \<Rightarrow> PendingLvBinding option" where
  "entry_of bindings planned = find (\<lambda>b. lb_planned b = planned) (ob_entries bindings)"

definition filesystem_of :: "OutputBindings \<Rightarrow> NodeId \<Rightarrow> PendingFilesystemBinding option" where
  "filesystem_of bindings planned = find (\<lambda>b. fb_planned b = planned) (ob_filesystems bindings)"

definition get_completion :: "ActionId \<Rightarrow> ExecutionRun \<Rightarrow> (ExecutionRunError fault, BackendCompletion option) result" where
  "get_completion a run = and_then (get_action a run) (\<lambda>r. Inr (act_completion r))"

definition is_lv_uuid :: "ExternalId \<Rightarrow> bool" where
  "is_lv_uuid identity = (case identity of ExternalId.LvmLvUuid _ \<Rightarrow> True | _ \<Rightarrow> False)"

definition is_vg_node :: "Node \<Rightarrow> bool" where
  "is_vg_node node = (case spec_kind (node_kind node) of NodeKind.LvmVg _ _ \<Rightarrow> True | _ \<Rightarrow> False)"

definition find_lv :: "LiveObservation \<Rightarrow> string \<Rightarrow> string \<Rightarrow> (BindingError, NodeId) result" where
  "find_lv observed uuid vg_uuid =
     (let g = cur_graph (lo_snapshot observed) in
      if trim uuid = [] \<or> trim uuid \<noteq> uuid then Inl BindingError.Identity
      else case filter (carries (ExternalId.LvmLvUuid uuid)) (g_nodes g) of
        [] \<Rightarrow> Inl BindingError.Identity
      | (i, node) # rest \<Rightarrow>
          if rest \<noteq> [] \<or> facts_presence (node_size node) \<noteq> Presence.Present \<or> \<not> is_lv_node node
             \<or> length (filter is_lv_uuid (facts_identities (node_size node))) \<noteq> 1
          then Inl BindingError.Identity
          else case filter (\<lambda>e. dep_to e = i) (g_dependencies g) of
            [] \<Rightarrow> Inl BindingError.Identity
          | parent # others \<Rightarrow>
              if others \<noteq> [] \<or> dep_kind parent \<noteq> DependencyKind.Provides then Inl BindingError.Identity
              else and_then (ok_or (graph_node g (dep_from parent)) BindingError.Identity) (\<lambda>vg.
                if \<not> is_vg_node vg \<or> facts_presence (node_size vg) \<noteq> Presence.Present
                   \<or> length (filter is_vg_uuid (facts_identities (node_size vg))) \<noteq> 1
                   \<or> ExternalId.LvmVgUuid vg_uuid \<notin> set (facts_identities (node_size vg))
                   \<or> length (filter (carries (ExternalId.LvmVgUuid vg_uuid)) (g_nodes g)) \<noteq> 1
                then Inl BindingError.Identity else Inr i))"

definition binding_fresh :: "ObservationReference \<Rightarrow> LiveObservation \<Rightarrow> (BindingError, unit) result" where
  "binding_fresh bound observed =
     and_then (map_err BindingError.Observation (validate_observation observed)) (\<lambda>_.
     if or_probe_instance (lo_reference observed) \<noteq> or_probe_instance bound
        \<or> epoch_get (or_epoch (lo_reference observed)) < epoch_get (or_epoch bound)
     then Inl BindingError.Identity else Inr ())"

definition require_spec :: "LiveObservation \<Rightarrow> NodeId \<Rightarrow> NodeSpec \<Rightarrow> (BindingError, NodeId) result" where
  "require_spec observed i spec =
     (if map_option node_kind (graph_node (cur_graph (lo_snapshot observed)) i) \<noteq> Some spec then Inl BindingError.Identity else Inr i)"

definition resolve_lv :: "LiveObservation \<Rightarrow> PendingLvBinding \<Rightarrow> (BindingError, NodeId) result" where
  "resolve_lv observed binding =
     and_then (binding_fresh (lb_observation binding) observed) (\<lambda>_.
     and_then (find_lv observed (lb_uuid binding) (lb_vg_uuid binding)) (\<lambda>i.
     require_spec observed i (lb_spec binding)))"

definition resolve_filesystem :: "LiveObservation \<Rightarrow> PendingFilesystemBinding \<Rightarrow> NodeId \<Rightarrow> (BindingError, NodeId) result" where
  "resolve_filesystem observed binding backing = (case spec_kind (fb_spec binding) of
      NodeKind.Filesystem _ label \<Rightarrow>
        and_then (map_err (\<lambda>_. BindingError.Identity) (observe_ext4 observed backing (fb_uuid binding) label)) (\<lambda>i.
        require_spec observed i (fb_spec binding))
    | _ \<Rightarrow> Inl BindingError.Identity)"

text \<open>
  A filesystem is found through the volume it was made on. The bound on the depth of this search
  is one more than the number of filesystems; it is exceeded only when filesystems lie on each
  other in a circle.
\<close>

fun resolve_within :: "nat \<Rightarrow> OutputBindings \<Rightarrow> NodeId \<Rightarrow> LiveObservation \<Rightarrow> (BindingError fault, NodeId) result" where
  "resolve_within 0 bindings planned observed = Inl OutOfFuel"
| "resolve_within (Suc fuel) bindings planned observed = (case filesystem_of bindings planned of
      Some binding \<Rightarrow>
        and_then (map_err fault.Failed (binding_fresh (fb_observation binding) observed)) (\<lambda>_.
        and_then (resolve_within fuel bindings (fb_backing binding) observed) (\<lambda>backing.
        map_err fault.Failed (resolve_filesystem observed binding backing)))
    | None \<Rightarrow>
        and_then (ok_or (entry_of bindings planned) (fault.Failed BindingError.NotVerified)) (\<lambda>binding.
        map_err fault.Failed (resolve_lv observed binding)))"

definition resolve :: "OutputBindings \<Rightarrow> ExecutionRun \<Rightarrow> NodeId \<Rightarrow> LiveObservation \<Rightarrow> (BindingError fault, NodeId) result" where
  "resolve bindings run planned observed =
     (if ob_run_id bindings \<noteq> run_run_id run then Inl (fault.Failed BindingError.NotVerified)
      else resolve_within (Suc (length (ob_filesystems bindings))) bindings planned observed)"

definition correlate_output ::
  "OutputBindings \<Rightarrow> ExecutionRun \<Rightarrow> LiveObservation \<Rightarrow> NodeId \<Rightarrow> (BindingError fault, NodeCorrelation) result" where
  "correlate_output bindings run observed planned =
     and_then (case entry_of bindings planned of
         Some binding \<Rightarrow> Inr (ExternalId.LvmLvUuid (lb_uuid binding))
       | None \<Rightarrow> and_then (ok_or (filesystem_of bindings planned) (fault.Failed BindingError.Identity)) (\<lambda>binding.
           Inr (ext4_identity (fb_uuid binding)))) (\<lambda>identity.
     and_then (resolve bindings run planned observed) (\<lambda>target.
     Inr \<lparr>nc_source = planned, nc_target = target, nc_identity = identity\<rparr>))"

definition correlations :: "OutputBindings \<Rightarrow> ExecutionRun \<Rightarrow> LiveObservation \<Rightarrow> (BindingError fault, NodeCorrelation list) result" where
  "correlations bindings run observed =
     (if ob_run_id bindings \<noteq> run_run_id run then Inl (fault.Failed BindingError.NotVerified)
      else try_map (correlate_output bindings run observed) (map lb_planned (ob_entries bindings) @ map fb_planned (ob_filesystems bindings)))"

definition verified_output_node :: "NodeSpec \<Rightarrow> ExternalId \<Rightarrow> Node" where
  "verified_output_node spec identity = \<lparr>node_kind = spec,
     node_size = default_facts\<lparr>facts_presence := Presence.Present, facts_identities := [identity]\<rparr>\<rparr>"

definition insert_output :: "NodeGraph \<Rightarrow> NodeId \<Rightarrow> Node \<Rightarrow> NodeId \<Rightarrow> DependencyKind \<Rightarrow> (BindingError, NodeGraph) result" where
  "insert_output g planned node parent kind =
     and_then (map_err (\<lambda>_. BindingError.Identity) (insert_new g planned node)) (\<lambda>g.
     Inr (snd (insert_dependency g \<lparr>dep_from = parent, dep_to = planned, dep_kind = kind\<rparr>)))"

definition insert_lv_output :: "NodeGraph \<Rightarrow> PendingLvBinding \<Rightarrow> (BindingError, NodeGraph) result" where
  "insert_lv_output g binding =
     (case filter (\<lambda>(i, node). is_vg_node node \<and> ExternalId.LvmVgUuid (lb_vg_uuid binding) \<in> set (facts_identities (node_size node))) (g_nodes g) of
        [(parent, _)] \<Rightarrow> insert_output g (lb_planned binding) (verified_output_node (lb_spec binding) (ExternalId.LvmLvUuid (lb_uuid binding)))
            parent DependencyKind.Provides
      | _ \<Rightarrow> Inl BindingError.Identity)"

definition insert_filesystem_output :: "NodeGraph \<Rightarrow> PendingFilesystemBinding \<Rightarrow> (BindingError, NodeGraph) result" where
  "insert_filesystem_output g binding = insert_output g (fb_planned binding)
     (verified_output_node (fb_spec binding) (ext4_identity (fb_uuid binding))) (fb_backing binding) DependencyKind.Backs"

definition reviewed_scope :: "OutputBindings \<Rightarrow> ExecutionRun \<Rightarrow> LiveObservation \<Rightarrow> (BindingError fault, CurrentState) result" where
  "reviewed_scope bindings run observed =
     and_then (correlations bindings run observed) (\<lambda>_.
     let expected = hb_snapshot (doc_baseline (run_document run)) in
     map_err fault.Failed (
     and_then (try_fold insert_lv_output (cur_graph expected) (ob_entries bindings)) (\<lambda>g.
     and_then (try_fold insert_filesystem_output g (ob_filesystems bindings)) (\<lambda>g.
     Inr (expected\<lparr>cur_graph := g, cur_mounts := (cur_mounts expected)\<lparr>ms_entries := ms_entries (cur_mounts expected) @ ob_mounts bindings\<rparr>\<rparr>)))))"

section \<open>Recording verified outputs\<close>

text \<open>Reads of the run in a condition return early; the disjunctions are evaluated in their order.\<close>

definition verified_here ::
  "OutputBindings \<Rightarrow> ExecutionRun \<Rightarrow> uuid \<Rightarrow> ActionId \<Rightarrow> ObservationReference \<Rightarrow> (BindingError fault, unit) result" where
  "verified_here bindings run owner action observation =
     (if ob_run_id bindings \<noteq> run_run_id run \<or> owner \<noteq> run_run_id run then Inl (fault.Failed BindingError.NotVerified)
      else
      and_then (map_err (map_fault BindingError.Run) (get_state action run)) (\<lambda>st.
      if st \<noteq> ActionRunState.Verified then Inl (fault.Failed BindingError.NotVerified)
      else
      and_then (map_err (map_fault BindingError.Run) (get_completion action run)) (\<lambda>completion.
      if map_option (\<lambda>c. lo_reference (bc_observation c)) completion \<noteq> Some observation then Inl (fault.Failed BindingError.NotVerified)
      else Inr ())))"

definition record_verified :: "ExecutionRun \<Rightarrow> PendingLvBinding \<Rightarrow> OutputBindings \<Rightarrow> (BindingError fault, unit) result \<times> OutputBindings" where
  "record_verified run binding bindings =
     (case and_then (verified_here bindings run (lb_run_id binding) (lb_action binding) (lb_observation binding)) (\<lambda>_.
        if entry_of bindings (lb_planned binding) \<noteq> None \<or> filesystem_of bindings (lb_planned binding) \<noteq> None
           \<or> list_ex (\<lambda>other. lb_uuid other = lb_uuid binding) (ob_entries bindings)
        then Inl (fault.Failed BindingError.NotVerified) else Inr ()) of
        Inl e \<Rightarrow> (Inl e, bindings)
      | Inr _ \<Rightarrow> (Inr (), bindings\<lparr>ob_entries := ob_entries bindings @ [binding]\<rparr>))"

definition record_verified_filesystem ::
  "ExecutionRun \<Rightarrow> PendingFilesystemBinding \<Rightarrow> OutputBindings \<Rightarrow> (BindingError fault, unit) result \<times> OutputBindings" where
  "record_verified_filesystem run binding bindings =
     (case and_then (verified_here bindings run (fb_run_id binding) (fb_action binding) (fb_observation binding)) (\<lambda>_.
        if entry_of bindings (fb_backing binding) = None \<or> entry_of bindings (fb_planned binding) \<noteq> None
           \<or> filesystem_of bindings (fb_planned binding) \<noteq> None
           \<or> list_ex (\<lambda>other. fb_uuid other = fb_uuid binding) (ob_filesystems bindings)
        then Inl (fault.Failed BindingError.NotVerified) else Inr ()) of
        Inl e \<Rightarrow> (Inl e, bindings)
      | Inr _ \<Rightarrow> (Inr (), bindings\<lparr>ob_filesystems := ob_filesystems bindings @ [binding]\<rparr>))"

definition record_verified_mount :: "ExecutionRun \<Rightarrow> ActionId \<Rightarrow> OutputBindings \<Rightarrow> (BindingError fault, unit) result \<times> OutputBindings" where
  "record_verified_mount run action bindings =
     (case (if run_run_id run \<noteq> ob_run_id bindings then Inl (fault.Failed BindingError.NotVerified)
        else
        and_then (map_err (map_fault BindingError.Run) (get_state action run)) (\<lambda>st.
        if st \<noteq> ActionRunState.Verified then Inl (fault.Failed BindingError.NotVerified)
        else
        and_then (ok_or (nth_opt (plan_actions (run_plan run)) (action_index action)) Panic) (\<lambda>planned.
        case pa_operation planned of
          ProviderAction.Mount (MountAction.Mount source target options context) \<Rightarrow>
            Inr \<lparr>om_source = source, om_target = target, om_options = options, om_context = context\<rparr>
        | _ \<Rightarrow> Inl (fault.Failed BindingError.Identity)))) of
        Inl e \<Rightarrow> (Inl e, bindings)
      | Inr m \<Rightarrow> (Inr (), bindings\<lparr>ob_mounts := ob_mounts bindings @ [m]\<rparr>))"

end
