(* ===== verification/Runtime_Targets.thy ===== *)
theory Runtime_Targets
  imports Runtime_Bindings
begin

text \<open>
  The endpoint of an action in a fresh observation (\<^verbatim>\<open>storage-runtime/src/targets.rs\<close>) and the
  verification of what the action did (the second part of \<^verbatim>\<open>bindings.rs\<close>).
\<close>

section \<open>Resolved actions\<close>

record ResolvedTarget =
  rt_planned_id :: NodeId
  rt_observed_id :: NodeId
  rt_vg_uuid :: string
  rt_vg_name :: string

record ResolvedLvTarget =
  rl_planned_id :: NodeId
  rl_observed_id :: NodeId
  rl_lv_uuid :: string
  rl_lv_name :: string
  rl_size :: Bytes
  rl_block :: "BlockFacts option"

record ResolvedFilesystemTarget =
  rf_planned_id :: NodeId
  rf_observed_id :: NodeId
  rf_uuid :: string

record ResolvedAction =
  ra_run_id :: uuid
  ra_action_id :: ActionId
  ra_operation :: ProviderAction
  ra_backend :: BackendId
  ra_observation :: ObservationReference
  ra_target :: ResolvedTarget
  ra_lv_target :: "ResolvedLvTarget option"
  ra_filesystem_target :: "ResolvedFilesystemTarget option"

definition fingerprints :: "ResolvedAction \<Rightarrow> TargetFingerprint list" where
  "fingerprints resolved =
     [\<lparr>tf_planned_id = rt_planned_id (ra_target resolved), tf_external_ids = [ExternalId.LvmVgUuid (rt_vg_uuid (ra_target resolved))]\<rparr>]
     @ (case ra_lv_target resolved of None \<Rightarrow> [] | Some lv \<Rightarrow>
         [\<lparr>tf_planned_id = rl_planned_id lv, tf_external_ids = [ExternalId.LvmLvUuid (rl_lv_uuid lv)]\<rparr>])
     @ (case ra_filesystem_target resolved of None \<Rightarrow> [] | Some fs \<Rightarrow>
         [\<lparr>tf_planned_id = rf_planned_id fs, tf_external_ids = [ext4_identity (rf_uuid fs)]\<rparr>])"

section \<open>Resolution\<close>

definition first_of :: "'a list \<Rightarrow> 'a option" where
  "first_of xs = (case xs of [] \<Rightarrow> None | x # _ \<Rightarrow> Some x)"

text \<open>A failure of the bindings is reported as an unverified output; a panic in them stays one.\<close>

definition unverified_binding :: "(BindingError fault, 'a) result \<Rightarrow> (TargetError fault, 'a) result" where
  "unverified_binding r = map_err (map_fault (\<lambda>_. TargetError.UnverifiedOutput)) r"

definition occupied_mount :: "PathBuf \<Rightarrow> NodeId \<Rightarrow> ObservedMount \<Rightarrow> bool" where
  "occupied_mount target fs m \<longleftrightarrow> om_context m = MountContext.Host
     \<and> (starts_with (om_target m) target \<or> om_source m = MountSource.Filesystem fs)"

definition ext4_uuid :: "ExternalId list \<Rightarrow> string option" where
  "ext4_uuid ids = first_of (List.map_filter (\<lambda>i. case i of ExternalId.Filesystem fs_type value \<Rightarrow>
     if fs_type = ''ext4'' then Some value else None | _ \<Rightarrow> None) ids)"

definition lv_uuid_of :: "ExternalId list \<Rightarrow> string option" where
  "lv_uuid_of ids = first_of (List.map_filter (\<lambda>i. case i of ExternalId.LvmLvUuid uuid \<Rightarrow> Some uuid | _ \<Rightarrow> None) ids)"

text \<open>A mount is resolved like the activation of the volume under its filesystem.\<close>

definition resolve_mount ::
  "OutputBindings \<Rightarrow> ExecutionRun \<Rightarrow> LiveObservation \<Rightarrow> CurrentState \<Rightarrow> ProviderAction \<Rightarrow>
   (TargetError fault, ResolvedFilesystemTarget option \<times> ProviderAction) result" where
  "resolve_mount bindings run observed baseline operation = (case operation of
      ProviderAction.Mount (MountAction.Mount (MountSource.Filesystem fs) target options context) \<Rightarrow>
        and_then (unverified_binding (resolve bindings run fs observed)) (\<lambda>observed_id.
        if \<not> is_ext4_host_mount operation \<or> list_ex (occupied_mount target observed_id) (ms_entries (cur_mounts (lo_snapshot observed)))
        then Inl (fault.Failed TargetError.FilesystemEndpoint)
        else
        and_then (ok_or (graph_node (cur_graph baseline) fs) (fault.Failed TargetError.UnverifiedOutput)) (\<lambda>node.
        case spec_kind (node_kind node) of
          NodeKind.Filesystem FilesystemKind.Ext4 _ \<Rightarrow>
            (case filter (\<lambda>e. dep_to e = fs \<and> dep_kind e = DependencyKind.Backs) (g_dependencies (cur_graph baseline)) of
               [parent] \<Rightarrow>
                 and_then (ok_or (ext4_uuid (facts_identities (node_size node))) (fault.Failed TargetError.UnverifiedOutput)) (\<lambda>uuid.
                 Inr (Some \<lparr>rf_planned_id = fs, rf_observed_id = observed_id, rf_uuid = uuid\<rparr>,
                   ProviderAction.Lvm (LvmAction.SetActivation (dep_from parent) True)))
             | _ \<Rightarrow> Inl (fault.Failed TargetError.UnverifiedOutput))
        | _ \<Rightarrow> Inl (fault.Failed TargetError.UnsupportedAction)))
    | _ \<Rightarrow> Inr (None, operation))"

definition is_safe_path :: "PathBuf \<Rightarrow> bool" where
  "is_safe_path p \<longleftrightarrow> is_absolute p \<and> ParentDir \<notin> set p \<and> \<not> path_has_nul p"

definition endpoint_unusable :: "LiveObservation \<Rightarrow> NodeId \<Rightarrow> Node \<Rightarrow> ProviderAction \<Rightarrow> bool" where
  "endpoint_unusable observed i node operation = (case operation of
      ProviderAction.Filesystem (FilesystemAction.Create backing planned fs label) \<Rightarrow>
        \<not> label_fits label \<or> facts_lvm_active (node_size node) \<noteq> Some True
        \<or> \<not> is_some_and (facts_block (node_size node)) (\<lambda>block. block_read_only block = Some False \<and> block_geometry block \<noteq> None
            \<and> block_paths block \<noteq> [] \<and> list_all is_safe_path (block_paths block))
        \<or> list_ex (\<lambda>e. dep_from e = i) (g_dependencies (cur_graph (lo_snapshot observed)))
        \<or> list_ex (\<lambda>e. rel_from e = i \<or> rel_to e = i) (g_relations (cur_graph (lo_snapshot observed)))
    | _ \<Rightarrow> False)"

definition resolve_lv_endpoint ::
  "OutputBindings \<Rightarrow> ExecutionRun \<Rightarrow> LiveObservation \<Rightarrow> CurrentState \<Rightarrow> ProviderAction \<Rightarrow> NodeId \<Rightarrow>
   (TargetError fault, NodeId \<times> ResolvedLvTarget option) result" where
  "resolve_lv_endpoint bindings run observed baseline operation target =
     and_then (unverified_binding (resolve bindings run target observed)) (\<lambda>i.
     and_then (ok_or (graph_node (cur_graph (lo_snapshot observed)) i) (fault.Failed TargetError.UnverifiedOutput)) (\<lambda>node.
     case spec_kind (node_kind node) of
       NodeKind.LvmLv lv \<Rightarrow>
         if lv_kind lv \<noteq> LvmLvKind.Linear then Inl (fault.Failed TargetError.UnsupportedAction)
         else (case filter (\<lambda>e. dep_to e = target) (g_dependencies (cur_graph baseline)) of
           [parent] \<Rightarrow>
             if endpoint_unusable observed i node operation then Inl (fault.Failed TargetError.FilesystemEndpoint)
             else
             and_then (ok_or (lv_uuid_of (facts_identities (node_size node))) (fault.Failed TargetError.UnverifiedOutput)) (\<lambda>uuid.
             and_then (ok_or (spec_size (node_kind node)) (fault.Failed TargetError.UnverifiedOutput)) (\<lambda>sz.
             Inr (dep_from parent, Some \<lparr>rl_planned_id = target, rl_observed_id = i, rl_lv_uuid = uuid, rl_lv_name = lv_name lv,
               rl_size = sz, rl_block = facts_block (node_size node)\<rparr>)))
         | _ \<Rightarrow> Inl (fault.Failed TargetError.UnverifiedOutput))
     | _ \<Rightarrow> Inl (fault.Failed TargetError.UnsupportedAction)))"

definition resolve_endpoint ::
  "OutputBindings \<Rightarrow> ExecutionRun \<Rightarrow> LiveObservation \<Rightarrow> CurrentState \<Rightarrow> ProviderAction \<Rightarrow> ProviderAction \<Rightarrow>
   (TargetError fault, NodeId \<times> ResolvedLvTarget option) result" where
  "resolve_endpoint bindings run observed baseline operation endpoint = (case endpoint of
      ProviderAction.Lvm (LvmAction.CreateLv vg planned name sz LvmLvKind.Linear) \<Rightarrow> Inr (vg, None)
    | ProviderAction.Lvm (LvmAction.SetActivation target True) \<Rightarrow> resolve_lv_endpoint bindings run observed baseline operation target
    | ProviderAction.Filesystem (FilesystemAction.Create target planned FilesystemKind.Ext4 label) \<Rightarrow>
        resolve_lv_endpoint bindings run observed baseline operation target
    | _ \<Rightarrow> Inl (fault.Failed TargetError.UnsupportedAction))"

definition mountable :: "LiveObservation \<Rightarrow> ResolvedLvTarget option \<Rightarrow> bool" where
  "mountable observed lv_target = is_some_and lv_target (\<lambda>lv.
     is_some_and (graph_node (cur_graph (lo_snapshot observed)) (rl_observed_id lv)) (\<lambda>node. facts_lvm_active (node_size node) = Some True)
     \<and> is_some_and (rl_block lv) (\<lambda>block. block_read_only block = Some False \<and> block_geometry block \<noteq> None \<and> length (block_paths block) = 1))"

definition name_taken :: "LiveObservation \<Rightarrow> NodeId \<Rightarrow> string \<Rightarrow> bool" where
  "name_taken observed vg name = list_ex (\<lambda>e. dep_from e = vg \<and>
     is_some_and (graph_node (cur_graph (lo_snapshot observed)) (dep_to e)) (\<lambda>node.
       case spec_kind (node_kind node) of NodeKind.LvmLv lv \<Rightarrow> lv_name lv = name | _ \<Rightarrow> False))
     (g_dependencies (cur_graph (lo_snapshot observed)))"

text \<open>The native requests are built only to validate their parameters.\<close>

definition check_create_request ::
  "LiveObservation \<Rightarrow> ProviderAction \<Rightarrow> NodeId \<Rightarrow> string \<Rightarrow> string \<Rightarrow> (TargetError, unit) result" where
  "check_create_request observed operation vg vg_name uuid = (case operation of
      ProviderAction.Lvm (LvmAction.CreateLv _ planned name sz layout) \<Rightarrow>
        and_then (map_err TargetError.NativeRequest (linear_lv_new vg_name uuid name (as_u64 sz))) (\<lambda>_.
        if name_taken observed vg name then Inl TargetError.NameConflict else Inr ())
    | _ \<Rightarrow> Inr ())"

definition check_activation_request :: "ResolvedLvTarget option \<Rightarrow> string \<Rightarrow> string \<Rightarrow> (TargetError, unit) result" where
  "check_activation_request lv_target vg_name uuid = (case lv_target of None \<Rightarrow> Inr ()
     | Some lv \<Rightarrow> and_then (map_err TargetError.NativeRequest
         (activation_new vg_name uuid (rl_lv_name lv) (rl_lv_uuid lv) (as_u64 (rl_size lv)))) (\<lambda>_. Inr ()))"

definition resolve_action_with_bindings ::
  "(ObservedMount \<Rightarrow> string option) \<Rightarrow> ExecutionRun \<Rightarrow> ActionId \<Rightarrow> LiveObservation \<Rightarrow> BackendId \<Rightarrow> OutputBindings \<Rightarrow>
   (TargetError fault, ResolvedAction) result" where
  "resolve_action_with_bindings mount_json run action observed backend bindings =
     and_then (map_err (fault.Failed \<circ> TargetError.Observation) (validate_observation observed)) (\<lambda>_.
     and_then (ok_or (find (\<lambda>item. pa_id item = action) (plan_actions (run_plan run)))
       (fault.Failed (TargetError.Run (ExecutionRunError.UnknownAction action)))) (\<lambda>planned.
     and_then (unverified_binding (reviewed_scope bindings run observed)) (\<lambda>baseline.
     and_then (resolve_mount bindings run observed baseline (pa_operation planned)) (\<lambda>(filesystem_target, endpoint).
     and_then (resolve_endpoint bindings run observed baseline (pa_operation planned) endpoint) (\<lambda>(vg, lv_target).
     if filesystem_target \<noteq> None \<and> \<not> mountable observed lv_target then Inl (fault.Failed TargetError.FilesystemEndpoint)
     else
     and_then (map_err (fault.Failed \<circ> TargetError.Correlation) (correlate_nodes baseline (lo_snapshot observed) [vg])) (\<lambda>mapping.
     and_then (ok_or (first_of mapping) Panic) (\<lambda>target.
     and_then (ok_or (graph_node (cur_graph (lo_snapshot observed)) (nc_target target)) (fault.Failed TargetError.ScopeChanged)) (\<lambda>node.
     case (nc_identity target, spec_kind (node_kind node)) of
       (ExternalId.LvmVgUuid uuid, NodeKind.LvmVg name _) \<Rightarrow>
         and_then (map_err fault.Failed (check_create_request observed (pa_operation planned) (nc_target target) name uuid)) (\<lambda>_.
         and_then (map_err fault.Failed (check_activation_request lv_target name uuid)) (\<lambda>_.
         and_then (check_scope mount_json baseline (lo_snapshot observed) vg) (\<lambda>_.
         Inr \<lparr>ra_run_id = run_run_id run, ra_action_id = action, ra_operation = pa_operation planned, ra_backend = backend,
           ra_observation = lo_reference observed,
           ra_target = \<lparr>rt_planned_id = vg, rt_observed_id = nc_target target, rt_vg_uuid = uuid, rt_vg_name = name\<rparr>,
           ra_lv_target = lv_target, ra_filesystem_target = filesystem_target\<rparr>)))
     | _ \<Rightarrow> Inl (fault.Failed TargetError.UnsupportedAction)))))))))"

definition resolve_action ::
  "(ObservedMount \<Rightarrow> string option) \<Rightarrow> ExecutionRun \<Rightarrow> ActionId \<Rightarrow> LiveObservation \<Rightarrow> BackendId \<Rightarrow> (TargetError fault, ResolvedAction) result" where
  "resolve_action mount_json run action observed backend =
     resolve_action_with_bindings mount_json run action observed backend (bindings_new run)"

section \<open>Verification of results\<close>

definition completed :: "ExecutionRun \<Rightarrow> ActionId \<Rightarrow> (BindingError fault, BackendCompletion) result" where
  "completed run action =
     and_then (map_err (map_fault BindingError.Run) (get_completion action run)) (\<lambda>completion.
     ok_or completion (fault.Failed BindingError.NotVerified))"

definition contract_at :: "ExecutionRun \<Rightarrow> ActionId \<Rightarrow> (BindingError fault, ActionContract) result" where
  "contract_at run action =
     ok_or (map_option pa_informational_contract (nth_opt (plan_actions (run_plan run)) (action_index action))) Panic"

definition provided_spec :: "ActionContract \<Rightarrow> NodeId \<Rightarrow> NodeSpec option" where
  "provided_spec promised planned = first_of (List.map_filter (\<lambda>output. case output of
      ActionOutput.Node i spec \<Rightarrow> if i = planned then Some spec else None | _ \<Rightarrow> None) (ac_provided_outputs promised))"

definition within_scope ::
  "(ObservedMount \<Rightarrow> string option) \<Rightarrow> OutputBindings \<Rightarrow> ExecutionRun \<Rightarrow> LiveObservation \<Rightarrow> CurrentState \<Rightarrow> NodeId \<Rightarrow>
   (BindingError fault, unit) result" where
  "within_scope mount_json bindings run before remaining target =
     and_then (reviewed_scope bindings run before) (\<lambda>expected.
     map_err (map_fault BindingError.Scope) (check_scope mount_json expected remaining target))"

definition report_results ::
  "ExecutionRun \<Rightarrow> ActionId \<Rightarrow> BackendCompletion \<Rightarrow> ActionContract \<Rightarrow> NodeCorrelation list \<Rightarrow> (BindingError fault, VerificationReport) result" where
  "report_results run action completion promised found =
     and_then (map_err (fault.Failed \<circ> BindingError.Observation) (check_observed_postconditions_with_bindings
       (doc_baseline (run_document run)) (bc_observation completion) (ac_postconditions promised) found)) (\<lambda>report.
     Inr \<lparr>vr_run_id = run_run_id run, vr_action = action, vr_observation = opc_observation report, vr_checks = opc_checks report\<rparr>)"

definition without_new_node :: "CurrentState \<Rightarrow> (Dependency \<Rightarrow> bool) \<Rightarrow> NodeId \<Rightarrow> CurrentState" where
  "without_new_node state drops i = (let g = cur_graph state in
     state\<lparr>cur_graph := snd (remove_node (fold (\<lambda>e g. snd (remove_dependency g e)) (filter drops (g_dependencies g)) g) i)\<rparr>)"

definition correlate_created_lv ::
  "(ObservedMount \<Rightarrow> string option) \<Rightarrow> ExecutionRun \<Rightarrow> ActionId \<Rightarrow> ResolvedAction \<Rightarrow> OutputBindings \<Rightarrow> LiveObservation \<Rightarrow>
   BackendCompletion \<Rightarrow> ActionContract \<Rightarrow> string \<Rightarrow> (BindingError fault, NodeCorrelation \<times> PendingLvBinding) result" where
  "correlate_created_lv mount_json run action resolved bindings before completion promised uuid = (case ra_operation resolved of
      ProviderAction.Lvm (LvmAction.CreateLv _ planned name sz layout) \<Rightarrow>
        let identity = ExternalId.LvmLvUuid uuid; actual = bc_observation completion in
        if list_ex (carries identity) (g_nodes (cur_graph (lo_snapshot before))) then Inl (fault.Failed BindingError.Identity)
        else
        and_then (map_err fault.Failed (find_lv actual uuid (rt_vg_uuid (ra_target resolved)))) (\<lambda>observed_id.
        and_then (ok_or (provided_spec promised planned) (fault.Failed BindingError.Identity)) (\<lambda>spec.
        let g = cur_graph (lo_snapshot actual) in
        if list_ex (\<lambda>e. dep_from e = observed_id) (g_dependencies g)
           \<or> list_ex (\<lambda>e. rel_from e = observed_id \<or> rel_to e = observed_id) (g_relations g)
        then Inl (fault.Failed BindingError.Identity)
        else
        and_then (within_scope mount_json bindings run before
          (without_new_node (lo_snapshot actual) (\<lambda>e. dep_from e = observed_id \<or> dep_to e = observed_id) observed_id)
          (rt_planned_id (ra_target resolved))) (\<lambda>_.
        Inr (\<lparr>nc_source = planned, nc_target = observed_id, nc_identity = identity\<rparr>,
          \<lparr>lb_run_id = run_run_id run, lb_action = action, lb_observation = lo_reference actual, lb_planned = planned,
           lb_uuid = uuid, lb_vg_uuid = rt_vg_uuid (ra_target resolved), lb_spec = spec\<rparr>))))
    | _ \<Rightarrow> Inl (fault.Failed BindingError.Identity))"

definition verify_created_lv ::
  "(ObservedMount \<Rightarrow> string option) \<Rightarrow> ExecutionRun \<Rightarrow> ActionId \<Rightarrow> ResolvedAction \<Rightarrow> OutputBindings \<Rightarrow> LiveObservation \<Rightarrow>
   string option \<Rightarrow> (BindingError fault, VerificationReport \<times> PendingLvBinding option) result" where
  "verify_created_lv mount_json run action resolved bindings before created =
     and_then (completed run action) (\<lambda>completion.
     and_then (contract_at run action) (\<lambda>promised.
     and_then (case created of None \<Rightarrow> Inr ([], None)
       | Some uuid \<Rightarrow> and_then (correlate_created_lv mount_json run action resolved bindings before completion promised uuid) (\<lambda>(found, pending).
           Inr ([found], Some pending))) (\<lambda>(found, pending).
     and_then (report_results run action completion promised found) (\<lambda>report. Inr (report, pending)))))"

definition has_block_interface :: "Node \<Rightarrow> bool" where
  "has_block_interface node = is_some_and (facts_block (node_size node)) (\<lambda>block.
     block_read_only block = Some False \<and> block_geometry block \<noteq> None \<and> block_paths block \<noteq> [])"

definition verify_activation ::
  "(ObservedMount \<Rightarrow> string option) \<Rightarrow> ExecutionRun \<Rightarrow> ActionId \<Rightarrow> ResolvedAction \<Rightarrow> OutputBindings \<Rightarrow> LiveObservation \<Rightarrow>
   string option \<Rightarrow> (BindingError fault, VerificationReport) result" where
  "verify_activation mount_json run action resolved bindings before created =
     (if created \<noteq> None then Inl (fault.Failed BindingError.Identity)
      else
      and_then (completed run action) (\<lambda>completion.
      let actual = bc_observation completion in
      and_then (within_scope mount_json bindings run before (lo_snapshot actual) (rt_planned_id (ra_target resolved))) (\<lambda>_.
      and_then (correlations bindings run actual) (\<lambda>found.
      and_then (ok_or (ra_lv_target resolved) (fault.Failed BindingError.Identity)) (\<lambda>lv.
      and_then (resolve bindings run (rl_planned_id lv) actual) (\<lambda>i.
      and_then (ok_or (graph_node (cur_graph (lo_snapshot actual)) i) (fault.Failed BindingError.Identity)) (\<lambda>node.
      if \<not> has_block_interface node then Inl (fault.Failed BindingError.InterfaceUnknown)
      else
      and_then (contract_at run action) (\<lambda>promised.
      report_results run action completion promised found))))))))"

definition correlate_new_filesystem ::
  "(ObservedMount \<Rightarrow> string option) \<Rightarrow> ExecutionRun \<Rightarrow> ActionId \<Rightarrow> ResolvedAction \<Rightarrow> OutputBindings \<Rightarrow> LiveObservation \<Rightarrow>
   BackendCompletion \<Rightarrow> ActionContract \<Rightarrow> NodeId \<Rightarrow> NodeId \<Rightarrow> string option \<Rightarrow> string \<Rightarrow>
   (BindingError fault, NodeCorrelation \<times> PendingFilesystemBinding) result" where
  "correlate_new_filesystem mount_json run action resolved bindings before completion promised backing planned label uuid =
     (let actual = bc_observation completion in
      and_then (resolve bindings run backing before) (\<lambda>before_backing.
      and_then (map_err (\<lambda>_. fault.Failed BindingError.Identity)
        (correlate_created_ext4 before actual planned before_backing uuid label)) (\<lambda>found.
      and_then (within_scope mount_json bindings run before
        (without_new_node (lo_snapshot actual) (\<lambda>e. dep_to e = nc_target found) (nc_target found))
        (rt_planned_id (ra_target resolved))) (\<lambda>_.
      and_then (ok_or (provided_spec promised planned) (fault.Failed BindingError.Identity)) (\<lambda>spec.
      and_then (ok_or (graph_node (cur_graph (lo_snapshot actual)) (nc_target found)) (fault.Failed BindingError.Identity)) (\<lambda>node.
      Inr (found, \<lparr>fb_run_id = run_run_id run, fb_action = action, fb_observation = lo_reference actual, fb_planned = planned,
        fb_uuid = uuid, fb_backing = backing, fb_spec = spec\<lparr>spec_size := spec_size (node_kind node)\<rparr>\<rparr>)))))))"

definition verify_created_filesystem ::
  "(ObservedMount \<Rightarrow> string option) \<Rightarrow> ExecutionRun \<Rightarrow> ActionId \<Rightarrow> ResolvedAction \<Rightarrow> OutputBindings \<Rightarrow> LiveObservation \<Rightarrow>
   string option \<Rightarrow> (BindingError fault, VerificationReport \<times> PendingFilesystemBinding option) result" where
  "verify_created_filesystem mount_json run action resolved bindings before created =
     and_then (completed run action) (\<lambda>completion.
     and_then (contract_at run action) (\<lambda>promised.
     case ra_operation resolved of
       ProviderAction.Filesystem (FilesystemAction.Create backing planned FilesystemKind.Ext4 label) \<Rightarrow>
         and_then (correlations bindings run (bc_observation completion)) (\<lambda>known.
         and_then (case created of None \<Rightarrow> Inr (known, None)
           | Some uuid \<Rightarrow> and_then (correlate_new_filesystem mount_json run action resolved bindings before completion promised
               backing planned label uuid) (\<lambda>(found, pending). Inr (known @ [found], Some pending))) (\<lambda>(found, pending).
         and_then (report_results run action completion promised found) (\<lambda>report. Inr (report, pending))))
     | _ \<Rightarrow> Inl (fault.Failed BindingError.Identity)))"

definition verify_mount ::
  "(ObservedMount \<Rightarrow> string option) \<Rightarrow> ExecutionRun \<Rightarrow> ActionId \<Rightarrow> ResolvedAction \<Rightarrow> OutputBindings \<Rightarrow> LiveObservation \<Rightarrow>
   (BindingError fault, VerificationReport) result" where
  "verify_mount mount_json run action resolved bindings before =
     and_then (completed run action) (\<lambda>completion.
     let actual = bc_observation completion in
     case ra_operation resolved of
       ProviderAction.Mount (MountAction.Mount (MountSource.Filesystem fs) target options context) \<Rightarrow>
         and_then (resolve bindings run fs actual) (\<lambda>fs_id.
         let entries = ms_entries (cur_mounts (lo_snapshot actual)) in
         case filter (\<lambda>(_, m). om_target m = target \<and> om_context m = context) (enumerate 0 entries) of
           [(index, m)] \<Rightarrow>
             if om_source m \<noteq> MountSource.Filesystem fs_id \<or> sort (om_options m) \<noteq> sort options then Inl (fault.Failed BindingError.Identity)
             else
             and_then (within_scope mount_json bindings run before
               ((lo_snapshot actual)\<lparr>cur_mounts := (cur_mounts (lo_snapshot actual))\<lparr>ms_entries := take index entries @ drop (Suc index) entries\<rparr>\<rparr>)
               (rt_planned_id (ra_target resolved))) (\<lambda>_.
             and_then (contract_at run action) (\<lambda>promised.
             and_then (correlations bindings run actual) (\<lambda>found.
             report_results run action completion promised found)))
         | _ \<Rightarrow> Inl (fault.Failed BindingError.Identity))
     | _ \<Rightarrow> Inl (fault.Failed BindingError.Identity))"

end
