(* ===== verification/Runtime_Host.thy ===== *)
theory Runtime_Host
  imports Runtime_Targets
begin

text \<open>
  The trusted host of an execution: its probe (\<^verbatim>\<open>storage-runtime/src/probe.rs\<close>), the policies for
  capability and authorization (\<^verbatim>\<open>capability.rs\<close>, \<^verbatim>\<open>authorization.rs\<close>) and the admission of actions
  under a lease (\<^verbatim>\<open>host.rs\<close>). The traits that an application implements are records of functions;
  \<open>linux_host\<close> is the implementation of \<^verbatim>\<open>RuntimeHost\<close> for \<^verbatim>\<open>LinuxLiveHost\<close>.
\<close>

section \<open>Probe publications\<close>

datatype ProbeObservationError = Capacity PlanSimulationError | Observation ObservationError

record ProbedObservation =
  pb_observation :: LiveObservation
  pb_capacity :: "CapacityEvidence list"
  pb_vg_members :: "(NodeId \<times> u64) list"

text \<open>One pass of the providers: the configured probe is an argument.\<close>

record Publication =
  pub_current :: CurrentState
  pub_lvm_vgs :: "LvmVgObservation list"
  pub_generation :: u64

record 'w LinuxProbe =
  lp_instance_id :: uuid
  lp_probe :: "'w \<Rightarrow> Publication \<times> 'w"
  lp_describe :: "LvmVgEntry \<Rightarrow> string"
  lp_fresh :: "'w \<Rightarrow> uuid \<times> 'w"

definition collect :: "'w LinuxProbe \<Rightarrow> ('w, ProbeObservationError, ProbedObservation) proc" where
  "collect probe w = (case lp_probe probe w of (publication, w) \<Rightarrow>
     case lp_fresh probe w of (fresh, w) \<Rightarrow>
     given (
       and_then (map_err ProbeObservationError.Capacity
         (from_lvm_observations (lp_describe probe) fresh (pub_current publication) (pub_lvm_vgs publication))) (\<lambda>measured.
       let observation = \<lparr>lo_reference = \<lparr>or_probe_instance = lp_instance_id probe, or_epoch = ProbeEpoch (pub_generation publication)\<rparr>,
             lo_snapshot = hb_snapshot measured\<rparr> in
       and_then (map_err ProbeObservationError.Observation (validate_observation observation)) (\<lambda>_.
       Inr \<lparr>pb_observation = observation, pb_capacity = hb_capacity_evidence measured,
         pb_vg_members = map (\<lambda>vg. (vo_node vg, vge_pv_count (vo_vg vg))) (pub_lvm_vgs publication)\<rparr>))) w)"

definition membership_unknown :: LiveCheckStatus where
  "membership_unknown = LiveCheckStatus.Unknown
     ''complete, present PV membership and physical backing consistent with the measured VG count''"

definition is_pv_uuid :: "ExternalId \<Rightarrow> bool" where
  "is_pv_uuid identity = (case identity of ExternalId.LvmPvUuid _ \<Rightarrow> True | _ \<Rightarrow> False)"

definition is_pv_edge :: "Dependency \<Rightarrow> bool" where
  "is_pv_edge e \<longleftrightarrow> dep_kind e = DependencyKind.MemberOf MemberRole.LvmPv"

definition is_backing_kind :: "NodeKind \<Rightarrow> bool" where
  "is_backing_kind kind = (case kind of NodeKind.Disk \<Rightarrow> True | NodeKind.NvmeNamespace _ \<Rightarrow> True | _ \<Rightarrow> False)"

definition member_complete :: "NodeGraph \<Rightarrow> Dependency \<Rightarrow> bool" where
  "member_complete g e = is_some_and (graph_node g (dep_from e)) (\<lambda>node.
     facts_presence (node_size node) = Presence.Present \<and> spec_kind (node_kind node) = NodeKind.LvmPv
     \<and> is_some_and (spec_size (node_kind node)) (\<lambda>sz. as_u64 sz \<noteq> 0)
     \<and> (case filter is_pv_uuid (facts_identities (node_size node)) of
          [ExternalId.LvmPvUuid uuid] \<Rightarrow> trim uuid \<noteq> [] \<and> trim uuid = uuid
            \<and> length (filter (carries (ExternalId.LvmPvUuid uuid)) (g_nodes g)) = 1
        | _ \<Rightarrow> False)
     \<and> length (filter (\<lambda>other. dep_from other = dep_from e \<and> is_pv_edge other) (g_dependencies g)) = 1
     \<and> list_ex (\<lambda>i. is_some_and (graph_node g i) (\<lambda>n. is_backing_kind (spec_kind (node_kind n)))) (ancestors g (dep_from e)))"

definition check_vg_membership :: "ProbedObservation \<Rightarrow> NodeId \<Rightarrow> LiveCheckStatus" where
  "check_vg_membership observed vg =
     (if \<not> list_ex (\<lambda>item. ce_domain item = AllocationDomain.LvmVolumeGroup vg) (pb_capacity observed) then membership_unknown
      else case filter (\<lambda>(i, _). i = vg) (pb_vg_members observed) of
        [(_, expected)] \<Rightarrow>
          (let g = cur_graph (lo_snapshot (pb_observation observed));
               members = filter (\<lambda>e. dep_to e = vg \<and> is_pv_edge e) (g_dependencies g) in
           if expected = 0 \<or> of_nat (length members) \<noteq> expected \<or> \<not> list_all (member_complete g) members then membership_unknown
           else LiveCheckStatus.Satisfied)
      | _ \<Rightarrow> membership_unknown)"

definition check_probed_prerequisites ::
  "ProbedObservation \<Rightarrow> HistoricalBaseline \<Rightarrow> ActionPrerequisite list \<Rightarrow> NodeCorrelation list \<Rightarrow> (ObservationError, ObservedPrerequisites) result" where
  "check_probed_prerequisites observed baseline prerequisites bindings =
     check_observed_prerequisites_with_bindings baseline (pb_observation observed) (pb_capacity observed) prerequisites bindings"

section \<open>Policies\<close>

datatype OperationAvailability = Available BackendId | Unavailable string | Unknown string

record 'w BackendCapabilityCheck =
  cap_availability :: "ProviderAction \<Rightarrow> LiveObservation \<Rightarrow> 'w \<Rightarrow> OperationAvailability \<times> 'w"
  cap_check_scope :: "ExecutionContext \<Rightarrow> ResolvedAction \<Rightarrow> LiveObservation \<Rightarrow> 'w \<Rightarrow> LiveCheckStatus \<times> 'w"
  cap_check_consumer_exclusion :: "ExecutionContext \<Rightarrow> ResolvedAction \<Rightarrow> LiveObservation \<Rightarrow> 'w \<Rightarrow> LiveCheckStatus \<times> 'w"
  cap_check_mount_exclusion :: "ExecutionContext \<Rightarrow> ResolvedAction \<Rightarrow> LiveObservation \<Rightarrow> 'w \<Rightarrow> LiveCheckStatus \<times> 'w"
  cap_check_final_scope :: "ExecutionContext \<Rightarrow> LiveObservation \<Rightarrow> 'w \<Rightarrow> LiveCheckStatus \<times> 'w"
  cap_check_preservation :: "ExecutionContext \<Rightarrow> LiveObservation \<Rightarrow> 'w \<Rightarrow> LiveCheckStatus \<times> 'w"

text \<open>The methods that a capability does not override: no evidence, except for an empty policy.\<close>

definition default_capability ::
  "(ProviderAction \<Rightarrow> LiveObservation \<Rightarrow> 'w \<Rightarrow> OperationAvailability \<times> 'w) \<Rightarrow> 'w BackendCapabilityCheck" where
  "default_capability available = \<lparr>cap_availability = available,
     cap_check_scope = (\<lambda>_ _ _ w. (LiveCheckStatus.Unknown ''complete provider and mount-namespace scope coverage'', w)),
     cap_check_consumer_exclusion = (\<lambda>_ _ _ w. (LiveCheckStatus.Unknown ''independent backing endpoint and namespace consumer exclusion'', w)),
     cap_check_mount_exclusion = (\<lambda>_ _ _ w. (LiveCheckStatus.Unknown ''independent Host mount source, target and namespace exclusion'', w)),
     cap_check_final_scope = (\<lambda>_ _ w. (LiveCheckStatus.Unknown ''complete fresh final scope and namespace coverage'', w)),
     cap_check_preservation = (\<lambda>context _ w. let protected = ctx_protected_scope context in
       (if ps_nodes protected = [] \<and> ps_runtime_mounts protected = [] \<and> ps_persistent_mounts protected = [] then LiveCheckStatus.Satisfied
        else LiveCheckStatus.Unknown ''independent preservation evidence for protected contents and mount configuration'', w))\<rparr>"

record ApprovalRequest =
  apr_run_id :: uuid
  apr_plan_id :: uuid
  apr_action_id :: ActionId
  apr_plan_digest :: string
  apr_backend :: BackendId
  apr_targets :: "TargetFingerprint list"
  apr_observation :: ObservationReference

record 'w AuthorizationContext =
  auth_check :: "ApprovalRequest \<Rightarrow> 'w \<Rightarrow> LiveCheckStatus \<times> 'w"
  auth_check_destructive :: "ApprovalRequest \<Rightarrow> NodeId \<Rightarrow> 'w \<Rightarrow> LiveCheckStatus \<times> 'w"

section \<open>The host interface\<close>

datatype HostError =
    HistoricalRejected
  | FinalVerificationUnavailable
  | Binding BindingError
  | LeaseMismatch
  | ObservationMismatch
  | ActiveAttempt
  | Probe ProbeObservationError
  | Checkpoint CheckpointError
  | Run ExecutionRunError
  | Document PlanDocumentError

record AdmissionDecision =
  ad_report :: AdmissionReport
  ad_resolved :: "ResolvedAction option"

record 'w RuntimeHost =
  host_probe :: "('w, HostError fault, ProbedObservation) proc"
  host_check_plan :: "ExecutionRun \<Rightarrow> ProbedObservation \<Rightarrow> (ProviderAction \<Rightarrow> BackendId) \<Rightarrow> HostExecutionLock \<Rightarrow> ('w, HostError fault, LiveCheckStatus) proc"
  host_check_admission :: "ExecutionRun \<Rightarrow> ActionId \<Rightarrow> ProbedObservation \<Rightarrow> OutputBindings \<Rightarrow> ExecutionLease \<Rightarrow> ('w, HostError fault, AdmissionDecision) proc"
  host_verify_goal :: "ExecutionRun \<Rightarrow> ProbedObservation \<Rightarrow> OutputBindings \<Rightarrow> HostExecutionLock \<Rightarrow> ('w, HostError fault, GoalVerificationReport) proc"

definition check_violated :: "CheckStatus \<Rightarrow> bool" where
  "check_violated st = (case st of CheckStatus.Violated _ \<Rightarrow> True | _ \<Rightarrow> False)"

definition check_reviewed_plan :: "ContractKeys \<Rightarrow> ExecutionRun \<Rightarrow> (HostError fault, unit) result" where
  "check_reviewed_plan keys run =
     and_then (map_err (map_fault HostError.Document) (analyse_historical keys (run_document run))) (\<lambda>analysis.
     if list_ex (\<lambda>step. list_ex (\<lambda>check. check_violated (pc_status check)) (ss_checks step)) (sr_steps (rep_simulation (ha_report analysis)))
     then Inl (fault.Failed HostError.HistoricalRejected) else Inr ())"

end
