(* ===== verification/Runtime_Admission.thy ===== *)
theory Runtime_Admission
  imports Runtime_Host
begin

text \<open>
  The host of \<^verbatim>\<open>storage-runtime/src/host.rs\<close> on Linux: fresh probes, the readiness of a whole plan, the
  admission of one action under its lease, and the final verification. What the program keeps
  in \<^verbatim>\<open>last_probe\<close> is a component of the world.
\<close>

record 'w Env =
  env_os :: "'w Os"
  env_codec :: Codec
  env_keys :: ContractKeys
  env_mount_json :: "ObservedMount \<Rightarrow> string option"
  env_target_text :: "TargetError \<Rightarrow> string"

record 'w LinuxLiveHost =
  lh_probe :: "'w LinuxProbe"
  lh_capability :: "'w BackendCapabilityCheck"
  lh_authorization :: "'w AuthorizationContext"
  lh_last_probe :: "'w \<Rightarrow> ObservationReference option"
  lh_set_last_probe :: "ObservationReference option \<Rightarrow> 'w \<Rightarrow> 'w"

definition linux_probe :: "'w LinuxLiveHost \<Rightarrow> ('w, HostError fault, ProbedObservation) proc" where
  "linux_probe h = seq (changed (lh_set_last_probe h None)) (\<lambda>_.
     seq (recast (fault.Failed \<circ> HostError.Probe) (collect (lh_probe h))) (\<lambda>observed.
     seq (changed (lh_set_last_probe h (Some (lo_reference (pb_observation observed))))) (\<lambda>_.
     give observed)))"

definition stale_publication :: "'w LinuxLiveHost \<Rightarrow> ExecutionRun \<Rightarrow> ProbedObservation \<Rightarrow> 'w \<Rightarrow> bool" where
  "stale_publication h run observed w = (let reference = lo_reference (pb_observation observed) in
     lh_last_probe h w \<noteq> Some reference
     \<or> is_some_and (run_latest_observation run) (\<lambda>latest.
         or_probe_instance (lo_reference latest) \<noteq> or_probe_instance reference
         \<or> epoch_get (or_epoch (lo_reference latest)) \<ge> epoch_get (or_epoch reference)))"

definition require_current :: "'w LinuxLiveHost \<Rightarrow> ExecutionRun \<Rightarrow> ProbedObservation \<Rightarrow> ('w, HostError fault, unit) proc" where
  "require_current h run observed w =
     (if stale_publication h run observed w then (Inl (fault.Failed HostError.ObservationMismatch), w) else (Inr (), w))"

definition require_no_attempt :: "'w Env \<Rightarrow> HostExecutionLock \<Rightarrow> ('w, HostError fault, unit) proc" where
  "require_no_attempt env lock =
     seq (recast (fault.Failed \<circ> HostError.Checkpoint) (inspect (env_os env) (env_codec env) lock)) (\<lambda>current.
     if current \<noteq> None then refuse (fault.Failed HostError.ActiveAttempt) else give ())"

section \<open>Readiness of a plan\<close>

fun check_operations ::
  "'w LinuxLiveHost \<Rightarrow> LiveObservation \<Rightarrow> (ProviderAction \<Rightarrow> BackendId) \<Rightarrow> PlannedAction list \<Rightarrow> ('w, HostError fault, LiveCheckStatus) proc" where
  "check_operations h observed backend_for [] w = (Inr LiveCheckStatus.Satisfied, w)"
| "check_operations h observed backend_for (action # rest) w =
     (case cap_availability (lh_capability h) (pa_operation action) observed w of (available, w) \<Rightarrow>
      case available of
        OperationAvailability.Available selected \<Rightarrow>
          if selected = backend_for (pa_operation action) then check_operations h observed backend_for rest w
          else (Inr (LiveCheckStatus.Violated ''plan requires a different backend than the configured operation route''), w)
      | OperationAvailability.Unavailable reason \<Rightarrow> (Inr (LiveCheckStatus.Violated reason), w)
      | OperationAvailability.Unknown reason \<Rightarrow> (Inr (LiveCheckStatus.Unknown reason), w))"

definition linux_check_plan ::
  "'w Env \<Rightarrow> 'w LinuxLiveHost \<Rightarrow> ExecutionRun \<Rightarrow> ProbedObservation \<Rightarrow> (ProviderAction \<Rightarrow> BackendId) \<Rightarrow> HostExecutionLock \<Rightarrow>
   ('w, HostError fault, LiveCheckStatus) proc" where
  "linux_check_plan env h run observed backend_for lock =
     seq (given (check_reviewed_plan (env_keys env) run)) (\<lambda>_.
     seq (require_current h run observed) (\<lambda>_.
     seq (require_no_attempt env lock) (\<lambda>_.
     check_operations h (pb_observation observed) backend_for (plan_actions (run_plan run)))))"

section \<open>Admission\<close>

definition is_unknown :: "LiveCheckStatus \<Rightarrow> bool" where
  "is_unknown st = (case st of LiveCheckStatus.Unknown _ \<Rightarrow> True | _ \<Rightarrow> False)"

text \<open>The checks that a condition selects are asked again, one after the other.\<close>

fun reconsider ::
  "('c LiveCheck \<Rightarrow> bool) \<Rightarrow> ('c \<Rightarrow> 'w \<Rightarrow> LiveCheckStatus \<times> 'w) \<Rightarrow> 'c LiveCheck list \<Rightarrow> 'w \<Rightarrow> 'c LiveCheck list \<times> 'w" where
  "reconsider P ask [] w = ([], w)"
| "reconsider P ask (check # rest) w =
     (case (if P check then case ask (lc_condition check) w of (st, w) \<Rightarrow> (check\<lparr>lc_status := st\<rparr>, w) else (check, w)) of (check, w) \<Rightarrow>
      case reconsider P ask rest w of (rest, w) \<Rightarrow> (check # rest, w))"

definition create_backing :: "ProviderAction \<Rightarrow> NodeId option" where
  "create_backing operation = (case operation of
      ProviderAction.Filesystem (FilesystemAction.Create backing planned FilesystemKind.Ext4 label) \<Rightarrow> Some backing
    | _ \<Rightarrow> None)"

definition excludes_consumers :: "NodeId option \<Rightarrow> ActionPrerequisite LiveCheck \<Rightarrow> bool" where
  "excludes_consumers backing check \<longleftrightarrow> (case backing of None \<Rightarrow> False | Some n \<Rightarrow>
     lc_condition check = ActionPrerequisite.NoUnexpectedConsumers n \<and> is_unknown (lc_status check))"

definition excludes_mounts :: "ResolvedAction \<Rightarrow> MountSource \<Rightarrow> PathBuf \<Rightarrow> MountContext \<Rightarrow> ActionPrerequisite LiveCheck \<Rightarrow> bool" where
  "excludes_mounts action source target context check \<longleftrightarrow> is_unknown (lc_status check) \<and> (case lc_condition check of
      ActionPrerequisite.MountSourceAvailable value \<Rightarrow> value = source \<and> ra_filesystem_target action \<noteq> None
    | ActionPrerequisite.MountTargetAvailable value ctx \<Rightarrow> value = target \<and> ctx = context
    | ActionPrerequisite.MountDescendantsAbsent value ctx \<Rightarrow> value = target \<and> ctx = context
    | _ \<Rightarrow> False)"

definition exclude_mounts ::
  "'w LinuxLiveHost \<Rightarrow> ExecutionContext \<Rightarrow> ResolvedAction \<Rightarrow> LiveObservation \<Rightarrow> ActionPrerequisite LiveCheck list \<Rightarrow> 'w \<Rightarrow>
   (LiveCheckStatus \<times> ActionPrerequisite LiveCheck list) \<times> 'w" where
  "exclude_mounts h context action observed checks w = (case ra_operation action of
      ProviderAction.Mount (MountAction.Mount source target options mount_context) \<Rightarrow>
        (case cap_check_mount_exclusion (lh_capability h) context action observed w of (exclusion, w) \<Rightarrow>
          ((exclusion, map (\<lambda>check. if excludes_mounts action source target mount_context check
              then check\<lparr>lc_status := exclusion\<rparr> else check) checks), w))
    | _ \<Rightarrow> ((LiveCheckStatus.Satisfied, checks), w))"

definition awaits_approval :: "NodeId option \<Rightarrow> ActionPrerequisite LiveCheck \<Rightarrow> bool" where
  "awaits_approval backing check \<longleftrightarrow> (case lc_condition check of
      ActionPrerequisite.DestructiveApproval n \<Rightarrow> Some n = backing \<and> is_unknown (lc_status check)
    | _ \<Rightarrow> False)"

definition approval_node :: "ActionPrerequisite \<Rightarrow> NodeId" where
  "approval_node condition = (case condition of ActionPrerequisite.DestructiveApproval n \<Rightarrow> n | _ \<Rightarrow> NodeId 0)"

definition authorize ::
  "'w LinuxLiveHost \<Rightarrow> ApprovalRequest \<Rightarrow> NodeId option \<Rightarrow> ActionPrerequisite LiveCheck list \<Rightarrow> 'w \<Rightarrow>
   (LiveCheckStatus \<times> ActionPrerequisite LiveCheck list) \<times> 'w" where
  "authorize h request backing checks w =
     (case auth_check (lh_authorization h) request w of (approval, w) \<Rightarrow>
      if approval \<noteq> LiveCheckStatus.Satisfied then ((approval, checks), w)
      else case reconsider (awaits_approval backing)
          (\<lambda>condition. auth_check_destructive (lh_authorization h) request (approval_node condition)) checks w of (checks, w) \<Rightarrow>
        ((case find (\<lambda>check. lc_status check \<noteq> LiveCheckStatus.Satisfied) checks of
            Some incomplete \<Rightarrow> lc_status incomplete | None \<Rightarrow> LiveCheckStatus.Satisfied, checks), w))"

definition admit_resolved ::
  "'w Env \<Rightarrow> 'w LinuxLiveHost \<Rightarrow> ExecutionRun \<Rightarrow> ProbedObservation \<Rightarrow> ResolvedAction \<Rightarrow> ActionPrerequisite LiveCheck list \<Rightarrow>
   ('w, HostError fault, LiveCheckStatus \<times> ActionPrerequisite LiveCheck list) proc" where
  "admit_resolved env h run observed action checks w =
     (let context = run_context run; actual = pb_observation observed; backing = create_backing (ra_operation action) in
      case cap_check_scope (lh_capability h) context action actual w of (scope, w) \<Rightarrow>
      let applicability = (if scope = LiveCheckStatus.Satisfied then check_vg_membership observed (rt_observed_id (ra_target action)) else scope) in
      if applicability \<noteq> LiveCheckStatus.Satisfied then (Inr (applicability, checks), w)
      else case reconsider (excludes_consumers backing)
          (\<lambda>_. cap_check_consumer_exclusion (lh_capability h) context action actual) checks w of (checks, w) \<Rightarrow>
      case exclude_mounts h context action actual checks w of ((exclusion, checks), w) \<Rightarrow>
      let facts_ready = list_all (\<lambda>check. lc_status check = LiveCheckStatus.Satisfied \<or> awaits_approval backing check) checks in
      if facts_ready \<and> exclusion = LiveCheckStatus.Satisfied
      then seq (given (map_err (fault.Failed \<circ> HostError.Document) (plan_digest (env_codec env) (run_document run)))) (\<lambda>digest w.
        let request = \<lparr>apr_run_id = run_run_id run, apr_plan_id = ctx_plan_id context, apr_action_id = ra_action_id action,
              apr_plan_digest = digest, apr_backend = ra_backend action, apr_targets = fingerprints action,
              apr_observation = lo_reference actual\<rparr> in
        case authorize h request backing checks w of (r, w) \<Rightarrow> (Inr r, w)) w
      else (Inr (if exclusion = LiveCheckStatus.Satisfied
          then LiveCheckStatus.Unknown ''authorization deferred until all prerequisites pass'' else exclusion, checks), w))"

definition resolve_available ::
  "'w Env \<Rightarrow> 'w LinuxLiveHost \<Rightarrow> ExecutionRun \<Rightarrow> ActionId \<Rightarrow> ProviderAction \<Rightarrow> LiveObservation \<Rightarrow> OutputBindings \<Rightarrow>
   ('w, HostError fault, LiveCheckStatus \<times> ResolvedAction option) proc" where
  "resolve_available env h run action operation observed bindings w =
     (case cap_availability (lh_capability h) operation observed w of (available, w) \<Rightarrow>
      (case available of
        OperationAvailability.Unknown reason \<Rightarrow> Inr (LiveCheckStatus.Unknown reason, None)
      | OperationAvailability.Unavailable reason \<Rightarrow> Inr (LiveCheckStatus.Violated reason, None)
      | OperationAvailability.Available backend \<Rightarrow>
          (case resolve_action_with_bindings (env_mount_json env) run action observed backend bindings of
             Inr resolved \<Rightarrow> Inr (LiveCheckStatus.Satisfied, Some resolved)
           | Inl (fault.Failed e) \<Rightarrow> Inr (LiveCheckStatus.Violated (env_target_text env e), None)
           | Inl Panic \<Rightarrow> Inl Panic | Inl OutOfFuel \<Rightarrow> Inl OutOfFuel), w))"

definition linux_check_admission ::
  "'w Env \<Rightarrow> 'w LinuxLiveHost \<Rightarrow> ExecutionRun \<Rightarrow> ActionId \<Rightarrow> ProbedObservation \<Rightarrow> OutputBindings \<Rightarrow> ExecutionLease \<Rightarrow>
   ('w, HostError fault, AdmissionDecision) proc" where
  "linux_check_admission env h run action observed bindings lease =
     (if el_run_id lease \<noteq> run_run_id run \<or> el_action lease \<noteq> action then refuse (fault.Failed HostError.LeaseMismatch)
      else
      seq (given (map_err (map_fault HostError.Run) (get_state action run))) (\<lambda>st.
      if st \<noteq> ActionRunState.Checking then refuse (fault.Failed (HostError.Run (ExecutionRunError.InvalidTransition action st)))
      else
      seq (require_current h run observed) (\<lambda>_.
      seq (require_no_attempt env (el_host_lock lease)) (\<lambda>_.
      seq (given (ok_or (nth_opt (plan_actions (run_plan run)) (action_index action)) Panic)) (\<lambda>planned.
      seq (given (map_err (map_fault HostError.Binding) (correlations bindings run (pb_observation observed)))) (\<lambda>found.
      seq (given (map_err (fault.Failed \<circ> HostError.Probe \<circ> ProbeObservationError.Observation)
        (check_probed_prerequisites observed (doc_baseline (run_document run)) (ac_prerequisites (pa_informational_contract planned)) found))) (\<lambda>report.
      seq (resolve_available env h run action (pa_operation planned) (pb_observation observed) bindings) (\<lambda>(applicability, resolved).
      seq (case resolved of None \<Rightarrow> give (applicability, op_checks report)
        | Some r \<Rightarrow> admit_resolved env h run observed r (op_checks report)) (\<lambda>(applicability, checks).
      give \<lparr>ad_report = \<lparr>ar_run_id = run_run_id run, ar_action = action, ar_observation = pb_observation observed,
          ar_applicability = applicability, ar_held_resources = el_resources lease, ar_checks = checks\<rparr>,
        ad_resolved = (if applicability \<noteq> LiveCheckStatus.Satisfied then None else resolved)\<rparr>)))))))))"

section \<open>Final verification\<close>

definition require_verified :: "ExecutionRun \<Rightarrow> unit \<Rightarrow> PlannedAction \<Rightarrow> (HostError fault, unit) result" where
  "require_verified run _ action =
     and_then (map_err (map_fault HostError.Run) (get_state (pa_id action) run)) (\<lambda>st.
     if st \<noteq> ActionRunState.Verified then Inl (fault.Failed (HostError.Run ExecutionRunError.ActionsNotVerified)) else Inr ())"

definition linux_verify_goal ::
  "'w Env \<Rightarrow> 'w LinuxLiveHost \<Rightarrow> ExecutionRun \<Rightarrow> ProbedObservation \<Rightarrow> OutputBindings \<Rightarrow> HostExecutionLock \<Rightarrow>
   ('w, HostError fault, GoalVerificationReport) proc" where
  "linux_verify_goal env h run observed bindings lock =
     seq (given (try_fold (require_verified run) () (plan_actions (run_plan run)))) (\<lambda>_.
     seq (require_current h run observed) (\<lambda>_.
     seq (require_no_attempt env lock) (\<lambda>_.
     seq (given (map_err (map_fault HostError.Binding) (correlations bindings run (pb_observation observed)))) (\<lambda>found.
     seq (given (map_err (map_fault (HostError.Probe \<circ> ProbeObservationError.Observation))
       (check_observed_goal (run_context run) (pb_observation observed) found))) (\<lambda>checks.
     seq (\<lambda>w. case cap_check_final_scope (lh_capability h) (run_context run) (pb_observation observed) w of (coverage, w) \<Rightarrow>
       if coverage = LiveCheckStatus.Satisfied
       then case cap_check_preservation (lh_capability h) (run_context run) (pb_observation observed) w of (st, w) \<Rightarrow> (Inr st, w)
       else (Inr coverage, w)) (\<lambda>preservation.
     seq (require_no_attempt env lock) (\<lambda>_.
     give \<lparr>gv_run_id = run_run_id run, gv_observation = pb_observation observed, gv_checks = checks, gv_preservation = preservation\<rparr>)))))))"

definition linux_host :: "'w Env \<Rightarrow> 'w LinuxLiveHost \<Rightarrow> 'w RuntimeHost" where
  "linux_host env h = \<lparr>host_probe = linux_probe h, host_check_plan = linux_check_plan env h,
     host_check_admission = linux_check_admission env h, host_verify_goal = linux_verify_goal env h\<rparr>"

end
