(* ===== verification/Runtime_Coordinator.thy ===== *)
theory Runtime_Coordinator
  imports Runtime_Admission
begin

text \<open>
  The coordinator of an execution (\<^verbatim>\<open>storage-runtime/src/coordinator.rs\<close>) and the boundary to the
  backends (\<^verbatim>\<open>dispatcher.rs\<close>). The host and the dispatcher are type parameters of the coordinator
  in the source and arguments here. A backend reports progress through a callback while it runs;
  what it does is an \<open>Activity\<close>, a dialogue with the callback that ends with a receipt.
\<close>

section \<open>Backends\<close>

datatype DispatchError = Adapter string | Progress ExecutionRunError

record ExecutionReceipt =
  er_outcome :: BackendOutcome
  er_created_lv_uuid :: "string option"
  er_created_filesystem_uuid :: "string option"

datatype 'w Activity =
    Report string 'w "(ExecutionRunError, unit) result \<Rightarrow> 'w \<Rightarrow> 'w Activity"
  | Finish "(DispatchError, ExecutionReceipt) result" 'w

record 'w BackendDispatcher =
  dis_backend_for :: "ProviderAction \<Rightarrow> BackendId"
  dis_execute :: "ResolvedAction \<Rightarrow> 'w \<Rightarrow> 'w Activity"

definition validate_for :: "ExecutionReceipt \<Rightarrow> ProviderAction \<Rightarrow> (DispatchError, unit) result" where
  "validate_for receipt operation =
     (let lv_create = (case operation of ProviderAction.Lvm (LvmAction.CreateLv _ _ _ _ _) \<Rightarrow> True | _ \<Rightarrow> False);
          fs_create = (case operation of ProviderAction.Filesystem (FilesystemAction.Create _ _ _ _) \<Rightarrow> True | _ \<Rightarrow> False) in
      if er_created_lv_uuid receipt \<noteq> None \<and> \<not> lv_create \<or> er_created_filesystem_uuid receipt \<noteq> None \<and> \<not> fs_create
      then Inl (DispatchError.Adapter ''receipt identity does not match the dispatched operation'') else Inr ())"

section \<open>State\<close>

datatype CoordinatorError =
    PlanUnavailable LiveCheckStatus
  | AlreadyVerified
  | Stopped
  | InvalidDecision
  | RunMismatch
  | Receipt DispatchError
  | Binding BindingError
  | Lease LeaseError
  | Host HostError
  | Checkpoint CheckpointError
  | Run ExecutionRunError

record ExecutionSummary =
  sum_run_id :: uuid
  sum_verified :: bool
  sum_stopped_action :: "ActionId option"
  sum_observation :: "LiveObservation option"

text \<open>
  What a coordinator is configured with. The callback that is notified of the run is a function
  of the world, and so is the text of an error.
\<close>

record 'w Coordinator =
  co_env :: "'w Env"
  co_root :: ExecutionRoot
  co_host :: "'w RuntimeHost"
  co_dispatcher :: "'w BackendDispatcher"
  co_run_id :: uuid
  co_notify :: "ExecutionRun \<Rightarrow> 'w \<Rightarrow> 'w"
  co_text :: "CoordinatorError \<Rightarrow> string"

text \<open>What changes: the coordinator's own fields, the run, the flag of the store in use, and the world.\<close>

record 'w Execution =
  ex_halted :: bool
  ex_bindings :: OutputBindings
  ex_run :: ExecutionRun
  ex_poisoned :: bool
  ex_world :: 'w

type_synonym ('w, 'a) step = "('w Execution, CoordinatorError fault, 'a) proc"

definition coordinator_state :: "ExecutionRun \<Rightarrow> 'w \<Rightarrow> 'w Execution" where
  "coordinator_state run w = \<lparr>ex_halted = False, ex_bindings = bindings_new run, ex_run = run, ex_poisoned = False, ex_world = w\<rparr>"

definition on_world :: "('e \<Rightarrow> CoordinatorError fault) \<Rightarrow> ('w, 'e, 'a) proc \<Rightarrow> ('w, 'a) step" where
  "on_world f m s = (case m (ex_world s) of (r, w) \<Rightarrow> (map_err f r, s\<lparr>ex_world := w\<rparr>))"

definition on_store :: "(bool \<times> 'w, CheckpointError, 'a) proc \<Rightarrow> ('w, 'a) step" where
  "on_store m s = (case m (ex_poisoned s, ex_world s) of (r, poisoned, w) \<Rightarrow>
     (map_err (fault.Failed \<circ> CoordinatorError.Checkpoint) r, s\<lparr>ex_poisoned := poisoned, ex_world := w\<rparr>))"

definition on_run :: "'a run_method \<Rightarrow> ('w, 'a) step" where
  "on_run m s = (case m (ex_run s) of (r, run) \<Rightarrow> (map_err (map_fault CoordinatorError.Run) r, s\<lparr>ex_run := run\<rparr>))"

definition on_bindings :: "(OutputBindings \<Rightarrow> (BindingError fault, 'a) result \<times> OutputBindings) \<Rightarrow> ('w, 'a) step" where
  "on_bindings m s = (case m (ex_bindings s) of (r, bindings) \<Rightarrow>
     (map_err (map_fault CoordinatorError.Binding) r, s\<lparr>ex_bindings := bindings\<rparr>))"

definition reading :: "('w Execution \<Rightarrow> (CoordinatorError fault, 'a) result) \<Rightarrow> ('w, 'a) step" where
  "reading q s = (q s, s)"

definition state_of :: "ActionId \<Rightarrow> ('w, ActionRunState) step" where
  "state_of action = reading (\<lambda>s. map_err (map_fault CoordinatorError.Run) (get_state action (ex_run s)))"

definition notify :: "'w Coordinator \<Rightarrow> ('w, unit) step" where
  "notify co = changed (\<lambda>s. s\<lparr>ex_world := co_notify co (ex_run s) (ex_world s)\<rparr>)"

definition new_store :: "('w, unit) step" where
  "new_store = changed (\<lambda>s. s\<lparr>ex_poisoned := False\<rparr>)"

section \<open>One action\<close>

definition require_idle :: "'w Coordinator \<Rightarrow> HostExecutionLock \<Rightarrow> ('w, unit) step" where
  "require_idle co lock =
     seq (on_world (fault.Failed \<circ> CoordinatorError.Checkpoint) (inspect (env_os (co_env co)) (env_codec (co_env co)) lock)) (\<lambda>current.
     if current \<noteq> None then refuse (fault.Failed (CoordinatorError.Host HostError.ActiveAttempt)) else give ())"

text \<open>Whether a resolved endpoint is one for this run, action, publication and backend.\<close>

definition decision_fits ::
  "'w Coordinator \<Rightarrow> ExecutionRun \<Rightarrow> ActionId \<Rightarrow> ProbedObservation \<Rightarrow> AdmissionDecision \<Rightarrow> ResolvedAction \<Rightarrow> (CoordinatorError fault, bool) result" where
  "decision_fits co run action observed decision resolved =
     (if ra_run_id resolved \<noteq> run_run_id run \<or> ra_action_id resolved \<noteq> action
         \<or> ra_observation resolved \<noteq> lo_reference (ar_observation (ad_report decision))
         \<or> ra_observation resolved \<noteq> lo_reference (pb_observation observed)
      then Inr False
      else
      and_then (ok_or (nth_opt (plan_actions (run_plan run)) (action_index action)) Panic) (\<lambda>planned.
      Inr (ra_operation resolved = pa_operation planned \<and> ra_backend resolved = dis_backend_for (co_dispatcher co) (ra_operation resolved))))"

definition check_decision :: "'w Coordinator \<Rightarrow> ActionId \<Rightarrow> ProbedObservation \<Rightarrow> AdmissionDecision \<Rightarrow> ('w, unit) step" where
  "check_decision co action observed decision = (case ad_resolved decision of
      None \<Rightarrow> give ()
    | Some resolved \<Rightarrow> seq (reading (\<lambda>s. decision_fits co (ex_run s) action observed decision resolved)) (\<lambda>fits.
        if fits then give () else refuse (fault.Failed CoordinatorError.InvalidDecision)))"

text \<open>The dialogue with a backend: each report is recorded in the run and published.\<close>

primrec converse ::
  "'w Coordinator \<Rightarrow> ActionId \<Rightarrow> 'w Activity \<Rightarrow> ExecutionRun \<Rightarrow> (DispatchError fault, ExecutionReceipt) result \<times> ExecutionRun \<times> 'w" where
  "converse co action (Report detail w answer) run = (case record_progress action detail run of
      (Inr _, run) \<Rightarrow> converse co action (answer (Inr ()) (co_notify co run w)) run
    | (Inl f, run) \<Rightarrow> (case f of
          fault.Failed e \<Rightarrow> converse co action (answer (Inl e) w) run
        | Panic \<Rightarrow> (Inl Panic, run, w)
        | OutOfFuel \<Rightarrow> (Inl OutOfFuel, run, w)))"
| "converse co action (Finish r w) run = (map_err fault.Failed r, run, w)"

text \<open>An error of the backend becomes an unknown outcome.\<close>

definition unknown_receipt :: "string \<Rightarrow> ExecutionReceipt" where
  "unknown_receipt reason = \<lparr>er_outcome = BackendOutcome.OutcomeUnknown reason, er_created_lv_uuid = None, er_created_filesystem_uuid = None\<rparr>"

definition invoke :: "'w Coordinator \<Rightarrow> ActionId \<Rightarrow> ResolvedAction \<Rightarrow> ('w, ExecutionReceipt) step" where
  "invoke co action resolved s =
     (case converse co action (dis_execute (co_dispatcher co) resolved (ex_world s)) (ex_run s) of (r, run, w) \<Rightarrow>
      (case r of
         Inr receipt \<Rightarrow> Inr receipt
       | Inl (fault.Failed e) \<Rightarrow> Inr (unknown_receipt (co_text co (CoordinatorError.Receipt e)))
       | Inl Panic \<Rightarrow> Inl Panic | Inl OutOfFuel \<Rightarrow> Inl OutOfFuel, s\<lparr>ex_run := run, ex_world := w\<rparr>))"

text \<open>
  A failure after the dispatch: the action is marked with its text, and the error is returned unless
  the run rejects the mark.
\<close>

definition or_unknown :: "'w Coordinator \<Rightarrow> ActionId \<Rightarrow> ('w, 'a) step \<Rightarrow> ('w, 'a) step" where
  "or_unknown co action m = tried m (\<lambda>r. case r of
      Inl (fault.Failed e) \<Rightarrow> seq (on_run (mark_outcome_unknown action (co_text co e))) (\<lambda>_. refuse (fault.Failed e))
    | other \<Rightarrow> given other)"

definition or_not_dispatched :: "'w Coordinator \<Rightarrow> ActionId \<Rightarrow> ('w, 'a) step \<Rightarrow> ('w, 'a) step" where
  "or_not_dispatched co action m = tried m (\<lambda>r. case r of
      Inl (fault.Failed e) \<Rightarrow> seq (on_run (mark_pre_dispatch_failed action (co_text co e))) (\<lambda>_. refuse (fault.Failed e))
    | other \<Rightarrow> given other)"

type_synonym Verification = "VerificationReport \<times> PendingLvBinding option \<times> PendingFilesystemBinding option"

definition verify_result ::
  "'w Coordinator \<Rightarrow> ActionId \<Rightarrow> ResolvedAction \<Rightarrow> LiveObservation \<Rightarrow> ExecutionReceipt \<Rightarrow> ExecutionRun \<Rightarrow> OutputBindings \<Rightarrow>
   (BindingError fault, Verification) result" where
  "verify_result co action resolved before receipt run bindings =
     (let json = env_mount_json (co_env co) in
      case ra_operation resolved of
        ProviderAction.Filesystem _ \<Rightarrow>
          and_then (verify_created_filesystem json run action resolved bindings before (er_created_filesystem_uuid receipt)) (\<lambda>(report, candidate).
          Inr (report, None, candidate))
      | _ \<Rightarrow>
          if ra_filesystem_target resolved \<noteq> None
          then and_then (verify_mount json run action resolved bindings before) (\<lambda>report. Inr (report, None, None))
          else if ra_lv_target resolved \<noteq> None
          then and_then (verify_activation json run action resolved bindings before (er_created_lv_uuid receipt)) (\<lambda>report. Inr (report, None, None))
          else and_then (verify_created_lv json run action resolved bindings before (er_created_lv_uuid receipt)) (\<lambda>(report, candidate).
            Inr (report, candidate, None)))"

definition when_some :: "'b option \<Rightarrow> ('b \<Rightarrow> ('w, unit) step) \<Rightarrow> ('w, unit) step" where
  "when_some opt m = (case opt of None \<Rightarrow> give () | Some x \<Rightarrow> m x)"

definition record_outputs ::
  "ActionId \<Rightarrow> ResolvedAction \<Rightarrow> PendingLvBinding option \<Rightarrow> PendingFilesystemBinding option \<Rightarrow> ('w, unit) step" where
  "record_outputs action resolved pending pending_filesystem =
     seq (when_some pending (\<lambda>b s. on_bindings (record_verified (ex_run s) b) s)) (\<lambda>_.
     seq (when_some pending_filesystem (\<lambda>b s. on_bindings (record_verified_filesystem (ex_run s) b) s)) (\<lambda>_.
     when_some (ra_filesystem_target resolved) (\<lambda>_ s. on_bindings (record_verified_mount (ex_run s) action) s)))"

text \<open>After the invocation: a fresh observation, the completion, its verification, and the removal of the checkpoint.\<close>

definition conclude ::
  "'w Coordinator \<Rightarrow> ActionId \<Rightarrow> HostExecutionLock \<Rightarrow> ResolvedAction \<Rightarrow> LiveObservation \<Rightarrow> ActiveAttempt \<Rightarrow> ExecutionReceipt \<Rightarrow>
   ('w, ActionRunState) step" where
  "conclude co action lock resolved before attempt receipt =
     seq (or_unknown co action (on_world (map_fault CoordinatorError.Host) (host_probe (co_host co)))) (\<lambda>post.
     seq (or_unknown co action (given (map_err (fault.Failed \<circ> CoordinatorError.Receipt) (validate_for receipt (ra_operation resolved))))) (\<lambda>_.
     seq (or_unknown co action (\<lambda>s. on_run (record_completion \<lparr>bc_run_id = run_run_id (ex_run s), bc_action = action,
       bc_outcome = er_outcome receipt, bc_observation = pb_observation post\<rparr>) s)) (\<lambda>_.
     seq (notify co) (\<lambda>_.
     seq (state_of action) (\<lambda>st.
     seq (if st = ActionRunState.Verifying
       then seq (or_unknown co action (reading (\<lambda>s. map_err (map_fault CoordinatorError.Binding)
           (verify_result co action resolved before receipt (ex_run s) (ex_bindings s))))) (\<lambda>(report, pending).
         seq (on_run (record_verification report)) (\<lambda>_. give pending))
       else give (None, None)) (\<lambda>(pending, pending_filesystem).
     seq (state_of action) (\<lambda>st.
     if st = ActionRunState.Verified
     then
       seq (record_outputs action resolved pending pending_filesystem) (\<lambda>_.
       seq (notify co) (\<lambda>_.
       seq (on_store (clear (env_os (co_env co)) (env_codec (co_env co)) lock attempt)) (\<lambda>_.
       seq (changed (\<lambda>s. s\<lparr>ex_halted := False\<rparr>)) (\<lambda>_.
       give st))))
     else give st)))))))"

text \<open>The invocation boundary: the checkpoint is durable before the backend is called.\<close>

definition dispatch ::
  "'w Coordinator \<Rightarrow> ActionId \<Rightarrow> OperationId option \<Rightarrow> HostExecutionLock \<Rightarrow> ResolvedAction \<Rightarrow> LiveObservation \<Rightarrow> ('w, ActionRunState) step" where
  "dispatch co action operation lock resolved before =
     seq (or_not_dispatched co action (
       seq (reading (\<lambda>s. map_err (map_fault CoordinatorError.Checkpoint)
         (capture_attempt (env_codec (co_env co)) (ex_run s) action operation (fingerprints resolved) (ra_backend resolved)))) (\<lambda>attempt.
       seq (on_store (arm (env_os (co_env co)) (env_codec (co_env co)) lock attempt)) (\<lambda>_. give attempt)))) (\<lambda>attempt.
     seq (changed (\<lambda>s. s\<lparr>ex_halted := True\<rparr>)) (\<lambda>_.
     seq (notify co) (\<lambda>_.
     seq (on_run (mark_dispatch_started action)) (\<lambda>_.
     seq (notify co) (\<lambda>_.
     seq (invoke co action resolved) (\<lambda>receipt.
     conclude co action lock resolved before attempt receipt))))))"

definition under_lease :: "'w Coordinator \<Rightarrow> ActionId \<Rightarrow> OperationId option \<Rightarrow> ExecutionLease \<Rightarrow> ('w, ActionRunState) step" where
  "under_lease co action operation lease = (let lock = el_host_lock lease in
     seq new_store (\<lambda>_.
     seq (require_idle co lock) (\<lambda>_.
     seq (on_world (map_fault CoordinatorError.Host) (host_probe (co_host co))) (\<lambda>observed.
     seq (\<lambda>s. on_world (map_fault CoordinatorError.Host)
       (host_check_admission (co_host co) (ex_run s) action observed (ex_bindings s) lease) s) (\<lambda>decision.
     seq (check_decision co action observed decision) (\<lambda>_.
     seq (on_run (record_admission (ad_report decision))) (\<lambda>admitted.
     seq (notify co) (\<lambda>_.
     if \<not> admitted then state_of action
     else case ad_resolved decision of
       None \<Rightarrow> seq (on_run (mark_pre_dispatch_failed action ''admitted report has no resolved endpoint'')) (\<lambda>_.
         refuse (fault.Failed CoordinatorError.InvalidDecision))
     | Some resolved \<Rightarrow> dispatch co action operation lock resolved (pb_observation observed)))))))))"

definition take_lease :: "'w Coordinator \<Rightarrow> HostExecutionLock option \<Rightarrow> ActionId \<Rightarrow> ('w, ExecutionLease) step" where
  "take_lease co lock action s = on_world (map_fault CoordinatorError.Lease) (case lock of
      Some lock \<Rightarrow> under_host_lock (env_os (co_env co)) lock (ex_run s) action
    | None \<Rightarrow> try_acquire (env_os (co_env co)) (co_root co) (ex_run s) action) s"

definition leave_world :: "('a \<Rightarrow> 'w \<Rightarrow> 'w) \<Rightarrow> 'a \<Rightarrow> 'w Execution \<Rightarrow> 'w Execution" where
  "leave_world f x s = s\<lparr>ex_world := f x (ex_world s)\<rparr>"

definition require_ready :: "'w Coordinator \<Rightarrow> ('w, unit) step" where
  "require_ready co = reading (\<lambda>s.
     if co_run_id co \<noteq> run_run_id (ex_run s) then Inl (fault.Failed CoordinatorError.RunMismatch)
     else if ex_halted s then Inl (fault.Failed CoordinatorError.Stopped) else Inr ())"

definition require_reviewed :: "'w Coordinator \<Rightarrow> ('w, unit) step" where
  "require_reviewed co = reading (\<lambda>s. map_err (map_fault CoordinatorError.Host) (check_reviewed_plan (env_keys (co_env co)) (ex_run s)))"

definition execute_action_locked ::
  "'w Coordinator \<Rightarrow> ActionId \<Rightarrow> OperationId option \<Rightarrow> HostExecutionLock option \<Rightarrow> ('w, ActionRunState) step" where
  "execute_action_locked co action operation lock =
     seq (require_ready co) (\<lambda>_.
     seq (require_reviewed co) (\<lambda>_.
     seq (state_of action) (\<lambda>st.
     seq (case st of
         ActionRunState.Waiting \<Rightarrow> on_run (begin_check action)
       | ActionRunState.Checking \<Rightarrow> give ()
       | _ \<Rightarrow> refuse (fault.Failed (CoordinatorError.Run (ExecutionRunError.InvalidTransition action st)))) (\<lambda>_.
     seq (notify co) (\<lambda>_.
     scoped (take_lease co lock action) (leave_world (drop_lease (env_os (co_env co)))) (under_lease co action operation))))))"

definition execute_action :: "'w Coordinator \<Rightarrow> ActionId \<Rightarrow> OperationId option \<Rightarrow> ('w, ActionRunState) step" where
  "execute_action co action operation = execute_action_locked (co\<lparr>co_notify := (\<lambda>_ w. w)\<rparr>) action operation None"

section \<open>A whole run\<close>

definition summary :: "ActionId option \<Rightarrow> 'w Execution \<Rightarrow> ExecutionSummary" where
  "summary stopped s = \<lparr>sum_run_id = run_run_id (ex_run s), sum_verified = is_verified (ex_run s), sum_stopped_action = stopped,
     sum_observation = run_latest_observation (ex_run s)\<rparr>"

text \<open>The first action that did not become verified, if any.\<close>

fun execute_ordered :: "'w Coordinator \<Rightarrow> HostExecutionLock \<Rightarrow> ActionId list \<Rightarrow> ('w, ActionId option) step" where
  "execute_ordered co lock [] = give None"
| "execute_ordered co lock (action # rest) =
     seq (state_of action) (\<lambda>st.
     if st = ActionRunState.Verified then execute_ordered co lock rest
     else if st \<noteq> ActionRunState.Waiting \<and> st \<noteq> ActionRunState.Checking then refuse (fault.Failed CoordinatorError.Stopped)
     else
       seq (execute_action_locked co action None (Some lock)) (\<lambda>reached.
       seq (notify co) (\<lambda>_.
       if reached \<noteq> ActionRunState.Verified then give (Some action) else execute_ordered co lock rest)))"

definition verify_run :: "'w Coordinator \<Rightarrow> HostExecutionLock \<Rightarrow> ('w, ExecutionSummary) step" where
  "verify_run co lock =
     seq (on_world (map_fault CoordinatorError.Host) (host_probe (co_host co))) (\<lambda>observed.
     seq (\<lambda>s. on_world (map_fault CoordinatorError.Host) (host_verify_goal (co_host co) (ex_run s) observed (ex_bindings s) lock) s) (\<lambda>report.
     seq (reading (\<lambda>s. if gv_run_id report \<noteq> run_run_id (ex_run s) \<or> gv_observation report \<noteq> pb_observation observed
       then Inl (fault.Failed CoordinatorError.InvalidDecision) else Inr ())) (\<lambda>_.
     seq (require_idle co lock) (\<lambda>_.
     seq (on_run (record_goal_verification report)) (\<lambda>_.
     reading (\<lambda>s. Inr (summary None s)))))))"

definition under_lock :: "'w Coordinator \<Rightarrow> HostExecutionLock \<Rightarrow> ('w, ExecutionSummary) step" where
  "under_lock co lock =
     seq (require_idle co lock) (\<lambda>_.
     seq (on_world (map_fault CoordinatorError.Host) (host_probe (co_host co))) (\<lambda>initial.
     seq (\<lambda>s. on_world (map_fault CoordinatorError.Host)
       (host_check_plan (co_host co) (ex_run s) initial (dis_backend_for (co_dispatcher co)) lock) s) (\<lambda>readiness.
     if readiness \<noteq> LiveCheckStatus.Satisfied then refuse (fault.Failed (CoordinatorError.PlanUnavailable readiness))
     else
     seq (reading (\<lambda>s. ok_or (ordered_actions (run_plan (ex_run s))) Panic)) (\<lambda>ordered.
     seq (execute_ordered co lock (map pa_id ordered)) (\<lambda>stopped.
     case stopped of
       Some action \<Rightarrow> reading (\<lambda>s. Inr (summary (Some action) s))
     | None \<Rightarrow> verify_run co lock)))))"

definition execute_run_inner :: "'w Coordinator \<Rightarrow> ('w, ExecutionSummary) step" where
  "execute_run_inner co =
     seq (require_ready co) (\<lambda>_.
     seq (reading (\<lambda>s. if is_verified (ex_run s) then Inl (fault.Failed CoordinatorError.AlreadyVerified) else Inr ())) (\<lambda>_.
     seq (require_reviewed co) (\<lambda>_.
     scoped (on_world (fault.Failed \<circ> CoordinatorError.Lease) (try_lock_host (env_os (co_env co)) (co_root co)))
       (leave_world (drop_lock (env_os (co_env co)))) (under_lock co))))"

definition execute_run_with_updates :: "'w Coordinator \<Rightarrow> ('w, ExecutionSummary) step" where
  "execute_run_with_updates co =
     seq (notify co) (\<lambda>_.
     tried (execute_run_inner co) (\<lambda>r.
     seq (notify co) (\<lambda>_. given r)))"

definition execute_run :: "'w Coordinator \<Rightarrow> ('w, ExecutionSummary) step" where
  "execute_run co = execute_run_with_updates (co\<lparr>co_notify := (\<lambda>_ w. w)\<rparr>)"

end
