(* ===== verification/Runtime_Incident.thy ===== *)
theory Runtime_Incident
  imports Runtime_Host
begin

text \<open>
  Interrupted attempts (\<^verbatim>\<open>storage-runtime/src/incident.rs\<close>): the inspection of a checkpoint that was
  left behind, its review by a user, and the acknowledgment that removes it. The comparison of
  two baselines on their canonical JSON is an argument, as for plan documents.
\<close>

datatype IncidentError =
    Lease LeaseError
  | Checkpoint CheckpointError
  | ConfirmationMismatch
  | Changed
  | WrongRoot
  | Safety LiveCheckStatus
  | Document PlanDocumentError
  | Probe ProbeObservationError

datatype IncidentAssessment = EffectObserved | Indeterminate

record IncidentInspection =
  ii_attempt :: ActiveAttempt
  ii_fresh_state :: LiveObservation
  ii_assessment :: IncidentAssessment

record IncidentReview =
  ir_inspection :: IncidentInspection
  ir_token :: uuid
  ir_directory :: "u64 \<times> u64"

record 'w IncidentAcknowledgmentPolicy =
  iap_check :: "IncidentInspection \<Rightarrow> IncidentInspection \<Rightarrow> 'w \<Rightarrow> LiveCheckStatus \<times> 'w"

section \<open>Assessment\<close>

text \<open>The volumes of a name that a volume group provides, one for each edge.\<close>

definition lv_candidates :: "NodeGraph \<Rightarrow> NodeId \<Rightarrow> string \<Rightarrow> (NodeId \<times> Node) list" where
  "lv_candidates g vg name = filter (\<lambda>(_, node). case spec_kind (node_kind node) of NodeKind.LvmLv lv \<Rightarrow> lv_name lv = name | _ \<Rightarrow> False)
     (List.map_filter (\<lambda>e. map_option (\<lambda>node. (dep_to e, node)) (graph_node g (dep_to e)))
       (filter (\<lambda>e. dep_from e = vg \<and> dep_kind e = DependencyKind.Provides) (g_dependencies g)))"

definition clean_lv_uuid :: "ExternalId \<Rightarrow> bool" where
  "clean_lv_uuid identity = (case identity of ExternalId.LvmLvUuid uuid \<Rightarrow> trim uuid \<noteq> [] \<and> trim uuid = uuid | _ \<Rightarrow> False)"

definition is_requested_lv :: "NodeGraph \<Rightarrow> Bytes \<Rightarrow> LvmLvKind \<Rightarrow> NodeId \<times> Node \<Rightarrow> bool" where
  "is_requested_lv g sz layout p = (case p of (i, node) \<Rightarrow>
     facts_presence (node_size node) = Presence.Present \<and> spec_size (node_kind node) = Some sz
     \<and> (case spec_kind (node_kind node) of NodeKind.LvmLv lv \<Rightarrow> lv_kind lv = layout | _ \<Rightarrow> False)
     \<and> length (filter (\<lambda>e. dep_to e = i) (g_dependencies g)) = 1
     \<and> (case filter clean_lv_uuid (facts_identities (node_size node)) of
          [identity] \<Rightarrow> length (filter is_lv_uuid (facts_identities (node_size node))) = 1
            \<and> length (filter (carries identity) (g_nodes g)) = 1
        | _ \<Rightarrow> False))"

definition is_requested_vg :: "Node \<Rightarrow> bool" where
  "is_requested_vg node \<longleftrightarrow> facts_presence (node_size node) = Presence.Present \<and> is_vg_node node
     \<and> length (filter is_vg_uuid (facts_identities (node_size node))) = 1"

definition effect_observed :: "ActiveAttempt \<Rightarrow> LiveObservation \<Rightarrow> bool" where
  "effect_observed attempt observed \<longleftrightarrow> (let g = cur_graph (lo_snapshot observed) in
     list_all (\<lambda>item. diag_severity item = DiagnosticSeverity.Warning) (cur_diagnostics (lo_snapshot observed))
     \<and> (case aa_action attempt of
          ProviderAction.Lvm (LvmAction.CreateLv vg planned name sz layout) \<Rightarrow>
            is_some_and (find (\<lambda>target. tf_planned_id target = vg) (aa_targets attempt)) (\<lambda>fingerprint.
              case filter is_vg_uuid (tf_external_ids fingerprint) of
                [identity] \<Rightarrow>
                  (case filter (carries identity) (g_nodes g) of
                     [(vg_id, node)] \<Rightarrow> is_requested_vg node \<and>
                       (case lv_candidates g vg_id name of [candidate] \<Rightarrow> is_requested_lv g sz layout candidate | _ \<Rightarrow> False)
                   | _ \<Rightarrow> False)
              | _ \<Rightarrow> False)
        | _ \<Rightarrow> False))"

definition assess :: "ActiveAttempt \<Rightarrow> LiveObservation \<Rightarrow> IncidentAssessment" where
  "assess attempt observed = (if effect_observed attempt observed then IncidentAssessment.EffectObserved else IncidentAssessment.Indeterminate)"

section \<open>Inspection and review\<close>

definition inspect_locked ::
  "'w Os \<Rightarrow> Codec \<Rightarrow> 'w LinuxProbe \<Rightarrow> HostExecutionLock \<Rightarrow> ('w, IncidentError, IncidentInspection option) proc" where
  "inspect_locked os codec probe lock =
     seq (recast IncidentError.Checkpoint (inspect os codec lock)) (\<lambda>current.
     case current of
       None \<Rightarrow> give None
     | Some attempt \<Rightarrow>
         seq (recast IncidentError.Probe (collect probe)) (\<lambda>observed.
         give (Some \<lparr>ii_attempt = attempt, ii_fresh_state = pb_observation observed,
           ii_assessment = assess attempt (pb_observation observed)\<rparr>)))"

definition inspect_incident ::
  "'w Os \<Rightarrow> Codec \<Rightarrow> ExecutionRoot \<Rightarrow> 'w LinuxProbe \<Rightarrow> ('w, IncidentError, IncidentInspection option) proc" where
  "inspect_incident os codec root probe =
     scoped (recast IncidentError.Lease (try_lock_host os root)) (drop_lock os) (inspect_locked os codec probe)"

definition directory_identity :: "'w Os \<Rightarrow> HostExecutionLock \<Rightarrow> ('w, IncidentError, u64 \<times> u64) proc" where
  "directory_identity os lock =
     seq (recast (IncidentError.Lease \<circ> LeaseError.Io) (os_fstat os (hel_directory lock))) (\<lambda>info. give (st_dev info, st_ino info))"

definition review_incident ::
  "'w Os \<Rightarrow> Codec \<Rightarrow> ExecutionRoot \<Rightarrow> 'w LinuxProbe \<Rightarrow> ('w, IncidentError, IncidentReview option) proc" where
  "review_incident os codec root probe =
     scoped (recast IncidentError.Lease (try_lock_host os root)) (drop_lock os) (\<lambda>lock.
     seq (directory_identity os lock) (\<lambda>directory.
     seq (inspect_locked os codec probe lock) (\<lambda>found w.
     case found of
       None \<Rightarrow> (Inr None, w)
     | Some inspection \<Rightarrow> (case os_fresh_uuid os w of (fresh, w) \<Rightarrow>
         (Inr (Some \<lparr>ir_inspection = inspection, ir_token = fresh, ir_directory = directory\<rparr>), w)))))"

section \<open>Acknowledgment\<close>

text \<open>The observation without the epochs of its nodes, as a baseline.\<close>

definition forget_epoch :: "NodeGraph \<Rightarrow> NodeId \<times> Node \<Rightarrow> (GraphError, NodeGraph) result" where
  "forget_epoch g p = (case p of (i, node) \<Rightarrow>
     and_then (replace_existing g i (node\<lparr>node_size := (node_size node)\<lparr>facts_observed_in := None\<rparr>\<rparr>)) (\<lambda>(_, g). Inr g))"

definition normalized_observation :: "LiveObservation \<Rightarrow> (IncidentError, HistoricalBaseline) result" where
  "normalized_observation observed = (let snapshot = lo_snapshot observed in
     and_then (map_err (IncidentError.Probe \<circ> ProbeObservationError.Observation \<circ> ObservationError.Graph)
       (try_fold forget_epoch (cur_graph snapshot) (g_nodes (cur_graph snapshot)))) (\<lambda>g.
     Inr \<lparr>hb_id = or_probe_instance (lo_reference observed), hb_snapshot = snapshot\<lparr>cur_graph := g\<rparr>, hb_capacity_evidence = []\<rparr>))"

definition observations_agree ::
  "(HistoricalBaseline \<Rightarrow> HistoricalBaseline \<Rightarrow> (PlanDocumentError, bool) result) \<Rightarrow> LiveObservation \<Rightarrow> LiveObservation \<Rightarrow>
   (IncidentError, bool) result" where
  "observations_agree has_same_observations reviewed fresh =
     and_then (normalized_observation reviewed) (\<lambda>a.
     and_then (normalized_observation fresh) (\<lambda>b.
     map_err IncidentError.Document (has_same_observations a b)))"

definition require_attempt :: "'w Os \<Rightarrow> Codec \<Rightarrow> HostExecutionLock \<Rightarrow> ActiveAttempt \<Rightarrow> ('w, IncidentError, unit) proc" where
  "require_attempt os codec lock attempt =
     seq (recast IncidentError.Checkpoint (inspect os codec lock)) (\<lambda>current.
     if current \<noteq> Some attempt then refuse IncidentError.Changed else give ())"

definition acknowledge_locked ::
  "'w Os \<Rightarrow> Codec \<Rightarrow> (HistoricalBaseline \<Rightarrow> HistoricalBaseline \<Rightarrow> (PlanDocumentError, bool) result) \<Rightarrow> 'w LinuxProbe \<Rightarrow> IncidentReview \<Rightarrow>
   'w IncidentAcknowledgmentPolicy \<Rightarrow> HostExecutionLock \<Rightarrow> ('w, IncidentError, IncidentInspection) proc" where
  "acknowledge_locked os codec has_same_observations probe review policy lock =
     seq (directory_identity os lock) (\<lambda>directory.
     if directory \<noteq> ir_directory review then refuse IncidentError.WrongRoot
     else
     seq (require_attempt os codec lock (ii_attempt (ir_inspection review))) (\<lambda>_.
     seq (inspect_locked os codec probe lock) (\<lambda>found.
     seq (given (ok_or found IncidentError.Changed)) (\<lambda>fresh.
     seq (given (observations_agree has_same_observations (ii_fresh_state (ir_inspection review)) (ii_fresh_state fresh))) (\<lambda>same.
     if \<not> same then refuse IncidentError.Changed
     else (\<lambda>w. case iap_check policy (ir_inspection review) fresh w of (safe, w) \<Rightarrow>
       (if safe \<noteq> LiveCheckStatus.Satisfied then refuse (IncidentError.Safety safe)
        else
        seq (require_attempt os codec lock (ii_attempt (ir_inspection review))) (\<lambda>_.
        seq (recast IncidentError.Checkpoint (\<lambda>w. case clear os codec lock (ii_attempt fresh) (False, w) of (r, _, w) \<Rightarrow> (r, w))) (\<lambda>_.
        give fresh))) w))))))"

definition acknowledge_incident ::
  "'w Os \<Rightarrow> Codec \<Rightarrow> (HistoricalBaseline \<Rightarrow> HistoricalBaseline \<Rightarrow> (PlanDocumentError, bool) result) \<Rightarrow> ExecutionRoot \<Rightarrow> 'w LinuxProbe \<Rightarrow>
   IncidentReview \<Rightarrow> uuid \<Rightarrow> 'w IncidentAcknowledgmentPolicy \<Rightarrow> ('w, IncidentError, IncidentInspection) proc" where
  "acknowledge_incident os codec has_same_observations root probe review confirmation policy =
     (if confirmation \<noteq> ir_token review then refuse IncidentError.ConfirmationMismatch
      else scoped (recast IncidentError.Lease (try_lock_host os root)) (drop_lock os)
        (acknowledge_locked os codec has_same_observations probe review policy))"

end
