(* ===== verification/Spec2Isabelle.thy ===== *)
theory Spec2Isabelle
  imports Compose_Properties Goal_Properties Simulation_Properties Live_Sample Session_Sample Runtime_Coordinator Runtime_Incident
begin

text \<open>
  Verification of the planning core of \<^verbatim>\<open>pdisks\<close>, a planner and executor of storage changes
  (partitions, LUKS, LVM, filesystems, Btrfs and mounts) written in Rust.

  \<^bold>\<open>The program.\<close> \<^verbatim>\<open>storage-core\<close> defines the vocabulary: checked byte sizes, the kinds and
  facts of storage nodes, a typed graph of nodes with dependency and relation edges, and the
  observed (\<^verbatim>\<open>CurrentState\<close>) and wanted (\<^verbatim>\<open>DesiredState\<close>) configurations. \<^verbatim>\<open>storage-provider\<close>
  defines the actions of each technology, validates them against a graph and describes each of
  them by a contract: what it requires, provides, reads, writes, changes, makes stale and must
  have achieved. \<^verbatim>\<open>storage-engine\<close> simulates contracts on a projected configuration with an
  evidence ledger, composes fragments of actions into an ordered execution plan, replays plans,
  compares their projection with a goal and reports what is unresolved or violates a protected
  scope. A user edits a draft of requests in a session that forecasts each change. Accepted plans
  are saved as documents, analysed again before use, and executed by a run that records the
  evidence for every action.

  \<^bold>\<open>Theories and sources.\<close>
  \<^item> \<^verbatim>\<open>Prelude\<close>, \<^verbatim>\<open>Traversal\<close>: results, early-return loops, checked machine arithmetic; the
    worklist search shared by every graph walk and the locale \<open>dag_sorter\<close> of dependency sorts.
  \<^item> \<^verbatim>\<open>Sizes\<close>, \<^verbatim>\<open>Storage_Model\<close>, \<^verbatim>\<open>Storage_Graph\<close>, \<^verbatim>\<open>Storage_State\<close>: \<^verbatim>\<open>storage-core/src/model\<close>
    (\<^verbatim>\<open>sizes.rs\<close>, \<^verbatim>\<open>raid.rs\<close>, \<^verbatim>\<open>block.rs\<close>, \<^verbatim>\<open>mod.rs\<close>, \<^verbatim>\<open>node.rs\<close>, \<^verbatim>\<open>graph.rs\<close>, \<^verbatim>\<open>state.rs\<close>).
    \<^verbatim>\<open>Graph_Order\<close> and \<^verbatim>\<open>Graph_Correct\<close> prove the sort, the closure and the checked import.
  \<^item> \<^verbatim>\<open>Provider_Action\<close>, \<^verbatim>\<open>Provider_Contract\<close>, \<^verbatim>\<open>Contract_Describe\<close>, \<^verbatim>\<open>Provider_Validate\<close>:
    \<^verbatim>\<open>storage-provider/src\<close> (\<^verbatim>\<open>action.rs\<close>, \<^verbatim>\<open>planning.rs\<close>, \<^verbatim>\<open>contract.rs\<close>, \<^verbatim>\<open>logical.rs\<close> and the
    validation part of \<^verbatim>\<open>luks.rs\<close>). \<^verbatim>\<open>Contract_Laws\<close> proves what every contract guarantees.
  \<^item> \<^verbatim>\<open>Simulation_Evidence\<close>, \<^verbatim>\<open>Prerequisites\<close>, \<^verbatim>\<open>Effects\<close>: \<^verbatim>\<open>storage-engine/src\<close>
    (\<^verbatim>\<open>simulation_evidence.rs\<close>, \<^verbatim>\<open>prerequisites.rs\<close>, \<^verbatim>\<open>effects.rs\<close>). \<^verbatim>\<open>Simulation_Correct\<close>,
    \<^verbatim>\<open>Simulation_Frame\<close>, \<^verbatim>\<open>Effect_Errors\<close> and \<^verbatim>\<open>Simulation_Properties\<close> prove the simulator.
  \<^item> \<^verbatim>\<open>Plan\<close>, \<^verbatim>\<open>Plan_Order\<close>, \<^verbatim>\<open>Plan_Replay\<close>: \<^verbatim>\<open>plan.rs\<close>, the ordering part of \<^verbatim>\<open>compose.rs\<close>,
    \<^verbatim>\<open>simulate.rs\<close> and \<^verbatim>\<open>validate.rs\<close>. \<^verbatim>\<open>Plan_Sort\<close> proves the stable topological sort.
  \<^item> \<^verbatim>\<open>Compose\<close>: the composer of \<^verbatim>\<open>compose.rs\<close>. \<^verbatim>\<open>Fault_Logic\<close>, \<^verbatim>\<open>Compose_Steps\<close>,
    \<^verbatim>\<open>Compose_Correct\<close>, \<^verbatim>\<open>Compose_Fragments\<close> and \<^verbatim>\<open>Compose_Properties\<close> prove it; \<^verbatim>\<open>Goal_Correct\<close> and
    \<^verbatim>\<open>Goal_Properties\<close> prove composition for a goal. \<^verbatim>\<open>Compose_Sample\<close> and \<^verbatim>\<open>Goal_Sample\<close> hold
    the concrete inputs of the witnesses.
  \<^item> \<^verbatim>\<open>Plan_Document\<close>: the saved plans of \<^verbatim>\<open>wire.rs\<close> and their historical analysis;
    \<^verbatim>\<open>Document_Correct\<close> and \<^verbatim>\<open>Document_Analysis\<close> prove it, \<^verbatim>\<open>Document_Sample\<close> evaluates one.
  \<^item> \<^verbatim>\<open>Execution_Run\<close>: the execution attempts of \<^verbatim>\<open>execution.rs\<close> and the validation of live
    observations (\<^verbatim>\<open>live.rs\<close>). \<^verbatim>\<open>Run_Correct\<close> and \<^verbatim>\<open>Run_Methods\<close> say when each method succeeds and
    what it does, \<^verbatim>\<open>Run_Invariant\<close> gathers that in a step relation, \<^verbatim>\<open>Run_Evidence\<close> proves that each
    step keeps the invariant, and \<^verbatim>\<open>Run_Properties\<close> states what holds of every sequence of calls
    through the locale of \<^verbatim>\<open>Machine\<close>. \<^verbatim>\<open>Run_Sample\<close> drives a run to its end.
  \<^item> \<^verbatim>\<open>Correlate\<close>: the identification of observed objects by durable identity
    (\<^verbatim>\<open>editing/correlate.rs\<close>), proved in \<^verbatim>\<open>Correlate_Correct\<close>. \<^verbatim>\<open>Live_Checks\<close> and \<^verbatim>\<open>Live_Results\<close>: the
    checks of conditions, results and goals on an observation (\<^verbatim>\<open>live.rs\<close>, \<^verbatim>\<open>live/*.rs\<close>).
    \<^verbatim>\<open>Live_Correct\<close> says what a satisfied check means, \<^verbatim>\<open>Live_Properties\<close> composes this with runs, and
    \<^verbatim>\<open>Live_Sample\<close> executes a plan and checks its goal.
  \<^item> \<^verbatim>\<open>Draft_Requests\<close>, \<^verbatim>\<open>Draft_Build\<close>, \<^verbatim>\<open>Plan_Session\<close>: the editing of plans (\<^verbatim>\<open>editing/*.rs\<close>): the requests of a
    user, the fragments they become, the forecast of a draft, and sessions with revisions, undo,
    saved drafts, frozen plans and rebases. \<^verbatim>\<open>Draft_Correct\<close> shows that a composed plan passes the analysis of
    its own document, \<^verbatim>\<open>Draft_Preview\<close> what a forecast says of its draft, \<^verbatim>\<open>Draft_Valid\<close> the validation and
    removal of requests, and \<^verbatim>\<open>Session_Correct\<close> the invariant of sessions, through the locale of
    \<^verbatim>\<open>Machine\<close>. \<^verbatim>\<open>Session_Properties\<close> states what a session promises; \<^verbatim>\<open>Session_Sample\<close> runs one.

  \<^bold>\<open>Conventions.\<close> A \<^verbatim>\<open>Result\<close> is a sum with the error on the left; a panic (\<^verbatim>\<open>expect\<close>, indexing) and
  an exhausted bound are the two values \<open>Panic\<close> and \<open>OutOfFuel\<close> of a \<open>fault\<close>, so that their
  absence is a theorem. Machine integers keep their width. A hash map whose iteration order can
  show is an association list in that order, other maps and sets are functions and sets. Strings
  are their UTF-8 bytes, paths are lists of components. Mutable state is passed explicitly.

  \<^bold>\<open>Bounds.\<close> The only loop with fuel is the restart of the composer's simulation after a
  contextual dependency (\<open>restart_fuel\<close>, one more than the number of pairs of actions). Each
  restart adds an edge between actions that was not there, so the bound is never reached; this
  is part of C1. All other loops are total recursive functions.

  \<^bold>\<open>Not modelled.\<close> Probing of the host, native libraries, persistence, leases, the terminal and C
  interfaces are input and output. The JSON encoder that orders the entries of an imported
  contract is a parameter (\<open>ContractKeys\<close>). The JSON form of documents is not modelled; the comparison of
  two baselines on it is a parameter. Of the editing sessions, the texts of
  diagnostics for display are left out, and the size of a saved draft in JSON is a parameter.
\<close>

end
